(* ===== verification/Prelude.thy ===== *)
theory Prelude
  imports Main "HOL-Library.Word"
begin

text \<open>
  Shared by every theory of the development: time, tables as the SQL repositories
  see them, and the named collections that the component theories feed.

  \<^item> \<open>time\<close> is a Go \<open>time.Time\<close> read as nanoseconds since the Unix epoch, and
    \<open>duration\<close> a \<open>time.Duration\<close> in nanoseconds. Reading the clock
    (\<open>time.Now()\<close>) is an argument of the definition that does it.
  \<^item> \<open>upd_where\<close> and \<open>del_where\<close> are the SQL statements \<open>UPDATE .. SET .. WHERE\<close>
    and \<open>DELETE .. WHERE\<close> on a table, the list of its rows in insertion order;
    \<open>SELECT .. WHERE .. ORDER BY\<close> is \<open>filter\<close> and \<open>sort_key\<close>.
\<close>

section \<open>Named collections\<close>

named_theorems inv_intros \<open>operations preserve the invariant of their component\<close>
named_theorems frame_simps \<open>fields and tables that an operation leaves alone\<close>
named_theorems table_simps \<open>the effect of the SQL statements on the rows of a table\<close>

section \<open>Time\<close>

type_synonym time = int
type_synonym duration = int

abbreviation second :: duration where "second \<equiv> 1000000000"
abbreviation minute :: duration where "minute \<equiv> 60 * second"
abbreviation hour :: duration where "hour \<equiv> 60 * minute"

text \<open>Go's zero \<open>time.Time\<close>: midnight of the first of January of the year 1.\<close>

definition zero_time :: time where
  "zero_time = - 62135596800 * second"

section \<open>Tables\<close>

definition upd_where :: "('r \<Rightarrow> bool) \<Rightarrow> ('r \<Rightarrow> 'r) \<Rightarrow> 'r list \<Rightarrow> 'r list" where
  "upd_where p f rs = map (\<lambda>r. if p r then f r else r) rs"

definition del_where :: "('r \<Rightarrow> bool) \<Rightarrow> 'r list \<Rightarrow> 'r list" where
  "del_where p rs = filter (\<lambda>r. \<not> p r) rs"

definition count_where :: "('r \<Rightarrow> bool) \<Rightarrow> 'r list \<Rightarrow> nat" where
  "count_where p rs = length (filter p rs)"

lemma length_upd_where [simp, table_simps]: "length (upd_where p f rs) = length rs"
  by (simp add: upd_where_def)

lemma upd_where_Nil [simp, table_simps]: "upd_where p f [] = []"
  by (simp add: upd_where_def)

lemma upd_where_Cons [table_simps]:
  "upd_where p f (r # rs) = (if p r then f r else r) # upd_where p f rs"
  by (simp add: upd_where_def)

lemma upd_where_append [table_simps]:
  "upd_where p f (xs @ ys) = upd_where p f xs @ upd_where p f ys"
  by (simp add: upd_where_def)

lemma set_upd_where [table_simps]:
  "set (upd_where p f rs) = {r \<in> set rs. \<not> p r} \<union> f ` {r \<in> set rs. p r}"
  by (auto simp: upd_where_def)

lemma in_upd_whereE:
  assumes "r \<in> set (upd_where p f rs)"
  obtains (same) "r \<in> set rs" "\<not> p r" | (changed) r0 where "r0 \<in> set rs" "p r0" "r = f r0"
  using assms by (auto simp: upd_where_def split: if_splits)

lemma map_key_upd_where [simp, table_simps]:
  "(\<And>r. k (f r) = k r) \<Longrightarrow> map k (upd_where p f rs) = map k rs"
  by (simp add: upd_where_def)

lemma upd_where_id [simp]: "(\<And>r. r \<in> set rs \<Longrightarrow> \<not> p r) \<Longrightarrow> upd_where p f rs = rs"
  by (induction rs) (auto simp: table_simps)

lemma set_del_where [simp, table_simps]: "set (del_where p rs) = {r \<in> set rs. \<not> p r}"
  by (auto simp: del_where_def)

lemma distinct_key_del_where [inv_intros]:
  "distinct (map k rs) \<Longrightarrow> distinct (map k (del_where p rs))"
  by (simp add: del_where_def distinct_map_filter)

lemma count_where_0_iff: "count_where p rs = 0 \<longleftrightarrow> (\<forall>r \<in> set rs. \<not> p r)"
  by (simp add: count_where_def filter_empty_conv)

lemma count_where_Nil [simp]: "count_where p [] = 0"
  by (simp add: count_where_def)

lemma count_where_Cons [simp]:
  "count_where p (r # rs) = (if p r then Suc (count_where p rs) else count_where p rs)"
  by (simp add: count_where_def)

lemma count_where_append [simp]:
  "count_where p (xs @ ys) = count_where p xs + count_where p ys"
  by (simp add: count_where_def)

lemma count_where_del_where:
  "count_where p (del_where q rs) = count_where (\<lambda>r. p r \<and> \<not> q r) rs"
  by (induction rs) (auto simp: del_where_def)

lemma count_where_mono:
  "(\<And>r. r \<in> set rs \<Longrightarrow> p r \<Longrightarrow> q r) \<Longrightarrow> count_where p rs \<le> count_where q rs"
  by (induction rs) (auto simp: le_SucI)

lemma count_where_upd_where:
  "count_where p (upd_where q f rs) = count_where (\<lambda>r. if q r then p (f r) else p r) rs"
  by (induction rs) (auto simp: upd_where_def)

section \<open>Lists\<close>

text \<open>The first row of an ordered result: \<open>rows[0]\<close> after \<open>ORDER BY k ASC\<close>.\<close>

lemma hd_sort_key_min:
  fixes k :: "'a \<Rightarrow> 'b::linorder"
  assumes "xs \<noteq> []" and "x \<in> set xs"
  shows "k (hd (sort_key k xs)) \<le> k x"
proof -
  obtain y ys where yys: "sort_key k xs = y # ys"
    using assms(1) by (cases "sort_key k xs") (auto dest: arg_cong [where f = length])
  then have "x \<in> set (y # ys)" using assms(2) by (metis set_sort)
  moreover have "sorted (map k (y # ys))" using yys by (metis sorted_sort_key)
  ultimately show ?thesis using yys by auto
qed

lemma hd_sort_key_in: "xs \<noteq> [] \<Longrightarrow> hd (sort_key k xs) \<in> set xs"
  by (metis hd_in_set length_0_conv length_sort set_sort)

lemma sort_key_eq_Nil [simp]: "sort_key k xs = [] \<longleftrightarrow> xs = []"
  by (metis length_0_conv length_sort)

lemma find_Some_inD: "List.find p xs = Some x \<Longrightarrow> x \<in> set xs \<and> p x"
  by (auto simp: find_Some_iff)

lemma distinct_key_eq: "distinct (map k rs) \<Longrightarrow> r \<in> set rs \<Longrightarrow> r' \<in> set rs \<Longrightarrow> k r = k r' \<Longrightarrow> r = r'"
  by (auto simp: distinct_map inj_on_def)

lemma find_upd_where:
  "(\<And>r. k (f r) = k r) \<Longrightarrow>
   List.find (\<lambda>r. k r = i) (upd_where (\<lambda>r. k r = i) f rs) = map_option f (List.find (\<lambda>r. k r = i) rs)"
  by (induction rs) (auto simp: upd_where_def)

lemma list_ex_upd_kept [simp]: "(\<And>r. p (f r) = p r) \<Longrightarrow> list_ex p (upd_where q f rs) = list_ex p rs"
  by (induction rs) (auto simp: upd_where_def)

lemma find_append: "List.find p (xs @ ys) = (case List.find p xs of None \<Rightarrow> List.find p ys | Some x \<Rightarrow> Some x)"
  by (induction xs) auto

lemma find_upd_kept:
  "(\<And>r. p (f r) = p r) \<Longrightarrow> List.find p (upd_where q f rs) =
     map_option (\<lambda>r. if q r then f r else r) (List.find p rs)"
  by (induction rs) (auto simp: upd_where_def)

text \<open>Among the rows with a property, the key stays unique when one row comes to have it.\<close>

lemma distinct_filter_upd:
  assumes "distinct (map k (filter p rs))" and "distinct (map key rs)"
    and q: "\<And>r. q r \<longleftrightarrow> key r = c" and k: "\<And>r. k (f r) = k r"
    and alone: "\<And>r r'. r \<in> set rs \<Longrightarrow> r' \<in> set rs \<Longrightarrow> q r \<Longrightarrow> p (f r) \<Longrightarrow> p r' \<Longrightarrow> k r' = k r \<Longrightarrow> q r'"
  shows "distinct (map k (filter p (upd_where q f rs)))"
  using assms
proof (induction rs)
  case Nil
  then show ?case by simp
next
  case (Cons r rs)
  have ih: "distinct (map k (filter p (upd_where q f rs)))"
    using Cons.prems by (intro Cons.IH) (auto split: if_splits)
  show ?case
  proof (cases "q r")
    case True
    then have "\<not> q r'" if "r' \<in> set rs" for r'
      using Cons.prems(2,3) that by (metis distinct.simps(2) image_eqI list.set_map list.simps(9))
    then have rs: "upd_where q f rs = rs" by simp
    have "p (f r) \<Longrightarrow> k r \<notin> k ` {r' \<in> set rs. p r'}"
      using Cons.prems(5) [of r] True \<open>\<And>r'. r' \<in> set rs \<Longrightarrow> \<not> q r'\<close> by fastforce
    then show ?thesis using ih True rs k by (simp add: upd_where_Cons)
  next
    case False
    have "p r \<Longrightarrow> k r \<notin> k ` {r' \<in> set (upd_where q f rs). p r'}"
    proof
      assume p: "p r" and "k r \<in> k ` {r' \<in> set (upd_where q f rs). p r'}"
      then obtain r' where r': "r' \<in> set (upd_where q f rs)" "p r'" "k r' = k r" by force
      from r'(1) show False
      proof (cases rule: in_upd_whereE)
        case same
        then show False using Cons.prems(1) p r' by (auto simp: image_iff)
      next
        case (changed r0)
        then have "q r" using Cons.prems(5) [of r0 r] p r' k by auto
        then show False using False by simp
      qed
    qed
    then show ?thesis using ih False by (auto simp: upd_where_Cons)
  qed
qed

text \<open>A unique key stays unique when the row of an identifier gets a key that no other row has.\<close>

lemma distinct_key_upd:
  assumes "distinct (map k rs)" and "distinct (map key rs)" and q: "\<And>r. q r \<longleftrightarrow> key r = c"
    and free: "\<And>r r'. r \<in> set rs \<Longrightarrow> r' \<in> set rs \<Longrightarrow> q r \<Longrightarrow> \<not> q r' \<Longrightarrow> k r' \<noteq> k (f r)"
  shows "distinct (map k (upd_where q f rs))"
  using assms
proof (induction rs)
  case (Cons r rs)
  have ih: "distinct (map k (upd_where q f rs))"
    using Cons.prems by (intro Cons.IH) auto
  show ?case
  proof (cases "q r")
    case True
    then have others: "\<not> q r'" if "r' \<in> set rs" for r'
      using Cons.prems(2,3) that by (metis distinct.simps(2) image_eqI list.set_map list.simps(9))
    then have "k (f r) \<notin> k ` set rs" using Cons.prems(4) [of r] True by force
    then show ?thesis using ih True others by (simp add: upd_where_Cons)
  next
    case False
    have "k r \<notin> k ` set (upd_where q f rs)"
    proof
      assume "k r \<in> k ` set (upd_where q f rs)"
      then obtain r' where "r' \<in> set (upd_where q f rs)" "k r = k r'" by auto
      then show False using Cons.prems(1) Cons.prems(4) [of _ r] False
        by (auto elim!: in_upd_whereE)
    qed
    then show ?thesis using ih False by (simp add: upd_where_Cons)
  qed
qed simp

text \<open>Some rows of a page: \<open>LIMIT\<close> and \<open>OFFSET\<close>.\<close>

definition page_of :: "nat \<Rightarrow> nat \<Rightarrow> 'r list \<Rightarrow> 'r list" where
  "page_of limit offset rs = take limit (drop offset rs)"

text \<open>\<open>ORDER BY created_at DESC\<close>, and its first row.\<close>

definition newest_first :: "('r \<Rightarrow> 'k::linorder) \<Rightarrow> 'r list \<Rightarrow> 'r list" where
  "newest_first k rs = rev (sort_key k rs)"

definition latest_by :: "('r \<Rightarrow> 'k::linorder) \<Rightarrow> 'r list \<Rightarrow> 'r option" where
  "latest_by k rs = (case newest_first k rs of [] \<Rightarrow> None | r # _ \<Rightarrow> Some r)"

lemma latest_by_None [simp]: "latest_by k rs = None \<longleftrightarrow> rs = []"
proof -
  have "rev (sort_key k rs) = [] \<longleftrightarrow> rs = []" by simp
  then show ?thesis unfolding latest_by_def newest_first_def by (cases "rev (sort_key k rs)") auto
qed

lemma latest_by_Nil [simp]: "latest_by k [] = None"
  by simp

lemma set_newest_first [simp]: "set (newest_first k rs) = set rs"
  by (simp add: newest_first_def)

text \<open>The newest row has the largest time stamp.\<close>

lemma latest_by_Some:
  assumes "latest_by k rs = Some r"
  shows "r \<in> set rs" and "x \<in> set rs \<Longrightarrow> k x \<le> k r"
proof -
  obtain ys where ys: "rev (sort_key k rs) = r # ys"
    using assms by (auto simp: latest_by_def newest_first_def split: list.splits)
  then have s: "sort_key k rs = rev ys @ [r]" by (simp add: rev_swap)
  then have "set rs = set (rev ys @ [r])" by (metis set_sort)
  then show "r \<in> set rs" by simp
  have "sorted (map k (rev ys @ [r]))" using s by (metis sorted_sort_key)
  then show "k x \<le> k r" if "x \<in> set rs" using that \<open>set rs = _\<close> by (auto simp: sorted_append)
qed

lemma length_newest_first [simp]: "length (newest_first k rs) = length rs"
  by (simp add: newest_first_def)

section \<open>Text\<close>

text \<open>A string is its bytes. \<open>strings.ToLower\<close> on text without letters beyond ASCII.\<close>

definition ascii_lower :: "string \<Rightarrow> string" where
  "ascii_lower s = map (\<lambda>c. let n = (of_char c :: nat)
     in if 65 \<le> n \<and> n \<le> 90 then char_of (n + 32) else c) s"

text \<open>The characters of a text in UTF-8: the bytes that do not continue one.\<close>

definition char_count :: "string \<Rightarrow> nat" where
  "char_count s = count_where (\<lambda>c. (of_char c :: nat) < 128 \<or> 192 \<le> (of_char c :: nat)) s"

section \<open>Decimal numbers\<close>

text \<open>\<open>fmt.Sprintf("%d", n)\<close>.\<close>

fun show_nat :: "nat \<Rightarrow> string" where
  "show_nat n = (if n < 10 then [''0123456789'' ! n]
     else show_nat (n div 10) @ [''0123456789'' ! (n mod 10)])"

declare show_nat.simps [simp del]

definition show_int :: "int \<Rightarrow> string" where
  "show_int z = (if z < 0 then CHR ''-'' # show_nat (nat (- z)) else show_nat (nat z))"

definition is_digit :: "char \<Rightarrow> bool" where
  "is_digit c \<longleftrightarrow> 48 \<le> (of_char c :: nat) \<and> (of_char c :: nat) \<le> 57"

definition digit_value :: "char \<Rightarrow> int" where
  "digit_value c = int (of_char c) - 48"

definition number_of :: "string \<Rightarrow> int" where
  "number_of ds = foldl (\<lambda>n c. 10 * n + digit_value c) 0 ds"

lemma digit_nth:
  "n < 10 \<Longrightarrow> is_digit (''0123456789'' ! n) \<and> digit_value (''0123456789'' ! n) = int n"
  by (auto simp: less_Suc_eq numeral_eq_Suc is_digit_def digit_value_def)

lemma number_of_snoc: "number_of (ds @ [c]) = 10 * number_of ds + digit_value c"
  by (simp add: number_of_def)

lemma show_nat_digits: "(\<forall>c \<in> set (show_nat n). is_digit c) \<and> show_nat n \<noteq> [] \<and> number_of (show_nat n) = int n"
proof (induction n rule: less_induct)
  case (less n)
  show ?case
  proof (cases "n < 10")
    case True
    then have "show_nat n = [''0123456789'' ! n]" by (subst show_nat.simps) simp
    then show ?thesis using digit_nth [OF True] by (simp add: number_of_def)
  next
    case False
    then have "(\<forall>c \<in> set (show_nat (n div 10)). is_digit c)
        \<and> number_of (show_nat (n div 10)) = int (n div 10)"
      using less.IH [of "n div 10"] by simp
    moreover have "show_nat n = show_nat (n div 10) @ [''0123456789'' ! (n mod 10)]"
      using False by (subst show_nat.simps) simp
    moreover have "int n = 10 * int (n div 10) + int (n mod 10)"
      using mult_div_mod_eq [of 10 n] by linarith
    ultimately show ?thesis using digit_nth [of "n mod 10"] by (auto simp: number_of_snoc)
  qed
qed

end
