(* ===== verification/ConnState.thy ===== *)
theory ConnState
  imports Prelude
begin

text \<open>
  \<open>backend/check-worker/internal/worker/state_machine.go\<close>: the connection state
  machine of a check worker. One definition per method; each method holds the mutex from
  its first line to its return, so it is one atomic step of \<open>sm_step\<close>. The second part
  models the mutex itself, because \<open>String\<close> takes the read lock twice.
  The stored reconnect callback is a name (\<open>nat\<close>); nothing in the file calls it.
\<close>

section \<open>State\<close>

datatype conn_state =
    StateDisconnected | StateConnecting | StateConnected
  | StateReconnecting | StateDegraded | StateShutdown

fun conn_state_String :: "conn_state \<Rightarrow> string" where
  "conn_state_String StateDisconnected = ''DISCONNECTED''"
| "conn_state_String StateConnecting = ''CONNECTING''"
| "conn_state_String StateConnected = ''CONNECTED''"
| "conn_state_String StateReconnecting = ''RECONNECTING''"
| "conn_state_String StateDegraded = ''DEGRADED''"
| "conn_state_String StateShutdown = ''SHUTDOWN''"

record connection_info =
  ci_name :: string
  ci_connected :: bool
  ci_last_error :: "string option"
  ci_last_attempt :: time
  ci_reconnect_num :: int

record state_machine =
  sm_state :: conn_state
  sm_scheduler :: connection_info
  sm_monitor :: connection_info
  sm_callback :: "nat option"

definition new_connection_info :: "string \<Rightarrow> connection_info" where
  "new_connection_info name = \<lparr>ci_name = name, ci_connected = False, ci_last_error = None,
     ci_last_attempt = zero_time, ci_reconnect_num = 0\<rparr>"

definition NewConnectionStateMachine :: state_machine where
  "NewConnectionStateMachine = \<lparr>sm_state = StateDisconnected,
     sm_scheduler = new_connection_info ''scheduler'',
     sm_monitor = new_connection_info ''monitor'', sm_callback = None\<rparr>"

section \<open>Operations\<close>

definition SetReconnectCallback :: "nat option \<Rightarrow> state_machine \<Rightarrow> state_machine" where
  "SetReconnectCallback cb sm = sm\<lparr>sm_callback := cb\<rparr>"

definition setState :: "conn_state \<Rightarrow> state_machine \<Rightarrow> state_machine" where
  "setState s sm = sm\<lparr>sm_state := s\<rparr>"

definition updateState :: "state_machine \<Rightarrow> state_machine" where
  "updateState sm =
     (if sm_state sm = StateShutdown then sm
      else if ci_connected (sm_scheduler sm) \<and> ci_connected (sm_monitor sm) then
        (if sm_state sm \<noteq> StateConnected then setState StateConnected sm else sm)
      else if ci_connected (sm_scheduler sm) \<or> ci_connected (sm_monitor sm) then
        (if sm_state sm \<noteq> StateDegraded then setState StateDegraded sm else sm)
      else if sm_state sm = StateDisconnected then setState StateConnecting sm
      else setState StateReconnecting sm)"

definition mark_connected :: "connection_info \<Rightarrow> connection_info" where
  "mark_connected ci = ci\<lparr>ci_connected := True, ci_last_error := None, ci_reconnect_num := 0\<rparr>"

definition mark_disconnected ::
    "string option \<Rightarrow> time \<Rightarrow> connection_info \<Rightarrow> connection_info" where
  "mark_disconnected err now ci = ci\<lparr>ci_connected := False, ci_last_error := err,
     ci_last_attempt := now, ci_reconnect_num := ci_reconnect_num ci + 1\<rparr>"

definition OnSchedulerConnected :: "state_machine \<Rightarrow> state_machine" where
  "OnSchedulerConnected sm =
     updateState (sm\<lparr>sm_scheduler := mark_connected (sm_scheduler sm)\<rparr>)"

definition OnSchedulerDisconnected ::
    "string option \<Rightarrow> time \<Rightarrow> state_machine \<Rightarrow> state_machine" where
  "OnSchedulerDisconnected err now sm =
     updateState (sm\<lparr>sm_scheduler := mark_disconnected err now (sm_scheduler sm)\<rparr>)"

definition OnMonitorConnected :: "state_machine \<Rightarrow> state_machine" where
  "OnMonitorConnected sm =
     updateState (sm\<lparr>sm_monitor := mark_connected (sm_monitor sm)\<rparr>)"

definition OnMonitorDisconnected ::
    "string option \<Rightarrow> time \<Rightarrow> state_machine \<Rightarrow> state_machine" where
  "OnMonitorDisconnected err now sm =
     updateState (sm\<lparr>sm_monitor := mark_disconnected err now (sm_monitor sm)\<rparr>)"

definition sm_Shutdown :: "state_machine \<Rightarrow> state_machine" where
  "sm_Shutdown sm = (let sm = setState StateShutdown sm in
     sm\<lparr>sm_scheduler := (sm_scheduler sm)\<lparr>ci_connected := False\<rparr>,
        sm_monitor := (sm_monitor sm)\<lparr>ci_connected := False\<rparr>\<rparr>)"

definition IsConnected :: "state_machine \<Rightarrow> bool" where
  "IsConnected sm \<longleftrightarrow> sm_state sm = StateConnected"

definition IsDegraded :: "state_machine \<Rightarrow> bool" where
  "IsDegraded sm \<longleftrightarrow> sm_state sm = StateDegraded"

definition CanExecuteChecks :: "state_machine \<Rightarrow> bool" where
  "CanExecuteChecks sm =
     (if sm_state sm = StateDegraded then ci_connected (sm_monitor sm)
      else sm_state sm = StateConnected)"

definition GetConnectionInfo :: "state_machine \<Rightarrow> connection_info \<times> connection_info" where
  "GetConnectionInfo sm = (sm_scheduler sm, sm_monitor sm)"

lemmas sm_op_defs =
  SetReconnectCallback_def setState_def updateState_def mark_connected_def
  mark_disconnected_def OnSchedulerConnected_def OnSchedulerDisconnected_def
  OnMonitorConnected_def OnMonitorDisconnected_def sm_Shutdown_def Let_def

section \<open>Steps and reachable states\<close>

datatype sm_event =
    SchedulerUp | SchedulerLost "string option" time
  | MonitorUp | MonitorLost "string option" time
  | ShutdownCalled | CallbackSet "nat option"

fun sm_apply :: "sm_event \<Rightarrow> state_machine \<Rightarrow> state_machine" where
  "sm_apply SchedulerUp sm = OnSchedulerConnected sm"
| "sm_apply (SchedulerLost e t) sm = OnSchedulerDisconnected e t sm"
| "sm_apply MonitorUp sm = OnMonitorConnected sm"
| "sm_apply (MonitorLost e t) sm = OnMonitorDisconnected e t sm"
| "sm_apply ShutdownCalled sm = sm_Shutdown sm"
| "sm_apply (CallbackSet cb) sm = SetReconnectCallback cb sm"

inductive sm_reachable :: "state_machine \<Rightarrow> bool" where
  sm_init: "sm_reachable NewConnectionStateMachine"
| sm_step: "sm_reachable sm \<Longrightarrow> sm_reachable (sm_apply e sm)"

text \<open>
  The state agrees with the two connections. Before the first event the state is
  \<open>StateDisconnected\<close> with no connection; after a shutdown the flags are free again,
  since the handlers still write them.
\<close>

definition sm_inv :: "state_machine \<Rightarrow> bool" where
  "sm_inv sm \<longleftrightarrow>
     (let s = ci_connected (sm_scheduler sm); m = ci_connected (sm_monitor sm) in
      case sm_state sm of
        StateShutdown \<Rightarrow> True
      | StateConnected \<Rightarrow> s \<and> m
      | StateDegraded \<Rightarrow> s \<noteq> m
      | _ \<Rightarrow> \<not> s \<and> \<not> m)"

lemma sm_inv_init [inv_intros]: "sm_inv NewConnectionStateMachine"
  by (simp add: sm_inv_def NewConnectionStateMachine_def new_connection_info_def)

lemma updateState_establishes_inv [inv_intros]: "sm_inv (updateState sm)"
  by (cases "sm_state sm") (auto simp: sm_inv_def sm_op_defs)

lemma sm_apply_inv [inv_intros]: "sm_inv sm \<Longrightarrow> sm_inv (sm_apply e sm)"
proof (cases e)
  case (CallbackSet cb)
  assume "sm_inv sm"
  with CallbackSet show ?thesis by (simp add: sm_inv_def SetReconnectCallback_def)
next
  case ShutdownCalled
  then show ?thesis by (simp add: sm_inv_def sm_Shutdown_def setState_def Let_def)
qed (simp_all add: OnSchedulerConnected_def OnSchedulerDisconnected_def
      OnMonitorConnected_def OnMonitorDisconnected_def inv_intros)

lemma sm_reachable_inv: "sm_reachable sm \<Longrightarrow> sm_inv sm"
  by (induction rule: sm_reachable.induct) (auto intro: inv_intros)

lemma sm_apply_shutdown [frame_simps]:
  "sm_state sm = StateShutdown \<Longrightarrow> sm_state (sm_apply e sm) = StateShutdown"
  by (cases e) (auto simp: sm_op_defs)

lemma foldl_sm_apply_shutdown:
  "sm_state sm = StateShutdown \<Longrightarrow> sm_state (fold sm_apply es sm) = StateShutdown"
  by (induction es arbitrary: sm) (auto simp: frame_simps)

lemma updateState_keeps_connections [simp, frame_simps]:
  "sm_scheduler (updateState sm) = sm_scheduler sm"
  "sm_monitor (updateState sm) = sm_monitor sm"
  by (auto simp: updateState_def setState_def)

section \<open>The read-write mutex\<close>

text \<open>
  Go's \<open>sync.RWMutex\<close>: a pending \<open>Lock\<close> blocks new readers and waits for the
  readers that are inside. One method runs against one writer; each is the list of lock
  operations it performs. \<open>String\<close> calls \<open>GetConnectionInfo\<close> while it holds
  the read lock, so its list nests.
\<close>

datatype lock_op = RLock | RUnlock | Lock | Unlock

record rw_mutex =
  rw_reader :: "lock_op list"
  rw_writer :: "lock_op list"
  rw_readers :: nat
  rw_pending :: bool
  rw_held :: bool

inductive rw_step :: "rw_mutex \<Rightarrow> rw_mutex \<Rightarrow> bool" where
  rw_rlock: "rw_reader l = RLock # ops \<Longrightarrow> \<not> rw_pending l \<Longrightarrow>
     rw_step l (l\<lparr>rw_reader := ops, rw_readers := Suc (rw_readers l)\<rparr>)"
| rw_runlock: "rw_reader l = RUnlock # ops \<Longrightarrow> 0 < rw_readers l \<Longrightarrow>
     rw_step l (l\<lparr>rw_reader := ops, rw_readers := rw_readers l - 1\<rparr>)"
| rw_announce: "rw_writer l = Lock # ops \<Longrightarrow> \<not> rw_pending l \<Longrightarrow>
     rw_step l (l\<lparr>rw_pending := True\<rparr>)"
| rw_acquire: "rw_writer l = Lock # ops \<Longrightarrow> rw_pending l \<Longrightarrow> rw_readers l = 0 \<Longrightarrow>
     rw_step l (l\<lparr>rw_writer := ops, rw_held := True\<rparr>)"
| rw_unlock: "rw_writer l = Unlock # ops \<Longrightarrow> rw_held l \<Longrightarrow>
     rw_step l (l\<lparr>rw_writer := ops, rw_pending := False, rw_held := False\<rparr>)"

inductive_cases rw_stepE: "rw_step l l'"

definition GetConnectionInfo_locks :: "lock_op list" where
  "GetConnectionInfo_locks = [RLock, RUnlock]"

definition String_locks :: "lock_op list" where
  "String_locks = RLock # GetConnectionInfo_locks @ [RUnlock]"

definition handler_locks :: "lock_op list" where
  "handler_locks = [Lock, Unlock]"

definition rw_start :: "lock_op list \<Rightarrow> lock_op list \<Rightarrow> rw_mutex" where
  "rw_start r w = \<lparr>rw_reader = r, rw_writer = w, rw_readers = 0, rw_pending = False,
     rw_held = False\<rparr>"

definition rw_stuck :: "rw_mutex \<Rightarrow> bool" where
  "rw_stuck l \<longleftrightarrow> (\<forall>l'. \<not> rw_step l l') \<and> \<not> (rw_reader l = [] \<and> rw_writer l = [])"

text \<open>A method that locks once: the invariant that rules out a stuck state.\<close>

definition flat_inv :: "rw_mutex \<Rightarrow> bool" where
  "flat_inv l \<longleftrightarrow>
     (rw_reader l, rw_readers l) \<in> {([RLock, RUnlock], 0), ([RUnlock], 1), ([], 0)} \<and>
     (rw_writer l, rw_pending l, rw_held l) \<in>
       {([Lock, Unlock], False, False), ([Lock, Unlock], True, False),
        ([Unlock], True, True), ([], False, False)} \<and>
     (rw_held l \<longrightarrow> rw_readers l = 0)"

lemma flat_inv_step: "rw_step l l' \<Longrightarrow> flat_inv l \<Longrightarrow> flat_inv l'"
  by (induction rule: rw_step.induct) (auto simp: flat_inv_def)

lemma rw_enabled:
  "rw_reader l = RLock # ops \<Longrightarrow> \<not> rw_pending l \<Longrightarrow> \<exists>l'. rw_step l l'"
  "rw_reader l = RUnlock # ops \<Longrightarrow> rw_readers l = Suc n \<Longrightarrow> \<exists>l'. rw_step l l'"
  "rw_writer l = Lock # ops \<Longrightarrow> \<not> rw_pending l \<Longrightarrow> \<exists>l'. rw_step l l'"
  "rw_writer l = Lock # ops \<Longrightarrow> rw_readers l = 0 \<Longrightarrow> \<exists>l'. rw_step l l'"
  "rw_writer l = Unlock # ops \<Longrightarrow> rw_held l \<Longrightarrow> \<exists>l'. rw_step l l'"
  using rw_rlock rw_runlock [of l] rw_announce rw_acquire rw_unlock by (simp; blast)+

lemma flat_inv_not_stuck: "flat_inv l \<Longrightarrow> \<not> rw_stuck l"
  by (auto simp: flat_inv_def rw_stuck_def dest: rw_enabled)

lemma flat_inv_reachable:
  "rw_step\<^sup>*\<^sup>* (rw_start GetConnectionInfo_locks handler_locks) l \<Longrightarrow> flat_inv l"
proof (induction rule: rtranclp_induct)
  case base
  show ?case
    by (simp add: flat_inv_def rw_start_def GetConnectionInfo_locks_def handler_locks_def)
next
  case (step l l')
  then show ?case by (blast intro: flat_inv_step)
qed

definition String_deadlock :: rw_mutex where
  "String_deadlock = \<lparr>rw_reader = [RLock, RUnlock, RUnlock], rw_writer = [Lock, Unlock],
     rw_readers = 1, rw_pending = True, rw_held = False\<rparr>"

lemma String_deadlock_reached:
  "rw_step\<^sup>*\<^sup>* (rw_start String_locks handler_locks) String_deadlock"
proof -
  let ?mid = "\<lparr>rw_reader = [RLock, RUnlock, RUnlock], rw_writer = [Lock, Unlock],
     rw_readers = 1, rw_pending = False, rw_held = False\<rparr>"
  have "rw_step (rw_start String_locks handler_locks) ?mid"
    using rw_rlock [of "rw_start String_locks handler_locks" "[RLock, RUnlock, RUnlock]"]
    by (simp add: rw_start_def String_locks_def GetConnectionInfo_locks_def handler_locks_def)
  moreover have "rw_step ?mid String_deadlock"
    using rw_announce [of ?mid "[Unlock]"] by (simp add: String_deadlock_def)
  ultimately show ?thesis by (meson converse_rtranclp_into_rtranclp r_into_rtranclp)
qed

lemma String_deadlock_stuck: "rw_stuck String_deadlock"
  by (auto simp: rw_stuck_def String_deadlock_def elim: rw_stepE)

section \<open>Properties\<close>

text \<open>
  In every reachable state a worker may execute checks exactly when it has not
  been shut down and its monitor connection is up, whatever the scheduler connection.
\<close>

theorem can_execute_iff_monitor_connected:
  assumes "sm_reachable sm"
  shows "CanExecuteChecks sm \<longleftrightarrow>
    sm_state sm \<noteq> StateShutdown \<and> ci_connected (sm_monitor sm)"
  using sm_reachable_inv [OF assms]
  by (cases "sm_state sm") (auto simp: sm_inv_def CanExecuteChecks_def)

theorem can_execute_iff_monitor_connected_witness:
  "CanExecuteChecks (sm_apply MonitorUp NewConnectionStateMachine) \<and>
   \<not> ci_connected (sm_scheduler (sm_apply MonitorUp NewConnectionStateMachine))"
proof -
  have r: "sm_reachable (sm_apply MonitorUp NewConnectionStateMachine)"
    by (intro sm_step sm_init)
  show ?thesis
    by (subst can_execute_iff_monitor_connected [OF r])
       (simp add: sm_op_defs NewConnectionStateMachine_def new_connection_info_def)
qed

text \<open>
  Shutdown is final: after it, no sequence of connection events brings the
  worker back to a state in which it executes checks.
\<close>

theorem shutdown_is_final:
  "sm_state (fold sm_apply es (sm_Shutdown sm)) = StateShutdown \<and>
   \<not> CanExecuteChecks (fold sm_apply es (sm_Shutdown sm))"
proof -
  have "sm_state (sm_Shutdown sm) = StateShutdown"
    by (simp add: sm_Shutdown_def setState_def Let_def)
  then have "sm_state (fold sm_apply es (sm_Shutdown sm)) = StateShutdown"
    by (rule foldl_sm_apply_shutdown)
  then show ?thesis by (simp add: CanExecuteChecks_def)
qed

text \<open>
  Property C39. \<open>String\<close> takes the read lock again while it holds it: a schedule with one
  concurrent event handler reaches a state in which neither can ever move. The method it
  calls, run on its own, never gets stuck.
\<close>

theorem String_can_deadlock:
  "(\<exists>l. rw_step\<^sup>*\<^sup>* (rw_start String_locks handler_locks) l \<and> rw_stuck l) \<and>
   \<not> (\<exists>l. rw_step\<^sup>*\<^sup>* (rw_start GetConnectionInfo_locks handler_locks) l \<and> rw_stuck l)"
  using String_deadlock_reached String_deadlock_stuck flat_inv_reachable flat_inv_not_stuck
  by blast

end
