(* ===== verification/Reconnect.thy ===== *)
theory Reconnect
  imports Complex_Main Prelude
begin

text \<open>
  \<open>backend/check-worker/internal/worker/reconnect_manager.go\<close> and
  \<open>backend/check-worker/internal/retry/retry.go\<close>: the two retry loops of a check worker.
  A \<open>float64\<close> is read as a real number (no rounding). What the outside decides in one
  round of a loop (which case of a \<open>select\<close> fires, what the callback returns, the clock) is
  an argument, one environment per round. The reconnect loop may run for ever, so it is a
  \<open>partial_function (option)\<close>: \<open>None\<close> is a loop that never returns.
\<close>

text \<open>
  The conversion \<open>time.Duration(f)\<close>: towards zero inside the range of an \<open>int64\<close>;
  outside it the Go specification leaves the value to the implementation (\<open>oob\<close>).
\<close>

definition go_trunc :: "real \<Rightarrow> int" where
  "go_trunc x = (if 0 \<le> x then \<lfloor>x\<rfloor> else \<lceil>x\<rceil>)"

definition float_to_duration :: "(real \<Rightarrow> int) \<Rightarrow> real \<Rightarrow> duration" where
  "float_to_duration oob x =
     (if - (2 ^ 63) \<le> go_trunc x \<and> go_trunc x < 2 ^ 63 then go_trunc x else oob x)"

lemma go_trunc_le: "x \<le> of_int z \<Longrightarrow> go_trunc x \<le> z"
  by (auto simp: go_trunc_def floor_le_iff ceiling_le_iff)

lemma go_trunc_ge: "of_int z \<le> x \<Longrightarrow> z \<le> go_trunc x"
  by (auto simp: go_trunc_def le_floor_iff le_ceiling_iff)

section \<open>The reconnect manager\<close>

record reconnect_config =
  rc_initial_delay :: duration
  rc_max_delay :: duration
  rc_multiplier :: real
  rc_max_attempts :: int
  rc_jitter :: bool

definition DefaultReconnectConfig :: reconnect_config where
  "DefaultReconnectConfig = \<lparr>rc_initial_delay = second, rc_max_delay = 60 * second,
     rc_multiplier = 2, rc_max_attempts = 0, rc_jitter = True\<rparr>"

record attempt_info =
  at_number :: int
  at_delay :: duration
  at_error :: "string option"
  at_timestamp :: time

record reconnect_manager =
  rm_config :: reconnect_config
  rm_attempts :: "attempt_info list"
  rm_current :: int
  rm_stop_closed :: bool
  rm_active :: bool

definition NewReconnectManager :: "reconnect_config \<Rightarrow> reconnect_manager" where
  "NewReconnectManager c =
     (let c = (if rc_initial_delay c \<le> 0 then c\<lparr>rc_initial_delay := second\<rparr> else c);
          c = (if rc_max_delay c \<le> 0 then c\<lparr>rc_max_delay := 60 * second\<rparr> else c);
          c = (if rc_multiplier c \<le> 1 then c\<lparr>rc_multiplier := 2\<rparr> else c)
      in \<lparr>rm_config = c, rm_attempts = [], rm_current = 0, rm_stop_closed = False,
          rm_active = False\<rparr>)"

text \<open>\<open>nanos\<close> is the clock's \<open>time.Now().UnixNano()\<close>, read for the jitter.\<close>

definition rm_float_delay :: "reconnect_config \<Rightarrow> int \<Rightarrow> real" where
  "rm_float_delay c attempt =
     (let d = real_of_int (rc_initial_delay c) * rc_multiplier c ^ nat (attempt - 1) in
      if d > real_of_int (rc_max_delay c) then real_of_int (rc_max_delay c) else d)"

definition rm_calculateDelay ::
    "(real \<Rightarrow> int) \<Rightarrow> reconnect_config \<Rightarrow> int \<Rightarrow> int \<Rightarrow> duration" where
  "rm_calculateDelay oob c nanos attempt =
     (let d = rm_float_delay c attempt;
          j = d * (1/4);
          d = (if rc_jitter c then d - j + (2 * j * real_of_int (nanos mod 1000) / 1000) else d)
      in float_to_duration oob d)"

datatype poll = PollCtx string | PollStop | PollNone
datatype wait = WaitCtx string | WaitStop | WaitElapsed

record attempt_env =
  ae_poll :: poll
  ae_nanos :: int
  ae_now :: time
  ae_wait :: wait
  ae_result :: "string option"

datatype reconnect_error =
  CtxErr string | ReconnectStopped | MaxAttemptsReached int | AlreadyInProgress

definition begin_attempt ::
    "(real \<Rightarrow> int) \<Rightarrow> attempt_env \<Rightarrow> reconnect_manager \<Rightarrow> reconnect_manager" where
  "begin_attempt oob e rm = (let n = rm_current rm + 1 in
     rm\<lparr>rm_current := n, rm_attempts := rm_attempts rm @
       [\<lparr>at_number = n, at_delay = rm_calculateDelay oob (rm_config rm) (ae_nanos e) n,
         at_error = None, at_timestamp = ae_now e\<rparr>]\<rparr>)"

definition record_attempt_error ::
    "string option \<Rightarrow> reconnect_manager \<Rightarrow> reconnect_manager" where
  "record_attempt_error err rm =
     (if rm_attempts rm = [] then rm
      else rm\<lparr>rm_attempts := butlast (rm_attempts rm) @
             [(last (rm_attempts rm))\<lparr>at_error := err\<rparr>]\<rparr>)"

partial_function (option) reconnectLoop ::
    "(real \<Rightarrow> int) \<Rightarrow> (nat \<Rightarrow> attempt_env) \<Rightarrow> nat \<Rightarrow> reconnect_manager \<Rightarrow>
     (reconnect_error option \<times> reconnect_manager) option" where
  "reconnectLoop oob env k rm =
     (case ae_poll (env k) of
        PollCtx e \<Rightarrow> Some (Some (CtxErr e), rm)
      | PollStop \<Rightarrow> Some (Some ReconnectStopped, rm)
      | PollNone \<Rightarrow>
         (if 0 < rc_max_attempts (rm_config rm) \<and>
             rc_max_attempts (rm_config rm) < rm_current rm + 1
          then Some (Some (MaxAttemptsReached (rc_max_attempts (rm_config rm))), rm)
          else (case ae_wait (env k) of
              WaitCtx e \<Rightarrow> Some (Some (CtxErr e), begin_attempt oob (env k) rm)
            | WaitStop \<Rightarrow> Some (Some ReconnectStopped, begin_attempt oob (env k) rm)
            | WaitElapsed \<Rightarrow>
               (case ae_result (env k) of
                  None \<Rightarrow> Some (None,
                    record_attempt_error None (begin_attempt oob (env k) rm))
                | Some err \<Rightarrow> reconnectLoop oob env (Suc k)
                    (record_attempt_error (Some err) (begin_attempt oob (env k) rm))))))"

definition StartReconnect ::
    "(real \<Rightarrow> int) \<Rightarrow> (nat \<Rightarrow> attempt_env) \<Rightarrow> reconnect_manager \<Rightarrow>
     (reconnect_error option \<times> reconnect_manager) option" where
  "StartReconnect oob env rm =
     (if rm_active rm then Some (Some AlreadyInProgress, rm)
      else map_option (\<lambda>(err, rm'). (err, rm'\<lparr>rm_active := False\<rparr>))
        (reconnectLoop oob env 0
          (rm\<lparr>rm_active := True, rm_current := 0, rm_attempts := [],
              rm_stop_closed := False\<rparr>)))"

text \<open>Closing a channel that is closed panics, which is \<open>None\<close> here.\<close>

definition rm_Stop :: "reconnect_manager \<Rightarrow> reconnect_manager option" where
  "rm_Stop rm =
     (if rm_active rm then
        (if rm_stop_closed rm then None else Some (rm\<lparr>rm_stop_closed := True\<rparr>))
      else Some rm)"

definition rm_Reset :: "reconnect_manager \<Rightarrow> reconnect_manager" where
  "rm_Reset rm = rm\<lparr>rm_current := 0, rm_attempts := [], rm_active := False\<rparr>"

definition GetLastAttemptError :: "reconnect_manager \<Rightarrow> string option" where
  "GetLastAttemptError rm =
     (if rm_attempts rm = [] then None else at_error (last (rm_attempts rm)))"

definition GetTotalAttempts :: "reconnect_manager \<Rightarrow> nat" where
  "GetTotalAttempts rm = length (rm_attempts rm)"

subsection \<open>Delays\<close>

definition rc_wf :: "reconnect_config \<Rightarrow> bool" where
  "rc_wf c \<longleftrightarrow> 0 < rc_initial_delay c \<and> 0 < rc_max_delay c \<and> rc_max_delay c < 2 ^ 62
     \<and> 1 < rc_multiplier c"

lemma NewReconnectManager_wf [inv_intros]:
  "rc_max_delay c < 2 ^ 62 \<Longrightarrow> rc_wf (rm_config (NewReconnectManager c))"
  by (auto simp: NewReconnectManager_def rc_wf_def Let_def)

lemma rm_float_delay_bounds:
  assumes "rc_wf c"
  shows "0 \<le> rm_float_delay c n" and "rm_float_delay c n \<le> real_of_int (rc_max_delay c)"
  using assms by (auto simp: rm_float_delay_def rc_wf_def Let_def)

lemma rm_float_delay_mono:
  assumes "rc_wf c" and "m \<le> n"
  shows "rm_float_delay c m \<le> rm_float_delay c n"
proof -
  have "rc_multiplier c ^ nat (m - 1) \<le> rc_multiplier c ^ nat (n - 1)"
    using assms by (intro power_increasing) (auto simp: rc_wf_def)
  then have "real_of_int (rc_initial_delay c) * rc_multiplier c ^ nat (m - 1)
      \<le> real_of_int (rc_initial_delay c) * rc_multiplier c ^ nat (n - 1)"
    using assms(1) by (intro mult_left_mono) (auto simp: rc_wf_def)
  then show ?thesis by (auto simp: rm_float_delay_def Let_def)
qed

lemma float_to_duration_bounds:
  assumes "0 \<le> x" and "x \<le> of_int z" and "z < 2 ^ 63"
  shows "0 \<le> float_to_duration oob x \<and> float_to_duration oob x \<le> z"
  using go_trunc_ge [of 0 x] go_trunc_le [OF assms(2)] assms
  by (auto simp: float_to_duration_def)

lemma float_to_duration_floor:
  assumes "0 \<le> x" and "x < 2 ^ 63"
  shows "float_to_duration oob x = \<lfloor>x\<rfloor>"
proof -
  have "\<lfloor>x\<rfloor> < 2 ^ 63" using assms(2) by (simp add: floor_less_iff)
  moreover have "0 \<le> \<lfloor>x\<rfloor>" using assms(1) by simp
  ultimately show ?thesis using assms(1) by (simp add: float_to_duration_def go_trunc_def)
qed

lemma four_floor_le: "4 * x \<le> real_of_int z \<Longrightarrow> 4 * \<lfloor>x\<rfloor> \<le> z"
proof -
  assume "4 * x \<le> real_of_int z"
  moreover have "real_of_int \<lfloor>x\<rfloor> \<le> x" by (rule of_int_floor_le)
  ultimately have "real_of_int (4 * \<lfloor>x\<rfloor>) \<le> real_of_int z"
    by (simp only: of_int_mult of_int_numeral)
  then show ?thesis by (simp only: of_int_le_iff)
qed

lemma float_to_duration_mono:
  assumes "0 \<le> x" and "x \<le> y" and "y \<le> of_int z" and "z < 2 ^ 63"
  shows "float_to_duration oob x \<le> float_to_duration oob y"
  using go_trunc_ge [of 0 x] go_trunc_le [of x z] go_trunc_le [of y z] assms
  by (auto simp: float_to_duration_def go_trunc_def intro: floor_mono)

subsection \<open>The attempts of a run\<close>

text \<open>
  The attempts are numbered from 1 without gaps, and while the loop runs all of them have
  failed: \<open>failed_run\<close>.
\<close>

definition numbered :: "reconnect_manager \<Rightarrow> bool" where
  "numbered rm \<longleftrightarrow> map at_number (rm_attempts rm) = map int [1..<Suc (length (rm_attempts rm))]
     \<and> rm_current rm = int (length (rm_attempts rm))"

definition failed_run :: "reconnect_manager \<Rightarrow> bool" where
  "failed_run rm \<longleftrightarrow> numbered rm \<and> (\<forall>a \<in> set (rm_attempts rm). at_error a \<noteq> None)"

lemma rm_config_frame [simp, frame_simps]:
  "rm_config (begin_attempt oob e rm) = rm_config rm"
  "rm_config (record_attempt_error err rm) = rm_config rm"
  by (simp_all add: begin_attempt_def record_attempt_error_def Let_def)

lemma numbered_begin [inv_intros]: "numbered rm \<Longrightarrow> numbered (begin_attempt oob e rm)"
  by (simp add: numbered_def begin_attempt_def Let_def)

lemma map_butlast_append_last:
  "xs \<noteq> [] \<Longrightarrow> f y = f (last xs) \<Longrightarrow> map f (butlast xs @ [y]) = map f xs"
  by (metis append_butlast_last_id list.simps(8,9) map_append)

lemma numbered_record [inv_intros]:
  "numbered rm \<Longrightarrow> numbered (record_attempt_error err rm)"
  using map_butlast_append_last [of "rm_attempts rm" at_number
      "(last (rm_attempts rm))\<lparr>at_error := err\<rparr>"]
  by (auto simp: numbered_def record_attempt_error_def)

lemma failed_run_round [inv_intros]:
  "failed_run rm \<Longrightarrow> failed_run (record_attempt_error (Some e) (begin_attempt oob ev rm))"
  by (auto simp: failed_run_def begin_attempt_def record_attempt_error_def Let_def
      intro!: numbered_record [of "begin_attempt oob ev rm" "Some e",
        unfolded begin_attempt_def record_attempt_error_def Let_def, simplified]
      numbered_begin [of rm oob ev, unfolded begin_attempt_def Let_def, simplified])

lemma length_round [simp]:
  "length (rm_attempts (record_attempt_error err (begin_attempt oob e rm)))
     = Suc (length (rm_attempts rm))"
  "length (rm_attempts (begin_attempt oob e rm)) = Suc (length (rm_attempts rm))"
  by (simp_all add: begin_attempt_def record_attempt_error_def Let_def)

text \<open>With a positive limit the loop returns, after at most that many attempts.\<close>

lemma reconnectLoop_returns:
  assumes "0 < rc_max_attempts (rm_config rm)" and "numbered rm"
    and "rm_current rm \<le> rc_max_attempts (rm_config rm)"
  shows "\<exists>err rm'. reconnectLoop oob env k rm = Some (err, rm') \<and>
    numbered rm' \<and> rm_current rm' \<le> rc_max_attempts (rm_config rm)"
  using assms
proof (induction "nat (rc_max_attempts (rm_config rm) - rm_current rm)"
    arbitrary: rm k rule: less_induct)
  case less
  let ?b = "begin_attempt oob (env k) rm"
  have cur: "rm_current ?b = rm_current rm + 1"
    by (simp add: begin_attempt_def Let_def)
  have rec: "rm_current (record_attempt_error e ?b) = rm_current ?b" for e
    by (simp add: record_attempt_error_def)
  have IH: "rm_current rm < rc_max_attempts (rm_config rm) \<Longrightarrow>
    \<exists>err rm'. reconnectLoop oob env (Suc k) (record_attempt_error (Some e) ?b) = Some (err, rm')
      \<and> numbered rm' \<and> rm_current rm' \<le> rc_max_attempts (rm_config rm)" for e
    using less.hyps [of "record_attempt_error (Some e) ?b" "Suc k"] less.prems
    by (simp add: rec cur inv_intros)
  show ?case
    using less.prems IH
    by (subst reconnectLoop.simps)
       (auto simp: cur rec inv_intros split: poll.splits wait.splits option.splits)
qed

text \<open>Without a limit, and with a callback that fails for ever, it never returns.\<close>

lemma reconnectLoop_diverges_aux:
  assumes "reconnectLoop oob env k rm = Some r"
  shows "\<not> (rc_max_attempts (rm_config rm) \<le> 0 \<and>
    (\<forall>i. ae_poll (env i) = PollNone \<and> ae_wait (env i) = WaitElapsed \<and> ae_result (env i) \<noteq> None))"
proof (rule reconnectLoop.raw_induct [where P = "\<lambda>oob env k rm r.
      \<not> (rc_max_attempts (rm_config rm) \<le> 0 \<and> (\<forall>i. ae_poll (env i) = PollNone \<and>
        ae_wait (env i) = WaitElapsed \<and> ae_result (env i) \<noteq> None))", OF _ assms], goal_cases)
  case (1 loop oob env k rm r)
  note IH = 1(1) and eq = 1(2)
  show ?case
  proof
    assume a: "rc_max_attempts (rm_config rm) \<le> 0 \<and> (\<forall>i. ae_poll (env i) = PollNone \<and>
      ae_wait (env i) = WaitElapsed \<and> ae_result (env i) \<noteq> None)"
    then obtain e where "ae_result (env k) = Some e" by blast
    with a eq have "loop oob env (Suc k)
        (record_attempt_error (Some e) (begin_attempt oob (env k) rm)) = Some r"
      by simp
    from IH [OF this] a show False by simp
  qed
qed

lemma reconnectLoop_success:
  assumes "reconnectLoop oob env k rm = Some r"
  shows "failed_run rm \<longrightarrow> fst r = None \<longrightarrow>
    (\<exists>rm0 k'. failed_run rm0 \<and> ae_result (env k') = None \<and>
      snd r = record_attempt_error None (begin_attempt oob (env k') rm0))"
proof (rule reconnectLoop.raw_induct [where P = "\<lambda>oob env k rm r.
      failed_run rm \<longrightarrow> fst r = None \<longrightarrow>
      (\<exists>rm0 k'. failed_run rm0 \<and> ae_result (env k') = None \<and>
        snd r = record_attempt_error None (begin_attempt oob (env k') rm0))", OF _ assms],
    goal_cases)
  case (1 loop oob env k rm r)
  show ?case
  proof (intro impI)
    assume f: "failed_run rm" and n: "fst r = None"
    show "\<exists>rm0 k'. failed_run rm0 \<and> ae_result (env k') = None \<and>
        snd r = record_attempt_error None (begin_attempt oob (env k') rm0)"
    proof (cases "ae_result (env k)")
      case None
      with 1(2) n have "snd r = record_attempt_error None (begin_attempt oob (env k) rm)"
        by (auto split: poll.splits wait.splits if_splits)
      with f None show ?thesis by blast
    next
      case (Some e)
      with 1(2) n have "loop oob env (Suc k)
          (record_attempt_error (Some e) (begin_attempt oob (env k) rm)) = Some r"
        by (auto split: poll.splits wait.splits if_splits)
      from 1(1) [OF this] failed_run_round [OF f] n show ?thesis by blast
    qed
  qed
qed

section \<open>Retry with backoff\<close>

record retry_config =
  rt_max_attempts :: int
  rt_base_delay :: duration
  rt_max_delay :: duration
  rt_multiplier :: real
  rt_jitter :: bool

definition DefaultConfig :: retry_config where
  "DefaultConfig = \<lparr>rt_max_attempts = 5, rt_base_delay = 2 * second,
     rt_max_delay = 60 * second, rt_multiplier = 2, rt_jitter = True\<rparr>"

definition DefaultIsRetryable :: "string option \<Rightarrow> bool" where
  "DefaultIsRetryable err \<longleftrightarrow> err \<noteq> None"

definition rt_calculateDelay :: "(real \<Rightarrow> int) \<Rightarrow> retry_config \<Rightarrow> int \<Rightarrow> duration" where
  "rt_calculateDelay oob cfg attempt =
     (let exponential = real_of_int (rt_base_delay cfg) * rt_multiplier cfg ^ nat (attempt - 1);
          delay = float_to_duration oob exponential
      in if delay > rt_max_delay cfg then rt_max_delay cfg else delay)"

text \<open>
  \<open>rnd\<close> is what \<open>rand.Int\<close> returns below \<open>2^53\<close>, \<open>None\<close> its error.
\<close>

definition addJitter :: "(real \<Rightarrow> int) \<Rightarrow> int option \<Rightarrow> duration \<Rightarrow> duration" where
  "addJitter oob rnd delay =
     (if delay = 0 then delay
      else case rnd of None \<Rightarrow> delay
      | Some v \<Rightarrow>
         (let range = real_of_int delay * (1/4); f = real_of_int v / 2 ^ 53
          in delay + float_to_duration oob (f * 2 * range - range)))"

record retry_env =
  re_rand :: "int option"
  re_canceled :: "string option"
  re_result :: "string option"

datatype retry_error =
  RetryCanceled int string | NonRetryable int string | MaxRetryReached int "string option"

text \<open>
  The loop returns its error together with what it did: the delays it waited for and the
  results of the calls it made, in order.
\<close>

function retry_loop ::
    "(real \<Rightarrow> int) \<Rightarrow> retry_config \<Rightarrow> (string \<Rightarrow> bool) \<Rightarrow> (nat \<Rightarrow> retry_env) \<Rightarrow> nat \<Rightarrow>
     string option \<Rightarrow> retry_error option \<times> duration list \<times> string option list" where
  "retry_loop oob cfg isRetryable env attempt lastErr =
     (if int attempt < rt_max_attempts cfg then
        (let e = env attempt;
             delay = rt_calculateDelay oob cfg (int attempt);
             delay = (if rt_jitter cfg then addJitter oob (re_rand e) delay else delay);
             waits = (if 0 < attempt then [delay] else [])
         in case (if 0 < attempt then re_canceled e else None) of
              Some c \<Rightarrow> (Some (RetryCanceled (int attempt) c), waits, [])
            | None \<Rightarrow>
               (case re_result e of
                  None \<Rightarrow> (None, waits, [None])
                | Some err \<Rightarrow>
                   (if \<not> isRetryable err
                    then (Some (NonRetryable (int attempt + 1) err), waits, [Some err])
                    else let (r, ws, cs) = retry_loop oob cfg isRetryable env (Suc attempt) (Some err)
                         in (r, waits @ ws, Some err # cs))))
      else (Some (MaxRetryReached (rt_max_attempts cfg) lastErr), [], []))"
  by pat_completeness auto
termination
  by (relation "measure (\<lambda>(oob, cfg, p, env, attempt, l). nat (rt_max_attempts cfg - int attempt))")
     auto

declare retry_loop.simps [simp del]

definition DoWithRetryAndIsRetryable ::
    "(real \<Rightarrow> int) \<Rightarrow> retry_config \<Rightarrow> (string \<Rightarrow> bool) \<Rightarrow> (nat \<Rightarrow> retry_env) \<Rightarrow>
     retry_error option \<times> duration list \<times> string option list" where
  "DoWithRetryAndIsRetryable oob cfg isRetryable env = retry_loop oob cfg isRetryable env 0 None"

definition DoWithRetry ::
    "(real \<Rightarrow> int) \<Rightarrow> retry_config \<Rightarrow> (nat \<Rightarrow> retry_env) \<Rightarrow>
     retry_error option \<times> duration list \<times> string option list" where
  "DoWithRetry oob cfg env =
     DoWithRetryAndIsRetryable oob cfg (\<lambda>e. DefaultIsRetryable (Some e)) env"

text \<open>
  What a run of the loop from \<open>attempt\<close> may look like: at most the remaining number of
  calls; one success, last, when it returns no error; failures only otherwise.
\<close>

definition retry_ok ::
    "retry_config \<Rightarrow> nat \<Rightarrow> retry_error option \<times> duration list \<times> string option list \<Rightarrow> bool"
where
  "retry_ok cfg attempt res \<longleftrightarrow> (case res of (r, ws, cs) \<Rightarrow>
     int (length cs) \<le> max 0 (rt_max_attempts cfg - int attempt) \<and>
     (if r = None then cs \<noteq> [] \<and> last cs = None \<and> None \<notin> set (butlast cs)
      else None \<notin> set cs) \<and>
     (\<forall>n e. r = Some (MaxRetryReached n e) \<longrightarrow>
        int (length cs) = max 0 (rt_max_attempts cfg - int attempt)))"

lemma retry_loop_ok:
  "retry_ok cfg attempt (retry_loop oob cfg isR env attempt lastErr)"
proof (induction oob cfg isR env attempt lastErr rule: retry_loop.induct)
  case (1 oob cfg isR env attempt lastErr)
  show ?case
  proof (cases "int attempt < rt_max_attempts cfg")
    case False
    then show ?thesis by (subst retry_loop.simps) (simp add: retry_ok_def)
  next
    case True
    have IH: "retry_ok cfg (Suc attempt) (retry_loop oob cfg isR env (Suc attempt) (Some err))"
      if "re_result (env attempt) = Some err" and "isR err"
        and "(if 0 < attempt then re_canceled (env attempt) else None) = None" for err
      using 1 True that by simp
    show ?thesis
      using True IH
      by (subst retry_loop.simps)
         (auto simp: retry_ok_def Let_def split: option.splits prod.splits if_splits)
  qed
qed

lemma retry_loop_success_iff:
  assumes "\<And>i. re_canceled (env i) = None" and "\<And>e. isR e"
  shows "fst (retry_loop oob cfg isR env attempt lastErr) = None \<longleftrightarrow>
    (\<exists>i \<ge> attempt. int i < rt_max_attempts cfg \<and> re_result (env i) = None)"
  using assms
proof (induction oob cfg isR env attempt lastErr rule: retry_loop.induct)
  case (1 oob cfg isR env attempt lastErr)
  show ?case
  proof (cases "int attempt < rt_max_attempts cfg")
    case False
    then show ?thesis by (subst retry_loop.simps) auto
  next
    case True
    show ?thesis
    proof (cases "re_result (env attempt)")
      case None
      with True 1(2) show ?thesis by (subst retry_loop.simps) (auto simp: Let_def)
    next
      case (Some err)
      have isR: "isR = (\<lambda>_. True)" using 1(3) by (simp add: fun_eq_iff)
      have "fst (retry_loop oob cfg isR env (Suc attempt) (Some err)) = None \<longleftrightarrow>
          (\<exists>i \<ge> Suc attempt. int i < rt_max_attempts cfg \<and> re_result (env i) = None)"
        using 1 True Some by (simp add: isR)
      moreover have "fst (retry_loop oob cfg isR env attempt lastErr)
          = fst (retry_loop oob cfg isR env (Suc attempt) (Some err))"
        using True Some 1(2,3)
        by (subst retry_loop.simps) (cases "attempt = 0"; simp add: Let_def split_beta)
      moreover have "(\<exists>i \<ge> attempt. int i < rt_max_attempts cfg \<and> re_result (env i) = None) \<longleftrightarrow>
          (\<exists>i \<ge> Suc attempt. int i < rt_max_attempts cfg \<and> re_result (env i) = None)"
        using Some by (metis Suc_leD le_antisym not_less_eq_eq option.distinct(1))
      ultimately show ?thesis by simp
    qed
  qed
qed

section \<open>Properties\<close>

text \<open>
  With a positive \<open>MaxAttempts\<close> a reconnect run always returns, whatever the
  network does: the manager is idle again, and it made at most \<open>MaxAttempts\<close> attempts,
  numbered from 1 without gaps.
\<close>

theorem StartReconnect_returns:
  assumes "0 < rc_max_attempts (rm_config rm)" and "\<not> rm_active rm"
  shows "\<exists>err rm'. StartReconnect oob env rm = Some (err, rm') \<and> \<not> rm_active rm' \<and>
    int (GetTotalAttempts rm') \<le> rc_max_attempts (rm_config rm) \<and>
    map at_number (rm_attempts rm') = map int [1..<Suc (GetTotalAttempts rm')]"
proof -
  let ?rm = "rm\<lparr>rm_active := True, rm_current := 0, rm_attempts := [], rm_stop_closed := False\<rparr>"
  have "\<exists>err rm'. reconnectLoop oob env 0 ?rm = Some (err, rm') \<and> numbered rm' \<and>
      rm_current rm' \<le> rc_max_attempts (rm_config ?rm)"
    using assms by (intro reconnectLoop_returns) (simp_all add: numbered_def)
  then obtain err rm' where "reconnectLoop oob env 0 ?rm = Some (err, rm')" "numbered rm'"
      "rm_current rm' \<le> rc_max_attempts (rm_config rm)"
    by auto
  then show ?thesis
    using assms(2)
    by (intro exI [of _ err] exI [of _ "rm'\<lparr>rm_active := False\<rparr>"])
       (simp add: StartReconnect_def numbered_def GetTotalAttempts_def)
qed

definition example_env :: "nat \<Rightarrow> attempt_env" where
  "example_env k = \<lparr>ae_poll = PollNone, ae_nanos = 999, ae_now = 0, ae_wait = WaitElapsed,
     ae_result = (if k < 2 then Some ''refused'' else None)\<rparr>"

definition example_manager :: reconnect_manager where
  "example_manager = NewReconnectManager (DefaultReconnectConfig\<lparr>rc_max_attempts := 3\<rparr>)"

theorem StartReconnect_returns_witness:
  "\<exists>err rm'. StartReconnect (\<lambda>_. 0) example_env example_manager = Some (err, rm') \<and>
    \<not> rm_active rm' \<and> int (GetTotalAttempts rm') \<le> 3"
proof -
  have "0 < rc_max_attempts (rm_config example_manager)" "\<not> rm_active example_manager"
    by (simp_all add: example_manager_def NewReconnectManager_def DefaultReconnectConfig_def)
  from StartReconnect_returns [OF this, of "\<lambda>_. 0" example_env] show ?thesis
    by (auto simp: example_manager_def NewReconnectManager_def DefaultReconnectConfig_def)
qed

text \<open>
  A reconnect run that reports success ends with an attempt whose callback
  succeeded, and every attempt before it is recorded with the error it failed with.
\<close>

theorem StartReconnect_success:
  assumes "\<not> rm_active rm" and "StartReconnect oob env rm = Some (None, rm')"
  shows "rm_attempts rm' \<noteq> [] \<and> GetLastAttemptError rm' = None \<and>
    (\<forall>a \<in> set (butlast (rm_attempts rm')). at_error a \<noteq> None)"
proof -
  let ?rm = "rm\<lparr>rm_active := True, rm_current := 0, rm_attempts := [], rm_stop_closed := False\<rparr>"
  from assms obtain rm1 where loop: "reconnectLoop oob env 0 ?rm = Some (None, rm1)"
      and rm': "rm' = rm1\<lparr>rm_active := False\<rparr>"
    by (auto simp: StartReconnect_def)
  have "failed_run ?rm" by (simp add: failed_run_def numbered_def)
  with reconnectLoop_success [OF loop] obtain rm0 k' where "failed_run rm0"
      and "rm1 = record_attempt_error None (begin_attempt oob (env k') rm0)"
    by auto
  then show ?thesis
    unfolding rm'
    by (auto simp: failed_run_def begin_attempt_def record_attempt_error_def Let_def
        GetLastAttemptError_def)
qed

theorem StartReconnect_success_witness:
  "\<exists>rm'. StartReconnect (\<lambda>_. 0) example_env example_manager = Some (None, rm') \<and>
    GetLastAttemptError rm' = None \<and> GetTotalAttempts rm' = 3"
proof -
  have idle: "\<not> rm_active example_manager"
    by (simp add: example_manager_def NewReconnectManager_def Let_def)
  have "\<exists>rm'. StartReconnect (\<lambda>_. 0) example_env example_manager = Some (None, rm') \<and>
      GetTotalAttempts rm' = 3"
    by (simp add: StartReconnect_def reconnectLoop.simps example_env_def example_manager_def
        NewReconnectManager_def DefaultReconnectConfig_def begin_attempt_def Let_def
        record_attempt_error_def GetTotalAttempts_def)
  then obtain rm' where "StartReconnect (\<lambda>_. 0) example_env example_manager = Some (None, rm')"
      "GetTotalAttempts rm' = 3"
    by blast
  with StartReconnect_success [OF idle this(1)] show ?thesis by blast
qed

text \<open>
  With \<open>MaxAttempts = 0\<close>, the default, a run whose callback fails for ever and
  that nobody cancels never returns.
\<close>

theorem StartReconnect_unlimited_diverges:
  "StartReconnect oob (\<lambda>_. \<lparr>ae_poll = PollNone, ae_nanos = n, ae_now = t,
      ae_wait = WaitElapsed, ae_result = Some err\<rparr>)
     (NewReconnectManager DefaultReconnectConfig) = None"
  using reconnectLoop_diverges_aux
  by (fastforce simp: StartReconnect_def NewReconnectManager_def DefaultReconnectConfig_def
      map_option_case split: option.split)

text \<open>
  The delay before an attempt: with jitter it lies between 0 and five quarters
  of \<open>MaxDelay\<close>; without jitter it never passes \<open>MaxDelay\<close> and does not shrink from one
  attempt to the next.
\<close>

theorem rm_delay_bounds:
  assumes "rc_wf c" and "m \<le> n"
  shows "0 \<le> rm_calculateDelay oob c nanos n \<and>
    4 * rm_calculateDelay oob c nanos n \<le> 5 * rc_max_delay c \<and>
    (\<not> rc_jitter c \<longrightarrow> rm_calculateDelay oob c nanos n \<le> rc_max_delay c \<and>
       rm_calculateDelay oob c nanos m \<le> rm_calculateDelay oob c nanos' n)"
proof -
  let ?d = "rm_float_delay c n" and ?j = "real_of_int (nanos mod 1000)"
  let ?x = "?d - ?d * (1/4) + 2 * (?d * (1/4)) * ?j / 1000"
  note b = rm_float_delay_bounds [OF assms(1), of n] rm_float_delay_mono [OF assms]
  have M: "rc_max_delay c < 2 ^ 62" using assms(1) by (simp add: rc_wf_def)
  have j: "0 \<le> ?j" "?j \<le> 999" by (simp_all add: of_int_le_numeral_iff)
  have prod: "0 \<le> ?d * ?j" "?d * ?j \<le> ?d * 999"
    using b(1) j by (auto intro: mult_nonneg_nonneg mult_left_mono)
  have "0 \<le> ?x" using prod(1) b(1) by simp
  moreover have x5: "?x \<le> 5 / 4 * ?d" using prod(2) b(1) by simp
  moreover have x4: "4 * ?x \<le> real_of_int (5 * rc_max_delay c)" using x5 b(2) by simp
  moreover have "?x < 2 ^ 63"
  proof -
    have "real_of_int (rc_max_delay c) < 2 ^ 62" using M by (simp add: of_int_less_iff [where 'a = real, of _ "2 ^ 62", simplified])
    with x5 b(2) show ?thesis by simp
  qed
  ultimately have fl: "float_to_duration oob ?x = \<lfloor>?x\<rfloor>" "0 \<le> \<lfloor>?x\<rfloor>"
    using float_to_duration_floor by simp_all
  have "4 * \<lfloor>?x\<rfloor> \<le> 5 * rc_max_delay c" by (rule four_floor_le [OF x4])
  with fl have "0 \<le> float_to_duration oob ?x" "4 * float_to_duration oob ?x \<le> 5 * rc_max_delay c"
    by simp_all
  moreover have "0 \<le> float_to_duration oob ?d \<and> float_to_duration oob ?d \<le> rc_max_delay c"
    using float_to_duration_bounds [OF b(1,2)] M by simp
  moreover have "float_to_duration oob (rm_float_delay c m) \<le> float_to_duration oob ?d"
    using float_to_duration_mono [of "rm_float_delay c m" ?d "rc_max_delay c"] b
      rm_float_delay_bounds(1) [OF assms(1), of m] M by simp
  ultimately show ?thesis
    using assms(1) by (auto simp: rm_calculateDelay_def Let_def rc_wf_def)
qed

theorem rm_delay_bounds_witness:
  "4 * rm_calculateDelay (\<lambda>_. 0) DefaultReconnectConfig 999 7 \<le> 5 * rc_max_delay DefaultReconnectConfig \<and>
   rm_calculateDelay (\<lambda>_. 0) DefaultReconnectConfig 999 7 > rc_max_delay DefaultReconnectConfig"
proof -
  have "rc_wf DefaultReconnectConfig" by (simp add: rc_wf_def DefaultReconnectConfig_def)
  from rm_delay_bounds [OF this order.refl, of "\<lambda>_. 0" 999 7 0] show ?thesis
    by (simp add: rm_calculateDelay_def rm_float_delay_def DefaultReconnectConfig_def
        float_to_duration_def go_trunc_def Let_def)
qed

text \<open>
  A retried call, when it is never cancelled, succeeds exactly when one of the
  first \<open>MaxAttempts\<close> calls would succeed.
\<close>

theorem DoWithRetry_succeeds_iff:
  assumes "\<And>i. re_canceled (env i) = None"
  shows "fst (DoWithRetry oob cfg env) = None \<longleftrightarrow>
    (\<exists>i. int i < rt_max_attempts cfg \<and> re_result (env i) = None)"
  using retry_loop_success_iff [where env = env and isR = "\<lambda>e. DefaultIsRetryable (Some e)"
      and attempt = 0 and cfg = cfg and oob = oob and lastErr = None] assms
  by (simp add: DoWithRetry_def DoWithRetryAndIsRetryable_def DefaultIsRetryable_def)

theorem DoWithRetry_succeeds_iff_witness:
  "fst (DoWithRetry oob DefaultConfig (\<lambda>i. \<lparr>re_rand = None, re_canceled = None,
     re_result = (if i < 4 then Some ''timeout'' else None)\<rparr>)) = None"
  by (subst DoWithRetry_succeeds_iff) (auto simp: DefaultConfig_def intro!: exI [of _ 4])

text \<open>
  However it ends, a retried call makes at most \<open>MaxAttempts\<close> calls (none when
  that is not positive); it reports success exactly when the last call it made succeeded, no
  call is made after a success, and "max attempts reached" means all were used.
\<close>

theorem retry_calls:
  assumes "DoWithRetryAndIsRetryable oob cfg isRetryable env = (r, waits, calls)"
  shows "int (length calls) \<le> max 0 (rt_max_attempts cfg) \<and>
    (r = None \<longleftrightarrow> calls \<noteq> [] \<and> last calls = None) \<and>
    None \<notin> set (butlast calls) \<and>
    (\<forall>n e. r = Some (MaxRetryReached n e) \<longrightarrow> int (length calls) = max 0 (rt_max_attempts cfg))"
  using retry_loop_ok [of cfg 0 oob isRetryable env None] assms
  by (auto simp: DoWithRetryAndIsRetryable_def retry_ok_def split: if_splits
      dest: in_set_butlastD last_in_set)

theorem retry_calls_witness:
  "DoWithRetryAndIsRetryable (\<lambda>_. 0) (DefaultConfig\<lparr>rt_max_attempts := 0\<rparr>) (\<lambda>_. True)
     (\<lambda>_. \<lparr>re_rand = None, re_canceled = None, re_result = None\<rparr>)
     = (Some (MaxRetryReached 0 None), [], []) \<and> length ([] :: string option list) = 0"
proof -
  let ?run = "DoWithRetryAndIsRetryable (\<lambda>_. 0) (DefaultConfig\<lparr>rt_max_attempts := 0\<rparr>) (\<lambda>_. True)
     (\<lambda>_. \<lparr>re_rand = None, re_canceled = None, re_result = None\<rparr>)"
  have "?run = (Some (MaxRetryReached 0 None), [], [])"
    by (simp add: DoWithRetryAndIsRetryable_def retry_loop.simps DefaultConfig_def)
  with retry_calls [OF this] show ?thesis by simp
qed

text \<open>
  \<open>retry.calculateDelay\<close> converts to an \<open>int64\<close> before it compares with
  \<open>MaxDelay\<close>. Where the platform turns an out-of-range conversion into the least \<open>int64\<close>,
  the 34th retry of the default configuration waits a negative time, that is not at all,
  while the reconnect manager's delay with the same parameters stays at its maximum.
\<close>

theorem retry_delay_overflows:
  "rt_calculateDelay (\<lambda>_. - (2 ^ 63)) DefaultConfig 34 = - (2 ^ 63) \<and>
   rm_calculateDelay (\<lambda>_. - (2 ^ 63)) (DefaultReconnectConfig\<lparr>rc_initial_delay := 2 * second,
     rc_jitter := False\<rparr>) nanos 34 = 60 * second"
  by (simp add: rt_calculateDelay_def DefaultConfig_def float_to_duration_def go_trunc_def
      rm_calculateDelay_def rm_float_delay_def DefaultReconnectConfig_def Let_def)

end
