(* ===== verification/ResultQueue.thy ===== *)
theory ResultQueue
  imports Prelude "HOL-Library.Sublist"
begin

text \<open>
  \<open>backend/check-worker/internal/queue/result_queue.go\<close>: the bounded queue in which a
  worker keeps check results while the monitor service is unreachable. Every method holds
  the mutex, so it is one atomic step; the clock reading is an argument. A result is
  opaque (\<open>'r\<close>). The cleanup goroutine is the step \<open>cleanupLocked\<close>.
\<close>

section \<open>The contract of an ordered queue\<close>

text \<open>
  What a client relies on: a step may drop items but never reorders, invents or repeats
  them. \<open>out\<close> is what the step hands to its caller, \<open>inp\<close> what it takes in.
\<close>

locale ordered_queue =
  fixes items :: "'q \<Rightarrow> 'a list"
    and step :: "'o \<Rightarrow> 'q \<Rightarrow> 'q"
    and out :: "'o \<Rightarrow> 'q \<Rightarrow> 'a list"
    and inp :: "'o \<Rightarrow> 'a list"
  assumes step_order: "subseq (out op q @ items (step op q)) (items q @ inp op)"
begin

primrec run :: "'o list \<Rightarrow> 'q \<Rightarrow> 'q" where
  "run [] q = q"
| "run (op # ops) q = run ops (step op q)"

primrec outs :: "'o list \<Rightarrow> 'q \<Rightarrow> 'a list" where
  "outs [] q = []"
| "outs (op # ops) q = out op q @ outs ops (step op q)"

lemma run_order: "subseq (outs ops q @ items (run ops q)) (items q @ concat (map inp ops))"
proof (induction ops arbitrary: q)
  case Nil
  then show ?case by simp
next
  case (Cons op ops)
  have rest: "subseq (out op q @ (outs ops (step op q) @ items (run ops (step op q))))
      (out op q @ (items (step op q) @ concat (map inp ops)))"
    by (intro list_emb_append_mono Cons.IH subseq_order.order_refl)
  have first: "subseq ((out op q @ items (step op q)) @ concat (map inp ops))
      ((items q @ inp op) @ concat (map inp ops))"
    by (intro list_emb_append_mono step_order subseq_order.order_refl)
  show ?case using subseq_order.order_trans [OF rest] first by simp
qed

lemma run_outs_subseq:
  "items q = [] \<Longrightarrow> subseq (outs ops q) (concat (map inp ops))"
  using run_order [of ops q] by (auto intro: subseq_order.order_trans dest: list_emb_appendD)

end

section \<open>State and operations\<close>

record 'r queued_result =
  qr_result :: 'r
  qr_monitor_id :: string
  qr_queued_at :: time
  qr_attempt_count :: int
  qr_retry_after :: time

record 'r result_queue =
  rq_items :: "'r queued_result list"
  rq_max_size :: int
  rq_dropped :: int
  rq_ttl :: duration

definition NewResultQueue :: "int \<Rightarrow> duration \<Rightarrow> 'r result_queue" where
  "NewResultQueue maxSize ttl =
     \<lparr>rq_items = [], rq_max_size = (if maxSize \<le> 0 then 1000 else maxSize), rq_dropped = 0,
      rq_ttl = (if ttl \<le> 0 then 24 * hour else ttl)\<rparr>"

text \<open>The loop of \<open>cleanupLocked\<close>: the index of the first item after the cutoff.\<close>

fun first_fresh :: "time \<Rightarrow> 'r queued_result list \<Rightarrow> nat" where
  "first_fresh cutoff [] = 0"
| "first_fresh cutoff (x # xs) =
     (if cutoff < qr_queued_at x then 0 else Suc (first_fresh cutoff xs))"

definition cleanupLocked :: "time \<Rightarrow> 'r result_queue \<Rightarrow> 'r result_queue" where
  "cleanupLocked now q =
     (if rq_ttl q \<le> 0 then q
      else let i = first_fresh (now - rq_ttl q) (rq_items q)
           in if 0 < i then q\<lparr>rq_items := drop i (rq_items q)\<rparr> else q)"

definition queue_item :: "'r \<Rightarrow> string \<Rightarrow> time \<Rightarrow> 'r queued_result" where
  "queue_item r m now = \<lparr>qr_result = r, qr_monitor_id = m, qr_queued_at = now,
     qr_attempt_count = 0, qr_retry_after = zero_time\<rparr>"

definition Enqueue :: "time \<Rightarrow> 'r \<Rightarrow> string \<Rightarrow> 'r result_queue \<Rightarrow> bool \<times> 'r result_queue" where
  "Enqueue now r m q =
     (let item = queue_item r m now; q = cleanupLocked now q in
      if rq_max_size q \<le> int (length (rq_items q))
      then (False, q\<lparr>rq_items := tl (rq_items q) @ [item], rq_dropped := rq_dropped q + 1\<rparr>)
      else (True, q\<lparr>rq_items := rq_items q @ [item]\<rparr>))"

definition Dequeue :: "'r result_queue \<Rightarrow> 'r queued_result option \<times> 'r result_queue" where
  "Dequeue q = (case rq_items q of [] \<Rightarrow> (None, q) | x # xs \<Rightarrow> (Some x, q\<lparr>rq_items := xs\<rparr>))"

text \<open>The outer option is a panic: slicing with a negative bound.\<close>

definition DequeueBatch ::
    "int \<Rightarrow> 'r result_queue \<Rightarrow> ('r queued_result list option \<times> 'r result_queue) option" where
  "DequeueBatch batchSize q =
     (if rq_items q = [] then Some (None, q)
      else let n = (if batchSize > int (length (rq_items q)) then int (length (rq_items q))
                    else batchSize)
           in if n < 0 then None
              else Some (Some (take (nat n) (rq_items q)), q\<lparr>rq_items := drop (nat n) (rq_items q)\<rparr>))"

definition Size :: "'r result_queue \<Rightarrow> int" where
  "Size q = int (length (rq_items q))"

definition IsFull :: "'r result_queue \<Rightarrow> bool" where
  "IsFull q \<longleftrightarrow> rq_max_size q \<le> int (length (rq_items q))"

definition Clear :: "'r result_queue \<Rightarrow> int \<times> 'r result_queue" where
  "Clear q = (int (length (rq_items q)), q\<lparr>rq_items := []\<rparr>)"

record queue_stats =
  qs_size :: int
  qs_max_size :: int
  qs_dropped :: int
  qs_oldest :: "time option"
  qs_newest :: "time option"

definition Stats :: "'r result_queue \<Rightarrow> queue_stats" where
  "Stats q = \<lparr>qs_size = int (length (rq_items q)), qs_max_size = rq_max_size q,
     qs_dropped = rq_dropped q,
     qs_oldest = (if rq_items q = [] then None else Some (qr_queued_at (hd (rq_items q)))),
     qs_newest = (if rq_items q = [] then None else Some (qr_queued_at (last (rq_items q))))\<rparr>"

section \<open>Invariant\<close>

text \<open>
  \<open>now\<close> is a time not before any clock reading so far: the items are in the order of
  their timestamps, within the capacity.
\<close>

definition rq_inv :: "time \<Rightarrow> 'r result_queue \<Rightarrow> bool" where
  "rq_inv now q \<longleftrightarrow> 0 < rq_max_size q \<and> 0 < rq_ttl q \<and> 0 \<le> rq_dropped q \<and>
     int (length (rq_items q)) \<le> rq_max_size q \<and>
     sorted (map qr_queued_at (rq_items q)) \<and>
     (\<forall>x \<in> set (rq_items q). qr_queued_at x \<le> now)"

lemma drop_first_fresh:
  "drop (first_fresh c xs) xs = dropWhile (\<lambda>x. qr_queued_at x \<le> c) xs"
  by (induction xs) (auto simp: not_le)

lemma cleanupLocked_items:
  "rq_items (cleanupLocked now q) =
     (if rq_ttl q \<le> 0 then rq_items q
      else dropWhile (\<lambda>x. qr_queued_at x \<le> now - rq_ttl q) (rq_items q))"
  by (auto simp: cleanupLocked_def Let_def drop_first_fresh [symmetric])

lemma cleanupLocked_frame [simp, frame_simps]:
  "rq_max_size (cleanupLocked now q) = rq_max_size q"
  "rq_dropped (cleanupLocked now q) = rq_dropped q"
  "rq_ttl (cleanupLocked now q) = rq_ttl q"
  by (auto simp: cleanupLocked_def Let_def)

lemma sorted_dropWhile_key: "sorted (map f xs) \<Longrightarrow> sorted (map f (dropWhile p xs))"
  by (metis dropWhile_eq_drop drop_map sorted_wrt_drop)

lemma sorted_dropWhile_le:
  fixes f :: "'a \<Rightarrow> 'b::linorder"
  shows "sorted (map f xs) \<Longrightarrow> x \<in> set (dropWhile (\<lambda>y. f y \<le> c) xs) \<Longrightarrow> c < f x"
  by (induction xs) (force split: if_splits)+

lemma rq_inv_New [inv_intros]: "rq_inv now (NewResultQueue n ttl)"
  by (simp add: rq_inv_def NewResultQueue_def)

lemma rq_inv_mono: "rq_inv t q \<Longrightarrow> t \<le> t' \<Longrightarrow> rq_inv t' q"
  by (force simp: rq_inv_def)

lemma rq_inv_cleanup [inv_intros]: "rq_inv now q \<Longrightarrow> rq_inv now (cleanupLocked t q)"
proof -
  assume a: "rq_inv now q"
  then have "length (rq_items (cleanupLocked t q)) \<le> length (rq_items q)"
    by (simp add: cleanupLocked_items length_dropWhile_le)
  with a show ?thesis
    by (auto simp: rq_inv_def cleanupLocked_items sorted_dropWhile_key dest: set_dropWhileD)
qed

lemma rq_inv_append:
  assumes "rq_inv now q" and "now \<le> t" and "int (length (rq_items q)) < rq_max_size q"
  shows "rq_inv t (q\<lparr>rq_items := rq_items q @ [queue_item r m t]\<rparr>)"
  using assms by (force simp: rq_inv_def queue_item_def sorted_append)

lemma rq_inv_evict:
  assumes "rq_inv now q" and "now \<le> t" and "rq_items q \<noteq> []"
  shows "rq_inv t (q\<lparr>rq_items := tl (rq_items q) @ [queue_item r m t],
    rq_dropped := rq_dropped q + 1\<rparr>)"
  using assms
  by (cases "rq_items q") (force simp: rq_inv_def queue_item_def sorted_append)+

lemma rq_inv_Enqueue [inv_intros]:
  assumes "rq_inv now q" and "now \<le> t"
  shows "rq_inv t (snd (Enqueue t r m q))"
proof -
  have c: "rq_inv now (cleanupLocked t q)" using assms(1) by (rule rq_inv_cleanup)
  then have "rq_max_size q \<le> int (length (rq_items (cleanupLocked t q))) \<Longrightarrow>
      rq_items (cleanupLocked t q) \<noteq> []"
    by (auto simp: rq_inv_def)
  then show ?thesis
    using rq_inv_append [OF c assms(2), of r m] rq_inv_evict [OF c assms(2), of r m]
    by (auto simp: Enqueue_def Let_def not_le)
qed

lemma rq_inv_Dequeue [inv_intros]: "rq_inv now q \<Longrightarrow> rq_inv now (snd (Dequeue q))"
  by (auto simp: rq_inv_def Dequeue_def split: list.splits)

lemma rq_inv_DequeueBatch:
  "rq_inv now q \<Longrightarrow> DequeueBatch n q = Some (b, q') \<Longrightarrow> rq_inv now q'"
  by (auto simp: rq_inv_def DequeueBatch_def Let_def drop_map [symmetric] sorted_wrt_drop
      split: if_splits) (blast dest: in_set_dropD)

lemma rq_inv_Clear [inv_intros]: "rq_inv now q \<Longrightarrow> rq_inv now (snd (Clear q))"
  by (auto simp: rq_inv_def Clear_def)

section \<open>Runs\<close>

datatype 'r queue_op =
  OpEnqueue time 'r string | OpDequeue | OpDequeueBatch nat | OpCleanup time | OpClear

fun queue_step :: "'r queue_op \<Rightarrow> 'r result_queue \<Rightarrow> 'r result_queue" where
  "queue_step (OpEnqueue t r m) q = snd (Enqueue t r m q)"
| "queue_step OpDequeue q = snd (Dequeue q)"
| "queue_step (OpDequeueBatch n) q = snd (the (DequeueBatch (int n) q))"
| "queue_step (OpCleanup t) q = cleanupLocked t q"
| "queue_step OpClear q = snd (Clear q)"

fun queue_out :: "'r queue_op \<Rightarrow> 'r result_queue \<Rightarrow> 'r queued_result list" where
  "queue_out OpDequeue q = (case fst (Dequeue q) of None \<Rightarrow> [] | Some x \<Rightarrow> [x])"
| "queue_out (OpDequeueBatch n) q =
     (case fst (the (DequeueBatch (int n) q)) of None \<Rightarrow> [] | Some xs \<Rightarrow> xs)"
| "queue_out _ q = []"

fun queue_inp :: "'r queue_op \<Rightarrow> 'r queued_result list" where
  "queue_inp (OpEnqueue t r m) = [queue_item r m t]"
| "queue_inp _ = []"

lemma subseq_dropWhile: "subseq (dropWhile p xs) xs"
  by (metis list_emb_append2 subseq_order.order_refl takeWhile_dropWhile_id)

lemma in_set_tlD: "x \<in> set (tl xs) \<Longrightarrow> x \<in> set xs"
  by (cases xs) auto

lemma subseq_tl: "subseq (tl xs) xs"
  by (cases xs) auto

lemma queue_step_order:
  "subseq (queue_out op q @ rq_items (queue_step op q)) (rq_items q @ queue_inp op)"
proof (cases op)
  case (OpEnqueue t r m)
  have c: "subseq (rq_items (cleanupLocked t q)) (rq_items q)"
    by (simp add: cleanupLocked_items subseq_dropWhile)
  then have "subseq (tl (rq_items (cleanupLocked t q))) (rq_items q)"
    using subseq_tl subseq_order.order_trans by blast
  with c OpEnqueue show ?thesis
    by (auto simp: Enqueue_def Let_def intro!: list_emb_append_mono)
qed (auto simp: Dequeue_def DequeueBatch_def Clear_def Let_def cleanupLocked_items
      subseq_dropWhile split: list.splits)

interpretation rq: ordered_queue rq_items queue_step queue_out queue_inp
  by unfold_locales (rule queue_step_order)

section \<open>Properties\<close>

text \<open>
  Every method keeps the queue's invariant, and an insertion never leaves more
  than \<open>maxSize\<close> items nor an item older than the TTL: with timestamps in order, removing the
  expired prefix removes every expired item. The new result is always the last one.
\<close>

theorem Enqueue_bounded_and_fresh:
  assumes "rq_inv now q" and "now \<le> t"
  shows "rq_inv t (snd (Enqueue t r m q)) \<and>
    Size (snd (Enqueue t r m q)) \<le> rq_max_size q \<and>
    last (rq_items (snd (Enqueue t r m q))) = queue_item r m t \<and>
    (\<forall>x \<in> set (rq_items (snd (Enqueue t r m q))). t - rq_ttl q < qr_queued_at x)"
proof -
  have inv: "rq_inv t (snd (Enqueue t r m q))"
    using assms by (rule rq_inv_Enqueue)
  have "x \<in> set (rq_items (cleanupLocked t q)) \<Longrightarrow> t - rq_ttl q < qr_queued_at x" for x
    using assms(1) by (auto simp: rq_inv_def cleanupLocked_items dest: sorted_dropWhile_le)
  moreover have "set (rq_items (snd (Enqueue t r m q)))
      \<subseteq> insert (queue_item r m t) (set (rq_items (cleanupLocked t q)))"
    by (auto simp: Enqueue_def Let_def dest: in_set_tlD)
  moreover have "t - rq_ttl q < qr_queued_at (queue_item r m t)"
    using assms(1) by (simp add: queue_item_def rq_inv_def)
  ultimately have "\<forall>x \<in> set (rq_items (snd (Enqueue t r m q))). t - rq_ttl q < qr_queued_at x"
    by blast
  moreover have "rq_max_size (snd (Enqueue t r m q)) = rq_max_size q"
    by (simp add: Enqueue_def Let_def)
  moreover have "last (rq_items (snd (Enqueue t r m q))) = queue_item r m t"
    by (simp add: Enqueue_def Let_def)
  ultimately show ?thesis
    using inv by (simp add: rq_inv_def Size_def)
qed

theorem Enqueue_bounded_and_fresh_witness:
  "Size (snd (Enqueue 5 ''b'' ''m'' (snd (Enqueue 1 ''a'' ''m'' (NewResultQueue 1 100))))) \<le> 1"
proof -
  have "rq_inv 1 (snd (Enqueue 1 ''a'' ''m'' (NewResultQueue 1 100)))"
    by (rule rq_inv_Enqueue [OF rq_inv_New order.refl])
  from Enqueue_bounded_and_fresh [OF this, of 5 "''b''" "''m''"]
  have "Size (snd (Enqueue 5 ''b'' ''m'' (snd (Enqueue 1 ''a'' ''m'' (NewResultQueue 1 100)))))
      \<le> rq_max_size (snd (Enqueue 1 ''a'' ''m'' (NewResultQueue 1 100)))"
    by simp
  also have "\<dots> = 1" by (simp add: Enqueue_def NewResultQueue_def Let_def)
  finally show ?thesis .
qed

text \<open>
  Property C38. Whatever operations run, the results taken from a new queue, followed by those
  still in it, are a subsequence of the results put in: results may be dropped, by overflow,
  expiry or \<open>Clear\<close>, but never reordered, duplicated or invented.
\<close>

theorem result_queue_fifo:
  "subseq (rq.outs ops (NewResultQueue n ttl) @ rq_items (rq.run ops (NewResultQueue n ttl)))
     (concat (map queue_inp ops))"
  using rq.run_order [of ops "NewResultQueue n ttl"] by (simp add: NewResultQueue_def)

text \<open>
  An insertion accounts for every item: exactly one item is dropped, and counted,
  when the queue is full after the cleanup, and then the result is \<open>False\<close>; otherwise
  nothing is dropped.
\<close>

theorem Enqueue_accounts:
  assumes "rq_inv now q" and "Enqueue t r m q = (added, q')"
  shows "(added \<longleftrightarrow> rq_dropped q' = rq_dropped q) \<and>
    Size q' + (rq_dropped q' - rq_dropped q) = Size (cleanupLocked t q) + 1 \<and>
    (\<not> added \<longrightarrow> IsFull q' \<and> tl (rq_items (cleanupLocked t q)) = butlast (rq_items q'))"
proof -
  have "rq_inv now (cleanupLocked t q)" using assms(1) by (rule rq_inv_cleanup)
  then show ?thesis
    using assms(2)
    by (cases "rq_items (cleanupLocked t q)")
       (auto simp: Enqueue_def Let_def Size_def IsFull_def rq_inv_def split: if_splits)
qed

theorem Enqueue_accounts_witness:
  "\<exists>q'. Enqueue 5 ''b'' ''m'' (snd (Enqueue 1 ''a'' ''m'' (NewResultQueue 1 100))) = (False, q') \<and>
     IsFull q'"
proof -
  let ?q = "snd (Enqueue 1 ''a'' ''m'' (NewResultQueue 1 100))"
  have inv: "rq_inv 1 ?q" by (rule rq_inv_Enqueue [OF rq_inv_New order.refl])
  obtain q' where q': "Enqueue 5 ''b'' ''m'' ?q = (False, q')"
    by (simp add: Enqueue_def NewResultQueue_def cleanupLocked_def queue_item_def Let_def)
  with Enqueue_accounts [OF inv q'] show ?thesis by blast
qed

end
