(* ===== verification/ResultBatcher.thy ===== *)
theory ResultBatcher
  imports Prelude "HOL-Library.AList"
begin

text \<open>
  \<open>backend/check-worker/internal/client/result_batcher.go\<close>: results are collected by
  check id and sent in batches. \<open>flush\<close> releases the mutex while it submits, so it is two
  atomic steps, \<open>flush_take\<close> and \<open>flush_finish\<close>, and any other method may run in
  between; a batch that is being submitted is in \<open>rb_inflight\<close>. A Go map is an association
  list with distinct keys. \<open>rb_delivered\<close> is a ghost: the batches the monitor service
  accepted, newest first; no code reads it.
\<close>

section \<open>State and operations\<close>

type_synonym 'r batch = "(string \<times> 'r) list"

record 'r result_batcher =
  rb_max_batch_size :: int
  rb_pending :: "'r batch"
  rb_sent :: "(string \<times> time) list"
  rb_inflight :: "'r batch list"
  rb_total_batches :: int
  rb_total_results :: int
  rb_duplicates :: int
  rb_delivered :: "'r batch list"

definition NewResultBatcher :: "int \<Rightarrow> 'r result_batcher" where
  "NewResultBatcher n = \<lparr>rb_max_batch_size = n, rb_pending = [], rb_sent = [], rb_inflight = [],
     rb_total_batches = 0, rb_total_results = 0, rb_duplicates = 0, rb_delivered = []\<rparr>"

text \<open>The flag says whether a goroutine that flushes was started.\<close>

definition AddResult :: "string \<Rightarrow> 'r \<Rightarrow> 'r result_batcher \<Rightarrow> bool \<times> 'r result_batcher" where
  "AddResult checkID r b =
     (if map_of (rb_sent b) checkID \<noteq> None
      then (False, b\<lparr>rb_duplicates := rb_duplicates b + 1\<rparr>)
      else let b = b\<lparr>rb_pending := AList.update checkID r (rb_pending b)\<rparr>
           in (rb_max_batch_size b \<le> int (length (rb_pending b)), b))"

definition flush_take :: "'r result_batcher \<Rightarrow> 'r result_batcher" where
  "flush_take b =
     (if rb_pending b = [] then b
      else b\<lparr>rb_inflight := rb_inflight b @ [rb_pending b], rb_pending := []\<rparr>)"

definition put_back :: "'r batch \<Rightarrow> 'r batch \<Rightarrow> 'r batch" where
  "put_back results pending = fold (\<lambda>(k, r). AList.update k r) results pending"

definition mark_sent :: "time \<Rightarrow> 'r batch \<Rightarrow> (string \<times> time) list \<Rightarrow> (string \<times> time) list" where
  "mark_sent now results sent = fold (\<lambda>(k, r). AList.update k now) results sent"

text \<open>The batch at position \<open>i\<close> comes back: \<open>ok\<close> is whether \<open>SubmitCheckResults\<close> succeeded.\<close>

definition flush_finish :: "bool \<Rightarrow> nat \<Rightarrow> time \<Rightarrow> 'r result_batcher \<Rightarrow> 'r result_batcher" where
  "flush_finish ok i now b =
     (let results = rb_inflight b ! i;
          rest = take i (rb_inflight b) @ drop (Suc i) (rb_inflight b)
      in if \<not> ok
         then b\<lparr>rb_inflight := rest, rb_pending := put_back results (rb_pending b)\<rparr>
         else b\<lparr>rb_inflight := rest, rb_sent := mark_sent now results (rb_sent b),
                rb_total_results := rb_total_results b + int (length results),
                rb_total_batches := rb_total_batches b + 1,
                rb_delivered := results # rb_delivered b\<rparr>)"

definition cleanupOldRecords :: "time \<Rightarrow> 'r result_batcher \<Rightarrow> 'r result_batcher" where
  "cleanupOldRecords now b =
     b\<lparr>rb_sent := filter (\<lambda>(k, t). \<not> t < now - 24 * hour) (rb_sent b)\<rparr>"

record batcher_stats =
  bs_pending :: int
  bs_batches :: int
  bs_results :: int
  bs_duplicates :: int
  bs_sent_ids :: int

definition batcher_GetStats :: "'r result_batcher \<Rightarrow> batcher_stats" where
  "batcher_GetStats b = \<lparr>bs_pending = int (length (rb_pending b)),
     bs_batches = rb_total_batches b, bs_results = rb_total_results b,
     bs_duplicates = rb_duplicates b, bs_sent_ids = int (length (rb_sent b))\<rparr>"

section \<open>Steps\<close>

text \<open>
  \<open>Flush\<close>, the ticker, the goroutine of \<open>AddResult\<close> and \<open>Close\<close> all call
  \<open>flush\<close>, so a take may happen at any time. The ghost set \<open>acc\<close> collects the check ids
  that \<open>AddResult\<close> accepted, each with its result.
\<close>

type_synonym 'r rb_config = "(string \<times> 'r) set \<times> 'r result_batcher"

inductive rb_step :: "'r rb_config \<Rightarrow> 'r rb_config \<Rightarrow> bool" where
  rb_add: "map_of (rb_sent b) k = None \<Longrightarrow> rb_step (acc, b) (insert (k, r) acc, snd (AddResult k r b))"
| rb_dup: "map_of (rb_sent b) k \<noteq> None \<Longrightarrow> rb_step (acc, b) (acc, snd (AddResult k r b))"
| rb_take: "rb_step (acc, b) (acc, flush_take b)"
| rb_finish: "i < length (rb_inflight b) \<Longrightarrow> rb_step (acc, b) (acc, flush_finish ok i now b)"
| rb_clean: "rb_step (acc, b) (acc, cleanupOldRecords now b)"

inductive rb_reachable :: "'r rb_config \<Rightarrow> bool" where
  rb_init: "rb_reachable ({}, NewResultBatcher n)"
| rb_next: "rb_reachable s \<Longrightarrow> rb_step s s' \<Longrightarrow> rb_reachable s'"

definition keys :: "(string \<times> 'v) list \<Rightarrow> string set" where
  "keys m = fst ` set m"

definition somewhere :: "'r result_batcher \<Rightarrow> (string \<times> 'r) set" where
  "somewhere b = set (rb_pending b) \<union> (\<Union>m \<in> set (rb_inflight b). set m)
     \<union> (\<Union>m \<in> set (rb_delivered b). set m)"

definition rb_inv :: "(string \<times> 'r) set \<Rightarrow> 'r result_batcher \<Rightarrow> bool" where
  "rb_inv acc b \<longleftrightarrow> fst ` somewhere b = fst ` acc \<and> somewhere b \<subseteq> acc \<and>
     keys (rb_sent b) \<subseteq> (\<Union>m \<in> set (rb_delivered b). keys m) \<and>
     rb_total_batches b = int (length (rb_delivered b)) \<and>
     rb_total_results b = int (length (concat (rb_delivered b))) \<and>
     distinct (map fst (rb_pending b)) \<and> (\<forall>m \<in> set (rb_inflight b). distinct (map fst m))"

lemma fst_somewhere: "fst ` somewhere b = keys (rb_pending b) \<union> (\<Union>m \<in> set (rb_inflight b). keys m)
     \<union> (\<Union>m \<in> set (rb_delivered b). keys m)"
  by (auto simp: somewhere_def keys_def image_Un image_UN)

lemma set_update_sub: "set (AList.update k v m) \<subseteq> insert (k, v) (set m)"
  by (induction m) auto

lemma set_put_back_sub: "set (put_back m p) \<subseteq> set m \<union> set p"
  unfolding put_back_def
proof (induction m arbitrary: p)
  case Nil
  then show ?case by simp
next
  case (Cons x m)
  show ?case using Cons.IH [of "AList.update (fst x) (snd x) p"] set_update_sub [of "fst x" "snd x" p]
    by (auto simp: split_beta)
qed

lemma keys_update [simp]: "keys (AList.update k v m) = insert k (keys m)"
  using dom_update [of k v m] by (simp add: keys_def)

lemma keys_Nil [simp]: "keys [] = {}"
  by (simp add: keys_def)

lemma keys_Cons [simp]: "keys (x # m) = insert (fst x) (keys m)"
  by (simp add: keys_def)

lemma keys_put_back [simp]: "keys (put_back m p) = keys m \<union> keys p"
  unfolding put_back_def by (induction m arbitrary: p) (auto simp: split_beta)

lemma keys_mark_sent [simp]: "keys (mark_sent t m s) = keys m \<union> keys s"
  unfolding mark_sent_def by (induction m arbitrary: s) (auto simp: split_beta)

lemma distinct_put_back [inv_intros]:
  "distinct (map fst p) \<Longrightarrow> distinct (map fst (put_back m p))"
  unfolding put_back_def by (induction m arbitrary: p) (auto simp: distinct_update)

lemma inflight_split:
  assumes "i < length xs"
  shows "set xs = insert (xs ! i) (set (take i xs @ drop (Suc i) xs))"
  using id_take_nth_drop [OF assms] by (metis Un_insert_right list.simps(15) set_append)

lemma rb_inv_init [inv_intros]: "rb_inv {} (NewResultBatcher n)"
  by (simp add: rb_inv_def NewResultBatcher_def somewhere_def)

lemma rb_inv_add [inv_intros]:
  assumes "rb_inv acc b" and "map_of (rb_sent b) k = None"
  shows "rb_inv (insert (k, r) acc) (snd (AddResult k r b))"
proof -
  have "fst ` somewhere (snd (AddResult k r b)) = insert k (fst ` somewhere b)"
    using assms(2) by (auto simp: fst_somewhere AddResult_def Let_def)
  moreover have "somewhere (snd (AddResult k r b)) \<subseteq> insert (k, r) (somewhere b)"
    using assms(2) set_update_sub [of k r "rb_pending b"]
    by (auto simp: somewhere_def AddResult_def Let_def)
  ultimately show ?thesis
    using assms by (auto simp: rb_inv_def AddResult_def Let_def distinct_update)
qed

lemma rb_inv_dup [inv_intros]:
  "rb_inv acc b \<Longrightarrow> map_of (rb_sent b) k \<noteq> None \<Longrightarrow> rb_inv acc (snd (AddResult k r b))"
  by (auto simp: rb_inv_def AddResult_def somewhere_def)

lemma somewhere_take [simp]: "somewhere (flush_take b) = somewhere b"
  by (auto simp: flush_take_def somewhere_def)

lemma rb_inv_take [inv_intros]: "rb_inv acc b \<Longrightarrow> rb_inv acc (flush_take b)"
  unfolding rb_inv_def somewhere_take by (auto simp: flush_take_def)

lemma rb_inv_finish [inv_intros]:
  assumes "rb_inv acc b" and "i < length (rb_inflight b)"
  shows "rb_inv acc (flush_finish ok i now b)"
proof -
  let ?rest = "take i (rb_inflight b) @ drop (Suc i) (rb_inflight b)"
  note split = inflight_split [OF assms(2)]
  have "fst ` somewhere (flush_finish ok i now b) = fst ` somewhere b"
    by (cases ok) (auto simp: fst_somewhere flush_finish_def Let_def split)
  moreover have "somewhere (flush_finish ok i now b) \<subseteq> somewhere b"
    using set_put_back_sub [of "rb_inflight b ! i" "rb_pending b"]
    by (cases ok) (auto simp: somewhere_def flush_finish_def Let_def split)
  moreover have "\<forall>m \<in> set ?rest. distinct (map fst m)"
    using assms(1) split by (simp add: rb_inv_def)
  ultimately show ?thesis
    using assms(1)
    by (cases ok) (auto simp: rb_inv_def flush_finish_def Let_def distinct_put_back)
qed

lemma rb_inv_clean [inv_intros]: "rb_inv acc b \<Longrightarrow> rb_inv acc (cleanupOldRecords now b)"
  by (auto simp: rb_inv_def cleanupOldRecords_def somewhere_def keys_def)

lemma rb_reachable_inv: "rb_reachable (acc, b) \<Longrightarrow> rb_inv acc b"
proof (induction "(acc, b)" arbitrary: acc b rule: rb_reachable.induct)
  case rb_init
  then show ?case by (auto intro: rb_inv_init)
next
  case (rb_next s)
  obtain acc0 b0 where s: "s = (acc0, b0)" by (cases s)
  with rb_next have "rb_inv acc0 b0" by simp
  with rb_next(3) show ?case unfolding s by (auto elim!: rb_step.cases intro: inv_intros)
qed

section \<open>Properties\<close>

text \<open>
  Property C13. In every reachable state, under every interleaving of additions, flushes that
  succeed or fail, and cleanups, the check id of each accepted result is waiting, being submitted
  or delivered, with a result accepted for it: a failed flush loses no check id, and no result is
  made up. A check id for which one result only was accepted has just that result there. (Of two
  results of the same check id one may go: a newer one replaces the one that waits, and a batch
  that fails is put back over a newer one, \<open>failed_batch_replaces_newer\<close>.) The counters agree
  with what was delivered.
\<close>

theorem accepted_results_not_lost:
  assumes "rb_reachable (acc, b)"
  shows "fst ` acc = keys (rb_pending b) \<union> (\<Union>m \<in> set (rb_inflight b). keys m)
      \<union> (\<Union>m \<in> set (rb_delivered b). keys m) \<and>
    set (rb_pending b) \<union> (\<Union>m \<in> set (rb_inflight b). set m) \<union> (\<Union>m \<in> set (rb_delivered b). set m) \<subseteq> acc \<and>
    (\<forall>(k, r) \<in> acc. (\<forall>r'. (k, r') \<in> acc \<longrightarrow> r' = r) \<longrightarrow>
       (k, r) \<in> set (rb_pending b) \<union> (\<Union>m \<in> set (rb_inflight b). set m) \<union> (\<Union>m \<in> set (rb_delivered b). set m)) \<and>
    bs_batches (batcher_GetStats b) = int (length (rb_delivered b)) \<and>
    bs_results (batcher_GetStats b) = int (length (concat (rb_delivered b)))"
proof -
  note inv = rb_reachable_inv [OF assms]
  have "(k, r) \<in> somewhere b" if "(k, r) \<in> acc" "\<forall>r'. (k, r') \<in> acc \<longrightarrow> r' = r" for k r
  proof -
    have "k \<in> fst ` acc" using that(1) by (rule rev_image_eqI) simp
    then have "k \<in> fst ` somewhere b" using inv by (simp only: rb_inv_def)
    then obtain r' where "(k, r') \<in> somewhere b" by auto
    moreover from this have "(k, r') \<in> acc" using inv unfolding rb_inv_def by blast
    ultimately show ?thesis using that(2) by blast
  qed
  then have pairs: "\<forall>(k, r) \<in> acc. (\<forall>r'. (k, r') \<in> acc \<longrightarrow> r' = r) \<longrightarrow> (k, r) \<in> somewhere b" by blast
  have ids: "fst ` acc = fst ` somewhere b" and sub: "somewhere b \<subseteq> acc"
    using inv unfolding rb_inv_def by blast+
  have "bs_batches (batcher_GetStats b) = int (length (rb_delivered b)) \<and>
      bs_results (batcher_GetStats b) = int (length (concat (rb_delivered b)))"
    using inv unfolding rb_inv_def by (simp add: batcher_GetStats_def)
  note all = conjI [OF ids [unfolded fst_somewhere] conjI [OF sub [unfolded somewhere_def]
    conjI [OF pairs [unfolded somewhere_def] this]]]
  show ?thesis by (rule all)
qed

text \<open>The runs of the witnesses below: the same check id is added again while its first result
  is being submitted, and then both batches succeed, or the first one fails.\<close>

definition added_twice :: "nat result_batcher" where
  "added_twice = snd (AddResult ''c1'' 8 (flush_take (snd (AddResult ''c1'' 7 (NewResultBatcher 10)))))"

definition resubmitted :: "nat result_batcher" where
  "resubmitted = flush_finish True 0 2 (flush_finish True 0 1 (flush_take added_twice))"

definition replaced :: "nat result_batcher" where
  "replaced = flush_finish False 0 1 added_twice"

lemmas batcher_eval = added_twice_def resubmitted_def replaced_def NewResultBatcher_def AddResult_def
  flush_take_def flush_finish_def put_back_def Let_def

lemma added_twice_reachable: "rb_reachable ({(''c1'', 8), (''c1'', 7)}, added_twice)"
proof -
  let ?b1 = "snd (AddResult ''c1'' (7::nat) (NewResultBatcher 10))"
  have "rb_reachable (insert (''c1'', 7) {}, ?b1)"
    by (rule rb_next [OF rb_init [of 10]]) (rule rb_add, simp add: batcher_eval)
  then have "rb_reachable (insert (''c1'', 7) {}, flush_take ?b1)" by (rule rb_next) (rule rb_take)
  then show ?thesis unfolding added_twice_def
    by (rule rb_next) (rule rb_add, simp add: batcher_eval)
qed

lemma resubmitted_reachable: "rb_reachable ({(''c1'', 8), (''c1'', 7)}, resubmitted)"
proof -
  have "rb_reachable ({(''c1'', 8), (''c1'', 7)}, flush_take added_twice)"
    by (rule rb_next [OF added_twice_reachable]) (rule rb_take)
  then have "rb_reachable ({(''c1'', 8), (''c1'', 7)}, flush_finish True 0 1 (flush_take added_twice))"
    by (rule rb_next) (rule rb_finish, simp add: batcher_eval)
  then show ?thesis
    unfolding resubmitted_def by (rule rb_next) (rule rb_finish, simp add: batcher_eval)
qed

lemma resubmitted_delivered: "rb_delivered resubmitted = [[(''c1'', 8)], [(''c1'', 7)]]"
  by (simp add: batcher_eval)

definition added_once :: "nat result_batcher" where
  "added_once = flush_finish False 0 1 (flush_take (snd (AddResult ''c1'' 7 (NewResultBatcher 10))))"

text \<open>One result, whose batch fails.\<close>

theorem accepted_results_not_lost_witness:
  "(''c1'', 7) \<in> set (rb_pending added_once) \<union> (\<Union>m \<in> set (rb_inflight added_once). set m)
      \<union> (\<Union>m \<in> set (rb_delivered added_once). set m)"
proof -
  let ?b1 = "snd (AddResult ''c1'' (7::nat) (NewResultBatcher 10))"
  have "rb_reachable (insert (''c1'', 7) {}, ?b1)"
    by (rule rb_next [OF rb_init [of 10]]) (rule rb_add, simp add: batcher_eval)
  then have "rb_reachable (insert (''c1'', 7) {}, flush_take ?b1)" by (rule rb_next) (rule rb_take)
  then have "rb_reachable ({(''c1'', 7)}, added_once)" unfolding added_once_def
    by (rule rb_next) (rule rb_finish, simp add: batcher_eval)
  from accepted_results_not_lost [OF this] show ?thesis by (simp only: ball_simps split_conv) simp
qed

text \<open>
  The duplicate check looks only at check ids whose batch has returned. A result
  whose id is still being submitted is accepted again, and the monitor service can receive
  two results for one check id, with no duplicate counted.
\<close>

theorem duplicate_while_in_flight:
  "\<exists>b :: nat result_batcher. rb_reachable ({(''c1'', 8), (''c1'', 7)}, b) \<and> rb_duplicates b = 0 \<and>
     rb_delivered b = [[(''c1'', 8)], [(''c1'', 7)]]"
  by (intro exI [of _ resubmitted] conjI resubmitted_reachable resubmitted_delivered)
    (simp add: batcher_eval)

text \<open>
  A batch that fails is put back over what waits: of a check id that was added again meanwhile
  the older result stays and the newer one is gone, neither waiting nor submitted nor delivered.
\<close>

theorem failed_batch_replaces_newer:
  "\<exists>b :: nat result_batcher. rb_reachable ({(''c1'', 8), (''c1'', 7)}, b) \<and>
     rb_pending b = [(''c1'', 7)] \<and> rb_inflight b = [] \<and> rb_delivered b = []"
proof (intro exI conjI)
  show "rb_reachable ({(''c1'', 8), (''c1'', 7)}, replaced)" unfolding replaced_def
    by (rule rb_next [OF added_twice_reachable]) (rule rb_finish, simp add: batcher_eval)
qed (simp_all add: batcher_eval)

end
