(* ===== verification/MaintenanceCache.thy ===== *)
theory MaintenanceCache
  imports Prelude
begin

text \<open>
  \<open>backend/check-worker/internal/executor/maintenance_checker.go\<close>: the worker's cache of
  active maintenance windows and the decision to skip a check. One call reads the clock
  several times; the model reads it once per call. The two arguments of a refresh are what
  the outside decides: whether \<open>refreshMux.TryLock\<close> succeeds and what the client returns.
\<close>

section \<open>State and operations\<close>

record mw_window =
  mw_id :: string
  mw_monitor_id :: string
  mw_start :: time
  mw_end :: time
  mw_pause :: bool
  mw_global :: bool

definition mw_IsActive :: "time \<Rightarrow> mw_window \<Rightarrow> bool" where
  "mw_IsActive now w \<longleftrightarrow> now = mw_start w \<or> (mw_start w < now \<and> now < mw_end w)"

definition mw_AffectsMonitor :: "time \<Rightarrow> string \<Rightarrow> mw_window \<Rightarrow> bool" where
  "mw_AffectsMonitor now monitorID w =
     (if \<not> mw_IsActive now w then False
      else if mw_global w then True
      else mw_monitor_id w = monitorID)"

record mw_cache =
  mc_windows :: "mw_window list"
  mc_last_sync :: time
  mc_ttl :: duration

definition NewMaintenanceCache :: "duration \<Rightarrow> mw_cache" where
  "NewMaintenanceCache ttl = \<lparr>mc_windows = [], mc_last_sync = zero_time, mc_ttl = ttl\<rparr>"

definition ShouldRefresh :: "time \<Rightarrow> mw_cache \<Rightarrow> bool" where
  "ShouldRefresh now c =
     (if mc_last_sync c = zero_time then True else mc_ttl c < now - mc_last_sync c)"

definition mc_Update :: "time \<Rightarrow> mw_window list \<Rightarrow> mw_cache \<Rightarrow> mw_cache" where
  "mc_Update now ws c = c\<lparr>mc_windows := ws, mc_last_sync := now\<rparr>"

fun first_affecting :: "time \<Rightarrow> string \<Rightarrow> mw_window list \<Rightarrow> mw_window option" where
  "first_affecting now m [] = None"
| "first_affecting now m (w # ws) =
     (if mw_AffectsMonitor now m w then Some w else first_affecting now m ws)"

definition IsMonitorInMaintenance :: "time \<Rightarrow> string \<Rightarrow> mw_cache \<Rightarrow> bool" where
  "IsMonitorInMaintenance now m c \<longleftrightarrow> first_affecting now m (mc_windows c) \<noteq> None"

definition GetActiveWindowForMonitor :: "time \<Rightarrow> string \<Rightarrow> mw_cache \<Rightarrow> mw_window option" where
  "GetActiveWindowForMonitor now m c = first_affecting now m (mc_windows c)"

definition mc_refreshCache ::
    "bool \<Rightarrow> string + mw_window list \<Rightarrow> time \<Rightarrow> mw_cache \<Rightarrow> string option \<times> mw_cache" where
  "mc_refreshCache locked fetched now c =
     (if \<not> locked then (None, c)
      else if \<not> ShouldRefresh now c then (None, c)
      else case fetched of Inl e \<Rightarrow> (Some e, c) | Inr ws \<Rightarrow> (None, mc_Update now ws c))"

definition ForceRefresh ::
    "string + mw_window list \<Rightarrow> time \<Rightarrow> mw_cache \<Rightarrow> string option \<times> mw_cache" where
  "ForceRefresh fetched now c =
     (case fetched of Inl e \<Rightarrow> (Some e, c) | Inr ws \<Rightarrow> (None, mc_Update now ws c))"

text \<open>The third component of the result is the error, which the code always leaves nil.\<close>

definition ShouldSkipCheck ::
    "bool \<Rightarrow> string + mw_window list \<Rightarrow> time \<Rightarrow> string \<Rightarrow> mw_cache \<Rightarrow>
     (bool \<times> mw_window option \<times> string option) \<times> mw_cache" where
  "ShouldSkipCheck locked fetched now m c =
     (let c = (if ShouldRefresh now c then snd (mc_refreshCache locked fetched now c) else c)
      in case GetActiveWindowForMonitor now m c of
           Some w \<Rightarrow> ((True, Some w, None), c)
         | None \<Rightarrow> ((False, None, None), c))"

section \<open>Lemmas\<close>

lemma first_affecting_eq_find: "first_affecting now m ws = List.find (mw_AffectsMonitor now m) ws"
  by (induction ws) auto

lemma first_affecting_None_iff:
  "first_affecting now m ws = None \<longleftrightarrow> (\<forall>w \<in> set ws. \<not> mw_AffectsMonitor now m w)"
  by (auto simp: first_affecting_eq_find find_None_iff)

lemma first_affecting_SomeD:
  "first_affecting now m ws = Some w \<Longrightarrow> w \<in> set ws \<and> mw_AffectsMonitor now m w"
  by (simp add: first_affecting_eq_find find_Some_inD)

text \<open>The windows a decision at \<open>now\<close> is based on.\<close>

definition known_windows ::
    "bool \<Rightarrow> string + mw_window list \<Rightarrow> time \<Rightarrow> mw_cache \<Rightarrow> mw_window list" where
  "known_windows locked fetched now c =
     (case fetched of
        Inr ws \<Rightarrow> if locked \<and> ShouldRefresh now c then ws else mc_windows c
      | Inl e \<Rightarrow> mc_windows c)"

lemma refreshed_windows:
  "mc_windows (if ShouldRefresh now c then snd (mc_refreshCache locked fetched now c) else c)
     = known_windows locked fetched now c"
  by (auto simp: mc_refreshCache_def known_windows_def mc_Update_def split: sum.split)

section \<open>Properties\<close>

text \<open>
  A check is skipped exactly when one of the windows the worker knows is active
  and is global or names the monitor; then the window returned is such a window. The windows
  known are the fetched ones after a refresh that succeeded, and otherwise the old ones: a
  failing refresh neither blocks the decision nor surfaces as an error.
\<close>

theorem ShouldSkipCheck_correct:
  "case ShouldSkipCheck locked fetched now m c of ((skip, w, err), c') \<Rightarrow>
     err = None \<and> mc_windows c' = known_windows locked fetched now c \<and>
     (skip \<longleftrightarrow> (\<exists>v \<in> set (known_windows locked fetched now c).
        mw_IsActive now v \<and> (mw_global v \<or> mw_monitor_id v = m))) \<and>
     (skip \<longleftrightarrow> (\<exists>v. w = Some v \<and> v \<in> set (mc_windows c') \<and> mw_IsActive now v \<and>
        (mw_global v \<or> mw_monitor_id v = m)))"
proof -
  let ?c = "if ShouldRefresh now c then snd (mc_refreshCache locked fetched now c) else c"
  have affects: "mw_AffectsMonitor now m v \<longleftrightarrow>
      mw_IsActive now v \<and> (mw_global v \<or> mw_monitor_id v = m)" for v
    by (simp add: mw_AffectsMonitor_def)
  show ?thesis
    using first_affecting_SomeD [of now m "mc_windows ?c"]
      first_affecting_None_iff [of now m "mc_windows ?c"]
    unfolding refreshed_windows affects
    by (cases "first_affecting now m (known_windows locked fetched now c)")
       (auto simp: ShouldSkipCheck_def Let_def GetActiveWindowForMonitor_def refreshed_windows)
qed

end
