(* ===== verification/CheckExecutor.thy ===== *)
theory CheckExecutor
  imports Complex_Main MaintenanceCache
begin

text \<open>
  \<open>backend/check-worker/internal/executor/check_classifiers.go\<close> and
  \<open>check_executor.go\<close>: one HTTP check. What the network does is the argument \<open>http_env\<close>:
  the redirect responses the server would send, then the final outcome. An error value is
  what the classifier asks of it. Response times are the whole milliseconds the code
  computes; the tracer's detailed metrics and the request headers do not influence the
  verdict and are left out.
\<close>

section \<open>Error classification\<close>

datatype error_code =
    CodeNone | CodeConnectionTimeout | CodeDNSResolutionFailed | CodeSSLCertificateExpired
  | CodeTooManyRedirects | CodeConnectionRefused | CodeResponseTooLarge | CodeSlowResponse
  | CodeEmptyResponse | CodeInvalidMonitorConfig | CodeMaintenanceSkipped

text \<open>
  \<open>ge_timeout\<close>: the error has a method \<open>Timeout\<close> that returns true; the other flags are the
  \<open>errors.Is\<close> and \<open>errors.As\<close> tests of the classifier. \<open>contextDeadlineExceededError\<close>
  makes a new error at each call, which no other error is equal to.
\<close>

record go_error =
  ge_timeout :: bool
  ge_os_deadline :: bool
  ge_dns :: bool
  ge_econnrefused :: bool
  ge_op :: "string option"
  ge_cert_invalid :: bool
  ge_hostname :: bool
  ge_unknown_authority :: bool
  ge_msg :: string

fun containsInMiddle_from :: "nat \<Rightarrow> string \<Rightarrow> string \<Rightarrow> bool" where
  "containsInMiddle_from 0 s sub = False"
| "containsInMiddle_from (Suc n) s sub =
     (if take (length sub) s = sub then True else containsInMiddle_from n (tl s) sub)"

text \<open>The loop runs \<open>i\<close> from 0 to \<open>len(s) - len(substr)\<close>; its callers ensure
  \<open>len(substr) \<le> len(s)\<close>.\<close>

definition containsInMiddle :: "string \<Rightarrow> string \<Rightarrow> bool" where
  "containsInMiddle s sub = containsInMiddle_from (Suc (length s) - length sub) s sub"

definition containsIgnoreCase :: "string \<Rightarrow> string \<Rightarrow> bool" where
  "containsIgnoreCase s sub \<longleftrightarrow> length sub \<le> length s \<and>
     (s = sub \<or> (length sub < length s \<and>
       (take (length sub) s = sub \<or> drop (length s - length sub) s = sub \<or>
        containsInMiddle s sub)))"

definition go_contains :: "string \<Rightarrow> string \<Rightarrow> bool" where
  "go_contains s sub \<longleftrightarrow> length sub \<le> length s \<and>
     (s = sub \<or> (length sub < length s \<and> containsIgnoreCase s sub))"

definition isTimeoutError :: "go_error \<Rightarrow> bool" where
  "isTimeoutError e \<longleftrightarrow> ge_timeout e \<or> ge_os_deadline e \<or>
     go_contains (ge_msg e) ''timeout'' \<or> go_contains (ge_msg e) ''deadline exceeded''"

definition isDNSError :: "go_error \<Rightarrow> bool" where
  "isDNSError e \<longleftrightarrow> ge_dns e"

definition isConnectionRefusedError :: "go_error \<Rightarrow> bool" where
  "isConnectionRefusedError e \<longleftrightarrow> ge_econnrefused e \<or>
     ge_op e = Some ''dial'' \<or> ge_op e = Some ''connect'' \<or>
     go_contains (ge_msg e) ''connection refused'' \<or>
     go_contains (ge_msg e) ''connect: connection refused'' \<or>
     go_contains (ge_msg e) ''dial tcp''"

definition isSSLCertificateError :: "go_error \<Rightarrow> bool" where
  "isSSLCertificateError e \<longleftrightarrow> ge_cert_invalid e \<or> ge_hostname e \<or> ge_unknown_authority e \<or>
     go_contains (ge_msg e) ''certificate'' \<or> go_contains (ge_msg e) ''x509'' \<or>
     go_contains (ge_msg e) ''tls''"

definition ClassifyError :: "go_error option \<Rightarrow> error_code" where
  "ClassifyError err =
     (case err of None \<Rightarrow> CodeNone
      | Some e \<Rightarrow>
         if isTimeoutError e then CodeConnectionTimeout
         else if isDNSError e then CodeDNSResolutionFailed
         else if isConnectionRefusedError e then CodeConnectionRefused
         else if isSSLCertificateError e then CodeSSLCertificateExpired
         else CodeConnectionRefused)"

fun GetErrorMessage :: "error_code \<Rightarrow> string" where
  "GetErrorMessage CodeConnectionTimeout = ''connection timeout''"
| "GetErrorMessage CodeDNSResolutionFailed = ''dns resolution failed''"
| "GetErrorMessage CodeSSLCertificateExpired = ''ssl certificate expired''"
| "GetErrorMessage CodeTooManyRedirects = ''too many redirects''"
| "GetErrorMessage CodeConnectionRefused = ''connection refused''"
| "GetErrorMessage CodeResponseTooLarge = ''response too large''"
| "GetErrorMessage CodeSlowResponse = ''slow response''"
| "GetErrorMessage CodeEmptyResponse = ''empty response''"
| "GetErrorMessage CodeInvalidMonitorConfig = ''invalid monitor configuration''"
| "GetErrorMessage _ = ''unknown error''"

definition ResponseIsDegraded :: "real \<Rightarrow> real \<Rightarrow> bool" where
  "ResponseIsDegraded response_ms threshold_ms =
     (if threshold_ms \<le> 0 then False else response_ms > threshold_ms)"

section \<open>The check\<close>

record check_request =
  cq_monitor_id :: string
  cq_url :: string
  cq_method :: string
  cq_expected_status :: string
  cq_timeout :: duration
  cq_follow_redirects :: bool
  cq_max_redirects :: int
  cq_max_response_size :: int
  cq_degraded_ms :: real

definition ValidateRequest :: "check_request \<Rightarrow> string option" where
  "ValidateRequest req = (if cq_url req = [] then Some ''URL is required'' else None)"

record check_response =
  cr_success :: bool
  cr_status :: int
  cr_time_ms :: int
  cr_code :: error_code
  cr_message :: string
  cr_warning :: string
  cr_body :: string
  cr_headers :: "(string \<times> string) list"
  cr_final_url :: string

definition empty_response :: check_response where
  "empty_response = \<lparr>cr_success = False, cr_status = 0, cr_time_ms = 0, cr_code = CodeNone,
     cr_message = [], cr_warning = [], cr_body = [], cr_headers = [], cr_final_url = []\<rparr>"

record http_resp =
  hr_status :: int
  hr_url :: "string option"
  hr_headers :: "(string \<times> string list) list"
  hr_chunks :: "string list"

record http_env =
  he_request_error :: "string option"
  he_hops :: "http_resp list"
  he_final :: "go_error + http_resp"
  he_prefix :: string
  he_elapsed_ms :: int

text \<open>
  \<open>net/http\<close>'s redirect loop: before it follows redirect number \<open>n\<close> it asks
  \<open>CheckRedirect\<close>, which follows, hands back the redirect response itself, or stops with an
  error. \<open>http.Client\<close> wraps that error with the method and the URL (\<open>he_prefix\<close>). The
  flag says that the callback stored its error code in the result.
\<close>

datatype redirect_decision = FollowRedirect | UseLastResponse | StopRedirect bool string

definition redirect_policy :: "check_request \<Rightarrow> int \<Rightarrow> redirect_decision" where
  "redirect_policy req n =
     (if cq_follow_redirects req then
        (if 0 < cq_max_redirects req then
           (if n \<ge> cq_max_redirects req
            then StopRedirect True (''stopped after '' @ show_int (cq_max_redirects req) @ '' redirects'')
            else FollowRedirect)
         else if n \<ge> 10 then StopRedirect False ''stopped after 10 redirects''
         else FollowRedirect)
      else UseLastResponse)"

definition redirect_error :: "http_env \<Rightarrow> string \<Rightarrow> go_error" where
  "redirect_error env msg = \<lparr>ge_timeout = False, ge_os_deadline = False, ge_dns = False,
     ge_econnrefused = False, ge_op = None, ge_cert_invalid = False, ge_hostname = False,
     ge_unknown_authority = False, ge_msg = he_prefix env @ msg\<rparr>"

fun follow_redirects ::
    "check_request \<Rightarrow> http_env \<Rightarrow> int \<Rightarrow> http_resp list \<Rightarrow> bool \<times> (go_error + http_resp)" where
  "follow_redirects req env n [] = (False, he_final env)"
| "follow_redirects req env n (h # hs) =
     (case redirect_policy req n of
        FollowRedirect \<Rightarrow> follow_redirects req env (n + 1) hs
      | UseLastResponse \<Rightarrow> (False, Inr h)
      | StopRedirect stored msg \<Rightarrow> (stored, Inl (redirect_error env msg)))"

text \<open>The read loop: \<open>None\<close> once more than \<open>maxSize\<close> bytes have come.\<close>

fun read_body :: "int \<Rightarrow> int \<Rightarrow> string \<Rightarrow> string list \<Rightarrow> string option" where
  "read_body maxSize totalRead body [] = Some body"
| "read_body maxSize totalRead body (c # cs) =
     (if c = [] then read_body maxSize totalRead body cs
      else let totalRead = totalRead + int (length c)
           in if maxSize < totalRead then None else read_body maxSize totalRead (body @ c) cs)"

definition first_values :: "(string \<times> string list) list \<Rightarrow> (string \<times> string) list" where
  "first_values hs = map (\<lambda>(k, vs). (k, hd vs)) (filter (\<lambda>(k, vs). vs \<noteq> []) hs)"

text \<open>The end of \<open>ExecuteCheck\<close>: the verdict from the status code and the response time.\<close>

definition judge_status :: "check_request \<Rightarrow> http_resp \<Rightarrow> check_response \<Rightarrow> check_response" where
  "judge_status req resp result =
     (let result = result\<lparr>cr_success := 200 \<le> hr_status resp \<and> hr_status resp < 400\<rparr>;
          result = (if cr_success result \<and> cq_degraded_ms req > 0 \<and>
              ResponseIsDegraded (real_of_int (cr_time_ms result)) (cq_degraded_ms req)
            then result\<lparr>cr_success := False, cr_warning := GetErrorMessage CodeSlowResponse\<rparr>
            else result)
      in if \<not> cr_success result \<and> cr_message result = []
         then result\<lparr>cr_message := ''unexpected status code: '' @ show_int (hr_status resp)\<rparr>
         else result)"

definition finish_check ::
    "check_request \<Rightarrow> string \<Rightarrow> http_resp \<Rightarrow> check_response \<Rightarrow> check_response" where
  "finish_check req method resp result =
     (let result = result\<lparr>cr_status := hr_status resp,
            cr_final_url := (case hr_url resp of Some u \<Rightarrow> u | None \<Rightarrow> cq_url req),
            cr_headers := first_values (hr_headers resp)\<rparr>;
          maxSize = (if cq_max_response_size req \<le> 0 then 1024 * 1024
                     else cq_max_response_size req)
      in case read_body maxSize 0 [] (hr_chunks resp) of
           None \<Rightarrow> result\<lparr>cr_code := CodeResponseTooLarge,
             cr_message := GetErrorMessage CodeResponseTooLarge, cr_success := False\<rparr>
         | Some body \<Rightarrow>
            (let result = result\<lparr>cr_body := body\<rparr>;
                 result = (if body = [] \<and> method = ''GET''
                   then result\<lparr>cr_warning := GetErrorMessage CodeEmptyResponse\<rparr> else result)
             in if cq_expected_status req \<noteq> [] \<and> show_int (hr_status resp) \<noteq> cq_expected_status req
                then result\<lparr>cr_success := False, cr_message := ''expected status '' @
                       cq_expected_status req @ '', got '' @ show_int (hr_status resp)\<rparr>
                else judge_status req resp result))"

text \<open>
  \<open>skip\<close> is what \<open>ShouldSkipCheck\<close> returned, or nothing when no checker is set; \<open>fmt_time\<close>
  stands for \<open>time.Format(time.RFC3339)\<close>.
\<close>

definition ExecuteCheck ::
    "(time \<Rightarrow> string) \<Rightarrow> (bool \<times> mw_window option \<times> string option) option \<Rightarrow> http_env \<Rightarrow>
     check_request \<Rightarrow> check_response" where
  "ExecuteCheck fmt_time skip env req =
     (let result = empty_response; ms = he_elapsed_ms env in
      case skip of
        Some (True, Some w, None) \<Rightarrow>
          result\<lparr>cr_success := False, cr_code := CodeMaintenanceSkipped,
            cr_message := ''check skipped due to active maintenance window'', cr_time_ms := ms,
            cr_warning := ''maintenance window: '' @ mw_id w @ '' (until '' @ fmt_time (mw_end w) @ '')''\<rparr>
      | _ \<Rightarrow>
        if ValidateRequest req \<noteq> None
        then result\<lparr>cr_code := CodeInvalidMonitorConfig,
               cr_message := GetErrorMessage CodeInvalidMonitorConfig, cr_time_ms := ms\<rparr>
        else
          let method = (if cq_method req = [] then ''GET'' else cq_method req) in
          case he_request_error env of
            Some e \<Rightarrow> result\<lparr>cr_code := CodeInvalidMonitorConfig,
              cr_message := ''failed to create request: '' @ e, cr_time_ms := ms\<rparr>
          | None \<Rightarrow>
             (let (stored, outcome) = follow_redirects req env 1 (he_hops env);
                  result = (if stored then result\<lparr>cr_code := CodeTooManyRedirects,
                    cr_message := GetErrorMessage CodeTooManyRedirects\<rparr> else result);
                  result = result\<lparr>cr_time_ms := ms\<rparr>
              in case outcome of
                   Inl err \<Rightarrow> (let code = ClassifyError (Some err) in
                     result\<lparr>cr_code := code, cr_message := GetErrorMessage code, cr_success := False\<rparr>)
                 | Inr resp \<Rightarrow> finish_check req method resp result))"

section \<open>Lemmas\<close>

lemma containsInMiddle_from_iff:
  "containsInMiddle_from n s sub \<longleftrightarrow> (\<exists>i < n. take (length sub) (drop i s) = sub)"
proof (induction n s sub rule: containsInMiddle_from.induct)
  case (2 n s sub)
  have "(\<exists>i < Suc n. take (length sub) (drop i s) = sub) \<longleftrightarrow>
      take (length sub) s = sub \<or> (\<exists>i < n. take (length sub) (drop i (tl s)) = sub)"
    by (auto simp: less_Suc_eq_0_disj drop_Suc)
  with 2 show ?case by auto
qed simp

lemma substring_iff:
  "(\<exists>i < Suc (length s) - length sub. take (length sub) (drop i s) = sub) \<longleftrightarrow>
   (\<exists>pre post. s = pre @ sub @ post)" (is "?l \<longleftrightarrow> ?r")
proof
  assume ?l
  then obtain i where "take (length sub) (drop i s) = sub" by blast
  then have "s = take i s @ sub @ drop (length sub) (drop i s)"
    by (metis append_take_drop_id)
  then show ?r by blast
next
  assume ?r
  then obtain pre post where "s = pre @ sub @ post" by blast
  then show ?l by (intro exI [of _ "length pre"]) simp
qed

lemma read_body_Some:
  assumes "read_body m totalRead body cs = Some b"
  shows "b = body @ concat cs \<and> (totalRead \<le> m \<longrightarrow> totalRead + int (length (concat cs)) \<le> m)"
  using assms
  by (induction m totalRead body cs rule: read_body.induct) (auto simp: Let_def split: if_splits)

lemma read_body_None:
  "read_body m totalRead body cs = None \<Longrightarrow> m < totalRead + int (length (concat cs))"
  by (induction m totalRead body cs rule: read_body.induct) (auto simp: Let_def split: if_splits)

lemma judge_status_frame [simp, frame_simps]:
  "cr_code (judge_status req resp r) = cr_code r"
  "cr_body (judge_status req resp r) = cr_body r"
  "cr_status (judge_status req resp r) = cr_status r"
  by (simp_all add: judge_status_def Let_def)

lemma judge_status_success:
  "cr_success (judge_status req resp r) \<longleftrightarrow> 200 \<le> hr_status resp \<and> hr_status resp < 400 \<and>
     \<not> (0 < cq_degraded_ms req \<and> cq_degraded_ms req < real_of_int (cr_time_ms r))"
  by (auto simp: judge_status_def Let_def ResponseIsDegraded_def)

abbreviation max_size :: "check_request \<Rightarrow> int" where
  "max_size req \<equiv> (if cq_max_response_size req \<le> 0 then 1024 * 1024 else cq_max_response_size req)"

lemma finish_check_code:
  "cr_code (finish_check req method resp r) = cr_code r \<or>
   cr_code (finish_check req method resp r) = CodeResponseTooLarge"
  by (simp add: finish_check_def Let_def split: option.split del: of_int_le_iff)

lemma finish_check_success:
  "cr_success (finish_check req method resp r) \<longleftrightarrow>
     read_body (max_size req) 0 [] (hr_chunks resp) \<noteq> None \<and>
     (cq_expected_status req = [] \<or> show_int (hr_status resp) = cq_expected_status req) \<and>
     200 \<le> hr_status resp \<and> hr_status resp < 400 \<and>
     \<not> (0 < cq_degraded_ms req \<and> cq_degraded_ms req < real_of_int (cr_time_ms r))"
  by (cases "read_body (max_size req) 0 [] (hr_chunks resp)")
     (simp_all add: finish_check_def Let_def judge_status_success)

lemma read_body_None_iff:
  "0 \<le> m \<Longrightarrow> read_body m 0 [] cs = None \<longleftrightarrow> m < int (length (concat cs))"
  using read_body_None [of m 0 "[]" cs] read_body_Some [of m 0 "[]" cs]
  by (cases "read_body m 0 [] cs") auto

section \<open>Properties\<close>

text \<open>
  The classifier's \<open>contains\<close> is exactly the substring test, and so it
  distinguishes upper and lower case, although it is written and documented as
  case-insensitive.
\<close>

theorem go_contains_is_substring:
  "(go_contains s sub \<longleftrightarrow> (\<exists>pre post. s = pre @ sub @ post)) \<and>
   \<not> go_contains ''Client.Timeout exceeded'' ''timeout''"
proof
  have mid: "length sub \<le> length s \<Longrightarrow> containsInMiddle s sub \<longleftrightarrow> (\<exists>pre post. s = pre @ sub @ post)"
    for s sub :: string
    using substring_iff [of s sub] by (simp add: containsInMiddle_def containsInMiddle_from_iff)
  have "take (length sub) s = sub \<or> drop (length s - length sub) s = sub \<Longrightarrow>
      \<exists>pre post. s = pre @ sub @ post"
    by (metis append.left_neutral append.right_neutral append_take_drop_id)
  moreover have "\<exists>pre post. s = pre @ sub @ post \<Longrightarrow> length sub \<le> length s" by auto
  moreover have "length sub = length s \<Longrightarrow> \<exists>pre post. s = pre @ sub @ post \<Longrightarrow> s = sub" by auto
  moreover have "\<exists>pre post. sub = pre @ sub @ post"
    by (metis append.left_neutral append.right_neutral)
  ultimately show "go_contains s sub \<longleftrightarrow> (\<exists>pre post. s = pre @ sub @ post)"
    using mid [of sub s] unfolding go_contains_def containsIgnoreCase_def
    by (metis le_neq_implies_less)
  show "\<not> go_contains ''Client.Timeout exceeded'' ''timeout''" by code_simp
qed

text \<open>
  No check ever reports \<open>TOO_MANY_REDIRECTS\<close>: the redirect callback stores that
  code, but the error it returns makes the request fail, and classifying that error
  overwrites the code.
\<close>

theorem too_many_redirects_never_reported:
  "cr_code (ExecuteCheck fmt_time skip env req) \<noteq> CodeTooManyRedirects"
proof -
  have stored: "fst (follow_redirects req env n hs) \<Longrightarrow>
      \<exists>e. snd (follow_redirects req env n hs) = Inl e" for n hs
    by (induction req env n hs rule: follow_redirects.induct)
       (auto split: redirect_decision.splits)
  obtain st out where f: "follow_redirects req env 1 (he_hops env) = (st, out)" by force
  with stored [of 1 "he_hops env"] have st: "st \<Longrightarrow> \<exists>e. out = Inl e" by simp
  have fin: "cr_code r = CodeNone \<Longrightarrow>
      cr_code (finish_check req m resp r) \<noteq> CodeTooManyRedirects" for m resp r
    using finish_check_code [of req m resp r] by auto
  have "ClassifyError (Some e) \<noteq> CodeTooManyRedirects" for e
    by (simp add: ClassifyError_def)
  then show ?thesis
    using st f fin
    by (auto simp: ExecuteCheck_def Let_def empty_response_def
        split: option.splits prod.splits bool.splits sum.splits)
qed

text \<open>
  The response a check ends with: a redirect itself when redirects are not followed, else the
  last response, unless the redirects reach the limit.
\<close>

definition redirect_limit :: "check_request \<Rightarrow> int" where
  "redirect_limit req = (if 0 < cq_max_redirects req then cq_max_redirects req else 10)"

definition reached_response :: "check_request \<Rightarrow> http_env \<Rightarrow> http_resp option" where
  "reached_response req env =
     (if he_hops env \<noteq> [] \<and> \<not> cq_follow_redirects req then Some (hd (he_hops env))
      else if redirect_limit req \<le> int (length (he_hops env)) then None
      else case he_final env of Inl e \<Rightarrow> None | Inr resp \<Rightarrow> Some resp)"

lemma follow_redirects_limit:
  "cq_follow_redirects req \<Longrightarrow> snd (follow_redirects req env n hs) = Inr resp \<longleftrightarrow>
     (hs = [] \<or> n + int (length hs) \<le> redirect_limit req) \<and> he_final env = Inr resp"
proof (induction req env n hs rule: follow_redirects.induct)
  case (2 req env n h hs)
  show ?case
  proof (cases "redirect_limit req \<le> n")
    case True
    then show ?thesis using 2(2) by (auto simp: redirect_policy_def redirect_limit_def split: if_splits)
  next
    case False
    then have "redirect_policy req n = FollowRedirect"
      using 2(2) by (auto simp: redirect_policy_def redirect_limit_def split: if_splits)
    with 2 False show ?thesis by (cases hs) auto
  qed
qed simp

lemma follow_redirects_reached:
  "snd (follow_redirects req env 1 (he_hops env)) = Inr resp \<longleftrightarrow> reached_response req env = Some resp"
proof (cases "cq_follow_redirects req \<or> he_hops env = []")
  case True
  have "0 < redirect_limit req" by (simp add: redirect_limit_def)
  then show ?thesis
    using True follow_redirects_limit [of req env 1 "he_hops env" resp]
    by (cases "he_hops env = []") (auto simp: reached_response_def split: sum.split)
next
  case False
  then show ?thesis
    by (cases "he_hops env") (auto simp: reached_response_def redirect_policy_def)
qed

lemma ExecuteCheck_unskipped:
  assumes "\<forall>w. skip \<noteq> Some (True, Some w, None)"
  shows "ExecuteCheck fmt_time skip env req = ExecuteCheck fmt_time None env req"
proof (cases skip)
  case (Some x)
  obtain b w e where x: "x = (b, w, e)" by (cases x)
  with assms Some show ?thesis by (cases b; cases w; cases e) (simp_all add: ExecuteCheck_def)
qed simp

text \<open>
  Property C15. A check succeeds exactly when no active maintenance window skips it, its request
  is valid and could be built, it ends with a response (the redirect itself when redirects are
  not followed; otherwise the last response, after fewer redirects than the limit), the body fits
  the limit, the status is the expected one if one is configured, it is between 200 and 399, and
  the response was not slower than the degraded threshold.
\<close>

theorem ExecuteCheck_success_iff:
  "cr_success (ExecuteCheck fmt_time skip env req) \<longleftrightarrow>
    (\<forall>w. skip \<noteq> Some (True, Some w, None)) \<and> cq_url req \<noteq> [] \<and> he_request_error env = None \<and>
    (\<exists>resp. reached_response req env = Some resp \<and>
      int (length (concat (hr_chunks resp))) \<le> max_size req \<and>
      (cq_expected_status req = [] \<or> show_int (hr_status resp) = cq_expected_status req) \<and>
      200 \<le> hr_status resp \<and> hr_status resp < 400 \<and>
      \<not> (0 < cq_degraded_ms req \<and> cq_degraded_ms req < real_of_int (he_elapsed_ms env)))"
    (is "?success \<longleftrightarrow> ?ok")
proof (cases "(\<forall>w. skip \<noteq> Some (True, Some w, None)) \<and> cq_url req \<noteq> [] \<and> he_request_error env = None")
  case False
  then have "\<not> ?success"
    by (auto simp: ExecuteCheck_def empty_response_def ValidateRequest_def Let_def
        split: option.splits prod.splits bool.splits)
  with False show ?thesis by blast
next
  case True
  then have run: "ExecuteCheck fmt_time skip env req = ExecuteCheck fmt_time None env req"
    by (intro ExecuteCheck_unskipped) simp
  have max: "0 \<le> max_size req" by simp
  obtain stored out where f: "follow_redirects req env 1 (he_hops env) = (stored, out)" by force
  show ?thesis
  proof (cases out)
    case (Inl e)
    then have "\<not> ?success" using True f unfolding run
      by (simp add: ExecuteCheck_def Let_def ValidateRequest_def)
    then show ?thesis using follow_redirects_reached [of req env] f Inl by auto
  next
    case (Inr resp)
    then have "reached_response req env = Some resp"
      using follow_redirects_reached [of req env resp] f by simp
    moreover have "?success \<longleftrightarrow> int (length (concat (hr_chunks resp))) \<le> max_size req \<and>
      (cq_expected_status req = [] \<or> show_int (hr_status resp) = cq_expected_status req) \<and>
      200 \<le> hr_status resp \<and> hr_status resp < 400 \<and>
      \<not> (0 < cq_degraded_ms req \<and> cq_degraded_ms req < real_of_int (he_elapsed_ms env))"
      using True f Inr read_body_None_iff [OF max, of "hr_chunks resp"] unfolding run
      by (simp add: ExecuteCheck_def Let_def ValidateRequest_def finish_check_success not_less
          del: of_int_le_iff)
    ultimately show ?thesis using True by simp
  qed
qed

definition example_request :: check_request where
  "example_request = \<lparr>cq_monitor_id = ''m'', cq_url = ''http://x'', cq_method = [],
     cq_expected_status = ''200'', cq_timeout = 0, cq_follow_redirects = False,
     cq_max_redirects = 0, cq_max_response_size = 4, cq_degraded_ms = 100\<rparr>"

definition example_http :: "int \<Rightarrow> http_env" where
  "example_http ms = \<lparr>he_request_error = None, he_hops = [], he_final = Inr \<lparr>hr_status = 200,
     hr_url = None, hr_headers = [], hr_chunks = [''ab'', ''cd'']\<rparr>, he_prefix = [],
     he_elapsed_ms = ms\<rparr>"

definition moved :: http_resp where
  "moved = \<lparr>hr_status = 301, hr_url = None, hr_headers = [], hr_chunks = []\<rparr>"

text \<open>
  At the threshold and above it; and a redirect: not followed, its own status 301 is not the one
  expected; followed, the check succeeds.
\<close>

theorem ExecuteCheck_success_iff_witness:
  "cr_success (ExecuteCheck (\<lambda>_. []) None (example_http 100) example_request) \<and>
   \<not> cr_success (ExecuteCheck (\<lambda>_. []) None (example_http 101) example_request) \<and>
   \<not> cr_success (ExecuteCheck (\<lambda>_. []) None ((example_http 100)\<lparr>he_hops := [moved]\<rparr>) example_request) \<and>
   cr_success (ExecuteCheck (\<lambda>_. []) None ((example_http 100)\<lparr>he_hops := [moved]\<rparr>)
     (example_request\<lparr>cq_follow_redirects := True\<rparr>))"
proof -
  have n: "show_int 200 = ''200''" "show_int 301 = ''301''" by code_simp+
  show ?thesis
    by (simp add: ExecuteCheck_success_iff reached_response_def redirect_limit_def example_request_def
        example_http_def moved_def n)
qed

end
