(* ===== verification/MonitorClient.thy ===== *)
theory MonitorClient
  imports Reconnect ResultQueue
begin

text \<open>
  \<open>backend/check-worker/internal/client/monitor_client.go\<close>: how a worker submits a result,
  and how it empties the queue of results it could not submit. The remote call is the
  argument \<open>submit\<close>: it says whether the retried call number \<open>k\<close> succeeds for an item;
  \<open>clock k\<close> is the clock at that call. The loop of \<open>flushQueue\<close> has no bound of its own, so
  it is a \<open>partial_function (option)\<close>.
\<close>

section \<open>Operations\<close>

datatype grpc_code =
    OK | Canceled | DeadlineExceeded | Unavailable | ResourceExhausted | Aborted
  | AlreadyExists | NotFound | FailedPrecondition | InvalidArgument | OtherCode

text \<open>\<open>None\<close> is a nil error; \<open>Some None\<close> an error that carries no gRPC status.\<close>

definition isRetryableGRPCError :: "grpc_code option option \<Rightarrow> bool" where
  "isRetryableGRPCError err =
     (case err of None \<Rightarrow> False
      | Some None \<Rightarrow> True
      | Some (Some c) \<Rightarrow>
         (case c of OK \<Rightarrow> False
          | Canceled \<Rightarrow> True | DeadlineExceeded \<Rightarrow> True
          | Unavailable \<Rightarrow> True
          | ResourceExhausted \<Rightarrow> True
          | Aborted \<Rightarrow> True | AlreadyExists \<Rightarrow> True
          | NotFound \<Rightarrow> False | FailedPrecondition \<Rightarrow> False | InvalidArgument \<Rightarrow> False
          | OtherCode \<Rightarrow> True))"

fun flush_items ::
    "(nat \<Rightarrow> 'r queued_result \<Rightarrow> bool) \<Rightarrow> (nat \<Rightarrow> time) \<Rightarrow> nat \<Rightarrow> 'r queued_result list \<Rightarrow>
     'r result_queue \<Rightarrow> nat \<Rightarrow> nat \<times> 'r result_queue \<times> nat" where
  "flush_items submit clock k [] q flushed = (k, q, flushed)"
| "flush_items submit clock k (x # xs) q flushed =
     (if submit k x then flush_items submit clock (Suc k) xs q (Suc flushed)
      else flush_items submit clock (Suc k) xs
             (snd (Enqueue (clock k) (qr_result x) (qr_monitor_id x) q)) flushed)"

partial_function (option) flush_loop ::
    "(nat \<Rightarrow> 'r queued_result \<Rightarrow> bool) \<Rightarrow> (nat \<Rightarrow> time) \<Rightarrow> nat \<Rightarrow> 'r result_queue \<Rightarrow> nat \<Rightarrow>
     ('r result_queue \<times> nat) option" where
  "flush_loop submit clock k q flushed =
     (case DequeueBatch 10 q of
        None \<Rightarrow> None
      | Some (b, q1) \<Rightarrow>
         (case b of
            None \<Rightarrow> Some (q1, flushed)
          | Some batch \<Rightarrow>
             (if batch = [] then Some (q1, flushed)
              else (case flush_items submit clock k batch q1 flushed of
                 (k', q2, flushed') \<Rightarrow>
                   (if length batch < 10 then Some (q2, flushed')
                    else flush_loop submit clock k' q2 flushed')))))"

definition flushQueue ::
    "(nat \<Rightarrow> 'r queued_result \<Rightarrow> bool) \<Rightarrow> (nat \<Rightarrow> time) \<Rightarrow> 'r result_queue \<Rightarrow>
     ('r result_queue \<times> nat) option" where
  "flushQueue submit clock q =
     (if qs_size (Stats q) = 0 then Some (q, 0) else flush_loop submit clock 0 q 0)"

text \<open>
  \<open>sent\<close> is the outcome of the retried remote call. On success a flush is started in the
  background (the flag); on failure the result goes to the queue.
\<close>

definition SubmitCheckResult ::
    "retry_error option \<Rightarrow> time \<Rightarrow> string \<Rightarrow> 'r \<Rightarrow> 'r result_queue \<Rightarrow>
     retry_error option \<times> bool \<times> 'r result_queue" where
  "SubmitCheckResult sent now monitorID r q =
     (case sent of
        Some e \<Rightarrow> (Some e, False, snd (Enqueue now r monitorID q))
      | None \<Rightarrow> (None, True, q))"

section \<open>Lemmas\<close>

lemma Enqueue_fresh:
  assumes "\<forall>x \<in> set (rq_items q). t - rq_ttl q < qr_queued_at x"
    and "int (length (rq_items q)) < rq_max_size q"
  shows "snd (Enqueue t r m q) = q\<lparr>rq_items := rq_items q @ [queue_item r m t]\<rparr>"
proof -
  have "first_fresh (t - rq_ttl q) (rq_items q) = 0"
    using assms(1) by (cases "rq_items q") auto
  then have "cleanupLocked t q = q" by (simp add: cleanupLocked_def)
  with assms(2) show ?thesis by (simp add: Enqueue_def Let_def)
qed

text \<open>A batch that fails completely: every item is put back with the time of its call.\<close>

primrec requeued :: "(nat \<Rightarrow> time) \<Rightarrow> nat \<Rightarrow> 'r queued_result list \<Rightarrow> 'r queued_result list" where
  "requeued clock k [] = []"
| "requeued clock k (x # xs) =
     queue_item (qr_result x) (qr_monitor_id x) (clock k) # requeued clock (Suc k) xs"

lemma length_requeued [simp]: "length (requeued clock k xs) = length xs"
  by (induction xs arbitrary: k) simp_all

lemma requeued_time: "i < length xs \<Longrightarrow> qr_queued_at (requeued clock k xs ! i) = clock (k + i)"
  by (induction xs arbitrary: k i) (auto simp: nth_Cons queue_item_def split: nat.split)

lemma flush_items_all_fail:
  assumes "\<And>k x. \<not> submit k x" and "mono clock"
    and "\<forall>x \<in> set (rq_items q). clock (k + length xs) - rq_ttl q < qr_queued_at x"
    and "clock (k + length xs) - rq_ttl q < clock k"
    and "int (length (rq_items q) + length xs) \<le> rq_max_size q"
  shows "flush_items submit clock k xs q n =
    (k + length xs, q\<lparr>rq_items := rq_items q @ requeued clock k xs\<rparr>, n)"
  using assms(3-5)
proof (induction xs arbitrary: k q)
  case Nil
  then show ?case by simp
next
  case (Cons x xs)
  let ?item = "queue_item (qr_result x) (qr_monitor_id x) (clock k)"
  let ?q = "q\<lparr>rq_items := rq_items q @ [?item]\<rparr>"
  have le: "clock k \<le> clock (k + length (x # xs))" "clock k \<le> clock (Suc k)"
    using assms(2) by (auto intro: monoD)
  have "snd (Enqueue (clock k) (qr_result x) (qr_monitor_id x) q) = ?q"
    using Cons.prems(1,3) le(1) by (intro Enqueue_fresh) (fastforce, simp)
  moreover have "flush_items submit clock (Suc k) xs ?q n =
      (Suc k + length xs, ?q\<lparr>rq_items := rq_items ?q @ requeued clock (Suc k) xs\<rparr>, n)"
    using Cons.prems le by (intro Cons.IH) (auto simp: queue_item_def)
  moreover have "\<not> submit k x" by (rule assms(1))
  ultimately show ?case by simp
qed

lemma flush_items_all_ok:
  "(\<And>k x. submit k x) \<Longrightarrow> flush_items submit clock k xs q n = (k + length xs, q, n + length xs)"
  by (induction xs arbitrary: k n) auto

lemma flush_loop_all_ok:
  assumes "\<And>k x. submit k x"
  shows "flush_loop submit clock k q n = Some (q\<lparr>rq_items := []\<rparr>, n + length (rq_items q))"
proof (induction "length (rq_items q)" arbitrary: k q n rule: less_induct)
  case less
  show ?case
  proof (cases "rq_items q = []")
    case True
    then have "q\<lparr>rq_items := []\<rparr> = q" by simp
    with True show ?thesis by (subst flush_loop.simps) (simp add: DequeueBatch_def)
  next
    case False
    have "length (rq_items (q\<lparr>rq_items := drop 10 (rq_items q)\<rparr>)) < length (rq_items q)"
      using False by simp
    from less [OF this] False show ?thesis
      by (subst flush_loop.simps)
         (auto simp: DequeueBatch_def Let_def flush_items_all_ok [OF assms] not_less)
  qed
qed

text \<open>
  No item expires before its turn: an item at position \<open>i\<close> is taken before the call number
  \<open>k + i\<close>, and put back by it.
\<close>

definition lasts :: "(nat \<Rightarrow> time) \<Rightarrow> nat \<Rightarrow> 'r result_queue \<Rightarrow> bool" where
  "lasts clock k q \<longleftrightarrow>
     (\<forall>i < length (rq_items q). clock (k + i) - rq_ttl q < qr_queued_at (rq_items q ! i))"

text \<open>One pass over \<open>n\<close> items takes less than the time to live.\<close>

definition quick_pass :: "(nat \<Rightarrow> time) \<Rightarrow> nat \<Rightarrow> duration \<Rightarrow> bool" where
  "quick_pass clock n ttl \<longleftrightarrow> mono clock \<and> (\<forall>k. clock (k + n) - ttl < clock k)"

lemma failing_batch:
  assumes "\<And>k x. \<not> submit k x" and "quick_pass clock (length (rq_items q)) (rq_ttl q)"
    and "lasts clock k q" and "10 \<le> length (rq_items q)" and "int (length (rq_items q)) \<le> rq_max_size q"
  defines "q' \<equiv> q\<lparr>rq_items := drop 10 (rq_items q) @ requeued clock k (take 10 (rq_items q))\<rparr>"
  shows "flush_items submit clock k (take 10 (rq_items q)) (q\<lparr>rq_items := drop 10 (rq_items q)\<rparr>) n =
      (k + 10, q', n)" and "lasts clock (k + 10) q'"
proof -
  let ?n = "length (rq_items q)"
  have mono: "clock a \<le> clock b" if "a \<le> b" for a b
    using assms(2) that by (auto simp: quick_pass_def dest: monoD)
  have pass: "clock (j + ?n) - rq_ttl q < clock j" for j
    using assms(2) by (simp add: quick_pass_def)
  have fresh: "clock (k + i) - rq_ttl q < qr_queued_at (rq_items q ! i)" if "i < ?n" for i
    using assms(3) that by (simp add: lasts_def)
  have rest: "clock (k + 10) - rq_ttl q < qr_queued_at x" if x: "x \<in> set (drop 10 (rq_items q))" for x
  proof -
    obtain i where i: "x = rq_items q ! (10 + i)" "10 + i < ?n"
      using x assms(4) by (auto simp: in_set_conv_nth)
    show ?thesis using fresh [OF i(2)] mono [of "k + 10" "k + (10 + i)"] i(1) by simp
  qed
  have "clock (k + 10) - rq_ttl q < clock k"
    using pass [of k] mono [of "k + 10" "k + ?n"] assms(4) by simp
  with flush_items_all_fail [where submit = submit and clock = clock and k = k and n = n and
      q = "q\<lparr>rq_items := drop 10 (rq_items q)\<rparr>" and xs = "take 10 (rq_items q)"] rest assms(1,2,4,5)
  show "flush_items submit clock k (take 10 (rq_items q)) (q\<lparr>rq_items := drop 10 (rq_items q)\<rparr>) n =
      (k + 10, q', n)"
    by (simp add: q'_def quick_pass_def min_def)
  show "lasts clock (k + 10) q'"
    unfolding lasts_def
  proof (intro allI impI)
    fix i assume i: "i < length (rq_items q')"
    show "clock (k + 10 + i) - rq_ttl q' < qr_queued_at (rq_items q' ! i)"
    proof (cases "i < ?n - 10")
      case True
      then show ?thesis using fresh [of "10 + i"] by (simp add: q'_def nth_append add.assoc)
    next
      case False
      obtain j where j_def: "j = i - (?n - 10)" by simp
      have j: "j < 10" "i = ?n - 10 + j" using False i assms(4) by (auto simp: q'_def j_def)
      have "rq_items q' ! i = requeued clock k (take 10 (rq_items q)) ! j"
        using j assms(4) by (simp add: q'_def nth_append)
      then have at: "qr_queued_at (rq_items q' ! i) = clock (k + j)"
        using j assms(4) by (simp add: requeued_time)
      have e: "k + 10 + i = k + j + ?n" using j assms(4) by simp
      show ?thesis unfolding e at using pass [of "k + j"] by (simp add: q'_def)
    qed
  qed
qed

lemma flush_loop_diverges_aux:
  assumes "flush_loop submit clock k q n = Some r"
  shows "\<not> ((\<forall>k x. \<not> submit k x) \<and> quick_pass clock (length (rq_items q)) (rq_ttl q) \<and>
    lasts clock k q \<and> 10 \<le> length (rq_items q) \<and> int (length (rq_items q)) \<le> rq_max_size q)"
proof (rule flush_loop.raw_induct [where P = "\<lambda>submit clock k q n r.
    \<not> ((\<forall>k x. \<not> submit k x) \<and> quick_pass clock (length (rq_items q)) (rq_ttl q) \<and>
    lasts clock k q \<and> 10 \<le> length (rq_items q) \<and> int (length (rq_items q)) \<le> rq_max_size q)", OF _ assms], goal_cases)
  case (1 loop submit clock k q n r)
  show ?case
  proof
    assume a: "(\<forall>k x. \<not> submit k x) \<and> quick_pass clock (length (rq_items q)) (rq_ttl q) \<and>
      lasts clock k q \<and> 10 \<le> length (rq_items q) \<and> int (length (rq_items q)) \<le> rq_max_size q"
    let ?q = "q\<lparr>rq_items := drop 10 (rq_items q) @ requeued clock k (take 10 (rq_items q))\<rparr>"
    note batch = failing_batch [where submit = submit and clock = clock and q = q and k = k]
    have "DequeueBatch 10 q = Some (Some (take 10 (rq_items q)), q\<lparr>rq_items := drop 10 (rq_items q)\<rparr>)"
      using a by (auto simp: DequeueBatch_def Let_def)
    then have "loop submit clock (k + 10) ?q n = Some r"
      using 1(2) a batch(1) [where n = n] by (auto split: if_splits)
    from 1(1) [OF this] a batch(2) show False by auto
  qed
qed

section \<open>Properties\<close>

text \<open>
  While every submission succeeds, a flush returns with the queue empty and
  counts every result it held.
\<close>

theorem flushQueue_drains:
  assumes "\<And>k x. submit k x"
  shows "\<exists>q'. flushQueue submit clock q = Some (q', length (rq_items q)) \<and> rq_items q' = []"
  using flush_loop_all_ok [OF assms, where clock = clock and k = 0 and q = q and n = 0]
  by (auto simp: flushQueue_def Stats_def)

theorem flushQueue_drains_witness:
  "\<exists>q'. flushQueue (\<lambda>_ _. True) (\<lambda>_. 9) (snd (Enqueue 1 ''a'' ''m'' (NewResultQueue 1 100)))
     = Some (q', 1) \<and> rq_items q' = []"
proof -
  have "length (rq_items (snd (Enqueue 1 ''a'' ''m'' (NewResultQueue 1 100)))) = 1"
    by (simp add: Enqueue_def NewResultQueue_def cleanupLocked_def Let_def)
  with flushQueue_drains [of "\<lambda>_ _. True" "\<lambda>_. 9"
      "snd (Enqueue 1 ''a'' ''m'' (NewResultQueue 1 100))"]
  show ?thesis by simp
qed

text \<open>
  Property C14. With at least ten results queued, and not more than the queue holds, while every submission fails and no queued
  result expires, a flush never returns: each full batch is put back behind the others with a new
  timestamp, so the next batch is full again. By the clock's readings, which do not go back, no
  result expires when those in the queue last until the flush reaches them and one pass over the
  queue takes less than the time to live; how often the passes are repeated does not matter. (The
  queue is used by this flush alone.) The loop holds the flush mutex meanwhile.
\<close>

theorem flushQueue_diverges_while_failing:
  assumes "\<And>k x. \<not> submit k x" and "10 \<le> length (rq_items q)"
    and "int (length (rq_items q)) \<le> rq_max_size q"
    and "mono clock" and "\<And>k. clock (k + length (rq_items q)) < clock k + rq_ttl q"
    and "\<And>i. i < length (rq_items q) \<Longrightarrow> clock i < qr_queued_at (rq_items q ! i) + rq_ttl q"
  shows "flushQueue submit clock q = None"
proof -
  have "quick_pass clock (length (rq_items q)) (rq_ttl q)" "lasts clock 0 q"
    using assms(4-6) by (auto simp: quick_pass_def lasts_def diff_less_eq)
  then have "flush_loop submit clock 0 q 0 \<noteq> Some r" for r
    using flush_loop_diverges_aux [of submit clock 0 q 0 r] assms(1-3) by auto
  then have "flush_loop submit clock 0 q 0 = None"
    by (cases "flush_loop submit clock 0 q 0") auto
  with assms(2) show ?thesis by (auto simp: flushQueue_def Stats_def)
qed

definition ten_results :: "nat result_queue" where
  "ten_results = (NewResultQueue 100 hour)\<lparr>rq_items := replicate 10 (queue_item 0 ''m'' 5)\<rparr>"

text \<open>Calls of a second each, results that live an hour.\<close>

theorem flushQueue_diverges_while_failing_witness:
  "flushQueue (\<lambda>_ _. False) (\<lambda>k. int k * second) ten_results = None"
  by (rule flushQueue_diverges_while_failing)
     (auto simp: ten_results_def NewResultQueue_def queue_item_def mono_def algebra_simps)

end
