(* ===== verification/CheckWorker.thy ===== *)
theory CheckWorker
  imports ConnState CheckExecutor MonitorClient
begin

text \<open>
  \<open>backend/check-worker/internal/worker/worker.go\<close>: a worker takes a scheduled check
  through the connection state machine, the executor and the monitor client, and a ticker
  compares the two clients with the state machine. The clients' answers are arguments.
  Goroutines that an operation starts are named in its result; \<open>reconnectService\<close> is the
  body of the one that reconnects. Tracing and metrics are left out.
\<close>

section \<open>State\<close>

record worker =
  wk_running :: bool
  wk_sm :: state_machine
  wk_rm :: reconnect_manager
  wk_completed :: int
  wk_failed :: int
  wk_total_ms :: int
  wk_timeout :: duration

definition NewWorker :: "duration \<Rightarrow> worker" where
  "NewWorker timeout = \<lparr>wk_running = False, wk_sm = NewConnectionStateMachine,
     wk_rm = NewReconnectManager DefaultReconnectConfig, wk_completed = 0, wk_failed = 0,
     wk_total_ms = 0, wk_timeout = timeout\<rparr>"

record api_monitor =
  am_url :: string
  am_expected_status :: string
  am_timeout :: "duration option"

record submitted_result =
  sr_monitor :: string
  sr_success :: bool
  sr_status :: "32 word"
  sr_time_ms :: int
  sr_message :: string

definition safeProtoInt32 :: "int \<Rightarrow> 32 word option" where
  "safeProtoInt32 v = (if v < - (2 ^ 31) \<or> 2 ^ 31 - 1 < v then None else Some (word_of_int v))"

definition BuildCheckResultProto ::
    "string \<Rightarrow> bool \<Rightarrow> 32 word \<Rightarrow> int \<Rightarrow> string \<Rightarrow> submitted_result" where
  "BuildCheckResultProto m ok st ms msg =
     \<lparr>sr_monitor = m, sr_success = ok, sr_status = st, sr_time_ms = ms, sr_message = msg\<rparr>"

section \<open>Operations\<close>

text \<open>
  \<open>connect\<close> gives the results of the two \<open>Connect\<close> calls and of the registration; the
  first failure ends \<open>Start\<close>.
\<close>

definition worker_Start ::
    "bool \<Rightarrow> bool \<Rightarrow> bool \<Rightarrow> worker \<Rightarrow> bool \<times> worker" where
  "worker_Start scheduler_ok monitor_ok register_ok w =
     (if \<not> scheduler_ok then (False, w)
      else let w = w\<lparr>wk_sm := OnSchedulerConnected (wk_sm w)\<rparr> in
        if \<not> monitor_ok then (False, w)
        else let w = w\<lparr>wk_sm := OnMonitorConnected (wk_sm w)\<rparr> in
          if \<not> register_ok then (False, w) else (True, w\<lparr>wk_running := True\<rparr>))"

text \<open>\<open>None\<close> is the panic of closing the reconnect manager's closed channel.\<close>

definition worker_Stop :: "worker \<Rightarrow> worker option" where
  "worker_Stop w =
     (if \<not> wk_running w then Some w
      else case rm_Stop (wk_rm w) of
             None \<Rightarrow> None
           | Some rm \<Rightarrow> Some (w\<lparr>wk_running := False, wk_rm := rm, wk_sm := sm_Shutdown (wk_sm w)\<rparr>))"

definition check_request_of :: "worker \<Rightarrow> string \<Rightarrow> api_monitor \<Rightarrow> check_request" where
  "check_request_of w m mon = \<lparr>cq_monitor_id = m, cq_url = am_url mon, cq_method = [],
     cq_expected_status = am_expected_status mon,
     cq_timeout = (case am_timeout mon of Some t \<Rightarrow> t | None \<Rightarrow> wk_timeout w),
     cq_follow_redirects = False, cq_max_redirects = 0, cq_max_response_size = 0,
     cq_degraded_ms = 0\<rparr>"

text \<open>The result lists what was handed to \<open>SubmitCheckResult\<close>.\<close>

definition executeCheck ::
    "(time \<Rightarrow> string) \<Rightarrow> (bool \<times> mw_window option \<times> string option) option \<Rightarrow> http_env \<Rightarrow>
     string + api_monitor \<Rightarrow> string \<Rightarrow> worker \<Rightarrow> submitted_result list \<times> worker" where
  "executeCheck fmt_time skip env lookup m w =
     (if \<not> CanExecuteChecks (wk_sm w) then ([], w\<lparr>wk_failed := wk_failed w + 1\<rparr>)
      else case lookup of
        Inl e \<Rightarrow> ([], w\<lparr>wk_failed := wk_failed w + 1\<rparr>)
      | Inr mon \<Rightarrow>
         (let resp = ExecuteCheck fmt_time skip env (check_request_of w m mon);
              w = (if cr_success resp then w\<lparr>wk_completed := wk_completed w + 1\<rparr>
                   else w\<lparr>wk_failed := wk_failed w + 1\<rparr>);
              w = w\<lparr>wk_total_ms := wk_total_ms w + cr_time_ms resp\<rparr>
          in case safeProtoInt32 (cr_status resp) of
               None \<Rightarrow> ([], w\<lparr>wk_failed := wk_failed w + 1\<rparr>)
             | Some st \<Rightarrow> ([BuildCheckResultProto m (cr_success resp) st (cr_time_ms resp)
                 (cr_message resp)], w)))"

text \<open>The status and the average duration that a heartbeat reports.\<close>

definition heartbeat_report :: "nat \<Rightarrow> worker \<Rightarrow> string \<times> int \<times> int \<times> real" where
  "heartbeat_report busy w =
     ((if 0 < busy then ''BUSY'' else ''IDLE''), wk_completed w, wk_failed w,
      (if 0 < wk_completed w then real_of_int (wk_total_ms w) / real_of_int (wk_completed w) else 0))"

datatype service = SchedulerService | MonitorService

text \<open>
  One tick of \<open>monitorConnections\<close>: what \<open>IsConnected\<close> says of the two clients, and the
  services for which a reconnect goroutine is started.
\<close>

definition checkConnections ::
    "bool \<Rightarrow> bool \<Rightarrow> time \<Rightarrow> state_machine \<Rightarrow> state_machine \<times> service list" where
  "checkConnections scheduler_up monitor_up now sm =
     (let (sm, s1) =
        (if scheduler_up then
           (if \<not> IsConnected sm \<and> \<not> IsDegraded sm then (OnSchedulerConnected sm, []) else (sm, []))
         else if IsConnected sm \<or> IsDegraded sm
           then (OnSchedulerDisconnected (Some ''connection lost'') now sm, [SchedulerService])
           else (sm, []));
      (sm, s2) =
        (if monitor_up then
           (if \<not> IsConnected sm \<and> \<not> IsDegraded sm then (OnMonitorConnected sm, []) else (sm, []))
         else if IsConnected sm \<or> IsDegraded sm
           then (OnMonitorDisconnected (Some ''connection lost'') now sm, [MonitorService])
           else (sm, []))
      in (sm, s1 @ s2))"

text \<open>\<open>None\<close>: the reconnect loop does not return.\<close>

definition reconnectService ::
    "(real \<Rightarrow> int) \<Rightarrow> (nat \<Rightarrow> attempt_env) \<Rightarrow> service \<Rightarrow> worker \<Rightarrow> worker option" where
  "reconnectService oob env svc w =
     (case StartReconnect oob env (wk_rm w) of
        None \<Rightarrow> None
      | Some (Some err, rm) \<Rightarrow> Some (w\<lparr>wk_rm := rm\<rparr>)
      | Some (None, rm) \<Rightarrow>
          Some (w\<lparr>wk_rm := rm, wk_sm := (case svc of
              SchedulerService \<Rightarrow> OnSchedulerConnected (wk_sm w)
            | MonitorService \<Rightarrow> OnMonitorConnected (wk_sm w))\<rparr>))"

section \<open>Lemmas\<close>

lemma checkConnections_reconnecting_down:
  "sm_state sm = StateReconnecting \<Longrightarrow> checkConnections False False now sm = (sm, [])"
  by (simp add: checkConnections_def IsConnected_def IsDegraded_def Let_def)

lemma checkConnections_settled:
  "IsConnected sm \<or> IsDegraded sm \<Longrightarrow> checkConnections True True now sm = (sm, [])"
  by (auto simp: checkConnections_def Let_def)

lemma reconnectService_busy:
  "rm_active (wk_rm w) \<Longrightarrow> reconnectService oob env svc w = Some w"
  by (simp add: reconnectService_def StartReconnect_def)

lemma checkConnections_both_lost:
  assumes "sm_state sm = StateConnected" and "sm_inv sm"
  shows "sm_state (fst (checkConnections False False now sm)) = StateReconnecting \<and>
    snd (checkConnections False False now sm) = [SchedulerService, MonitorService]"
  using assms
  by (simp add: checkConnections_def IsConnected_def IsDegraded_def sm_op_defs sm_inv_def)

fun ticks :: "(bool \<times> bool \<times> time) list \<Rightarrow> state_machine \<Rightarrow> state_machine \<times> service list" where
  "ticks [] sm = (sm, [])"
| "ticks ((s, m, t) # es) sm =
     (let (sm1, started) = checkConnections s m t sm; (sm2, rest) = ticks es sm1
      in (sm2, started @ rest))"

lemma ticks_reconnecting_down:
  "sm_state sm = StateReconnecting \<Longrightarrow> \<forall>e \<in> set es. \<not> fst e \<and> \<not> fst (snd e) \<Longrightarrow> ticks es sm = (sm, [])"
  by (induction es) (auto simp: checkConnections_reconnecting_down Let_def)

section \<open>Properties\<close>

text \<open>
  Property C5. When a tick finds both services lost, it starts two reconnects, but the one
  reconnect manager serves one at a time: the second returns at once. From then on, as long
  as both clients stay down, no tick starts another reconnect or leaves the state, so once
  the first reconnect has given up nothing ever reconnects the worker.
\<close>

theorem both_lost_reconnect_once:
  assumes "sm_state sm = StateConnected" and "sm_inv sm"
    and "\<forall>e \<in> set es. \<not> fst e \<and> \<not> fst (snd e)"
  shows "ticks ((False, False, now) # es) sm
      = (fst (checkConnections False False now sm), [SchedulerService, MonitorService]) \<and>
    (rm_active (wk_rm w) \<longrightarrow> reconnectService oob env svc w = Some w)"
proof
  note lost = checkConnections_both_lost [OF assms(1,2), of now]
  have "ticks es (fst (checkConnections False False now sm))
      = (fst (checkConnections False False now sm), [])"
    using lost by (intro ticks_reconnecting_down assms(3)) blast
  with lost show "ticks ((False, False, now) # es) sm
      = (fst (checkConnections False False now sm), [SchedulerService, MonitorService])"
    by (simp add: split_beta)
  show "rm_active (wk_rm w) \<longrightarrow> reconnectService oob env svc w = Some w"
    by (simp add: reconnectService_busy)
qed

definition connected_machine :: state_machine where
  "connected_machine = OnMonitorConnected (OnSchedulerConnected NewConnectionStateMachine)"

theorem both_lost_reconnect_once_witness:
  "snd (ticks [(False, False, 1), (False, False, 2)] connected_machine)
     = [SchedulerService, MonitorService]"
proof -
  have s: "sm_state connected_machine = StateConnected" and i: "sm_inv connected_machine"
    by (simp_all add: connected_machine_def sm_inv_def sm_op_defs NewConnectionStateMachine_def
        new_connection_info_def)
  show ?thesis
    using both_lost_reconnect_once [OF s i, of "[(False, False, 2)]" 1] by simp
qed

text \<open>
  A worker whose two connections are lost and whose clients both come back on
  their own is left degraded: the tick marks the scheduler connected, and that state makes it
  skip the monitor. No later tick repairs this, and the worker executes no check.
\<close>

theorem both_back_stays_degraded:
  assumes "sm_state sm = StateReconnecting" and "sm_inv sm"
  shows "let sm' = fst (checkConnections True True now sm) in
    sm_state sm' = StateDegraded \<and> \<not> CanExecuteChecks sm' \<and>
    ticks (map (\<lambda>t. (True, True, t)) ts) sm' = (sm', [])"
proof -
  let ?sm = "fst (checkConnections True True now sm)"
  have d: "sm_state ?sm = StateDegraded \<and> \<not> CanExecuteChecks ?sm"
    using assms
    by (simp add: checkConnections_def IsConnected_def IsDegraded_def sm_op_defs sm_inv_def
        CanExecuteChecks_def)
  then have "ticks (map (\<lambda>t. (True, True, t)) ts) ?sm = (?sm, [])"
    by (induction ts) (auto simp: checkConnections_settled IsDegraded_def Let_def)
  with d show ?thesis by (simp add: Let_def)
qed

theorem both_back_stays_degraded_witness:
  "\<not> CanExecuteChecks (fst (checkConnections True True 5
     (fst (checkConnections False False 1 connected_machine))))"
proof -
  let ?sm = "fst (checkConnections False False 1 connected_machine)"
  have "sm_state ?sm = StateReconnecting" and "sm_inv ?sm"
    by (simp_all add: connected_machine_def sm_inv_def sm_op_defs NewConnectionStateMachine_def
        new_connection_info_def checkConnections_def IsConnected_def IsDegraded_def)
  from both_back_stays_degraded [OF this, of 5 "[]"] show ?thesis by (simp add: Let_def)
qed

text \<open>
  A check that a maintenance window suppresses is nevertheless submitted to the
  monitor service, as a failed check with status 0, and counted as failed.
\<close>

theorem maintenance_skip_submits_failure:
  assumes "CanExecuteChecks (wk_sm w)"
    and "ShouldSkipCheck locked fetched now m c = ((True, Some win, None), c')"
  shows "executeCheck fmt_time (Some (fst (ShouldSkipCheck locked fetched now m c))) env (Inr mon) m w
    = ([\<lparr>sr_monitor = m, sr_success = False, sr_status = 0, sr_time_ms = he_elapsed_ms env,
         sr_message = ''check skipped due to active maintenance window''\<rparr>],
       w\<lparr>wk_failed := wk_failed w + 1, wk_total_ms := wk_total_ms w + he_elapsed_ms env\<rparr>)"
  using assms
  by (simp add: executeCheck_def ExecuteCheck_def empty_response_def safeProtoInt32_def
      BuildCheckResultProto_def Let_def)

theorem maintenance_skip_submits_failure_witness:
  "let c = mc_Update 10 [\<lparr>mw_id = ''w'', mw_monitor_id = ''m'', mw_start = 5, mw_end = 20,
       mw_pause = True, mw_global = False\<rparr>] (NewMaintenanceCache 100);
     w = (NewWorker 1)\<lparr>wk_sm := connected_machine\<rparr>
   in map sr_success (fst (executeCheck (\<lambda>_. []) (Some (fst (ShouldSkipCheck True (Inl []) 11 ''m'' c)))
        (example_http 100) (Inr \<lparr>am_url = ''http://a'', am_expected_status = [], am_timeout = None\<rparr>) ''m'' w)) = [False]"
proof -
  let ?win = "\<lparr>mw_id = ''w'', mw_monitor_id = ''m'', mw_start = 5, mw_end = 20,
       mw_pause = True, mw_global = False\<rparr>"
  let ?c = "mc_Update 10 [?win] (NewMaintenanceCache 100)"
  let ?w = "(NewWorker 1)\<lparr>wk_sm := connected_machine\<rparr>"
  have can: "CanExecuteChecks (wk_sm ?w)"
    by (simp add: connected_machine_def sm_op_defs NewConnectionStateMachine_def
        new_connection_info_def CanExecuteChecks_def NewWorker_def)
  have skip: "ShouldSkipCheck True (Inl []) 11 ''m'' ?c = ((True, Some ?win, None), ?c)"
    by (simp add: ShouldSkipCheck_def mc_Update_def NewMaintenanceCache_def ShouldRefresh_def
        zero_time_def GetActiveWindowForMonitor_def mw_AffectsMonitor_def mw_IsActive_def Let_def)
  show ?thesis
    unfolding Let_def by (subst maintenance_skip_submits_failure [OF can skip]) simp
qed

end
