(* ===== verification/CircuitBreaker.thy ===== *)
theory CircuitBreaker
  imports Prelude
begin

text \<open>
  \<open>backend/scheduler-service/internal/circuitbreaker/circuitbreaker.go\<close> and the adapter
  \<open>internal/monitor/circuit_breaker_adapter.go\<close> that guards the calls to the monitor
  service. \<open>Execute\<close> releases the mutex around the guarded call, so admission and the
  recording of the result are two atomic steps (\<open>cb_step\<close>), and several calls can be in
  flight.
\<close>

section \<open>The contract of a guard\<close>

text \<open>
  What a client of the breaker relies on: while the guard blocks, it refuses without
  changing, and a guard that blocks at some time blocks at every earlier one.
\<close>

locale failfast_guard =
  fixes allow :: "time \<Rightarrow> 'b \<Rightarrow> bool \<times> 'b"
    and blocked :: "time \<Rightarrow> 'b \<Rightarrow> bool"
  assumes allow_blocked: "blocked t b \<Longrightarrow> allow t b = (False, b)"
    and allow_free: "\<not> blocked t b \<Longrightarrow> fst (allow t b)"
    and blocked_earlier: "blocked t b \<Longrightarrow> t' \<le> t \<Longrightarrow> blocked t' b"
begin

primrec attempts :: "time list \<Rightarrow> 'b \<Rightarrow> nat \<times> 'b" where
  "attempts [] b = (0, b)"
| "attempts (t # ts) b =
     (let (ok, b1) = allow t b; (n, b2) = attempts ts b1 in ((if ok then Suc n else n), b2))"

lemma attempts_blocked: "blocked t b \<Longrightarrow> \<forall>t' \<in> set ts. t' \<le> t \<Longrightarrow> attempts ts b = (0, b)"
proof (induction ts)
  case (Cons t' ts)
  then have "allow t' b = (False, b)" by (auto intro: allow_blocked blocked_earlier)
  with Cons show ?case by simp
qed simp

end

section \<open>State and operations\<close>

datatype cb_state = CbClosed | CbOpen | CbHalfOpen

record cb_config =
  cf_failure_threshold :: int
  cf_timeout :: duration
  cf_success_threshold :: int

definition withDefaults :: "cb_config \<Rightarrow> cb_config" where
  "withDefaults c =
     (let c = (if cf_failure_threshold c \<le> 0 then c\<lparr>cf_failure_threshold := 5\<rparr> else c);
          c = (if cf_timeout c \<le> 0 then c\<lparr>cf_timeout := 30 * second\<rparr> else c);
          c = (if cf_success_threshold c \<le> 0 then c\<lparr>cf_success_threshold := 1\<rparr> else c)
      in c)"

record breaker =
  cb_cfg :: cb_config
  cb_state :: cb_state
  cb_failures :: int
  cb_successes :: int
  cb_last_failure :: time

definition NewBreaker :: "cb_config \<Rightarrow> breaker" where
  "NewBreaker cfg = \<lparr>cb_cfg = withDefaults cfg, cb_state = CbClosed, cb_failures = 0,
     cb_successes = 0, cb_last_failure = zero_time\<rparr>"

fun cb_transition :: "time \<Rightarrow> cb_state \<Rightarrow> breaker \<Rightarrow> breaker" where
  "cb_transition now CbOpen b = b\<lparr>cb_state := CbOpen, cb_last_failure := now\<rparr>"
| "cb_transition now CbClosed b = b\<lparr>cb_state := CbClosed, cb_failures := 0, cb_successes := 0\<rparr>"
| "cb_transition now CbHalfOpen b = b\<lparr>cb_state := CbHalfOpen, cb_successes := 0\<rparr>"

definition refreshState :: "time \<Rightarrow> breaker \<Rightarrow> breaker" where
  "refreshState now b =
     (if cb_state b = CbOpen \<and> cf_timeout (cb_cfg b) \<le> now - cb_last_failure b
      then cb_transition now CbHalfOpen b else b)"

definition breaker_State :: "time \<Rightarrow> breaker \<Rightarrow> cb_state \<times> breaker" where
  "breaker_State now b = (let b = refreshState now b in (cb_state b, b))"

definition allowRequest :: "time \<Rightarrow> breaker \<Rightarrow> bool \<times> breaker" where
  "allowRequest now b =
     (let b = refreshState now b
      in (case cb_state b of CbClosed \<Rightarrow> True | CbOpen \<Rightarrow> False | CbHalfOpen \<Rightarrow> True, b))"

definition recordResult :: "time \<Rightarrow> bool \<Rightarrow> breaker \<Rightarrow> breaker" where
  "recordResult now failed b =
     (case cb_state b of
        CbClosed \<Rightarrow>
          if failed then
            (let b = b\<lparr>cb_failures := cb_failures b + 1\<rparr>
             in if cf_failure_threshold (cb_cfg b) \<le> cb_failures b
                then cb_transition now CbOpen b else b)
          else b\<lparr>cb_failures := 0\<rparr>
      | CbOpen \<Rightarrow> if failed then b\<lparr>cb_last_failure := now\<rparr> else b
      | CbHalfOpen \<Rightarrow>
          if failed then cb_transition now CbOpen b
          else
            (let b = b\<lparr>cb_successes := cb_successes b + 1\<rparr>
             in if cf_success_threshold (cb_cfg b) \<le> cb_successes b
                then cb_transition now CbClosed b else b))"

datatype 'e guarded_error = ErrCircuitOpen | CallFailed 'e

text \<open>
  \<open>t1\<close> and \<open>t2\<close> are the clock at admission and at the result; \<open>fn\<close> is what the guarded
  call returns, and is used only when it is made.
\<close>

definition Execute ::
    "time \<Rightarrow> time \<Rightarrow> 'e + 'a \<Rightarrow> breaker \<Rightarrow> ('e guarded_error + 'a) \<times> breaker" where
  "Execute t1 t2 fn b =
     (let (ok, b) = allowRequest t1 b
      in if \<not> ok then (Inl ErrCircuitOpen, b)
         else case fn of
                Inl e \<Rightarrow> (Inl (CallFailed e), recordResult t2 True b)
              | Inr v \<Rightarrow> (Inr v, recordResult t2 False b))"

text \<open>
  The three methods of the adapter have one shape: on \<open>ErrCircuitOpen\<close> they ask the breaker
  for its state for the log, which may move it, and name the service in the error.
\<close>

definition adapter_call ::
    "time \<Rightarrow> time \<Rightarrow> 'e + 'a \<Rightarrow> breaker \<Rightarrow> (('e guarded_error \<times> string) + 'a) \<times> breaker" where
  "adapter_call t1 t2 fn b =
     (case Execute t1 t2 fn b of
        (Inr v, b) \<Rightarrow> (Inr v, b)
      | (Inl ErrCircuitOpen, b) \<Rightarrow> (Inl (ErrCircuitOpen, ''monitor-service''), snd (breaker_State t2 b))
      | (Inl e, b) \<Rightarrow> (Inl (e, []), b))"

section \<open>Steps and invariant\<close>

record cb_system =
  cs_breaker :: breaker
  cs_inflight :: nat
  cs_now :: time

inductive cb_step :: "cb_system \<Rightarrow> cb_system \<Rightarrow> bool" where
  cb_admit: "allowRequest (cs_now s) (cs_breaker s) = (True, b) \<Longrightarrow>
     cb_step s (s\<lparr>cs_breaker := b, cs_inflight := Suc (cs_inflight s)\<rparr>)"
| cb_refuse: "allowRequest (cs_now s) (cs_breaker s) = (False, b) \<Longrightarrow>
     cb_step s (s\<lparr>cs_breaker := b\<rparr>)"
| cb_result: "0 < cs_inflight s \<Longrightarrow>
     cb_step s (s\<lparr>cs_breaker := recordResult (cs_now s) failed (cs_breaker s),
                 cs_inflight := cs_inflight s - 1\<rparr>)"
| cb_tick: "cs_now s \<le> t \<Longrightarrow> cb_step s (s\<lparr>cs_now := t\<rparr>)"

inductive cb_reachable :: "cb_system \<Rightarrow> bool" where
  cb_init: "zero_time \<le> t \<Longrightarrow>
     cb_reachable \<lparr>cs_breaker = NewBreaker cfg, cs_inflight = 0, cs_now = t\<rparr>"
| cb_next: "cb_reachable s \<Longrightarrow> cb_step s s' \<Longrightarrow> cb_reachable s'"

definition cb_inv :: "time \<Rightarrow> breaker \<Rightarrow> bool" where
  "cb_inv now b \<longleftrightarrow>
     0 < cf_failure_threshold (cb_cfg b) \<and> 0 < cf_timeout (cb_cfg b) \<and>
     0 < cf_success_threshold (cb_cfg b) \<and> cb_last_failure b \<le> now \<and>
     0 \<le> cb_failures b \<and> 0 \<le> cb_successes b \<and>
     (cb_state b = CbClosed \<longrightarrow> cb_failures b < cf_failure_threshold (cb_cfg b)) \<and>
     (cb_state b = CbHalfOpen \<longrightarrow> cb_successes b < cf_success_threshold (cb_cfg b))"

lemma cb_inv_New [inv_intros]: "zero_time \<le> t \<Longrightarrow> cb_inv t (NewBreaker cfg)"
  by (simp add: cb_inv_def NewBreaker_def withDefaults_def Let_def)

lemma cb_inv_refresh [inv_intros]: "cb_inv now b \<Longrightarrow> cb_inv now (refreshState now b)"
  by (simp add: cb_inv_def refreshState_def)

lemma cb_inv_allow [inv_intros]: "cb_inv now b \<Longrightarrow> cb_inv now (snd (allowRequest now b))"
  by (simp add: allowRequest_def Let_def inv_intros)

lemma cb_inv_record [inv_intros]: "cb_inv now b \<Longrightarrow> cb_inv now (recordResult now failed b)"
  by (cases "cb_state b") (auto simp: cb_inv_def recordResult_def Let_def)

lemma cb_inv_later: "cb_inv now b \<Longrightarrow> now \<le> t \<Longrightarrow> cb_inv t b"
  by (simp add: cb_inv_def)

lemma cb_step_inv:
  "cb_step s s' \<Longrightarrow> cb_inv (cs_now s) (cs_breaker s) \<Longrightarrow> cb_inv (cs_now s') (cs_breaker s')"
proof (induction rule: cb_step.induct)
  case (cb_admit s b)
  then show ?case using cb_inv_allow [of "cs_now s" "cs_breaker s"] by simp
next
  case (cb_refuse s b)
  then show ?case using cb_inv_allow [of "cs_now s" "cs_breaker s"] by simp
qed (simp_all add: cb_inv_record cb_inv_later)

lemma cb_reachable_inv: "cb_reachable s \<Longrightarrow> cb_inv (cs_now s) (cs_breaker s)"
proof (induction rule: cb_reachable.induct)
  case (cb_init t cfg)
  then show ?case by (simp add: cb_inv_New)
next
  case (cb_next s s')
  then show ?case by (blast intro: cb_step_inv)
qed

definition cb_blocked :: "time \<Rightarrow> breaker \<Rightarrow> bool" where
  "cb_blocked t b \<longleftrightarrow> cb_state b = CbOpen \<and> t - cb_last_failure b < cf_timeout (cb_cfg b)"

interpretation cbg: failfast_guard allowRequest cb_blocked
  by unfold_locales
     (auto simp: allowRequest_def refreshState_def cb_blocked_def Let_def split: cb_state.split)

lemma allow_half_open: "cb_state b = CbHalfOpen \<Longrightarrow> allowRequest t b = (True, b)"
  by (simp add: allowRequest_def refreshState_def)

section \<open>The abstract count of consecutive failures\<close>

fun trailing_failures :: "bool list \<Rightarrow> nat" where
  "trailing_failures rs = length (takeWhile (\<lambda>f. f) (rev rs))"

text \<open>The breaker after the results \<open>rs\<close> (\<open>True\<close> is a failure), recorded one by one.\<close>

definition record_all :: "time \<Rightarrow> bool list \<Rightarrow> breaker \<Rightarrow> breaker" where
  "record_all now rs b = fold (recordResult now) rs b"

lemma trailing_failures_snoc [simp]:
  "trailing_failures (rs @ [f]) = (if f then Suc (trailing_failures rs) else 0)"
  by simp

lemma record_all_closed:
  assumes "\<And>n. n \<le> length rs \<Longrightarrow> int (trailing_failures (take n rs)) < cf_failure_threshold (cb_cfg (NewBreaker cfg))"
  shows "cb_state (record_all now rs (NewBreaker cfg)) = CbClosed \<and>
    cb_failures (record_all now rs (NewBreaker cfg)) = int (trailing_failures rs) \<and>
    cb_cfg (record_all now rs (NewBreaker cfg)) = cb_cfg (NewBreaker cfg)"
  using assms
proof (induction rs rule: rev_induct)
  case Nil
  then show ?case by (simp add: record_all_def NewBreaker_def)
next
  case (snoc f rs)
  have "int (trailing_failures (take n rs)) < cf_failure_threshold (cb_cfg (NewBreaker cfg))"
    if "n \<le> length rs" for n
    using snoc.prems [of n] that by simp
  note IH = snoc.IH [OF this]
  have "int (trailing_failures (rs @ [f])) < cf_failure_threshold (cb_cfg (NewBreaker cfg))"
    using snoc.prems [of "Suc (length rs)"] by (simp del: trailing_failures.simps)
  then show ?case
    using IH
    by (auto simp: record_all_def recordResult_def Let_def simp del: trailing_failures.simps)
qed

section \<open>Properties\<close>

text \<open>
  Property C6. Whatever the interleaving of admissions, results and clock ticks: a closed
  breaker has counted fewer failures than its threshold, a half-open one fewer successes than
  its own, and a request is refused exactly while the breaker is open and its timeout has not
  passed since the last failure.
\<close>

theorem breaker_reachable_safe:
  assumes "cb_reachable s"
  shows "(cb_state (cs_breaker s) = CbClosed \<longrightarrow>
      cb_failures (cs_breaker s) < cf_failure_threshold (cb_cfg (cs_breaker s))) \<and>
    (cb_state (cs_breaker s) = CbHalfOpen \<longrightarrow>
      cb_successes (cs_breaker s) < cf_success_threshold (cb_cfg (cs_breaker s))) \<and>
    (fst (allowRequest (cs_now s) (cs_breaker s)) \<longleftrightarrow>
      \<not> (cb_state (cs_breaker s) = CbOpen \<and>
         cs_now s - cb_last_failure (cs_breaker s) < cf_timeout (cb_cfg (cs_breaker s))))"
proof -
  have "fst (allowRequest (cs_now s) (cs_breaker s)) \<longleftrightarrow> \<not> cb_blocked (cs_now s) (cs_breaker s)"
    using cbg.allow_blocked cbg.allow_free by force
  with cb_reachable_inv [OF assms] show ?thesis by (simp add: cb_inv_def cb_blocked_def)
qed

theorem breaker_reachable_safe_witness:
  "fst (allowRequest 7 (NewBreaker \<lparr>cf_failure_threshold = 0, cf_timeout = 0, cf_success_threshold = 0\<rparr>))"
proof -
  have "cb_reachable \<lparr>cs_breaker = NewBreaker \<lparr>cf_failure_threshold = 0, cf_timeout = 0,
      cf_success_threshold = 0\<rparr>, cs_inflight = 0, cs_now = 7\<rparr>"
    by (rule cb_init) (simp add: zero_time_def)
  from breaker_reachable_safe [OF this] show ?thesis by (simp add: NewBreaker_def)
qed

text \<open>
  A new breaker opens on the result that completes a run of
  \<open>FailureThreshold\<close> consecutive failures, and not before; any success in between starts the
  count again.
\<close>

theorem breaker_trips_on_consecutive_failures:
  assumes "\<And>n. n \<le> length rs \<Longrightarrow>
    int (trailing_failures (take n rs)) < cf_failure_threshold (cb_cfg (NewBreaker cfg))"
  shows "cb_state (record_all now rs (NewBreaker cfg)) = CbClosed \<and>
    (cb_state (record_all now (rs @ [failed]) (NewBreaker cfg)) = CbOpen \<longleftrightarrow>
      failed \<and> int (trailing_failures rs) + 1 = cf_failure_threshold (cb_cfg (NewBreaker cfg)))"
proof -
  have "int (trailing_failures rs) < cf_failure_threshold (cb_cfg (NewBreaker cfg))"
    using assms [of "length rs"] by (simp del: trailing_failures.simps)
  with record_all_closed [of rs cfg now] assms show ?thesis
    by (auto simp: record_all_def recordResult_def Let_def simp del: trailing_failures.simps)
qed

theorem breaker_trips_on_consecutive_failures_witness:
  "let cfg = \<lparr>cf_failure_threshold = 2, cf_timeout = 0, cf_success_threshold = 0\<rparr> in
   cb_state (record_all 5 ([True, False, True] @ [True]) (NewBreaker cfg)) = CbOpen"
proof -
  let ?cfg = "\<lparr>cf_failure_threshold = 2, cf_timeout = 0, cf_success_threshold = 0\<rparr>"
  have th: "cf_failure_threshold (cb_cfg (NewBreaker ?cfg)) = 2"
    by (simp add: NewBreaker_def withDefaults_def)
  have p: "int (trailing_failures (take n [True, False, True]))
      < cf_failure_threshold (cb_cfg (NewBreaker ?cfg))" for n
    unfolding th by (cases n rule: nat.exhaust; simp; case_tac x2; simp; case_tac nat; simp)
  show ?thesis
    using breaker_trips_on_consecutive_failures [of "[True, False, True]" ?cfg 5 True] p th
    by (simp del: take_Suc_Cons)
qed

text \<open>
  While the breaker blocks, no request reaches the monitor service, however many
  are made: all are refused with \<open>ErrCircuitOpen\<close>, without changing the breaker. Once the
  timeout has passed, \<open>SuccessThreshold\<close> successes close it with both counters at zero.
\<close>

theorem breaker_blocks_then_recovers:
  assumes "cb_inv now b" and "cb_state b = CbOpen"
    and "\<forall>t \<in> set ts. t - cb_last_failure b < cf_timeout (cb_cfg b)"
    and "cf_timeout (cb_cfg b) \<le> t2 - cb_last_failure b"
  shows "cbg.attempts ts b = (0, b) \<and>
    (\<exists>b'. allowRequest t2 b = (True, b') \<and>
      record_all t2 (replicate (nat (cf_success_threshold (cb_cfg b))) False) b'
        = b\<lparr>cb_state := CbClosed, cb_failures := 0, cb_successes := 0\<rparr>)"
proof
  show "cbg.attempts ts b = (0, b)"
  proof (cases "ts = []")
    case False
    then have "cb_blocked (Max (set ts)) b"
      using assms(2,3) by (simp add: cb_blocked_def)
    then show ?thesis by (rule cbg.attempts_blocked) simp
  qed simp
  let ?h = "\<lambda>k. b\<lparr>cb_state := CbHalfOpen, cb_successes := k\<rparr>"
  have step: "0 \<le> k \<Longrightarrow> k + int n < cf_success_threshold (cb_cfg b) \<Longrightarrow>
      record_all t2 (replicate n False) (?h k) = ?h (k + int n)" for k n
    by (induction n arbitrary: k) (simp_all add: record_all_def recordResult_def Let_def)
  obtain n where n: "nat (cf_success_threshold (cb_cfg b)) = Suc n" "int n + 1 = cf_success_threshold (cb_cfg b)"
    using assms(1) by (cases "nat (cf_success_threshold (cb_cfg b))") (auto simp: cb_inv_def)
  have "record_all t2 (replicate (Suc n) False) (?h 0)
      = recordResult t2 False (record_all t2 (replicate n False) (?h 0))"
    by (simp add: record_all_def replicate_append_same [symmetric] del: replicate.simps)
  also have "\<dots> = b\<lparr>cb_state := CbClosed, cb_failures := 0, cb_successes := 0\<rparr>"
    using step [of 0 n] n(2) by (simp add: recordResult_def Let_def)
  finally show "\<exists>b'. allowRequest t2 b = (True, b') \<and>
      record_all t2 (replicate (nat (cf_success_threshold (cb_cfg b))) False) b'
        = b\<lparr>cb_state := CbClosed, cb_failures := 0, cb_successes := 0\<rparr>"
    using assms(2,4) n(1)
    by (intro exI [of _ "?h 0"]) (simp add: allowRequest_def refreshState_def Let_def)
qed

definition open_breaker :: breaker where
  "open_breaker = \<lparr>cb_cfg = \<lparr>cf_failure_threshold = 5, cf_timeout = 30, cf_success_threshold = 2\<rparr>,
     cb_state = CbOpen, cb_failures = 5, cb_successes = 0, cb_last_failure = 100\<rparr>"

theorem breaker_blocks_then_recovers_witness:
  "cbg.attempts [101, 129] open_breaker = (0, open_breaker) \<and> fst (allowRequest 130 open_breaker)"
proof -
  have "cb_inv 100 open_breaker" "cb_state open_breaker = CbOpen"
    by (simp_all add: cb_inv_def open_breaker_def)
  from breaker_blocks_then_recovers [OF this, of "[101, 129]" 130] show ?thesis
    by (auto simp: open_breaker_def)
qed

text \<open>
  A half-open breaker admits any number of requests before the first of them
  returns; its documentation promises a single trial request.
\<close>

theorem half_open_admits_all:
  assumes "cb_state b = CbHalfOpen"
  shows "cbg.attempts ts b = (length ts, b)"
  by (induction ts) (simp_all add: allow_half_open [OF assms])

theorem half_open_admits_all_witness:
  "cbg.attempts [130, 130, 130] (snd (allowRequest 130 open_breaker))
     = (3, snd (allowRequest 130 open_breaker))"
proof -
  have "cb_state (snd (allowRequest 130 open_breaker)) = CbHalfOpen"
    by (simp add: open_breaker_def allowRequest_def refreshState_def Let_def)
  from half_open_admits_all [OF this, of "[130, 130, 130]"] show ?thesis by simp
qed

end
