(* ===== verification/SchedulerStore.thy ===== *)
theory SchedulerStore
  imports Complex_Main Prelude "HOL-Library.List_Lexorder" "HOL-Library.Char_ord"
begin

text \<open>
  The scheduler service's data: \<open>backend/scheduler-service/internal/model/model.go\<close> and the
  two repositories \<open>internal/repository/postgres/scheduled_check_repository.go\<close> and
  \<open>worker_repository.go\<close>. Each repository method is one SQL statement on a table, so one
  definition on the list of its rows, in insertion order. A method fails when \<open>down\<close> says so
  for its call, or when the table's primary key or \<open>UNIQUE\<close> constraint (the migrations) is
  violated. \<open>uuid.Nil\<close> and SQL's \<open>NULL\<close> in \<open>worker_id\<close> are both \<open>None\<close>. Where
  the SQL leaves the order of ties open the model takes the insertion order.
\<close>

section \<open>Model\<close>

type_synonym uuid = nat

datatype worker_status = WorkerIdle | WorkerBusy | WorkerOffline

fun ParseWorkerStatus :: "string \<Rightarrow> worker_status option" where
  "ParseWorkerStatus s =
     (if s = ''IDLE'' then Some WorkerIdle
      else if s = ''BUSY'' then Some WorkerBusy
      else if s = ''OFFLINE'' then Some WorkerOffline
      else None)"

record sched_worker =
  wo_id :: uuid
  wo_name :: string
  wo_zone :: string
  wo_status :: worker_status
  wo_heartbeat :: time
  wo_completed :: int
  wo_failed :: int
  wo_avg_ms :: real
  wo_metadata :: "(string \<times> string) list"
  wo_created :: time
  wo_updated :: time

definition NewSchedWorker :: "uuid \<Rightarrow> time \<Rightarrow> string \<Rightarrow> string \<Rightarrow> sched_worker" where
  "NewSchedWorker i now name zone = \<lparr>wo_id = i, wo_name = name, wo_zone = zone,
     wo_status = WorkerIdle, wo_heartbeat = now, wo_completed = 0, wo_failed = 0, wo_avg_ms = 0,
     wo_metadata = [], wo_created = now, wo_updated = now\<rparr>"

definition UpdateHeartbeat ::
    "time \<Rightarrow> worker_status \<Rightarrow> int \<Rightarrow> int \<Rightarrow> real \<Rightarrow> sched_worker \<Rightarrow> sched_worker" where
  "UpdateHeartbeat now st c f avg w = w\<lparr>wo_status := st, wo_heartbeat := now,
     wo_completed := c, wo_failed := f, wo_avg_ms := avg, wo_updated := now\<rparr>"

definition MarkOffline :: "time \<Rightarrow> sched_worker \<Rightarrow> sched_worker" where
  "MarkOffline now w = w\<lparr>wo_status := WorkerOffline, wo_updated := now\<rparr>"

datatype check_priority = PriorityLow | PriorityNormal | PriorityHigh | PriorityCritical

fun priority_string :: "check_priority \<Rightarrow> string" where
  "priority_string PriorityLow = ''LOW''"
| "priority_string PriorityNormal = ''NORMAL''"
| "priority_string PriorityHigh = ''HIGH''"
| "priority_string PriorityCritical = ''CRITICAL''"

datatype check_status = CheckPending | CheckInProgress | CheckCompleted | CheckFailed

record scheduled_check =
  sc_id :: uuid
  sc_monitor :: uuid
  sc_worker :: "uuid option"
  sc_priority :: check_priority
  sc_scheduled_at :: time
  sc_executed_at :: "time option"
  sc_completed_at :: "time option"
  sc_status :: check_status
  sc_error :: string
  sc_created :: time
  sc_updated :: time

definition NewScheduledCheck ::
    "uuid \<Rightarrow> time \<Rightarrow> uuid \<Rightarrow> check_priority \<Rightarrow> time \<Rightarrow> scheduled_check" where
  "NewScheduledCheck i now m p due = \<lparr>sc_id = i, sc_monitor = m, sc_worker = None,
     sc_priority = p, sc_scheduled_at = due, sc_executed_at = None, sc_completed_at = None,
     sc_status = CheckPending, sc_error = [], sc_created = now, sc_updated = now\<rparr>"

definition Assign :: "time \<Rightarrow> uuid \<Rightarrow> scheduled_check \<Rightarrow> scheduled_check" where
  "Assign now w c = c\<lparr>sc_worker := Some w, sc_status := CheckInProgress,
     sc_executed_at := Some now, sc_updated := now\<rparr>"

definition Complete :: "time \<Rightarrow> scheduled_check \<Rightarrow> scheduled_check" where
  "Complete now c = c\<lparr>sc_status := CheckCompleted, sc_completed_at := Some now, sc_updated := now\<rparr>"

definition Fail :: "time \<Rightarrow> string \<Rightarrow> scheduled_check \<Rightarrow> scheduled_check" where
  "Fail now msg c = c\<lparr>sc_status := CheckFailed, sc_error := msg, sc_completed_at := Some now,
     sc_updated := now\<rparr>"

definition IsOverdue :: "time \<Rightarrow> duration \<Rightarrow> scheduled_check \<Rightarrow> bool" where
  "IsOverdue now threshold c =
     (if sc_status c \<noteq> CheckPending then False else threshold < now - sc_scheduled_at c)"

section \<open>Database\<close>

datatype db_call =
    CheckCreate | CheckGet | CheckUpdate uuid | CheckHasPending | CheckListOverdue
  | CheckListRange | CheckReassign uuid
  | WorkerCreate | WorkerGetByID | WorkerGetByName | WorkerUpdate uuid | WorkerDelete uuid
  | WorkerListIdle | WorkerListExpired | WorkerListCleanup | AuditCreate

record sched_db =
  db_checks :: "scheduled_check list"
  db_workers :: "sched_worker list"
  db_audit :: "(string \<times> uuid) list"

type_synonym faults = "db_call \<Rightarrow> bool"

definition active :: "scheduled_check \<Rightarrow> bool" where
  "active c \<longleftrightarrow> sc_status c = CheckPending \<or> sc_status c = CheckInProgress"

subsection \<open>Checks\<close>

definition check_Create :: "faults \<Rightarrow> scheduled_check \<Rightarrow> sched_db \<Rightarrow> sched_db option" where
  "check_Create down c db =
     (if down CheckCreate \<or> sc_id c \<in> sc_id ` set (db_checks db) then None
      else Some (db\<lparr>db_checks := db_checks db @ [c]\<rparr>))"

definition check_GetByID :: "faults \<Rightarrow> uuid \<Rightarrow> sched_db \<Rightarrow> scheduled_check option" where
  "check_GetByID down i db =
     (if down CheckGet then None else List.find (\<lambda>c. sc_id c = i) (db_checks db))"

definition check_GetByMonitorID :: "faults \<Rightarrow> uuid \<Rightarrow> sched_db \<Rightarrow> scheduled_check option" where
  "check_GetByMonitorID down m db =
     (if down CheckGet then None
      else case sort_key (\<lambda>c. - sc_scheduled_at c)
             (filter (\<lambda>c. sc_monitor c = m \<and> active c) (db_checks db)) of
             [] \<Rightarrow> None | c # _ \<Rightarrow> Some c)"

text \<open>The columns that the \<open>UPDATE\<close> sets; the priority is not among them.\<close>

definition set_check_columns :: "scheduled_check \<Rightarrow> scheduled_check \<Rightarrow> scheduled_check" where
  "set_check_columns c r = r\<lparr>sc_worker := sc_worker c, sc_status := sc_status c,
     sc_executed_at := sc_executed_at c, sc_completed_at := sc_completed_at c,
     sc_error := sc_error c, sc_updated := sc_updated c\<rparr>"

definition check_Update :: "faults \<Rightarrow> scheduled_check \<Rightarrow> sched_db \<Rightarrow> sched_db option" where
  "check_Update down c db =
     (if down (CheckUpdate (sc_id c)) then None
      else Some (db\<lparr>db_checks := upd_where (\<lambda>r. sc_id r = sc_id c) (set_check_columns c)
             (db_checks db)\<rparr>))"

text \<open>\<open>ORDER BY priority DESC, scheduled_at ASC\<close>, where \<open>priority\<close> is a \<open>VARCHAR\<close>.\<close>

fun priority_rank :: "check_priority \<Rightarrow> int" where
  "priority_rank PriorityCritical = 0"
| "priority_rank PriorityHigh = 1"
| "priority_rank PriorityLow = 2"
| "priority_rank PriorityNormal = 3"

lemma priority_rank_is_string_order:
  "priority_rank p < priority_rank q \<longleftrightarrow> priority_string p < priority_string q"
  by (cases p; cases q; simp; code_simp)

definition check_ListPendingByWorkerID :: "uuid \<Rightarrow> sched_db \<Rightarrow> scheduled_check list" where
  "check_ListPendingByWorkerID w db =
     sort_key (\<lambda>c. - priority_rank (sc_priority c))
       (sort_key sc_scheduled_at
         (filter (\<lambda>c. sc_worker c = Some w \<and> sc_status c = CheckPending) (db_checks db)))"

definition check_ListByTimeRange ::
    "faults \<Rightarrow> time \<Rightarrow> time \<Rightarrow> check_status option \<Rightarrow> int \<Rightarrow> int \<Rightarrow> sched_db \<Rightarrow>
     (scheduled_check list \<times> int) option" where
  "check_ListByTimeRange down from to status page pageSize db =
     (let rows = filter (\<lambda>c. from \<le> sc_scheduled_at c \<and> sc_scheduled_at c \<le> to \<and>
            (case status of None \<Rightarrow> True | Some s \<Rightarrow> sc_status c = s)) (db_checks db);
          offset = (page - 1) * pageSize
      in if down CheckListRange \<or> pageSize < 0 \<or> offset < 0 then None
         else Some (take (nat pageSize) (drop (nat offset) (sort_key sc_scheduled_at rows)),
                    int (length rows)))"

definition check_ListOverdue ::
    "faults \<Rightarrow> time \<Rightarrow> duration \<Rightarrow> sched_db \<Rightarrow> scheduled_check list option" where
  "check_ListOverdue down now threshold db =
     (if down CheckListOverdue then None
      else Some (sort_key sc_scheduled_at
        (filter (\<lambda>c. sc_status c = CheckPending \<and>
           sc_scheduled_at c < now - (threshold div second) * second) (db_checks db))))"

definition release_check :: "time \<Rightarrow> scheduled_check \<Rightarrow> scheduled_check" where
  "release_check now r = r\<lparr>sc_worker := None, sc_status := CheckPending,
     sc_executed_at := None, sc_updated := now\<rparr>"

definition check_ReassignByWorkerID ::
    "faults \<Rightarrow> time \<Rightarrow> uuid \<Rightarrow> sched_db \<Rightarrow> int option \<times> sched_db" where
  "check_ReassignByWorkerID down now w db =
     (if down (CheckReassign w) then (None, db)
      else let p = (\<lambda>r. sc_worker r = Some w \<and> active r)
           in (Some (int (count_where p (db_checks db))),
               db\<lparr>db_checks := upd_where p (release_check now) (db_checks db)\<rparr>))"

definition check_DeleteCompletedBefore :: "time \<Rightarrow> sched_db \<Rightarrow> sched_db" where
  "check_DeleteCompletedBefore before db = db\<lparr>db_checks := del_where
     (\<lambda>r. sc_status r = CheckCompleted \<and> (case sc_completed_at r of None \<Rightarrow> False | Some t \<Rightarrow> t < before))
     (db_checks db)\<rparr>"

definition check_HasPendingCheck :: "faults \<Rightarrow> uuid \<Rightarrow> sched_db \<Rightarrow> bool option" where
  "check_HasPendingCheck down m db =
     (if down CheckHasPending then None
      else Some (list_ex (\<lambda>c. sc_monitor c = m \<and> active c) (db_checks db)))"

subsection \<open>Workers\<close>

definition worker_Create :: "faults \<Rightarrow> sched_worker \<Rightarrow> sched_db \<Rightarrow> sched_db option" where
  "worker_Create down w db =
     (if down WorkerCreate \<or> wo_id w \<in> wo_id ` set (db_workers db)
         \<or> wo_name w \<in> wo_name ` set (db_workers db) then None
      else Some (db\<lparr>db_workers := db_workers db @ [w]\<rparr>))"

definition worker_GetByID :: "faults \<Rightarrow> uuid \<Rightarrow> sched_db \<Rightarrow> sched_worker option" where
  "worker_GetByID down i db =
     (if down WorkerGetByID then None else List.find (\<lambda>w. wo_id w = i) (db_workers db))"

definition worker_GetByName :: "faults \<Rightarrow> string \<Rightarrow> sched_db \<Rightarrow> sched_worker option" where
  "worker_GetByName down n db =
     (if down WorkerGetByName then None else List.find (\<lambda>w. wo_name w = n) (db_workers db))"

definition worker_List ::
    "worker_status option \<Rightarrow> string \<Rightarrow> int \<Rightarrow> int \<Rightarrow> sched_db \<Rightarrow> (sched_worker list \<times> int) option" where
  "worker_List status zone page pageSize db =
     (let rows = filter (\<lambda>w. (case status of None \<Rightarrow> True | Some s \<Rightarrow> wo_status w = s) \<and>
            (zone = [] \<or> wo_zone w = zone)) (db_workers db);
          offset = (page - 1) * pageSize
      in if pageSize < 0 \<or> offset < 0 then None
         else Some (take (nat pageSize) (drop (nat offset) (sort_key (\<lambda>w. - wo_created w) rows)),
                    int (length rows)))"

definition set_worker_columns :: "sched_worker \<Rightarrow> sched_worker \<Rightarrow> sched_worker" where
  "set_worker_columns w r = r\<lparr>wo_status := wo_status w, wo_heartbeat := wo_heartbeat w,
     wo_completed := wo_completed w, wo_failed := wo_failed w, wo_avg_ms := wo_avg_ms w,
     wo_updated := wo_updated w\<rparr>"

definition worker_Update :: "faults \<Rightarrow> sched_worker \<Rightarrow> sched_db \<Rightarrow> sched_db option" where
  "worker_Update down w db =
     (if down (WorkerUpdate (wo_id w)) then None
      else Some (db\<lparr>db_workers := upd_where (\<lambda>r. wo_id r = wo_id w) (set_worker_columns w)
             (db_workers db)\<rparr>))"

definition worker_Delete :: "faults \<Rightarrow> uuid \<Rightarrow> sched_db \<Rightarrow> sched_db option" where
  "worker_Delete down i db =
     (if down (WorkerDelete i) then None
      else Some (db\<lparr>db_workers := del_where (\<lambda>r. wo_id r = i) (db_workers db)\<rparr>))"

definition expired_worker :: "time \<Rightarrow> duration \<Rightarrow> sched_worker \<Rightarrow> bool" where
  "expired_worker now timeout w \<longleftrightarrow> wo_status w \<noteq> WorkerOffline \<and> wo_heartbeat w < now - timeout"

definition worker_ListExpired ::
    "faults \<Rightarrow> time \<Rightarrow> duration \<Rightarrow> sched_db \<Rightarrow> sched_worker list option" where
  "worker_ListExpired down now timeout db =
     (if down WorkerListExpired then None
      else Some (filter (expired_worker now timeout) (db_workers db)))"

definition worker_ListIdleByZone :: "faults \<Rightarrow> string \<Rightarrow> sched_db \<Rightarrow> sched_worker list option" where
  "worker_ListIdleByZone down zone db =
     (if down WorkerListIdle then None
      else Some (sort_key wo_completed
        (filter (\<lambda>w. wo_status w = WorkerIdle \<and> (zone = [] \<or> wo_zone w = zone)) (db_workers db))))"

definition worker_ListOfflineForCleanup ::
    "faults \<Rightarrow> time \<Rightarrow> sched_db \<Rightarrow> sched_worker list option" where
  "worker_ListOfflineForCleanup down cutoff db =
     (if down WorkerListCleanup then None
      else Some (filter (\<lambda>w. wo_status w = WorkerOffline \<and> wo_updated w < cutoff) (db_workers db)))"

section \<open>Invariant and effects\<close>

definition active_of :: "uuid \<Rightarrow> scheduled_check \<Rightarrow> bool" where
  "active_of m c \<longleftrightarrow> sc_monitor c = m \<and> active c"

definition active_count :: "sched_db \<Rightarrow> uuid \<Rightarrow> nat" where
  "active_count db m = count_where (active_of m) (db_checks db)"

definition db_inv :: "sched_db \<Rightarrow> bool" where
  "db_inv db \<longleftrightarrow> distinct (map sc_id (db_checks db)) \<and> distinct (map wo_id (db_workers db)) \<and>
     distinct (map wo_name (db_workers db)) \<and> (\<forall>m. active_count db m \<le> 1)"

lemma set_check_columns_frame [simp, frame_simps]:
  "sc_id (set_check_columns c r) = sc_id r" "sc_monitor (set_check_columns c r) = sc_monitor r"
  "sc_priority (set_check_columns c r) = sc_priority r"
  "sc_status (set_check_columns c r) = sc_status c" "sc_worker (set_check_columns c r) = sc_worker c"
  by (simp_all add: set_check_columns_def)

lemma release_check_frame [simp, frame_simps]:
  "sc_id (release_check t r) = sc_id r" "sc_monitor (release_check t r) = sc_monitor r"
  "sc_priority (release_check t r) = sc_priority r"
  "sc_worker (release_check t r) = None" "sc_status (release_check t r) = CheckPending"
  "active (release_check t r)"
  by (simp_all add: release_check_def active_def)

lemma set_worker_columns_frame [simp, frame_simps]:
  "wo_id (set_worker_columns w r) = wo_id r" "wo_name (set_worker_columns w r) = wo_name r"
  "wo_status (set_worker_columns w r) = wo_status w"
  by (simp_all add: set_worker_columns_def)

lemma db_inv_empty [inv_intros]: "db_inv \<lparr>db_checks = [], db_workers = [], db_audit = []\<rparr>"
  by (simp add: db_inv_def active_count_def)

lemma db_inv_audit [simp]: "db_inv (db\<lparr>db_audit := a\<rparr>) = db_inv db"
  by (simp add: db_inv_def active_count_def)

text \<open>An update of check rows that keeps keys and monitors and activates nothing.\<close>

lemma db_inv_upd_checks [inv_intros]:
  assumes "db_inv db" and "\<And>r. sc_id (f r) = sc_id r" and "\<And>r. sc_monitor (f r) = sc_monitor r"
    and "\<And>r. r \<in> set (db_checks db) \<Longrightarrow> p r \<Longrightarrow> active (f r) \<Longrightarrow> active r"
  shows "db_inv (db\<lparr>db_checks := upd_where p f (db_checks db)\<rparr>)"
proof -
  have "active_count (db\<lparr>db_checks := upd_where p f (db_checks db)\<rparr>) m \<le> active_count db m" for m
    using assms(3,4)
    by (auto simp: active_count_def count_where_upd_where active_of_def intro!: count_where_mono
        split: if_splits)
  then show ?thesis
    using assms(1,2) by (auto simp: db_inv_def intro: order_trans)
qed

lemma db_inv_upd_workers [inv_intros]:
  assumes "db_inv db" and "\<And>r. wo_id (f r) = wo_id r" and "\<And>r. wo_name (f r) = wo_name r"
  shows "db_inv (db\<lparr>db_workers := upd_where p f (db_workers db)\<rparr>)"
  using assms by (simp add: db_inv_def active_count_def)

lemma db_inv_del_workers [inv_intros]:
  "db_inv db \<Longrightarrow> db_inv (db\<lparr>db_workers := del_where p (db_workers db)\<rparr>)"
  by (simp add: db_inv_def active_count_def distinct_key_del_where)

lemma db_inv_reassign [inv_intros]:
  "db_inv db \<Longrightarrow> db_inv (snd (check_ReassignByWorkerID down now w db))"
  by (auto simp: check_ReassignByWorkerID_def Let_def intro!: db_inv_upd_checks)

lemma HasPendingCheck_iff:
  "check_HasPendingCheck down m db = Some b \<Longrightarrow> b \<longleftrightarrow> 0 < active_count db m"
  using count_where_0_iff [of "active_of m" "db_checks db"]
  by (auto simp: check_HasPendingCheck_def active_count_def active_of_def list_ex_iff
      split: if_splits)

lemma active_count_Create:
  "check_Create down c db = Some db' \<Longrightarrow>
     active_count db' m = active_count db m + (if active_of m c then 1 else 0)"
  by (auto simp: check_Create_def active_count_def split: if_splits)

lemma db_inv_Create:
  assumes "db_inv db" and "check_Create down c db = Some db'" and "active_count db (sc_monitor c) = 0"
  shows "db_inv db'"
proof -
  have "active_count db' m \<le> 1" for m
    using assms active_count_Create [OF assms(2), of m] by (auto simp: db_inv_def active_of_def)
  with assms(1,2) show ?thesis
    by (auto simp: db_inv_def check_Create_def split: if_splits)
qed

lemma idle_first:
  assumes "worker_ListIdleByZone down zone db = Some (w # ws)"
  shows "w \<in> set (db_workers db) \<and> wo_status w = WorkerIdle \<and> (zone = [] \<or> wo_zone w = zone) \<and>
    (\<forall>v \<in> set (db_workers db). wo_status v = WorkerIdle \<longrightarrow> zone = [] \<or> wo_zone v = zone \<longrightarrow>
       wo_completed w \<le> wo_completed v)"
proof -
  let ?idle = "filter (\<lambda>w. wo_status w = WorkerIdle \<and> (zone = [] \<or> wo_zone w = zone)) (db_workers db)"
  have s: "sort_key wo_completed ?idle = w # ws"
    using assms by (simp add: worker_ListIdleByZone_def split: if_splits)
  then have ne: "?idle \<noteq> []" by (metis list.distinct(1) sort_key_eq_Nil)
  have "hd (sort_key wo_completed ?idle) = w" using s by simp
  with hd_sort_key_in [OF ne, of wo_completed] hd_sort_key_min [OF ne, of _ wo_completed]
  show ?thesis by auto
qed

end
