(* ===== verification/SchedulerService.thy ===== *)
theory SchedulerService
  imports SchedulerStore
begin

text \<open>
  The scheduler service proper: \<open>backend/scheduler-service/internal/service/check_scheduler.go\<close>,
  \<open>worker_service.go\<close>, \<open>scheduling_loop.go\<close>, \<open>internal/model/errors.go\<close> and
  \<open>internal/repository/postgres/distributed_lock.go\<close>.

  An operation is a function of the fault oracle \<open>down\<close>, the clock \<open>now\<close> and the database, and
  returns the new database. Identifiers that \<open>uuid.New()\<close> draws come from \<open>new_id\<close>, a
  function of the database. \<open>ScheduleCheck\<close> is not one transaction: it is the composition of
  \<open>ScheduleCheck_guard\<close> and \<open>ScheduleCheck_insert\<close>, which two callers can interleave. Spans and
  log lines are left out. Strings are byte strings; white space is the ASCII one.
\<close>

section \<open>The contract of a store with at most one active check per monitor\<close>

text \<open>
  \<open>has m s\<close> is the guard that the service asks and \<open>ins c s\<close> the insertion it does then.
\<close>

locale active_check_store =
  fixes has :: "'k \<Rightarrow> 's \<Rightarrow> bool"
    and cnt :: "'s \<Rightarrow> 'k \<Rightarrow> nat"
    and ins :: "'c \<Rightarrow> 's \<Rightarrow> 's option"
    and counted :: "'c \<Rightarrow> bool"
    and key :: "'c \<Rightarrow> 'k"
  assumes has_iff: "has m s \<longleftrightarrow> 0 < cnt s m"
    and ins_cnt: "ins c s = Some s' \<Longrightarrow>
      cnt s' m = cnt s m + (if key c = m \<and> counted c then 1 else 0)"
begin

definition one_each :: "'s \<Rightarrow> bool" where
  "one_each s \<longleftrightarrow> (\<forall>m. cnt s m \<le> 1)"

definition guarded :: "'c \<Rightarrow> 's \<Rightarrow> 's option" where
  "guarded c s = (if has (key c) s then None else ins c s)"

lemma guarded_one_each: "one_each s \<Longrightarrow> guarded c s = Some s' \<Longrightarrow> one_each s'"
  by (auto simp: one_each_def guarded_def has_iff ins_cnt split: if_splits)

text \<open>Two callers that both pass the guard before either inserts.\<close>

lemma race_counts_two:
  assumes "\<not> has (key c1) s" and "key c1 = key c2" and "counted c1" and "counted c2"
    and "ins c1 s = Some s1" and "ins c2 s1 = Some s2"
  shows "cnt s2 (key c1) = 2"
  using assms by (simp add: has_iff ins_cnt)

end

section \<open>Errors\<close>

datatype sched_error =
    ErrWorkerNotFound | ErrWorkerNameExists | ErrWorkerNameRequired | ErrWorkerNameTooLong
  | ErrInvalidZone | ErrInvalidWorkerStatus | ErrNoWorkersAvailable | ErrMonitorNotFound
  | ErrCheckAlreadyPending | ErrInvalidTimeRange | ErrCheckNotFound
  | ErrWrapped  \<comment> \<open>\<open>fmt.Errorf("...: %w", err)\<close> around a repository's error\<close>

fun IsSchedulerError :: "sched_error \<Rightarrow> bool" where
  "IsSchedulerError ErrWrapped = False"
| "IsSchedulerError _ = True"

section \<open>Check scheduler\<close>

definition ScheduleCheck_guard :: "faults \<Rightarrow> uuid \<Rightarrow> sched_db \<Rightarrow> sched_error option" where
  "ScheduleCheck_guard down m db =
     (case check_HasPendingCheck down m db of
        None \<Rightarrow> Some ErrWrapped
      | Some True \<Rightarrow> Some ErrCheckAlreadyPending
      | Some False \<Rightarrow> None)"

definition ScheduleCheck_check ::
    "faults \<Rightarrow> time \<Rightarrow> uuid \<Rightarrow> uuid \<Rightarrow> check_priority \<Rightarrow> time \<Rightarrow> sched_db \<Rightarrow> scheduled_check" where
  "ScheduleCheck_check down now i m p due db =
     (let c = NewScheduledCheck i now m p due
      in case worker_ListIdleByZone down [] db of
           Some (w # ws) \<Rightarrow> Assign now (wo_id w) c
         | _ \<Rightarrow> c)"

definition ScheduleCheck_insert ::
    "faults \<Rightarrow> time \<Rightarrow> uuid \<Rightarrow> uuid \<Rightarrow> check_priority \<Rightarrow> time \<Rightarrow> sched_db \<Rightarrow>
     (sched_error + scheduled_check) \<times> sched_db" where
  "ScheduleCheck_insert down now i m p due db =
     (let c = ScheduleCheck_check down now i m p due db
      in case check_Create down c db of
           None \<Rightarrow> (Inl ErrWrapped, db)
         | Some db' \<Rightarrow> (Inr c, db'))"

definition ScheduleCheck ::
    "faults \<Rightarrow> time \<Rightarrow> (sched_db \<Rightarrow> uuid) \<Rightarrow> uuid \<Rightarrow> check_priority \<Rightarrow> time \<Rightarrow> sched_db \<Rightarrow>
     (sched_error + scheduled_check) \<times> sched_db" where
  "ScheduleCheck down now new_id m p due db =
     (case ScheduleCheck_guard down m db of
        Some e \<Rightarrow> (Inl e, db)
      | None \<Rightarrow> ScheduleCheck_insert down now (new_id db) m p due db)"

definition GetScheduledChecks ::
    "faults \<Rightarrow> time \<Rightarrow> time \<Rightarrow> check_status option \<Rightarrow> int \<Rightarrow> int \<Rightarrow> sched_db \<Rightarrow>
     sched_error + (scheduled_check list \<times> int)" where
  "GetScheduledChecks down from to status page pageSize db =
     (if \<not> from < to then Inl ErrInvalidTimeRange
      else case check_ListByTimeRange down from to status page pageSize db of
             None \<Rightarrow> Inl ErrWrapped
           | Some r \<Rightarrow> Inr r)"

definition GetNextCheck :: "faults \<Rightarrow> uuid \<Rightarrow> sched_db \<Rightarrow> sched_error + scheduled_check" where
  "GetNextCheck down m db =
     (case check_GetByMonitorID down m db of None \<Rightarrow> Inl ErrMonitorNotFound | Some c \<Rightarrow> Inr c)"

text \<open>\<open>paused\<close> is what the monitor client answers: \<open>None\<close> an error.\<close>

definition TriggerScheduledCheck ::
    "faults \<Rightarrow> time \<Rightarrow> (sched_db \<Rightarrow> uuid) \<Rightarrow> (uuid \<Rightarrow> bool option) option \<Rightarrow> uuid \<Rightarrow> check_priority \<Rightarrow>
     sched_db \<Rightarrow> (sched_error + scheduled_check) \<times> sched_db" where
  "TriggerScheduledCheck down now new_id monitorClient m p db =
     (case monitorClient of
        None \<Rightarrow> ScheduleCheck down now new_id m p now db
      | Some paused \<Rightarrow>
          (case paused m of
             None \<Rightarrow> (Inl ErrMonitorNotFound, db)
           | Some True \<Rightarrow> (Inl ErrCheckAlreadyPending, db)
           | Some False \<Rightarrow> ScheduleCheck down now new_id m p now db))"

definition CompleteCheck ::
    "faults \<Rightarrow> time \<Rightarrow> uuid \<Rightarrow> bool \<Rightarrow> string \<Rightarrow> sched_db \<Rightarrow> sched_error option \<times> sched_db" where
  "CompleteCheck down now i failed errMsg db =
     (case check_GetByID down i db of
        None \<Rightarrow> (Some ErrCheckNotFound, db)
      | Some c \<Rightarrow>
          let c' = (if failed then Fail now errMsg c else Complete now c)
          in case check_Update down c' db of
               None \<Rightarrow> (Some ErrWrapped, db)
             | Some db' \<Rightarrow> (None, db'))"

primrec reassign_loop ::
    "faults \<Rightarrow> time \<Rightarrow> scheduled_check list \<Rightarrow> int \<Rightarrow> sched_db \<Rightarrow> int \<times> sched_db" where
  "reassign_loop down now [] count db = (count, db)"
| "reassign_loop down now (c # cs) count db =
     (case worker_ListIdleByZone down [] db of
        Some (w # ws) \<Rightarrow>
          (let c' = Assign now (wo_id w) (c\<lparr>sc_priority := PriorityHigh\<rparr>)
           in case check_Update down c' db of
                None \<Rightarrow> reassign_loop down now cs count db
              | Some db' \<Rightarrow> reassign_loop down now cs (count + 1) db')
      | _ \<Rightarrow> reassign_loop down now cs count db)"

definition ReassignOverdueChecks ::
    "faults \<Rightarrow> time \<Rightarrow> duration \<Rightarrow> sched_db \<Rightarrow> (sched_error + int) \<times> sched_db" where
  "ReassignOverdueChecks down now overdueThresh db =
     (case check_ListOverdue down now overdueThresh db of
        None \<Rightarrow> (Inl ErrWrapped, db)
      | Some overdue \<Rightarrow>
          (let (count, db') = reassign_loop down now overdue 0 db in (Inr count, db')))"

section \<open>Worker service\<close>

definition is_space :: "char \<Rightarrow> bool" where
  "is_space c \<longleftrightarrow> c = CHR '' '' \<or> (9 \<le> (of_char c :: nat) \<and> (of_char c :: nat) \<le> 13)"

definition blank :: "string \<Rightarrow> bool" where
  "blank s \<longleftrightarrow> list_all is_space s"

definition createAuditLog :: "faults \<Rightarrow> string \<Rightarrow> uuid \<Rightarrow> sched_db \<Rightarrow> sched_db" where
  "createAuditLog down action w db =
     (if down AuditCreate then db else db\<lparr>db_audit := db_audit db @ [(action, w)]\<rparr>)"

definition RegisterWorker ::
    "faults \<Rightarrow> time \<Rightarrow> uuid \<Rightarrow> string \<Rightarrow> string \<Rightarrow> (string \<times> string) list option \<Rightarrow> sched_db \<Rightarrow>
     (sched_error + sched_worker) \<times> sched_db" where
  "RegisterWorker down now i name zone metadata db =
     (if blank name then (Inl ErrWorkerNameRequired, db)
      else if 255 < length name then (Inl ErrWorkerNameTooLong, db)
      else if blank zone then (Inl ErrInvalidZone, db)
      else case worker_GetByName down name db of
             Some existing \<Rightarrow> (Inl ErrWorkerNameExists, db)
           | None \<Rightarrow>
               (let w0 = NewSchedWorker i now name zone;
                    w = (case metadata of None \<Rightarrow> w0 | Some md \<Rightarrow> w0\<lparr>wo_metadata := md\<rparr>)
                in case worker_Create down w db of
                     None \<Rightarrow> (Inl ErrWrapped, db)
                   | Some db' \<Rightarrow>
                       (Inr w, createAuditLog down ''worker_registered'' (wo_id w) db')))"

definition Heartbeat ::
    "faults \<Rightarrow> time \<Rightarrow> uuid \<Rightarrow> worker_status \<Rightarrow> int \<Rightarrow> int \<Rightarrow> real \<Rightarrow> sched_db \<Rightarrow>
     sched_error option \<times> sched_db" where
  "Heartbeat down now i status completed failed avg db =
     (case worker_GetByID down i db of
        None \<Rightarrow> (Some ErrWorkerNotFound, db)
      | Some w \<Rightarrow>
          (case worker_Update down (UpdateHeartbeat now status completed failed avg w) db of
             None \<Rightarrow> (Some ErrWrapped, db)
           | Some db' \<Rightarrow> (None, db')))"

definition UnregisterWorker ::
    "faults \<Rightarrow> time \<Rightarrow> uuid \<Rightarrow> sched_db \<Rightarrow> sched_error option \<times> sched_db" where
  "UnregisterWorker down now i db =
     (case worker_GetByID down i db of
        None \<Rightarrow> (Some ErrWorkerNotFound, db)
      | Some w \<Rightarrow>
          (let db1 = snd (check_ReassignByWorkerID down now i db)
           in case worker_Delete down i db1 of
                None \<Rightarrow> (Some ErrWrapped, db1)
              | Some db2 \<Rightarrow> (None, createAuditLog down ''worker_unregistered'' i db2)))"

definition GetWorkerStatus :: "faults \<Rightarrow> uuid \<Rightarrow> sched_db \<Rightarrow> sched_error + sched_worker" where
  "GetWorkerStatus down i db =
     (case worker_GetByID down i db of None \<Rightarrow> Inl ErrWorkerNotFound | Some w \<Rightarrow> Inr w)"

primrec offline_loop ::
    "faults \<Rightarrow> time \<Rightarrow> sched_worker list \<Rightarrow> int \<Rightarrow> sched_db \<Rightarrow> int \<times> sched_db" where
  "offline_loop down now [] count db = (count, db)"
| "offline_loop down now (w # ws) count db =
     (let db1 = snd (check_ReassignByWorkerID down now (wo_id w) db)
      in case worker_Update down (MarkOffline now w) db1 of
           None \<Rightarrow> offline_loop down now ws count db1
         | Some db2 \<Rightarrow> offline_loop down now ws (count + 1)
             (createAuditLog down ''worker_marked_offline'' (wo_id w) db2))"

definition DetectOfflineWorkers ::
    "faults \<Rightarrow> time \<Rightarrow> duration \<Rightarrow> sched_db \<Rightarrow> (sched_error + int) \<times> sched_db" where
  "DetectOfflineWorkers down now heartbeatTimeout db =
     (case worker_ListExpired down now heartbeatTimeout db of
        None \<Rightarrow> (Inl ErrWrapped, db)
      | Some expired \<Rightarrow> (let (count, db') = offline_loop down now expired 0 db in (Inr count, db')))"

primrec cleanup_loop :: "faults \<Rightarrow> sched_worker list \<Rightarrow> int \<Rightarrow> sched_db \<Rightarrow> int \<times> sched_db" where
  "cleanup_loop down [] count db = (count, db)"
| "cleanup_loop down (w # ws) count db =
     (case worker_Delete down (wo_id w) db of
        None \<Rightarrow> cleanup_loop down ws count db
      | Some db' \<Rightarrow> cleanup_loop down ws (count + 1)
          (createAuditLog down ''worker_removed'' (wo_id w) db'))"

definition CleanupOfflineWorkers ::
    "faults \<Rightarrow> time \<Rightarrow> duration \<Rightarrow> sched_db \<Rightarrow> (sched_error + int) \<times> sched_db" where
  "CleanupOfflineWorkers down now offlineCleanupTime db =
     (case worker_ListOfflineForCleanup down (now - offlineCleanupTime) db of
        None \<Rightarrow> (Inl ErrWrapped, db)
      | Some workers \<Rightarrow> (let (count, db') = cleanup_loop down workers 0 db in (Inr count, db')))"

definition SelectWorker :: "faults \<Rightarrow> string \<Rightarrow> sched_db \<Rightarrow> sched_error + sched_worker" where
  "SelectWorker down zone db =
     (case worker_ListIdleByZone down zone db of
        None \<Rightarrow> Inl ErrWrapped
      | Some (w # ws) \<Rightarrow> Inr w
      | Some [] \<Rightarrow>
          (case worker_ListIdleByZone down [] db of
             None \<Rightarrow> Inl ErrWrapped
           | Some [] \<Rightarrow> Inl ErrNoWorkersAvailable
           | Some (w # ws) \<Rightarrow> Inr w))"

section \<open>Scheduling loop\<close>

text \<open>
  The advisory locks that the replicas hold. \<open>for _, c := range key\<close> ranges over the
  characters; the keys of the program are ASCII. \<open>int64\<close> arithmetic wraps.
\<close>

definition keyToInt64 :: "string \<Rightarrow> 64 word" where
  "keyToInt64 key =
     (let h = fold (\<lambda>c h. 31 * h + word_of_int (of_char c)) key 0 in if h = 0 then 1 else h)"

definition TryLock :: "bool \<Rightarrow> string \<Rightarrow> 64 word list \<Rightarrow> (bool \<times> 64 word list) option" where
  "TryLock fails key held =
     (if fails then None
      else if keyToInt64 key \<in> set held then Some (False, held)
      else Some (True, keyToInt64 key # held))"

definition unlock :: "string \<Rightarrow> 64 word list \<Rightarrow> 64 word list" where
  "unlock key held = remove1 (keyToInt64 key) held"

text \<open>\<open>locker\<close> is \<open>None\<close> where the loop was built without one; \<open>Some fails\<close> otherwise.\<close>

definition withLock ::
    "bool option \<Rightarrow> string \<Rightarrow> ('s \<Rightarrow> 's) \<Rightarrow> 64 word list \<times> 's \<Rightarrow> 64 word list \<times> 's" where
  "withLock locker key job hs =
     (let (held, s) = hs; k = ''scheduler:'' @ key
      in case locker of
           None \<Rightarrow> (held, job s)
         | Some fails \<Rightarrow>
             (case TryLock fails k held of
                None \<Rightarrow> (held, s)
              | Some (False, held') \<Rightarrow> (held', s)
              | Some (True, held') \<Rightarrow> (unlock k held', job s)))"

record monitor_info =
  mi_id :: string
  mi_interval :: int
  mi_last_checked :: time

definition monitor_due :: "time \<Rightarrow> monitor_info \<Rightarrow> bool" where
  "monitor_due now mon \<longleftrightarrow> \<not> (mi_last_checked mon \<noteq> zero_time \<and>
     mi_last_checked mon + mi_interval mon * second > now)"

text \<open>
  \<open>parse\<close> is the library's \<open>uuid.Parse\<close>; \<open>cancelled\<close> is what \<open>ctx.Err()\<close> says when
  that many monitors are left.
\<close>

primrec schedule_loop ::
    "faults \<Rightarrow> time \<Rightarrow> (sched_db \<Rightarrow> uuid) \<Rightarrow> (string \<Rightarrow> uuid option) \<Rightarrow> (nat \<Rightarrow> bool) \<Rightarrow>
     monitor_info list \<Rightarrow> nat \<Rightarrow> sched_db \<Rightarrow> nat \<times> sched_db" where
  "schedule_loop down now new_id parse cancelled [] n db = (n, db)"
| "schedule_loop down now new_id parse cancelled (mon # mons) n db =
     (if cancelled (Suc (length mons)) then (n, db)
      else if \<not> monitor_due now mon then schedule_loop down now new_id parse cancelled mons n db
      else case parse (mi_id mon) of
             None \<Rightarrow> schedule_loop down now new_id parse cancelled mons n db
           | Some m \<Rightarrow>
               (let (r, db') = ScheduleCheck down now new_id m PriorityNormal now db
                in schedule_loop down now new_id parse cancelled mons
                     (case r of Inl e \<Rightarrow> n | Inr c \<Rightarrow> Suc n) db'))"

definition scheduleChecks ::
    "faults \<Rightarrow> time \<Rightarrow> (sched_db \<Rightarrow> uuid) \<Rightarrow> (string \<Rightarrow> uuid option) \<Rightarrow> (nat \<Rightarrow> bool) \<Rightarrow>
     monitor_info list option \<Rightarrow> sched_db \<Rightarrow> nat \<times> sched_db" where
  "scheduleChecks down now new_id parse cancelled listed db =
     (case listed of
        None \<Rightarrow> (0, db)
      | Some mons \<Rightarrow> schedule_loop down now new_id parse cancelled mons 0 db)"

definition detectOfflineAndReassign ::
    "faults \<Rightarrow> time \<Rightarrow> duration \<Rightarrow> duration \<Rightarrow> sched_db \<Rightarrow> sched_db" where
  "detectOfflineAndReassign down now heartbeatTimeout overdueThresh db =
     (case DetectOfflineWorkers down now heartbeatTimeout db of
        (Inl e, db') \<Rightarrow> db'
      | (Inr n, db') \<Rightarrow> snd (ReassignOverdueChecks down now overdueThresh db'))"

definition cleanupOfflineWorkers :: "faults \<Rightarrow> time \<Rightarrow> duration \<Rightarrow> sched_db \<Rightarrow> sched_db" where
  "cleanupOfflineWorkers down now offlineCleanupTime db =
     snd (CleanupOfflineWorkers down now offlineCleanupTime db)"

section \<open>Library: what the repositories promise the service\<close>

lemma active_ScheduleCheck_check [simp]: "active (ScheduleCheck_check down now i m p due db)"
  by (auto simp: ScheduleCheck_check_def Let_def NewScheduledCheck_def Assign_def active_def
      split: option.split list.split)

lemma ScheduleCheck_check_frame [simp, frame_simps]:
  "sc_id (ScheduleCheck_check down now i m p due db) = i"
  "sc_monitor (ScheduleCheck_check down now i m p due db) = m"
  "sc_priority (ScheduleCheck_check down now i m p due db) = p"
  by (auto simp: ScheduleCheck_check_def Let_def NewScheduledCheck_def Assign_def
      split: option.split list.split)

lemma HasPending_no_fault: "\<not> down CheckHasPending \<Longrightarrow>
    check_HasPendingCheck down m db = Some (0 < active_count db m)"
  by (cases "check_HasPendingCheck down m db")
     (auto simp: HasPendingCheck_iff check_HasPendingCheck_def split: if_splits)

interpretation checks: active_check_store
  "\<lambda>m db. check_HasPendingCheck (\<lambda>_. False) m db = Some True"
  active_count "check_Create down" active sc_monitor for down :: faults
  by unfold_locales (auto simp: HasPending_no_fault active_count_Create active_of_def)

lemma one_each_db_inv:
  "db_inv db \<longleftrightarrow> distinct (map sc_id (db_checks db)) \<and> distinct (map wo_id (db_workers db)) \<and>
     distinct (map wo_name (db_workers db)) \<and> checks.one_each db"
  by (simp add: db_inv_def checks.one_each_def)

lemma db_inv_createAuditLog [simp]: "db_inv (createAuditLog down a w db) = db_inv db"
  by (simp add: createAuditLog_def)

lemma createAuditLog_frame [simp, frame_simps]:
  "db_checks (createAuditLog down a w db) = db_checks db"
  "db_workers (createAuditLog down a w db) = db_workers db"
  by (simp_all add: createAuditLog_def)

section \<open>The invariant is kept\<close>

lemma guard_passed: "ScheduleCheck_guard down m db = None \<Longrightarrow> active_count db m = 0"
  using HasPendingCheck_iff [of down m db]
  by (auto simp: ScheduleCheck_guard_def split: option.splits bool.splits)

lemma db_inv_ScheduleCheck [inv_intros]:
  "db_inv db \<Longrightarrow> db_inv (snd (ScheduleCheck down now new_id m p due db))"
  by (auto simp: ScheduleCheck_def ScheduleCheck_insert_def Let_def guard_passed
      intro: db_inv_Create split: option.split)

lemma db_inv_TriggerScheduledCheck [inv_intros]:
  "db_inv db \<Longrightarrow> db_inv (snd (TriggerScheduledCheck down now new_id mc m p db))"
  by (auto simp: TriggerScheduledCheck_def intro: inv_intros split: option.split bool.split)

lemma active_set_check_columns [simp]: "active (set_check_columns c r) = active c"
  by (simp add: active_def)

lemma db_inv_check_Update:
  assumes "db_inv db" and "check_Update down c db = Some db'"
    and "active c \<Longrightarrow> (\<forall>r \<in> set (db_checks db). sc_id r = sc_id c \<longrightarrow> active r)"
  shows "db_inv db'"
  using assms
  by (auto simp: check_Update_def split: if_splits intro!: db_inv_upd_checks)

lemma db_inv_CompleteCheck [inv_intros]:
  "db_inv db \<Longrightarrow> db_inv (snd (CompleteCheck down now i failed msg db))"
  by (auto simp: CompleteCheck_def Let_def Fail_def Complete_def active_def
      split: option.split elim!: db_inv_check_Update)

text \<open>The rows that \<open>reassign_loop\<close> is still to update are active rows.\<close>

definition rows_active :: "scheduled_check list \<Rightarrow> sched_db \<Rightarrow> bool" where
  "rows_active cs db \<longleftrightarrow>
     (\<forall>c \<in> set cs. \<forall>r \<in> set (db_checks db). sc_id r = sc_id c \<longrightarrow> active r)"

lemma rows_active_Update:
  assumes "rows_active cs db" and "active c" and "check_Update down c db = Some db'"
  shows "rows_active cs db'"
  using assms
  by (auto simp: rows_active_def check_Update_def table_simps split: if_splits)

lemma Assign_frame [simp, frame_simps]:
  "sc_id (Assign now w c) = sc_id c" "sc_monitor (Assign now w c) = sc_monitor c"
  "sc_priority (Assign now w c) = sc_priority c" "sc_worker (Assign now w c) = Some w"
  "sc_status (Assign now w c) = CheckInProgress" "active (Assign now w c)"
  by (simp_all add: Assign_def active_def)

lemma db_inv_reassign_loop:
  "db_inv db \<Longrightarrow> rows_active cs db \<Longrightarrow> db_inv (snd (reassign_loop down now cs n db))"
proof (induction cs arbitrary: n db)
  case Nil
  then show ?case by simp
next
  case (Cons c cs)
  have rest: "rows_active cs db" using Cons.prems(2) by (simp add: rows_active_def)
  have step: "db_inv db' \<and> rows_active cs db'"
    if "check_Update down (Assign now w (c\<lparr>sc_priority := PriorityHigh\<rparr>)) db = Some db'" for w db'
    using that db_inv_check_Update [OF Cons.prems(1) that] rows_active_Update [OF rest _ that]
      Cons.prems(2) by (auto simp: rows_active_def)
  show ?case
    using Cons.IH Cons.prems(1) rest step
    by (auto simp: Let_def split: option.split list.split)
qed

lemma overdue_rows_active:
  assumes "db_inv db" and "check_ListOverdue down now t db = Some cs"
  shows "rows_active cs db"
proof -
  have "distinct (map sc_id (db_checks db))" using assms(1) by (simp add: db_inv_def)
  then show ?thesis
    using assms(2)
    by (auto simp: check_ListOverdue_def rows_active_def active_def distinct_map
        dest: inj_onD split: if_splits)
qed

lemma db_inv_ReassignOverdueChecks [inv_intros]:
  "db_inv db \<Longrightarrow> db_inv (snd (ReassignOverdueChecks down now t db))"
  using db_inv_reassign_loop [OF _ overdue_rows_active]
  by (auto simp: ReassignOverdueChecks_def case_prod_beta split: option.split)

lemma db_inv_worker_Update [inv_intros]:
  "db_inv db \<Longrightarrow> worker_Update down w db = Some db' \<Longrightarrow> db_inv db'"
  by (auto simp: worker_Update_def split: if_splits intro!: db_inv_upd_workers)

lemma db_inv_worker_Delete [inv_intros]:
  "db_inv db \<Longrightarrow> worker_Delete down i db = Some db' \<Longrightarrow> db_inv db'"
  by (auto simp: worker_Delete_def split: if_splits intro!: db_inv_del_workers)

lemma db_inv_RegisterWorker [inv_intros]:
  "db_inv db \<Longrightarrow> db_inv (snd (RegisterWorker down now i n z md db))"
  by (auto simp: RegisterWorker_def Let_def worker_Create_def db_inv_def active_count_def
      split: option.split if_splits)

lemma db_inv_Heartbeat [inv_intros]:
  "db_inv db \<Longrightarrow> db_inv (snd (Heartbeat down now i st c f avg db))"
  by (auto simp: Heartbeat_def split: option.split elim: db_inv_worker_Update)

lemma db_inv_UnregisterWorker [inv_intros]:
  "db_inv db \<Longrightarrow> db_inv (snd (UnregisterWorker down now i db))"
  by (auto simp: UnregisterWorker_def Let_def split: option.split
      intro: db_inv_reassign elim!: db_inv_worker_Delete [rotated])

lemma db_inv_offline_loop:
  "db_inv db \<Longrightarrow> db_inv (snd (offline_loop down now ws n db))"
proof (induction ws arbitrary: n db)
  case Nil
  then show ?case by simp
next
  case (Cons w ws)
  then show ?case
    using db_inv_reassign [OF Cons.prems, of down now "wo_id w"] db_inv_worker_Update
    by (fastforce simp: Let_def split: option.split)
qed

lemma db_inv_DetectOfflineWorkers [inv_intros]:
  "db_inv db \<Longrightarrow> db_inv (snd (DetectOfflineWorkers down now t db))"
  by (auto simp: DetectOfflineWorkers_def case_prod_beta db_inv_offline_loop split: option.split)

lemma db_inv_cleanup_loop: "db_inv db \<Longrightarrow> db_inv (snd (cleanup_loop down ws n db))"
  using db_inv_worker_Delete
  by (induction ws arbitrary: n db) (fastforce split: option.split)+

lemma db_inv_CleanupOfflineWorkers [inv_intros]:
  "db_inv db \<Longrightarrow> db_inv (snd (CleanupOfflineWorkers down now t db))"
  by (auto simp: CleanupOfflineWorkers_def case_prod_beta db_inv_cleanup_loop split: option.split)

lemma db_inv_schedule_loop:
  "db_inv db \<Longrightarrow> db_inv (snd (schedule_loop down now new_id parse cancelled mons n db))"
  using db_inv_ScheduleCheck
  by (induction mons arbitrary: n db) (auto simp: case_prod_beta split: option.split)

text \<open>The operations, each run to its end before the next begins.\<close>

datatype sched_op =
    OpTrigger "(uuid \<Rightarrow> bool option) option" uuid check_priority
  | OpComplete uuid bool string
  | OpReassignOverdue duration
  | OpRegister uuid string string
  | OpHeartbeat uuid worker_status int int real
  | OpUnregister uuid
  | OpDetectOffline duration
  | OpCleanup duration
  | OpScheduleChecks "monitor_info list option"

fun sched_step ::
    "(sched_db \<Rightarrow> uuid) \<Rightarrow> (string \<Rightarrow> uuid option) \<Rightarrow> faults \<times> time \<times> sched_op \<Rightarrow> sched_db \<Rightarrow> sched_db" where
  "sched_step new_id parse (down, now, OpTrigger mc m p) db =
     snd (TriggerScheduledCheck down now new_id mc m p db)"
| "sched_step new_id parse (down, now, OpComplete i failed msg) db =
     snd (CompleteCheck down now i failed msg db)"
| "sched_step new_id parse (down, now, OpReassignOverdue t) db =
     snd (ReassignOverdueChecks down now t db)"
| "sched_step new_id parse (down, now, OpRegister i n z) db =
     snd (RegisterWorker down now i n z None db)"
| "sched_step new_id parse (down, now, OpHeartbeat i st c f avg) db =
     snd (Heartbeat down now i st c f avg db)"
| "sched_step new_id parse (down, now, OpUnregister i) db = snd (UnregisterWorker down now i db)"
| "sched_step new_id parse (down, now, OpDetectOffline t) db =
     snd (DetectOfflineWorkers down now t db)"
| "sched_step new_id parse (down, now, OpCleanup t) db = cleanupOfflineWorkers down now t db"
| "sched_step new_id parse (down, now, OpScheduleChecks listed) db =
     snd (scheduleChecks down now new_id parse (\<lambda>_. False) listed db)"

definition sched_run ::
    "(sched_db \<Rightarrow> uuid) \<Rightarrow> (string \<Rightarrow> uuid option) \<Rightarrow> (faults \<times> time \<times> sched_op) list \<Rightarrow> sched_db \<Rightarrow>
     sched_db" where
  "sched_run new_id parse ops db = fold (sched_step new_id parse) ops db"

definition empty_db :: sched_db where
  "empty_db = \<lparr>db_checks = [], db_workers = [], db_audit = []\<rparr>"

lemma db_inv_sched_step: "db_inv db \<Longrightarrow> db_inv (sched_step new_id parse op db)"
  by (cases op; cases "snd (snd op)")
     (auto simp: scheduleChecks_def cleanupOfflineWorkers_def db_inv_schedule_loop
        intro: inv_intros split: option.split)

lemma db_inv_sched_run: "db_inv db \<Longrightarrow> db_inv (sched_run new_id parse ops db)"
  by (induction ops arbitrary: db) (auto simp: sched_run_def db_inv_sched_step)

text \<open>
  Property C1. Whatever fails and in whatever order the scheduler's operations run one after
  the other from the empty database, no monitor ever has two active (pending or in-progress)
  checks.
\<close>
theorem sequential_at_most_one_active:
  "active_count (sched_run new_id parse ops empty_db) m \<le> 1"
  using db_inv_sched_run [of empty_db new_id parse ops] db_inv_empty
  by (simp add: empty_db_def db_inv_def)

text \<open>
  \<open>ScheduleCheck\<close> is check-then-insert without a transaction: two callers (the
  scheduling loop of one replica and \<open>TriggerScheduledCheck\<close> of another, which takes no lock)
  that both pass the guard both insert, and the monitor has two active checks.
\<close>
theorem schedule_race_two_active:
  assumes "ScheduleCheck_guard down1 m db = None" and "ScheduleCheck_guard down2 m db = None"
    and "ScheduleCheck_insert down1 t1 i1 m p1 d1 db = (Inr c1, db1)"
    and "ScheduleCheck_insert down2 t2 i2 m p2 d2 db1 = (Inr c2, db2)"
  shows "active_count db2 m = 2"
proof -
  let ?c1 = "ScheduleCheck_check down1 t1 i1 m p1 d1 db"
  let ?c2 = "ScheduleCheck_check down2 t2 i2 m p2 d2 db1"
  have "check_Create down1 ?c1 db = Some db1" "check_Create down2 ?c2 db1 = Some db2"
    using assms(3,4) by (auto simp: ScheduleCheck_insert_def Let_def split: option.splits)
  then have "active_count db1 m = active_count db m + 1"
    "active_count db2 m = active_count db1 m + 1"
    by (auto simp: active_count_Create active_of_def)
  then show ?thesis using guard_passed [OF assms(1)] by simp
qed

theorem schedule_race_two_active_witness:
  "active_count (snd (ScheduleCheck_insert (\<lambda>_. False) 5 2 7 PriorityHigh 5
     (snd (ScheduleCheck_insert (\<lambda>_. False) 5 1 7 PriorityNormal 5 empty_db)))) 7 = 2"
proof -
  let ?no = "\<lambda>_. False" and ?c1 = "ScheduleCheck_check (\<lambda>_. False) 5 1 7 PriorityNormal 5 empty_db"
  let ?db1 = "empty_db\<lparr>db_checks := [?c1]\<rparr>"
  let ?c2 = "ScheduleCheck_check (\<lambda>_. False) 5 2 7 PriorityHigh 5 ?db1"
  let ?db2 = "?db1\<lparr>db_checks := [?c1, ?c2]\<rparr>"
  have g: "ScheduleCheck_guard ?no 7 empty_db = None"
    by (simp add: ScheduleCheck_guard_def check_HasPendingCheck_def empty_db_def)
  have i1: "ScheduleCheck_insert ?no 5 1 7 PriorityNormal 5 empty_db = (Inr ?c1, ?db1)"
    by (simp add: ScheduleCheck_insert_def check_Create_def Let_def empty_db_def)
  have i2: "ScheduleCheck_insert ?no 5 2 7 PriorityHigh 5 ?db1 = (Inr ?c2, ?db2)"
    by (simp add: ScheduleCheck_insert_def check_Create_def Let_def)
  show ?thesis using schedule_race_two_active [OF g g i1 i2] i1 i2 by simp
qed

section \<open>Overdue checks\<close>

lemma reassign_loop_priority:
  "map (\<lambda>c. (sc_id c, sc_priority c)) (db_checks (snd (reassign_loop down now cs n db))) =
     map (\<lambda>c. (sc_id c, sc_priority c)) (db_checks db)"
proof (induction cs arbitrary: n db)
  case Nil
  then show ?case by simp
next
  case (Cons c cs)
  have "map (\<lambda>c. (sc_id c, sc_priority c)) (db_checks db') =
      map (\<lambda>c. (sc_id c, sc_priority c)) (db_checks db)"
    if "check_Update down c' db = Some db'" for c' db'
    using that by (auto simp: check_Update_def split: if_splits)
  then show ?case using Cons.IH by (auto simp: Let_def split: option.split list.split)
qed

lemma check_Update_workers: "check_Update down c db = Some db' \<Longrightarrow> db_workers db' = db_workers db"
  by (auto simp: check_Update_def split: if_splits)

lemma reassign_loop_count:
  assumes "\<And>x. \<not> down x" and "worker_ListIdleByZone down [] db = Some (w # ws)"
  shows "fst (reassign_loop down now cs n db) = n + int (length cs)"
  using assms(2)
proof (induction cs arbitrary: n db)
  case Nil
  then show ?case by simp
next
  case (Cons c cs)
  let ?c' = "Assign now (wo_id w) (c\<lparr>sc_priority := PriorityHigh\<rparr>)"
  obtain db' where u: "check_Update down ?c' db = Some db'"
    using assms(1) by (simp add: check_Update_def)
  have "worker_ListIdleByZone down [] db' = Some (w # ws)"
    using Cons.prems unfolding worker_ListIdleByZone_def check_Update_workers [OF u] .
  from Cons.IH [OF this] show ?case using Cons.prems u by (simp add: Let_def)
qed

text \<open>
  \<open>ReassignOverdueChecks\<close> sets \<open>check.Priority = model.PriorityHigh\<close>, but the
  \<open>UPDATE\<close> does not write the column: with a worker idle and no failure every overdue check
  is counted as reassigned, and no row's priority has changed.
\<close>
theorem reassign_overdue_priority_not_persisted:
  assumes "\<And>x. \<not> down x" and "worker_ListIdleByZone down [] db = Some (w # ws)"
    and "check_ListOverdue down now thresh db = Some overdue"
  shows "fst (ReassignOverdueChecks down now thresh db) = Inr (int (length overdue)) \<and>
    map (\<lambda>c. (sc_id c, sc_priority c)) (db_checks (snd (ReassignOverdueChecks down now thresh db))) =
    map (\<lambda>c. (sc_id c, sc_priority c)) (db_checks db)"
  using reassign_loop_count [OF assms(1,2), of now overdue 0]
    reassign_loop_priority [of down now overdue 0 db] assms(3)
  by (auto simp: ReassignOverdueChecks_def split: prod.split)

definition demo_worker :: "uuid \<Rightarrow> time \<Rightarrow> sched_worker" where
  "demo_worker i t = NewSchedWorker i t [CHR ''w''] [CHR ''z'']"

definition demo_db :: sched_db where
  "demo_db = \<lparr>db_checks = [NewScheduledCheck 1 0 7 PriorityLow 0], db_workers = [demo_worker 3 0],
     db_audit = []\<rparr>"

theorem reassign_overdue_priority_not_persisted_witness:
  "\<exists>db'. ReassignOverdueChecks (\<lambda>_. False) (100 * second) (10 * second) demo_db = (Inr 1, db') \<and>
     map sc_priority (db_checks db') = [PriorityLow]"
proof -
  have o: "check_ListOverdue (\<lambda>_. False) (100 * second) (10 * second) demo_db =
      Some [NewScheduledCheck 1 0 7 PriorityLow 0]"
    by (simp add: check_ListOverdue_def demo_db_def NewScheduledCheck_def)
  have w: "worker_ListIdleByZone (\<lambda>_. False) [] demo_db = Some [demo_worker 3 0]"
    by (simp add: worker_ListIdleByZone_def demo_db_def demo_worker_def NewSchedWorker_def)
  let ?r = "ReassignOverdueChecks (\<lambda>_. False) (100 * second) (10 * second) demo_db"
  have r: "fst ?r = Inr 1 \<and> map (\<lambda>c. (sc_id c, sc_priority c)) (db_checks (snd ?r)) = [(1, PriorityLow)]"
    using reassign_overdue_priority_not_persisted [where down = "\<lambda>_. False", OF _ w o]
    by (simp add: demo_db_def NewScheduledCheck_def)
  then have "map snd (map (\<lambda>c. (sc_id c, sc_priority c)) (db_checks (snd ?r))) = [PriorityLow]"
    by simp
  then have "map sc_priority (db_checks (snd ?r)) = [PriorityLow]" by (simp add: comp_def)
  with r show ?thesis by (intro exI [of _ "snd ?r"]) (simp add: prod_eq_iff)
qed

section \<open>Offline workers\<close>

definition offline_in :: "uuid \<Rightarrow> sched_db \<Rightarrow> bool" where
  "offline_in w db \<longleftrightarrow> (\<forall>v \<in> set (db_workers db). wo_id v = w \<longrightarrow> wo_status v = WorkerOffline)"

definition no_active_on :: "uuid \<Rightarrow> sched_db \<Rightarrow> bool" where
  "no_active_on w db \<longleftrightarrow> (\<forall>c \<in> set (db_checks db). sc_worker c = Some w \<longrightarrow> \<not> active c)"

definition released :: "uuid \<Rightarrow> sched_db \<Rightarrow> bool" where
  "released w db \<longleftrightarrow> offline_in w db \<and> no_active_on w db"

lemma released_frame [simp, frame_simps]:
  "offline_in w (createAuditLog down a v db) = offline_in w db"
  "no_active_on w (createAuditLog down a v db) = no_active_on w db"
  by (simp_all add: offline_in_def no_active_on_def)

lemma reassign_no_active:
  "\<not> down (CheckReassign v) \<Longrightarrow> no_active_on w db \<or> w = v \<Longrightarrow>
     no_active_on w (snd (check_ReassignByWorkerID down now v db))"
  by (auto simp: check_ReassignByWorkerID_def Let_def no_active_on_def table_simps)

lemma reassign_workers [simp, frame_simps]:
  "db_workers (snd (check_ReassignByWorkerID down now v db)) = db_workers db"
  by (simp add: check_ReassignByWorkerID_def Let_def)

lemma MarkOffline_frame [simp, frame_simps]:
  "wo_id (MarkOffline now w) = wo_id w" "wo_status (MarkOffline now w) = WorkerOffline"
  by (simp_all add: MarkOffline_def)

lemma offline_in_MarkOffline:
  "worker_Update down (MarkOffline now v) db = Some db' \<Longrightarrow> offline_in w db \<or> w = wo_id v \<Longrightarrow>
     offline_in w db'"
  by (auto simp: worker_Update_def offline_in_def table_simps split: if_splits)

lemma worker_Update_checks: "worker_Update down w db = Some db' \<Longrightarrow> db_checks db' = db_checks db"
  by (auto simp: worker_Update_def split: if_splits)

lemma no_active_on_cong: "db_checks db' = db_checks db \<Longrightarrow> no_active_on w db' = no_active_on w db"
  by (simp add: no_active_on_def)

lemma offline_in_reassign [simp]:
  "offline_in w (snd (check_ReassignByWorkerID down now v db)) = offline_in w db"
  by (simp add: offline_in_def)

lemma offline_loop_releases:
  assumes "\<And>x. \<not> down x"
  shows "fst (offline_loop down now ws n db) = n + int (length ws) \<and>
    (\<forall>w. released w db \<or> w \<in> wo_id ` set ws \<longrightarrow> released w (snd (offline_loop down now ws n db)))"
proof (induction ws arbitrary: n db)
  case Nil
  then show ?case by simp
next
  case (Cons v ws)
  let ?db1 = "snd (check_ReassignByWorkerID down now (wo_id v) db)"
  obtain db2 where u: "worker_Update down (MarkOffline now v) ?db1 = Some db2"
    using assms by (simp add: worker_Update_def)
  let ?db3 = "createAuditLog down ''worker_marked_offline'' (wo_id v) db2"
  have "released w ?db3" if "released w db \<or> w = wo_id v" for w
    using that reassign_no_active [where v = "wo_id v" and down = down and w = w and db = db and now = now, OF assms] offline_in_MarkOffline [OF u, of w]
      no_active_on_cong [OF worker_Update_checks [OF u], of w]
    by (auto simp: released_def)
  then show ?case
    using Cons.IH [of "n + 1" ?db3] u by (auto simp: Let_def)
qed

text \<open>
  When no call fails, \<open>DetectOfflineWorkers\<close> counts every worker whose heartbeat
  expired, leaves each of them \<open>OFFLINE\<close> and no active check on any of them.
\<close>
theorem DetectOfflineWorkers_releases:
  assumes "\<And>x. \<not> down x"
  shows "\<exists>db'. DetectOfflineWorkers down now timeout db =
      (Inr (int (length (filter (expired_worker now timeout) (db_workers db)))), db') \<and>
    (\<forall>w \<in> set (db_workers db). expired_worker now timeout w \<longrightarrow> released (wo_id w) db')"
  using assms offline_loop_releases [where down = down and now = now and n = 0 and db = db and
      ws = "filter (expired_worker now timeout) (db_workers db)", OF assms]
  by (auto simp: DetectOfflineWorkers_def worker_ListExpired_def split: prod.split)

theorem DetectOfflineWorkers_releases_witness:
  "fst (DetectOfflineWorkers (\<lambda>_. False) (100 * second) (60 * second) demo_db) = Inr 1"
  using DetectOfflineWorkers_releases [of "\<lambda>_. False" "100 * second" "60 * second" demo_db]
  by (auto simp: demo_db_def demo_worker_def NewSchedWorker_def expired_worker_def)

text \<open>A check that is in progress on \<open>w\<close>, and the same with \<open>w\<close> marked offline.\<close>

definition held_by :: "uuid \<Rightarrow> scheduled_check \<Rightarrow> sched_db \<Rightarrow> bool" where
  "held_by w c db \<longleftrightarrow> distinct (map sc_id (db_checks db)) \<and> c \<in> set (db_checks db) \<and>
     sc_status c = CheckInProgress \<and> sc_worker c = Some w"

definition stranded :: "uuid \<Rightarrow> scheduled_check \<Rightarrow> sched_db \<Rightarrow> bool" where
  "stranded w c db \<longleftrightarrow> held_by w c db \<and> offline_in w db"

lemma held_by_cong: "db_checks db' = db_checks db \<Longrightarrow> held_by w c db' = held_by w c db"
  by (simp add: held_by_def)

lemma held_by_upd:
  assumes "held_by w c db" and "\<not> p c" and "\<And>r. sc_id (f r) = sc_id r"
  shows "held_by w c (db\<lparr>db_checks := upd_where p f (db_checks db)\<rparr>)"
  using assms by (auto simp: held_by_def table_simps)

lemma held_by_reassign:
  "held_by w c db \<Longrightarrow> v \<noteq> w \<or> down (CheckReassign v) \<Longrightarrow>
     held_by w c (snd (check_ReassignByWorkerID down now v db))"
  by (auto simp: check_ReassignByWorkerID_def Let_def intro!: held_by_upd)
     (auto simp: held_by_def)

lemma held_by_Update:
  "held_by w c db \<Longrightarrow> check_Update down c' db = Some db' \<Longrightarrow> sc_id c' \<noteq> sc_id c \<Longrightarrow> held_by w c db'"
  by (auto simp: check_Update_def intro!: held_by_upd split: if_splits)

lemma offline_loop_held:
  assumes "held_by w c db" and "w \<notin> wo_id ` set ws"
  shows "held_by w c (snd (offline_loop down now ws n db))"
  using assms
proof (induction ws arbitrary: n db)
  case Nil
  then show ?case by simp
next
  case (Cons v ws)
  let ?db1 = "snd (check_ReassignByWorkerID down now (wo_id v) db)"
  have h: "held_by w c ?db1" using Cons.prems by (intro held_by_reassign) auto
  show ?case
  proof (cases "worker_Update down (MarkOffline now v) ?db1")
    case None
    then show ?thesis using Cons.IH [OF h] Cons.prems(2) by (simp add: Let_def)
  next
    case (Some db2)
    have "held_by w c (createAuditLog down ''worker_marked_offline'' (wo_id v) db2)"
      using h held_by_cong [OF worker_Update_checks [OF Some]]
      by (simp add: held_by_cong [OF createAuditLog_frame(1)])
    from Cons.IH [OF this] show ?thesis using Cons.prems(2) Some by (simp add: Let_def)
  qed
qed

lemma offline_loop_offline_in:
  "offline_in w db \<Longrightarrow> offline_in w (snd (offline_loop down now ws n db))"
proof (induction ws arbitrary: n db)
  case Nil
  then show ?case by simp
next
  case (Cons v ws)
  have "offline_in w db2"
    if "worker_Update down (MarkOffline now v) (snd (check_ReassignByWorkerID down now (wo_id v) db))
          = Some db2" for db2
    using offline_in_MarkOffline [OF that] Cons.prems by simp
  then show ?case using Cons by (auto simp: Let_def split: option.split)
qed

lemma offline_loop_strands:
  assumes "held_by w c db" and "w \<in> wo_id ` set ws" and "distinct (map wo_id ws)"
    and "down (CheckReassign w)" and "\<not> down (WorkerUpdate w)"
  shows "stranded w c (snd (offline_loop down now ws n db))"
  using assms(1-3)
proof (induction ws arbitrary: n db)
  case Nil
  then show ?case by simp
next
  case (Cons v ws)
  let ?db1 = "snd (check_ReassignByWorkerID down now (wo_id v) db)"
  have h: "held_by w c ?db1" using Cons.prems(1) assms(4) by (intro held_by_reassign) auto
  show ?case
  proof (cases "worker_Update down (MarkOffline now v) ?db1")
    case None
    then have "wo_id v \<noteq> w" using assms(5) by (auto simp: worker_Update_def split: if_splits)
    with None show ?thesis using Cons.IH [OF h] Cons.prems(2,3) by (auto simp: Let_def)
  next
    case (Some db2)
    let ?db3 = "createAuditLog down ''worker_marked_offline'' (wo_id v) db2"
    have h3: "held_by w c ?db3"
      using h held_by_cong [OF worker_Update_checks [OF Some]]
      by (simp add: held_by_cong [OF createAuditLog_frame(1)])
    show ?thesis
    proof (cases "wo_id v = w")
      case True
      then have "offline_in w ?db3" using offline_in_MarkOffline [OF Some] by simp
      moreover have "w \<notin> wo_id ` set ws" using Cons.prems(3) True by auto
      ultimately show ?thesis
        using Some offline_loop_held [OF h3] offline_loop_offline_in
        by (simp add: Let_def stranded_def)
    next
      case False
      then show ?thesis using Some Cons.IH [OF h3] Cons.prems(2,3) by (auto simp: Let_def)
    qed
  qed
qed

text \<open>The three background jobs of the scheduling loop keep a stranded check stranded.\<close>

lemma expired_not_offline:
  "offline_in w db \<Longrightarrow> w \<notin> wo_id ` set (filter (expired_worker now t) (db_workers db))"
  by (auto simp: offline_in_def expired_worker_def)

lemma stranded_DetectOfflineWorkers:
  "stranded w c db \<Longrightarrow> stranded w c (snd (DetectOfflineWorkers down now t db))"
  using offline_loop_held expired_not_offline offline_loop_offline_in
  by (auto simp: DetectOfflineWorkers_def worker_ListExpired_def stranded_def case_prod_beta
      split: option.split)

lemma offline_in_cong: "db_workers db' = db_workers db \<Longrightarrow> offline_in w db' = offline_in w db"
  by (simp add: offline_in_def)

lemma reassign_loop_stranded:
  assumes "stranded w c db" and "sc_id c \<notin> sc_id ` set cs"
  shows "stranded w c (snd (reassign_loop down now cs n db))"
  using assms
proof (induction cs arbitrary: n db)
  case Nil
  then show ?case by simp
next
  case (Cons d cs)
  have "stranded w c db'"
    if "check_Update down (Assign now v (d\<lparr>sc_priority := PriorityHigh\<rparr>)) db = Some db'" for v db'
    using that Cons.prems offline_in_cong [OF check_Update_workers [OF that]]
    by (auto simp: stranded_def elim!: held_by_Update)
  then show ?case
    using Cons.IH Cons.prems by (auto simp: Let_def split: option.split list.split)
qed

lemma overdue_not_held:
  assumes "held_by w c db" and "check_ListOverdue down now t db = Some cs"
  shows "sc_id c \<notin> sc_id ` set cs"
  using assms
  by (auto simp: held_by_def check_ListOverdue_def distinct_map dest: inj_onD split: if_splits)

lemma stranded_ReassignOverdueChecks:
  "stranded w c db \<Longrightarrow> stranded w c (snd (ReassignOverdueChecks down now t db))"
  using reassign_loop_stranded overdue_not_held
  by (auto simp: ReassignOverdueChecks_def case_prod_beta stranded_def split: option.split)

lemma cleanup_loop_stranded: "stranded w c db \<Longrightarrow> stranded w c (snd (cleanup_loop down ws n db))"
proof (induction ws arbitrary: n db)
  case Nil
  then show ?case by simp
next
  case (Cons v ws)
  have "stranded w c (createAuditLog down a (wo_id v) db')"
    if "worker_Delete down (wo_id v) db = Some db'" for db' a
    using that Cons.prems
    by (auto simp: stranded_def worker_Delete_def offline_in_def held_by_def split: if_splits)
  then show ?case using Cons by (auto split: option.split)
qed

lemma stranded_ScheduleCheck:
  "stranded w c db \<Longrightarrow> stranded w c (snd (ScheduleCheck down now new_id m p due db))"
  by (auto simp: ScheduleCheck_def ScheduleCheck_insert_def Let_def check_Create_def stranded_def
      held_by_def offline_in_def split: option.split if_splits)

lemma schedule_loop_stranded:
  "stranded w c db \<Longrightarrow>
     stranded w c (snd (schedule_loop down now new_id parse cancelled mons n db))"
  using stranded_ScheduleCheck
  by (induction mons arbitrary: n db) (auto simp: case_prod_beta split: option.split)

fun background_job :: "sched_op \<Rightarrow> bool" where
  "background_job (OpReassignOverdue t) = True"
| "background_job (OpDetectOffline t) = True"
| "background_job (OpCleanup t) = True"
| "background_job (OpScheduleChecks l) = True"
| "background_job _ = False"

lemma stranded_step:
  "background_job (snd (snd op)) \<Longrightarrow> stranded w c db \<Longrightarrow> stranded w c (sched_step new_id parse op db)"
  by (cases op; cases "snd (snd op)")
     (auto simp: scheduleChecks_def cleanupOfflineWorkers_def CleanupOfflineWorkers_def
        case_prod_beta schedule_loop_stranded cleanup_loop_stranded stranded_DetectOfflineWorkers
        stranded_ReassignOverdueChecks split: option.split)

lemma stranded_run:
  "list_all (\<lambda>op. background_job (snd (snd op))) ops \<Longrightarrow> stranded w c db \<Longrightarrow>
     stranded w c (sched_run new_id parse ops db)"
  by (induction ops arbitrary: db) (auto simp: sched_run_def stranded_step)

lemma stranded_blocks:
  "stranded w c db \<Longrightarrow> \<not> down CheckHasPending \<Longrightarrow>
     ScheduleCheck down now new_id (sc_monitor c) p due db = (Inl ErrCheckAlreadyPending, db)"
  by (auto simp: ScheduleCheck_def ScheduleCheck_guard_def check_HasPendingCheck_def stranded_def
      held_by_def active_def list_ex_iff split: option.splits bool.splits)

text \<open>
  Property C2. One failure of the release query strands a monitor: if \<open>ReassignByWorkerID\<close>
  fails for an expired worker while \<open>Update\<close> succeeds, the worker becomes \<open>OFFLINE\<close> with its
  check still \<open>IN_PROGRESS\<close>; offline workers are not looked at again and only \<open>PENDING\<close>
  checks are ever overdue, so however often the background jobs run afterwards, with no
  failure, the check stays and every \<open>ScheduleCheck\<close> of the monitor is refused.
\<close>
theorem failed_reassign_strands_monitor:
  assumes "db_inv db" and "c \<in> set (db_checks db)" and "sc_status c = CheckInProgress"
    and "sc_worker c = Some (wo_id w)" and "w \<in> set (db_workers db)" and "expired_worker now t w"
    and "down (CheckReassign (wo_id w))" and "\<not> down (WorkerUpdate (wo_id w))"
    and "\<not> down WorkerListExpired"
    and "list_all (\<lambda>op. background_job (snd (snd op))) ops"
  shows "let db' = sched_run new_id parse ops (snd (DetectOfflineWorkers down now t db))
    in c \<in> set (db_checks db') \<and>
       ScheduleCheck (\<lambda>_. False) now' new_id (sc_monitor c) p due db' = (Inl ErrCheckAlreadyPending, db')"
proof -
  let ?ws = "filter (expired_worker now t) (db_workers db)"
  have "stranded (wo_id w) c (snd (offline_loop down now ?ws 0 db))"
    using assms by (intro offline_loop_strands)
      (auto simp: held_by_def db_inv_def distinct_map_filter)
  then have "stranded (wo_id w) c (snd (DetectOfflineWorkers down now t db))"
    using assms(9) by (simp add: DetectOfflineWorkers_def worker_ListExpired_def case_prod_beta)
  from stranded_run [OF assms(10) this, of new_id parse] show ?thesis
    using stranded_blocks [of "wo_id w" c _ "\<lambda>_. False"]
    by (auto simp: Let_def stranded_def held_by_def)
qed

definition busy_db :: sched_db where
  "busy_db = \<lparr>db_checks = [Assign 0 3 (NewScheduledCheck 1 0 7 PriorityLow 0)],
     db_workers = [demo_worker 3 0], db_audit = []\<rparr>"

theorem failed_reassign_strands_monitor_witness:
  "fst (ScheduleCheck (\<lambda>_. False) (9 * minute) (\<lambda>_. 2) 7 PriorityNormal (9 * minute)
     (sched_run (\<lambda>_. 2) (\<lambda>_. None) [(\<lambda>_. False, 8 * minute, OpDetectOffline minute)]
       (snd (DetectOfflineWorkers (\<lambda>x. x = CheckReassign 3) (5 * minute) minute busy_db))))
   = Inl ErrCheckAlreadyPending"
proof -
  let ?c = "Assign 0 3 (NewScheduledCheck 1 0 7 PriorityLow 0)"
  have "db_inv busy_db"
    by (simp add: db_inv_def busy_db_def active_count_def active_of_def)
  moreover have "expired_worker (5 * minute) minute (demo_worker 3 0)"
    by (simp add: expired_worker_def demo_worker_def NewSchedWorker_def)
  moreover have "sc_monitor ?c = 7" by (simp add: NewScheduledCheck_def)
  ultimately show ?thesis
    using failed_reassign_strands_monitor [of busy_db ?c "demo_worker 3 0" "5 * minute" minute
        "\<lambda>x. x = CheckReassign 3" "[(\<lambda>_. False, 8 * minute, OpDetectOffline minute)]" "\<lambda>_. 2"
        "\<lambda>_. None" "9 * minute" PriorityNormal "9 * minute"]
    by (simp add: busy_db_def demo_worker_def NewSchedWorker_def Let_def)
qed

section \<open>The scheduling tick\<close>

definition draws_fresh :: "(sched_db \<Rightarrow> uuid) \<Rightarrow> bool" where
  "draws_fresh new_id \<longleftrightarrow> (\<forall>db. new_id db \<notin> sc_id ` set (db_checks db))"

lemma ScheduleCheck_active:
  assumes "\<And>x. \<not> down x" and "draws_fresh new_id"
  shows "0 < active_count (snd (ScheduleCheck down now new_id m p due db)) m"
proof (cases "active_count db m = 0")
  case True
  let ?c = "ScheduleCheck_check down now (new_id db) m p due db"
  obtain db' where c: "check_Create down ?c db = Some db'"
    using assms by (simp add: check_Create_def draws_fresh_def)
  from active_count_Create [OF c, of m] True c show ?thesis
    by (simp add: ScheduleCheck_def ScheduleCheck_guard_def HasPending_no_fault assms(1)
        ScheduleCheck_insert_def active_of_def)
next
  case False
  then show ?thesis
    by (simp add: ScheduleCheck_def ScheduleCheck_guard_def HasPending_no_fault assms(1))
qed

lemma ScheduleCheck_others:
  "m' \<noteq> m \<Longrightarrow> active_count (snd (ScheduleCheck down now new_id m p due db)) m' = active_count db m'"
  by (auto simp: ScheduleCheck_def ScheduleCheck_insert_def Let_def active_count_Create active_of_def
      split: option.split)

lemma ScheduleCheck_mono:
  "active_count db m' \<le> active_count (snd (ScheduleCheck down now new_id m p due db)) m'"
  by (auto simp: ScheduleCheck_def ScheduleCheck_insert_def Let_def active_count_Create
      split: option.split)

lemma schedule_loop_mono:
  "active_count db m \<le> active_count (snd (schedule_loop down now new_id parse cancelled mons n db)) m"
proof (induction mons arbitrary: n db)
  case Nil
  then show ?case by simp
next
  case (Cons mon mons)
  then show ?case
    by (auto simp: case_prod_beta split: option.split intro: order_trans [OF ScheduleCheck_mono])
qed

definition due_ids :: "time \<Rightarrow> (string \<Rightarrow> uuid option) \<Rightarrow> monitor_info list \<Rightarrow> uuid set" where
  "due_ids now parse mons = {m. \<exists>mon \<in> set mons. monitor_due now mon \<and> parse (mi_id mon) = Some m}"

lemma due_ids_Cons:
  "due_ids now parse (mon # mons) =
     (if monitor_due now mon then set_option (parse (mi_id mon)) else {}) \<union> due_ids now parse mons"
  by (cases "parse (mi_id mon)") (auto simp: due_ids_def)

lemma schedule_loop_others:
  "m \<notin> due_ids now parse mons \<Longrightarrow>
     active_count (snd (schedule_loop down now new_id parse cancelled mons n db)) m = active_count db m"
  by (induction mons arbitrary: n db)
     (auto simp: due_ids_Cons case_prod_beta ScheduleCheck_others split: option.split if_splits)

lemma schedule_loop_due:
  assumes "\<And>x. \<not> down x" and "draws_fresh new_id" and "\<And>k. \<not> cancelled k"
    and "m \<in> due_ids now parse mons"
  shows "0 < active_count (snd (schedule_loop down now new_id parse cancelled mons n db)) m"
  using assms(4)
proof (induction mons arbitrary: n db)
  case Nil
  then show ?case by (simp add: due_ids_def)
next
  case (Cons mon mons)
  show ?case
  proof (cases "monitor_due now mon \<and> parse (mi_id mon) = Some m")
    case True
    then show ?thesis
      using ScheduleCheck_active [where down = down and new_id = new_id, OF assms(1,2)] assms(3)
      by (auto simp: case_prod_beta intro: less_le_trans [OF _ schedule_loop_mono])
  next
    case False
    then have "m \<in> due_ids now parse mons"
      using Cons.prems by (auto simp: due_ids_Cons split: if_splits)
    then show ?thesis using Cons.IH assms(3) by (auto simp: case_prod_beta split: option.split)
  qed
qed

lemma scheduleChecks_active_count:
  assumes "db_inv db" and "\<And>x. \<not> down x" and "draws_fresh new_id" and "\<And>k. \<not> cancelled k"
  shows "active_count (snd (scheduleChecks down now new_id parse cancelled (Some mons) db)) m =
    (if m \<in> due_ids now parse mons then 1 else active_count db m)"
proof (cases "m \<in> due_ids now parse mons")
  case True
  let ?db' = "snd (schedule_loop down now new_id parse cancelled mons 0 db)"
  have "active_count ?db' m \<le> 1"
    using db_inv_schedule_loop [OF assms(1), of down now new_id parse cancelled mons 0]
    by (simp add: db_inv_def)
  moreover have "0 < active_count ?db' m"
    using assms(2-4) True by (intro schedule_loop_due) auto
  ultimately show ?thesis using True by (simp add: scheduleChecks_def)
next
  case False
  then show ?thesis by (simp add: scheduleChecks_def schedule_loop_others)
qed

text \<open>Whatever fails, a tick only appends active rows, and only for monitors that are due.\<close>

definition appends_for :: "uuid set \<Rightarrow> sched_db \<Rightarrow> sched_db \<Rightarrow> bool" where
  "appends_for M db db' \<longleftrightarrow> (\<exists>cs. db' = db\<lparr>db_checks := db_checks db @ cs\<rparr> \<and>
     (\<forall>c \<in> set cs. active c \<and> sc_monitor c \<in> M))"

lemma appends_for_refl [simp]: "appends_for M db db"
  unfolding appends_for_def by (rule exI [of _ "[]"]) simp

lemma appends_for_trans:
  assumes "appends_for M db db1" and "appends_for M db1 db2"
  shows "appends_for M db db2"
proof -
  obtain cs1 where 1: "db1 = db\<lparr>db_checks := db_checks db @ cs1\<rparr>"
    "\<forall>c \<in> set cs1. active c \<and> sc_monitor c \<in> M"
    using assms(1) by (auto simp: appends_for_def)
  obtain cs2 where 2: "db2 = db1\<lparr>db_checks := db_checks db1 @ cs2\<rparr>"
    "\<forall>c \<in> set cs2. active c \<and> sc_monitor c \<in> M"
    using assms(2) by (auto simp: appends_for_def)
  show ?thesis unfolding appends_for_def
    by (rule exI [of _ "cs1 @ cs2"]) (use 1 2 in auto)
qed

lemma appends_for_mono: "appends_for M db db' \<Longrightarrow> M \<subseteq> N \<Longrightarrow> appends_for N db db'"
  unfolding appends_for_def by blast

lemma ScheduleCheck_appends:
  "appends_for {m} db (snd (ScheduleCheck down now new_id m p due db))"
proof -
  let ?c = "ScheduleCheck_check down now (new_id db) m p due db"
  have c: "active ?c \<and> sc_monitor ?c = m"
    by (auto simp: ScheduleCheck_check_def NewScheduledCheck_def Assign_def active_def Let_def
        split: option.split list.split)
  show ?thesis
  proof (cases "snd (ScheduleCheck down now new_id m p due db) = db")
    case False
    then have "snd (ScheduleCheck down now new_id m p due db) = db\<lparr>db_checks := db_checks db @ [?c]\<rparr>"
      by (auto simp: ScheduleCheck_def ScheduleCheck_insert_def check_Create_def Let_def
          split: option.splits if_splits)
    with c show ?thesis unfolding appends_for_def by (intro exI [of _ "[?c]"]) simp
  qed simp
qed

lemma schedule_loop_appends:
  "appends_for (due_ids now parse mons) db
     (snd (schedule_loop down now new_id parse cancelled mons n db))"
proof (induction mons arbitrary: n db)
  case Nil
  then show ?case by simp
next
  case (Cons mon mons)
  have IH: "appends_for (due_ids now parse (mon # mons)) d
      (snd (schedule_loop down now new_id parse cancelled mons k d))" for d k
    by (rule appends_for_mono [OF Cons.IH]) (simp add: due_ids_Cons)
  have S: "appends_for (due_ids now parse (mon # mons)) db
      (snd (ScheduleCheck down now new_id m PriorityNormal now db))"
    if "monitor_due now mon" "parse (mi_id mon) = Some m" for m
    by (rule appends_for_mono [OF ScheduleCheck_appends]) (simp add: due_ids_Cons that)
  show ?case
    by (auto simp: case_prod_beta IH split: option.split intro: appends_for_trans [OF S IH])
qed

lemma distinct_by_count: "(\<And>k. length (filter (\<lambda>x. f x = k) xs) \<le> 1) \<Longrightarrow> distinct (map f xs)"
proof (induction xs)
  case Nil
  then show ?case by simp
next
  case (Cons x xs)
  have "length (filter (\<lambda>y. f y = k) xs) \<le> 1" for k
    using Cons.prems [of k] by (simp split: if_splits)
  moreover have "filter (\<lambda>y. f y = f x) xs = []" using Cons.prems [of "f x"] by simp
  then have "f x \<notin> f ` set xs" by (auto simp: filter_empty_conv image_iff)
  ultimately show ?case using Cons.IH by simp
qed

lemma active_count_append:
  assumes "db' = db\<lparr>db_checks := db_checks db @ cs\<rparr>" and "\<forall>c \<in> set cs. active c"
  shows "active_count db' m = active_count db m + length (filter (\<lambda>c. sc_monitor c = m) cs)"
proof -
  have "count_where (active_of m) cs = length (filter (\<lambda>c. sc_monitor c = m) cs)"
    using assms(2) by (induction cs) (auto simp: active_of_def)
  then show ?thesis by (simp add: active_count_def assms(1))
qed

text \<open>
  Property C7. When no call fails, new ids are fresh and the tick is not cancelled, one scheduling
  tick over the listed monitors, from a well-formed database, leaves every listed monitor that is due (never checked, or its interval has
  passed) with exactly one active check. It does so by appending rows, at most one of a monitor,
  precisely for the due monitors that had no active check; every other row of the checks, the
  workers and the audit log stay as they were, so nothing changes for a monitor that is not due.
\<close>
theorem scheduleChecks_due_monitors:
  assumes "db_inv db" and "\<And>x. \<not> down x" and "draws_fresh new_id" and "\<And>k. \<not> cancelled k"
  shows "let db' = snd (scheduleChecks down now new_id parse cancelled (Some mons) db)
    in (\<forall>m. active_count db' m = (if m \<in> due_ids now parse mons then 1 else active_count db m)) \<and>
      (\<exists>cs. db' = db\<lparr>db_checks := db_checks db @ cs\<rparr> \<and> distinct (map sc_monitor cs) \<and>
         sc_monitor ` set cs = {m \<in> due_ids now parse mons. active_count db m = 0})"
proof -
  let ?db' = "snd (scheduleChecks down now new_id parse cancelled (Some mons) db)"
  note count = scheduleChecks_active_count [where down = down and now = now and new_id = new_id and
    parse = parse and cancelled = cancelled and mons = mons, OF assms]
  obtain cs where cs: "?db' = db\<lparr>db_checks := db_checks db @ cs\<rparr>" "\<forall>c \<in> set cs. active c"
    using schedule_loop_appends [of now parse mons db down new_id cancelled 0]
    by (auto simp: scheduleChecks_def appends_for_def)
  have le: "active_count db m \<le> 1" for m using assms(1) by (simp add: db_inv_def)
  have num: "length (filter (\<lambda>c. sc_monitor c = m) cs) =
      (if m \<in> due_ids now parse mons \<and> active_count db m = 0 then 1 else 0)" for m
    using active_count_append [OF cs, of m] count [of m] le [of m]
    by (auto split: if_splits simp del: length_0_conv)
  have "distinct (map sc_monitor cs)" by (rule distinct_by_count) (simp add: num)
  moreover have "m \<in> sc_monitor ` set cs \<longleftrightarrow> m \<in> due_ids now parse mons \<and> active_count db m = 0" for m
  proof -
    have "m \<in> sc_monitor ` set cs \<longleftrightarrow> 0 < length (filter (\<lambda>c. sc_monitor c = m) cs)"
      by (auto simp: filter_empty_conv)
    also have "\<dots> \<longleftrightarrow> m \<in> due_ids now parse mons \<and> active_count db m = 0"
      by (simp only: num) simp
    finally show ?thesis .
  qed
  then have "sc_monitor ` set cs = {m \<in> due_ids now parse mons. active_count db m = 0}"
    by (simp only: set_eq_iff mem_Collect_eq) simp
  ultimately show ?thesis using cs(1) count unfolding Let_def by blast
qed

definition succ_id :: "sched_db \<Rightarrow> uuid" where
  "succ_id db = Suc (sum_list (map sc_id (db_checks db)))"

lemma draws_fresh_succ_id: "draws_fresh succ_id"
proof -
  have "x \<in> set cs \<Longrightarrow> sc_id x \<le> sum_list (map sc_id cs)" for x cs
    by (induction cs) auto
  then show ?thesis by (fastforce simp: draws_fresh_def succ_id_def)
qed

definition tick_db :: sched_db where
  "tick_db = \<lparr>db_checks = [NewScheduledCheck 5 0 2 PriorityLow 0], db_workers = [], db_audit = []\<rparr>"

definition tick_monitors :: "monitor_info list" where
  "tick_monitors = [\<lparr>mi_id = ''a'', mi_interval = 60, mi_last_checked = 0\<rparr>,
     \<lparr>mi_id = ''bb'', mi_interval = 60, mi_last_checked = 0\<rparr>,
     \<lparr>mi_id = ''ccc'', mi_interval = 60, mi_last_checked = 90 * second\<rparr>]"

text \<open>
  Three monitors: the first is due, the second too but has an active check, the third is not
  due. The tick appends a check of the first alone.
\<close>

theorem scheduleChecks_due_monitors_witness:
  "\<exists>cs. snd (scheduleChecks (\<lambda>_. False) (100 * second) succ_id (\<lambda>s. Some (length s)) (\<lambda>_. False)
      (Some tick_monitors) tick_db) = tick_db\<lparr>db_checks := db_checks tick_db @ cs\<rparr> \<and>
    distinct (map sc_monitor cs) \<and> sc_monitor ` set cs = {1}"
proof -
  have "db_inv tick_db"
    by (simp add: db_inv_def tick_db_def active_count_def active_of_def)
  moreover have "{m \<in> due_ids (100 * second) (\<lambda>s. Some (length s)) tick_monitors.
      active_count tick_db m = 0} = {1}"
    by (auto simp: due_ids_def monitor_due_def tick_monitors_def tick_db_def active_count_def
        active_of_def active_def NewScheduledCheck_def zero_time_def)
  ultimately show ?thesis
    using scheduleChecks_due_monitors [of tick_db "\<lambda>_. False" succ_id "\<lambda>_. False" "100 * second"
        "\<lambda>s. Some (length s)" tick_monitors] draws_fresh_succ_id by (simp add: Let_def)
qed

section \<open>Choosing a worker\<close>

text \<open>
  \<open>SelectWorker\<close> without failures returns an idle worker with the fewest
  completed checks: of the zone asked for when that zone has an idle worker, else of all
  zones; it reports \<open>ErrNoWorkersAvailable\<close> exactly when no worker is idle.
\<close>
theorem SelectWorker_least_loaded:
  assumes "\<And>x. \<not> down x"
  shows "(case SelectWorker down zone db of
      Inl e \<Rightarrow> e = ErrNoWorkersAvailable \<and> (\<forall>v \<in> set (db_workers db). wo_status v \<noteq> WorkerIdle)
    | Inr w \<Rightarrow> w \<in> set (db_workers db) \<and> wo_status w = WorkerIdle \<and>
        (\<forall>v \<in> set (db_workers db). wo_status v = WorkerIdle \<and> (wo_zone v = zone \<or> zone = [] \<or>
             (\<forall>u \<in> set (db_workers db). wo_status u = WorkerIdle \<longrightarrow> wo_zone u \<noteq> zone)) \<longrightarrow>
           wo_completed w \<le> wo_completed v) \<and>
        ((\<exists>u \<in> set (db_workers db). wo_status u = WorkerIdle \<and> wo_zone u = zone) \<longrightarrow>
           zone = [] \<or> wo_zone w = zone))"
proof (cases "worker_ListIdleByZone down zone db")
  case None
  then show ?thesis using assms by (simp add: worker_ListIdleByZone_def)
next
  case (Some l)
  show ?thesis
  proof (cases l)
    case (Cons w ws)
    with Some idle_first [of down zone db w ws] show ?thesis
      by (auto simp: SelectWorker_def)
  next
    case Nil
    then have none: "\<forall>v \<in> set (db_workers db). wo_status v = WorkerIdle \<longrightarrow> zone \<noteq> [] \<and> wo_zone v \<noteq> zone"
      using Some assms by (auto simp: worker_ListIdleByZone_def filter_empty_conv)
    show ?thesis
    proof (cases "worker_ListIdleByZone down [] db")
      case None
      then show ?thesis using assms by (simp add: worker_ListIdleByZone_def)
    next
      case any: (Some l')
      show ?thesis
      proof (cases l')
        case Nil2: Nil
        then have "\<forall>v \<in> set (db_workers db). wo_status v \<noteq> WorkerIdle"
          using any assms by (auto simp: worker_ListIdleByZone_def filter_empty_conv)
        then show ?thesis using Some Nil any Nil2 by (simp add: SelectWorker_def)
      next
        case Cons2: (Cons w ws)
        with any idle_first [of down "[]" db w ws] Some Nil none show ?thesis
          by (auto simp: SelectWorker_def)
      qed
    qed
  qed
qed

theorem SelectWorker_least_loaded_witness:
  "\<exists>w. SelectWorker (\<lambda>_. False) [CHR ''q''] demo_db = Inr w \<and> wo_status w = WorkerIdle"
proof -
  have "SelectWorker (\<lambda>_. False) [CHR ''q''] demo_db = Inr (demo_worker 3 0)"
    by (simp add: SelectWorker_def worker_ListIdleByZone_def demo_db_def demo_worker_def
        NewSchedWorker_def)
  then show ?thesis
    using SelectWorker_least_loaded [where down = "\<lambda>_. False" and zone = "[CHR ''q'']" and db = demo_db] by simp
qed

section \<open>The distributed lock\<close>

text \<open>
  The three jobs of the loop have three different advisory lock ids, so they
  never block one another; a job whose lock another replica holds is skipped, and a job
  that runs leaves the locks as it found them.
\<close>
theorem job_locks:
  "distinct (map (\<lambda>k. keyToInt64 (''scheduler:'' @ k)) [''scheduling'', ''offline-detection'', ''cleanup'']) \<and>
   withLock (Some False) key job (held, s) =
     (if keyToInt64 (''scheduler:'' @ key) \<in> set held then (held, s) else (held, job s))"
proof
  show "distinct (map (\<lambda>k. keyToInt64 (''scheduler:'' @ k))
      [''scheduling'', ''offline-detection'', ''cleanup''])" by code_simp
  show "withLock (Some False) key job (held, s) =
     (if keyToInt64 (''scheduler:'' @ key) \<in> set held then (held, s) else (held, job s))"
    unfolding withLock_def Let_def TryLock_def unlock_def
    by (simp del: append.simps)
qed

end
