(* ===== verification/GoFloat.thy ===== *)
theory GoFloat
  imports Complex_Main Prelude
begin

text \<open>
  \<open>float64\<close> arithmetic where its rounding can matter. \<open>fl64 x\<close> is the double nearest to the
  real \<open>x\<close>, ties to even: a Go operation on floats is \<open>fl64\<close> of the operation on reals. The
  range is that of normal numbers: the program's quotients and percentages neither overflow nor
  become subnormal. \<open>float64(n)\<close> is exact for the counts and milliseconds that occur, and
  \<open>fl64_of_int\<close> gives the bound.
\<close>

definition round_even :: "real \<Rightarrow> int" where
  "round_even q = (let f = \<lfloor>q\<rfloor>; d = q - of_int f in
     if d < 1/2 then f else if 1/2 < d then f + 1 else if even f then f else f + 1)"

definition ulp_exp :: "real \<Rightarrow> int" where
  "ulp_exp x = \<lfloor>log 2 x\<rfloor> - 52"

definition fl64 :: "real \<Rightarrow> real" where
  "fl64 x = (if x = 0 then 0
     else if 0 < x then of_int (round_even (x / 2 powi ulp_exp x)) * 2 powi ulp_exp x
     else - (of_int (round_even (- x / 2 powi ulp_exp (- x))) * 2 powi ulp_exp (- x)))"

text \<open>Conversion to an integer, towards zero.\<close>

definition int_of_float :: "real \<Rightarrow> int" where
  "int_of_float x = (if 0 \<le> x then \<lfloor>x\<rfloor> else \<lceil>x\<rceil>)"

lemma round_even_of_int [simp]: "round_even (of_int n) = n"
  by (simp add: round_even_def)

lemma round_even_mono: "x \<le> y \<Longrightarrow> round_even x \<le> round_even y"
proof -
  assume le: "x \<le> y"
  then have f: "\<lfloor>x\<rfloor> \<le> \<lfloor>y\<rfloor>" by (rule floor_mono)
  show ?thesis
  proof (cases "\<lfloor>x\<rfloor> = \<lfloor>y\<rfloor>")
    case True
    then show ?thesis using le by (simp add: round_even_def Let_def)
  next
    case False
    then have "\<lfloor>x\<rfloor> + 1 \<le> \<lfloor>y\<rfloor>" using f by simp
    moreover have "round_even x \<le> \<lfloor>x\<rfloor> + 1" "\<lfloor>y\<rfloor> \<le> round_even y"
      by (simp_all add: round_even_def Let_def)
    ultimately show ?thesis by simp
  qed
qed

lemma round_even_ge: "of_int n \<le> x \<Longrightarrow> n \<le> round_even x"
  using round_even_mono [of "of_int n" x] by simp

lemma round_even_le: "x \<le> of_int n \<Longrightarrow> round_even x \<le> n"
  using round_even_mono [of x "of_int n"] by simp

lemma ulp_exp_bounds:
  assumes "0 < x"
  shows "2 powi (ulp_exp x + 52) \<le> x" and "x < 2 powi (ulp_exp x + 53)"
proof -
  have "2 powr of_int \<lfloor>log 2 x\<rfloor> \<le> x"
    using assms by (simp add: le_log_iff [symmetric])
  then show "2 powi (ulp_exp x + 52) \<le> x"
    by (simp add: ulp_exp_def powr_real_of_int')
  have "x < 2 powr (of_int (\<lfloor>log 2 x\<rfloor> + 1))"
    using assms by (subst log_less_iff [symmetric]) (auto intro: floor_less_iff [THEN iffD1])
  moreover have "\<lfloor>log 2 x\<rfloor> + 1 = ulp_exp x + 53" by (simp add: ulp_exp_def)
  ultimately show "x < 2 powi (ulp_exp x + 53)"
    by (simp add: powr_real_of_int' del: of_int_add)
qed

lemma scaled_bounds:
  assumes "0 < x"
  shows "2 ^ 52 \<le> x / 2 powi ulp_exp x" and "x / 2 powi ulp_exp x \<le> 2 ^ 53"
proof -
  have p: "(2::real) powi (ulp_exp x + 52) = 2 ^ 52 * 2 powi ulp_exp x"
    "(2::real) powi (ulp_exp x + 53) = 2 ^ 53 * 2 powi ulp_exp x"
    by (simp_all add: power_int_add)
  have pos: "(0::real) < 2 powi ulp_exp x" by simp
  show "2 ^ 52 \<le> x / 2 powi ulp_exp x"
    using ulp_exp_bounds(1) [OF assms] pos unfolding p by (simp add: pos_le_divide_eq)
  show "x / 2 powi ulp_exp x \<le> 2 ^ 53"
    using ulp_exp_bounds(2) [OF assms] pos unfolding p by (simp add: pos_divide_le_eq)
qed

lemma fl64_between:
  assumes "0 < x"
  shows "2 powi (ulp_exp x + 52) \<le> fl64 x" and "fl64 x \<le> 2 powi (ulp_exp x + 53)"
proof -
  let ?r = "round_even (x / 2 powi ulp_exp x)"
  have r: "2 ^ 52 \<le> ?r" "?r \<le> 2 ^ 53"
    using scaled_bounds [OF assms] by (auto intro!: round_even_ge round_even_le)
  then have "(2 ^ 52 :: real) \<le> of_int ?r" "of_int ?r \<le> (2 ^ 53 :: real)"
    by (metis of_int_le_iff of_int_numeral of_int_power)+
  then show "2 powi (ulp_exp x + 52) \<le> fl64 x" "fl64 x \<le> 2 powi (ulp_exp x + 53)"
    using assms by (simp_all add: fl64_def power_int_add)
qed

lemma ulp_exp_mono: "0 < x \<Longrightarrow> x \<le> y \<Longrightarrow> ulp_exp x \<le> ulp_exp y"
  by (simp add: ulp_exp_def floor_mono)

lemma fl64_mono:
  assumes "0 \<le> x" and "x \<le> y"
  shows "fl64 x \<le> fl64 y"
proof (cases "x = 0")
  case True
  then show ?thesis
    using assms(2) fl64_between(1) [of y] by (cases "y = 0") (auto simp: fl64_def intro: order_trans [rotated])
next
  case False
  then have x: "0 < x" and y: "0 < y" using assms by auto
  show ?thesis
  proof (cases "ulp_exp x = ulp_exp y")
    case True
    then have "x / 2 powi ulp_exp x \<le> y / 2 powi ulp_exp y"
      using assms(2) by (simp add: divide_right_mono)
    then show ?thesis
      using x y True by (simp add: fl64_def round_even_mono mult_right_mono)
  next
    case False
    then have "ulp_exp x + 53 \<le> ulp_exp y + 52"
      using ulp_exp_mono [OF x assms(2)] by simp
    then have "(2::real) powi (ulp_exp x + 53) \<le> 2 powi (ulp_exp y + 52)"
      by (intro power_int_increasing) auto
    then show ?thesis
      using fl64_between(2) [OF x] fl64_between(1) [OF y] by linarith
  qed
qed

lemma fl64_0 [simp]: "fl64 0 = 0"
  by (simp add: fl64_def)

lemma fl64_nonneg: "0 \<le> x \<Longrightarrow> 0 \<le> fl64 x"
  using fl64_mono [of 0 x] by simp

lemma fl64_of_int:
  assumes "0 \<le> n" and "n < 2 ^ 53"
  shows "fl64 (of_int n) = of_int n"
proof (cases "n = 0")
  case True
  then show ?thesis by simp
next
  case False
  then have n: "(0::real) < of_int n" using assms(1) by simp
  have "ulp_exp (of_int n) \<le> 0"
  proof (rule ccontr)
    assume "\<not> ulp_exp (of_int n) \<le> 0"
    then have "(2::real) powi 53 \<le> 2 powi (ulp_exp (of_int n) + 52)"
      by (intro power_int_increasing) auto
    then have "(2::real) ^ 53 \<le> of_int n"
      using ulp_exp_bounds(1) [OF n] by simp
    then have "(2::int) ^ 53 \<le> n" by (metis of_int_le_iff of_int_numeral of_int_power)
    then show False using assms(2) by simp
  qed
  then obtain k where k: "ulp_exp (of_int n :: real) = - int k"
    by (metis add.inverse_inverse minus_equation_iff nat_0_le neg_0_le_iff_le)
  have "(of_int n :: real) / 2 powi ulp_exp (of_int n) = of_int (n * 2 ^ k)"
    by (simp add: k power_int_minus divide_inverse)
  then show ?thesis
    using n by (simp add: fl64_def k power_int_minus del: of_int_mult) (simp add: field_simps)
qed

lemma fl64_of_nat: "n < 2 ^ 53 \<Longrightarrow> fl64 (of_nat n) = of_nat n"
  using fl64_of_int [of "int n"] by simp

lemma fl64_1 [simp]: "fl64 1 = 1"
  using fl64_of_nat [of 1] by simp

lemma fl64_100 [simp]: "fl64 100 = 100"
  using fl64_of_nat [of 100] by simp

text \<open>A percentage computed in floats stays between 0 and 100.\<close>

lemma fl64_percent:
  assumes "0 \<le> x" and "x \<le> y" and "0 < y"
  shows "0 \<le> fl64 (fl64 (x / y) * 100)" and "fl64 (fl64 (x / y) * 100) \<le> 100"
proof -
  have q: "0 \<le> fl64 (x / y)" "fl64 (x / y) \<le> 1"
    using assms fl64_nonneg [of "x / y"] fl64_mono [of "x / y" 1] by auto
  then show "0 \<le> fl64 (fl64 (x / y) * 100)" by (intro fl64_nonneg) simp
  show "fl64 (fl64 (x / y) * 100) \<le> 100"
    using q fl64_mono [of "fl64 (x / y) * 100" 100] by simp
qed

end
