(* ===== verification/MonitorModel.thy ===== *)
theory MonitorModel
  imports GoFloat "HOL-Library.Signed_Division"
begin

text \<open>
  The monitor service's domain, \<open>backend/monitor-service/internal/model/\<close>: \<open>monitor_status.go\<close>,
  \<open>monitor.go\<close>, \<open>working_hours.go\<close>, \<open>check_result.go\<close>, \<open>incident.go\<close> and
  \<open>uptime_stats.go\<close>. A pointer that may be nil is an \<open>option\<close>. A function that may panic
  returns an \<open>outcome\<close>.

  Times of day are read in a location with the fixed offset \<open>off\<close> from UTC (in nanoseconds);
  changes to and from daylight saving time within the days that a function looks at are not
  modelled.
\<close>

section \<open>Status\<close>

datatype monitor_status = StatusPending | StatusUp | StatusDown | StatusDegraded | StatusPaused

fun status_String :: "monitor_status \<Rightarrow> string" where
  "status_String StatusPending = ''PENDING''"
| "status_String StatusUp = ''UP''"
| "status_String StatusDown = ''DOWN''"
| "status_String StatusDegraded = ''DEGRADED''"
| "status_String StatusPaused = ''PAUSED''"

definition ParseMonitorStatus :: "string \<Rightarrow> monitor_status option" where
  "ParseMonitorStatus s = List.find (\<lambda>st. status_String st = s)
     [StatusPending, StatusUp, StatusDown, StatusDegraded, StatusPaused]"

fun CanTransitionTo :: "monitor_status \<Rightarrow> monitor_status \<Rightarrow> bool" where
  "CanTransitionTo StatusPending to =
     (to = StatusUp \<or> to = StatusDown \<or> to = StatusDegraded \<or> to = StatusPaused)"
| "CanTransitionTo StatusUp to = (to = StatusDown \<or> to = StatusDegraded \<or> to = StatusPaused)"
| "CanTransitionTo StatusDown to = (to = StatusUp \<or> to = StatusDegraded \<or> to = StatusPaused)"
| "CanTransitionTo StatusDegraded to = (to = StatusUp \<or> to = StatusDown \<or> to = StatusPaused)"
| "CanTransitionTo StatusPaused to = (to = StatusUp)"

definition IsActive :: "monitor_status \<Rightarrow> bool" where
  "IsActive s \<longleftrightarrow> s \<noteq> StatusPaused"

definition IsHealthy :: "monitor_status \<Rightarrow> bool" where
  "IsHealthy s \<longleftrightarrow> s = StatusUp \<or> s = StatusPending"

definition IsUnhealthy :: "monitor_status \<Rightarrow> bool" where
  "IsUnhealthy s \<longleftrightarrow> s = StatusDown \<or> s = StatusDegraded"

section \<open>Clock and calendar\<close>

datatype weekday = Sunday | Monday | Tuesday | Wednesday | Thursday | Friday | Saturday

abbreviation day_ns :: duration where "day_ns \<equiv> 24 * hour"

definition local_day :: "duration \<Rightarrow> time \<Rightarrow> int" where
  "local_day off t = (t + off) div day_ns"

definition Hour :: "duration \<Rightarrow> time \<Rightarrow> int" where
  "Hour off t = (t + off) mod day_ns div hour"

definition Minute :: "duration \<Rightarrow> time \<Rightarrow> int" where
  "Minute off t = (t + off) mod hour div minute"

text \<open>The first of January 1970 was a Thursday.\<close>

definition Weekday :: "duration \<Rightarrow> time \<Rightarrow> weekday" where
  "Weekday off t = [Sunday, Monday, Tuesday, Wednesday, Thursday, Friday, Saturday]
     ! nat ((local_day off t + 4) mod 7)"

text \<open>\<open>time.Date(y, m, d, h, mi, 0, 0, loc)\<close> on the day with number \<open>d\<close>.\<close>

definition date_time :: "duration \<Rightarrow> int \<Rightarrow> int \<Rightarrow> int \<Rightarrow> time" where
  "date_time off d h mi = d * day_ns + h * hour + mi * minute - off"

text \<open>\<open>time.Date(0, 1, 1, h, mi, 0, 0, time.UTC)\<close>: the year 0 has 366 days.\<close>

definition year0_time :: "int \<Rightarrow> int \<Rightarrow> time" where
  "year0_time h mi = zero_time - 366 * day_ns + h * hour + mi * minute"

lemma clock_arith:
  assumes "0 \<le> h" "h < 24" "0 \<le> mi" "mi < 60"
  shows "(d * day_ns + h * hour + mi * minute) mod day_ns = h * hour + mi * minute"
    and "(d * day_ns + h * hour + mi * minute) div day_ns = d"
    and "(h * hour + mi * minute) div hour = h"
    and "(d * day_ns + h * hour + mi * minute) mod hour div minute = mi"
proof -
  show "(d * day_ns + h * hour + mi * minute) mod day_ns = h * hour + mi * minute"
    using assms by (intro int_mod_pos_eq [where q = d]) auto
  show "(d * day_ns + h * hour + mi * minute) div day_ns = d"
    using assms by (intro int_div_pos_eq [where r = "h * hour + mi * minute"]) auto
  show "(h * hour + mi * minute) div hour = h"
    using assms by (intro int_div_pos_eq [where r = "mi * minute"]) auto
  have "(d * day_ns + h * hour + mi * minute) mod hour = mi * minute"
    using assms by (intro int_mod_pos_eq [where q = "24 * d + h"]) auto
  then show "(d * day_ns + h * hour + mi * minute) mod hour div minute = mi"
    using assms by (simp only:) (intro int_div_pos_eq [where r = 0], auto)
qed

lemma date_time_fields [simp]:
  assumes "0 \<le> h" "h < 24" "0 \<le> mi" "mi < 60"
  shows "Hour off (date_time off d h mi) = h" "Minute off (date_time off d h mi) = mi"
    "local_day off (date_time off d h mi) = d"
  unfolding Hour_def Minute_def local_day_def date_time_def diff_add_cancel clock_arith [OF assms]
  by (rule refl)+

lemma year0_time_fields [simp]:
  assumes "0 \<le> h" "h < 24" "0 \<le> mi" "mi < 60"
  shows "Hour 0 (year0_time h mi) = h" "Minute 0 (year0_time h mi) = mi"
proof -
  have "year0_time h mi = date_time 0 (- 719528) h mi"
    by (simp add: year0_time_def zero_time_def date_time_def)
  then show "Hour 0 (year0_time h mi) = h" "Minute 0 (year0_time h mi) = mi"
    using assms by simp_all
qed

lemma year0_time_le:
  "year0_time h mi \<le> year0_time h' mi' \<longleftrightarrow> h * 60 + mi \<le> h' * 60 + mi'"
  unfolding year0_time_def by linarith

lemma year0_time_less:
  "year0_time h mi < year0_time h' mi' \<longleftrightarrow> h * 60 + mi < h' * 60 + mi'"
  unfolding year0_time_def by linarith

section \<open>Working hours\<close>

record working_hours =
  wh_start :: time
  wh_end :: time
  wh_days :: "weekday list"

datatype wh_error = ErrParseTime | ErrInvalidWorkingHours | ErrInvalidWorkingDays

definition digit :: "char \<Rightarrow> int option" where
  "digit c = (let n = of_char c :: int in if 48 \<le> n \<and> n \<le> 57 then Some (n - 48) else None)"

text \<open>
  \<open>time.Parse("15:04", s)\<close> of the standard library: one or two digits, a colon, exactly two
  digits, nothing else, in range; the date is the first of January of the year 0.
\<close>

definition parse_minutes :: "int \<Rightarrow> string \<Rightarrow> time option" where
  "parse_minutes h s =
     (case s of
        [a, b, c] \<Rightarrow>
          (case (digit b, digit c) of
             (Some x, Some y) \<Rightarrow>
               if a = CHR '':'' \<and> h < 24 \<and> 10 * x + y < 60 then Some (year0_time h (10 * x + y))
               else None
           | _ \<Rightarrow> None)
      | _ \<Rightarrow> None)"

definition parseTime :: "string \<Rightarrow> time option" where
  "parseTime s =
     (case s of
        [] \<Rightarrow> None
      | a # s1 \<Rightarrow>
          (case digit a of
             None \<Rightarrow> None
           | Some x \<Rightarrow>
               (case s1 of
                  b # s2 \<Rightarrow>
                    (case digit b of
                       Some y \<Rightarrow> parse_minutes (10 * x + y) s2
                     | None \<Rightarrow> parse_minutes x s1)
                | [] \<Rightarrow> None)))"

definition NewWorkingHours ::
    "string \<Rightarrow> string \<Rightarrow> weekday list \<Rightarrow> wh_error + working_hours" where
  "NewWorkingHours start end days =
     (case parseTime start of
        None \<Rightarrow> Inl ErrParseTime
      | Some st \<Rightarrow>
          (case parseTime end of
             None \<Rightarrow> Inl ErrParseTime
           | Some en \<Rightarrow>
               if en < st \<or> en = st then Inl ErrInvalidWorkingHours
               else Inr \<lparr>wh_start = st, wh_end = en, wh_days = days\<rparr>))"

definition IsWithinHours :: "duration \<Rightarrow> time \<Rightarrow> working_hours option \<Rightarrow> bool" where
  "IsWithinHours off t wh =
     (case wh of
        None \<Rightarrow> True
      | Some w \<Rightarrow>
          (let current = year0_time (Hour off t) (Minute off t);
               start = year0_time (Hour 0 (wh_start w)) (Minute 0 (wh_start w));
               en = year0_time (Hour 0 (wh_end w)) (Minute 0 (wh_end w))
           in if current < start \<or> en < current then False
              else wh_days w = [] \<or> Weekday off t \<in> set (wh_days w)))"

fun next_check_loop :: "duration \<Rightarrow> time \<Rightarrow> working_hours \<Rightarrow> int list \<Rightarrow> time" where
  "next_check_loop off after w [] = after"
| "next_check_loop off after w (i # is) =
     (let t = date_time off (local_day off (after + i * day_ns))
                (Hour 0 (wh_start w)) (Minute 0 (wh_start w))
      in if IsWithinHours off t (Some w) then t else next_check_loop off after w is)"

definition NextCheckTime :: "duration \<Rightarrow> time \<Rightarrow> working_hours option \<Rightarrow> time" where
  "NextCheckTime off after wh =
     (case wh of
        None \<Rightarrow> after
      | Some w \<Rightarrow>
          if IsWithinHours off after wh then after else next_check_loop off after w [0..6])"

definition GetStartEndTime :: "working_hours option \<Rightarrow> time option \<times> time option" where
  "GetStartEndTime wh =
     (case wh of
        None \<Rightarrow> (None, None)
      | Some w \<Rightarrow>
          (Some (year0_time (Hour 0 (wh_start w)) (Minute 0 (wh_start w))),
           Some (year0_time (Hour 0 (wh_end w)) (Minute 0 (wh_end w)))))"

definition wd_contains :: "string \<Rightarrow> string \<Rightarrow> bool" where
  "wd_contains s sub \<longleftrightarrow> length sub \<le> length s \<and> take (length sub) s = sub"

fun day_name :: "weekday \<Rightarrow> string" where
  "day_name Sunday = ''sun''"
| "day_name Monday = ''mon''"
| "day_name Tuesday = ''tue''"
| "day_name Wednesday = ''wed''"
| "day_name Thursday = ''thu''"
| "day_name Friday = ''fri''"
| "day_name Saturday = ''sat''"

definition WorkingDaysFromString :: "string \<Rightarrow> wh_error + weekday list" where
  "WorkingDaysFromString s =
     (if s = [] then Inr []
      else let days = filter (\<lambda>d. wd_contains s (day_name d))
             [Sunday, Monday, Tuesday, Wednesday, Thursday, Friday, Saturday]
           in if days = [] then Inl ErrInvalidWorkingDays else Inr days)"

definition WorkingDaysToString :: "weekday list \<Rightarrow> string" where
  "WorkingDaysToString days =
     (let s = concat (map (\<lambda>d. day_name d @ '','') days) in if s = [] then s else butlast s)"

section \<open>Monitors\<close>

datatype 'a outcome = Panics | Returns 'a

datatype monitor_error =
    ErrEmptyMonitorName | ErrMonitorNameTooLong | ErrEmptyURL | ErrURLTooLong
  | ErrInvalidURLScheme | ErrIntervalTooSmall | ErrIntervalTooLarge
  | ErrTimeoutExceedsInterval | InvalidStatusTransition monitor_status monitor_status

record monitor =
  mo_id :: nat
  mo_user :: nat
  mo_name :: string
  mo_url :: string
  mo_check_type :: string
  mo_interval :: int
  mo_timeout :: int
  mo_status :: monitor_status
  mo_hours_start :: "time option"
  mo_hours_end :: "time option"
  mo_days :: "weekday list"
  mo_slow_threshold :: "int option"
  mo_failure_threshold :: "int option"
  mo_last_check :: "time option"
  mo_created :: time
  mo_updated :: time

definition validateMonitorName :: "string \<Rightarrow> monitor_error option" where
  "validateMonitorName name =
     (if name = [] then Some ErrEmptyMonitorName
      else if 255 < length name then Some ErrMonitorNameTooLong
      else None)"

text \<open>\<open>url[:8]\<close> panics when the string is shorter.\<close>

definition validateURL :: "string \<Rightarrow> monitor_error option outcome" where
  "validateURL url =
     (if url = [] then Returns (Some ErrEmptyURL)
      else if 2048 < length url then Returns (Some ErrURLTooLong)
      else if length url < 7 then Returns (Some ErrInvalidURLScheme)
      else if take 7 url = ''http://'' then Returns None
      else if length url < 8 then Panics
      else if take 8 url = ''https://'' then Returns None
      else Returns (Some ErrInvalidURLScheme))"

definition validateInterval :: "int \<Rightarrow> monitor_error option" where
  "validateInterval seconds =
     (if seconds < 30 then Some ErrIntervalTooSmall
      else if 3600 < seconds then Some ErrIntervalTooLarge
      else None)"

definition NewMonitor ::
    "nat \<Rightarrow> time \<Rightarrow> nat \<Rightarrow> string \<Rightarrow> string \<Rightarrow> int \<Rightarrow> (monitor_error + monitor) outcome" where
  "NewMonitor i now user name url interval =
     (case validateMonitorName name of
        Some e \<Rightarrow> Returns (Inl e)
      | None \<Rightarrow>
          (case validateURL url of
             Panics \<Rightarrow> Panics
           | Returns (Some e) \<Rightarrow> Returns (Inl e)
           | Returns None \<Rightarrow>
               (case validateInterval interval of
                  Some e \<Rightarrow> Returns (Inl e)
                | None \<Rightarrow> Returns (Inr \<lparr>mo_id = i, mo_user = user, mo_name = name, mo_url = url,
                    mo_check_type = ''HTTP'', mo_interval = interval, mo_timeout = 30,
                    mo_status = StatusPending, mo_hours_start = None, mo_hours_end = None,
                    mo_days = [Monday, Tuesday, Wednesday, Thursday, Friday, Saturday, Sunday],
                    mo_slow_threshold = None, mo_failure_threshold = None, mo_last_check = None,
                    mo_created = now, mo_updated = now\<rparr>))))"

definition UpdateStatus :: "time \<Rightarrow> monitor_status \<Rightarrow> monitor \<Rightarrow> monitor_error + monitor" where
  "UpdateStatus now st m =
     (if \<not> CanTransitionTo (mo_status m) st then Inl (InvalidStatusTransition (mo_status m) st)
      else Inr (m\<lparr>mo_status := st, mo_updated := now\<rparr>))"

definition ShouldCheckNow :: "duration \<Rightarrow> time \<Rightarrow> monitor \<Rightarrow> bool" where
  "ShouldCheckNow off now m =
     (if mo_status m = StatusPaused then False
      else case (mo_hours_start m, mo_hours_end m) of
        (Some s, Some e) \<Rightarrow>
          if now < s \<or> e < now then False
          else mo_days m = [] \<or> Weekday off now \<in> set (mo_days m)
      | _ \<Rightarrow> True)"

definition GetDegradedThresholds :: "monitor \<Rightarrow> int \<times> int" where
  "GetDegradedThresholds m =
     ((case mo_slow_threshold m of Some t \<Rightarrow> t | None \<Rightarrow> 1000),
      (case mo_failure_threshold m of Some t \<Rightarrow> t | None \<Rightarrow> 50))"

definition UpdateLastCheck :: "time \<Rightarrow> monitor \<Rightarrow> monitor" where
  "UpdateLastCheck now m = m\<lparr>mo_last_check := Some now, mo_updated := now\<rparr>"

section \<open>Check results\<close>

datatype check_error_code =
    ConnectionTimeout | DNSResolutionFailed | SSLCertificateExpired | EmptyResponse
  | ResponseTooLarge | TooManyRedirects | DegradedSlowResponse | DegradedHighFailure
  | CheckSkippedMaintenance | ServerError | ClientError | NetworkError

record check_result =
  re_id :: nat
  re_monitor :: nat
  re_status :: monitor_status
  re_ms :: "int option"
  re_code :: "int option"
  re_message :: "string option"
  re_error :: "check_error_code option"
  re_checked :: time
  re_created :: time

definition NewCheckResult :: "nat \<Rightarrow> time \<Rightarrow> nat \<Rightarrow> monitor_status \<Rightarrow> check_result" where
  "NewCheckResult i now m st = \<lparr>re_id = i, re_monitor = m, re_status = st, re_ms = None,
     re_code = None, re_message = None, re_error = None, re_checked = now, re_created = now\<rparr>"

definition IsFailure :: "check_result \<Rightarrow> bool" where
  "IsFailure r \<longleftrightarrow> re_status r = StatusDown"

definition CalculateFailureRate :: "check_result list \<Rightarrow> real" where
  "CalculateFailureRate rs =
     (if rs = [] then 0
      else fl64 (fl64 (of_nat (count_where IsFailure rs) / of_nat (length rs)) * 100))"

definition CalculateAverageResponseTime :: "check_result list \<Rightarrow> int" where
  "CalculateAverageResponseTime rs =
     (let ms = List.map_filter re_ms rs
      in if ms = [] then 0 else sum_list ms sdiv int (length ms))"

section \<open>Incidents\<close>

datatype incident_status = IncidentActive | IncidentResolved

record incident =
  in_id :: nat
  in_monitor :: nat
  in_start :: time
  in_end :: "time option"
  in_seconds :: "int option"
  in_status :: incident_status
  in_created :: time

definition NewIncident :: "nat \<Rightarrow> time \<Rightarrow> nat \<Rightarrow> incident" where
  "NewIncident i now m = \<lparr>in_id = i, in_monitor = m, in_start = now, in_end = None,
     in_seconds = None, in_status = IncidentActive, in_created = now\<rparr>"

definition incident_Resolve :: "time \<Rightarrow> incident \<Rightarrow> incident" where
  "incident_Resolve t i = i\<lparr>in_end := Some t, in_seconds := Some ((t - in_start i) sdiv second),
     in_status := IncidentResolved\<rparr>"

definition incident_IsActive :: "incident \<Rightarrow> bool" where
  "incident_IsActive i \<longleftrightarrow> in_status i = IncidentActive"

definition GetDuration :: "time \<Rightarrow> incident \<Rightarrow> duration" where
  "GetDuration now i =
     (case in_seconds i of
        Some s \<Rightarrow> s * second
      | None \<Rightarrow> (case in_end i of Some e \<Rightarrow> e - in_start i | None \<Rightarrow> now - in_start i))"

definition FilterByPeriod :: "time \<Rightarrow> time \<Rightarrow> incident list \<Rightarrow> incident list" where
  "FilterByPeriod from to is = filter (\<lambda>i. (in_start i < to \<or> in_start i = to) \<and>
     (case in_end i of None \<Rightarrow> True | Some e \<Rightarrow> from < e \<or> e = from)) is"

definition overlap :: "time \<Rightarrow> time \<Rightarrow> incident \<Rightarrow> duration" where
  "overlap from to i =
     (let start = (if in_start i < from then from else in_start i);
          en = (case in_end i of None \<Rightarrow> to | Some e \<Rightarrow> if to < e then to else e)
      in en - start)"

text \<open>Durations are unbounded here; in the code they are \<open>int64\<close>, some 292 years, and \<open>Sub\<close> saturates.\<close>

definition CalculateTotalDowntime :: "time \<Rightarrow> time \<Rightarrow> incident list \<Rightarrow> duration" where
  "CalculateTotalDowntime from to is = sum_list (map (overlap from to) (FilterByPeriod from to is))"

section \<open>Uptime\<close>

record uptime_stats =
  us_uptime :: real
  us_total :: int
  us_up :: int
  us_degraded :: int
  us_down :: int
  us_paused :: int
  us_downtime :: duration
  us_average :: int
  us_incidents :: int
  us_note :: string
  us_p50 :: int
  us_p95 :: int
  us_p99 :: int

definition NewUptimeStats :: uptime_stats where
  "NewUptimeStats = \<lparr>us_uptime = 100, us_total = 0, us_up = 0, us_degraded = 0, us_down = 0,
     us_paused = 0, us_downtime = 0, us_average = 0, us_incidents = 0, us_note = [],
     us_p50 = 0, us_p95 = 0, us_p99 = 0\<rparr>"

definition status_count :: "monitor_status \<Rightarrow> check_result list \<Rightarrow> nat" where
  "status_count st rs = count_where (\<lambda>r. re_status r = st) rs"

text \<open>\<open>(UP + DEGRADED * 0.5) / Total * 100\<close> in \<open>float64\<close>.\<close>

definition uptime_percent :: "nat \<Rightarrow> nat \<Rightarrow> nat \<Rightarrow> real" where
  "uptime_percent up degraded n =
     fl64 (fl64 (fl64 (of_nat up + fl64 (of_nat degraded * 0.5)) / of_nat n) * 100)"

definition us_Calculate :: "check_result list \<Rightarrow> uptime_stats \<Rightarrow> uptime_stats" where
  "us_Calculate rs s =
     (if rs = [] then s\<lparr>us_note := ''No checks in period'', us_total := 0\<rparr>
      else
        let act = filter (\<lambda>r. re_status r \<noteq> StatusPaused) rs;
            s1 = s\<lparr>us_paused := int (length rs) - int (length act)\<rparr>
        in if act = [] then s1\<lparr>us_note := ''No active checks in period'', us_total := 0\<rparr>
           else
             let up = status_count StatusUp act; degraded = status_count StatusDegraded act;
                 down = status_count StatusDown act; ms = List.map_filter re_ms act;
                 s2 = s1\<lparr>us_total := int (length act), us_up := int up, us_degraded := int degraded,
                   us_down := int down, us_uptime := uptime_percent up degraded (length act)\<rparr>
             in if ms = [] then s2
                else s2\<lparr>us_average := sum_list ms sdiv int (length ms)\<rparr>)"

definition percentile :: "int list \<Rightarrow> int \<Rightarrow> int" where
  "percentile xs p =
     (let n = int (length xs); lower = p * (n - 1) sdiv 100; upper = lower + 1
      in if n = 0 then 0
         else if n = 1 then xs ! 0
         else if n \<le> upper then xs ! nat lower
         else let w = fl64 (fl64 (fl64 (of_int (p * (n - 1))) / 100) - of_int lower)
              in int_of_float (fl64 (fl64 (fl64 (of_int (xs ! nat lower)) * fl64 (1 - w)) +
                   fl64 (fl64 (of_int (xs ! nat upper)) * w))))"

definition CalculatePercentiles :: "check_result list \<Rightarrow> uptime_stats \<Rightarrow> uptime_stats" where
  "CalculatePercentiles rs s =
     (let times = List.map_filter (\<lambda>r.
            if re_status r \<noteq> StatusUp \<and> re_status r \<noteq> StatusDegraded then None
            else case (re_ms r, re_code r) of
              (Some ms, Some code) \<Rightarrow> if 200 \<le> code \<and> code < 400 then Some ms else None
            | _ \<Rightarrow> None) rs;
          ts = sort times
      in if times = [] then s
         else s\<lparr>us_p50 := percentile ts 50, us_p95 := percentile ts 95, us_p99 := percentile ts 99\<rparr>)"

definition AddIncidents :: "incident list \<Rightarrow> uptime_stats \<Rightarrow> uptime_stats" where
  "AddIncidents is s = s\<lparr>us_incidents := int (length is),
     us_downtime := sum_list (map (\<lambda>d. d * second) (List.map_filter in_seconds is))\<rparr>"

text \<open>The statistics part of \<open>UptimeCalculator.CalculateUptime\<close>.\<close>

definition period_stats :: "check_result list \<Rightarrow> incident list \<Rightarrow> uptime_stats" where
  "period_stats rs is = AddIncidents is (CalculatePercentiles rs (us_Calculate rs NewUptimeStats))"

section \<open>Uptime is a percentage\<close>

lemma uptime_percent_bounds:
  assumes "up + degraded \<le> n" and "0 < n" and "n < 2 ^ 53"
  shows "0 \<le> uptime_percent up degraded n" and "uptime_percent up degraded n \<le> 100"
proof -
  let ?h = "fl64 (of_nat degraded * 0.5)"
  have d: "fl64 (of_nat degraded) = of_nat degraded" "fl64 (of_nat (up + degraded)) = of_nat (up + degraded)"
    using assms fl64_of_nat [of degraded] fl64_of_nat [of "up + degraded"] by simp_all
  have h: "0 \<le> ?h" "?h \<le> of_nat degraded"
    using fl64_nonneg [of "of_nat degraded * 0.5"] fl64_mono [of "of_nat degraded * 0.5" "of_nat degraded"]
    by (auto simp: d(1))
  have "0 \<le> fl64 (of_nat up + ?h)" using h by (intro fl64_nonneg) simp
  moreover have "fl64 (of_nat up + ?h) \<le> of_nat (up + degraded)"
    using h fl64_mono [of "of_nat up + ?h" "of_nat (up + degraded)"] unfolding d(2) by simp
  then have "fl64 (of_nat up + ?h) \<le> of_nat n"
    using assms(1) by (meson of_nat_le_iff order_trans)
  ultimately show "0 \<le> uptime_percent up degraded n" "uptime_percent up degraded n \<le> 100"
    using assms(2) fl64_percent [of "fl64 (of_nat up + ?h)" "of_nat n"]
    by (simp_all add: uptime_percent_def)
qed

lemma uptime_percent_all_up: "0 < n \<Longrightarrow> n < 2 ^ 53 \<Longrightarrow> uptime_percent n 0 n = 100"
  by (simp add: uptime_percent_def fl64_of_nat)

lemma uptime_percent_none_up: "uptime_percent 0 0 n = 0"
  by (simp add: uptime_percent_def)

definition active_results :: "check_result list \<Rightarrow> check_result list" where
  "active_results rs = filter (\<lambda>r. re_status r \<noteq> StatusPaused) rs"

lemma period_uptime:
  "us_uptime (period_stats rs is) =
     (let act = active_results rs
      in if act = [] then 100
         else uptime_percent (status_count StatusUp act) (status_count StatusDegraded act) (length act))"
  by (simp add: period_stats_def AddIncidents_def CalculatePercentiles_def us_Calculate_def Let_def
      NewUptimeStats_def active_results_def)

lemma status_counts_le: "status_count StatusUp rs + status_count StatusDegraded rs \<le> length rs"
  by (induction rs) (auto simp: status_count_def)

lemma status_count_all: "(\<forall>r \<in> set rs. re_status r = st) \<Longrightarrow>
    status_count st' rs = (if st' = st then length rs else 0)"
  by (induction rs) (auto simp: status_count_def)

lemma active_results_idem [simp]: "active_results (active_results rs) = active_results rs"
  by (simp add: active_results_def)

text \<open>
  The uptime of a period is a percentage, as computed in \<open>float64\<close> and whatever
  was checked: it is 100 when every active check was \<open>UP\<close> (in particular without any), 0 when
  there are checks and all were \<open>DOWN\<close>, and paused checks do not count.
\<close>

theorem uptime_is_percentage:
  assumes "length rs < 2 ^ 53"
  shows "0 \<le> us_uptime (period_stats rs is) \<and> us_uptime (period_stats rs is) \<le> 100 \<and>
    ((\<forall>r \<in> set rs. re_status r \<in> {StatusUp, StatusPaused}) \<longrightarrow> us_uptime (period_stats rs is) = 100) \<and>
    (rs \<noteq> [] \<and> (\<forall>r \<in> set rs. re_status r = StatusDown) \<longrightarrow> us_uptime (period_stats rs is) = 0) \<and>
    us_uptime (period_stats (active_results rs) is) = us_uptime (period_stats rs is)"
proof -
  let ?act = "active_results rs"
  have len: "length ?act < 2 ^ 53"
    using assms by (simp add: active_results_def) (meson length_filter_le order_le_less_trans)
  have "0 \<le> us_uptime (period_stats rs is) \<and> us_uptime (period_stats rs is) \<le> 100"
    using len status_counts_le [of ?act] by (auto simp: period_uptime Let_def uptime_percent_bounds)
  moreover have "us_uptime (period_stats rs is) = 100"
    if "\<forall>r \<in> set rs. re_status r \<in> {StatusUp, StatusPaused}"
  proof -
    have "\<forall>r \<in> set ?act. re_status r = StatusUp" using that by (auto simp: active_results_def)
    then show ?thesis
      using len status_count_all [of ?act StatusUp]
      by (simp add: period_uptime Let_def uptime_percent_all_up)
  qed
  moreover have "us_uptime (period_stats rs is) = 0"
    if "rs \<noteq> [] \<and> (\<forall>r \<in> set rs. re_status r = StatusDown)"
  proof -
    have "?act = rs" using that by (simp add: active_results_def)
    then show ?thesis
      using that status_count_all [of rs StatusDown]
      by (simp add: period_uptime Let_def uptime_percent_none_up)
  qed
  moreover have "us_uptime (period_stats ?act is) = us_uptime (period_stats rs is)"
    by (simp add: period_uptime)
  ultimately show ?thesis by blast
qed

definition demo_result :: "monitor_status \<Rightarrow> check_result" where
  "demo_result st = NewCheckResult 1 0 7 st"

theorem uptime_is_percentage_witness:
  "us_uptime (period_stats [demo_result StatusUp, demo_result StatusPaused] []) = 100"
  using uptime_is_percentage [of "[demo_result StatusUp, demo_result StatusPaused]" "[]"]
  by (simp add: demo_result_def NewCheckResult_def)

section \<open>Downtime\<close>

definition incident_wf :: "incident \<Rightarrow> bool" where
  "incident_wf i \<longleftrightarrow> (case in_end i of None \<Rightarrow> True | Some e \<Rightarrow> in_start i \<le> e)"

text \<open>The seconds of a period during which an incident lasted, as a set of instants.\<close>

definition down_at :: "incident \<Rightarrow> time \<Rightarrow> bool" where
  "down_at i t \<longleftrightarrow> in_start i \<le> t \<and> (case in_end i of None \<Rightarrow> True | Some e \<Rightarrow> t < e)"

lemma overlap_card:
  assumes "i \<in> set (FilterByPeriod from to is)" and "incident_wf i" and "from \<le> to"
  shows "overlap from to i = int (card {t. from \<le> t \<and> t < to \<and> down_at i t})"
proof -
  let ?s = "max from (in_start i)" and ?e = "case in_end i of None \<Rightarrow> to | Some e \<Rightarrow> min to e"
  have "{t. from \<le> t \<and> t < to \<and> down_at i t} = {?s..<?e}"
    by (auto simp: down_at_def split: option.split)
  moreover have "overlap from to i = ?e - ?s" "?s \<le> ?e"
    using assms by (auto simp: overlap_def Let_def FilterByPeriod_def incident_wf_def split: option.splits)
  ultimately show ?thesis by simp
qed

lemma outside_period:
  "i \<in> set is \<Longrightarrow> i \<notin> set (FilterByPeriod from to is) \<Longrightarrow>
     {t. from \<le> t \<and> t < to \<and> down_at i t} = {}"
  by (auto simp: FilterByPeriod_def down_at_def split: option.splits)

definition down_instants :: "time \<Rightarrow> time \<Rightarrow> incident \<Rightarrow> time set" where
  "down_instants from to i = {t. from \<le> t \<and> t < to \<and> down_at i t}"

lemma finite_down_instants [simp]: "finite (down_instants from to i)"
  by (rule finite_subset [of _ "{from..<to}"]) (auto simp: down_instants_def)

lemma FilterByPeriod_Cons:
  "FilterByPeriod from to (i # is) =
     (if i \<in> set (FilterByPeriod from to [i]) then i # FilterByPeriod from to is
      else FilterByPeriod from to is)"
  by (auto simp: FilterByPeriod_def)

lemma downtime_sum:
  assumes "from \<le> to" and "\<forall>i \<in> set xs. incident_wf i"
  shows "CalculateTotalDowntime from to xs =
    int (sum_list (map (\<lambda>i. card (down_instants from to i)) xs))"
  using assms(2)
proof (induction xs)
  case Nil
  then show ?case by (simp add: CalculateTotalDowntime_def FilterByPeriod_def)
next
  case (Cons i xs)
  have "CalculateTotalDowntime from to (i # xs) =
      int (card (down_instants from to i)) + CalculateTotalDowntime from to xs"
  proof (cases "i \<in> set (FilterByPeriod from to [i])")
    case True
    then show ?thesis
      using overlap_card [OF True _ assms(1)] Cons.prems
      by (simp add: CalculateTotalDowntime_def FilterByPeriod_Cons [of "from" to i xs] down_instants_def)
  next
    case False
    then have "down_instants from to i = {}"
      using outside_period [of i "[i]" "from" to] by (simp add: down_instants_def)
    with False show ?thesis
      by (simp add: CalculateTotalDowntime_def FilterByPeriod_Cons [of "from" to i xs])
  qed
  with Cons show ?case by simp
qed

text \<open>
  Property C40. For incidents that do not end before they start and do not overlap, the downtime
  of a period is exactly the time of the period during which some incident lasted, an active
  incident lasting to its end; so it is never more than the period.
\<close>

theorem CalculateTotalDowntime_measures:
  assumes "from \<le> to" and "\<forall>i \<in> set is. incident_wf i" and "distinct is"
    and "\<forall>i \<in> set is. \<forall>j \<in> set is. i \<noteq> j \<longrightarrow> (\<forall>t. \<not> (down_at i t \<and> down_at j t))"
  shows "CalculateTotalDowntime from to is =
      int (card {t. from \<le> t \<and> t < to \<and> (\<exists>i \<in> set is. down_at i t)}) \<and>
    CalculateTotalDowntime from to is \<le> to - from"
proof -
  let ?all = "{t. from \<le> t \<and> t < to \<and> (\<exists>i \<in> set is. down_at i t)}"
  have "sum_list (map (\<lambda>i. card (down_instants from to i)) is) =
      (\<Sum>i \<in> set is. card (down_instants from to i))"
    using assms(3) by (simp add: sum_list_distinct_conv_sum_set)
  also have "\<dots> = card (\<Union>i \<in> set is. down_instants from to i)"
    using assms(4) by (intro card_UN_disjoint [symmetric]) (simp, simp, auto simp: down_instants_def)
  also have "(\<Union>i \<in> set is. down_instants from to i) = ?all"
    by (auto simp: down_instants_def)
  finally have eq: "CalculateTotalDowntime from to is = int (card ?all)"
    using downtime_sum [OF assms(1,2)] by simp
  have "card ?all \<le> card {from..<to}" by (rule card_mono) auto
  with eq assms(1) show ?thesis by simp
qed

definition demo_incident :: "time \<Rightarrow> time \<Rightarrow> incident" where
  "demo_incident s e = incident_Resolve e (NewIncident 1 s 7)"

theorem CalculateTotalDowntime_measures_witness:
  "CalculateTotalDowntime 0 100 [demo_incident 10 20, demo_incident 90 120] \<le> 100 - 0"
proof -
  have "demo_incident 10 20 \<noteq> demo_incident 90 120"
    by (simp add: demo_incident_def incident_Resolve_def NewIncident_def)
  then show ?thesis
    by (intro CalculateTotalDowntime_measures [THEN conjunct2])
       (auto simp: incident_wf_def down_at_def demo_incident_def incident_Resolve_def NewIncident_def)
qed

section \<open>Working hours\<close>

lemma digit_range: "digit c = Some x \<Longrightarrow> 0 \<le> x \<and> x \<le> 9"
  by (auto simp: digit_def Let_def split: if_splits)

lemma year0I:
  "0 \<le> h \<Longrightarrow> h < 24 \<Longrightarrow> 0 \<le> mi \<Longrightarrow> mi < 60 \<Longrightarrow>
     \<exists>h' mi'. year0_time h mi = year0_time h' mi' \<and> 0 \<le> h' \<and> h' < 24 \<and> 0 \<le> mi' \<and> mi' < 60"
  by blast

lemma parse_minutes_year0:
  "parse_minutes h s = Some t \<Longrightarrow> 0 \<le> h \<Longrightarrow> \<exists>h mi. t = year0_time h mi \<and> 0 \<le> h \<and> h < 24 \<and> 0 \<le> mi \<and> mi < 60"
  by (auto simp: parse_minutes_def split: list.splits option.splits if_splits
      dest!: digit_range intro!: year0I)

lemma parseTime_year0:
  "parseTime s = Some t \<Longrightarrow> \<exists>h mi. t = year0_time h mi \<and> 0 \<le> h \<and> h < 24 \<and> 0 \<le> mi \<and> mi < 60"
  by (auto simp: parseTime_def split: list.splits option.splits
      dest!: digit_range parse_minutes_year0)

lemma NewWorkingHours_fields:
  assumes "NewWorkingHours a b days = Inr w"
  obtains h mi h' mi' where "wh_start w = year0_time h mi" "wh_end w = year0_time h' mi'"
    "0 \<le> h" "h < 24" "0 \<le> mi" "mi < 60" "0 \<le> h'" "h' < 24" "0 \<le> mi'" "mi' < 60"
    "h * 60 + mi < h' * 60 + mi'" "wh_days w = days"
proof -
  obtain st en where p: "parseTime a = Some st" "parseTime b = Some en" "st < en"
    "w = \<lparr>wh_start = st, wh_end = en, wh_days = days\<rparr>"
    using assms by (auto simp: NewWorkingHours_def split: option.splits if_splits)
  obtain h mi where s: "st = year0_time h mi" "0 \<le> h" "h < 24" "0 \<le> mi" "mi < 60"
    using parseTime_year0 [OF p(1)] by blast
  obtain h' mi' where e: "en = year0_time h' mi'" "0 \<le> h'" "h' < 24" "0 \<le> mi'" "mi' < 60"
    using parseTime_year0 [OF p(2)] by blast
  have "h * 60 + mi < h' * 60 + mi'"
    using p(3) year0_time_le [of h' mi' h mi] unfolding s(1) e(1) by linarith
  with that s e p(4) show ?thesis by simp
qed

text \<open>
  The hours are stored as instants of the year 0 and \<open>ShouldCheckNow\<close> compares the current
  instant with them, date included, so from the year 1 on every instant is after the end of the
  working day.
\<close>

lemma working_hours_closed:
  assumes "NewWorkingHours a b days = Inr w" and "GetStartEndTime (Some w) = (s, e)"
    and "mo_hours_start m = s" and "mo_hours_end m = e" and "zero_time \<le> now"
  shows "\<not> ShouldCheckNow off now m"
proof -
  obtain h mi h' mi' where w: "wh_start w = year0_time h mi" "wh_end w = year0_time h' mi'"
    "0 \<le> h" "h < 24" "0 \<le> mi" "mi < 60" "0 \<le> h'" "h' < 24" "0 \<le> mi'" "mi' < 60"
    by (rule NewWorkingHours_fields [OF assms(1)])
  have "e = Some (year0_time h' mi')" "s = Some (year0_time h mi)"
    using assms(2) w by (auto simp: GetStartEndTime_def)
  moreover have "year0_time h' mi' < now"
    using w(8,10) assms(5) by (simp add: year0_time_def)
  ultimately show ?thesis using assms(3,4) by (simp add: ShouldCheckNow_def)
qed

definition nine_to_six :: working_hours where
  "nine_to_six = \<lparr>wh_start = year0_time 9 0, wh_end = year0_time 18 0, wh_days = []\<rparr>"

lemma NewWorkingHours_nine_to_six: "NewWorkingHours ''09:00'' ''18:00'' [] = Inr nine_to_six"
  by (simp add: NewWorkingHours_def parseTime_def parse_minutes_def digit_def nine_to_six_def
      year0_time_def)

definition demo_monitor :: monitor where
  "demo_monitor = \<lparr>mo_id = 7, mo_user = 3, mo_name = ''m'', mo_url = ''http://a'',
     mo_check_type = ''HTTP'', mo_interval = 60, mo_timeout = 30, mo_status = StatusUp,
     mo_hours_start = Some (year0_time 9 0), mo_hours_end = Some (year0_time 18 0), mo_days = [],
     mo_slow_threshold = None, mo_failure_threshold = None, mo_last_check = None,
     mo_created = 0, mo_updated = 0\<rparr>"

lemma within_iff_minutes:
  assumes "NewWorkingHours a b days = Inr w"
  shows "IsWithinHours off t (Some w) \<longleftrightarrow>
    Hour 0 (wh_start w) * 60 + Minute 0 (wh_start w) \<le> Hour off t * 60 + Minute off t \<and>
    Hour off t * 60 + Minute off t \<le> Hour 0 (wh_end w) * 60 + Minute 0 (wh_end w) \<and>
    (days = [] \<or> Weekday off t \<in> set days)"
proof -
  obtain h mi h' mi' where w: "wh_start w = year0_time h mi" "wh_end w = year0_time h' mi'"
    "0 \<le> h" "h < 24" "0 \<le> mi" "mi < 60" "0 \<le> h'" "h' < 24" "0 \<le> mi'" "mi' < 60"
    "wh_days w = days"
    by (rule NewWorkingHours_fields [OF assms])
  then show ?thesis
    by (auto simp: IsWithinHours_def Let_def year0_time_less not_less)
qed

lemma clock_sum:
  fixes T :: int
  assumes "T = d * day_ns + r" and "r = h * hour + x" and "x = y" and "mi * minute \<le> y"
  shows "d * day_ns + (h * 60 + mi) * minute \<le> T"
  using assms by simp

lemma clock_le: "local_day off t * day_ns + (Hour off t * 60 + Minute off t) * minute \<le> t + off"
proof -
  let ?r = "(t + off) mod day_ns"
  have "t + off = local_day off t * day_ns + ?r"
    unfolding local_day_def by (rule div_mult_mod_eq [symmetric])
  moreover have "?r = Hour off t * hour + ?r mod hour"
    unfolding Hour_def by (rule div_mult_mod_eq [symmetric])
  moreover have "?r mod hour = (t + off) mod hour"
    by (rule mod_mod_cancel) simp
  moreover have "Minute off t * minute \<le> (t + off) mod hour"
    unfolding Minute_def by (simp add: minus_mod_eq_div_mult [symmetric])
  ultimately show ?thesis by (rule clock_sum)
qed

text \<open>
  \<open>NextCheckTime\<close> first tries the start of the current day: asked after the end of
  a working day, it answers with the start of that day, a time that has passed.
\<close>

theorem NextCheckTime_in_the_past:
  assumes "NewWorkingHours a b days = Inr w"
    and "Hour 0 (wh_end w) * 60 + Minute 0 (wh_end w) < Hour off t * 60 + Minute off t"
    and "days = [] \<or> Weekday off t \<in> set days"
  shows "NextCheckTime off t (Some w) < t \<and> local_day off (NextCheckTime off t (Some w)) = local_day off t"
proof -
  obtain h mi h' mi' where w: "wh_start w = year0_time h mi" "wh_end w = year0_time h' mi'"
    "0 \<le> h" "h < 24" "0 \<le> mi" "mi < 60" "0 \<le> h'" "h' < 24" "0 \<le> mi'" "mi' < 60"
    "h * 60 + mi < h' * 60 + mi'" "wh_days w = days"
    by (rule NewWorkingHours_fields [OF assms(1)])
  let ?t0 = "date_time off (local_day off t) h mi"
  have out: "\<not> IsWithinHours off t (Some w)"
    using assms(2) by (simp add: within_iff_minutes [OF assms(1)])
  have "Weekday off ?t0 = Weekday off t"
    using w by (simp add: Weekday_def)
  then have first: "IsWithinHours off ?t0 (Some w)"
    using w assms(3) by (simp add: within_iff_minutes [OF assms(1)])
  have "[0..6] = 0 # [1..6::int]" by (simp add: upto.simps)
  then have n: "NextCheckTime off t (Some w) = ?t0"
    using out first w by (simp add: NextCheckTime_def Let_def)
  have "(h * 60 + mi) * minute < (Hour off t * 60 + Minute off t) * minute"
    using assms(2) w by simp
  then have "?t0 < t"
    using clock_le [of off t] by (simp add: date_time_def)
  with n w show ?thesis by simp
qed

theorem NextCheckTime_in_the_past_witness:
  "NextCheckTime 0 (date_time 0 20000 20 0) (Some nine_to_six) < date_time 0 20000 20 0"
  using NextCheckTime_in_the_past [OF NewWorkingHours_nine_to_six, of 0 "date_time 0 20000 20 0"]
  by (simp add: nine_to_six_def)

text \<open>
  The text form of the working days is written with commas between the days, but
  read with a prefix test: of any list of days only the first one survives the round trip, so
  it holds for one day only.
\<close>

theorem working_days_roundtrip:
  "WorkingDaysFromString (WorkingDaysToString days) =
     Inr (case days of [] \<Rightarrow> [] | d # ds \<Rightarrow> [d])"
proof (cases days)
  case Nil
  then show ?thesis by (simp add: WorkingDaysToString_def WorkingDaysFromString_def)
next
  case (Cons d ds)
  obtain rest where s: "WorkingDaysToString days = day_name d @ rest"
  proof (cases "concat (map (\<lambda>d. day_name d @ '','') ds) = []")
    case True
    then show ?thesis using that [of "[]"] Cons by (simp add: WorkingDaysToString_def)
  next
    case False
    then show ?thesis using that Cons by (simp add: WorkingDaysToString_def butlast_append)
  qed
  show ?thesis unfolding s by (cases d) (simp_all add: Cons WorkingDaysFromString_def wd_contains_def)
qed

section \<open>Validation\<close>

lemma validateURL_panics: "validateURL url = Panics \<longleftrightarrow> length url = 7 \<and> url \<noteq> ''http://''"
proof (cases "length url = 7")
  case True
  then have "take 7 url = url" "url \<noteq> []" by auto
  with True show ?thesis by (simp add: validateURL_def)
next
  case False
  then show ?thesis by (simp add: validateURL_def)
qed

lemma validateURL_ok: "validateURL url = Returns None \<Longrightarrow>
    (take 7 url = ''http://'' \<or> take 8 url = ''https://'') \<and> length url \<le> 2048"
  by (auto simp: validateURL_def split: if_splits)

text \<open>
  A new monitor has a name of 1 to 255 bytes, an http or https URL and an interval
  from 30 to 3600 seconds, is pending and has the default timeout of 30 seconds; and the URL
  check crashes on exactly the seven-byte URLs other than \<open>http://\<close>.
\<close>

theorem NewMonitor_validates:
  "(case NewMonitor i now user name url interval of
      Panics \<Rightarrow> length url = 7 \<and> url \<noteq> ''http://''
    | Returns (Inl e) \<Rightarrow> True
    | Returns (Inr m) \<Rightarrow> 1 \<le> length name \<and> length name \<le> 255 \<and>
        (take 7 url = ''http://'' \<or> take 8 url = ''https://'') \<and> length url \<le> 2048 \<and>
        30 \<le> interval \<and> interval \<le> 3600 \<and> mo_status m = StatusPending \<and> mo_timeout m = 30 \<and>
        mo_name m = name \<and> mo_url m = url \<and> mo_interval m = interval) \<and>
   (validateURL url = Panics \<longleftrightarrow> length url = 7 \<and> url \<noteq> ''http://'')"
  by (auto simp: NewMonitor_def validateURL_panics validateMonitorName_def validateInterval_def
      Suc_le_eq split: outcome.split option.split sum.split if_splits dest: validateURL_ok)

end
