(* ===== verification/MonitorService.thy ===== *)
theory MonitorService
  imports MonitorModel "HOL-Library.Sublist"
begin

text \<open>
  The monitor service's operations, under \<open>backend/monitor-service/internal/\<close>:
  \<open>service/check_executor.go\<close>, \<open>service/scheduler.go\<close>, \<open>service/incident_detector.go\<close>,
  \<open>service/authorization_service.go\<close>, \<open>service/monitor_service.go\<close> and the statements of
  \<open>repository/postgres/monitor_repository.go\<close>, \<open>incident_repository.go\<close> and
  \<open>check_result_repository.go\<close> that they use.

  A repository call fails when \<open>down\<close> says so, when it violates a constraint of the
  migrations, or when it updates no row. Requests carry parsed identifiers; spans, metrics and
  log lines are left out. The goroutines of \<open>scheduleBatch\<close> each work on a monitor of their own
  and are run one after the other.
\<close>

section \<open>Database\<close>

datatype mon_call =
    MonCreate | MonGet nat | MonExists | MonCount | MonUpdate nat | MonUpdateStatus nat
  | MonDelete nat | MonListDue | ResCreate | ResLatest | IncGetActive nat | IncCreate
  | IncResolve nat | MonAudit

record mon_db =
  md_monitors :: "monitor list"
  md_results :: "check_result list"
  md_incidents :: "incident list"
  md_audit :: "(string \<times> nat) list"

type_synonym mon_faults = "mon_call \<Rightarrow> bool"

datatype ms_error =
    RepoError                 \<comment> \<open>a driver error or violated constraint\<close>
  | RepoMonitorNotFound       \<comment> \<open>\<open>interfaces.ErrMonitorNotFound\<close>\<close>
  | RepoIncidentNotFound      \<comment> \<open>\<open>interfaces.ErrIncidentNotFound\<close>\<close>
  | AppMonitorNotFound        \<comment> \<open>\<open>apperrors.ErrMonitorNotFound\<close>, another value\<close>
  | AppPermissionDenied | AppUnknownTier | LimitReached
  | AlreadyExists | TimeoutNotLess | InvalidHours wh_error | InvalidMonitor monitor_error
  | MonitorPaused | OutsideWorkingHours

text \<open>The constraints of the table \<open>monitors\<close>.\<close>

definition monitor_row_ok :: "monitor \<Rightarrow> bool" where
  "monitor_row_ok m \<longleftrightarrow> length (mo_name m) \<le> 255 \<and> length (mo_url m) \<le> 2048 \<and>
     length (mo_check_type m) \<le> 50 \<and>
     30 \<le> mo_interval m \<and> mo_interval m \<le> 3600 \<and> mo_timeout m < mo_interval m"

definition mon_Create :: "mon_faults \<Rightarrow> monitor \<Rightarrow> mon_db \<Rightarrow> ms_error + mon_db" where
  "mon_Create down m db =
     (if down MonCreate \<or> \<not> monitor_row_ok m
         \<or> list_ex (\<lambda>r. mo_id r = mo_id m \<or> mo_user r = mo_user m \<and> mo_name r = mo_name m)
             (md_monitors db) then Inl RepoError
      else Inr (db\<lparr>md_monitors := md_monitors db @ [m]\<rparr>))"

definition mon_GetByID :: "mon_faults \<Rightarrow> nat \<Rightarrow> mon_db \<Rightarrow> ms_error + monitor" where
  "mon_GetByID down i db =
     (if down (MonGet i) then Inl RepoError
      else case List.find (\<lambda>m. mo_id m = i) (md_monitors db) of
        None \<Rightarrow> Inl RepoMonitorNotFound
      | Some m \<Rightarrow> Inr m)"

definition mon_ExistsByName :: "mon_faults \<Rightarrow> nat \<Rightarrow> string \<Rightarrow> mon_db \<Rightarrow> ms_error + bool" where
  "mon_ExistsByName down u n db =
     (if down MonExists then Inl RepoError
      else Inr (list_ex (\<lambda>r. mo_user r = u \<and> mo_name r = n) (md_monitors db)))"

definition user_count :: "nat \<Rightarrow> mon_db \<Rightarrow> nat" where
  "user_count u db = count_where (\<lambda>r. mo_user r = u) (md_monitors db)"

definition mon_CountByUserID :: "mon_faults \<Rightarrow> nat \<Rightarrow> mon_db \<Rightarrow> ms_error + int" where
  "mon_CountByUserID down u db =
     (if down MonCount then Inl RepoError else Inr (int (user_count u db)))"

definition set_monitor_columns :: "monitor \<Rightarrow> monitor \<Rightarrow> monitor" where
  "set_monitor_columns m r = r\<lparr>mo_name := mo_name m, mo_url := mo_url m,
     mo_check_type := mo_check_type m, mo_interval := mo_interval m, mo_timeout := mo_timeout m,
     mo_status := mo_status m, mo_hours_start := mo_hours_start m, mo_hours_end := mo_hours_end m,
     mo_days := mo_days m, mo_slow_threshold := mo_slow_threshold m,
     mo_failure_threshold := mo_failure_threshold m, mo_last_check := mo_last_check m,
     mo_updated := mo_updated m\<rparr>"

definition mon_Update :: "mon_faults \<Rightarrow> monitor \<Rightarrow> mon_db \<Rightarrow> ms_error + mon_db" where
  "mon_Update down m db =
     (case List.find (\<lambda>r. mo_id r = mo_id m) (md_monitors db) of
        None \<Rightarrow> Inl (if down (MonUpdate (mo_id m)) then RepoError else RepoMonitorNotFound)
      | Some r0 \<Rightarrow>
          if down (MonUpdate (mo_id m)) \<or> \<not> monitor_row_ok (set_monitor_columns m r0)
             \<or> list_ex (\<lambda>r. mo_id r \<noteq> mo_id m \<and> mo_user r = mo_user r0 \<and> mo_name r = mo_name m)
                 (md_monitors db) then Inl RepoError
          else Inr (db\<lparr>md_monitors := upd_where (\<lambda>r. mo_id r = mo_id m) (set_monitor_columns m)
                 (md_monitors db)\<rparr>))"

definition mon_UpdateStatus ::
    "mon_faults \<Rightarrow> time \<Rightarrow> nat \<Rightarrow> monitor_status \<Rightarrow> mon_db \<Rightarrow> ms_error + mon_db" where
  "mon_UpdateStatus down now i st db =
     (if down (MonUpdateStatus i) then Inl RepoError
      else if \<not> list_ex (\<lambda>r. mo_id r = i) (md_monitors db) then Inl RepoMonitorNotFound
      else Inr (db\<lparr>md_monitors := upd_where (\<lambda>r. mo_id r = i)
             (\<lambda>r. r\<lparr>mo_status := st, mo_updated := now\<rparr>) (md_monitors db)\<rparr>))"

definition mon_Delete :: "mon_faults \<Rightarrow> nat \<Rightarrow> mon_db \<Rightarrow> ms_error + mon_db" where
  "mon_Delete down i db =
     (if down (MonDelete i) then Inl RepoError
      else if \<not> list_ex (\<lambda>r. mo_id r = i) (md_monitors db) then Inl RepoMonitorNotFound
      else Inr (db\<lparr>md_monitors := del_where (\<lambda>r. mo_id r = i) (md_monitors db),
             md_results := del_where (\<lambda>r. re_monitor r = i) (md_results db),
             md_incidents := del_where (\<lambda>r. in_monitor r = i) (md_incidents db),
             md_audit := del_where (\<lambda>e. snd e = i) (md_audit db)\<rparr>))"

definition due_row :: "time \<Rightarrow> monitor \<Rightarrow> bool" where
  "due_row now m \<longleftrightarrow> mo_status m \<noteq> StatusPaused \<and>
     (case mo_last_check m of None \<Rightarrow> True | Some t \<Rightarrow> t + mo_interval m * second < now)"

text \<open>\<open>ORDER BY last_check_at ASC NULLS FIRST LIMIT\<close>.\<close>

definition mon_ListDueForCheck ::
    "mon_faults \<Rightarrow> time \<Rightarrow> nat \<Rightarrow> mon_db \<Rightarrow> ms_error + monitor list" where
  "mon_ListDueForCheck down now limit db =
     (let rows = filter (due_row now) (md_monitors db)
      in if down MonListDue then Inl RepoError
         else Inr (take limit (filter (\<lambda>m. mo_last_check m = None) rows @
           sort_key (\<lambda>m. the (mo_last_check m)) (filter (\<lambda>m. mo_last_check m \<noteq> None) rows))))"

definition res_Create :: "mon_faults \<Rightarrow> check_result \<Rightarrow> mon_db \<Rightarrow> ms_error + mon_db" where
  "res_Create down r db =
     (if down ResCreate \<or> list_ex (\<lambda>r'. re_id r' = re_id r) (md_results db)
         \<or> \<not> list_ex (\<lambda>m. mo_id m = re_monitor r) (md_monitors db) then Inl RepoError
      else Inr (db\<lparr>md_results := md_results db @ [r]\<rparr>))"

definition res_GetLatest :: "mon_faults \<Rightarrow> nat \<Rightarrow> nat \<Rightarrow> mon_db \<Rightarrow> ms_error + check_result list" where
  "res_GetLatest down i limit db =
     (if down ResLatest then Inl RepoError
      else Inr (take limit (sort_key (\<lambda>r. - re_checked r)
             (filter (\<lambda>r. re_monitor r = i) (md_results db)))))"

definition inc_GetActive :: "mon_faults \<Rightarrow> nat \<Rightarrow> mon_db \<Rightarrow> ms_error + incident list" where
  "inc_GetActive down i db =
     (if down (IncGetActive i) then Inl RepoError
      else Inr (sort_key (\<lambda>x. - in_start x)
             (filter (\<lambda>x. in_monitor x = i \<and> in_status x = IncidentActive) (md_incidents db))))"

definition inc_Create :: "mon_faults \<Rightarrow> incident \<Rightarrow> mon_db \<Rightarrow> ms_error + mon_db" where
  "inc_Create down x db =
     (if down IncCreate \<or> list_ex (\<lambda>y. in_id y = in_id x) (md_incidents db)
         \<or> \<not> list_ex (\<lambda>m. mo_id m = in_monitor x) (md_monitors db) then Inl RepoError
      else Inr (db\<lparr>md_incidents := md_incidents db @ [x]\<rparr>))"

text \<open>\<open>EXTRACT(EPOCH FROM ..)::INTEGER\<close> casts a \<open>numeric\<close> and so rounds to the nearest second.\<close>

definition db_resolve :: "time \<Rightarrow> incident \<Rightarrow> incident" where
  "db_resolve t x = x\<lparr>in_end := Some t,
     in_seconds := Some (round (of_int (t - in_start x) / of_int second :: real)),
     in_status := IncidentResolved\<rparr>"

definition inc_Resolve :: "mon_faults \<Rightarrow> nat \<Rightarrow> time \<Rightarrow> mon_db \<Rightarrow> ms_error + mon_db" where
  "inc_Resolve down i t db =
     (let p = (\<lambda>x. in_id x = i \<and> in_status x = IncidentActive)
      in if down (IncResolve i) then Inl RepoError
         else if \<not> list_ex p (md_incidents db) then Inl RepoIncidentNotFound
         else Inr (db\<lparr>md_incidents := upd_where p (db_resolve t) (md_incidents db)\<rparr>))"

text \<open>\<open>monitor_audit_log.monitor_id\<close> references \<open>monitors\<close>; a failure is only logged.\<close>

definition mon_audit :: "mon_faults \<Rightarrow> string \<Rightarrow> nat \<Rightarrow> mon_db \<Rightarrow> mon_db" where
  "mon_audit down action i db =
     (if down MonAudit \<or> \<not> list_ex (\<lambda>m. mo_id m = i) (md_monitors db) then db
      else db\<lparr>md_audit := md_audit db @ [(action, i)]\<rparr>)"

section \<open>Authorization\<close>

definition tierLimits :: "string \<Rightarrow> int option" where
  "tierLimits tier =
     (if tier = ''Free'' then Some 5
      else if tier = ''Basic'' then Some 25
      else if tier = ''Pro'' then Some 100
      else if tier = ''Enterprise'' then Some (-1)
      else None)"

definition CanCreateMonitor :: "mon_faults \<Rightarrow> nat \<Rightarrow> string \<Rightarrow> mon_db \<Rightarrow> ms_error option" where
  "CanCreateMonitor down u tier db =
     (case tierLimits (if tier = [] then ''Free'' else tier) of
        None \<Rightarrow> Some AppUnknownTier
      | Some limit \<Rightarrow>
          if limit = -1 then None
          else case mon_CountByUserID down u db of
            Inl e \<Rightarrow> Some e
          | Inr n \<Rightarrow> if limit \<le> n then Some LimitReached else None)"

definition CanAccessMonitor :: "mon_faults \<Rightarrow> nat \<Rightarrow> nat \<Rightarrow> mon_db \<Rightarrow> ms_error option" where
  "CanAccessMonitor down u i db =
     (case mon_GetByID down i db of
        Inl e \<Rightarrow> if e = AppMonitorNotFound then Some AppMonitorNotFound else Some e
      | Inr m \<Rightarrow> if mo_user m \<noteq> u then Some AppPermissionDenied else None)"

section \<open>Monitor service\<close>

fun day_of_name :: "string \<Rightarrow> weekday" where
  "day_of_name s =
     (if s = ''Monday'' then Monday else if s = ''Tuesday'' then Tuesday
      else if s = ''Wednesday'' then Wednesday else if s = ''Thursday'' then Thursday
      else if s = ''Friday'' then Friday else if s = ''Saturday'' then Saturday
      else Sunday)"

definition parseWorkingDays :: "string list \<Rightarrow> weekday list" where
  "parseWorkingDays days = map day_of_name days"

record create_request =
  nq_user :: nat
  nq_tier :: string
  nq_name :: string
  nq_url :: string
  nq_check_type :: string
  nq_interval :: int
  nq_timeout :: int
  nq_hours_start :: string
  nq_hours_end :: string
  nq_days :: "string list"
  nq_slow :: "int option"
  nq_failure :: "int option"

definition set_hours ::
    "string \<Rightarrow> string \<Rightarrow> string list \<Rightarrow> monitor \<Rightarrow> ms_error + monitor" where
  "set_hours start en days m =
     (case NewWorkingHours start en (parseWorkingDays days) of
        Inl e \<Rightarrow> Inl (InvalidHours e)
      | Inr wh \<Rightarrow>
          (let (s, e) = GetStartEndTime (Some wh)
           in Inr (m\<lparr>mo_hours_start := s, mo_hours_end := e, mo_days := parseWorkingDays days\<rparr>)))"

text \<open>The optional fields of the request, in the order of the code.\<close>

definition create_options :: "create_request \<Rightarrow> monitor \<Rightarrow> ms_error + monitor" where
  "create_options rq m =
     (if 0 < nq_timeout rq \<and> nq_interval rq \<le> nq_timeout rq then Inl TimeoutNotLess
      else
        let m1 = (if 0 < nq_timeout rq then m\<lparr>mo_timeout := nq_timeout rq\<rparr> else m);
            m2 = (if nq_check_type rq \<noteq> [] then m1\<lparr>mo_check_type := nq_check_type rq\<rparr> else m1)
        in case (if nq_hours_start rq \<noteq> [] \<and> nq_hours_end rq \<noteq> []
                 then set_hours (nq_hours_start rq) (nq_hours_end rq) (nq_days rq) m2 else Inr m2) of
             Inl e \<Rightarrow> Inl e
           | Inr m3 \<Rightarrow>
               let m4 = (if nq_slow rq = None then m3 else m3\<lparr>mo_slow_threshold := nq_slow rq\<rparr>)
               in Inr (if nq_failure rq = None then m4 else m4\<lparr>mo_failure_threshold := nq_failure rq\<rparr>))"

definition CreateMonitor ::
    "mon_faults \<Rightarrow> time \<Rightarrow> nat \<Rightarrow> create_request \<Rightarrow> mon_db \<Rightarrow> ((ms_error + monitor) \<times> mon_db) outcome" where
  "CreateMonitor down now i rq db =
     (case mon_ExistsByName down (nq_user rq) (nq_name rq) db of
        Inl e \<Rightarrow> Returns (Inl e, db)
      | Inr True \<Rightarrow> Returns (Inl AlreadyExists, db)
      | Inr False \<Rightarrow>
          (case CanCreateMonitor down (nq_user rq) (nq_tier rq) db of
             Some e \<Rightarrow> Returns (Inl e, db)
           | None \<Rightarrow>
               (case NewMonitor i now (nq_user rq) (nq_name rq) (nq_url rq) (nq_interval rq) of
                  Panics \<Rightarrow> Panics
                | Returns (Inl e) \<Rightarrow> Returns (Inl (InvalidMonitor e), db)
                | Returns (Inr m0) \<Rightarrow>
                    (case create_options rq m0 of
                       Inl e \<Rightarrow> Returns (Inl e, db)
                     | Inr m \<Rightarrow>
                         (case mon_Create down m db of
                            Inl e \<Rightarrow> Returns (Inl e, db)
                          | Inr db' \<Rightarrow> Returns (Inr m, mon_audit down ''monitor.create'' i db'))))))"

definition GetMonitor :: "mon_faults \<Rightarrow> nat \<Rightarrow> nat \<Rightarrow> mon_db \<Rightarrow> ms_error + monitor" where
  "GetMonitor down i u db =
     (case CanAccessMonitor down u i db of Some e \<Rightarrow> Inl e | None \<Rightarrow> mon_GetByID down i db)"

record update_request =
  uq_id :: nat
  uq_user :: nat
  uq_name :: "string option"
  uq_url :: "string option"
  uq_interval :: "int option"
  uq_timeout :: "int option"
  uq_hours_start :: "string option"
  uq_hours_end :: "string option"
  uq_days :: "string list"
  uq_slow :: "int option"
  uq_failure :: "int option"

definition apply_update :: "update_request \<Rightarrow> monitor \<Rightarrow> ms_error + monitor" where
  "apply_update rq m =
     (let m1 = (case uq_name rq of None \<Rightarrow> m | Some n \<Rightarrow> m\<lparr>mo_name := n\<rparr>);
          m2 = (case uq_url rq of None \<Rightarrow> m1 | Some v \<Rightarrow> m1\<lparr>mo_url := v\<rparr>);
          m3 = (case uq_interval rq of None \<Rightarrow> m2 | Some v \<Rightarrow> m2\<lparr>mo_interval := v\<rparr>);
          m4 = (case uq_timeout rq of None \<Rightarrow> m3 | Some v \<Rightarrow> m3\<lparr>mo_timeout := v\<rparr>)
      in case (case (uq_hours_start rq, uq_hours_end rq) of
                 (Some a, Some b) \<Rightarrow> set_hours a b (uq_days rq) m4 | _ \<Rightarrow> Inr m4) of
           Inl e \<Rightarrow> Inl e
         | Inr m5 \<Rightarrow>
             let m6 = (if uq_slow rq = None then m5 else m5\<lparr>mo_slow_threshold := uq_slow rq\<rparr>)
             in Inr (if uq_failure rq = None then m6 else m6\<lparr>mo_failure_threshold := uq_failure rq\<rparr>))"

definition UpdateMonitor ::
    "mon_faults \<Rightarrow> update_request \<Rightarrow> mon_db \<Rightarrow> (ms_error + monitor) \<times> mon_db" where
  "UpdateMonitor down rq db =
     (case CanAccessMonitor down (uq_user rq) (uq_id rq) db of
        Some e \<Rightarrow> (Inl e, db)
      | None \<Rightarrow>
          (case mon_GetByID down (uq_id rq) db of
             Inl e \<Rightarrow> (Inl e, db)
           | Inr m \<Rightarrow>
               (case apply_update rq m of
                  Inl e \<Rightarrow> (Inl e, db)
                | Inr m' \<Rightarrow>
                    (case mon_Update down m' db of
                       Inl e \<Rightarrow> (Inl e, db)
                     | Inr db' \<Rightarrow> (Inr m', mon_audit down ''monitor.update'' (mo_id m) db')))))"

definition DeleteMonitor ::
    "mon_faults \<Rightarrow> nat \<Rightarrow> nat \<Rightarrow> mon_db \<Rightarrow> ms_error option \<times> mon_db" where
  "DeleteMonitor down i u db =
     (case CanAccessMonitor down u i db of
        Some e \<Rightarrow> (Some e, db)
      | None \<Rightarrow>
          (case mon_GetByID down i db of
             Inl e \<Rightarrow> (Some e, db)
           | Inr m \<Rightarrow>
               (case mon_Delete down i db of
                  Inl e \<Rightarrow> (Some e, db)
                | Inr db' \<Rightarrow> (None, mon_audit down ''monitor.delete'' (mo_id m) db'))))"

text \<open>\<open>PauseMonitor\<close> and \<open>ResumeMonitor\<close> differ in the new status and the action.\<close>

definition change_status ::
    "monitor_status \<Rightarrow> string \<Rightarrow> mon_faults \<Rightarrow> time \<Rightarrow> nat \<Rightarrow> nat \<Rightarrow> mon_db \<Rightarrow> ms_error option \<times> mon_db" where
  "change_status st action down now i u db =
     (case CanAccessMonitor down u i db of
        Some e \<Rightarrow> (Some e, db)
      | None \<Rightarrow>
          (case mon_GetByID down i db of
             Inl e \<Rightarrow> (Some e, db)
           | Inr m \<Rightarrow>
               (case UpdateStatus now st m of
                  Inl e \<Rightarrow> (Some (InvalidMonitor e), db)
                | Inr m' \<Rightarrow>
                    (case mon_Update down m' db of
                       Inl e \<Rightarrow> (Some e, db)
                     | Inr db' \<Rightarrow> (None, mon_audit down action (mo_id m) db')))))"

definition PauseMonitor ::
    "mon_faults \<Rightarrow> time \<Rightarrow> nat \<Rightarrow> nat \<Rightarrow> mon_db \<Rightarrow> ms_error option \<times> mon_db" where
  "PauseMonitor down now i u db = change_status StatusPaused ''monitor.pause'' down now i u db"

definition ResumeMonitor ::
    "mon_faults \<Rightarrow> time \<Rightarrow> nat \<Rightarrow> nat \<Rightarrow> mon_db \<Rightarrow> ms_error option \<times> mon_db" where
  "ResumeMonitor down now i u db = change_status StatusUp ''monitor.resume'' down now i u db"

section \<open>Incident detector\<close>

definition createIncident ::
    "mon_faults \<Rightarrow> time \<Rightarrow> nat \<Rightarrow> nat \<Rightarrow> mon_db \<Rightarrow> ms_error option \<times> mon_db" where
  "createIncident down now i m db =
     (case inc_GetActive down m db of
        Inl e \<Rightarrow> (Some e, db)
      | Inr xs \<Rightarrow>
          if xs \<noteq> [] then (None, db)
          else case inc_Create down (NewIncident i now m) db of
            Inl e \<Rightarrow> (Some e, db)
          | Inr db' \<Rightarrow> (None, db'))"

primrec resolve_loop ::
    "mon_faults \<Rightarrow> time \<Rightarrow> incident list \<Rightarrow> mon_db \<Rightarrow> ms_error option \<times> mon_db" where
  "resolve_loop down t [] db = (None, db)"
| "resolve_loop down t (x # xs) db =
     (case inc_Resolve down (in_id x) t db of
        Inl e \<Rightarrow> (Some e, db)
      | Inr db' \<Rightarrow> resolve_loop down t xs db')"

definition resolveIncidents ::
    "mon_faults \<Rightarrow> time \<Rightarrow> nat \<Rightarrow> mon_db \<Rightarrow> ms_error option \<times> mon_db" where
  "resolveIncidents down now m db =
     (case inc_GetActive down m db of
        Inl e \<Rightarrow> (Some e, db)
      | Inr xs \<Rightarrow> resolve_loop down now xs db)"

text \<open>The detector's \<open>resolveThreshold\<close> is stored and never read, so it is no argument here.\<close>

definition HandleStatusChange ::
    "mon_faults \<Rightarrow> time \<Rightarrow> nat \<Rightarrow> nat \<Rightarrow> monitor_status \<Rightarrow> monitor_status \<Rightarrow> mon_db \<Rightarrow>
     ms_error option \<times> mon_db" where
  "HandleStatusChange down now i m old new db =
     (if new = StatusDown \<and> old \<noteq> StatusDown then createIncident down now i m db
      else if old = StatusDown \<and> new \<noteq> StatusDown then resolveIncidents down now m db
      else (None, db))"

section \<open>Check executor\<close>

record executor_config =
  ec_recent :: nat
  ec_slow :: int
  ec_failure_rate :: int
  ec_max_body :: int
  ec_4xx_down :: bool
  ec_retries :: int
  ec_retry_delay :: duration

definition NewExecutorConfig :: "executor_config \<Rightarrow> executor_config" where
  "NewExecutorConfig c =
     (let c1 = (if ec_max_body c = 0 then c\<lparr>ec_max_body := 10 * 1024 * 1024\<rparr> else c);
          c2 = (if ec_retries c1 = 0 then c1\<lparr>ec_retries := 3\<rparr> else c1)
      in if ec_retry_delay c2 = 0 then c2\<lparr>ec_retry_delay := minute\<rparr> else c2)"

text \<open>A failed request, as \<open>errors.As\<close> and \<open>err.Error()\<close> show it; \<open>bad_request\<close> is a URL
  from which no request can be built.\<close>

record net_error =
  ne_bad_request :: bool
  ne_dns :: bool
  ne_tls :: bool
  ne_dial :: bool
  ne_text :: string

record net_reply =
  nr_code :: int
  nr_ms :: int
  nr_length :: int

definition createErrorResult ::
    "nat \<Rightarrow> time \<Rightarrow> nat \<Rightarrow> string \<Rightarrow> check_error_code \<Rightarrow> check_result" where
  "createErrorResult i now m text code =
     (NewCheckResult i now m StatusDown)\<lparr>re_message := Some text, re_error := Some code\<rparr>"

definition classify_network_code :: "net_error \<Rightarrow> check_error_code" where
  "classify_network_code e =
     (if ne_dns e then DNSResolutionFailed
      else if ne_tls e then SSLCertificateExpired
      else if ne_dial e then ConnectionTimeout
      else if sublist ''stopped after 10 redirects'' (ne_text e) then TooManyRedirects
      else if sublist ''timeout'' (ne_text e) then ConnectionTimeout
      else NetworkError)"

definition classifyNetworkError :: "nat \<Rightarrow> time \<Rightarrow> nat \<Rightarrow> net_error \<Rightarrow> check_result" where
  "classifyNetworkError i now m e = createErrorResult i now m (ne_text e) (classify_network_code e)"

definition effective_slow :: "executor_config \<Rightarrow> monitor \<Rightarrow> int" where
  "effective_slow c m =
     (let t = fst (GetDegradedThresholds m) in if t = 0 then ec_slow c else t)"

definition effective_rate :: "executor_config \<Rightarrow> monitor \<Rightarrow> int" where
  "effective_rate c m =
     (let t = snd (GetDegradedThresholds m) in if t = 0 then ec_failure_rate c else t)"

definition determineStatus ::
    "mon_faults \<Rightarrow> executor_config \<Rightarrow> monitor \<Rightarrow> int \<Rightarrow> mon_db \<Rightarrow> monitor_status" where
  "determineStatus down c m ms db =
     (let slow = effective_slow c m < ms;
          failing = (case res_GetLatest down (mo_id m) (ec_recent c) db of
            Inl e \<Rightarrow> False
          | Inr rs \<Rightarrow> rs \<noteq> [] \<and> fl64 (of_int (effective_rate c m)) < CalculateFailureRate rs)
      in if slow \<or> failing then StatusDegraded else StatusUp)"

definition slow_message :: "int \<Rightarrow> int \<Rightarrow> string" where
  "slow_message ms limit = ''response time exceeded threshold ('' @ show_int ms @ ''ms > '' @
     show_int limit @ ''ms)''"

definition enrichDegradedResult ::
    "executor_config \<Rightarrow> monitor \<Rightarrow> int \<Rightarrow> check_result \<Rightarrow> check_result" where
  "enrichDegradedResult c m ms r =
     (if effective_slow c m < ms then
        r\<lparr>re_message := Some (slow_message ms (effective_slow c m)),
          re_error := Some DegradedSlowResponse\<rparr>
      else r)"

definition executeHTTPCheck ::
    "mon_faults \<Rightarrow> executor_config \<Rightarrow> nat \<Rightarrow> time \<Rightarrow> net_error + net_reply \<Rightarrow> monitor \<Rightarrow> mon_db \<Rightarrow>
     check_result" where
  "executeHTTPCheck down c i now http m db =
     (case http of
        Inl e \<Rightarrow>
          if ne_bad_request e then createErrorResult i now (mo_id m) (ne_text e) NetworkError
          else classifyNetworkError i now (mo_id m) e
      | Inr rep \<Rightarrow>
          (let r = (NewCheckResult i now (mo_id m) StatusUp)\<lparr>re_ms := Some (nr_ms rep),
                 re_code := Some (nr_code rep)\<rparr>
           in if 500 \<le> nr_code rep then
                r\<lparr>re_status := StatusDown, re_message := Some (''server error: '' @ show_int (nr_code rep)),
                  re_error := Some ServerError\<rparr>
              else if 400 \<le> nr_code rep then
                (if ec_4xx_down c then
                   r\<lparr>re_status := StatusDown,
                     re_message := Some (''client error: '' @ show_int (nr_code rep)),
                     re_error := Some ClientError\<rparr>
                 else r)
              else if ec_max_body c < nr_length rep then
                r\<lparr>re_status := StatusDown,
                  re_message := Some (''response body too large: '' @ show_int (nr_length rep) @
                    '' bytes (max '' @ show_int (ec_max_body c) @ '')''),
                  re_error := Some ResponseTooLarge\<rparr>
              else
                let st = determineStatus down c m (nr_ms rep) db; r' = r\<lparr>re_status := st\<rparr>
                in if st = StatusDegraded then enrichDegradedResult c m (nr_ms rep) r' else r'))"

text \<open>
  \<open>http k\<close> answers the request number \<open>k\<close>, \<open>cancelled k\<close> says whether \<open>ctx\<close> is done during
  the wait before it. The result is the last check result, whether the wait was cut short, and
  how many requests were made.
\<close>

function retry_check ::
    "mon_faults \<Rightarrow> executor_config \<Rightarrow> nat \<Rightarrow> time \<Rightarrow> (nat \<Rightarrow> net_error + net_reply) \<Rightarrow> (nat \<Rightarrow> bool) \<Rightarrow>
     monitor \<Rightarrow> mon_db \<Rightarrow> nat \<Rightarrow> check_result \<Rightarrow> check_result \<times> bool \<times> nat" where
  "retry_check down c i now http cancelled m db retry r =
     (if int retry < ec_retries c \<and> IsFailure r then
        if cancelled (Suc retry) then (r, True, Suc retry)
        else retry_check down c i now http cancelled m db (Suc retry)
               (executeHTTPCheck down c i now (http (Suc retry)) m db)
      else (r, False, Suc retry))"
  by pat_completeness auto
termination
  by (relation "measure (\<lambda>(down, c, i, now, http, cancelled, m, db, retry, r).
        nat (ec_retries c - int retry))") auto

declare retry_check.simps [simp del]

text \<open>\<open>RetryBaseDelay * (1 << retry)\<close>.\<close>

definition retry_wait :: "executor_config \<Rightarrow> nat \<Rightarrow> duration" where
  "retry_wait c retry = ec_retry_delay c * 2 ^ retry"

text \<open>Saving the result; neither the monitor's update nor the audit entry may fail the check.\<close>

definition save_check ::
    "mon_faults \<Rightarrow> time \<Rightarrow> monitor \<Rightarrow> check_result \<Rightarrow> mon_db \<Rightarrow> (ms_error + check_result) \<times> mon_db" where
  "save_check down now m r db =
     (case res_Create down r db of
        Inl e \<Rightarrow> (Inl e, db)
      | Inr db1 \<Rightarrow>
          (let db2 = (case mon_Update down (UpdateLastCheck now m) db1 of Inl e \<Rightarrow> db1 | Inr d \<Rightarrow> d)
           in (Inr r, mon_audit down
                 (if IsFailure r then ''check_failed'' else ''check_completed'') (mo_id m) db2)))"

text \<open>
  \<open>windows\<close> is what the maintenance repository answers: \<open>None\<close> where there is no repository,
  \<open>Some None\<close> an error, \<open>Some (Some n)\<close> the number of active windows of the monitor.
\<close>

definition mon_ExecuteCheck ::
    "mon_faults \<Rightarrow> executor_config \<Rightarrow> duration \<Rightarrow> nat \<Rightarrow> time \<Rightarrow> (nat \<Rightarrow> net_error + net_reply) \<Rightarrow>
     (nat \<Rightarrow> bool) \<Rightarrow> nat option option \<Rightarrow> nat \<Rightarrow> mon_db \<Rightarrow> (ms_error + check_result) \<times> mon_db" where
  "mon_ExecuteCheck down c off i now http cancelled windows mid db =
     (case mon_GetByID down mid db of
        Inl e \<Rightarrow> (Inl e, db)
      | Inr m \<Rightarrow>
          if \<not> IsActive (mo_status m) then (Inl MonitorPaused, db)
          else if \<not> ShouldCheckNow off now m then (Inl OutsideWorkingHours, db)
          else if (case windows of Some (Some n) \<Rightarrow> 0 < n | _ \<Rightarrow> False) then
            (Inr ((NewCheckResult i now mid StatusPaused)\<lparr>re_error := Some CheckSkippedMaintenance\<rparr>), db)
          else
            (case retry_check down c i now http cancelled m db 0
                    (executeHTTPCheck down c i now (http 0) m db) of
               (r, True, n) \<Rightarrow> (Inr r, db)
             | (r, False, n) \<Rightarrow> save_check down now m r db))"

section \<open>Scheduler\<close>

type_synonym status_event = "nat \<times> monitor_status \<times> monitor_status"

text \<open>The outside world of one check: result id, clock, network, cancellation, windows.\<close>

record check_env =
  ce_id :: nat
  ce_now :: time
  ce_http :: "nat \<Rightarrow> net_error + net_reply"
  ce_cancelled :: "nat \<Rightarrow> bool"
  ce_windows :: "nat option option"

definition mon_executeCheck ::
    "mon_faults \<Rightarrow> executor_config \<Rightarrow> duration \<Rightarrow> check_env \<Rightarrow> monitor \<Rightarrow> mon_db \<Rightarrow>
     status_event list \<times> mon_db" where
  "mon_executeCheck down c off ce m db =
     (case mon_ExecuteCheck down c off (ce_id ce) (ce_now ce) (ce_http ce) (ce_cancelled ce)
             (ce_windows ce) (mo_id m) db of
        (Inl e, db1) \<Rightarrow> ([], db1)
      | (Inr r, db1) \<Rightarrow>
          if re_status r \<noteq> mo_status m then
            ([(mo_id m, mo_status m, re_status r)],
             (case mon_UpdateStatus down (ce_now ce) (mo_id m) (re_status r) db1 of
                Inl e \<Rightarrow> db1 | Inr db2 \<Rightarrow> db2))
          else ([], db1))"

primrec batch_loop ::
    "mon_faults \<Rightarrow> executor_config \<Rightarrow> duration \<Rightarrow> (nat \<Rightarrow> check_env) \<Rightarrow> monitor list \<Rightarrow> mon_db \<Rightarrow>
     status_event list \<times> mon_db" where
  "batch_loop down c off env [] db = ([], db)"
| "batch_loop down c off env (m # ms) db =
     (let (ev, db1) = mon_executeCheck down c off (env (mo_id m)) m db;
          (evs, db2) = batch_loop down c off env ms db1
      in (ev @ evs, db2))"

definition scheduleBatch ::
    "mon_faults \<Rightarrow> executor_config \<Rightarrow> duration \<Rightarrow> nat \<Rightarrow> time \<Rightarrow> (nat \<Rightarrow> check_env) \<Rightarrow> mon_db \<Rightarrow>
     status_event list \<times> mon_db" where
  "scheduleBatch down c off limit now env db =
     (case mon_ListDueForCheck down now limit db of
        Inl e \<Rightarrow> ([], db)
      | Inr ms \<Rightarrow> batch_loop down c off env ms db)"

definition mon_ScheduleCheck ::
    "mon_faults \<Rightarrow> executor_config \<Rightarrow> duration \<Rightarrow> time \<Rightarrow> check_env \<Rightarrow> nat \<Rightarrow> mon_db \<Rightarrow>
     ms_error option \<times> status_event list \<times> mon_db" where
  "mon_ScheduleCheck down c off now ce mid db =
     (case mon_GetByID down mid db of
        Inl e \<Rightarrow> (Some e, [], db)
      | Inr m \<Rightarrow>
          if \<not> ShouldCheckNow off now m then (Some OutsideWorkingHours, [], db)
          else (None, mon_executeCheck down c off ce m db))"

section \<open>A paused row stays as it is\<close>

definition rows_of :: "nat \<Rightarrow> mon_db \<Rightarrow> monitor list" where
  "rows_of i db = filter (\<lambda>r. mo_id r = i) (md_monitors db)"

definition results_of :: "nat \<Rightarrow> mon_db \<Rightarrow> check_result list" where
  "results_of i db = filter (\<lambda>r. re_monitor r = i) (md_results db)"

definition same_for :: "nat \<Rightarrow> mon_db \<Rightarrow> mon_db \<Rightarrow> bool" where
  "same_for i db db' \<longleftrightarrow> rows_of i db' = rows_of i db \<and> results_of i db' = results_of i db"

lemma same_for_refl [simp, intro]: "same_for i db db"
  by (simp add: same_for_def)

lemma same_for_trans: "same_for i db db1 \<Longrightarrow> same_for i db1 db2 \<Longrightarrow> same_for i db db2"
  by (simp add: same_for_def)

lemma filter_upd_where_other:
  "(\<And>r. r \<in> set rs \<Longrightarrow> p r \<Longrightarrow> \<not> q r \<and> \<not> q (f r)) \<Longrightarrow>
     filter q (upd_where p f rs) = filter q rs"
  by (induction rs) (auto simp: table_simps)

lemma same_for_audit [simp]: "same_for i db (mon_audit down a j db)"
  by (simp add: same_for_def mon_audit_def rows_of_def results_of_def)

lemma set_monitor_columns_id [simp]:
  "mo_id (set_monitor_columns m r) = mo_id r" "mo_user (set_monitor_columns m r) = mo_user r"
  "mo_status (set_monitor_columns m r) = mo_status m" "mo_name (set_monitor_columns m r) = mo_name m"
  by (simp_all add: set_monitor_columns_def)

lemma same_for_Update: "mon_Update down m db = Inr db' \<Longrightarrow> mo_id m \<noteq> i \<Longrightarrow> same_for i db db'"
  by (auto simp: mon_Update_def same_for_def rows_of_def results_of_def
      split: option.splits if_splits intro!: filter_upd_where_other)

lemma same_for_UpdateStatus:
  "mon_UpdateStatus down now j st db = Inr db' \<Longrightarrow> j \<noteq> i \<Longrightarrow> same_for i db db'"
  by (auto simp: mon_UpdateStatus_def same_for_def rows_of_def results_of_def
      split: if_splits intro!: filter_upd_where_other)

lemma same_for_res_Create: "res_Create down r db = Inr db' \<Longrightarrow> re_monitor r \<noteq> i \<Longrightarrow> same_for i db db'"
  by (auto simp: res_Create_def same_for_def rows_of_def results_of_def split: if_splits)

lemma executeHTTPCheck_monitor [simp]:
  "re_monitor (executeHTTPCheck down c j now http m db) = mo_id m"
  by (simp add: executeHTTPCheck_def classifyNetworkError_def createErrorResult_def
      NewCheckResult_def enrichDegradedResult_def Let_def split: sum.split)

lemma retry_check_monitor:
  "re_monitor r = mo_id m \<Longrightarrow>
     re_monitor (fst (retry_check down c j now http cancelled m db k r)) = mo_id m"
proof (induction down c j now http cancelled m db k r rule: retry_check.induct)
  case (1 down c j now http cancelled m db k r)
  then show ?case by (subst retry_check.simps) simp
qed

lemma GetByID_SomeD: "mon_GetByID down j db = Inr m \<Longrightarrow> m \<in> set (md_monitors db) \<and> mo_id m = j"
  by (auto simp: mon_GetByID_def split: if_splits option.splits dest: find_Some_inD)

lemma UpdateLastCheck_id [simp]: "mo_id (UpdateLastCheck now m) = mo_id m"
  by (simp add: UpdateLastCheck_def)

lemma same_for_save_check:
  assumes "re_monitor r \<noteq> i" and "mo_id m \<noteq> i"
  shows "same_for i db (snd (save_check down now m r db))"
proof (cases "res_Create down r db")
  case (Inl e)
  then show ?thesis by (simp add: save_check_def)
next
  case (Inr db1)
  let ?db2 = "case mon_Update down (UpdateLastCheck now m) db1 of Inl e \<Rightarrow> db1 | Inr d \<Rightarrow> d"
  have "same_for i db1 ?db2"
    using assms(2) by (auto split: sum.split intro: same_for_Update)
  with same_for_res_Create [OF Inr assms(1)] have "same_for i db ?db2"
    by (rule same_for_trans)
  from same_for_trans [OF this same_for_audit] Inr show ?thesis
    by (simp add: save_check_def)
qed

lemma same_for_ExecuteCheck:
  assumes "j \<noteq> i"
  shows "same_for i db (snd (mon_ExecuteCheck down c off k now http cancelled windows j db))"
proof (cases "mon_GetByID down j db")
  case (Inl e)
  then show ?thesis by (simp add: mon_ExecuteCheck_def)
next
  case (Inr m)
  have m: "mo_id m = j" using GetByID_SomeD [OF Inr] by simp
  obtain r b n where rc: "retry_check down c k now http cancelled m db 0
      (executeHTTPCheck down c k now (http 0) m db) = (r, b, n)"
    by (rule prod_cases3)
  have "re_monitor r = mo_id m"
    using retry_check_monitor [of "executeHTTPCheck down c k now (http 0) m db" m down c k now http
        cancelled db 0] rc by simp
  with same_for_save_check [of r i m db down now] assms m Inr rc show ?thesis
    by (cases b) (auto simp: mon_ExecuteCheck_def)
qed

lemma same_for_executeCheck:
  assumes "mo_id m \<noteq> i"
  shows "same_for i db (snd (mon_executeCheck down c off ce m db))"
  using same_for_ExecuteCheck [OF assms, of db down c off "ce_id ce" "ce_now ce" "ce_http ce"
      "ce_cancelled ce" "ce_windows ce"]
    same_for_UpdateStatus [OF _ assms, of down "ce_now ce"] same_for_trans
  by (auto simp: mon_executeCheck_def split: prod.split sum.splits)

lemma same_for_batch_loop:
  "\<forall>m \<in> set ms. mo_id m \<noteq> i \<Longrightarrow> same_for i db (snd (batch_loop down c off env ms db))"
proof (induction ms arbitrary: db)
  case Nil
  then show ?case by simp
next
  case (Cons m ms)
  have "same_for i db (snd (mon_executeCheck down c off (env (mo_id m)) m db))"
    using Cons.prems by (intro same_for_executeCheck) simp
  from same_for_trans [OF this Cons.IH] Cons.prems show ?case by (simp add: case_prod_beta)
qed

definition all_paused :: "nat \<Rightarrow> mon_db \<Rightarrow> bool" where
  "all_paused i db \<longleftrightarrow> rows_of i db \<noteq> [] \<and> (\<forall>r \<in> set (rows_of i db). mo_status r = StatusPaused)"

lemma paused_not_due:
  assumes "all_paused i db" and "mon_ListDueForCheck down now limit db = Inr ms"
  shows "\<forall>m \<in> set ms. mo_id m \<noteq> i"
proof
  fix m assume "m \<in> set ms"
  then have "m \<in> set (md_monitors db) \<and> due_row now m"
    using assms(2) by (auto simp: mon_ListDueForCheck_def Let_def split: if_splits dest!: in_set_takeD)
  then show "mo_id m \<noteq> i" using assms(1) by (auto simp: all_paused_def rows_of_def due_row_def)
qed

lemma same_for_scheduleBatch:
  "all_paused i db \<Longrightarrow> same_for i db (snd (scheduleBatch down c off limit now env db))"
  by (auto simp: scheduleBatch_def same_for_batch_loop paused_not_due split: sum.split)

definition run_batches ::
    "executor_config \<Rightarrow> duration \<Rightarrow> (mon_faults \<times> nat \<times> time \<times> (nat \<Rightarrow> check_env)) list \<Rightarrow> mon_db \<Rightarrow> mon_db" where
  "run_batches c off bs db =
     fold (\<lambda>(down, limit, now, env) d. snd (scheduleBatch down c off limit now env d)) bs db"

lemma run_batches_Cons: "run_batches c off ((down, limit, now, env) # bs) db =
    run_batches c off bs (snd (scheduleBatch down c off limit now env db))"
  by (simp add: run_batches_def)

lemma same_for_run_batches: "all_paused i db \<Longrightarrow> same_for i db (run_batches c off bs db)"
proof (induction bs arbitrary: db)
  case Nil
  then show ?case by (simp add: run_batches_def)
next
  case (Cons b bs)
  obtain down limit now env where b: "b = (down, limit, now, env)" by (cases b) auto
  let ?db1 = "snd (scheduleBatch down c off limit now env db)"
  have s: "same_for i db ?db1" by (rule same_for_scheduleBatch [OF Cons.prems])
  then have "all_paused i ?db1" using Cons.prems by (simp add: same_for_def all_paused_def)
  from same_for_trans [OF s Cons.IH [OF this]] show ?case by (simp add: b run_batches_Cons)
qed

lemma find_distinct_id:
  "distinct (map mo_id ms) \<Longrightarrow> m \<in> set ms \<Longrightarrow> List.find (\<lambda>r. mo_id r = mo_id m) ms = Some m"
  by (induction ms) (auto simp: image_iff)

lemma maintenance_check_pauses:
  assumes "distinct (map mo_id (md_monitors db))" and "m \<in> set (md_monitors db)"
    and "mo_status m \<noteq> StatusPaused" and "ShouldCheckNow off (ce_now ce) m"
    and "ce_windows ce = Some (Some n)" and "0 < n"
    and "\<not> down (MonGet (mo_id m))" and "\<not> down (MonUpdateStatus (mo_id m))"
  shows "all_paused (mo_id m) (snd (mon_executeCheck down c off ce m db))"
    and "results_of (mo_id m) (snd (mon_executeCheck down c off ce m db)) = results_of (mo_id m) db"
proof -
  let ?f = "\<lambda>r. r\<lparr>mo_status := StatusPaused, mo_updated := ce_now ce\<rparr>"
  have get: "mon_GetByID down (mo_id m) db = Inr m"
    using assms(7) find_distinct_id [OF assms(1,2)] by (simp add: mon_GetByID_def)
  have ex: "list_ex (\<lambda>r. mo_id r = mo_id m) (md_monitors db)"
    using assms(2) by (auto simp: list_ex_iff)
  have db': "snd (mon_executeCheck down c off ce m db) =
      db\<lparr>md_monitors := upd_where (\<lambda>r. mo_id r = mo_id m) ?f (md_monitors db)\<rparr>"
    using get ex assms(3-8)
    by (simp add: mon_executeCheck_def mon_ExecuteCheck_def IsActive_def NewCheckResult_def
        mon_UpdateStatus_def)
  show "all_paused (mo_id m) (snd (mon_executeCheck down c off ce m db))"
  proof -
    have "filter (\<lambda>r. mo_id r = mo_id m) (upd_where (\<lambda>r. mo_id r = mo_id m) ?f rs) =
        map ?f (filter (\<lambda>r. mo_id r = mo_id m) rs)" for rs
      by (induction rs) (auto simp: table_simps)
    then have "rows_of (mo_id m) (snd (mon_executeCheck down c off ce m db)) =
        map ?f (rows_of (mo_id m) db)" by (simp add: db' rows_of_def)
    moreover have "rows_of (mo_id m) db \<noteq> []"
      using assms(2) by (auto simp: rows_of_def filter_empty_conv)
    ultimately show ?thesis by (simp add: all_paused_def)
  qed
  show "results_of (mo_id m) (snd (mon_executeCheck down c off ce m db)) = results_of (mo_id m) db"
    by (simp add: db' results_of_def)
qed

text \<open>
  Property C3. A maintenance window pauses a monitor for good: the skipped check returns the
  status \<open>PAUSED\<close>, the scheduler stores it as the monitor's own status, and from then on the
  monitor is neither due nor checked by any later batch, whatever its environment and however
  long after the window's end.
\<close>

theorem maintenance_pauses_for_good:
  assumes "distinct (map mo_id (md_monitors db))" and "m \<in> set (md_monitors db)"
    and "mo_status m \<noteq> StatusPaused" and "ShouldCheckNow off (ce_now ce) m"
    and "ce_windows ce = Some (Some n)" and "0 < n"
    and "\<not> down (MonGet (mo_id m))" and "\<not> down (MonUpdateStatus (mo_id m))"
  shows "let db' = run_batches c off bs (snd (mon_executeCheck down c off ce m db))
    in all_paused (mo_id m) db' \<and> results_of (mo_id m) db' = results_of (mo_id m) db"
proof -
  note p = maintenance_check_pauses [of db m off ce n down c, OF assms]
  have "same_for (mo_id m) (snd (mon_executeCheck down c off ce m db))
      (run_batches c off bs (snd (mon_executeCheck down c off ce m db)))"
    by (rule same_for_run_batches [OF p(1)])
  with p show ?thesis by (simp add: same_for_def all_paused_def Let_def)
qed

definition demo_config :: executor_config where
  "demo_config = \<lparr>ec_recent = 10, ec_slow = 1000, ec_failure_rate = 50, ec_max_body = 1000,
     ec_4xx_down = False, ec_retries = 3, ec_retry_delay = minute\<rparr>"

definition free_monitor :: monitor where
  "free_monitor = demo_monitor\<lparr>mo_hours_start := None, mo_hours_end := None\<rparr>"

definition demo_mon_db :: mon_db where
  "demo_mon_db = \<lparr>md_monitors = [free_monitor], md_results = [], md_incidents = [], md_audit = []\<rparr>"

definition demo_env :: check_env where
  "demo_env = \<lparr>ce_id = 1, ce_now = 0, ce_http = (\<lambda>k. Inr \<lparr>nr_code = 200, nr_ms = 5, nr_length = 9\<rparr>),
     ce_cancelled = (\<lambda>k. False), ce_windows = Some (Some 1)\<rparr>"

theorem maintenance_pauses_for_good_witness:
  "all_paused 7 (run_batches demo_config 0 [(\<lambda>_. False, 10, 5 * day_ns, \<lambda>_. demo_env)]
     (snd (mon_executeCheck (\<lambda>_. False) demo_config 0 demo_env free_monitor demo_mon_db)))"
  using maintenance_pauses_for_good [of demo_mon_db free_monitor 0 demo_env 1 "\<lambda>_. False" demo_config
      "[(\<lambda>_. False, 10, 5 * day_ns, \<lambda>_. demo_env)]"]
  by (simp add: demo_mon_db_def free_monitor_def demo_monitor_def demo_env_def ShouldCheckNow_def Let_def)

section \<open>Working hours\<close>

lemma ExecuteCheck_closed:
  assumes "\<And>m. m \<in> set (rows_of i db) \<Longrightarrow> \<not> ShouldCheckNow off now m"
  shows "\<exists>e. mon_ExecuteCheck down c off k now http cancelled windows i db = (Inl e, db)"
proof (cases "mon_GetByID down i db")
  case (Inl e)
  then show ?thesis by (simp add: mon_ExecuteCheck_def)
next
  case (Inr m)
  with GetByID_SomeD [OF Inr] assms show ?thesis by (simp add: mon_ExecuteCheck_def rows_of_def)
qed

lemma executeCheck_closed:
  assumes "\<And>r. r \<in> set (rows_of (mo_id m) db) \<Longrightarrow> \<not> ShouldCheckNow off (ce_now ce) r"
  shows "mon_executeCheck down c off ce m db = ([], db)"
proof -
  obtain e where "mon_ExecuteCheck down c off (ce_id ce) (ce_now ce) (ce_http ce) (ce_cancelled ce)
      (ce_windows ce) (mo_id m) db = (Inl e, db)"
    using ExecuteCheck_closed assms by blast
  then show ?thesis by (simp add: mon_executeCheck_def)
qed

lemma ScheduleCheck_closed:
  assumes "\<And>r. r \<in> set (rows_of i db) \<Longrightarrow> \<not> ShouldCheckNow off now r"
  shows "\<exists>e. mon_ScheduleCheck down c off now ce i db = (Some e, [], db)"
proof (cases "mon_GetByID down i db")
  case (Inl e)
  then show ?thesis by (simp add: mon_ScheduleCheck_def)
next
  case (Inr m)
  with GetByID_SomeD [OF Inr] assms show ?thesis by (simp add: mon_ScheduleCheck_def rows_of_def)
qed

lemma same_for_closed_batch:
  assumes "\<And>r k. r \<in> set (rows_of i db) \<Longrightarrow> \<not> ShouldCheckNow off (ce_now (env k)) r"
  shows "same_for i db (snd (batch_loop down c off env ms db))"
  using assms
proof (induction ms arbitrary: db)
  case Nil
  then show ?case by simp
next
  case (Cons m ms)
  let ?db1 = "snd (mon_executeCheck down c off (env (mo_id m)) m db)"
  have s: "same_for i db ?db1"
  proof (cases "mo_id m = i")
    case True
    have "mon_executeCheck down c off (env (mo_id m)) m db = ([], db)"
      by (rule executeCheck_closed) (use Cons.prems True in simp)
    then show ?thesis by simp
  next
    case False
    then show ?thesis by (rule same_for_executeCheck)
  qed
  then have "same_for i ?db1 (snd (batch_loop down c off env ms ?db1))"
    by (intro Cons.IH) (use Cons.prems in \<open>simp add: same_for_def\<close>)
  from same_for_trans [OF s this] show ?case by (simp add: case_prod_beta)
qed

lemma same_for_closed_batches:
  assumes "\<And>r t. r \<in> set (rows_of i db) \<Longrightarrow> zero_time \<le> t \<Longrightarrow> \<not> ShouldCheckNow off t r"
    and "\<forall>(down, limit, now, env) \<in> set bs. \<forall>k. zero_time \<le> ce_now (env k)"
  shows "same_for i db (run_batches c off bs db)"
  using assms
proof (induction bs arbitrary: db)
  case Nil
  then show ?case by (simp add: run_batches_def)
next
  case (Cons b bs)
  obtain down limit now env where b: "b = (down, limit, now, env)" by (cases b) auto
  let ?db1 = "snd (scheduleBatch down c off limit now env db)"
  have s: "same_for i db ?db1"
    using Cons.prems b
    by (auto simp: scheduleBatch_def intro!: same_for_closed_batch split: sum.split)
  then have "same_for i ?db1 (run_batches c off bs ?db1)"
    by (intro Cons.IH) (use Cons.prems in \<open>simp_all add: same_for_def\<close>)
  from same_for_trans [OF s this] show ?case by (simp add: b run_batches_Cons)
qed

text \<open>
  Property C10. A monitor with working hours is never checked by the monitor service itself:
  the hours are stored as instants of the year 0 and \<open>ShouldCheckNow\<close> compares the current
  instant with them, date included, so from the year 1 on every instant is after the end of the
  working day. However many batches the service's scheduler runs, whatever fails in them and
  whatever the network answers, no result of the monitor is saved and its row stays as it is;
  and at any time after them a check asked for with \<open>ScheduleCheck\<close> is refused. (The scheduler
  service and the check worker do not read working hours: checks made by them are outside this.)
\<close>

theorem working_hours_disable_checks:
  assumes "NewWorkingHours a b days = Inr w" and "GetStartEndTime (Some w) = (s, e)"
    and "\<forall>m \<in> set (md_monitors db). mo_id m = i \<longrightarrow> mo_hours_start m = s \<and> mo_hours_end m = e"
    and "\<forall>(down, limit, now, env) \<in> set bs. \<forall>k. zero_time \<le> ce_now (env k)"
    and "zero_time \<le> now"
  shows "let db' = run_batches c off bs db
    in rows_of i db' = rows_of i db \<and> results_of i db' = results_of i db \<and>
      (\<exists>err. mon_ScheduleCheck down c off now ce i db' = (Some err, [], db'))"
proof -
  have closed: "\<not> ShouldCheckNow off t r" if "r \<in> set (rows_of i db)" "zero_time \<le> t" for r t
    using working_hours_closed [OF assms(1,2) _ _ that(2), of r off] that(1) assms(3)
    by (simp add: rows_of_def)
  have s: "same_for i db (run_batches c off bs db)"
    by (rule same_for_closed_batches [OF closed assms(4)])
  then have "\<exists>err. mon_ScheduleCheck down c off now ce i (run_batches c off bs db) =
      (Some err, [], run_batches c off bs db)"
    by (intro ScheduleCheck_closed) (use closed assms(5) in \<open>simp add: same_for_def\<close>)
  with s show ?thesis by (simp add: same_for_def Let_def)
qed

definition office_db :: mon_db where
  "office_db = \<lparr>md_monitors = [demo_monitor, free_monitor\<lparr>mo_id := 8\<rparr>], md_results = [],
     md_incidents = [], md_audit = []\<rparr>"

definition noon_env :: "nat \<Rightarrow> check_env" where
  "noon_env k = demo_env\<lparr>ce_now := date_time 0 20000 12 0, ce_windows := None\<rparr>"

text \<open>
  Two monitors at noon of a working day, in the middle of the first one's hours: only the one
  without working hours may be checked.
\<close>

theorem working_hours_disable_checks_witness:
  "results_of 7 (run_batches demo_config 0 [(\<lambda>_. False, 10, date_time 0 20000 12 0, noon_env)] office_db) = [] \<and>
   ShouldCheckNow 0 (date_time 0 20000 12 0) (free_monitor\<lparr>mo_id := 8\<rparr>)"
proof -
  have t: "zero_time \<le> date_time 0 20000 12 0" by (simp add: date_time_def zero_time_def)
  have "results_of 7 (run_batches demo_config 0 [(\<lambda>_. False, 10, date_time 0 20000 12 0, noon_env)] office_db) =
      results_of 7 office_db"
    using working_hours_disable_checks [OF NewWorkingHours_nine_to_six,
        of "Some (year0_time 9 0)" "Some (year0_time 18 0)" office_db 7
          "[(\<lambda>_. False, 10, date_time 0 20000 12 0, noon_env)]" "date_time 0 20000 12 0"
          demo_config 0 "\<lambda>_. False" demo_env] t
    by (simp add: GetStartEndTime_def nine_to_six_def office_db_def free_monitor_def
        demo_monitor_def noon_env_def Let_def)
  then show ?thesis
    by (simp add: results_of_def office_db_def ShouldCheckNow_def free_monitor_def demo_monitor_def)
qed

section \<open>Retries\<close>

lemma all_after_Suc:
  "int k < N \<Longrightarrow> (\<forall>j. k < j \<and> int j \<le> N \<longrightarrow> P j) \<longleftrightarrow>
     P (Suc k) \<and> (\<forall>j. Suc k < j \<and> int j \<le> N \<longrightarrow> P j)"
  by (smt (verit) Suc_lessD Suc_lessI lessI of_nat_Suc)

lemma all_from_0:
  "0 \<le> N \<Longrightarrow> (\<forall>j. int j \<le> N \<longrightarrow> P j) \<longleftrightarrow> P 0 \<and> (\<forall>j. 0 < j \<and> int j \<le> N \<longrightarrow> P j)"
proof (intro iffI allI impI)
  fix j
  assume "0 \<le> N" and all: "P 0 \<and> (\<forall>j. 0 < j \<and> int j \<le> N \<longrightarrow> P j)" and j: "int j \<le> N"
  then show "P j" by (cases "j = 0") auto
qed simp

lemma retry_check_spec:
  assumes "\<And>k. \<not> cancelled k" and "retry_check down c i now http cancelled m db k r = (r', b, n)"
  shows "\<not> b \<and> k < n \<and> n \<le> max (Suc k) (nat (ec_retries c) + 1) \<and>
    (IsFailure r' \<longleftrightarrow> IsFailure r \<and>
       (\<forall>j. k < j \<and> int j \<le> ec_retries c \<longrightarrow> IsFailure (executeHTTPCheck down c i now (http j) m db))) \<and>
    (\<not> IsFailure r \<longrightarrow> n = Suc k)"
  using assms(2)
proof (induction "nat (ec_retries c - int k)" arbitrary: k r)
  case 0
  then have "\<not> int k < ec_retries c" by simp
  with 0(2) show ?case by (subst (asm) retry_check.simps) auto
next
  case (Suc x)
  show ?case
  proof (cases "int k < ec_retries c \<and> IsFailure r")
    case True
    let ?r1 = "executeHTTPCheck down c i now (http (Suc k)) m db"
    have step: "retry_check down c i now http cancelled m db (Suc k) ?r1 = (r', b, n)"
      using Suc.prems True assms(1) by (subst (asm) retry_check.simps) simp
    have "x = nat (ec_retries c - int (Suc k))" using Suc.hyps(2) by simp
    note IH = Suc.hyps(1) [OF this step]
    have "(\<forall>j. k < j \<and> int j \<le> ec_retries c \<longrightarrow> IsFailure (executeHTTPCheck down c i now (http j) m db)) \<longleftrightarrow>
        IsFailure ?r1 \<and> (\<forall>j. Suc k < j \<and> int j \<le> ec_retries c \<longrightarrow>
          IsFailure (executeHTTPCheck down c i now (http j) m db))"
      using True by (intro all_after_Suc) simp
    with IH True show ?thesis by auto
  next
    case False
    then have "r' = r" "\<not> b" "n = Suc k"
      using Suc.prems by (subst (asm) retry_check.simps, simp)+
    with False show ?thesis using Suc.hyps(2) by auto
  qed
qed

text \<open>
  A check that is not cancelled makes at most \<open>MaxRetries + 1\<close> requests and reports
  \<open>DOWN\<close> exactly when all of them were \<open>DOWN\<close>; a first request that is not \<open>DOWN\<close> is the only
  one.
\<close>

theorem check_down_iff_all_attempts_down:
  assumes "\<And>k. \<not> cancelled k"
    and "retry_check down c i now http cancelled m db 0 (executeHTTPCheck down c i now (http 0) m db) = (r, b, n)"
    and "0 \<le> ec_retries c"
  shows "\<not> b \<and> 1 \<le> n \<and> n \<le> nat (ec_retries c) + 1 \<and>
    (IsFailure r \<longleftrightarrow> (\<forall>j. int j \<le> ec_retries c \<longrightarrow> IsFailure (executeHTTPCheck down c i now (http j) m db))) \<and>
    (\<not> IsFailure (executeHTTPCheck down c i now (http 0) m db) \<longrightarrow> n = 1)"
proof -
  let ?P = "\<lambda>j. IsFailure (executeHTTPCheck down c i now (http j) m db)"
  have split: "(\<forall>j. int j \<le> ec_retries c \<longrightarrow> ?P j) \<longleftrightarrow>
      ?P 0 \<and> (\<forall>j. 0 < j \<and> int j \<le> ec_retries c \<longrightarrow> ?P j)"
    by (rule all_from_0 [OF assms(3)])
  have spec: "\<not> b \<and> 0 < n \<and> n \<le> max (Suc 0) (nat (ec_retries c) + 1) \<and>
      (IsFailure r \<longleftrightarrow> ?P 0 \<and> (\<forall>j. 0 < j \<and> int j \<le> ec_retries c \<longrightarrow> ?P j)) \<and>
      (\<not> ?P 0 \<longrightarrow> n = Suc 0)"
    by (rule retry_check_spec [OF assms(1,2)])
  then show ?thesis unfolding split by auto
qed

theorem check_down_iff_all_attempts_down_witness:
  "\<not> IsFailure (fst (retry_check (\<lambda>_. False) demo_config 1 0
     (\<lambda>k. if k = 0 then Inr \<lparr>nr_code = 500, nr_ms = 5, nr_length = 9\<rparr> else Inr \<lparr>nr_code = 200, nr_ms = 5, nr_length = 9\<rparr>)
     (\<lambda>k. False) free_monitor demo_mon_db 0
     (executeHTTPCheck (\<lambda>_. False) demo_config 1 0 (Inr \<lparr>nr_code = 500, nr_ms = 5, nr_length = 9\<rparr>)
        free_monitor demo_mon_db)))"
proof -
  let ?http = "\<lambda>k::nat. if k = 0 then Inr \<lparr>nr_code = 500, nr_ms = 5, nr_length = 9\<rparr>
      else (Inr \<lparr>nr_code = 200, nr_ms = 5, nr_length = 9\<rparr> :: net_error + net_reply)"
  obtain r b n where rc: "retry_check (\<lambda>_. False) demo_config 1 0 ?http (\<lambda>k. False) free_monitor demo_mon_db 0
      (executeHTTPCheck (\<lambda>_. False) demo_config 1 0 (?http 0) free_monitor demo_mon_db) = (r, b, n)"
    by (rule prod_cases3)
  have ok: "\<not> IsFailure (executeHTTPCheck (\<lambda>_. False) demo_config 1 0 (?http 1) free_monitor demo_mon_db)"
    by (simp add: executeHTTPCheck_def IsFailure_def NewCheckResult_def demo_config_def determineStatus_def
        enrichDegradedResult_def Let_def)
  have "(0::int) \<le> ec_retries demo_config" "int 1 \<le> ec_retries demo_config"
    by (simp_all add: demo_config_def)
  with check_down_iff_all_attempts_down [OF _ rc] ok have "\<not> IsFailure r" by blast
  with rc show ?thesis by simp
qed

section \<open>Incidents\<close>

definition active_incidents :: "nat \<Rightarrow> mon_db \<Rightarrow> nat" where
  "active_incidents m db =
     count_where (\<lambda>x. in_monitor x = m \<and> in_status x = IncidentActive) (md_incidents db)"

lemma GetActive_Nil:
  "inc_GetActive down m db = Inr xs \<Longrightarrow> xs = [] \<longleftrightarrow> active_incidents m db = 0"
  by (auto simp: inc_GetActive_def active_incidents_def count_where_0_iff filter_empty_conv
      split: if_splits)

lemma active_incidents_Create:
  "inc_Create down (NewIncident i now m) db = Inr db' \<Longrightarrow>
     active_incidents k db' = active_incidents k db + (if k = m then 1 else 0)"
  by (auto simp: inc_Create_def active_incidents_def NewIncident_def split: if_splits)

lemma db_resolve_fields [simp]:
  "in_id (db_resolve t x) = in_id x" "in_monitor (db_resolve t x) = in_monitor x"
  "in_status (db_resolve t x) = IncidentResolved"
  by (simp_all add: db_resolve_def)

lemma active_incidents_Resolve:
  "inc_Resolve down j t db = Inr db' \<Longrightarrow> active_incidents k db' \<le> active_incidents k db"
  by (auto simp: inc_Resolve_def active_incidents_def Let_def count_where_upd_where
      split: if_splits intro!: count_where_mono)

lemma resolve_loop_le: "active_incidents k (snd (resolve_loop down t xs db)) \<le> active_incidents k db"
  by (induction xs arbitrary: db)
     (auto split: sum.split intro: order_trans active_incidents_Resolve)

lemma createIncident_le:
  "active_incidents k db \<le> 1 \<Longrightarrow> active_incidents k (snd (createIncident down now i m db)) \<le> 1"
  by (auto simp: createIncident_def active_incidents_Create GetActive_Nil split: sum.split)

lemma HandleStatusChange_le:
  "active_incidents k db \<le> 1 \<Longrightarrow>
     active_incidents k (snd (HandleStatusChange down now i m old new db)) \<le> 1"
  using createIncident_le [of k db down now i m]
  by (auto simp: HandleStatusChange_def resolveIncidents_def
      split: sum.split intro: order_trans [OF resolve_loop_le])

text \<open>
  The status changes of a monitor in the order in which they happen. Every change carries the
  statements that fail while it is handled.
\<close>

record status_change =
  sg_id :: nat
  sg_now :: time
  sg_old :: monitor_status
  sg_new :: monitor_status
  sg_down :: mon_faults

definition handle_all :: "nat \<Rightarrow> status_change list \<Rightarrow> mon_db \<Rightarrow> mon_db" where
  "handle_all m es db =
     fold (\<lambda>e d. snd (HandleStatusChange (sg_down e) (sg_now e) (sg_id e) m (sg_old e) (sg_new e) d)) es db"

fun chained :: "monitor_status \<Rightarrow> status_change list \<Rightarrow> bool" where
  "chained st [] = True"
| "chained st (e # es) = (sg_old e = st \<and> chained (sg_new e) es)"

definition final_status :: "monitor_status \<Rightarrow> status_change list \<Rightarrow> monitor_status" where
  "final_status st es = (if es = [] then st else sg_new (last es))"

definition fresh_ids :: "status_change list \<Rightarrow> mon_db \<Rightarrow> bool" where
  "fresh_ids es db \<longleftrightarrow> distinct (map sg_id es) \<and>
     sg_id ` set es \<inter> in_id ` set (md_incidents db) = {} \<and> distinct (map in_id (md_incidents db))"

lemma handle_all_le: "active_incidents k db \<le> 1 \<Longrightarrow> active_incidents k (handle_all m es db) \<le> 1"
  using HandleStatusChange_le by (induction es arbitrary: db) (auto simp: handle_all_def)

lemma resolve_loop_all:
  assumes "\<And>x. \<not> down x" and "distinct (map in_id xs)" and "distinct (map in_id (md_incidents db))"
    and "\<forall>x \<in> set xs. \<exists>y \<in> set (md_incidents db). in_id y = in_id x \<and> in_status y = IncidentActive"
  shows "md_incidents (snd (resolve_loop down t xs db)) =
      upd_where (\<lambda>y. in_id y \<in> in_id ` set xs \<and> in_status y = IncidentActive) (db_resolve t) (md_incidents db) \<and>
    md_monitors (snd (resolve_loop down t xs db)) = md_monitors db"
  using assms(2-4)
proof (induction xs arbitrary: db)
  case Nil
  then show ?case by simp
next
  case (Cons x xs)
  let ?p = "\<lambda>y. in_id y = in_id x \<and> in_status y = IncidentActive"
  let ?db1 = "db\<lparr>md_incidents := upd_where ?p (db_resolve t) (md_incidents db)\<rparr>"
  have ex: "list_ex ?p (md_incidents db)" using Cons.prems(3) by (auto simp: list_ex_iff)
  then have step: "inc_Resolve down (in_id x) t db = Inr ?db1"
    using assms(1) by (simp add: inc_Resolve_def)
  have "\<forall>z \<in> set xs. \<exists>y \<in> set (md_incidents ?db1). in_id y = in_id z \<and> in_status y = IncidentActive"
  proof
    fix z assume z: "z \<in> set xs"
    then obtain y where "y \<in> set (md_incidents db)" "in_id y = in_id z" "in_status y = IncidentActive"
      using Cons.prems(3) by auto
    moreover have "in_id z \<in> in_id ` set xs" using z by simp
    then have "in_id z \<noteq> in_id x" using Cons.prems(1) by auto
    ultimately show "\<exists>y \<in> set (md_incidents ?db1). in_id y = in_id z \<and> in_status y = IncidentActive"
      by (auto simp: table_simps intro!: bexI [of _ y])
  qed
  moreover have "upd_where (\<lambda>y. in_id y \<in> in_id ` set xs \<and> in_status y = IncidentActive) (db_resolve t)
      (upd_where ?p (db_resolve t) rs) =
      upd_where (\<lambda>y. in_id y \<in> in_id ` set (x # xs) \<and> in_status y = IncidentActive) (db_resolve t) rs" for rs
    by (induction rs) (auto simp: table_simps)
  ultimately show ?case using Cons.IH [of ?db1] Cons.prems(1,2) step by simp
qed

lemma resolveIncidents_none_left:
  assumes "\<And>x. \<not> down x" and "distinct (map in_id (md_incidents db))"
  shows "active_incidents m (snd (resolveIncidents down t m db)) = 0 \<and>
    map in_id (md_incidents (snd (resolveIncidents down t m db))) = map in_id (md_incidents db) \<and>
    md_monitors (snd (resolveIncidents down t m db)) = md_monitors db"
proof -
  let ?xs = "sort_key (\<lambda>x. - in_start x)
    (filter (\<lambda>x. in_monitor x = m \<and> in_status x = IncidentActive) (md_incidents db))"
  have d: "distinct (map in_id ?xs)"
    using assms(2) by (simp add: distinct_map inj_on_def)
  have ex: "\<forall>x \<in> set ?xs. \<exists>y \<in> set (md_incidents db). in_id y = in_id x \<and> in_status y = IncidentActive"
    by auto
  have "md_incidents (snd (resolve_loop down t ?xs db)) =
      upd_where (\<lambda>y. in_id y \<in> in_id ` set ?xs \<and> in_status y = IncidentActive) (db_resolve t) (md_incidents db)"
    "md_monitors (snd (resolve_loop down t ?xs db)) = md_monitors db"
    using resolve_loop_all [where down = down and t = t, OF assms(1) d assms(2) ex] by auto
  then show ?thesis
    using assms(1)
    by (auto simp: resolveIncidents_def inc_GetActive_def active_incidents_def count_where_0_iff
        table_simps)
qed

lemma createIncident_no_fault:
  assumes "\<And>x. \<not> down x" and "active_incidents m db = 0"
    and "i \<notin> in_id ` set (md_incidents db)" and "m \<in> mo_id ` set (md_monitors db)"
  shows "active_incidents m (snd (createIncident down now i m db)) = 1 \<and>
    md_incidents (snd (createIncident down now i m db)) = md_incidents db @ [NewIncident i now m] \<and>
    md_monitors (snd (createIncident down now i m db)) = md_monitors db"
proof -
  have "inc_GetActive down m db = Inr []"
    using assms(1,2) by (auto simp: inc_GetActive_def active_incidents_def count_where_0_iff filter_empty_conv)
  moreover have "inc_Create down (NewIncident i now m) db =
      Inr (db\<lparr>md_incidents := md_incidents db @ [NewIncident i now m]\<rparr>)"
    using assms by (auto simp: inc_Create_def NewIncident_def list_ex_iff)
  ultimately show ?thesis
    using assms(2) by (simp add: createIncident_def active_incidents_def NewIncident_def)
qed

lemma HandleStatusChange_step:
  assumes "\<And>x. \<not> down x" and "active_incidents m db = (if old = StatusDown then 1 else 0)"
    and "i \<notin> in_id ` set (md_incidents db)" and "distinct (map in_id (md_incidents db))"
    and "m \<in> mo_id ` set (md_monitors db)"
  shows "active_incidents m (snd (HandleStatusChange down now i m old new db)) =
      (if new = StatusDown then 1 else 0) \<and>
    map in_id (md_incidents (snd (HandleStatusChange down now i m old new db))) \<in>
      {map in_id (md_incidents db), map in_id (md_incidents db) @ [i]} \<and>
    md_monitors (snd (HandleStatusChange down now i m old new db)) = md_monitors db"
  using createIncident_no_fault [where down = down, OF assms(1) _ assms(3,5), of now]
    resolveIncidents_none_left [where down = down, OF assms(1) assms(4), of m now] assms(2)
  by (auto simp: HandleStatusChange_def NewIncident_def)

text \<open>
  Property C4. Incidents follow the monitor's status: from a database in which they agree, and for
  status changes of the monitor that are handled in order, with fresh incident ids, it never has two active incidents, whichever statements fail during each of the
  changes; and when no statement fails during any of them, it has one exactly while its status
  is \<open>DOWN\<close>. A single result that is not \<open>DOWN\<close> closes the incident: the detector's
  \<open>resolveThreshold\<close>, documented as the number of consecutive successes this takes, plays no
  part.
\<close>

theorem incidents_follow_status:
  assumes "active_incidents m db = (if st = StatusDown then 1 else 0)"
    and "chained st es" and "fresh_ids es db" and "m \<in> mo_id ` set (md_monitors db)"
  shows "active_incidents m (handle_all m es db) \<le> 1 \<and>
    ((\<forall>e \<in> set es. \<forall>x. \<not> sg_down e x) \<longrightarrow> active_incidents m (handle_all m es db) =
       (if final_status st es = StatusDown then 1 else 0))"
proof (intro conjI impI)
  show "active_incidents m (handle_all m es db) \<le> 1"
    using assms(1) by (intro handle_all_le) simp
next
  assume "\<forall>e \<in> set es. \<forall>x. \<not> sg_down e x"
  then show "active_incidents m (handle_all m es db) = (if final_status st es = StatusDown then 1 else 0)"
    using assms
  proof (induction es arbitrary: st db)
    case Nil
    then show ?case by (simp add: handle_all_def final_status_def)
  next
    case (Cons e es)
    let ?db1 = "snd (HandleStatusChange (sg_down e) (sg_now e) (sg_id e) m (sg_old e) (sg_new e) db)"
    have step: "active_incidents m ?db1 = (if sg_new e = StatusDown then 1 else 0) \<and>
        map in_id (md_incidents ?db1) \<in> {map in_id (md_incidents db), map in_id (md_incidents db) @ [sg_id e]} \<and>
        md_monitors ?db1 = md_monitors db"
      using Cons.prems by (intro HandleStatusChange_step) (auto simp: fresh_ids_def)
    then have "fresh_ids es ?db1"
      using Cons.prems(4) by (auto simp: fresh_ids_def simp flip: set_map)
    with step Cons.prems have "active_incidents m (handle_all m es ?db1) =
        (if final_status (sg_new e) es = StatusDown then 1 else 0)"
      by (intro Cons.IH) auto
    then show ?case by (simp add: handle_all_def final_status_def)
  qed
qed

definition demo_status_changes :: "mon_faults \<Rightarrow> status_change list" where
  "demo_status_changes f =
     [\<lparr>sg_id = 1, sg_now = 0, sg_old = StatusUp, sg_new = StatusDown, sg_down = \<lambda>_. False\<rparr>,
      \<lparr>sg_id = 2, sg_now = 9, sg_old = StatusDown, sg_new = StatusDegraded, sg_down = f\<rparr>,
      \<lparr>sg_id = 3, sg_now = 20, sg_old = StatusDegraded, sg_new = StatusDown, sg_down = \<lambda>_. False\<rparr>]"

text \<open>
  At work: the incident is closed and a second one opened; and when the closing statement alone
  fails, the second failure finds the first incident and opens none.
\<close>

theorem incidents_follow_status_witness:
  "active_incidents 7 (handle_all 7 (demo_status_changes (\<lambda>_. False)) demo_mon_db) = 1 \<and>
   active_incidents 7 (handle_all 7 (demo_status_changes (\<lambda>_. True)) demo_mon_db) \<le> 1"
  using incidents_follow_status [of 7 demo_mon_db StatusUp "demo_status_changes (\<lambda>_. False)"]
    incidents_follow_status [of 7 demo_mon_db StatusUp "demo_status_changes (\<lambda>_. True)"]
  by (simp add: demo_status_changes_def demo_mon_db_def free_monitor_def demo_monitor_def
      active_incidents_def fresh_ids_def final_status_def)

section \<open>Ownership and limits\<close>

lemma CanAccessMonitor_owner:
  "CanAccessMonitor down u i db = None \<Longrightarrow> \<exists>m. mon_GetByID down i db = Inr m \<and> mo_user m = u"
  by (auto simp: CanAccessMonitor_def split: sum.splits if_splits)

text \<open>
  Nobody but its owner changes a monitor: an update, deletion, pause or resume
  asked for by a user who does not own the monitor, or of a monitor that cannot be read, fails
  and leaves the database as it was, and reading it fails too.
\<close>

theorem only_owner_changes_monitor:
  assumes "\<And>m. mon_GetByID down i db = Inr m \<Longrightarrow> mo_user m \<noteq> u"
    and "uq_id rq = i" and "uq_user rq = u"
  shows "(\<exists>e. UpdateMonitor down rq db = (Inl e, db)) \<and>
    (\<exists>e. DeleteMonitor down i u db = (Some e, db)) \<and>
    (\<exists>e. PauseMonitor down now i u db = (Some e, db)) \<and>
    (\<exists>e. ResumeMonitor down now i u db = (Some e, db)) \<and>
    (\<exists>e. GetMonitor down i u db = Inl e)"
proof -
  obtain e where "CanAccessMonitor down u i db = Some e"
    using assms(1) CanAccessMonitor_owner [of down u i db]
    by (cases "CanAccessMonitor down u i db") auto
  then show ?thesis
    using assms(2,3)
    by (simp add: UpdateMonitor_def DeleteMonitor_def PauseMonitor_def ResumeMonitor_def
        change_status_def GetMonitor_def)
qed

definition demo_update :: update_request where
  "demo_update = \<lparr>uq_id = 7, uq_user = 4, uq_name = Some ''n'', uq_url = None, uq_interval = None,
     uq_timeout = None, uq_hours_start = None, uq_hours_end = None, uq_days = [], uq_slow = None,
     uq_failure = None\<rparr>"

theorem only_owner_changes_monitor_witness:
  "\<exists>e. UpdateMonitor (\<lambda>_. False) demo_update demo_mon_db = (Inl e, demo_mon_db)"
  using only_owner_changes_monitor [of "\<lambda>_. False" 7 demo_mon_db 4 demo_update]
  by (simp add: demo_mon_db_def free_monitor_def demo_monitor_def demo_update_def mon_GetByID_def)

lemma create_options_user:
  "create_options rq m = Inr m' \<Longrightarrow> mo_user m' = mo_user m \<and> mo_interval m' = mo_interval m \<and>
     mo_id m' = mo_id m \<and> (nq_timeout rq \<le> 0 \<longrightarrow> mo_timeout m' = mo_timeout m)"
  by (auto simp: create_options_def set_hours_def Let_def split: if_splits sum.splits prod.splits)

lemma NewMonitor_user:
  "NewMonitor i now u n url k = Returns (Inr m) \<Longrightarrow>
     mo_user m = u \<and> mo_interval m = k \<and> mo_timeout m = 30 \<and> mo_id m = i"
  by (auto simp: NewMonitor_def split: option.splits outcome.splits)

lemma user_count_audit [simp]: "user_count u (mon_audit down a i db) = user_count u db"
  by (simp add: user_count_def mon_audit_def)

lemma CanCreateMonitor_limit:
  "CanCreateMonitor down u tier db = None \<Longrightarrow> tierLimits (if tier = [] then ''Free'' else tier) = Some limit \<Longrightarrow>
     limit \<noteq> -1 \<Longrightarrow> int (user_count u db) < limit"
  by (auto simp: CanCreateMonitor_def mon_CountByUserID_def split: if_splits)

lemma CreateMonitor_success:
  assumes "CreateMonitor down now i rq db = Returns (Inr m, db')"
  obtains m0 db1 where "CanCreateMonitor down (nq_user rq) (nq_tier rq) db = None"
    "NewMonitor i now (nq_user rq) (nq_name rq) (nq_url rq) (nq_interval rq) = Returns (Inr m0)"
    "create_options rq m0 = Inr m" "mon_Create down m db = Inr db1"
    "db' = mon_audit down ''monitor.create'' i db1"
  using assms
  by (auto simp: CreateMonitor_def split: sum.splits bool.splits option.splits outcome.splits)

text \<open>
  A monitor that is created keeps its owner within the limit of the tier in the
  request (no tier means \<open>Free\<close>), belongs to that owner, and satisfies the table's constraints.
  With the shortest interval, 30 seconds, and no timeout given, no monitor can be created: the
  default timeout of 30 seconds is not less, which only the database notices.
\<close>

theorem CreateMonitor_within_limits:
  assumes "CreateMonitor down now i rq db = Returns (Inr m, db')"
    and "tierLimits (if nq_tier rq = [] then ''Free'' else nq_tier rq) = Some limit"
  shows "(limit = -1 \<or> int (user_count (nq_user rq) db') \<le> limit) \<and>
    user_count (nq_user rq) db' = Suc (user_count (nq_user rq) db) \<and>
    mo_user m = nq_user rq \<and> monitor_row_ok m \<and>
    \<not> (nq_interval rq = 30 \<and> nq_timeout rq \<le> 0)"
proof -
  obtain m0 db1 where c: "CanCreateMonitor down (nq_user rq) (nq_tier rq) db = None"
    "NewMonitor i now (nq_user rq) (nq_name rq) (nq_url rq) (nq_interval rq) = Returns (Inr m0)"
    "create_options rq m0 = Inr m" "mon_Create down m db = Inr db1"
    "db' = mon_audit down ''monitor.create'' i db1"
    by (rule CreateMonitor_success [OF assms(1)])
  have u: "mo_user m = nq_user rq" "mo_interval m = nq_interval rq"
    "nq_timeout rq \<le> 0 \<longrightarrow> mo_timeout m = 30"
    using NewMonitor_user [OF c(2)] create_options_user [OF c(3)] by auto
  have row: "monitor_row_ok m" and db1: "md_monitors db1 = md_monitors db @ [m]"
    using c(4) by (auto simp: mon_Create_def split: if_splits)
  have count: "user_count (nq_user rq) db' = Suc (user_count (nq_user rq) db)"
    using db1 u(1) unfolding c(5) user_count_audit by (simp add: user_count_def)
  moreover have "limit = -1 \<or> int (user_count (nq_user rq) db') \<le> limit"
    using CanCreateMonitor_limit [OF c(1) assms(2)] count by (cases "limit = -1") simp_all
  ultimately show ?thesis using row u by (auto simp: monitor_row_ok_def)
qed

definition demo_create :: create_request where
  "demo_create = \<lparr>nq_user = 3, nq_tier = [], nq_name = ''n'', nq_url = ''https://b'', nq_check_type = [],
     nq_interval = 60, nq_timeout = 0, nq_hours_start = [], nq_hours_end = [], nq_days = [],
     nq_slow = None, nq_failure = None\<rparr>"

theorem CreateMonitor_within_limits_witness:
  "\<exists>m db'. CreateMonitor (\<lambda>_. False) 0 9 demo_create demo_mon_db = Returns (Inr m, db') \<and>
     user_count 3 db' = 2"
proof -
  obtain m db' where c: "CreateMonitor (\<lambda>_. False) 0 9 demo_create demo_mon_db = Returns (Inr m, db')"
    by (simp add: CreateMonitor_def mon_ExistsByName_def demo_create_def demo_mon_db_def
        free_monitor_def demo_monitor_def CanCreateMonitor_def tierLimits_def mon_CountByUserID_def
        user_count_def NewMonitor_def validateMonitorName_def validateURL_def validateInterval_def
        create_options_def Let_def mon_Create_def monitor_row_ok_def)
  have "tierLimits (if nq_tier demo_create = [] then ''Free'' else nq_tier demo_create) = Some 5"
    by (simp add: demo_create_def tierLimits_def)
  from CreateMonitor_within_limits [OF c this] c show ?thesis
    by (auto simp: demo_create_def demo_mon_db_def free_monitor_def demo_monitor_def user_count_def)
qed

text \<open>
  No deletion of a monitor is ever found in the audit log: the entry is written
  after the row is gone, violates the foreign key and is dropped, and the monitor's earlier
  entries go with the row.
\<close>

theorem deletion_leaves_no_audit:
  assumes "DeleteMonitor down i u db = (None, db')"
  shows "i \<notin> mo_id ` set (md_monitors db') \<and> i \<notin> snd ` set (md_audit db')"
proof -
  obtain m db1 where g: "mon_GetByID down i db = Inr m" and d: "mon_Delete down i db = Inr db1"
    and db': "db' = mon_audit down ''monitor.delete'' (mo_id m) db1"
    using assms by (auto simp: DeleteMonitor_def split: option.splits sum.splits)
  have gone: "\<forall>r \<in> set (md_monitors db1). mo_id r \<noteq> i" "i \<notin> snd ` set (md_audit db1)"
    using d by (auto simp: mon_Delete_def split: if_splits)
  then have "db' = db1" using db' GetByID_SomeD [OF g] by (simp add: mon_audit_def list_ex_iff)
  with gone show ?thesis by auto
qed

theorem deletion_leaves_no_audit_witness:
  "7 \<notin> snd ` set (md_audit (snd (DeleteMonitor (\<lambda>_. False) 7 3
     (demo_mon_db\<lparr>md_audit := [(''monitor.create'', 7)]\<rparr>))))"
proof -
  let ?db = "demo_mon_db\<lparr>md_audit := [(''monitor.create'', 7)]\<rparr>"
  have "fst (DeleteMonitor (\<lambda>_. False) 7 3 ?db) = None"
    by (simp add: DeleteMonitor_def CanAccessMonitor_def mon_GetByID_def mon_Delete_def demo_mon_db_def
        free_monitor_def demo_monitor_def)
  then obtain db' where r: "DeleteMonitor (\<lambda>_. False) 7 3 ?db = (None, db')"
    by (metis prod.collapse)
  from deletion_leaves_no_audit [OF r] r show ?thesis by simp
qed

lemma change_status_no_fault:
  assumes "\<And>x. \<not> down x" and "distinct (map mo_id (md_monitors db))"
    and "distinct (map (\<lambda>m. (mo_user m, mo_name m)) (md_monitors db))"
    and "m \<in> set (md_monitors db)" and "monitor_row_ok m"
  shows "if CanTransitionTo (mo_status m) st
    then fst (change_status st a down now (mo_id m) (mo_user m) db) = None \<and>
      (\<forall>r \<in> set (md_monitors (snd (change_status st a down now (mo_id m) (mo_user m) db))).
         mo_id r = mo_id m \<longrightarrow> mo_status r = st)
    else fst (change_status st a down now (mo_id m) (mo_user m) db) \<noteq> None"
proof -
  let ?m' = "m\<lparr>mo_status := st, mo_updated := now\<rparr>"
  have find: "List.find (\<lambda>r. mo_id r = mo_id m) (md_monitors db) = Some m"
    by (rule find_distinct_id [OF assms(2,4)])
  then have get: "mon_GetByID down (mo_id m) db = Inr m"
    using assms(1) by (simp add: mon_GetByID_def)
  have "\<not> list_ex (\<lambda>r. mo_id r \<noteq> mo_id m \<and> mo_user r = mo_user m \<and> mo_name r = mo_name m) (md_monitors db)"
    using assms(3,4) by (auto simp: list_ex_iff distinct_map dest: inj_onD)
  moreover have "monitor_row_ok (set_monitor_columns ?m' m)"
    using assms(5) by (simp add: monitor_row_ok_def set_monitor_columns_def)
  ultimately have "mon_Update down ?m' db = Inr (db\<lparr>md_monitors :=
      upd_where (\<lambda>r. mo_id r = mo_id m) (set_monitor_columns ?m') (md_monitors db)\<rparr>)"
    using find assms(1) by (simp add: mon_Update_def)
  then show ?thesis
    using get by (auto simp: change_status_def CanAccessMonitor_def UpdateStatus_def mon_audit_def
        table_simps)
qed

lemma transitions_to:
  "CanTransitionTo s StatusUp \<longleftrightarrow> s \<noteq> StatusUp" "CanTransitionTo s StatusPaused \<longleftrightarrow> s \<noteq> StatusPaused"
  by (cases s; simp)+

text \<open>
  \<open>ResumeMonitor\<close> is not limited to paused monitors: for any status but \<open>UP\<close>, so also
  for a monitor that is \<open>DOWN\<close> or was never checked, the owner's call stores \<open>UP\<close> without a
  check. \<open>PauseMonitor\<close> works from every status but \<open>PAUSED\<close>.
\<close>

theorem pause_resume_statuses:
  assumes "\<And>x. \<not> down x" and "distinct (map mo_id (md_monitors db))"
    and "distinct (map (\<lambda>m. (mo_user m, mo_name m)) (md_monitors db))"
    and "m \<in> set (md_monitors db)" and "monitor_row_ok m"
  shows "(fst (ResumeMonitor down now (mo_id m) (mo_user m) db) = None \<longleftrightarrow> mo_status m \<noteq> StatusUp) \<and>
    (fst (PauseMonitor down now (mo_id m) (mo_user m) db) = None \<longleftrightarrow> mo_status m \<noteq> StatusPaused) \<and>
    (mo_status m \<noteq> StatusUp \<longrightarrow>
       (\<forall>r \<in> set (md_monitors (snd (ResumeMonitor down now (mo_id m) (mo_user m) db))).
          mo_id r = mo_id m \<longrightarrow> mo_status r = StatusUp))"
proof -
  let ?up = "change_status StatusUp ''monitor.resume'' down now (mo_id m) (mo_user m) db"
  let ?pause = "change_status StatusPaused ''monitor.pause'' down now (mo_id m) (mo_user m) db"
  note step = change_status_no_fault [where db = db and m = m and down = down and now = now,
      OF assms, unfolded if_bool_eq_conj]
  have "(fst ?up = None \<longleftrightarrow> mo_status m \<noteq> StatusUp) \<and>
      (mo_status m \<noteq> StatusUp \<longrightarrow>
         (\<forall>r \<in> set (md_monitors (snd ?up)). mo_id r = mo_id m \<longrightarrow> mo_status r = StatusUp))"
    using step [of StatusUp "''monitor.resume''"] unfolding transitions_to by blast
  moreover have "fst ?pause = None \<longleftrightarrow> mo_status m \<noteq> StatusPaused"
    using step [of StatusPaused "''monitor.pause''"] unfolding transitions_to by blast
  ultimately show ?thesis unfolding ResumeMonitor_def PauseMonitor_def by blast
qed

theorem pause_resume_statuses_witness:
  "fst (ResumeMonitor (\<lambda>_. False) 0 7 3
     (demo_mon_db\<lparr>md_monitors := [free_monitor\<lparr>mo_status := StatusDown\<rparr>]\<rparr>)) = None"
  using pause_resume_statuses [of "\<lambda>_. False"
      "demo_mon_db\<lparr>md_monitors := [free_monitor\<lparr>mo_status := StatusDown\<rparr>]\<rparr>"
      "free_monitor\<lparr>mo_status := StatusDown\<rparr>" 0]
  by (simp add: demo_mon_db_def free_monitor_def demo_monitor_def monitor_row_ok_def)

end
