(* ===== verification/AlertStore.thy ===== *)
theory AlertStore
  imports Prelude
begin

text \<open>
  The alert service's data and statements, under \<open>backend/alert-service/internal/\<close>:
  \<open>model/alert.go\<close>, \<open>model/mute.go\<close> and the repositories \<open>alert_repository.go\<close>,
  \<open>alert_rule_repository.go\<close>, \<open>delivery_attempt_repository.go\<close>,
  \<open>alert_channel_repository.go\<close>, \<open>monitor_status_change_repository.go\<close>,
  \<open>alert_escalation_repository.go\<close> and \<open>alert_mute_repository.go\<close> of \<open>repository/postgres/\<close>.

  Every method is one statement, so one definition on the rows in insertion order. It fails when
  \<open>down\<close> says so, or when a key of the migrations is violated. The repositories wrap a failure
  of the driver with \<open>%v\<close>, so its identity is lost: \<open>sql.ErrNoRows\<close> of a query for one row is
  \<open>AlRepoError\<close> like any other. Users and monitors live in the tables of other services; a
  reference to a missing one is a case of \<open>down\<close>. \<open>time.Now()\<close> and the database's \<open>NOW()\<close> are
  one clock. The columns \<open>config\<close> of alerts, which no statement touches, and \<open>name\<close> of channels
  are left out. Where a statement leaves the order of ties open the model takes the
  insertion order.
\<close>

section \<open>Model\<close>

datatype alert_status = AlertTriggered | AlertMuted | AlertAcknowledged | AlertResolved

fun alert_status_string :: "alert_status \<Rightarrow> string" where
  "alert_status_string AlertTriggered = ''triggered''"
| "alert_status_string AlertMuted = ''muted''"
| "alert_status_string AlertAcknowledged = ''acknowledged''"
| "alert_status_string AlertResolved = ''resolved''"

datatype alert_type =
    TypeStatusCode | TypeResponseTime | TypeBodyContains | TypeBodyDoesNotContain
  | TypeCertificateExpires | TypeSSLError | TypeFlapping

record alert =
  al_id :: nat
  al_user :: nat
  al_monitor :: nat
  al_rule :: "nat option"
  al_status :: alert_status
  al_type :: alert_type
  al_enabled :: bool
  al_failures :: int
  al_threshold_ms :: int
  al_created :: time
  al_updated :: time
  al_ack :: "(nat \<times> time) option"

record alert_rule =
  ru_id :: nat
  ru_user :: nat
  ru_monitor :: nat
  ru_enabled :: bool
  ru_failures :: int
  ru_created :: time
  ru_updated :: time

datatype channel_type = ChannelEmail | ChannelTelegram | ChannelWebhook | ChannelOther string

datatype channel_status = ChannelUnverified | ChannelActive | ChannelFailed

text \<open>The three configurations, \<open>None\<close> for a nil pointer: address, chat and token, and URL,
  method and headers.\<close>

record alert_channel =
  ch_id :: nat
  ch_user :: nat
  ch_type :: channel_type
  ch_status :: channel_status
  ch_enabled :: bool
  ch_verified :: bool
  ch_failures :: int
  ch_last_failure :: "time option"
  ch_telegram :: "(string \<times> string) option"
  ch_email :: "string option"
  ch_webhook :: "(string \<times> string \<times> (string \<times> string) list) option"
  ch_created :: time
  ch_updated :: time

datatype attempt_status = AttemptPending | AttemptSuccess | AttemptFailed | AttemptSuppressed

record delivery_attempt =
  at_id :: nat
  at_alert :: nat
  at_channel :: nat
  at_status :: attempt_status
  at_message :: string
  at_retries :: int
  at_next_retry :: "time option"
  at_created :: time
  at_updated :: time

record status_change =
  sg_change_id :: nat
  sg_monitor :: nat
  sg_user :: nat
  sg_old_status :: string
  sg_new_status :: string
  sg_created :: time

record alert_escalation =
  es_id :: nat
  es_alert :: nat
  es_level :: int
  es_reason :: string
  es_timeout :: int
  es_created :: time

datatype mute_scope = MuteUser | MuteGlobal

record alert_mute =
  mu_id :: nat
  mu_user :: nat
  mu_monitor :: "nat option"
  mu_scope :: mute_scope
  mu_until :: "time option"
  mu_created :: time
  mu_created_by :: nat

section \<open>Database\<close>

datatype alert_call =
    AlertCreate | AlertGet nat | AlertLast | AlertListActive | AlertUpdate nat | AlertDelete
  | AlertCleanup | AlertCountMonitors | AlertAck | AlertGetActive
  | RuleCreate | RuleGet | RuleList | RuleUpdate | RuleDelete
  | AttemptCreate | AttemptListPending | AttemptUpdate nat | AttemptCleanup | AttemptCount
  | AttemptLast | ChannelCreate | ChannelGet nat | ChannelUpdate | ChannelDelete | ChannelCount
  | ChannelList | ChannelIncrement | ChannelDisable | ChangeCreate | ChangeCount | ChangeLatest
  | EscalationCreate | EscalationLatest | MuteCreate | MuteDelete | MuteCheck | AlertAudit

record alert_db =
  ad_alerts :: "alert list"
  ad_rules :: "alert_rule list"
  ad_channels :: "alert_channel list"
  ad_attempts :: "delivery_attempt list"
  ad_changes :: "status_change list"
  ad_escalations :: "alert_escalation list"
  ad_mutes :: "alert_mute list"
  ad_audit :: "(string \<times> nat) list"

type_synonym alert_faults = "alert_call \<Rightarrow> bool"

datatype alert_error =
    AlRepoError               \<comment> \<open>a driver error, a violated key, or no row\<close>
  | ErrAlertNotFound | ErrAlertRuleNotFound | ErrAlertChannelNotFound | ErrAlertNotAcknowledgeable
  | ErrDuplicateChannel | ErrForbidden | ErrChannelLimitReached
  | ErrGuestNotAllowed | ErrInvalidVerificationCode
  | ChannelIsDisabled | ChannelNotVerified | DeliveryRateLimited
  | AttemptNotFound | ThrottleFailed | EscalationFailed | FlappingFailed | MuteFailed

subsection \<open>Alerts\<close>

text \<open>The columns that every query of alerts selects: not those of the acknowledgement.\<close>

definition alert_columns :: "alert \<Rightarrow> alert" where
  "alert_columns a = a\<lparr>al_ack := None\<rparr>"

definition alert_Create :: "alert_faults \<Rightarrow> alert \<Rightarrow> alert_db \<Rightarrow> alert_error + alert_db" where
  "alert_Create down a db =
     (if down AlertCreate \<or> list_ex (\<lambda>r. al_id r = al_id a) (ad_alerts db)
         \<or> (case al_rule a of None \<Rightarrow> False | Some i \<Rightarrow> \<not> list_ex (\<lambda>r. ru_id r = i) (ad_rules db))
      then Inl AlRepoError
      else Inr (db\<lparr>ad_alerts := ad_alerts db @ [a\<lparr>al_ack := None\<rparr>]\<rparr>))"

definition alert_GetByID :: "alert_faults \<Rightarrow> nat \<Rightarrow> alert_db \<Rightarrow> alert_error + alert" where
  "alert_GetByID down i db =
     (if down (AlertGet i) then Inl AlRepoError
      else case List.find (\<lambda>a. al_id a = i) (ad_alerts db) of
        None \<Rightarrow> Inl AlRepoError
      | Some a \<Rightarrow> Inr (alert_columns a))"

definition GetLastAlertTimeAnyStatus ::
    "alert_faults \<Rightarrow> nat \<Rightarrow> alert_db \<Rightarrow> alert_error + alert" where
  "GetLastAlertTimeAnyStatus down m db =
     (if down AlertLast then Inl AlRepoError
      else case latest_by al_created (filter (\<lambda>a. al_monitor a = m) (ad_alerts db)) of
        None \<Rightarrow> Inl AlRepoError
      | Some a \<Rightarrow> Inr (alert_columns a))"

text \<open>The monitor is a string here; \<open>None\<close> is the empty string, which is no UUID.\<close>

definition ListActiveByMonitorID ::
    "alert_faults \<Rightarrow> nat option \<Rightarrow> alert_db \<Rightarrow> alert_error + alert list" where
  "ListActiveByMonitorID down monitorID db =
     (case monitorID of
        None \<Rightarrow> Inl AlRepoError
      | Some m \<Rightarrow>
          if down AlertListActive then Inl AlRepoError
          else Inr (map alert_columns (newest_first al_created
            (filter (\<lambda>a. al_monitor a = m \<and> al_status a = AlertTriggered) (ad_alerts db)))))"

text \<open>One page of a user's alerts and their number; \<open>pageSize \<le> 0\<close> is no limit.\<close>

definition alert_List ::
    "alert_faults \<Rightarrow> nat \<Rightarrow> nat option \<Rightarrow> alert_status option \<Rightarrow> int \<Rightarrow> int \<Rightarrow> alert_db \<Rightarrow>
     alert_error + (alert list \<times> int)" where
  "alert_List down u monitorID status page pageSize db =
     (let rows = filter (\<lambda>a. al_user a = u
             \<and> (case monitorID of None \<Rightarrow> True | Some m \<Rightarrow> al_monitor a = m)
             \<and> (case status of None \<Rightarrow> True | Some st \<Rightarrow> al_status a = st)) (ad_alerts db);
          sorted = map alert_columns (newest_first al_created rows);
          paged = (if 0 < pageSize
            then take (nat pageSize) (if 0 < page then drop (nat ((page - 1) * pageSize)) sorted
                                      else sorted)
            else sorted)
      in if down AlertListActive then Inl AlRepoError else Inr (paged, int (length rows)))"

definition set_alert_columns :: "time \<Rightarrow> alert \<Rightarrow> alert \<Rightarrow> alert" where
  "set_alert_columns now a r = r\<lparr>al_status := al_status a, al_type := al_type a,
     al_enabled := al_enabled a, al_failures := al_failures a,
     al_threshold_ms := al_threshold_ms a, al_updated := now\<rparr>"

text \<open>A trigger of the table sets \<open>updated_at\<close>.\<close>

definition alert_Update ::
    "alert_faults \<Rightarrow> time \<Rightarrow> alert \<Rightarrow> alert_db \<Rightarrow> alert_error + alert_db" where
  "alert_Update down now a db =
     (if down (AlertUpdate (al_id a)) then Inl AlRepoError
      else if \<not> list_ex (\<lambda>r. al_id r = al_id a) (ad_alerts db) then Inl ErrAlertNotFound
      else Inr (db\<lparr>ad_alerts :=
             upd_where (\<lambda>r. al_id r = al_id a) (set_alert_columns now a) (ad_alerts db)\<rparr>))"

text \<open>The attempts and escalations of deleted alerts go with them.\<close>

definition delete_alerts :: "(alert \<Rightarrow> bool) \<Rightarrow> alert_db \<Rightarrow> alert_db" where
  "delete_alerts p db =
     (let gone = map al_id (filter p (ad_alerts db))
      in db\<lparr>ad_alerts := del_where p (ad_alerts db),
            ad_attempts := del_where (\<lambda>t. at_alert t \<in> set gone) (ad_attempts db),
            ad_escalations := del_where (\<lambda>e. es_alert e \<in> set gone) (ad_escalations db)\<rparr>)"

definition alert_Delete :: "alert_faults \<Rightarrow> nat \<Rightarrow> alert_db \<Rightarrow> alert_error + alert_db" where
  "alert_Delete down i db =
     (if down AlertDelete then Inl AlRepoError
      else if \<not> list_ex (\<lambda>r. al_id r = i) (ad_alerts db) then Inl ErrAlertNotFound
      else Inr (delete_alerts (\<lambda>r. al_id r = i) db))"

definition DeleteResolvedOlderThan ::
    "alert_faults \<Rightarrow> time \<Rightarrow> duration \<Rightarrow> alert_db \<Rightarrow> alert_error + alert_db" where
  "DeleteResolvedOlderThan down now olderThan db =
     (if down AlertCleanup then Inl AlRepoError
      else Inr (delete_alerts
             (\<lambda>r. al_status r = AlertResolved \<and> al_updated r < now - olderThan) db))"

definition GetLastAlertByMonitorIDAndStatus ::
    "alert_faults \<Rightarrow> nat \<Rightarrow> alert_status \<Rightarrow> alert_db \<Rightarrow> alert_error + alert" where
  "GetLastAlertByMonitorIDAndStatus down m st db =
     (if down AlertLast then Inl AlRepoError
      else case latest_by al_created
             (filter (\<lambda>a. al_monitor a = m \<and> al_status a = st) (ad_alerts db)) of
        None \<Rightarrow> Inl AlRepoError
      | Some a \<Rightarrow> Inr (alert_columns a))"

definition CountUniqueMonitorsWithAlertsSince ::
    "alert_faults \<Rightarrow> time \<Rightarrow> alert_db \<Rightarrow> alert_error + int" where
  "CountUniqueMonitorsWithAlertsSince down since db =
     (if down AlertCountMonitors then Inl AlRepoError
      else Inr (int (length (remdups (map al_monitor
             (filter (\<lambda>a. since < al_created a) (ad_alerts db)))))))"

definition AcknowledgeAlert ::
    "alert_faults \<Rightarrow> time \<Rightarrow> nat \<Rightarrow> nat \<Rightarrow> alert_db \<Rightarrow> alert_error + alert_db" where
  "AcknowledgeAlert down now i u db =
     (if down AlertAck then Inl AlRepoError
      else if \<not> list_ex (\<lambda>r. al_id r = i \<and> al_status r = AlertTriggered) (ad_alerts db)
      then Inl ErrAlertNotAcknowledgeable
      else Inr (db\<lparr>ad_alerts := upd_where (\<lambda>r. al_id r = i \<and> al_status r = AlertTriggered)
             (\<lambda>r. r\<lparr>al_status := AlertAcknowledged, al_ack := Some (u, now), al_updated := now\<rparr>)
             (ad_alerts db)\<rparr>))"

definition active_alert :: "nat \<Rightarrow> alert \<Rightarrow> bool" where
  "active_alert m a \<longleftrightarrow> al_monitor a = m \<and> (al_status a = AlertTriggered \<or> al_status a = AlertAcknowledged)"

definition GetActiveAlertsForMonitor ::
    "alert_faults \<Rightarrow> nat \<Rightarrow> alert_db \<Rightarrow> alert_error + alert list" where
  "GetActiveAlertsForMonitor down m db =
     (if down AlertGetActive then Inl AlRepoError
      else Inr (map alert_columns (newest_first al_created
             (filter (active_alert m) (ad_alerts db)))))"

subsection \<open>Rules\<close>

definition rule_Create :: "alert_faults \<Rightarrow> alert_rule \<Rightarrow> alert_db \<Rightarrow> alert_error + alert_db" where
  "rule_Create down r db =
     (if down RuleCreate \<or> list_ex (\<lambda>r'. ru_id r' = ru_id r
           \<or> ru_user r' = ru_user r \<and> ru_monitor r' = ru_monitor r) (ad_rules db)
      then Inl AlRepoError
      else Inr (db\<lparr>ad_rules := ad_rules db @ [r]\<rparr>))"

definition rule_GetByID :: "alert_faults \<Rightarrow> nat \<Rightarrow> alert_db \<Rightarrow> alert_error + alert_rule" where
  "rule_GetByID down i db =
     (if down RuleGet then Inl AlRepoError
      else case List.find (\<lambda>r. ru_id r = i) (ad_rules db) of
        None \<Rightarrow> Inl AlRepoError
      | Some r \<Rightarrow> Inr r)"

definition GetByUserIDAndMonitorID ::
    "alert_faults \<Rightarrow> nat \<Rightarrow> nat \<Rightarrow> alert_db \<Rightarrow> alert_error + alert_rule" where
  "GetByUserIDAndMonitorID down u m db =
     (if down RuleGet then Inl AlRepoError
      else case List.find (\<lambda>r. ru_user r = u \<and> ru_monitor r = m) (ad_rules db) of
        None \<Rightarrow> Inl AlRepoError
      | Some r \<Rightarrow> Inr r)"

definition rule_List :: "alert_faults \<Rightarrow> nat \<Rightarrow> alert_db \<Rightarrow> alert_error + alert_rule list" where
  "rule_List down u db =
     (if down RuleList then Inl AlRepoError
      else Inr (newest_first ru_created (filter (\<lambda>r. ru_user r = u) (ad_rules db))))"

definition rule_Update ::
    "alert_faults \<Rightarrow> time \<Rightarrow> alert_rule \<Rightarrow> alert_db \<Rightarrow> alert_error + alert_db" where
  "rule_Update down now r db =
     (if down RuleUpdate then Inl AlRepoError
      else if \<not> list_ex (\<lambda>r'. ru_id r' = ru_id r) (ad_rules db) then Inl ErrAlertRuleNotFound
      else Inr (db\<lparr>ad_rules := upd_where (\<lambda>r'. ru_id r' = ru_id r)
             (\<lambda>r'. r'\<lparr>ru_enabled := ru_enabled r, ru_failures := ru_failures r, ru_updated := now\<rparr>)
             (ad_rules db)\<rparr>))"

definition rule_Delete :: "alert_faults \<Rightarrow> time \<Rightarrow> nat \<Rightarrow> alert_db \<Rightarrow> alert_error + alert_db" where
  "rule_Delete down now i db =
     (if down RuleDelete then Inl AlRepoError
      else if \<not> list_ex (\<lambda>r. ru_id r = i) (ad_rules db) then Inl ErrAlertRuleNotFound
      else Inr (db\<lparr>ad_rules := del_where (\<lambda>r. ru_id r = i) (ad_rules db),
             ad_alerts := upd_where (\<lambda>a. al_rule a = Some i)
               (\<lambda>a. a\<lparr>al_rule := None, al_updated := now\<rparr>) (ad_alerts db)\<rparr>))"

subsection \<open>Delivery attempts\<close>

definition attempt_keys_ok :: "delivery_attempt \<Rightarrow> alert_db \<Rightarrow> bool" where
  "attempt_keys_ok t db \<longleftrightarrow> \<not> list_ex (\<lambda>r. at_id r = at_id t) (ad_attempts db)
     \<and> list_ex (\<lambda>a. al_id a = at_alert t) (ad_alerts db)
     \<and> list_ex (\<lambda>c. ch_id c = at_channel t) (ad_channels db)"

definition attempt_Create ::
    "alert_faults \<Rightarrow> delivery_attempt \<Rightarrow> alert_db \<Rightarrow> alert_error + alert_db" where
  "attempt_Create down t db =
     (if down AttemptCreate \<or> \<not> attempt_keys_ok t db then Inl AlRepoError
      else Inr (db\<lparr>ad_attempts := ad_attempts db @ [t]\<rparr>))"

text \<open>One transaction: both rows are stored, or neither.\<close>

definition CreateWithDeliveryAttempt ::
    "alert_faults \<Rightarrow> alert \<Rightarrow> delivery_attempt \<Rightarrow> alert_db \<Rightarrow> alert_error option \<times> alert_db" where
  "CreateWithDeliveryAttempt down a t db =
     (case alert_Create down a db of
        Inl e \<Rightarrow> (Some e, db)
      | Inr db1 \<Rightarrow>
          (case attempt_Create down t db1 of
             Inl e \<Rightarrow> (Some e, db)
           | Inr db2 \<Rightarrow> (None, db2)))"

definition pending_attempt :: "time \<Rightarrow> delivery_attempt \<Rightarrow> bool" where
  "pending_attempt now t \<longleftrightarrow> at_status t = AttemptPending
     \<and> (case at_next_retry t of None \<Rightarrow> True | Some x \<Rightarrow> x \<le> now)"

definition attempt_ListPending ::
    "alert_faults \<Rightarrow> time \<Rightarrow> nat \<Rightarrow> alert_db \<Rightarrow> alert_error + delivery_attempt list" where
  "attempt_ListPending down now limit db =
     (if down AttemptListPending then Inl AlRepoError
      else Inr (take limit (sort_key at_created (filter (pending_attempt now) (ad_attempts db)))))"

definition set_attempt_columns :: "time \<Rightarrow> delivery_attempt \<Rightarrow> delivery_attempt \<Rightarrow> delivery_attempt" where
  "set_attempt_columns now t r = r\<lparr>at_status := at_status t, at_message := at_message t,
     at_retries := at_retries t, at_next_retry := at_next_retry t, at_updated := now\<rparr>"

definition attempt_Update ::
    "alert_faults \<Rightarrow> time \<Rightarrow> delivery_attempt \<Rightarrow> alert_db \<Rightarrow> alert_error + alert_db" where
  "attempt_Update down now t db =
     (if down (AttemptUpdate (at_id t)) then Inl AlRepoError
      else if \<not> list_ex (\<lambda>r. at_id r = at_id t) (ad_attempts db) then Inl AttemptNotFound
      else Inr (db\<lparr>ad_attempts :=
             upd_where (\<lambda>r. at_id r = at_id t) (set_attempt_columns now t) (ad_attempts db)\<rparr>))"

text \<open>The limit is passed in whole seconds.\<close>

definition DeleteOldAttempts :: "alert_faults \<Rightarrow> int \<Rightarrow> alert_db \<Rightarrow> alert_error + alert_db" where
  "DeleteOldAttempts down olderThan db =
     (if down AttemptCleanup then Inl AlRepoError
      else Inr (db\<lparr>ad_attempts :=
             del_where (\<lambda>t. at_created t < olderThan * second) (ad_attempts db)\<rparr>))"

definition CleanupOldAttempts ::
    "alert_faults \<Rightarrow> time \<Rightarrow> duration \<Rightarrow> alert_db \<Rightarrow> alert_error + alert_db" where
  "CleanupOldAttempts down now olderThan db =
     DeleteOldAttempts down ((now - olderThan) div second) db"

text \<open>The join with \<open>alerts\<close> and \<open>alert_channels\<close>; an empty channel type is \<open>ChannelOther []\<close>.\<close>

definition attempt_of :: "nat \<Rightarrow> alert_db \<Rightarrow> delivery_attempt \<Rightarrow> bool" where
  "attempt_of m db t \<longleftrightarrow> list_ex (\<lambda>a. al_id a = at_alert t \<and> al_monitor a = m) (ad_alerts db)"

definition CountRecentByMonitorAndChannel ::
    "alert_faults \<Rightarrow> time \<Rightarrow> nat \<Rightarrow> channel_type \<Rightarrow> duration \<Rightarrow> alert_db \<Rightarrow> alert_error + int" where
  "CountRecentByMonitorAndChannel down now m ty since db =
     (if down AttemptCount then Inl AlRepoError
      else Inr (int (count_where (\<lambda>t. attempt_of m db t
             \<and> list_ex (\<lambda>c. ch_id c = at_channel t \<and> ch_type c = ty) (ad_channels db)
             \<and> now - (since div second) * second < at_created t) (ad_attempts db))))"

text \<open>\<open>MAX\<close> of no rows is \<open>NULL\<close>. The status that is compared is that of the alert.\<close>

definition GetLastDeliveryTimeForMonitorAndStatus ::
    "alert_faults \<Rightarrow> nat \<Rightarrow> string \<Rightarrow> alert_db \<Rightarrow> alert_error + time option" where
  "GetLastDeliveryTimeForMonitorAndStatus down m status db =
     (if down AttemptLast then Inl AlRepoError
      else Inr (map_option at_created (latest_by at_created (filter (\<lambda>t.
             list_ex (\<lambda>a. al_id a = at_alert t \<and> al_monitor a = m
               \<and> alert_status_string (al_status a) = status) (ad_alerts db)) (ad_attempts db)))))"

subsection \<open>Channels\<close>

text \<open>
  Configurations are stored as JSON, a nil pointer as \<open>null\<close>. Reading \<open>null\<close> leaves the zero
  struct, and a pointer to it.
\<close>

definition stored_channel :: "alert_channel \<Rightarrow> alert_channel" where
  "stored_channel c = c\<lparr>
     ch_telegram := Some (case ch_telegram c of None \<Rightarrow> ([], []) | Some x \<Rightarrow> x),
     ch_email := Some (case ch_email c of None \<Rightarrow> [] | Some x \<Rightarrow> x),
     ch_webhook := Some (case ch_webhook c of None \<Rightarrow> ([], [], []) | Some x \<Rightarrow> x)\<rparr>"

definition channel_Create ::
    "alert_faults \<Rightarrow> alert_channel \<Rightarrow> alert_db \<Rightarrow> alert_error + alert_db" where
  "channel_Create down c db =
     (if down ChannelCreate then Inl AlRepoError
      else if list_ex (\<lambda>r. ch_id r = ch_id c) (ad_channels db) then Inl ErrDuplicateChannel
      else Inr (db\<lparr>ad_channels := ad_channels db @ [stored_channel c]\<rparr>))"

definition channel_GetByID :: "alert_faults \<Rightarrow> nat \<Rightarrow> alert_db \<Rightarrow> alert_error + alert_channel" where
  "channel_GetByID down i db =
     (if down (ChannelGet i) then Inl AlRepoError
      else case List.find (\<lambda>c. ch_id c = i) (ad_channels db) of
        None \<Rightarrow> Inl AlRepoError
      | Some c \<Rightarrow> Inr c)"

definition channel_ListByUserID ::
    "alert_faults \<Rightarrow> nat \<Rightarrow> alert_db \<Rightarrow> alert_error + alert_channel list" where
  "channel_ListByUserID down u db =
     (if down ChannelList then Inl AlRepoError
      else Inr (newest_first ch_created (filter (\<lambda>c. ch_user c = u) (ad_channels db))))"

definition set_channel_columns :: "time \<Rightarrow> alert_channel \<Rightarrow> alert_channel \<Rightarrow> alert_channel" where
  "set_channel_columns now c r = (let s = stored_channel c in r\<lparr>ch_status := ch_status c,
     ch_enabled := ch_enabled c, ch_verified := ch_verified c, ch_failures := ch_failures c,
     ch_last_failure := ch_last_failure c, ch_telegram := ch_telegram s, ch_email := ch_email s,
     ch_webhook := ch_webhook s, ch_updated := now\<rparr>)"

definition channel_Update ::
    "alert_faults \<Rightarrow> time \<Rightarrow> alert_channel \<Rightarrow> alert_db \<Rightarrow> alert_error + alert_db" where
  "channel_Update down now c db =
     (if down ChannelUpdate then Inl AlRepoError
      else if \<not> list_ex (\<lambda>r. ch_id r = ch_id c) (ad_channels db) then Inl ErrAlertChannelNotFound
      else Inr (db\<lparr>ad_channels :=
             upd_where (\<lambda>r. ch_id r = ch_id c) (set_channel_columns now c) (ad_channels db)\<rparr>))"

text \<open>The attempts of a deleted channel go with it.\<close>

definition channel_Delete :: "alert_faults \<Rightarrow> nat \<Rightarrow> alert_db \<Rightarrow> alert_error + alert_db" where
  "channel_Delete down i db =
     (if down ChannelDelete then Inl AlRepoError
      else if \<not> list_ex (\<lambda>r. ch_id r = i) (ad_channels db) then Inl ErrAlertChannelNotFound
      else Inr (db\<lparr>ad_channels := del_where (\<lambda>r. ch_id r = i) (ad_channels db),
             ad_attempts := del_where (\<lambda>t. at_channel t = i) (ad_attempts db)\<rparr>))"

definition channel_CountByUserID :: "alert_faults \<Rightarrow> nat \<Rightarrow> alert_db \<Rightarrow> alert_error + int" where
  "channel_CountByUserID down u db =
     (if down ChannelCount then Inl AlRepoError
      else Inr (int (count_where (\<lambda>c. ch_user c = u) (ad_channels db))))"

fun channel_address :: "channel_type \<Rightarrow> alert_channel \<Rightarrow> string" where
  "channel_address ChannelEmail c = (case ch_email c of Some e \<Rightarrow> e | None \<Rightarrow> [])"
| "channel_address ChannelTelegram c = (case ch_telegram c of Some (i, t) \<Rightarrow> i | None \<Rightarrow> [])"
| "channel_address ChannelWebhook c = (case ch_webhook c of Some (u, m, h) \<Rightarrow> u | None \<Rightarrow> [])"
| "channel_address (ChannelOther s) c = []"

definition ExistsDuplicate ::
    "alert_faults \<Rightarrow> nat \<Rightarrow> channel_type \<Rightarrow> string \<Rightarrow> alert_db \<Rightarrow> alert_error + bool" where
  "ExistsDuplicate down u ty address db =
     (if down ChannelList then Inl AlRepoError
      else Inr (case ty of
          ChannelOther s \<Rightarrow> False
        | _ \<Rightarrow> list_ex (\<lambda>c. ch_user c = u \<and> ch_type c = ty \<and> channel_address ty c = address)
                 (ad_channels db)))"

definition IncrementFailureCount ::
    "alert_faults \<Rightarrow> time \<Rightarrow> nat \<Rightarrow> alert_db \<Rightarrow> (alert_error + int) \<times> alert_db" where
  "IncrementFailureCount down now i db =
     (if down ChannelIncrement then (Inl AlRepoError, db)
      else case List.find (\<lambda>c. ch_id c = i) (ad_channels db) of
        None \<Rightarrow> (Inl AlRepoError, db)
      | Some c \<Rightarrow> (Inr (ch_failures c + 1), db\<lparr>ad_channels := upd_where (\<lambda>r. ch_id r = i)
          (\<lambda>r. r\<lparr>ch_failures := ch_failures r + 1, ch_last_failure := Some now, ch_updated := now\<rparr>)
          (ad_channels db)\<rparr>))"

definition DisableChannel ::
    "alert_faults \<Rightarrow> time \<Rightarrow> nat \<Rightarrow> alert_db \<Rightarrow> alert_error + alert_db" where
  "DisableChannel down now i db =
     (if down ChannelDisable then Inl AlRepoError
      else Inr (db\<lparr>ad_channels := upd_where (\<lambda>r. ch_id r = i)
        (\<lambda>r. r\<lparr>ch_status := ChannelFailed, ch_enabled := False, ch_last_failure := Some now,
               ch_updated := now\<rparr>) (ad_channels db)\<rparr>))"

subsection \<open>Status changes, escalations, mutes\<close>

definition change_Create ::
    "alert_faults \<Rightarrow> status_change \<Rightarrow> alert_db \<Rightarrow> alert_error + alert_db" where
  "change_Create down c db =
     (if down ChangeCreate \<or> list_ex (\<lambda>r. sg_change_id r = sg_change_id c) (ad_changes db)
      then Inl AlRepoError
      else Inr (db\<lparr>ad_changes := ad_changes db @ [c]\<rparr>))"

definition CountInWindow ::
    "alert_faults \<Rightarrow> time \<Rightarrow> nat \<Rightarrow> duration \<Rightarrow> alert_db \<Rightarrow> alert_error + int" where
  "CountInWindow down now m window db =
     (if down ChangeCount then Inl AlRepoError
      else Inr (int (count_where (\<lambda>c. sg_monitor c = m \<and> now - window < sg_created c)
             (ad_changes db))))"

definition change_GetLatest :: "alert_faults \<Rightarrow> nat \<Rightarrow> alert_db \<Rightarrow> alert_error + status_change" where
  "change_GetLatest down m db =
     (if down ChangeLatest then Inl AlRepoError
      else case latest_by sg_created (filter (\<lambda>c. sg_monitor c = m) (ad_changes db)) of
        None \<Rightarrow> Inl AlRepoError
      | Some c \<Rightarrow> Inr c)"

definition escalation_Create ::
    "alert_faults \<Rightarrow> alert_escalation \<Rightarrow> alert_db \<Rightarrow> alert_error + alert_db" where
  "escalation_Create down e db =
     (if down EscalationCreate \<or> list_ex (\<lambda>r. es_id r = es_id e) (ad_escalations db)
         \<or> \<not> list_ex (\<lambda>a. al_id a = es_alert e) (ad_alerts db) \<or> 50 < length (es_reason e)
      then Inl AlRepoError
      else Inr (db\<lparr>ad_escalations := ad_escalations db @ [e]\<rparr>))"

definition escalation_GetLatest ::
    "alert_faults \<Rightarrow> nat \<Rightarrow> alert_db \<Rightarrow> alert_error + alert_escalation" where
  "escalation_GetLatest down a db =
     (if down EscalationLatest then Inl AlRepoError
      else case latest_by es_created (filter (\<lambda>e. es_alert e = a) (ad_escalations db)) of
        None \<Rightarrow> Inl AlRepoError
      | Some e \<Rightarrow> Inr e)"

definition mute_Create :: "alert_faults \<Rightarrow> alert_mute \<Rightarrow> alert_db \<Rightarrow> alert_error + alert_db" where
  "mute_Create down m db =
     (if down MuteCreate \<or> list_ex (\<lambda>r. mu_id r = mu_id m) (ad_mutes db) then Inl AlRepoError
      else Inr (db\<lparr>ad_mutes := ad_mutes db @ [m]\<rparr>))"

definition mute_Delete :: "alert_faults \<Rightarrow> nat \<Rightarrow> alert_db \<Rightarrow> alert_error + alert_db" where
  "mute_Delete down i db =
     (if down MuteDelete then Inl AlRepoError
      else if \<not> list_ex (\<lambda>r. mu_id r = i) (ad_mutes db) then Inl ErrAlertNotFound
      else Inr (db\<lparr>ad_mutes := del_where (\<lambda>r. mu_id r = i) (ad_mutes db)\<rparr>))"

definition mute_DeleteByUserIDAndMonitorID ::
    "alert_faults \<Rightarrow> nat \<Rightarrow> nat \<Rightarrow> alert_db \<Rightarrow> alert_error + alert_db" where
  "mute_DeleteByUserIDAndMonitorID down u m db =
     (if down MuteDelete then Inl AlRepoError
      else Inr (db\<lparr>ad_mutes := del_where (\<lambda>r. mu_user r = u \<and> mu_monitor r = Some m
             \<and> mu_scope r = MuteUser) (ad_mutes db)\<rparr>))"

definition mute_in_force :: "time \<Rightarrow> alert_mute \<Rightarrow> bool" where
  "mute_in_force now m \<longleftrightarrow> (case mu_until m of None \<Rightarrow> True | Some t \<Rightarrow> now < t)"

definition mute_DeleteExpired ::
    "alert_faults \<Rightarrow> time \<Rightarrow> alert_db \<Rightarrow> (alert_error + int) \<times> alert_db" where
  "mute_DeleteExpired down now db =
     (if down MuteDelete then (Inl AlRepoError, db)
      else (Inr (int (count_where (\<lambda>m. \<not> mute_in_force now m) (ad_mutes db))),
            db\<lparr>ad_mutes := del_where (\<lambda>m. \<not> mute_in_force now m) (ad_mutes db)\<rparr>))"

definition mute_GetActiveByUserID ::
    "alert_faults \<Rightarrow> time \<Rightarrow> nat \<Rightarrow> alert_db \<Rightarrow> alert_error + alert_mute list" where
  "mute_GetActiveByUserID down now u db =
     (if down MuteCheck then Inl AlRepoError
      else Inr (newest_first mu_created
             (filter (\<lambda>m. mu_user m = u \<and> mute_in_force now m) (ad_mutes db))))"

definition mutes_for :: "time \<Rightarrow> nat \<Rightarrow> nat \<Rightarrow> alert_mute \<Rightarrow> bool" where
  "mutes_for now u m r \<longleftrightarrow> (mu_user r = u \<or> mu_scope r = MuteGlobal)
     \<and> (mu_monitor r = Some m \<or> mu_monitor r = None) \<and> mute_in_force now r"

definition mute_IsMuted ::
    "alert_faults \<Rightarrow> time \<Rightarrow> nat \<Rightarrow> nat \<Rightarrow> alert_db \<Rightarrow> alert_error + bool" where
  "mute_IsMuted down now u m db =
     (if down MuteCheck then Inl AlRepoError
      else Inr (list_ex (mutes_for now u m) (ad_mutes db)))"

text \<open>\<open>AuditService.Log\<close>. Its callers ignore a failure, and a service without audit is one
  whose calls fail.\<close>

definition audit_Log :: "alert_faults \<Rightarrow> string \<Rightarrow> nat \<Rightarrow> alert_db \<Rightarrow> alert_db" where
  "audit_Log down action i db =
     (if down AlertAudit then db else db\<lparr>ad_audit := ad_audit db @ [(action, i)]\<rparr>)"

end
