(* ===== verification/AlertTriggering.thy ===== *)
theory AlertTriggering
  imports AlertStore
begin

text \<open>
  When alerts come into being and go: \<open>backend/alert-service/internal/service/\<close>, files
  \<open>throttling/alert_throttling_service.go\<close>, \<open>triggering/alert_triggering_service.go\<close>,
  \<open>flapping/flapping_service.go\<close>, \<open>escalation/escalation_service.go\<close> and
  \<open>mute/mute_service.go\<close>. The throttling service is what \<open>ProcessMonitorCheck\<close> takes as its
  \<open>ThrottleChecker\<close>, an interface; without one it uses a cooldown of its own. New identifiers
  are arguments. Statuses of checks are ASCII strings.
\<close>

section \<open>Interface\<close>

text \<open>
  \<open>gate cfg db\<close> decides whether an alert may be created now; the law says what both providers
  do while the table of alerts is empty.
\<close>

locale alert_gate =
  fixes gate :: "'cfg \<Rightarrow> alert_db \<Rightarrow> alert_error + bool"
    and sane :: "'cfg \<Rightarrow> bool"
  assumes gate_empty: "sane cfg \<Longrightarrow> ad_alerts db = [] \<Longrightarrow> \<exists>e. gate cfg db = Inl e"
begin

text \<open>Steps that create alerts only through the gate never create the first one.\<close>

lemma empty_for_good:
  assumes "ad_alerts db = []" and "\<forall>x \<in> set xs. sane (key x)"
    and "\<And>x db. ad_alerts db = [] \<Longrightarrow> gate (key x) db \<noteq> Inr True \<Longrightarrow> ad_alerts (step x db) = []"
  shows "ad_alerts (fold step xs db) = []"
  using assms(1,2)
proof (induction xs arbitrary: db)
  case Nil
  then show ?case by simp
next
  case (Cons x xs)
  have "gate (key x) db \<noteq> Inr True" using gate_empty [of "key x" db] Cons.prems by auto
  then show ?case using Cons assms(3) [of db x] by simp
qed

end

section \<open>Throttling\<close>

record throttle_config =
  tc_cooldown :: duration
  tc_rate_period :: duration
  tc_storm_window :: duration
  tc_storm_threshold :: int
  tc_storm_duration :: duration

datatype throttle_action = ActionDeliver | ActionQueue | ActionSuppress | ActionStorm

record throttle_result =
  th_action :: throttle_action
  th_deliver_at :: "time option"
  th_storm_group :: bool

definition checkStorm ::
    "alert_faults \<Rightarrow> time \<Rightarrow> throttle_config \<Rightarrow> alert_db \<Rightarrow> alert_error + throttle_result option" where
  "checkStorm down now cfg db =
     (case CountUniqueMonitorsWithAlertsSince down (now - tc_storm_window cfg) db of
        Inl e \<Rightarrow> Inl ThrottleFailed
      | Inr count \<Rightarrow>
          if tc_storm_threshold cfg \<le> count
          then Inr (Some \<lparr>th_action = ActionStorm, th_deliver_at = Some (now + tc_storm_duration cfg),
                 th_storm_group = True\<rparr>)
          else Inr None)"

definition checkRateLimit ::
    "alert_faults \<Rightarrow> time \<Rightarrow> throttle_config \<Rightarrow> nat \<Rightarrow> string \<Rightarrow> alert_db \<Rightarrow>
     alert_error + throttle_result option" where
  "checkRateLimit down now cfg m status db =
     (case GetLastDeliveryTimeForMonitorAndStatus down m status db of
        Inl e \<Rightarrow> Inl ThrottleFailed
      | Inr None \<Rightarrow> Inr None
      | Inr (Some t) \<Rightarrow>
          if now - t < tc_rate_period cfg
          then Inr (Some \<lparr>th_action = ActionQueue, th_deliver_at = Some (t + tc_rate_period cfg),
                 th_storm_group = False\<rparr>)
          else Inr None)"

definition checkCooldown ::
    "alert_faults \<Rightarrow> time \<Rightarrow> throttle_config \<Rightarrow> nat \<Rightarrow> alert_db \<Rightarrow>
     alert_error + throttle_result option" where
  "checkCooldown down now cfg m db =
     (case GetLastAlertTimeAnyStatus down m db of
        Inl e \<Rightarrow> Inl ThrottleFailed
      | Inr a \<Rightarrow>
          if now - al_created a < tc_cooldown cfg
          then Inr (Some \<lparr>th_action = ActionSuppress, th_deliver_at = None, th_storm_group = False\<rparr>)
          else Inr None)"

definition CheckThrottle ::
    "alert_faults \<Rightarrow> time \<Rightarrow> throttle_config \<Rightarrow> nat \<Rightarrow> string \<Rightarrow> alert_db \<Rightarrow>
     alert_error + throttle_result" where
  "CheckThrottle down now cfg m status db =
     (case checkStorm down now cfg db of
        Inl e \<Rightarrow> Inl ThrottleFailed
      | Inr (Some r) \<Rightarrow> Inr r
      | Inr None \<Rightarrow>
     (case checkRateLimit down now cfg m status db of
        Inl e \<Rightarrow> Inl ThrottleFailed
      | Inr (Some r) \<Rightarrow> Inr r
      | Inr None \<Rightarrow>
     (case checkCooldown down now cfg m db of
        Inl e \<Rightarrow> Inl ThrottleFailed
      | Inr (Some r) \<Rightarrow> Inr r
      | Inr None \<Rightarrow> Inr \<lparr>th_action = ActionDeliver, th_deliver_at = None, th_storm_group = False\<rparr>)))"

section \<open>Triggering\<close>

definition success_status :: "string \<Rightarrow> bool" where
  "success_status s \<longleftrightarrow> ascii_lower s \<in> {''success'', ''up'', ''ok'', ''healthy''}"

primrec resolve_alerts ::
    "alert_faults \<Rightarrow> time \<Rightarrow> alert list \<Rightarrow> alert_db \<Rightarrow> alert_error option \<times> alert_db" where
  "resolve_alerts down now [] db = (None, db)"
| "resolve_alerts down now (a # as) db =
     (case alert_Update down now (a\<lparr>al_status := AlertResolved, al_updated := now\<rparr>) db of
        Inl e \<Rightarrow> (Some e, db)
      | Inr db' \<Rightarrow> resolve_alerts down now as db')"

definition defaultCooldownPeriod :: duration where
  "defaultCooldownPeriod = 15 * minute"

text \<open>With a checker every answer but \<open>suppress\<close> lets the alert through.\<close>

definition throttle_gate :: "alert_error + throttle_result \<Rightarrow> alert_error + bool" where
  "throttle_gate answer = (case answer of Inl e \<Rightarrow> Inl e | Inr r \<Rightarrow> Inr (th_action r \<noteq> ActionSuppress))"

definition fallback_gate ::
    "alert_faults \<Rightarrow> time \<Rightarrow> nat \<Rightarrow> duration \<Rightarrow> alert_db \<Rightarrow> alert_error + bool" where
  "fallback_gate down now m cooldown db =
     (case GetLastAlertTimeAnyStatus down m db of
        Inl e \<Rightarrow> if e \<noteq> ErrAlertNotFound then Inl e else Inr True
      | Inr a \<Rightarrow>
          (let period = (if cooldown \<le> 0 then defaultCooldownPeriod else cooldown)
           in Inr (\<not> now - al_created a < period)))"

definition new_alert :: "nat \<Rightarrow> time \<Rightarrow> nat \<Rightarrow> nat \<Rightarrow> nat \<Rightarrow> int \<Rightarrow> alert" where
  "new_alert i now u m rule failures = \<lparr>al_id = i, al_user = u, al_monitor = m,
     al_rule = Some rule, al_status = AlertTriggered, al_type = TypeStatusCode,
     al_enabled = True, al_failures = failures, al_threshold_ms = 0, al_created = now,
     al_updated = now, al_ack = None\<rparr>"

text \<open>\<open>check\<close> is the throttle checker, when one is set. No alert is \<open>Inr None\<close>.\<close>

definition ProcessMonitorCheck ::
    "alert_faults \<Rightarrow> time \<Rightarrow> nat \<Rightarrow> duration \<Rightarrow>
     (nat \<Rightarrow> string \<Rightarrow> alert_db \<Rightarrow> alert_error + throttle_result) option \<Rightarrow>
     nat \<Rightarrow> nat \<Rightarrow> string \<Rightarrow> int \<Rightarrow> alert_db \<Rightarrow> (alert_error + alert option) \<times> alert_db" where
  "ProcessMonitorCheck down now i cooldown check u m status failures db =
     (if success_status status \<and> failures = 0 then
        (case GetActiveAlertsForMonitor down m db of
           Inl e \<Rightarrow> (Inl e, db)
         | Inr as \<Rightarrow>
             (case resolve_alerts down now as db of
                (Some e, db') \<Rightarrow> (Inl e, db')
              | (None, db') \<Rightarrow> (Inr None, db')))
      else
        (case GetByUserIDAndMonitorID down u m db of
           Inl e \<Rightarrow> (if e = ErrAlertRuleNotFound then Inr None else Inl e, db)
         | Inr rule \<Rightarrow>
             if \<not> ru_enabled rule then (Inr None, db)
             else if failures < ru_failures rule then (Inr None, db)
             else
               (case (case check of
                        Some c \<Rightarrow> throttle_gate (c m status db)
                      | None \<Rightarrow> fallback_gate down now m cooldown db) of
                  Inl e \<Rightarrow> (Inl e, db)
                | Inr False \<Rightarrow> (Inr None, db)
                | Inr True \<Rightarrow>
                    (let a = new_alert i now u m (ru_id rule) failures
                     in case alert_Create down a db of
                          Inl e \<Rightarrow> (Inl e, db)
                        | Inr db' \<Rightarrow> (Inr (Some a), db')))))"

definition CheckAlertRules ::
    "alert_faults \<Rightarrow> nat \<Rightarrow> nat \<Rightarrow> alert_db \<Rightarrow> alert_error + alert_rule list" where
  "CheckAlertRules down u m db =
     (case rule_List down u db of
        Inl e \<Rightarrow> Inl e
      | Inr rs \<Rightarrow> Inr (filter (\<lambda>r. ru_monitor r = m) rs))"

definition CreateAlert ::
    "alert_faults \<Rightarrow> alert \<Rightarrow> alert_db \<Rightarrow> (alert_error + alert) \<times> alert_db" where
  "CreateAlert down a db =
     (case alert_Create down a db of Inl e \<Rightarrow> (Inl e, db) | Inr db' \<Rightarrow> (Inr a, db'))"

definition CleanupOldResolvedAlerts ::
    "alert_faults \<Rightarrow> time \<Rightarrow> int \<Rightarrow> alert_db \<Rightarrow> alert_error option \<times> alert_db" where
  "CleanupOldResolvedAlerts down now retentionDays db =
     (case DeleteResolvedOlderThan down now (retentionDays * 24 * hour) db of
        Inl e \<Rightarrow> (Some e, db)
      | Inr db' \<Rightarrow> (None, db'))"

section \<open>Flapping\<close>

record flapping_config =
  fl_window :: duration
  fl_threshold :: int
  fl_exit :: duration

text \<open>The options replace a default only by a positive value.\<close>

definition NewFlappingService :: "duration \<Rightarrow> int \<Rightarrow> duration \<Rightarrow> flapping_config" where
  "NewFlappingService window threshold exitPeriod =
     \<lparr>fl_window = (if 0 < window then window else 10 * minute),
      fl_threshold = (if 0 < threshold then threshold else 5),
      fl_exit = (if 0 < exitPeriod then exitPeriod else 15 * minute)\<rparr>"

definition CheckFlapping ::
    "alert_faults \<Rightarrow> time \<Rightarrow> flapping_config \<Rightarrow> nat \<Rightarrow> alert_db \<Rightarrow> alert_error + (bool \<times> int)" where
  "CheckFlapping down now cfg m db =
     (case CountInWindow down now m (fl_window cfg) db of
        Inl e \<Rightarrow> Inl FlappingFailed
      | Inr count \<Rightarrow> Inr (fl_threshold cfg \<le> count, count))"

definition CheckExitFlapping ::
    "alert_faults \<Rightarrow> time \<Rightarrow> flapping_config \<Rightarrow> nat \<Rightarrow> alert_db \<Rightarrow> alert_error + bool" where
  "CheckExitFlapping down now cfg m db =
     (case change_GetLatest down m db of
        Inl e \<Rightarrow> Inl FlappingFailed
      | Inr c \<Rightarrow> Inr (fl_exit cfg \<le> now - sg_created c))"

definition flapping_alert :: "nat \<Rightarrow> time \<Rightarrow> nat \<Rightarrow> nat \<Rightarrow> alert" where
  "flapping_alert i now u m = \<lparr>al_id = i, al_user = u, al_monitor = m, al_rule = None,
     al_status = AlertTriggered, al_type = TypeFlapping, al_enabled = True, al_failures = 0,
     al_threshold_ms = 0, al_created = now, al_updated = now, al_ack = None\<rparr>"

definition createFlappingAlert ::
    "alert_faults \<Rightarrow> time \<Rightarrow> nat \<Rightarrow> nat \<Rightarrow> nat \<Rightarrow> alert_db \<Rightarrow> alert_error + alert_db" where
  "createFlappingAlert down now i u m db = alert_Create down (flapping_alert i now u m) db"

text \<open>\<open>ci\<close> and \<open>ai\<close> are the identifiers of the change and of the alert.\<close>

definition RecordStatusChange ::
    "alert_faults \<Rightarrow> time \<Rightarrow> flapping_config \<Rightarrow> nat \<Rightarrow> nat \<Rightarrow> nat \<Rightarrow> nat \<Rightarrow> string \<Rightarrow> string \<Rightarrow>
     alert_db \<Rightarrow> alert_error option \<times> alert_db" where
  "RecordStatusChange down now cfg ci ai u m old new db =
     (case change_Create down \<lparr>sg_change_id = ci, sg_monitor = m, sg_user = u, sg_old_status = old,
             sg_new_status = new, sg_created = now\<rparr> db of
        Inl e \<Rightarrow> (Some FlappingFailed, db)
      | Inr db1 \<Rightarrow>
          (case CheckFlapping down now cfg m db1 of
             Inl e \<Rightarrow> (Some FlappingFailed, db1)
           | Inr (flapping, count) \<Rightarrow>
               if flapping then
                 (let db2 = (case createFlappingAlert down now ai u m db1 of
                               Inl e \<Rightarrow> db1 | Inr db2 \<Rightarrow> db2)
                  in (None, audit_Log down ''flapping_detected'' m db2))
               else (None, db1)))"

section \<open>Escalation\<close>

definition GetEscalationLevel ::
    "alert_faults \<Rightarrow> nat \<Rightarrow> alert_db \<Rightarrow> alert_error + int" where
  "GetEscalationLevel down a db =
     (case escalation_GetLatest down a db of
        Inl e \<Rightarrow> Inl EscalationFailed
      | Inr e \<Rightarrow> Inr (es_level e))"

definition Escalate ::
    "alert_faults \<Rightarrow> time \<Rightarrow> duration \<Rightarrow> nat \<Rightarrow> nat \<Rightarrow> string \<Rightarrow> alert_db \<Rightarrow>
     alert_error option \<times> alert_db" where
  "Escalate down now timeout i a reason db =
     (case GetEscalationLevel down a db of
        Inl e \<Rightarrow> (Some EscalationFailed, db)
      | Inr level \<Rightarrow>
          (case escalation_Create down \<lparr>es_id = i, es_alert = a, es_level = level + 1,
                  es_reason = reason, es_timeout = timeout div minute, es_created = now\<rparr> db of
             Inl e \<Rightarrow> (Some EscalationFailed, db)
           | Inr db' \<Rightarrow> (None, audit_Log down ''alert_retriggered'' i db')))"

text \<open>\<open>new_id k\<close> is the identifier drawn for the \<open>k\<close>-th alert of the list.\<close>

primrec escalate_loop ::
    "alert_faults \<Rightarrow> time \<Rightarrow> duration \<Rightarrow> (nat \<Rightarrow> nat) \<Rightarrow> nat \<Rightarrow> alert list \<Rightarrow> alert_db \<Rightarrow> alert_db" where
  "escalate_loop down now timeout new_id k [] db = db"
| "escalate_loop down now timeout new_id k (a # as) db =
     escalate_loop down now timeout new_id (Suc k) as
       (if al_status a \<noteq> AlertTriggered \<or> now - timeout < al_created a then db
        else snd (Escalate down now timeout (new_id k) (al_id a)
               ''auto escalation: acknowledgement timeout exceeded'' db))"

definition CheckAutoEscalation ::
    "alert_faults \<Rightarrow> time \<Rightarrow> duration \<Rightarrow> (nat \<Rightarrow> nat) \<Rightarrow> alert_db \<Rightarrow> alert_error option \<times> alert_db" where
  "CheckAutoEscalation down now timeout new_id db =
     (case ListActiveByMonitorID down None db of
        Inl e \<Rightarrow> (Some EscalationFailed, db)
      | Inr as \<Rightarrow> (None, escalate_loop down now timeout new_id 0 as db))"

section \<open>Mutes\<close>

definition MuteForUser ::
    "alert_faults \<Rightarrow> time \<Rightarrow> nat \<Rightarrow> nat \<Rightarrow> nat \<Rightarrow> time option \<Rightarrow> alert_db \<Rightarrow>
     alert_error option \<times> alert_db" where
  "MuteForUser down now i u m mutedUntil db =
     (case mute_Create down \<lparr>mu_id = i, mu_user = u, mu_monitor = Some m, mu_scope = MuteUser,
             mu_until = mutedUntil, mu_created = now, mu_created_by = u\<rparr> db of
        Inl e \<Rightarrow> (Some MuteFailed, db)
      | Inr db' \<Rightarrow> (None, audit_Log down ''alerts_muted_global'' i db'))"

definition MuteGlobally ::
    "bool \<Rightarrow> alert_faults \<Rightarrow> time \<Rightarrow> nat \<Rightarrow> nat \<Rightarrow> nat \<Rightarrow> time option \<Rightarrow> alert_db \<Rightarrow>
     alert_error option \<times> alert_db" where
  "MuteGlobally admin down now i u m mutedUntil db =
     (if \<not> admin then (Some ErrForbidden, db)
      else case mute_Create down \<lparr>mu_id = i, mu_user = u, mu_monitor = Some m, mu_scope = MuteGlobal,
             mu_until = mutedUntil, mu_created = now, mu_created_by = u\<rparr> db of
        Inl e \<Rightarrow> (Some MuteFailed, db)
      | Inr db' \<Rightarrow> (None, audit_Log down ''alerts_muted_global'' i db'))"

definition Unmute :: "alert_faults \<Rightarrow> nat \<Rightarrow> alert_db \<Rightarrow> alert_error option \<times> alert_db" where
  "Unmute down i db =
     (case mute_Delete down i db of Inl e \<Rightarrow> (Some MuteFailed, db) | Inr db' \<Rightarrow> (None, db'))"

definition IsMuted :: "alert_faults \<Rightarrow> time \<Rightarrow> nat \<Rightarrow> nat \<Rightarrow> alert_db \<Rightarrow> alert_error + bool" where
  "IsMuted down now u m db =
     (case mute_IsMuted down now u m db of Inl e \<Rightarrow> Inl MuteFailed | Inr b \<Rightarrow> Inr b)"

definition UnmuteForUser ::
    "alert_faults \<Rightarrow> nat \<Rightarrow> nat \<Rightarrow> alert_db \<Rightarrow> alert_error option \<times> alert_db" where
  "UnmuteForUser down u m db =
     (case mute_DeleteByUserIDAndMonitorID down u m db of
        Inl e \<Rightarrow> (Some MuteFailed, db) | Inr db' \<Rightarrow> (None, db'))"

definition ProcessExpiredMutes ::
    "alert_faults \<Rightarrow> time \<Rightarrow> alert_db \<Rightarrow> alert_error option \<times> alert_db" where
  "ProcessExpiredMutes down now db =
     (case mute_DeleteExpired down now db of
        (Inl e, db') \<Rightarrow> (Some MuteFailed, db') | (Inr n, db') \<Rightarrow> (None, db'))"

definition GetActiveMutes ::
    "alert_faults \<Rightarrow> time \<Rightarrow> nat \<Rightarrow> alert_db \<Rightarrow> alert_error + alert_mute list" where
  "GetActiveMutes down now u db =
     (case mute_GetActiveByUserID down now u db of Inl e \<Rightarrow> Inl MuteFailed | Inr ms \<Rightarrow> Inr ms)"

section \<open>The first alert\<close>

lemma empty_GetLast: "ad_alerts db = [] \<Longrightarrow> GetLastAlertTimeAnyStatus down m db = Inl AlRepoError"
  by (simp add: GetLastAlertTimeAnyStatus_def)

interpretation fallback: alert_gate
    "\<lambda>(down, now, m, cooldown) db. fallback_gate down now m cooldown db" "\<lambda>_. True"
  by unfold_locales (auto simp: fallback_gate_def empty_GetLast)

lemma empty_CheckThrottle:
  assumes "ad_alerts db = []" and "0 < tc_storm_threshold cfg"
  shows "CheckThrottle down now cfg m status db = Inl ThrottleFailed"
  using assms by (auto simp: CheckThrottle_def checkStorm_def CountUniqueMonitorsWithAlertsSince_def
      checkRateLimit_def GetLastDeliveryTimeForMonitorAndStatus_def latest_by_def newest_first_def
      checkCooldown_def empty_GetLast)

interpretation throttled: alert_gate
    "\<lambda>(down, now, cfg, m, status) db. throttle_gate (CheckThrottle down now cfg m status db)"
    "\<lambda>(down, now, cfg, m, status). 0 < tc_storm_threshold cfg"
  by unfold_locales (auto simp: throttle_gate_def empty_CheckThrottle)

text \<open>The results of checks, one after the other, with or without the throttling service.\<close>

record check_event =
  ev_down :: alert_faults
  ev_now :: time
  ev_id :: nat
  ev_user :: nat
  ev_monitor :: nat
  ev_status :: string
  ev_failures :: int

definition process_event ::
    "throttle_config option \<Rightarrow> duration \<Rightarrow> check_event \<Rightarrow> alert_db \<Rightarrow>
     (alert_error + alert option) \<times> alert_db" where
  "process_event tc cooldown e = ProcessMonitorCheck (ev_down e) (ev_now e) (ev_id e) cooldown
     (map_option (CheckThrottle (ev_down e) (ev_now e)) tc)
     (ev_user e) (ev_monitor e) (ev_status e) (ev_failures e)"

definition process_events ::
    "throttle_config option \<Rightarrow> duration \<Rightarrow> check_event list \<Rightarrow> alert_db \<Rightarrow> alert_db" where
  "process_events tc cooldown es db = fold (\<lambda>e db. snd (process_event tc cooldown e db)) es db"

definition event_gate ::
    "throttle_config option \<Rightarrow> duration \<Rightarrow> check_event \<Rightarrow> alert_db \<Rightarrow> alert_error + bool" where
  "event_gate tc cooldown e db = (case tc of
     Some cfg \<Rightarrow> throttle_gate (CheckThrottle (ev_down e) (ev_now e) cfg (ev_monitor e) (ev_status e) db)
   | None \<Rightarrow> fallback_gate (ev_down e) (ev_now e) (ev_monitor e) cooldown db)"

lemma resolve_alerts_Nil: "ad_alerts db = [] \<Longrightarrow> ad_alerts (snd (resolve_alerts down now as db)) = []"
  by (cases as) (auto simp: alert_Update_def)

lemma process_event_closed:
  assumes "ad_alerts db = []" and "event_gate tc cooldown e db \<noteq> Inr True"
  shows "ad_alerts (snd (process_event tc cooldown e db)) = []"
  using assms resolve_alerts_Nil
  by (auto simp: process_event_def ProcessMonitorCheck_def event_gate_def Let_def
      split: option.splits sum.splits bool.splits prod.splits)
     (metis snd_conv)+

text \<open>A result that should raise an alert: of a failing check, with an enabled rule whose
  threshold is reached.\<close>

definition raises_alert :: "check_event \<Rightarrow> alert_db \<Rightarrow> bool" where
  "raises_alert e db \<longleftrightarrow> \<not> success_status (ev_status e) \<and>
     (case GetByUserIDAndMonitorID (ev_down e) (ev_user e) (ev_monitor e) db of
        Inl err \<Rightarrow> False
      | Inr rule \<Rightarrow> ru_enabled rule \<and> ru_failures rule \<le> ev_failures e)"

lemma process_event_stuck:
  assumes "event_gate tc cooldown e db = Inl err" and "raises_alert e db"
  shows "process_event tc cooldown e db = (Inl err, db)"
  using assms by (auto simp: process_event_def ProcessMonitorCheck_def event_gate_def raises_alert_def
      split: option.splits sum.splits)

definition positive_storm_threshold :: "throttle_config option \<Rightarrow> bool" where
  "positive_storm_threshold tc \<longleftrightarrow> (case tc of None \<Rightarrow> True | Some cfg \<Rightarrow> 0 < tc_storm_threshold cfg)"

lemma event_gate_empty:
  assumes "positive_storm_threshold tc" and "ad_alerts db = []"
  shows "\<exists>err. event_gate tc cooldown e db = Inl err"
  using assms by (auto simp: event_gate_def positive_storm_threshold_def throttle_gate_def
      empty_CheckThrottle fallback_gate_def empty_GetLast split: option.splits)

lemma process_events_empty:
  assumes "ad_alerts db = []" and "positive_storm_threshold tc"
  shows "ad_alerts (process_events tc cooldown es db) = []"
proof (cases tc)
  case None
  show ?thesis unfolding process_events_def
    by (rule fallback.empty_for_good [where key = "\<lambda>e. (ev_down e, ev_now e, ev_monitor e, cooldown)"])
       (use assms None process_event_closed in \<open>auto simp: event_gate_def\<close>)
next
  case (Some c)
  show ?thesis unfolding process_events_def
    by (rule throttled.empty_for_good
          [where key = "\<lambda>e. (ev_down e, ev_now e, c, ev_monitor e, ev_status e)"])
       (use assms Some process_event_closed in
         \<open>auto simp: event_gate_def positive_storm_threshold_def\<close>)
qed

text \<open>
  Property C16. An alert service that starts with no alerts never creates one from the results of
  checks: \<open>GetLastAlertTimeAnyStatus\<close> reports the missing row as an error, the cooldown check
  takes it for a failure, and so every result that should raise the first alert ends in an
  error. This holds with the throttling service, when its storm threshold is positive, and
  without it.
\<close>
theorem first_alert_never_created:
  assumes "ad_alerts db = []" and "positive_storm_threshold tc"
  shows "let db' = process_events tc cooldown es db
    in ad_alerts db' = [] \<and>
       (raises_alert e db' \<longrightarrow> (\<exists>err. process_event tc cooldown e db' = (Inl err, db')))"
  using process_events_empty [OF assms] event_gate_empty [OF assms(2)] process_event_stuck
  by (fastforce simp: Let_def)

definition demo_rule :: alert_rule where
  "demo_rule = \<lparr>ru_id = 3, ru_user = 1, ru_monitor = 2, ru_enabled = True, ru_failures = 2,
     ru_created = 0, ru_updated = 0\<rparr>"

definition no_alerts_db :: alert_db where
  "no_alerts_db = \<lparr>ad_alerts = [], ad_rules = [demo_rule], ad_channels = [], ad_attempts = [],
     ad_changes = [], ad_escalations = [], ad_mutes = [], ad_audit = []\<rparr>"

definition demo_event :: check_event where
  "demo_event = \<lparr>ev_down = (\<lambda>_. False), ev_now = 100 * hour, ev_id = 9, ev_user = 1, ev_monitor = 2,
     ev_status = ''down'', ev_failures = 7\<rparr>"

theorem first_alert_never_created_witness:
  "\<exists>err. process_event None 0 demo_event no_alerts_db = (Inl err, no_alerts_db)"
  using first_alert_never_created [of no_alerts_db None 0 "[]" demo_event]
  by (simp add: no_alerts_db_def demo_event_def demo_rule_def positive_storm_threshold_def
      process_events_def raises_alert_def GetByUserIDAndMonitorID_def success_status_def
      ascii_lower_def Let_def)

section \<open>When an alert is created\<close>

text \<open>The newest delivery for an alert of the monitor whose status is the check's.\<close>

definition throttle_open ::
    "throttle_config \<Rightarrow> time \<Rightarrow> nat \<Rightarrow> string \<Rightarrow> alert \<Rightarrow> alert_db \<Rightarrow> bool" where
  "throttle_open cfg now m status lst db \<longleftrightarrow>
     tc_storm_threshold cfg \<le>
       int (card (al_monitor ` {a \<in> set (ad_alerts db). now - tc_storm_window cfg < al_created a})) \<or>
     (\<exists>t \<in> set (ad_attempts db). now - at_created t < tc_rate_period cfg \<and>
        (\<exists>a \<in> set (ad_alerts db). al_id a = at_alert t \<and> al_monitor a = m \<and>
           alert_status_string (al_status a) = status)) \<or>
     tc_cooldown cfg \<le> now - al_created lst"

lemma recent_latest_by:
  assumes "latest_by k rs = Some r"
  shows "now - k r < p \<longleftrightarrow> (\<exists>x \<in> set rs. now - k x < (p::int))"
  using latest_by_Some [OF assms] by fastforce

lemma rate_limited_iff:
  assumes "\<And>x. \<not> down x"
  shows "(\<exists>r. checkRateLimit down now cfg m status db = Inr (Some r)) \<longleftrightarrow>
      (\<exists>t \<in> set (ad_attempts db). now - at_created t < tc_rate_period cfg \<and>
        (\<exists>a \<in> set (ad_alerts db). al_id a = at_alert t \<and> al_monitor a = m \<and>
           alert_status_string (al_status a) = status))"
    and "checkRateLimit down now cfg m status db = Inr (Some r) \<Longrightarrow> th_action r = ActionQueue"
    and "checkRateLimit down now cfg m status db \<noteq> Inl e"
proof -
  let ?rows = "filter (\<lambda>t. list_ex (\<lambda>a. al_id a = at_alert t \<and> al_monitor a = m
      \<and> alert_status_string (al_status a) = status) (ad_alerts db)) (ad_attempts db)"
  have r: "checkRateLimit down now cfg m status db = Inr (case latest_by at_created ?rows of
      None \<Rightarrow> None
    | Some t \<Rightarrow> if now - at_created t < tc_rate_period cfg then Some \<lparr>th_action = ActionQueue,
        th_deliver_at = Some (at_created t + tc_rate_period cfg), th_storm_group = False\<rparr> else None)"
    using assms by (auto simp: checkRateLimit_def GetLastDeliveryTimeForMonitorAndStatus_def
        split: option.split)
  show "(\<exists>r. checkRateLimit down now cfg m status db = Inr (Some r)) \<longleftrightarrow>
      (\<exists>t \<in> set (ad_attempts db). now - at_created t < tc_rate_period cfg \<and>
        (\<exists>a \<in> set (ad_alerts db). al_id a = at_alert t \<and> al_monitor a = m \<and>
           alert_status_string (al_status a) = status))"
  proof (cases "latest_by at_created ?rows")
    case None
    then have "?rows = []" by (simp only: latest_by_None)
    then show ?thesis unfolding r None by (auto simp: filter_empty_conv list_ex_iff)
  next
    case (Some t)
    then show ?thesis unfolding r using recent_latest_by [OF Some, of now "tc_rate_period cfg"]
      by (auto simp: list_ex_iff)
  qed
  show "checkRateLimit down now cfg m status db = Inr (Some r) \<Longrightarrow> th_action r = ActionQueue"
    unfolding r by (auto split: option.splits if_splits)
  show "checkRateLimit down now cfg m status db \<noteq> Inl e" unfolding r by simp
qed

lemma throttle_gate_iff:
  assumes "\<And>x. \<not> down x"
    and "latest_by al_created (filter (\<lambda>a. al_monitor a = m) (ad_alerts db)) = Some lst"
  shows "throttle_gate (CheckThrottle down now cfg m status db)
      = Inr (throttle_open cfg now m status lst db)"
proof -
  have count: "int (length (remdups (map al_monitor (filter (\<lambda>a. now - tc_storm_window cfg < al_created a)
      (ad_alerts db))))) = int (card (al_monitor ` {a \<in> set (ad_alerts db).
        now - tc_storm_window cfg < al_created a}))"
    by (simp add: length_remdups_card_conv)
  have cool: "checkCooldown down now cfg m db = Inr (if now - al_created lst < tc_cooldown cfg
      then Some \<lparr>th_action = ActionSuppress, th_deliver_at = None, th_storm_group = False\<rparr> else None)"
    using assms by (simp add: checkCooldown_def GetLastAlertTimeAnyStatus_def alert_columns_def)
  show ?thesis
  proof (cases "checkRateLimit down now cfg m status db")
    case (Inl e)
    then show ?thesis using rate_limited_iff(3) [where down = down, OF assms(1)] by blast
  next
    case (Inr r)
    have "(r \<noteq> None) \<longleftrightarrow> (\<exists>t \<in> set (ad_attempts db). now - at_created t < tc_rate_period cfg \<and>
        (\<exists>a \<in> set (ad_alerts db). al_id a = at_alert t \<and> al_monitor a = m \<and>
           alert_status_string (al_status a) = status))"
      using rate_limited_iff(1) [where down = down, OF assms(1), of now cfg m status db] Inr by auto
    moreover have "r = Some x \<Longrightarrow> th_action x = ActionQueue" for x
      using rate_limited_iff(2) [where down = down, OF assms(1)] Inr by blast
    ultimately show ?thesis using assms(1) Inr cool count
      by (cases r) (auto simp: throttle_gate_def CheckThrottle_def checkStorm_def throttle_open_def
          CountUniqueMonitorsWithAlertsSince_def)
  qed
qed

lemma fallback_gate_iff:
  assumes "\<And>x. \<not> down x"
    and "latest_by al_created (filter (\<lambda>a. al_monitor a = m) (ad_alerts db)) = Some lst"
  shows "fallback_gate down now m cooldown db
      = Inr ((if cooldown \<le> 0 then 15 * minute else cooldown) \<le> now - al_created lst)"
  using assms by (auto simp: fallback_gate_def GetLastAlertTimeAnyStatus_def alert_columns_def
      defaultCooldownPeriod_def Let_def)

text \<open>
  Property C17. Once the monitor has had an alert, \<open>lst\<close> the newest, and when no statement fails, a failing
  check creates an alert exactly when its rule is enabled, the threshold is reached and, without a throttling
  service, the cooldown since \<open>lst\<close> is over; with one, when the cooldown is over or a storm is on
  or a delivery is recent: \<open>storm_group\<close> and \<open>queue\<close>, meant to hold alerts back, let them through and
  lift the cooldown. Otherwise nothing changes.
\<close>
theorem alert_created_iff:
  assumes "\<And>x. \<not> down x" and "\<not> (success_status status \<and> failures = 0)"
    and "latest_by al_created (filter (\<lambda>a. al_monitor a = m) (ad_alerts db)) = Some lst"
    and "GetByUserIDAndMonitorID down u m db = Inr rule"
    and "i \<notin> al_id ` set (ad_alerts db)"
  shows "ProcessMonitorCheck down now i cooldown (map_option (CheckThrottle down now) tc) u m status failures db =
     (if ru_enabled rule \<and> ru_failures rule \<le> failures \<and>
         (case tc of
            None \<Rightarrow> (if cooldown \<le> 0 then 15 * minute else cooldown) \<le> now - al_created lst
          | Some cfg \<Rightarrow> throttle_open cfg now m status lst db)
      then (let a = new_alert i now u m (ru_id rule) failures
            in (Inr (Some a), db\<lparr>ad_alerts := ad_alerts db @ [a]\<rparr>))
      else (Inr None, db))"
proof -
  let ?a = "new_alert i now u m (ru_id rule) failures"
  have "rule \<in> set (ad_rules db)"
    using assms(1,4) by (auto simp: GetByUserIDAndMonitorID_def split: option.splits dest: find_Some_inD)
  then have "alert_Create down ?a db = Inr (db\<lparr>ad_alerts := ad_alerts db @ [?a]\<rparr>)"
    using assms(1,5) by (auto simp: alert_Create_def new_alert_def list_ex_iff)
  then show ?thesis using assms(2,4)
    by (cases tc) (auto simp: ProcessMonitorCheck_def Let_def throttle_gate_iff [where down = down, OF assms(1,3)]
        fallback_gate_iff [where down = down, OF assms(1,3)] split: bool.split)
qed

definition one_alert_db :: alert_db where
  "one_alert_db = no_alerts_db\<lparr>ad_alerts := [new_alert 8 0 1 2 3 2]\<rparr>"

definition stormy :: throttle_config where
  "stormy = \<lparr>tc_cooldown = 15 * minute, tc_rate_period = 5 * minute, tc_storm_window = 5 * minute,
     tc_storm_threshold = 1, tc_storm_duration = 15 * minute\<rparr>"

text \<open>
  A minute after the last alert, in the cooldown: without a throttling service there is no alert, with
  one there is, as a storm is on. After the cooldown there is one in any case.
\<close>

theorem alert_created_iff_witness:
  "length (ad_alerts (snd (ProcessMonitorCheck (\<lambda>_. False) (100 * hour) 9 0
     (map_option (CheckThrottle (\<lambda>_. False) (100 * hour)) None) 1 2 ''down'' 7 one_alert_db))) = 2 \<and>
   length (ad_alerts (snd (ProcessMonitorCheck (\<lambda>_. False) minute 9 0
     (map_option (CheckThrottle (\<lambda>_. False) minute) None) 1 2 ''down'' 7 one_alert_db))) = 1 \<and>
   length (ad_alerts (snd (ProcessMonitorCheck (\<lambda>_. False) minute 9 0
     (map_option (CheckThrottle (\<lambda>_. False) minute) (Some stormy)) 1 2 ''down'' 7 one_alert_db))) = 2"
proof -
  have l: "latest_by al_created (filter (\<lambda>a. al_monitor a = 2) (ad_alerts one_alert_db))
      = Some (new_alert 8 0 1 2 3 2)"
    by (simp add: one_alert_db_def new_alert_def latest_by_def newest_first_def)
  have r: "GetByUserIDAndMonitorID (\<lambda>_. False) 1 2 one_alert_db = Inr demo_rule"
    by (simp add: one_alert_db_def no_alerts_db_def demo_rule_def GetByUserIDAndMonitorID_def)
  have i: "9 \<notin> al_id ` set (ad_alerts one_alert_db)"
    by (simp add: one_alert_db_def new_alert_def)
  have n: "length (ad_alerts one_alert_db) = 1" by (simp add: one_alert_db_def)
  have storm: "throttle_open stormy minute 2 ''down'' (new_alert 8 0 1 2 3 2) one_alert_db"
  proof -
    have "{a \<in> set (ad_alerts one_alert_db). minute - tc_storm_window stormy < al_created a} = {new_alert 8 0 1 2 3 2}"
      by (auto simp: one_alert_db_def new_alert_def stormy_def)
    then show ?thesis by (simp add: throttle_open_def stormy_def)
  qed
  note created = alert_created_iff [where down = "\<lambda>_. False" and i = 9 and cooldown = 0, OF _ _ l r i]
  show ?thesis
    by (subst (1 2 3) created) (use storm n in \<open>simp_all add: demo_rule_def Let_def new_alert_def\<close>)
qed

section \<open>Recovery\<close>

text \<open>The rows that a recovery has reached so far are those of the identifiers \<open>S\<close>.\<close>

definition resolved :: "time \<Rightarrow> alert \<Rightarrow> alert" where
  "resolved now a = a\<lparr>al_status := AlertResolved, al_updated := now\<rparr>"

lemma alert_Update_resolves:
  assumes "distinct (map al_id R)" and "r \<in> set R" and "\<not> down (AlertUpdate (al_id r))"
    and "ad_alerts db = upd_where (\<lambda>x. al_id x \<in> S) (resolved now) R" and "al_id r \<notin> S"
  shows "alert_Update down now ((alert_columns r)\<lparr>al_status := AlertResolved, al_updated := now\<rparr>) db =
    Inr (db\<lparr>ad_alerts := upd_where (\<lambda>x. al_id x \<in> insert (al_id r) S) (resolved now) R\<rparr>)"
proof -
  have same: "x = r" if "x \<in> set R" "al_id x = al_id r" for x
    using assms(1,2) that by (auto simp: distinct_map inj_on_def)
  have eq: "set_alert_columns now ((alert_columns r)\<lparr>al_status := AlertResolved, al_updated := now\<rparr>) r
      = resolved now r"
    by (cases r) (simp add: set_alert_columns_def alert_columns_def resolved_def)
  have "upd_where (\<lambda>x. al_id x = al_id r)
      (set_alert_columns now ((alert_columns r)\<lparr>al_status := AlertResolved, al_updated := now\<rparr>))
      (upd_where (\<lambda>x. al_id x \<in> S) (resolved now) R)
    = upd_where (\<lambda>x. al_id x \<in> insert (al_id r) S) (resolved now) R"
    using assms(5) same eq by (auto simp: upd_where_def resolved_def)
  moreover have "map al_id (ad_alerts db) = map al_id R"
    using assms(4) by (simp add: resolved_def)
  then have "al_id r \<in> al_id ` set (ad_alerts db)"
    using assms(2) by (metis image_eqI set_map)
  then have "list_ex (\<lambda>x. al_id x = al_id r) (ad_alerts db)" by (auto simp: list_ex_iff)
  ultimately show ?thesis using assms(3,4) by (simp add: alert_Update_def alert_columns_def)
qed

lemma resolve_alerts_all:
  assumes "distinct (map al_id R)" and "set xs \<subseteq> set R" and "distinct (map al_id xs)"
    and "\<And>x. \<not> down x" and "ad_alerts db = upd_where (\<lambda>x. al_id x \<in> S) (resolved now) R"
    and "S \<inter> al_id ` set xs = {}"
  shows "resolve_alerts down now (map alert_columns xs) db =
    (None, db\<lparr>ad_alerts := upd_where (\<lambda>x. al_id x \<in> S \<union> al_id ` set xs) (resolved now) R\<rparr>)"
  using assms
proof (induction xs arbitrary: db S)
  case Nil
  then show ?case by simp
next
  case (Cons x xs)
  let ?db = "db\<lparr>ad_alerts := upd_where (\<lambda>y. al_id y \<in> insert (al_id x) S) (resolved now) R\<rparr>"
  have "resolve_alerts down now (map alert_columns xs) ?db = (None, ?db\<lparr>ad_alerts :=
      upd_where (\<lambda>y. al_id y \<in> insert (al_id x) S \<union> al_id ` set xs) (resolved now) R\<rparr>)"
    using Cons.prems by (intro Cons.IH) auto
  moreover have "insert (al_id x) S \<union> al_id ` set xs = S \<union> al_id ` set (x # xs)" by auto
  moreover have "alert_Update down now
      ((alert_columns x)\<lparr>al_status := AlertResolved, al_updated := now\<rparr>) db = Inr ?db"
    using Cons.prems by (intro alert_Update_resolves) auto
  ultimately show ?case by simp
qed

text \<open>
  A successful check without failures resolves every triggered and acknowledged
  alert of its monitor, in one pass, and changes no other row of any table.
\<close>
theorem recovery_resolves_all:
  assumes "\<And>x. \<not> down x" and "success_status status" and "distinct (map al_id (ad_alerts db))"
  shows "ProcessMonitorCheck down now i cooldown check u m status 0 db =
    (Inr None, db\<lparr>ad_alerts := upd_where (active_alert m) (resolved now) (ad_alerts db)\<rparr>)"
proof -
  let ?xs = "newest_first al_created (filter (active_alert m) (ad_alerts db))"
  have "distinct (map al_id ?xs)"
    using assms(3) by (auto simp: newest_first_def rev_map [symmetric] distinct_map intro: inj_on_subset)
  then have "resolve_alerts down now (map alert_columns ?xs) db = (None, db\<lparr>ad_alerts :=
      upd_where (\<lambda>x. al_id x \<in> {} \<union> al_id ` set ?xs) (resolved now) (ad_alerts db)\<rparr>)"
    using assms(1,3) by (intro resolve_alerts_all) auto
  moreover have "upd_where (\<lambda>x. al_id x \<in> {} \<union> al_id ` set ?xs) (resolved now) (ad_alerts db)
      = upd_where (active_alert m) (resolved now) (ad_alerts db)"
    using assms(3) by (auto simp: upd_where_def distinct_map inj_on_def)
  ultimately show ?thesis
    using assms(1,2) by (simp add: ProcessMonitorCheck_def GetActiveAlertsForMonitor_def)
qed

theorem recovery_resolves_all_witness:
  "map al_status (ad_alerts (snd (ProcessMonitorCheck (\<lambda>_. False) 5 9 0 None 1 2 ''UP'' 0 one_alert_db)))
    = [AlertResolved]"
proof -
  have "success_status ''UP''" by code_simp
  then show ?thesis
    using recovery_resolves_all [of "\<lambda>_. False" "''UP''" one_alert_db 5 9 0 None 1 2]
    by (simp add: one_alert_db_def new_alert_def active_alert_def upd_where_def resolved_def)
qed

section \<open>Flapping\<close>

text \<open>A change of a monitor's status: the time, the identifiers drawn, old and new status.\<close>

type_synonym change_event = "time \<times> nat \<times> nat \<times> string \<times> string"

fun change_row :: "nat \<Rightarrow> nat \<Rightarrow> change_event \<Rightarrow> status_change" where
  "change_row u m (now, ci, ai, old, new) = \<lparr>sg_change_id = ci, sg_monitor = m, sg_user = u,
     sg_old_status = old, sg_new_status = new, sg_created = now\<rparr>"

fun record_change ::
    "alert_faults \<Rightarrow> flapping_config \<Rightarrow> nat \<Rightarrow> nat \<Rightarrow> change_event \<Rightarrow> alert_db \<Rightarrow> alert_db" where
  "record_change down cfg u m (now, ci, ai, old, new) db =
     snd (RecordStatusChange down now cfg ci ai u m old new db)"

fun flap_row :: "nat \<Rightarrow> nat \<Rightarrow> change_event \<Rightarrow> alert" where
  "flap_row u m (now, ci, ai, old, new) = flapping_alert ai now u m"

definition fresh_changes :: "change_event list \<Rightarrow> alert_db \<Rightarrow> bool" where
  "fresh_changes es db \<longleftrightarrow>
     distinct (map (\<lambda>e. fst (snd e)) es) \<and> distinct (map (\<lambda>e. fst (snd (snd e))) es) \<and>
     (\<forall>e \<in> set es. fst (snd e) \<notin> sg_change_id ` set (ad_changes db) \<and>
        fst (snd (snd e)) \<notin> al_id ` set (ad_alerts db))"

lemma audit_Log_frame [simp]:
  "ad_alerts (audit_Log down x i db) = ad_alerts db"
  "ad_changes (audit_Log down x i db) = ad_changes db"
  "ad_escalations (audit_Log down x i db) = ad_escalations db"
  "ad_mutes (audit_Log down x i db) = ad_mutes db"
  by (simp_all add: audit_Log_def)

lemma count_all: "\<forall>x \<in> set xs. p x \<Longrightarrow> count_where p xs = length xs"
  by (simp add: count_where_def)

text \<open>One change with all its predecessors in the window.\<close>

lemma record_change_step:
  assumes "\<And>x. \<not> down x" and "ci \<notin> sg_change_id ` set (ad_changes db)"
    and "ai \<notin> al_id ` set (ad_alerts db)"
    and "count_where (\<lambda>c. sg_monitor c = m \<and> now - fl_window cfg < sg_created c) (ad_changes db) = n"
    and "0 < fl_window cfg"
  shows "ad_changes (record_change down cfg u m (now, ci, ai, old, new) db)
      = ad_changes db @ [change_row u m (now, ci, ai, old, new)]"
    and "ad_alerts (record_change down cfg u m (now, ci, ai, old, new) db)
      = ad_alerts db @ (if fl_threshold cfg \<le> int n + 1 then [flapping_alert ai now u m] else [])"
proof -
  let ?db = "db\<lparr>ad_changes := ad_changes db @ [change_row u m (now, ci, ai, old, new)]\<rparr>"
  have "change_Create down (change_row u m (now, ci, ai, old, new)) db = Inr ?db"
    using assms(1,2) by (auto simp: change_Create_def list_ex_iff)
  moreover have "CheckFlapping down now cfg m ?db = Inr (fl_threshold cfg \<le> int n + 1, int n + 1)"
    using assms(1,4,5) by (simp add: CheckFlapping_def CountInWindow_def add.commute)
  moreover have "createFlappingAlert down now ai u m ?db
      = Inr (?db\<lparr>ad_alerts := ad_alerts db @ [flapping_alert ai now u m]\<rparr>)"
    using assms(1,3) by (auto simp: createFlappingAlert_def alert_Create_def flapping_alert_def list_ex_iff)
  ultimately show "ad_changes (record_change down cfg u m (now, ci, ai, old, new) db)
      = ad_changes db @ [change_row u m (now, ci, ai, old, new)]"
    and "ad_alerts (record_change down cfg u m (now, ci, ai, old, new) db)
      = ad_alerts db @ (if fl_threshold cfg \<le> int n + 1 then [flapping_alert ai now u m] else [])"
    by (simp_all add: RecordStatusChange_def)
qed

text \<open>
  Of the status changes of one monitor within one window, the one that reaches the
  threshold and every later one create a flapping alert each: no earlier alert is looked for.
\<close>
theorem flapping_alert_for_every_change:
  assumes "\<And>x. \<not> down x" and "fresh_changes es db" and "0 < fl_window cfg" and "0 < fl_threshold cfg"
    and "\<forall>c \<in> set (ad_changes db). sg_monitor c \<noteq> m"
    and "\<forall>e \<in> set es. \<forall>e' \<in> set es. fst e - fl_window cfg < fst e'"
  shows "ad_alerts (fold (record_change down cfg u m) es db)
    = ad_alerts db @ map (flap_row u m) (drop (nat (fl_threshold cfg) - 1) es)"
proof -
  have "ad_changes (fold (record_change down cfg u m) es db) = ad_changes db @ map (change_row u m) es \<and>
      ad_alerts (fold (record_change down cfg u m) es db)
        = ad_alerts db @ map (flap_row u m) (drop (nat (fl_threshold cfg) - 1) es)"
    using assms(2,6)
  proof (induction es rule: rev_induct)
    case Nil
    then show ?case by simp
  next
    case (snoc e es)
    obtain now ci ai old new where e: "e = (now, ci, ai, old, new)" by (cases e)
    let ?db = "fold (record_change down cfg u m) es db"
    have IH: "ad_changes ?db = ad_changes db @ map (change_row u m) es"
      "ad_alerts ?db = ad_alerts db @ map (flap_row u m) (drop (nat (fl_threshold cfg) - 1) es)"
      using snoc by (auto simp: fresh_changes_def)
    have ids: "sg_change_id (change_row u m x) = fst (snd x)" "al_id (flap_row u m x) = fst (snd (snd x))"
      "sg_monitor (change_row u m x) = m" "sg_created (change_row u m x) = fst x" for x
      by (cases x; simp add: flapping_alert_def)+
    have "sg_change_id ` set (ad_changes ?db)
        = sg_change_id ` set (ad_changes db) \<union> (\<lambda>e. fst (snd e)) ` set es"
      "al_id ` set (ad_alerts ?db)
        \<subseteq> al_id ` set (ad_alerts db) \<union> (\<lambda>e. fst (snd (snd e))) ` set es"
      by (auto simp only: IH set_append set_map image_Un image_image ids dest: in_set_dropD)
    moreover have "ci \<notin> sg_change_id ` set (ad_changes db)" "ci \<notin> (\<lambda>e. fst (snd e)) ` set es"
      "ai \<notin> al_id ` set (ad_alerts db)" "ai \<notin> (\<lambda>e. fst (snd (snd e))) ` set es"
      using snoc.prems(1) by (simp_all add: e fresh_changes_def)
    ultimately have "ci \<notin> sg_change_id ` set (ad_changes ?db)" "ai \<notin> al_id ` set (ad_alerts ?db)"
      by blast+
    moreover have "count_where (\<lambda>c. sg_monitor c = m \<and> now - fl_window cfg < sg_created c)
        (ad_changes ?db) = length es"
    proof -
      have "count_where (\<lambda>c. sg_monitor c = m \<and> now - fl_window cfg < sg_created c) (ad_changes db) = 0"
        using assms(5) by (simp add: count_where_0_iff)
      moreover have "count_where (\<lambda>c. sg_monitor c = m \<and> now - fl_window cfg < sg_created c)
          (map (change_row u m) es) = length (map (change_row u m) es)"
        using snoc.prems(2) by (intro count_all) (auto simp: ids e)
      ultimately show ?thesis by (simp add: IH)
    qed
    ultimately show ?case
      using record_change_step [where down = down, OF assms(1), of ci ?db ai m now cfg "length es"]
        assms(3,4) by (auto simp: e IH)
  qed
  then show ?thesis by blast
qed

definition demo_changes :: "change_event list" where
  "demo_changes = [(100, 1, 11, ''up'', ''down''), (200, 2, 12, ''down'', ''up''),
     (300, 3, 13, ''up'', ''down'')]"

theorem flapping_alert_for_every_change_witness:
  "map al_type (ad_alerts (fold (record_change (\<lambda>_. False) (NewFlappingService 0 2 0) 1 2)
     demo_changes no_alerts_db)) = [TypeFlapping, TypeFlapping]"
  using flapping_alert_for_every_change
    [of "\<lambda>_. False" demo_changes no_alerts_db "NewFlappingService 0 2 0" 2 1]
  by (simp add: demo_changes_def no_alerts_db_def fresh_changes_def NewFlappingService_def
      flapping_alert_def)

section \<open>Escalation\<close>

text \<open>The operations of the escalation service, each with its faults and clock.\<close>

datatype escalation_op =
    EscalateOp alert_faults time nat nat string
  | AutoEscalateOp alert_faults time "nat \<Rightarrow> nat"

fun escalation_step ::
    "duration \<Rightarrow> escalation_op \<Rightarrow> alert_db \<Rightarrow> alert_error option \<times> alert_db" where
  "escalation_step timeout (EscalateOp down now i a reason) db = Escalate down now timeout i a reason db"
| "escalation_step timeout (AutoEscalateOp down now new_id) db = CheckAutoEscalation down now timeout new_id db"

lemma CheckAutoEscalation_fails:
  "CheckAutoEscalation down now timeout new_id db = (Some EscalationFailed, db)"
  by (simp add: CheckAutoEscalation_def ListActiveByMonitorID_def)

lemma Escalate_first_fails:
  "\<forall>e \<in> set (ad_escalations db). es_alert e \<noteq> a \<Longrightarrow>
   Escalate down now timeout i a reason db = (Some EscalationFailed, db)"
  by (simp add: Escalate_def GetEscalationLevel_def escalation_GetLatest_def)

lemma escalation_step_stuck:
  "ad_escalations db = [] \<Longrightarrow> escalation_step timeout op db = (Some EscalationFailed, db)"
  by (cases op) (simp_all add: CheckAutoEscalation_fails Escalate_first_fails)

text \<open>
  No alert is ever escalated. The automatic escalation lists the alerts of the monitor
  with the empty identifier and fails in every state; and escalating an alert asks for its
  latest escalation, whose absence is an error, so that the first one is never stored.
\<close>
theorem escalation_never_starts:
  assumes "ad_escalations db = []"
  shows "fold (\<lambda>op db. snd (escalation_step timeout op db)) ops db = db \<and>
    fst (escalation_step timeout op db) = Some EscalationFailed \<and>
    CheckAutoEscalation down now timeout new_id db' = (Some EscalationFailed, db')"
  using assms by (induction ops) (simp_all add: escalation_step_stuck CheckAutoEscalation_fails)

theorem escalation_never_starts_witness:
  "fst (escalation_step (30 * minute) (EscalateOp (\<lambda>_. False) (100 * hour) 5 8 ''manual'') one_alert_db)
    = Some EscalationFailed"
  using escalation_never_starts [of one_alert_db "30 * minute" "[]"
      "EscalateOp (\<lambda>_. False) (100 * hour) 5 8 ''manual''" "\<lambda>_. False" 0 id one_alert_db]
  by (simp add: one_alert_db_def no_alerts_db_def)

section \<open>Mutes\<close>

lemma IsMuted_iff:
  "(\<And>x. \<not> down x) \<Longrightarrow> IsMuted down t u m db = Inr (list_ex (mutes_for t u m) (ad_mutes db))"
  by (simp add: IsMuted_def mute_IsMuted_def)

lemma list_ex_del_where: "list_ex p (del_where q xs) \<longleftrightarrow> list_ex (\<lambda>x. p x \<and> \<not> q x) xs"
  by (auto simp: del_where_def list_ex_iff)

text \<open>
  A user's mute of a monitor silences exactly that pair, until it ends; lifting it
  leaves global mutes and mutes of all monitors in force; and the background job that deletes
  ended mutes changes no later answer.
\<close>
theorem mute_lifecycle:
  assumes "\<And>x. \<not> down x" and "i \<notin> mu_id ` set (ad_mutes db)" and "now \<le> t"
  shows "IsMuted down t u' m' (snd (MuteForUser down now i u m until db)) =
      Inr (list_ex (mutes_for t u' m') (ad_mutes db) \<or>
           u' = u \<and> m' = m \<and> (case until of None \<Rightarrow> True | Some e \<Rightarrow> t < e)) \<and>
    IsMuted down t u m (snd (UnmuteForUser down u m db)) =
      Inr (list_ex (\<lambda>r. mutes_for t u m r \<and> (mu_scope r = MuteGlobal \<or> mu_monitor r = None)) (ad_mutes db)) \<and>
    IsMuted down t u' m' (snd (ProcessExpiredMutes down now db)) = IsMuted down t u' m' db"
proof (intro conjI)
  have "\<not> list_ex (\<lambda>r. mu_id r = i) (ad_mutes db)" using assms(2) by (auto simp: list_ex_iff)
  then show "IsMuted down t u' m' (snd (MuteForUser down now i u m until db)) =
      Inr (list_ex (mutes_for t u' m') (ad_mutes db) \<or>
           u' = u \<and> m' = m \<and> (case until of None \<Rightarrow> True | Some e \<Rightarrow> t < e))"
    using assms(1) by (auto simp: IsMuted_iff MuteForUser_def mute_Create_def mutes_for_def mute_in_force_def)
  show "IsMuted down t u m (snd (UnmuteForUser down u m db)) =
      Inr (list_ex (\<lambda>r. mutes_for t u m r \<and> (mu_scope r = MuteGlobal \<or> mu_monitor r = None)) (ad_mutes db))"
  proof -
    have "mutes_for t u m r \<and> \<not> (mu_user r = u \<and> mu_monitor r = Some m \<and> mu_scope r = MuteUser) \<longleftrightarrow>
        mutes_for t u m r \<and> (mu_scope r = MuteGlobal \<or> mu_monitor r = None)" for r
      by (cases "mu_scope r") (auto simp: mutes_for_def)
    then show ?thesis using assms(1)
      by (simp add: IsMuted_iff UnmuteForUser_def mute_DeleteByUserIDAndMonitorID_def list_ex_del_where)
  qed
  have "mutes_for t u' m' r \<Longrightarrow> mute_in_force now r" for r
    using assms(3) by (auto simp: mutes_for_def mute_in_force_def split: option.splits)
  then show "IsMuted down t u' m' (snd (ProcessExpiredMutes down now db)) = IsMuted down t u' m' db"
    using assms(1) by (auto simp: IsMuted_iff ProcessExpiredMutes_def mute_DeleteExpired_def
        list_ex_del_where list_ex_iff)
qed

theorem mute_lifecycle_witness:
  "IsMuted (\<lambda>_. False) 50 1 2 (snd (MuteForUser (\<lambda>_. False) 10 4 1 2 (Some 60) no_alerts_db)) = Inr True"
  using mute_lifecycle [of "\<lambda>_. False" 4 no_alerts_db 10 50 1 2 1 2 "Some 60"]
  by (simp add: no_alerts_db_def)

end
