(* ===== verification/AlertDelivery.thy ===== *)
theory AlertDelivery
  imports Complex_Main AlertStore "HOL-Library.Sublist"
begin

text \<open>
  How alerts are delivered: \<open>backend/alert-service/internal/service/delivery/alert_delivery_service.go\<close>
  and the classification of errors in \<open>model/delivery.go\<close>. The clients of the three kinds of
  channels are the argument \<open>send\<close>; what it gets of the message is its kind. New identifiers, the
  clock and the random jitter are arguments. The answer of \<open>IsUnderMaintenance\<close> is an argument:
  \<open>None\<close> without a repository, \<open>Some None\<close> when it fails. The goroutines of
  \<open>DeliverToAllChannels\<close> run one after the other, in the order of the list.
\<close>

section \<open>Classification of errors\<close>

datatype delivery_category =
    DeliveryTransient | DeliveryPermanent | DeliveryRateLimit | DeliveryTimeout | DeliveryAuth
  | DeliverySSLCert | DeliveryUnknown

fun category_string :: "delivery_category \<Rightarrow> string" where
  "category_string DeliveryTransient = ''transient''"
| "category_string DeliveryPermanent = ''permanent''"
| "category_string DeliveryRateLimit = ''rate_limit''"
| "category_string DeliveryTimeout = ''timeout''"
| "category_string DeliveryAuth = ''auth''"
| "category_string DeliverySSLCert = ''ssl_certificate''"
| "category_string DeliveryUnknown = ''unknown''"

record delivery_error =
  de_category :: delivery_category
  de_status :: int
  de_message :: string
  de_retryable :: bool
  de_max_retries :: int
  de_base_delay :: duration

text \<open>An error of a client: whether it is \<open>context.DeadlineExceeded\<close>, and its text.\<close>

record send_error =
  se_deadline :: bool
  se_text :: string

definition ClassifyHTTPErr :: "int \<Rightarrow> string \<Rightarrow> delivery_error" where
  "ClassifyHTTPErr code body =
     (if code = 429 then \<lparr>de_category = DeliveryRateLimit, de_status = code,
        de_message = ''rate limit exceeded'', de_retryable = True, de_max_retries = 5,
        de_base_delay = 5 * minute\<rparr>
      else if code = 401 \<or> code = 403 then \<lparr>de_category = DeliveryAuth, de_status = code,
        de_message = body, de_retryable = False, de_max_retries = 0, de_base_delay = 0\<rparr>
      else if 400 \<le> code \<and> code < 500 then \<lparr>de_category = DeliveryPermanent, de_status = code,
        de_message = body, de_retryable = False, de_max_retries = 0, de_base_delay = 0\<rparr>
      else if 500 \<le> code then \<lparr>de_category = DeliveryTransient, de_status = code,
        de_message = body, de_retryable = True, de_max_retries = 3, de_base_delay = minute\<rparr>
      else \<lparr>de_category = DeliveryUnknown, de_status = code, de_message = body,
        de_retryable = False, de_max_retries = 0, de_base_delay = 0\<rparr>)"

definition ClassifyNetworkErr :: "send_error \<Rightarrow> delivery_error" where
  "ClassifyNetworkErr err =
     (if se_deadline err then \<lparr>de_category = DeliveryTimeout, de_status = 0,
        de_message = ''connection timeout'', de_retryable = True, de_max_retries = 3,
        de_base_delay = minute\<rparr>
      else if sublist ''certificate'' (se_text err) \<or> sublist ''TLS'' (se_text err)
      then \<lparr>de_category = DeliverySSLCert, de_status = 0, de_message = se_text err,
        de_retryable = False, de_max_retries = 0, de_base_delay = 0\<rparr>
      else \<lparr>de_category = DeliveryTransient, de_status = 0, de_message = se_text err,
        de_retryable = True, de_max_retries = 3, de_base_delay = minute\<rparr>)"

text \<open>
  The regular expression: the literal text, digits, a colon and a blank, and at least one
  character of the same line. \<open>match_status\<close> matches at the start of its argument, and
  \<open>find_status\<close> takes the leftmost match.
\<close>

definition status_text :: string where
  "status_text = ''webhook returned status ''"

definition match_status :: "string \<Rightarrow> (string \<times> string) option" where
  "match_status s =
     (if \<not> prefix status_text s then None
      else let rest = drop (length status_text) s;
               digits = takeWhile is_digit rest;
               after = dropWhile is_digit rest;
               line = takeWhile (\<lambda>c. c \<noteq> CHR 0x0A) (drop 2 after)
           in if digits = [] \<or> take 2 after \<noteq> '': '' \<or> line = [] then None
              else Some (digits, line))"

fun find_status :: "string \<Rightarrow> (string \<times> string) option" where
  "find_status [] = None"
| "find_status (c # s) = (case match_status (c # s) of None \<Rightarrow> find_status s | Some r \<Rightarrow> Some r)"

text \<open>\<open>Sscanf\<close> refuses a number that does not fit an \<open>int\<close>.\<close>

definition parseWebhookHTTPError :: "send_error \<Rightarrow> (int \<times> string) option" where
  "parseWebhookHTTPError err =
     (case find_status (se_text err) of
        None \<Rightarrow> None
      | Some (digits, body) \<Rightarrow>
          (let code = number_of digits
           in if 0 < code \<and> code < 2 ^ 63 then Some (code, body) else None))"

definition classifyError :: "send_error \<Rightarrow> delivery_error" where
  "classifyError err =
     (case parseWebhookHTTPError err of
        Some (code, body) \<Rightarrow> ClassifyHTTPErr code body
      | None \<Rightarrow> ClassifyNetworkErr err)"

section \<open>The service\<close>

record delivery_config =
  dc_max_retries :: int
  dc_retry_interval :: duration
  dc_rate_window :: duration
  dc_rate_wait :: duration
  dc_max_delay :: duration
  dc_backoff_base :: duration

text \<open>The defaults, and the options, of which the last four must be positive.\<close>

definition NewAlertDeliveryService ::
    "int option \<Rightarrow> duration option \<Rightarrow> duration \<Rightarrow> duration \<Rightarrow> duration \<Rightarrow> duration \<Rightarrow> delivery_config" where
  "NewAlertDeliveryService maxRetries interval window wait maxDelay base =
     \<lparr>dc_max_retries = (case maxRetries of None \<Rightarrow> 3 | Some n \<Rightarrow> n),
      dc_retry_interval = (case interval of None \<Rightarrow> 5 * minute | Some d \<Rightarrow> d),
      dc_rate_window = (if 0 < window then window else 5 * minute),
      dc_rate_wait = (if 0 < wait then wait else 5 * minute),
      dc_max_delay = (if 0 < maxDelay then maxDelay else 10 * minute),
      dc_backoff_base = (if 0 < base then base else 0)\<rparr>"

datatype message_kind = MessageDown | MessageRecovered | MessageStatus alert_status

definition formatAlertMessage :: "alert \<Rightarrow> bool \<Rightarrow> message_kind" where
  "formatAlertMessage a isRecovery =
     (if isRecovery then MessageRecovered
      else case al_status a of
        AlertTriggered \<Rightarrow> MessageDown
      | AlertResolved \<Rightarrow> MessageRecovered
      | st \<Rightarrow> MessageStatus st)"

type_synonym sender = "alert_channel \<Rightarrow> message_kind \<Rightarrow> send_error option"

definition plain_error :: "string \<Rightarrow> send_error" where
  "plain_error s = \<lparr>se_deadline = False, se_text = s\<rparr>"

definition send_to_channel :: "sender \<Rightarrow> alert_channel \<Rightarrow> message_kind \<Rightarrow> send_error option" where
  "send_to_channel send c msg =
     (case ch_type c of
        ChannelEmail \<Rightarrow> if ch_email c = None then Some (plain_error ''email config is missing'') else send c msg
      | ChannelTelegram \<Rightarrow>
          if ch_telegram c = None then Some (plain_error ''telegram config is missing'') else send c msg
      | ChannelWebhook \<Rightarrow>
          if ch_webhook c = None then Some (plain_error ''webhook config is missing'') else send c msg
      | ChannelOther s \<Rightarrow> Some (plain_error (''unsupported channel type: '' @ s)))"

definition failure_message :: "delivery_error \<Rightarrow> string" where
  "failure_message de = ''['' @ category_string (de_category de) @ ''] '' @ de_message de"

definition maxChannelFailures :: int where "maxChannelFailures = 5"

definition handleChannelFailure ::
    "alert_faults \<Rightarrow> time \<Rightarrow> nat \<Rightarrow> delivery_error \<Rightarrow> alert_db \<Rightarrow> alert_db" where
  "handleChannelFailure down now c de db =
     (let disable = (\<lambda>db. case DisableChannel down now c db of Inl e \<Rightarrow> db | Inr db' \<Rightarrow> db')
      in if de_category de = DeliveryAuth then disable db
         else case IncrementFailureCount down now c db of
           (Inl e, db') \<Rightarrow> db'
         | (Inr n, db') \<Rightarrow> if maxChannelFailures \<le> n then disable db' else db')"

text \<open>The count is asked for the empty channel type.\<close>

definition isRateLimited ::
    "alert_faults \<Rightarrow> time \<Rightarrow> delivery_config \<Rightarrow> alert \<Rightarrow> alert_db \<Rightarrow> bool" where
  "isRateLimited down now cfg a db =
     (let window = (if dc_rate_window cfg \<le> 0 then 5 * minute else dc_rate_window cfg)
      in case CountRecentByMonitorAndChannel down now (al_monitor a) (ChannelOther []) window db of
           Inl e \<Rightarrow> False
         | Inr count \<Rightarrow> 3 \<le> count)"

definition new_attempt :: "nat \<Rightarrow> time \<Rightarrow> nat \<Rightarrow> nat \<Rightarrow> attempt_status \<Rightarrow> string \<Rightarrow> delivery_attempt" where
  "new_attempt i now a c st msg = \<lparr>at_id = i, at_alert = a, at_channel = c, at_status = st,
     at_message = msg, at_retries = 0, at_next_retry = None, at_created = now, at_updated = now\<rparr>"

text \<open>The last statement of every delivery.\<close>

definition finish_attempt ::
    "alert_faults \<Rightarrow> time \<Rightarrow> delivery_attempt \<Rightarrow> alert_db \<Rightarrow> alert_error option \<times> alert_db" where
  "finish_attempt down now t db =
     (case attempt_Update down now t db of Inl e \<Rightarrow> (Some AlRepoError, db) | Inr db' \<Rightarrow> (None, db'))"

text \<open>What \<open>DeliverAlert\<close> and \<open>DeliverRecovery\<close> share: the attempt, the message, the result.\<close>

definition deliver ::
    "alert_faults \<Rightarrow> time \<Rightarrow> sender \<Rightarrow> bool \<Rightarrow> nat \<Rightarrow> alert \<Rightarrow> alert_channel \<Rightarrow> alert_db \<Rightarrow>
     alert_error option \<times> alert_db" where
  "deliver down now send isRecovery i a c db =
     (let t = new_attempt i now (al_id a) (ch_id c) AttemptPending []
      in case attempt_Create down t db of
           Inl e \<Rightarrow> (Some AlRepoError, db)
         | Inr db1 \<Rightarrow>
             (let (t2, db2) = (case send_to_channel send c (formatAlertMessage a isRecovery) of
                  Some err \<Rightarrow> (let de = classifyError err
                    in (t\<lparr>at_status := AttemptFailed, at_message := failure_message de\<rparr>,
                        handleChannelFailure down now (ch_id c) de db1))
                | None \<Rightarrow> (t\<lparr>at_status := AttemptSuccess\<rparr>, db1))
              in finish_attempt down now t2 db2))"

definition DeliverAlert ::
    "alert_faults \<Rightarrow> time \<Rightarrow> delivery_config \<Rightarrow> bool option option \<Rightarrow> sender \<Rightarrow> nat \<Rightarrow> alert \<Rightarrow>
     alert_channel \<Rightarrow> alert_db \<Rightarrow> alert_error option \<times> alert_db" where
  "DeliverAlert down now cfg maintenance send i a c db =
     (if \<not> ch_enabled c then (Some ChannelIsDisabled, db)
      else if \<not> ch_verified c then (Some ChannelNotVerified, db)
      else if maintenance = Some (Some True) then
        (None, case attempt_Create down (new_attempt i now (al_id a) (ch_id c) AttemptSuppressed
                 ''suppressed: monitor is under maintenance'') db of
                 Inl e \<Rightarrow> db | Inr db' \<Rightarrow> db')
      else if isRateLimited down now cfg a db then (Some DeliveryRateLimited, db)
      else deliver down now send False i a c db)"

definition DeliverRecovery ::
    "alert_faults \<Rightarrow> time \<Rightarrow> sender \<Rightarrow> nat \<Rightarrow> alert \<Rightarrow> alert_channel \<Rightarrow> alert_db \<Rightarrow>
     alert_error option \<times> alert_db" where
  "DeliverRecovery down now send i a c db =
     (if \<not> ch_enabled c then (Some ChannelIsDisabled, db)
      else if \<not> ch_verified c then (Some ChannelNotVerified, db)
      else deliver down now send True i a c db)"

record delivery_result =
  dr_successful :: int
  dr_failed :: int
  dr_total :: int
  dr_channels :: "(nat \<times> bool) list"

primrec deliver_loop ::
    "alert_faults \<Rightarrow> time \<Rightarrow> delivery_config \<Rightarrow> bool option option \<Rightarrow> sender \<Rightarrow> (nat \<Rightarrow> nat) \<Rightarrow> nat \<Rightarrow>
     alert \<Rightarrow> alert_channel list \<Rightarrow> delivery_result \<Rightarrow> alert_db \<Rightarrow> delivery_result \<times> alert_db" where
  "deliver_loop down now cfg maint send new_id k a [] r db = (r, db)"
| "deliver_loop down now cfg maint send new_id k a (c # cs) r db =
     (let (err, db') = DeliverAlert down now cfg maint send (new_id k) a c db;
          r' = (case err of
             Some e \<Rightarrow> r\<lparr>dr_failed := dr_failed r + 1\<rparr>
           | None \<Rightarrow> r\<lparr>dr_successful := dr_successful r + 1\<rparr>)
      in deliver_loop down now cfg maint send new_id (Suc k) a cs
           (r'\<lparr>dr_channels := dr_channels r' @ [(ch_id c, err = None)]\<rparr>) db')"

definition DeliverToAllChannels ::
    "alert_faults \<Rightarrow> time \<Rightarrow> delivery_config \<Rightarrow> bool option option \<Rightarrow> sender \<Rightarrow> (nat \<Rightarrow> nat) \<Rightarrow>
     alert \<Rightarrow> alert_channel list \<Rightarrow> alert_db \<Rightarrow> delivery_result \<times> alert_db" where
  "DeliverToAllChannels down now cfg maint send new_id a cs db =
     deliver_loop down now cfg maint send new_id 0 a cs
       \<lparr>dr_successful = 0, dr_failed = 0, dr_total = int (length cs), dr_channels = []\<rparr> db"

section \<open>Retries\<close>

text \<open>
  \<open>jitter\<close> is the random number below 1000, when one could be drawn. The jitter is computed over the reals,
  the delay, an \<open>int64\<close> in the code, over the integers.
\<close>

definition go_trunc :: "real \<Rightarrow> int" where
  "go_trunc x = (if 0 \<le> x then \<lfloor>x\<rfloor> else \<lceil>x\<rceil>)"

definition calculateRetryDelay :: "delivery_config \<Rightarrow> nat option \<Rightarrow> int \<Rightarrow> duration \<Rightarrow> duration" where
  "calculateRetryDelay cfg jitter attempt baseDelay =
     (let maxDelay = (if dc_max_delay cfg \<le> 0 then 10 * minute else dc_max_delay cfg);
          delay = min (baseDelay * 2 ^ nat attempt) maxDelay
      in case jitter of
           None \<Rightarrow> delay
         | Some n \<Rightarrow> delay + go_trunc (real_of_int delay * (real n / 1000 * 2 / 5 - 1 / 5)))"

definition retry_delay :: "delivery_config \<Rightarrow> nat option \<Rightarrow> int \<Rightarrow> delivery_error \<Rightarrow> duration" where
  "retry_delay cfg jitter retries de =
     (case de_category de of
        DeliveryRateLimit \<Rightarrow> if dc_rate_wait cfg \<le> 0 then 5 * minute else dc_rate_wait cfg
      | DeliveryTransient \<Rightarrow> calculateRetryDelay cfg jitter retries
          (if 0 < dc_backoff_base cfg then dc_backoff_base cfg else de_base_delay de)
      | DeliveryTimeout \<Rightarrow> calculateRetryDelay cfg jitter retries
          (if 0 < dc_backoff_base cfg then dc_backoff_base cfg else de_base_delay de)
      | _ \<Rightarrow> dc_retry_interval cfg)"

text \<open>The attempt is changed in place, so it is returned.\<close>

definition retried_attempt ::
    "time \<Rightarrow> delivery_config \<Rightarrow> nat option \<Rightarrow> delivery_error \<Rightarrow> delivery_attempt \<Rightarrow> delivery_attempt" where
  "retried_attempt now cfg jitter de t =
     (let t1 = t\<lparr>at_retries := at_retries t + 1\<rparr>
      in if dc_max_retries cfg \<le> at_retries t1 \<or> de_max_retries de \<le> at_retries t1
         then t1\<lparr>at_status := AttemptFailed\<rparr>
         else t1\<lparr>at_next_retry := Some (now + retry_delay cfg jitter (at_retries t1) de)\<rparr>)"

definition ScheduleRetry ::
    "alert_faults \<Rightarrow> time \<Rightarrow> delivery_config \<Rightarrow> nat option \<Rightarrow> delivery_attempt \<Rightarrow> delivery_error \<Rightarrow>
     alert_db \<Rightarrow> alert_error option \<times> delivery_attempt \<times> alert_db" where
  "ScheduleRetry down now cfg jitter t de db =
     (let t' = retried_attempt now cfg jitter de t;
          (err, db') = finish_attempt down now t' db
      in (err, t', db'))"

definition ScheduleRetryWithoutClassification ::
    "alert_faults \<Rightarrow> time \<Rightarrow> delivery_config \<Rightarrow> nat option \<Rightarrow> delivery_attempt \<Rightarrow>
     alert_db \<Rightarrow> alert_error option \<times> delivery_attempt \<times> alert_db" where
  "ScheduleRetryWithoutClassification down now cfg jitter t db =
     ScheduleRetry down now cfg jitter t \<lparr>de_category = DeliveryUnknown, de_status = 0,
       de_message = [], de_retryable = True, de_max_retries = dc_max_retries cfg,
       de_base_delay = dc_retry_interval cfg\<rparr> db"

definition processAttempt ::
    "alert_faults \<Rightarrow> time \<Rightarrow> delivery_config \<Rightarrow> sender \<Rightarrow> nat option \<Rightarrow> delivery_attempt \<Rightarrow>
     alert_db \<Rightarrow> alert_error option \<times> alert_db" where
  "processAttempt down now cfg send jitter t db =
     (case alert_GetByID down (at_alert t) db of
        Inl e \<Rightarrow> (Some AlRepoError, db)
      | Inr a \<Rightarrow>
     (case channel_GetByID down (at_channel t) db of
        Inl e \<Rightarrow> (Some AlRepoError, db)
      | Inr c \<Rightarrow>
     (case send_to_channel send c (formatAlertMessage a False) of
        None \<Rightarrow> finish_attempt down now (t\<lparr>at_status := AttemptSuccess\<rparr>) db
      | Some err \<Rightarrow>
          (let de = classifyError err;
               t1 = t\<lparr>at_status := AttemptFailed, at_message := failure_message de\<rparr>
           in if \<not> de_retryable de \<or> dc_max_retries cfg \<le> at_retries t1
                 \<or> de_max_retries de \<le> at_retries t1
              then finish_attempt down now t1 (handleChannelFailure down now (ch_id c) de db)
              else case ScheduleRetry down now cfg jitter t1 de db of
                   (Some e, t2, db1) \<Rightarrow> (Some AlRepoError, db1)
                 | (None, t2, db1) \<Rightarrow>
                     finish_attempt down now t2 (handleChannelFailure down now (ch_id c) de db1)))))"

text \<open>\<open>send\<close> and \<open>jitter\<close> may differ from attempt to attempt.\<close>

primrec process_loop ::
    "alert_faults \<Rightarrow> time \<Rightarrow> delivery_config \<Rightarrow> (nat \<Rightarrow> sender) \<Rightarrow> (nat \<Rightarrow> nat option) \<Rightarrow>
     delivery_attempt list \<Rightarrow> alert_db \<Rightarrow> alert_db" where
  "process_loop down now cfg send jitter [] db = db"
| "process_loop down now cfg send jitter (t # ts) db =
     process_loop down now cfg send jitter ts
       (snd (processAttempt down now cfg (send (at_id t)) (jitter (at_id t)) t db))"

definition ProcessPendingAttempts ::
    "alert_faults \<Rightarrow> time \<Rightarrow> delivery_config \<Rightarrow> (nat \<Rightarrow> sender) \<Rightarrow> (nat \<Rightarrow> nat option) \<Rightarrow>
     alert_db \<Rightarrow> alert_error option \<times> alert_db" where
  "ProcessPendingAttempts down now cfg send jitter db =
     (case attempt_ListPending down now 100 db of
        Inl e \<Rightarrow> (Some AlRepoError, db)
      | Inr ts \<Rightarrow> (None, process_loop down now cfg send jitter ts db))"

section \<open>An attempt that has been processed stays as it is\<close>

text \<open>The attempt \<open>i\<close> is stored and is not pending.\<close>

definition settled :: "nat \<Rightarrow> alert_db \<Rightarrow> bool" where
  "settled i db \<longleftrightarrow> i \<in> at_id ` set (ad_attempts db) \<and>
     (\<forall>t \<in> set (ad_attempts db). at_id t = i \<longrightarrow> at_status t \<noteq> AttemptPending)"

lemma handleChannelFailure_frame [simp, frame_simps]:
  "ad_attempts (handleChannelFailure down now c de db) = ad_attempts db"
  "ad_alerts (handleChannelFailure down now c de db) = ad_alerts db"
  "map ch_id (ad_channels (handleChannelFailure down now c de db)) = map ch_id (ad_channels db)"
  "map ch_type (ad_channels (handleChannelFailure down now c de db)) = map ch_type (ad_channels db)"
  by (auto simp: handleChannelFailure_def IncrementFailureCount_def DisableChannel_def Let_def
      split: sum.splits prod.splits option.splits)

lemma settled_handle [simp]: "settled i (handleChannelFailure down now c de db) = settled i db"
  by (simp add: settled_def)

lemma settled_Create:
  "settled i db \<Longrightarrow> attempt_Create down t db = Inr db' \<Longrightarrow> settled i db' \<and> at_id t \<noteq> i"
  by (fastforce simp: settled_def attempt_Create_def attempt_keys_ok_def list_ex_iff split: if_splits)

lemma set_attempt_columns_sel [simp]:
  "at_id (set_attempt_columns now t r) = at_id r"
  "at_status (set_attempt_columns now t r) = at_status t"
  by (simp_all add: set_attempt_columns_def)

lemma attempt_UpdateE:
  assumes "attempt_Update down now t db = Inr db'"
  obtains "at_id t \<in> at_id ` set (ad_attempts db)"
    and "at_id ` set (ad_attempts db') = at_id ` set (ad_attempts db)"
    and "db' = db\<lparr>ad_attempts := upd_where (\<lambda>r. at_id r = at_id t) (set_attempt_columns now t) (ad_attempts db)\<rparr>"
proof -
  have db': "db' = db\<lparr>ad_attempts := upd_where (\<lambda>r. at_id r = at_id t) (set_attempt_columns now t) (ad_attempts db)\<rparr>"
    and ex: "\<exists>r \<in> set (ad_attempts db). at_id r = at_id t"
    using assms by (auto simp: attempt_Update_def list_ex_iff split: if_splits)
  have "map at_id (ad_attempts db') = map at_id (ad_attempts db)" using db' by simp
  then have "at_id ` set (ad_attempts db') = at_id ` set (ad_attempts db)" by (metis set_map)
  moreover have "at_id t \<in> at_id ` set (ad_attempts db)" using ex by (metis image_eqI)
  ultimately show thesis using that db' by blast
qed

lemma settled_Update:
  assumes "settled i db" and "at_id t \<noteq> i" and "attempt_Update down now t db = Inr db'"
  shows "settled i db'"
proof (rule attempt_UpdateE [OF assms(3)])
qed (use assms(1,2) in \<open>auto simp: settled_def elim!: in_upd_whereE\<close>)

lemma settled_Update_same:
  assumes "attempt_Update down now t db = Inr db'" and "at_status t \<noteq> AttemptPending"
  shows "settled (at_id t) db'"
proof (rule attempt_UpdateE [OF assms(1)])
qed (use assms(2) in \<open>auto simp: settled_def elim!: in_upd_whereE\<close>)

lemma settled_finish: "settled i db \<Longrightarrow> at_id t \<noteq> i \<Longrightarrow> settled i (snd (finish_attempt down now t db))"
  by (auto simp: finish_attempt_def settled_Update split: sum.splits)

lemma retried_attempt_sel [simp]:
  "at_id (retried_attempt now cfg j de t) = at_id t"
  "at_status t = AttemptFailed \<Longrightarrow> at_status (retried_attempt now cfg j de t) = AttemptFailed"
  by (simp_all add: retried_attempt_def Let_def)

lemma new_attempt_sel [simp]:
  "at_id (new_attempt i now a c st msg) = i"
  "at_alert (new_attempt i now a c st msg) = a"
  "at_channel (new_attempt i now a c st msg) = c"
  "at_created (new_attempt i now a c st msg) = now"
  by (simp_all add: new_attempt_def)

lemma settled_deliver:
  assumes "settled i db"
  shows "settled i (snd (deliver down now send r j a c db))"
proof (cases "attempt_Create down (new_attempt j now (al_id a) (ch_id c) AttemptPending []) db")
  case (Inl e)
  then show ?thesis using assms by (simp add: deliver_def Let_def)
next
  case (Inr db1)
  have "settled i db1" and "j \<noteq> i" using settled_Create [OF assms Inr] by simp_all
  then show ?thesis
    by (cases "send_to_channel send c (formatAlertMessage a r)")
      (simp_all add: deliver_def Let_def Inr settled_finish)
qed

lemma settled_DeliverAlert: "settled i db \<Longrightarrow> settled i (snd (DeliverAlert down now cfg mt send j a c db))"
  by (auto simp: DeliverAlert_def settled_deliver split: sum.splits dest: settled_Create)

lemma settled_DeliverRecovery: "settled i db \<Longrightarrow> settled i (snd (DeliverRecovery down now send j a c db))"
  by (auto simp: DeliverRecovery_def settled_deliver)

lemma settled_deliver_loop:
  "settled i db \<Longrightarrow> settled i (snd (deliver_loop down now cfg mt send new_id k a cs r db))"
  by (induction cs arbitrary: k r db)
     (auto simp: case_prod_beta Let_def settled_DeliverAlert)

lemma settled_processAttempt:
  assumes "settled i db" and "at_id t \<noteq> i"
  shows "settled i (snd (processAttempt down now cfg send jitter t db))"
  using assms
  by (auto simp: processAttempt_def ScheduleRetry_def case_prod_beta Let_def settled_finish
      split: sum.split option.split)

lemma settled_process_loop:
  "settled i db \<Longrightarrow> \<forall>t \<in> set ts. at_id t \<noteq> i \<Longrightarrow>
   settled i (process_loop down now cfg send jitter ts db)"
  by (induction ts arbitrary: db) (auto simp: settled_processAttempt)

lemma settled_not_listed:
  "settled i db \<Longrightarrow> attempt_ListPending down now n db = Inr ts \<Longrightarrow> t \<in> set ts \<Longrightarrow> at_id t \<noteq> i"
  by (auto simp: attempt_ListPending_def settled_def pending_attempt_def split: if_splits
      dest!: in_set_takeD)

lemma settled_Process:
  assumes "settled i db"
  shows "settled i (snd (ProcessPendingAttempts down now cfg send jitter db))"
proof (cases "attempt_ListPending down now 100 db")
  case (Inr ts)
  have "\<forall>t \<in> set ts. at_id t \<noteq> i" using settled_not_listed [OF assms Inr] by blast
  with assms show ?thesis by (simp add: ProcessPendingAttempts_def Inr settled_process_loop)
qed (simp add: ProcessPendingAttempts_def assms)

text \<open>The operations of the service, each with its faults, clock and network.\<close>

datatype delivery_op =
    OpDeliver alert_faults time "bool option option" sender nat alert alert_channel
  | OpDeliverAll alert_faults time "bool option option" sender "nat \<Rightarrow> nat" alert "alert_channel list"
  | OpRecovery alert_faults time sender nat alert alert_channel
  | OpProcess alert_faults time "nat \<Rightarrow> sender" "nat \<Rightarrow> nat option"

fun delivery_step :: "delivery_config \<Rightarrow> delivery_op \<Rightarrow> alert_db \<Rightarrow> alert_db" where
  "delivery_step cfg (OpDeliver down now mt send i a c) db = snd (DeliverAlert down now cfg mt send i a c db)"
| "delivery_step cfg (OpDeliverAll down now mt send new_id a cs) db =
     snd (DeliverToAllChannels down now cfg mt send new_id a cs db)"
| "delivery_step cfg (OpRecovery down now send i a c) db = snd (DeliverRecovery down now send i a c db)"
| "delivery_step cfg (OpProcess down now send jitter) db =
     snd (ProcessPendingAttempts down now cfg send jitter db)"

lemma settled_step: "settled i db \<Longrightarrow> settled i (delivery_step cfg op db)"
  by (cases op) (simp_all add: settled_DeliverAlert settled_DeliverRecovery settled_Process
      DeliverToAllChannels_def settled_deliver_loop)

lemma settled_run: "settled i db \<Longrightarrow> settled i (fold (delivery_step cfg) ops db)"
  by (induction ops arbitrary: db) (auto simp: settled_step)

lemma finish_attempt_ok:
  assumes "\<And>x. \<not> down x" and "at_id t \<in> at_id ` set (ad_attempts db)"
  shows "finish_attempt down now t db = (None, db\<lparr>ad_attempts :=
    upd_where (\<lambda>r. at_id r = at_id t) (set_attempt_columns now t) (ad_attempts db)\<rparr>)"
  using assms by (auto simp: finish_attempt_def attempt_Update_def list_ex_iff)

text \<open>
  Property C18. A retry that is scheduled is never made. When a pending attempt fails with an error
  that may be retried, \<open>ScheduleRetry\<close> stores the time of the next try and counts it, but the
  status stays \<open>failed\<close>; \<open>ListPending\<close> selects pending attempts only, so that whatever the service does
  afterwards, at no time is the attempt listed again.
\<close>
theorem scheduled_retry_never_runs:
  assumes "\<And>x. \<not> down x" and "t \<in> set (ad_attempts db)"
    and "alert_GetByID down (at_alert t) db = Inr a" and "channel_GetByID down (at_channel t) db = Inr c"
    and "send_to_channel send c (formatAlertMessage a False) = Some err"
    and "de_retryable (classifyError err)" and "at_retries t + 1 < dc_max_retries cfg"
    and "at_retries t + 1 < de_max_retries (classifyError err)"
  shows "let db1 = snd (processAttempt down now cfg send jitter t db) in
    (\<exists>r \<in> set (ad_attempts db1). at_id r = at_id t \<and> at_retries r = at_retries t + 1 \<and>
       at_next_retry r = Some (now + retry_delay cfg jitter (at_retries t + 1) (classifyError err))) \<and>
    (\<forall>ts. attempt_ListPending down' now' n (fold (delivery_step cfg) ops db1) = Inr ts \<longrightarrow>
       at_id t \<notin> at_id ` set ts)"
proof -
  let ?de = "classifyError err"
  let ?t1 = "t\<lparr>at_status := AttemptFailed, at_message := failure_message ?de\<rparr>"
  let ?t2 = "retried_attempt now cfg jitter ?de ?t1"
  let ?set = "upd_where (\<lambda>r. at_id r = at_id t) (set_attempt_columns now ?t2)"
  let ?db1 = "snd (processAttempt down now cfg send jitter t db)"
  have ids: "at_id ` set (?set xs) = at_id ` set xs" for xs
    by (metis map_key_upd_where set_attempt_columns_sel(1) set_map)
  have t: "at_id t \<in> at_id ` set (ad_attempts db)" using assms(2) by simp
  have db1: "ad_attempts ?db1 = ?set (?set (ad_attempts db))"
    using assms(3-8) t by (simp add: processAttempt_def Let_def ScheduleRetry_def
        finish_attempt_ok [OF assms(1)] ids)
  have "set_attempt_columns now ?t2 (set_attempt_columns now ?t2 t) \<in> set (ad_attempts ?db1)"
    using assms(2) by (auto simp: db1 upd_where_def)
  moreover have "settled (at_id t) ?db1"
    using t by (auto simp: settled_def db1 ids elim!: in_upd_whereE)
  then have "settled (at_id t) (fold (delivery_step cfg) ops ?db1)" by (rule settled_run)
  then have "\<forall>ts. attempt_ListPending down' now' n (fold (delivery_step cfg) ops ?db1) = Inr ts \<longrightarrow>
       at_id t \<notin> at_id ` set ts"
    by (metis imageE settled_not_listed)
  moreover have "at_id (set_attempt_columns now ?t2 (set_attempt_columns now ?t2 t)) = at_id t"
    "at_retries (set_attempt_columns now ?t2 (set_attempt_columns now ?t2 t)) = at_retries t + 1"
    "at_next_retry (set_attempt_columns now ?t2 (set_attempt_columns now ?t2 t))
      = Some (now + retry_delay cfg jitter (at_retries t + 1) ?de)"
    using assms(7,8) by (simp_all add: retried_attempt_def set_attempt_columns_def Let_def)
  ultimately show ?thesis unfolding Let_def by blast
qed

definition demo_alert :: alert where
  "demo_alert = \<lparr>al_id = 8, al_user = 1, al_monitor = 2, al_rule = None, al_status = AlertTriggered,
     al_type = TypeStatusCode, al_enabled = True, al_failures = 3, al_threshold_ms = 0,
     al_created = 0, al_updated = 0, al_ack = None\<rparr>"

definition demo_channel :: alert_channel where
  "demo_channel = stored_channel \<lparr>ch_id = 5, ch_user = 1, ch_type = ChannelEmail, ch_status = ChannelActive,
     ch_enabled = True, ch_verified = True, ch_failures = 0, ch_last_failure = None,
     ch_telegram = None, ch_email = Some ''a@b'', ch_webhook = None, ch_created = 0, ch_updated = 0\<rparr>"

definition delivery_db :: alert_db where
  "delivery_db = \<lparr>ad_alerts = [demo_alert], ad_rules = [], ad_channels = [demo_channel],
     ad_attempts = [new_attempt 1 0 8 5 AttemptPending []], ad_changes = [], ad_escalations = [],
     ad_mutes = [], ad_audit = []\<rparr>"

definition default_delivery :: delivery_config where
  "default_delivery = NewAlertDeliveryService None None 0 0 0 0"

text \<open>A client that times out.\<close>

definition timeout_sender :: sender where
  "timeout_sender c msg = Some \<lparr>se_deadline = True, se_text = ''context deadline exceeded''\<rparr>"

lemma classify_timeout: "classifyError \<lparr>se_deadline = True, se_text = ''context deadline exceeded''\<rparr> =
  \<lparr>de_category = DeliveryTimeout, de_status = 0, de_message = ''connection timeout'',
   de_retryable = True, de_max_retries = 3, de_base_delay = minute\<rparr>"
  by code_simp

theorem scheduled_retry_never_runs_witness:
  "\<exists>r \<in> set (ad_attempts (snd (processAttempt (\<lambda>_. False) hour default_delivery timeout_sender None
      (new_attempt 1 0 8 5 AttemptPending []) delivery_db))).
    at_next_retry r = Some (hour + 2 * minute)"
proof -
  have "at_retries (new_attempt 1 0 8 5 AttemptPending []) = 0" by (simp add: new_attempt_def)
  moreover have "alert_GetByID (\<lambda>_. False) 8 delivery_db = Inr demo_alert"
    "channel_GetByID (\<lambda>_. False) 5 delivery_db = Inr demo_channel"
    by (simp_all add: alert_GetByID_def channel_GetByID_def delivery_db_def demo_alert_def
        demo_channel_def alert_columns_def stored_channel_def)
  moreover have "send_to_channel timeout_sender demo_channel (formatAlertMessage demo_alert False)
      = Some \<lparr>se_deadline = True, se_text = ''context deadline exceeded''\<rparr>"
    by (simp add: send_to_channel_def demo_channel_def stored_channel_def timeout_sender_def)
  moreover have "new_attempt 1 0 8 5 AttemptPending [] \<in> set (ad_attempts delivery_db)"
    by (simp add: delivery_db_def)
  moreover have "retry_delay default_delivery None 1 (classifyError
      \<lparr>se_deadline = True, se_text = ''context deadline exceeded''\<rparr>) = 2 * minute"
    by (simp add: classify_timeout retry_delay_def calculateRetryDelay_def default_delivery_def
        NewAlertDeliveryService_def)
  ultimately show ?thesis
    using scheduled_retry_never_runs [of "\<lambda>_. False" "new_attempt 1 0 8 5 AttemptPending []" delivery_db
        demo_alert demo_channel timeout_sender _ default_delivery hour None "\<lambda>_. False" 0 0 "[]"]
    by (force simp: classify_timeout default_delivery_def NewAlertDeliveryService_def Let_def)
qed

section \<open>What a delivery does\<close>

lemma channels_handle_cong [simp]:
  "ad_channels (handleChannelFailure down now c de (db\<lparr>ad_attempts := x\<rparr>))
    = ad_channels (handleChannelFailure down now c de db)"
  by (auto simp: handleChannelFailure_def IncrementFailureCount_def DisableChannel_def Let_def
      split: option.splits)

text \<open>Without faults a delivery stores one attempt with the outcome and returns no error.\<close>

lemma deliver_result:
  assumes "\<And>x. \<not> down x" and "attempt_keys_ok (new_attempt i now (al_id a) (ch_id c) AttemptPending []) db"
  shows "fst (deliver down now send r i a c db) = None"
    and "ad_alerts (snd (deliver down now send r i a c db)) = ad_alerts db"
    and "ad_channels (snd (deliver down now send r i a c db)) =
      (case send_to_channel send c (formatAlertMessage a r) of
         None \<Rightarrow> ad_channels db
       | Some err \<Rightarrow> ad_channels (handleChannelFailure down now (ch_id c) (classifyError err) db))"
    and "ad_attempts (snd (deliver down now send r i a c db)) = ad_attempts db @
      [(new_attempt i now (al_id a) (ch_id c)
         (if send_to_channel send c (formatAlertMessage a r) = None then AttemptSuccess else AttemptFailed)
         (case send_to_channel send c (formatAlertMessage a r) of
            None \<Rightarrow> [] | Some err \<Rightarrow> failure_message (classifyError err)))]"
proof -
  let ?t = "new_attempt i now (al_id a) (ch_id c) AttemptPending []"
  let ?db1 = "db\<lparr>ad_attempts := ad_attempts db @ [?t]\<rparr>"
  have cr: "attempt_Create down ?t db = Inr ?db1" using assms by (simp add: attempt_Create_def)
  have fresh: "\<forall>r \<in> set (ad_attempts db). at_id r \<noteq> i"
    using assms(2) by (simp add: attempt_keys_ok_def list_ex_iff)
  have upd: "upd_where (\<lambda>r. at_id r = i) f (ad_attempts db @ [?t]) = ad_attempts db @ [f ?t]" for f
    using fresh by (simp add: table_simps)
  have cols: "set_attempt_columns now (?t\<lparr>at_status := st, at_message := msg\<rparr>) ?t
      = new_attempt i now (al_id a) (ch_id c) st msg" for st msg
    by (simp add: set_attempt_columns_def new_attempt_def)
  have msg: "?t\<lparr>at_status := st, at_message := []\<rparr> = ?t\<lparr>at_status := st\<rparr>" for st
    by (simp add: new_attempt_def)
  let ?out = "send_to_channel send c (formatAlertMessage a r)"
  let ?st = "if ?out = None then AttemptSuccess else AttemptFailed"
  let ?msg = "case ?out of None \<Rightarrow> [] | Some err \<Rightarrow> failure_message (classifyError err)"
  let ?db2 = "case ?out of None \<Rightarrow> ?db1
    | Some err \<Rightarrow> handleChannelFailure down now (ch_id c) (classifyError err) ?db1"
  have at: "ad_attempts ?db2 = ad_attempts db @ [?t]" by (simp split: option.split)
  have "deliver down now send r i a c db
      = finish_attempt down now (?t\<lparr>at_status := ?st, at_message := ?msg\<rparr>) ?db2"
    by (cases ?out) (simp_all add: deliver_def Let_def cr msg)
  also have "\<dots> = (None, ?db2\<lparr>ad_attempts := ad_attempts db @ [new_attempt i now (al_id a) (ch_id c) ?st ?msg]\<rparr>)"
    using finish_attempt_ok [OF assms(1), of "?t\<lparr>at_status := ?st, at_message := ?msg\<rparr>" ?db2]
    by (simp add: at upd cols)
  finally have d: "deliver down now send r i a c db
    = (None, ?db2\<lparr>ad_attempts := ad_attempts db @ [new_attempt i now (al_id a) (ch_id c) ?st ?msg]\<rparr>)" .
  show "fst (deliver down now send r i a c db) = None"
    and "ad_attempts (snd (deliver down now send r i a c db))
      = ad_attempts db @ [new_attempt i now (al_id a) (ch_id c) ?st ?msg]"
    by (simp_all add: d)
  show "ad_alerts (snd (deliver down now send r i a c db)) = ad_alerts db"
    and "ad_channels (snd (deliver down now send r i a c db)) = (case ?out of None \<Rightarrow> ad_channels db
       | Some err \<Rightarrow> ad_channels (handleChannelFailure down now (ch_id c) (classifyError err) db))"
    by (simp_all add: d split: option.split)
qed

text \<open>No stored channel has the empty type.\<close>

definition types_ok :: "alert_db \<Rightarrow> bool" where
  "types_ok db \<longleftrightarrow> ChannelOther [] \<notin> ch_type ` set (ad_channels db)"

lemma not_rate_limited:
  assumes "types_ok db"
  shows "\<not> isRateLimited down now cfg a db"
proof -
  have "\<not> list_ex (\<lambda>c. ch_id c = j \<and> ch_type c = ChannelOther []) (ad_channels db)" for j
    using assms by (force simp: types_ok_def list_ex_iff)
  then show ?thesis
    by (simp add: isRateLimited_def CountRecentByMonitorAndChannel_def count_where_def Let_def)
qed

lemma DeliverAlert_result:
  assumes "types_ok db" and "mt \<noteq> Some (Some True)" and "ch_enabled c" and "ch_verified c"
  shows "DeliverAlert down now cfg mt send i a c db = deliver down now send False i a c db"
  using assms by (simp add: DeliverAlert_def not_rate_limited)

text \<open>Everything that a round of deliveries of the alert \<open>a\<close> to \<open>cs\<close> needs.\<close>

definition round_ready ::
    "alert \<Rightarrow> alert_channel list \<Rightarrow> (nat \<Rightarrow> nat) \<Rightarrow> nat \<Rightarrow> alert_db \<Rightarrow> bool" where
  "round_ready a cs new_id k db \<longleftrightarrow> types_ok db \<and> al_id a \<in> al_id ` set (ad_alerts db) \<and>
     ch_id ` set cs \<subseteq> ch_id ` set (ad_channels db) \<and> inj new_id \<and>
     (\<forall>j \<ge> k. \<forall>t \<in> set (ad_attempts db). new_id j \<noteq> at_id t)"

lemma round_ready_keys:
  "round_ready a (c # cs) new_id k db \<Longrightarrow>
   attempt_keys_ok (new_attempt (new_id k) now (al_id a) (ch_id c) st msg) db"
  by (fastforce simp: round_ready_def attempt_keys_ok_def list_ex_iff)

lemma round_ready_step:
  assumes "\<And>x. \<not> down x" and "round_ready a (c # cs) new_id k db"
  shows "round_ready a cs new_id (Suc k) (snd (deliver down now send False (new_id k) a c db))"
proof -
  let ?db = "snd (deliver down now send False (new_id k) a c db)"
  note r = deliver_result [where down = down and i = "new_id k" and now = now and a = a and c = c and
      db = db and r = False and send = send, OF assms(1) round_ready_keys [OF assms(2)]]
  have "map ch_id (ad_channels ?db) = map ch_id (ad_channels db)"
    "map ch_type (ad_channels ?db) = map ch_type (ad_channels db)"
    by (simp_all add: r(3) split: option.split)
  then have ch: "ch_id ` set (ad_channels ?db) = ch_id ` set (ad_channels db)"
    "ch_type ` set (ad_channels ?db) = ch_type ` set (ad_channels db)"
    by (metis set_map)+
  have "\<forall>j \<ge> Suc k. \<forall>t \<in> set (ad_attempts ?db). new_id j \<noteq> at_id t"
    using assms(2) by (auto simp: r(4) round_ready_def inj_eq)
  with assms(2) show ?thesis by (simp add: round_ready_def types_ok_def r(2) ch)
qed

lemma round_ready_mono: "round_ready a (c # cs) new_id k db \<Longrightarrow> round_ready a cs new_id (Suc k) db"
  by (auto simp: round_ready_def)

lemma deliver_loop_counts:
  assumes "\<And>x. \<not> down x" and "mt \<noteq> Some (Some True)" and "round_ready a cs new_id k db"
  shows "dr_successful (fst (deliver_loop down now cfg mt send new_id k a cs r db))
      = dr_successful r + int (count_where (\<lambda>c. ch_enabled c \<and> ch_verified c) cs) \<and>
    dr_failed (fst (deliver_loop down now cfg mt send new_id k a cs r db))
      = dr_failed r + int (count_where (\<lambda>c. \<not> (ch_enabled c \<and> ch_verified c)) cs) \<and>
    length (ad_attempts (snd (deliver_loop down now cfg mt send new_id k a cs r db)))
      = length (ad_attempts db) + count_where (\<lambda>c. ch_enabled c \<and> ch_verified c) cs"
  using assms(3)
proof (induction cs arbitrary: k r db)
  case Nil
  then show ?case by simp
next
  case (Cons c cs)
  note next_ready = round_ready_step [where down = down, OF assms(1) Cons.prems]
  note res = deliver_result [where down = down and r = False and send = send and now = now,
      OF assms(1) round_ready_keys [OF Cons.prems]]
  show ?case
  proof (cases "ch_enabled c \<and> ch_verified c")
    case True
    then have "DeliverAlert down now cfg mt send (new_id k) a c db
        = deliver down now send False (new_id k) a c db"
      using Cons.prems assms(2) by (intro DeliverAlert_result) (auto simp: round_ready_def)
    then show ?thesis
      using True Cons.IH [OF next_ready] res(1,4) by (simp add: case_prod_beta Let_def)
  next
    case False
    then have "\<exists>e. DeliverAlert down now cfg mt send (new_id k) a c db = (Some e, db)"
      by (auto simp: DeliverAlert_def)
    then show ?thesis
      using False Cons.IH [OF round_ready_mono [OF Cons.prems]] by (auto simp: Let_def)
  qed
qed

text \<open>
  \<open>DeliverToAllChannels\<close> reports a delivery to every enabled and verified channel as
  successful, whatever its client answers, because \<open>DeliverAlert\<close> returns an error only for a
  database failure; each of them stores an attempt, however many there are at once, for the
  rate limit asks for channels of the empty type and never applies.
\<close>
theorem failed_sends_reported_as_success:
  assumes "\<And>x. \<not> down x" and "mt \<noteq> Some (Some True)" and "round_ready a cs new_id 0 db"
  shows "let (r, db') = DeliverToAllChannels down now cfg mt send new_id a cs db;
      ready = count_where (\<lambda>c. ch_enabled c \<and> ch_verified c) cs
    in dr_successful r = int ready \<and> dr_failed r = int (length cs) - int ready \<and>
       length (ad_attempts db') = length (ad_attempts db) + ready"
proof -
  have "count_where p xs + count_where (\<lambda>x. \<not> p x) xs = length xs" for p and xs :: "alert_channel list"
    by (induction xs) auto
  from this [of "\<lambda>c. ch_enabled c \<and> ch_verified c" cs] show ?thesis
    using deliver_loop_counts [where down = down and k = 0, OF assms]
    by (simp add: DeliverToAllChannels_def case_prod_beta Let_def)
qed

definition id_from :: "nat \<Rightarrow> nat \<Rightarrow> nat" where
  "id_from i k = i + k"

theorem failed_sends_reported_as_success_witness:
  "dr_successful (fst (DeliverToAllChannels (\<lambda>_. False) hour default_delivery None timeout_sender
     (id_from 2) demo_alert [demo_channel, demo_channel] delivery_db)) = 2"
proof -
  have "round_ready demo_alert [demo_channel, demo_channel] (id_from 2) 0 delivery_db"
    by (auto simp: round_ready_def types_ok_def delivery_db_def demo_channel_def stored_channel_def
        id_from_def inj_def new_attempt_def)
  then show ?thesis
    using failed_sends_reported_as_success [of "\<lambda>_. False" None demo_alert "[demo_channel, demo_channel]"
        "id_from 2" delivery_db hour default_delivery timeout_sender]
    by (simp add: demo_channel_def stored_channel_def case_prod_beta Let_def)
qed

section \<open>The failure count of a channel\<close>

text \<open>
  One delivery through the channel \<open>ci\<close> as it is stored at that moment: the time, the identifier
  of the attempt, and what the client answers.
\<close>

type_synonym delivery_event = "time \<times> nat \<times> send_error option"

fun deliver_again ::
    "alert_faults \<Rightarrow> delivery_config \<Rightarrow> alert \<Rightarrow> nat \<Rightarrow> delivery_event \<Rightarrow> alert_db \<Rightarrow> alert_db" where
  "deliver_again down cfg a ci (now, i, outcome) db =
     (case channel_GetByID down ci db of
        Inl e \<Rightarrow> db
      | Inr c \<Rightarrow> snd (DeliverAlert down now cfg None (\<lambda>_ _. outcome) i a c db))"

definition failing :: "delivery_event \<Rightarrow> bool" where
  "failing e \<longleftrightarrow> snd (snd e) \<noteq> None"

definition auth_failure :: "delivery_event \<Rightarrow> bool" where
  "auth_failure e \<longleftrightarrow> (case snd (snd e) of None \<Rightarrow> False
     | Some err \<Rightarrow> de_category (classifyError err) = DeliveryAuth)"

text \<open>A channel with the configuration of its type.\<close>

definition complete_channel :: "alert_channel \<Rightarrow> bool" where
  "complete_channel c \<longleftrightarrow> (case ch_type c of
     ChannelEmail \<Rightarrow> ch_email c \<noteq> None | ChannelTelegram \<Rightarrow> ch_telegram c \<noteq> None
   | ChannelWebhook \<Rightarrow> ch_webhook c \<noteq> None | ChannelOther s \<Rightarrow> False)"

lemma send_complete: "complete_channel c \<Longrightarrow> send_to_channel (\<lambda>_ _. r) c msg = r"
  by (auto simp: complete_channel_def send_to_channel_def split: channel_type.splits)

text \<open>The channel has failed \<open>n\<close> times in all.\<close>

definition failed_times :: "nat \<Rightarrow> alert \<Rightarrow> nat \<Rightarrow> alert_db \<Rightarrow> bool" where
  "failed_times n a ci db \<longleftrightarrow> types_ok db \<and> al_id a \<in> al_id ` set (ad_alerts db) \<and>
     (case List.find (\<lambda>c. ch_id c = ci) (ad_channels db) of
        None \<Rightarrow> False
      | Some c \<Rightarrow> ch_verified c \<and> complete_channel c \<and> ch_failures c = int n \<and>
          (ch_enabled c \<longleftrightarrow> n < 5))"

definition fresh_events :: "delivery_event list \<Rightarrow> alert_db \<Rightarrow> bool" where
  "fresh_events es db \<longleftrightarrow> distinct (map (\<lambda>e. fst (snd e)) es) \<and>
     (\<forall>e \<in> set es. fst (snd e) \<notin> at_id ` set (ad_attempts db))"

lemma handle_counts:
  assumes "\<And>x. \<not> down x" and "de_category de \<noteq> DeliveryAuth"
    and "List.find (\<lambda>c. ch_id c = ci) (ad_channels db) = Some c"
  shows "\<exists>c'. List.find (\<lambda>c. ch_id c = ci) (ad_channels (handleChannelFailure down now ci de db)) = Some c' \<and>
    ch_verified c' = ch_verified c \<and> complete_channel c' = complete_channel c \<and>
    ch_failures c' = ch_failures c + 1 \<and> ch_enabled c' = (ch_enabled c \<and> ch_failures c + 1 < 5)"
  using assms
  by (simp add: handleChannelFailure_def IncrementFailureCount_def DisableChannel_def Let_def
      maxChannelFailures_def find_upd_where complete_channel_def split: channel_type.split)

lemma failed_times_deliver:
  assumes "\<And>x. \<not> down x" and "failed_times n a ci db" and "n < 5" and "fresh_events (e # es) db"
    and "\<not> auth_failure e"
  shows "failed_times (if failing e then Suc n else n) a ci (deliver_again down cfg a ci e db)"
    and "fresh_events es (deliver_again down cfg a ci e db)"
proof -
  obtain now i out where e: "e = (now, i, out)" by (cases e)
  obtain c where c: "List.find (\<lambda>c. ch_id c = ci) (ad_channels db) = Some c"
    and p: "ch_verified c" "complete_channel c" "ch_failures c = int n" "ch_enabled c"
    using assms(2,3) by (auto simp: failed_times_def split: option.splits)
  have ci: "ch_id c = ci" "c \<in> set (ad_channels db)" using find_Some_inD [OF c] by auto
  have keys: "attempt_keys_ok (new_attempt i now (al_id a) (ch_id c) AttemptPending []) db"
    using assms(2,4) ci
    by (fastforce simp: failed_times_def fresh_events_def e attempt_keys_ok_def list_ex_iff)
  have types: "types_ok db" using assms(2) by (simp add: failed_times_def)
  let ?db = "snd (deliver down now (\<lambda>_ _. out) False i a c db)"
  have d: "deliver_again down cfg a ci e db = ?db"
    using p c assms(1) by (simp add: e channel_GetByID_def DeliverAlert_result [OF types])
  note r = deliver_result [where down = down and r = False and send = "\<lambda>_ _. out", OF assms(1) keys]
  have chs: "ad_channels ?db = (case out of None \<Rightarrow> ad_channels db
      | Some err \<Rightarrow> ad_channels (handleChannelFailure down now ci (classifyError err) db))"
    using r(3) by (simp only: send_complete [OF p(2)] ci(1))
  have "map ch_type (ad_channels ?db) = map ch_type (ad_channels db)"
    by (simp add: chs split: option.split)
  then have "ch_type ` set (ad_channels ?db) = ch_type ` set (ad_channels db)" by (metis set_map)
  then have t: "types_ok ?db" using types by (simp add: types_ok_def)
  have "\<exists>c'. List.find (\<lambda>c. ch_id c = ci) (ad_channels ?db) = Some c' \<and> ch_verified c' \<and>
      complete_channel c' \<and> ch_failures c' = int (if failing e then Suc n else n) \<and>
      ch_enabled c' = ((if failing e then Suc n else n) < 5)"
  proof (cases out)
    case None
    with c p assms(3) show ?thesis unfolding chs by (simp add: failing_def e)
  next
    case (Some err)
    then have "de_category (classifyError err) \<noteq> DeliveryAuth"
      using assms(5) by (simp add: auth_failure_def e)
    from handle_counts [where down = down, OF assms(1) this c, of now] show ?thesis
      unfolding chs using p by (auto simp: Some failing_def e)
  qed
  then show "failed_times (if failing e then Suc n else n) a ci (deliver_again down cfg a ci e db)"
    using assms(2) t by (auto simp: failed_times_def d r(2))
  show "fresh_events es (deliver_again down cfg a ci e db)"
    unfolding d using assms(4) by (auto simp: fresh_events_def r(4) e)
qed

lemma deliver_again_disabled:
  assumes "\<And>x. \<not> down x" and "failed_times n a ci db" and "5 \<le> n"
  shows "deliver_again down cfg a ci e db = db"
  using assms by (cases e) (auto simp: failed_times_def channel_GetByID_def DeliverAlert_def
      split: option.splits)

text \<open>
  A channel is disabled by its fifth failure ever, not by five consecutive ones as the
  stored reason says: no successful delivery resets the count, so that any number of successes
  in between does not matter. The count stops at five.
\<close>
theorem channel_disabled_by_fifth_failure:
  assumes "\<And>x. \<not> down x" and "failed_times n a ci db" and "n \<le> 5" and "fresh_events es db"
    and "\<forall>e \<in> set es. \<not> auth_failure e"
  shows "failed_times (min 5 (n + count_where failing es)) a ci (fold (deliver_again down cfg a ci) es db)"
  using assms(2-)
proof (induction es arbitrary: n db)
  case Nil
  then show ?case by simp
next
  case (Cons e es)
  let ?db = "deliver_again down cfg a ci e db"
  show ?case
  proof (cases "n < 5")
    case True
    have "\<not> auth_failure e" using Cons.prems by simp
    note step = failed_times_deliver [where down = down, OF assms(1) Cons.prems(1) True Cons.prems(3) this]
    have "failed_times (min 5 ((if failing e then Suc n else n) + count_where failing es)) a ci
        (fold (deliver_again down cfg a ci) es ?db)"
      using Cons.prems True by (intro Cons.IH step) auto
    then show ?thesis by (simp split: if_splits)
  next
    case False
    then have "?db = db" using Cons.prems(1) by (intro deliver_again_disabled [OF assms(1)]) auto
    moreover have "fresh_events es db" using Cons.prems(3) by (simp add: fresh_events_def)
    ultimately show ?thesis
      using Cons.IH [of n db] Cons.prems False by (simp split: if_splits)
  qed
qed

definition alternating :: "delivery_event list" where
  "alternating = concat (map (\<lambda>k. [(int k, 10 + 2 * k, Some (plain_error ''EOF'')), (int k, 11 + 2 * k, None)])
     [0..<5])"

theorem channel_disabled_by_fifth_failure_witness:
  "failed_times 5 demo_alert 5
     (fold (deliver_again (\<lambda>_. False) default_delivery demo_alert 5) alternating delivery_db)"
proof -
  have "failed_times 0 demo_alert 5 delivery_db"
    by (simp add: failed_times_def types_ok_def delivery_db_def demo_alert_def demo_channel_def
        stored_channel_def complete_channel_def)
  moreover have "fresh_events alternating delivery_db"
    by (simp add: fresh_events_def alternating_def delivery_db_def upt_rec new_attempt_def)
  moreover have "de_category (classifyError (plain_error ''EOF'')) = DeliveryTransient"
    by code_simp
  then have "\<forall>e \<in> set alternating. \<not> auth_failure e"
    by (simp add: alternating_def auth_failure_def upt_rec)
  moreover have "count_where failing alternating = 5"
    by (simp add: alternating_def failing_def upt_rec)
  ultimately show ?thesis
    using channel_disabled_by_fifth_failure [of "\<lambda>_. False" 0 demo_alert 5 delivery_db alternating]
    by simp
qed

section \<open>Errors of webhooks\<close>

lemma takeWhile_digits:
  assumes "\<forall>c \<in> set ds. is_digit c"
  shows "takeWhile is_digit (ds @ '': '' @ s) = ds" and "dropWhile is_digit (ds @ '': '' @ s) = '': '' @ s"
  using assms by (simp_all add: takeWhile_append dropWhile_append is_digit_def)

text \<open>The error of the webhook client for a status that is not 2xx.\<close>

definition webhook_error :: "bool \<Rightarrow> nat \<Rightarrow> string \<Rightarrow> send_error" where
  "webhook_error deadline code body =
     \<lparr>se_deadline = deadline, se_text = status_text @ show_nat code @ '': '' @ body\<rparr>"

lemma match_webhook_error:
  "match_status (status_text @ show_nat code @ '': '' @ body) =
     (let line = takeWhile (\<lambda>c. c \<noteq> CHR 0x0A) body
      in if line = [] then None else Some (show_nat code, line))"
  using show_nat_digits [of code] takeWhile_digits [of "show_nat code" body]
  by (simp add: match_status_def Let_def)

lemma match_status_w: "match_status s \<noteq> None \<Longrightarrow> CHR ''w'' \<in> set s"
  by (cases s) (auto simp: match_status_def status_text_def split: if_splits)

lemma find_status_w: "CHR ''w'' \<notin> set s \<Longrightarrow> find_status s = None"
  using match_status_w by (induction s) (fastforce split: option.split)+

lemma parse_webhook_error:
  assumes "0 < code" and "code < 2 ^ 63"
  shows "takeWhile (\<lambda>c. c \<noteq> CHR 0x0A) body \<noteq> [] \<Longrightarrow>
      parseWebhookHTTPError (webhook_error d code body)
        = Some (int code, takeWhile (\<lambda>c. c \<noteq> CHR 0x0A) body)"
    and "parseWebhookHTTPError (webhook_error d code []) = None"
proof -
  have tx: "status_text @ xs = CHR ''w'' # tl status_text @ xs" for xs by (simp add: status_text_def)
  have find: "find_status (status_text @ xs) = (case match_status (status_text @ xs) of
      None \<Rightarrow> find_status (tl status_text @ xs) | Some r \<Rightarrow> Some r)" for xs
    unfolding tx by simp
  have c: "int code < 2 ^ 63" using assms(2) by (metis of_nat_less_iff of_nat_numeral of_nat_power)
  show "parseWebhookHTTPError (webhook_error d code body)
      = Some (int code, takeWhile (\<lambda>c. c \<noteq> CHR 0x0A) body)"
    if "takeWhile (\<lambda>c. c \<noteq> CHR 0x0A) body \<noteq> []"
    unfolding parseWebhookHTTPError_def webhook_error_def send_error.select_convs find match_webhook_error
    using that assms(1) c show_nat_digits [of code] by (simp add: Let_def)
  have "CHR ''w'' \<notin> set (tl status_text @ show_nat code @ '': '')"
    using show_nat_digits [of code] by (auto simp: status_text_def is_digit_def)
  then show "parseWebhookHTTPError (webhook_error d code []) = None"
    unfolding parseWebhookHTTPError_def webhook_error_def send_error.select_convs find match_webhook_error
    using find_status_w by (simp add: Let_def)
qed

text \<open>
  The status code that the webhook client prints into its error is read back: with a
  body whose first line is not empty, the error is classified by its code. With an empty body the
  pattern fails, so that, for instance, a 401, which should disable the channel, counts as a
  transient network error that may be retried.
\<close>
theorem webhook_error_classification:
  assumes "0 < code" and "code < 2 ^ 63"
  shows "(takeWhile (\<lambda>c. c \<noteq> CHR 0x0A) body \<noteq> [] \<longrightarrow> classifyError (webhook_error d code body)
      = ClassifyHTTPErr (int code) (takeWhile (\<lambda>c. c \<noteq> CHR 0x0A) body)) \<and>
    de_category (classifyError (webhook_error False code [])) = DeliveryTransient \<and>
    de_retryable (classifyError (webhook_error False code []))"
proof -
  let ?s = "status_text @ show_nat code @ '': ''"
  have "CHR ''c'' \<notin> set ?s" and "CHR ''T'' \<notin> set ?s"
    using show_nat_digits [of code] by (auto simp: status_text_def is_digit_def)
  then have "\<not> sublist ''certificate'' ?s" and "\<not> sublist ''TLS'' ?s"
    using set_mono_sublist by fastforce+
  then show ?thesis
    using parse_webhook_error [OF assms]
    by (simp add: classifyError_def ClassifyNetworkErr_def webhook_error_def)
qed

theorem webhook_error_classification_witness:
  "de_category (classifyError (webhook_error False 401 [])) = DeliveryTransient \<and>
   de_category (classifyError (webhook_error False 401 ''no'')) = DeliveryAuth"
  using webhook_error_classification [of 401 "''no''" False] by (simp add: ClassifyHTTPErr_def)

section \<open>Delays\<close>

lemma go_trunc_bounds: "\<bar>real_of_int (go_trunc x)\<bar> \<le> \<bar>x\<bar>" and "0 \<le> x \<Longrightarrow> 0 \<le> go_trunc x"
  and "x \<le> 0 \<Longrightarrow> go_trunc x \<le> 0"
  by (auto simp: go_trunc_def)

text \<open>The jitter comes after the cap, so a delay may exceed the maximal one by up to a fifth.\<close>

lemma calculateRetryDelay_bounds:
  fixes cfg k
  assumes "0 \<le> base" and "n < 1000"
  defines "d \<equiv> min (base * 2 ^ nat k) (if dc_max_delay cfg \<le> 0 then 10 * minute else dc_max_delay cfg)"
  shows "4 * d \<le> 5 * calculateRetryDelay cfg (Some n) k base \<and>
    5 * calculateRetryDelay cfg (Some n) k base \<le> 6 * d"
proof -
  let ?x = "real_of_int d * (real n / 1000 * 2 / 5 - 1 / 5)"
  have "0 \<le> d" using assms(1) by (simp add: d_def)
  moreover have "\<bar>real n / 1000 * 2 / 5 - 1 / 5\<bar> \<le> 1 / 5" using assms(2) by (simp add: abs_le_iff field_simps)
  ultimately have "\<bar>?x\<bar> \<le> real_of_int d * (1 / 5)"
    unfolding abs_mult by (intro mult_mono) auto
  then have "5 * \<bar>real_of_int (go_trunc ?x)\<bar> \<le> real_of_int d"
    using go_trunc_bounds(1) [of ?x] by simp
  then have "real_of_int (5 * \<bar>go_trunc ?x\<bar>) \<le> real_of_int d" by simp
  then have "5 * \<bar>go_trunc ?x\<bar> \<le> d" by (simp only: of_int_le_iff)
  moreover have "calculateRetryDelay cfg (Some n) k base = d + go_trunc ?x"
    by (simp add: calculateRetryDelay_def d_def Let_def)
  ultimately show ?thesis by arith
qed

end
