(* ===== verification/GoNet.thy ===== *)
theory GoNet
  imports Prelude
begin

text \<open>
  The parts of Go's package \<open>net\<close> that the services use: \<open>net.ParseIP\<close>, \<open>net.ParseCIDR\<close>,
  \<open>IP.Equal\<close> and \<open>IPNet.Contains\<close>. A parsed address is its sixteen bytes, an IPv4 address
  being the one mapped into IPv6. An address with a zone is refused by both functions.
\<close>

unbundle bit_operations_syntax

type_synonym ip = "8 word list"

section \<open>Addresses\<close>

text \<open>
  The rest of a dotted address, the value and the number of digits of the current octet, and the
  octets before it.
\<close>

fun v4_fields :: "string \<Rightarrow> int \<Rightarrow> nat \<Rightarrow> int list \<Rightarrow> int list option" where
  "v4_fields [] val len fields = (if length fields < 3 then None else Some (fields @ [val]))"
| "v4_fields (c # s) val len fields =
     (if is_digit c then
        if len = 1 \<and> val = 0 then None
        else let val' = 10 * val + digit_value c
          in if 255 < val' then None else v4_fields s val' (len + 1) fields
      else if c = CHR ''.'' then
        if len = 0 \<or> s = [] then None
        else if length fields = 3 then None
        else v4_fields s 0 0 (fields @ [val])
      else None)"

definition parse_v4 :: "string \<Rightarrow> 8 word list option" where
  "parse_v4 s = map_option (map of_int) (v4_fields s 0 0 [])"

definition hex_value :: "char \<Rightarrow> int option" where
  "hex_value c = (let n = int (of_char c) in
     if 48 \<le> n \<and> n \<le> 57 then Some (n - 48)
     else if 97 \<le> n \<and> n \<le> 102 then Some (n - 87)
     else if 65 \<le> n \<and> n \<le> 70 then Some (n - 55)
     else None)"

text \<open>
  Up to four hexadecimal digits: their value, their number, and the rest. \<open>None\<close> is a fifth
  digit.
\<close>

fun hex_group :: "string \<Rightarrow> int \<Rightarrow> nat \<Rightarrow> (int \<times> nat \<times> string) option" where
  "hex_group [] acc off = Some (acc, off, [])"
| "hex_group (c # s) acc off =
     (case hex_value c of
        None \<Rightarrow> Some (acc, off, c # s)
      | Some d \<Rightarrow> if 3 < off then None else hex_group s (16 * acc + d) (off + 1))"

text \<open>
  The loop over the groups, of which \<open>k\<close> are free: the rest of the text, the bytes so far, and
  the place of the ellipsis.
\<close>

primrec v6_groups ::
    "nat \<Rightarrow> string \<Rightarrow> 8 word list \<Rightarrow> nat option \<Rightarrow>
     (string \<times> 8 word list \<times> nat option) option" where
  "v6_groups 0 s bytes ellipsis = Some (s, bytes, ellipsis)"
| "v6_groups (Suc k) s bytes ellipsis =
     (case hex_group s 0 0 of
        None \<Rightarrow> None
      | Some (acc, off, rest) \<Rightarrow>
          if off = 0 then None
          else if rest \<noteq> [] \<and> hd rest = CHR ''.'' then
            if ellipsis = None \<and> length bytes \<noteq> 12 then None
            else if 16 < length bytes + 4 then None
            else map_option (\<lambda>v4. ([], bytes @ v4, ellipsis)) (parse_v4 s)
          else
            (let bytes' = bytes @ [of_int (acc div 256), of_int acc]
             in if rest = [] then Some ([], bytes', ellipsis)
                else if hd rest \<noteq> CHR '':'' then None
                else if tl rest = [] then None
                else if hd (tl rest) = CHR '':'' then
                  if ellipsis \<noteq> None then None
                  else if tl (tl rest) = [] then Some ([], bytes', Some (length bytes'))
                  else v6_groups k (tl (tl rest)) bytes' (Some (length bytes'))
                else v6_groups k (tl rest) bytes' ellipsis))"

definition finish_v6 :: "string \<times> 8 word list \<times> nat option \<Rightarrow> ip option" where
  "finish_v6 r = (case r of (s, bytes, ellipsis) \<Rightarrow>
     if s \<noteq> [] then None
     else if length bytes < 16 then
       (case ellipsis of
          None \<Rightarrow> None
        | Some e \<Rightarrow> Some (take e bytes @ replicate (16 - length bytes) 0 @ drop e bytes))
     else if ellipsis \<noteq> None then None
     else Some bytes)"

definition parse_v6 :: "string \<Rightarrow> ip option" where
  "parse_v6 s =
     (if take 2 s = ''::'' then
        if drop 2 s = [] then Some (replicate 16 0)
        else Option.bind (v6_groups 8 (drop 2 s) [] (Some 0)) finish_v6
      else Option.bind (v6_groups 8 s [] None) finish_v6)"

definition v4_prefix :: "8 word list" where
  "v4_prefix = replicate 10 0 @ [0xFF, 0xFF]"

text \<open>\<open>netip.ParseAddr\<close>, with the number of bits of the kind of address.\<close>

definition parse_addr :: "string \<Rightarrow> (ip \<times> nat) option" where
  "parse_addr s =
     (case List.find (\<lambda>c. c \<in> {CHR ''.'', CHR '':'', CHR ''%''}) s of
        None \<Rightarrow> None
      | Some c \<Rightarrow>
          if CHR ''%'' \<in> set s then None
          else if c = CHR ''.'' then map_option (\<lambda>v4. (v4_prefix @ v4, 32)) (parse_v4 s)
          else map_option (\<lambda>a. (a, 128)) (parse_v6 s))"

definition ParseIP :: "string \<Rightarrow> ip option" where
  "ParseIP s = map_option fst (parse_addr s)"

section \<open>Networks\<close>

definition CIDRMask :: "nat \<Rightarrow> nat \<Rightarrow> 8 word list" where
  "CIDRMask n bits = map (\<lambda>i. NOT (drop_bit (min 8 (n - 8 * i)) 0xFF)) [0..<bits div 8]"

definition To4 :: "8 word list \<Rightarrow> 8 word list option" where
  "To4 a = (if length a = 4 then Some a
     else if length a = 16 \<and> take 12 a = v4_prefix then Some (drop 12 a) else None)"

definition and_bytes :: "8 word list \<Rightarrow> 8 word list \<Rightarrow> 8 word list" where
  "and_bytes a m = map2 (AND) a m"

text \<open>\<open>IP.Mask\<close>, for the two lengths of masks that \<open>ParseCIDR\<close> makes.\<close>

definition mask_ip :: "8 word list \<Rightarrow> 8 word list \<Rightarrow> 8 word list" where
  "mask_ip a m =
     (let a' = (if length m = 4 \<and> length a = 16 \<and> take 12 a = v4_prefix then drop 12 a else a)
      in if length a' \<noteq> length m then [] else and_bytes a' m)"

text \<open>\<open>dtoi\<close>: the digits at the start, as long as the number stays below the limit.\<close>

definition parse_bits :: "string \<Rightarrow> nat option" where
  "parse_bits s =
     (if s = [] \<or> \<not> list_all is_digit s \<or> 0xFFFFFF \<le> number_of s then None
      else Some (nat (number_of s)))"

type_synonym ip_net = "8 word list \<times> 8 word list"

definition ParseCIDR :: "string \<Rightarrow> ip_net option" where
  "ParseCIDR s =
     (let addr = takeWhile (\<lambda>c. c \<noteq> CHR ''/'') s; rest = dropWhile (\<lambda>c. c \<noteq> CHR ''/'') s
      in if rest = [] then None
         else case parse_addr addr of
           None \<Rightarrow> None
         | Some (a, bits) \<Rightarrow>
             (case parse_bits (tl rest) of
                None \<Rightarrow> None
              | Some n \<Rightarrow> if bits < n then None
                  else let m = CIDRMask n bits in Some (mask_ip a m, m)))"

definition net_Contains :: "ip_net \<Rightarrow> ip \<Rightarrow> bool" where
  "net_Contains net a =
     (let nn = (case To4 (fst net) of Some n \<Rightarrow> n | None \<Rightarrow> fst net);
          m = (if length (snd net) = 16 \<and> length nn = 4 then drop 12 (snd net) else snd net);
          x = (case To4 a of Some v \<Rightarrow> v | None \<Rightarrow> a)
      in length x = length nn \<and> and_bytes nn m = and_bytes x m)"

section \<open>Dotted addresses\<close>

text \<open>The decimal form of four bytes, and bit \<open>j\<close> of an address, counted from the left.\<close>

definition show_v4 :: "nat list \<Rightarrow> string" where
  "show_v4 bs = show_nat (bs ! 0) @ ''.'' @ show_nat (bs ! 1) @ ''.'' @ show_nat (bs ! 2) @ ''.'' @
     show_nat (bs ! 3)"

definition v4_bit :: "nat list \<Rightarrow> nat \<Rightarrow> bool" where
  "v4_bit bs j = bit (bs ! (j div 8)) (7 - j mod 8)"

lemma show_nat_cases:
  "n < 10 \<Longrightarrow> show_nat n = [''0123456789'' ! n]"
  "10 \<le> n \<Longrightarrow> n < 100 \<Longrightarrow> show_nat n = [''0123456789'' ! (n div 10), ''0123456789'' ! (n mod 10)]"
  "100 \<le> n \<Longrightarrow> n < 1000 \<Longrightarrow> show_nat n =
     [''0123456789'' ! (n div 100), ''0123456789'' ! (n div 10 mod 10), ''0123456789'' ! (n mod 10)]"
proof -
  show 1: "show_nat n = [''0123456789'' ! n]" if "n < 10" for n
    using that by (subst show_nat.simps) simp
  show 2: "show_nat n = [''0123456789'' ! (n div 10), ''0123456789'' ! (n mod 10)]"
    if "10 \<le> n" "n < 100" for n
    using that by (subst show_nat.simps) (simp add: 1)
  show "show_nat n = [''0123456789'' ! (n div 100), ''0123456789'' ! (n div 10 mod 10), ''0123456789'' ! (n mod 10)]"
    if "100 \<le> n" "n < 1000"
  proof -
    have "n div 10 div 10 = n div 100" by (simp add: div_mult2_eq [symmetric])
    then show ?thesis using that by (subst show_nat.simps) (simp add: 2)
  qed
qed

lemma digit_0_iff: "n < 10 \<Longrightarrow> ''0123456789'' ! n = CHR ''0'' \<longleftrightarrow> n = 0"
  by (auto simp: less_Suc_eq numeral_eq_Suc)

lemma v4_digit:
  assumes "k < 10"
  shows "v4_fields (''0123456789'' ! k # s) val len fs = (if len = 1 \<and> val = 0 then None
     else if 255 < 10 * val + int k then None else v4_fields s (10 * val + int k) (len + 1) fs)"
  using digit_nth [OF assms] by (simp only: v4_fields.simps Let_def if_True)

lemma show_nat_octet:
  assumes "n < 256"
  obtains (one) "show_nat n = [''0123456789'' ! n]" "n < 10"
  | (two) a b where "show_nat n = [''0123456789'' ! a, ''0123456789'' ! b]" "n = 10 * a + b"
      "0 < a" "a < 10" "b < 10"
  | (three) a b c where "show_nat n = [''0123456789'' ! a, ''0123456789'' ! b, ''0123456789'' ! c]"
      "n = 100 * a + 10 * b + c" "0 < a" "a < 10" "b < 10" "c < 10"
proof -
  have split: "n = 10 * q + c \<Longrightarrow> q = 10 * a + b \<Longrightarrow> n = 100 * a + 10 * b + c" for a b c q :: nat
    by simp
  consider "n < 10" | "10 \<le> n" "n < 100" | "100 \<le> n" by linarith
  then show thesis
  proof cases
    case 1
    then show thesis using show_nat_cases(1) one by blast
  next
    case 2
    then have "0 < n div 10" "n div 10 < 10" by auto
    then show thesis using two [OF show_nat_cases(2) [OF 2], of] by simp
  next
    case 3
    have "n = 100 * (n div 100) + 10 * (n div 10 mod 10) + n mod 10"
      using split [OF mult_div_mod_eq [of 10 n, symmetric] mult_div_mod_eq [of 10 "n div 10", symmetric]]
      by (simp only: div_mult2_eq [of n 10 10, symmetric]) simp
    moreover have "0 < n div 100" "n div 100 < 10" "n div 10 mod 10 < 10" "n mod 10 < 10" "n < 1000"
      using 3 assms by auto
    ultimately show thesis using three [OF show_nat_cases(3) [OF 3]] by blast
  qed
qed

lemma v4_octet:
  assumes "n < 256"
  shows "v4_fields (show_nat n @ s) 0 0 fs = v4_fields s (int n) (length (show_nat n)) fs"
  using assms
proof (cases rule: show_nat_octet)
  case one
  then show ?thesis unfolding one(1) append.simps v4_digit [OF one(2)] by simp
next
  case (two a b)
  show ?thesis
    unfolding two(1) append.simps v4_digit [OF two(4)] v4_digit [OF two(5)] using two(2-) assms by simp
next
  case (three a b c)
  show ?thesis
    unfolding three(1) append.simps v4_digit [OF three(4)] v4_digit [OF three(5)] v4_digit [OF three(6)]
    using three(2-) assms by simp
qed

lemma is_digit_seps: "\<not> is_digit CHR ''.''" "\<not> is_digit CHR ''/''" "\<not> is_digit CHR '':''" "\<not> is_digit CHR ''%''"
  by (simp_all add: is_digit_def)

definition bytes4 :: "nat list \<Rightarrow> bool" where
  "bytes4 bs \<longleftrightarrow> length bs = 4 \<and> (\<forall>b \<in> set bs. b < 256)"

lemma bytes4_cases: "bytes4 bs \<Longrightarrow> \<exists>a b c d. bs = [a, b, c, d] \<and> a < 256 \<and> b < 256 \<and> c < 256 \<and> d < 256"
  by (auto simp: bytes4_def numeral_eq_Suc length_Suc_conv)

lemma show_nat_nonempty [simp]: "show_nat n \<noteq> []"
  using show_nat_digits by simp

lemma parse_v4_show: "bytes4 bs \<Longrightarrow> parse_v4 (show_v4 bs) = Some (map of_nat bs)"
  using v4_octet [where s = "[]"]
  by (drule_tac bytes4_cases) (auto simp: parse_v4_def show_v4_def v4_octet is_digit_seps)

lemma set_show_v4: "c \<in> set (show_v4 bs) \<Longrightarrow> is_digit c \<or> c = CHR ''.''"
  using show_nat_digits by (auto simp: show_v4_def)

lemma parse_addr_show:
  assumes "bytes4 bs"
  shows "parse_addr (show_v4 bs) = Some (v4_prefix @ map of_nat bs, 32)"
proof -
  have "CHR ''.'' \<in> set (show_v4 bs)" by (simp add: show_v4_def)
  then have "List.find (\<lambda>c. c \<in> {CHR ''.'', CHR '':'', CHR ''%''}) (show_v4 bs) \<noteq> None"
    by (auto simp: find_None_iff)
  then obtain c where c: "List.find (\<lambda>c. c \<in> {CHR ''.'', CHR '':'', CHR ''%''}) (show_v4 bs) = Some c" by blast
  then have "c = CHR ''.''" using find_Some_inD [OF c] set_show_v4 [of c bs] by (auto simp: is_digit_seps)
  moreover have "CHR ''%'' \<notin> set (show_v4 bs)" using set_show_v4 [of "CHR ''%''" bs] by (auto simp: is_digit_seps)
  ultimately show ?thesis using c assms by (simp add: parse_addr_def parse_v4_show)
qed

lemma ParseIP_show: "bytes4 bs \<Longrightarrow> ParseIP (show_v4 bs) = Some (v4_prefix @ map of_nat bs)"
  by (simp add: ParseIP_def parse_addr_show)

lemma parse_bits_show: "n < 0xFFFFFF \<Longrightarrow> parse_bits (show_nat n) = Some n"
  using show_nat_digits [of n] by (simp add: parse_bits_def list_all_iff)

lemma ParseCIDR_show:
  assumes "bytes4 bs" and "n \<le> 32"
  shows "ParseCIDR (show_v4 bs @ ''/'' @ show_nat n)
    = Some (and_bytes (map of_nat bs) (CIDRMask n 32), CIDRMask n 32)"
proof -
  have "\<forall>c \<in> set (show_v4 bs). c \<noteq> CHR ''/''" using set_show_v4 [of "CHR ''/''" bs] by (auto simp: is_digit_seps)
  then have "takeWhile (\<lambda>c. c \<noteq> CHR ''/'') (show_v4 bs @ ''/'' @ show_nat n) = show_v4 bs"
    and "dropWhile (\<lambda>c. c \<noteq> CHR ''/'') (show_v4 bs @ ''/'' @ show_nat n) = ''/'' @ show_nat n"
    by simp_all
  moreover have "length bs = 4" using assms(1) by (simp add: bytes4_def)
  ultimately show ?thesis using assms(2)
    by (simp add: ParseCIDR_def parse_addr_show [OF assms(1)] parse_bits_show mask_ip_def v4_prefix_def
        CIDRMask_def Let_def)
qed

text \<open>A mask keeps the first bits.\<close>

lemma mask_byte:
  fixes a x :: "8 word"
  shows "a AND NOT (drop_bit (min 8 m) 0xFF) = x AND NOT (drop_bit (min 8 m) 0xFF)
    \<longleftrightarrow> (\<forall>k < 8. 8 \<le> k + m \<longrightarrow> bit a k = bit x k)"
proof -
  have ff: "bit (0xFF :: 8 word) k \<longleftrightarrow> k < 8" for k
  proof -
    have "(0xFF :: 8 word) = mask 8" by (simp add: mask_eq_exp_minus_1)
    then show ?thesis by (simp only: bit_mask_iff) simp
  qed
  show ?thesis
    unfolding bit_eq_iff bit_and_iff bit_not_iff bit_drop_bit_eq o_apply ff by auto
qed

lemma list_eq4: "length xs = 4 \<Longrightarrow> length ys = 4 \<Longrightarrow> xs = ys \<longleftrightarrow> (\<forall>i < 4. xs ! i = ys ! i)"
  by (auto simp: list_eq_iff_nth_eq)

lemma bit_byte: "k < 8 \<Longrightarrow> bit (of_nat b :: 8 word) k \<longleftrightarrow> bit b k"
  by (simp add: bit_of_nat_iff)

lemma bits_of_bytes:
  "(\<forall>i < 4. \<forall>k < 8. 8 \<le> k + (n - 8 * i) \<longrightarrow> bit (a ! i) k = bit (x ! i) k)
    \<longleftrightarrow> (\<forall>j < min n 32. v4_bit a j = v4_bit x j)" (is "?bytes \<longleftrightarrow> ?bits")
proof
  assume b: ?bytes
  show ?bits
  proof (intro allI impI)
    fix j assume "j < min n 32"
    then have "j div 8 < 4" "7 - j mod 8 < 8" "8 \<le> 7 - j mod 8 + (n - 8 * (j div 8))" by auto
    then show "v4_bit a j = v4_bit x j" unfolding v4_bit_def using b by blast
  qed
next
  assume b: ?bits
  show ?bytes
  proof (intro allI impI)
    fix i k :: nat assume ik: "i < 4" "k < 8" "8 \<le> k + (n - 8 * i)"
    let ?j = "8 * i + (7 - k)"
    have "?j mod 8 = 7 - k" "?j div 8 = i" using ik by (simp_all only: mod_mult_self4 div_mult_self4) simp_all
    moreover from this have "7 - ?j mod 8 = k" "?j < min n 32" using ik by auto
    ultimately show "bit (a ! i) k = bit (x ! i) k" using b by (metis v4_bit_def)
  qed
qed

text \<open>An IPv4 network contains the addresses that agree with it on the first \<open>n\<close> bits.\<close>

lemma net_Contains_v4:
  assumes "bytes4 a" and "bytes4 x" and "n \<le> 32"
  shows "net_Contains (and_bytes (map of_nat a) (CIDRMask n 32), CIDRMask n 32) (v4_prefix @ map of_nat x)
    \<longleftrightarrow> (\<forall>j < n. v4_bit a j = v4_bit x j)"
proof -
  let ?a = "map of_nat a :: 8 word list" and ?x = "map of_nat x :: 8 word list" and ?m = "CIDRMask n 32"
  have len: "length a = 4" "length x = 4" "length ?m = 4"
    using assms by (simp_all add: bytes4_def CIDRMask_def)
  have "net_Contains (and_bytes ?a ?m, ?m) (v4_prefix @ ?x) \<longleftrightarrow>
      and_bytes (and_bytes ?a ?m) ?m = and_bytes ?x ?m"
    using len by (simp add: net_Contains_def To4_def and_bytes_def v4_prefix_def Let_def)
  also have "\<dots> \<longleftrightarrow> (\<forall>i < 4. ?a ! i AND ?m ! i = ?x ! i AND ?m ! i)"
    using len by (subst list_eq4) (simp_all add: and_bytes_def and.assoc)
  also have "\<dots> \<longleftrightarrow> (\<forall>i < 4. \<forall>k < 8. 8 \<le> k + (n - 8 * i) \<longrightarrow> bit (a ! i) k = bit (x ! i) k)"
    using len by (simp add: CIDRMask_def mask_byte bit_byte)
  also have "\<dots> \<longleftrightarrow> (\<forall>j < n. v4_bit a j = v4_bit x j)"
    using assms(3) by (simp add: bits_of_bytes min_absorb1)
  finally show ?thesis .
qed

end
