(* ===== verification/PageToken.thy ===== *)
theory PageToken
  imports Prelude
begin

text \<open>
  The page tokens of the integration service's list operations: the offset of the next page as
  text, in base 64. Of Go's library this needs \<open>base64.StdEncoding\<close>, which skips line breaks when
  it decodes, and \<open>strconv.Atoi\<close>. A token that does not parse is the offset 0.
\<close>

section \<open>Base 64\<close>

definition b64_alphabet :: string where
  "b64_alphabet = ''ABCDEFGHIJKLMNOPQRSTUVWXYZabcdefghijklmnopqrstuvwxyz0123456789+/''"

definition b64_char :: "nat \<Rightarrow> char" where
  "b64_char n = b64_alphabet ! n"

definition b64_value :: "char \<Rightarrow> nat option" where
  "b64_value c = map_option fst (List.find (\<lambda>(i, d). d = c) (enumerate 0 b64_alphabet))"

definition byte :: "nat \<Rightarrow> char" where
  "byte n = char_of n"

fun b64_encode :: "string \<Rightarrow> string" where
  "b64_encode [] = []"
| "b64_encode [a] = (let a = of_char a in [b64_char (a div 4), b64_char (a mod 4 * 16), CHR ''='', CHR ''=''])"
| "b64_encode [a, b] = (let a = of_char a; b = of_char b
     in [b64_char (a div 4), b64_char (a mod 4 * 16 + b div 16), b64_char (b mod 16 * 4), CHR ''=''])"
| "b64_encode (a # b # c # s) = (let a = of_char a; b = of_char b; c = of_char c
     in b64_char (a div 4) # b64_char (a mod 4 * 16 + b div 16) # b64_char (b mod 16 * 4 + c div 64) #
        b64_char (c mod 64) # b64_encode s)"

definition b64_first :: "nat \<Rightarrow> nat \<Rightarrow> char" where
  "b64_first a b = byte (a * 4 + b div 16)"

definition b64_second :: "nat \<Rightarrow> nat \<Rightarrow> char" where
  "b64_second b c = byte (b mod 16 * 16 + c div 4)"

definition b64_third :: "nat \<Rightarrow> nat \<Rightarrow> char" where
  "b64_third c d = byte (c mod 4 * 64 + d)"

fun b64_quads :: "string \<Rightarrow> string option" where
  "b64_quads [] = Some []"
| "b64_quads (a # b # c # d # s) =
     (case (b64_value a, b64_value b) of
        (Some a, Some b) \<Rightarrow>
          if d = CHR ''='' then
            if s \<noteq> [] then None
            else if c = CHR ''='' then Some [b64_first a b]
            else map_option (\<lambda>c. [b64_first a b, b64_second b c]) (b64_value c)
          else
            (case (b64_value c, b64_value d) of
               (Some c, Some d) \<Rightarrow>
                 map_option (\<lambda>r. b64_first a b # b64_second b c # b64_third c d # r) (b64_quads s)
             | _ \<Rightarrow> None)
      | _ \<Rightarrow> None)"
| "b64_quads _ = None"

definition b64_decode :: "string \<Rightarrow> string option" where
  "b64_decode s = b64_quads (filter (\<lambda>c. c \<noteq> CHR 0x0A \<and> c \<noteq> CHR 0x0D) s)"

section \<open>Numbers\<close>

definition Atoi :: "string \<Rightarrow> int option" where
  "Atoi s =
     (let neg = (s \<noteq> [] \<and> hd s = CHR ''-'');
          ds = (if s \<noteq> [] \<and> (hd s = CHR ''-'' \<or> hd s = CHR ''+'') then tl s else s);
          n = (if neg then - number_of ds else number_of ds)
      in if ds = [] \<or> \<not> list_all is_digit ds then None
         else if n < - (2 ^ 63) \<or> 2 ^ 63 \<le> n then None
         else Some n)"

section \<open>Tokens\<close>

definition token_text :: string where
  "token_text = ''offset:''"

definition page_offset :: "string \<Rightarrow> int" where
  "page_offset token =
     (if token = [] then 0
      else case b64_decode token of
          None \<Rightarrow> 0
        | Some s \<Rightarrow>
            if 7 < length s \<and> take 7 s = token_text
            then (case Atoi (drop 7 s) of None \<Rightarrow> 0 | Some n \<Rightarrow> n)
            else 0)"

definition page_token :: "int \<Rightarrow> string" where
  "page_token n = b64_encode (token_text @ show_int n)"

section \<open>Round trip\<close>

lemma b64_all: "list_all (\<lambda>n. b64_value (b64_char n) = Some n \<and> b64_char n \<noteq> CHR ''='' \<and>
    b64_char n \<noteq> CHR 0x0A \<and> b64_char n \<noteq> CHR 0x0D) [0..<64]"
  by code_simp

lemma b64_char:
  assumes "n < 64"
  shows "b64_value (b64_char n) = Some n" "b64_char n \<noteq> CHR ''=''" "b64_char n \<noteq> CHR 0x0A"
    "b64_char n \<noteq> CHR 0x0D"
  using b64_all assms by (auto simp: list_all_iff)

lemma byte_less: "of_char (c :: char) < (256 :: nat)"
  by simp

lemma byte_of: "byte (of_char c) = c"
  by (simp add: byte_def)

lemma b64_parts:
  "of_char (a :: char) div 4 < (64 :: nat)" "of_char a mod 4 * 16 < (64 :: nat)"
  "of_char a mod 4 * 16 + of_char (b :: char) div 16 < (64 :: nat)" "of_char b mod 16 * 4 < (64 :: nat)"
  "of_char b mod 16 * 4 + of_char (c :: char) div 64 < (64 :: nat)" "of_char c mod 64 < (64 :: nat)"
  using byte_less [of a] byte_less [of b] byte_less [of c] by linarith+

lemma b64_join:
  fixes a b c :: char
  defines "x \<equiv> of_char a :: nat" and "y \<equiv> of_char b :: nat" and "z \<equiv> of_char c :: nat"
  shows "b64_first (x div 4) (x mod 4 * 16) = a"
    and "b64_first (x div 4) (x mod 4 * 16 + y div 16) = a"
    and "b64_second (x mod 4 * 16 + y div 16) (y mod 16 * 4) = b"
    and "b64_second (x mod 4 * 16 + y div 16) (y mod 16 * 4 + z div 64) = b"
    and "b64_third (y mod 16 * 4 + z div 64) (z mod 64) = c"
proof -
  have less: "x < 256" "y < 256" "z < 256" by (simp_all add: x_def y_def z_def byte_less)
  have a: "byte x = a" and b: "byte y = b" and c: "byte z = c"
    by (simp_all add: x_def y_def z_def byte_of)
  have x: "x div 4 * 4 + (x mod 4 * 16) div 16 = x" by simp
  have "(x mod 4 * 16 + y div 16) div 16 = x mod 4" using less by simp
  then have x': "x div 4 * 4 + (x mod 4 * 16 + y div 16) div 16 = x" by simp
  have "(x mod 4 * 16 + y div 16) mod 16 = y div 16" using less by simp
  moreover have "(y mod 16 * 4 + z div 64) div 4 = y mod 16" using less by simp
  ultimately have y: "(x mod 4 * 16 + y div 16) mod 16 * 16 + (y mod 16 * 4) div 4 = y"
    and y': "(x mod 4 * 16 + y div 16) mod 16 * 16 + (y mod 16 * 4 + z div 64) div 4 = y"
    by simp_all
  have "(y mod 16 * 4 + z div 64) mod 4 = z div 64" using less by simp
  then have z: "(y mod 16 * 4 + z div 64) mod 4 * 64 + z mod 64 = z" by simp
  show "b64_first (x div 4) (x mod 4 * 16) = a" unfolding b64_first_def x by (rule a)
  show "b64_first (x div 4) (x mod 4 * 16 + y div 16) = a" unfolding b64_first_def x' by (rule a)
  show "b64_second (x mod 4 * 16 + y div 16) (y mod 16 * 4) = b" unfolding b64_second_def y by (rule b)
  show "b64_second (x mod 4 * 16 + y div 16) (y mod 16 * 4 + z div 64) = b"
    unfolding b64_second_def y' by (rule b)
  show "b64_third (y mod 16 * 4 + z div 64) (z mod 64) = c" unfolding b64_third_def z by (rule c)
qed

lemma b64_quads_encode: "b64_quads (b64_encode s) = Some s"
  by (induction s rule: b64_encode.induct)
    (simp_all only: b64_encode.simps Let_def b64_quads.simps b64_char b64_parts b64_join
      option.case prod.case if_True if_False simp_thms option.map)

lemma b64_no_breaks: "\<forall>c \<in> set (b64_encode s). c \<noteq> CHR 0x0A \<and> c \<noteq> CHR 0x0D"
  by (induction s rule: b64_encode.induct) (auto simp: Let_def b64_char b64_parts)

lemma b64_decode_encode: "b64_decode (b64_encode s) = Some s"
  using b64_no_breaks [of s] by (simp add: b64_decode_def b64_quads_encode filter_id_conv [THEN iffD2])

lemma hd_show_nat: "hd (show_nat n) \<noteq> CHR ''-''" "hd (show_nat n) \<noteq> CHR ''+''"
proof -
  have "is_digit (hd (show_nat n))" using show_nat_digits [of n] by (simp add: hd_in_set)
  then show "hd (show_nat n) \<noteq> CHR ''-''" "hd (show_nat n) \<noteq> CHR ''+''" by (auto simp: is_digit_def)
qed

lemma Atoi_show_int: "- (2 ^ 63) \<le> n \<Longrightarrow> n < 2 ^ 63 \<Longrightarrow> Atoi (show_int n) = Some n"
  using show_nat_digits [of "nat n"] show_nat_digits [of "nat (- n)"] hd_show_nat [of "nat n"]
  by (simp add: Atoi_def show_int_def Let_def list_all_iff)

lemma page_offset_token:
  assumes "- (2 ^ 63) \<le> n" and "n < 2 ^ 63"
  shows "page_offset (page_token n) = n"
proof -
  have "show_int n \<noteq> []" using show_nat_digits by (simp add: show_int_def)
  moreover have "page_token n \<noteq> []" by (simp add: page_token_def token_text_def Let_def)
  moreover have "b64_decode (page_token n) = Some (token_text @ show_int n)"
    by (simp only: page_token_def b64_decode_encode)
  ultimately show ?thesis using Atoi_show_int [OF assms] by (simp add: page_offset_def token_text_def)
qed

end
