(* ===== verification/RateLimiter.thy ===== *)
theory RateLimiter
  imports Prelude
begin

text \<open>
  The rate limiter of API keys, \<open>integration-service/internal/service/apikey/rate_limiter.go\<close>: the
  admitted requests of each key in a window of one minute. Keys are identified by numbers. Every
  operation runs under the mutex, so that it is one step.
\<close>

section \<open>Model\<close>

record sliding_window =
  sw_requests :: "time list"
  sw_start :: time
  sw_size :: duration

type_synonym limiter = "nat \<Rightarrow> sliding_window option"

definition NewSlidingWindowRateLimiter :: limiter where
  "NewSlidingWindowRateLimiter = (\<lambda>_. None)"

text \<open>
  The window of a key, created when there is none, and emptied when it is older than a minute.
  Both allocate for \<open>limit\<close> requests, which panics (\<open>None\<close>) for a negative limit.
\<close>

definition current_window :: "time \<Rightarrow> int \<Rightarrow> sliding_window option \<Rightarrow> sliding_window option" where
  "current_window now limit w =
     (case w of
        None \<Rightarrow> if limit < 0 then None
          else Some \<lparr>sw_requests = [], sw_start = now, sw_size = minute\<rparr>
      | Some w \<Rightarrow>
          if minute < now - sw_start w
          then (if limit < 0 then None else Some (w\<lparr>sw_requests := [], sw_start := now\<rparr>))
          else Some w)"

definition Allow :: "time \<Rightarrow> nat \<Rightarrow> int \<Rightarrow> limiter \<Rightarrow> (bool \<times> limiter) option" where
  "Allow now k limit rl =
     (case current_window now limit (rl k) of
        None \<Rightarrow> None
      | Some w \<Rightarrow>
          (let w' = w\<lparr>sw_requests := filter (\<lambda>t. now - minute < t) (sw_requests w)\<rparr>
           in if limit \<le> int (length (sw_requests w')) then Some (False, rl(k \<mapsto> w'))
              else Some (True, rl(k \<mapsto> w'\<lparr>sw_requests := sw_requests w' @ [now]\<rparr>))))"

definition rl_Reset :: "nat \<Rightarrow> limiter \<Rightarrow> limiter" where
  "rl_Reset k rl = rl(k := None)"

text \<open>One tick of the clean-up goroutine.\<close>

definition rl_cleanup :: "time \<Rightarrow> limiter \<Rightarrow> limiter" where
  "rl_cleanup now rl = (\<lambda>k. case rl k of
     None \<Rightarrow> None
   | Some w \<Rightarrow> if 10 * minute < now - sw_start w then None else Some w)"

definition GetRemainingRequests :: "time \<Rightarrow> nat \<Rightarrow> int \<Rightarrow> limiter \<Rightarrow> int" where
  "GetRemainingRequests now k limit rl =
     (case rl k of
        None \<Rightarrow> limit
      | Some w \<Rightarrow>
          (let remaining = limit - int (count_where (\<lambda>t. now - minute < t) (sw_requests w))
           in if remaining < 0 then 0 else remaining))"

definition GetResetTime :: "time \<Rightarrow> nat \<Rightarrow> limiter \<Rightarrow> time" where
  "GetResetTime now k rl =
     (case rl k of None \<Rightarrow> now + minute | Some w \<Rightarrow> sw_start w + minute)"

section \<open>How many requests a minute admits\<close>

text \<open>
  The limiter over time: requests of any key, and ticks of the clean-up. Next to the limiter runs
  the list of the times at which requests of the key \<open>k\<close> were admitted. The limit of a key stays the same;
  \<open>rl_Reset\<close>, which the deletion of a key calls, forgets all its requests and is no step here.
\<close>

datatype limiter_op = OpAllow nat | OpCleanup

fun limiter_step ::
    "(nat \<Rightarrow> int) \<Rightarrow> nat \<Rightarrow> time \<times> limiter_op \<Rightarrow> limiter \<times> time list \<Rightarrow> limiter \<times> time list" where
  "limiter_step limits k (now, OpCleanup) (rl, adm) = (rl_cleanup now rl, adm)"
| "limiter_step limits k (now, OpAllow i) (rl, adm) =
     (case Allow now i (limits i) rl of
        None \<Rightarrow> (rl, adm)
      | Some (ok, rl') \<Rightarrow> (rl', if ok \<and> i = k then adm @ [now] else adm))"

abbreviation within :: "time \<Rightarrow> time \<Rightarrow> bool" where
  "within t x \<equiv> t - minute < x \<and> x \<le> t"

text \<open>
  Requests admitted before the current window, \<open>old\<close>, and since, \<open>cur\<close>. The window started more
  than a minute after the one before, so that a minute meets two of them at most.
\<close>

definition limiter_inv :: "nat \<Rightarrow> sliding_window option \<Rightarrow> time list \<Rightarrow> time \<Rightarrow> bool" where
  "limiter_inv l w adm now \<longleftrightarrow>
     (\<forall>x \<in> set adm. x \<le> now) \<and> (\<forall>t. count_where (within t) adm \<le> 2 * l) \<and>
     (case w of
        None \<Rightarrow> \<forall>t \<ge> now. count_where (within t) adm \<le> l
      | Some w \<Rightarrow> sw_start w \<le> now \<and> (\<exists>old cur p. adm = old @ cur \<and>
          (\<forall>x \<in> set old. x \<le> sw_start w) \<and> count_where (within (sw_start w)) old \<le> l \<and>
          (\<forall>x \<in> set cur. sw_start w \<le> x) \<and> (\<forall>t. count_where (within t) cur \<le> l) \<and>
          p \<le> now \<and> sw_requests w = filter (\<lambda>x. p - minute < x) cur))"

lemma limiter_inv_SomeI:
  assumes "adm = old @ cur" and "\<forall>x \<in> set adm. x \<le> now" and "\<forall>t. count_where (within t) adm \<le> 2 * l"
    and "sw_start w \<le> now" and "\<forall>x \<in> set old. x \<le> sw_start w"
    and "count_where (within (sw_start w)) old \<le> l" and "\<forall>x \<in> set cur. sw_start w \<le> x"
    and "\<forall>t. count_where (within t) cur \<le> l" and "p \<le> now"
    and "sw_requests w = filter (\<lambda>x. p - minute < x) cur"
  shows "limiter_inv l (Some w) adm now"
  unfolding limiter_inv_def option.case using assms by blast

lemma count_within_0: "\<forall>x \<in> set xs. x \<le> t - minute \<or> t < x \<Longrightarrow> count_where (within t) xs = 0"
  by (auto simp: count_where_0_iff)

lemma limiter_inv_later:
  assumes "limiter_inv l w adm now" and "now \<le> now'"
  shows "limiter_inv l w adm now'"
proof -
  have now: "\<forall>x \<in> set adm. x \<le> now'" using assms by (auto simp: limiter_inv_def)
  show ?thesis
  proof (cases w)
    case None
    then show ?thesis using assms now by (simp add: limiter_inv_def)
  next
    case (Some v)
    then obtain old cur p where "adm = old @ cur" "\<forall>x \<in> set old. x \<le> sw_start v"
        "count_where (within (sw_start v)) old \<le> l" "\<forall>x \<in> set cur. sw_start v \<le> x"
        "\<forall>t. count_where (within t) cur \<le> l" "p \<le> now" "sw_requests v = filter (\<lambda>x. p - minute < x) cur"
      using assms(1) by (auto simp: limiter_inv_def)
    moreover have "sw_start v \<le> now" "\<forall>t. count_where (within t) adm \<le> 2 * l"
      using assms(1) Some by (simp_all add: limiter_inv_def)
    ultimately show ?thesis unfolding Some
      by (intro limiter_inv_SomeI [where old = old and cur = cur and p = p]) (use assms(2) now in auto)
  qed
qed

text \<open>The window expires: all that is in the last minute came from it alone.\<close>

lemma limiter_inv_expire:
  assumes "limiter_inv l (Some w) adm now" and "minute < now - sw_start w" and "now \<le> t"
  shows "count_where (within t) adm \<le> l"
proof -
  obtain old cur where oc: "adm = old @ cur" "\<forall>x \<in> set old. x \<le> sw_start w" "\<forall>t. count_where (within t) cur \<le> l"
    using assms(1) by (auto simp: limiter_inv_def)
  have "count_where (within t) old = 0" using oc(2) assms(2,3) by (intro count_within_0) auto
  then show ?thesis using oc by simp
qed

lemma limiter_inv_cleanup:
  assumes "limiter_inv l (rl k) adm now"
  shows "limiter_inv l (rl_cleanup now rl k) adm now"
  using assms limiter_inv_expire [of l _ adm now]
  by (auto simp: rl_cleanup_def limiter_inv_def split: option.split)

lemma limiter_inv_window:
  assumes "limiter_inv l w adm now" and "current_window now limit w = Some w'"
  shows "limiter_inv l (Some w') adm now"
proof -
  have fresh: "limiter_inv l (Some \<lparr>sw_requests = [], sw_start = now, sw_size = d\<rparr>) adm now"
    if "\<forall>t \<ge> now. count_where (within t) adm \<le> l" for d
    by (rule limiter_inv_SomeI [where old = adm and cur = "[]" and p = now])
      (use assms(1) that in \<open>auto simp: limiter_inv_def\<close>)
  show ?thesis
  proof (cases w)
    case None
    then have "\<forall>t \<ge> now. count_where (within t) adm \<le> l" using assms(1) by (simp add: limiter_inv_def)
    then show ?thesis
      using assms(2) None fresh by (auto simp: current_window_def split: if_splits)
  next
    case (Some v)
    then consider "w' = v" | "minute < now - sw_start v" "w' = \<lparr>sw_requests = [], sw_start = now, sw_size = sw_size v\<rparr>"
      using assms(2) by (auto simp: current_window_def split: if_splits)
    then show ?thesis
    proof cases
      case 2
      then show ?thesis using fresh limiter_inv_expire [OF assms(1) [unfolded Some] 2(1)] by simp
    qed (use assms(1) Some in simp)
  qed
qed

text \<open>A request at the time \<open>now\<close>, in a window with less than \<open>l\<close> requests in the last minute.\<close>

lemma limiter_inv_request:
  assumes "limiter_inv l (Some w) adm now" and "rs = filter (\<lambda>t. now - minute < t) (sw_requests w)"
  shows "limiter_inv l (Some (w\<lparr>sw_requests := rs\<rparr>)) adm now"
    and "length rs < l \<Longrightarrow> limiter_inv l (Some (w\<lparr>sw_requests := rs @ [now]\<rparr>)) (adm @ [now]) now"
proof -
  obtain old cur p where oc: "adm = old @ cur" "\<forall>x \<in> set old. x \<le> sw_start w"
      "count_where (within (sw_start w)) old \<le> l" "\<forall>x \<in> set cur. sw_start w \<le> x"
      "\<forall>t. count_where (within t) cur \<le> l" "p \<le> now" "sw_requests w = filter (\<lambda>x. p - minute < x) cur"
    using assms(1) by (auto simp: limiter_inv_def)
  have le: "sw_start w \<le> now" "\<forall>x \<in> set adm. x \<le> now" "\<forall>t. count_where (within t) adm \<le> 2 * l"
    using assms(1) by (auto simp: limiter_inv_def)
  have rs: "rs = filter (\<lambda>x. now - minute < x) cur"
    using oc(6) by (auto simp: assms(2) oc(7) intro!: filter_cong)
  show "limiter_inv l (Some (w\<lparr>sw_requests := rs\<rparr>)) adm now"
    by (rule limiter_inv_SomeI [where old = old and cur = cur and p = now]) (use oc le rs in auto)
  assume l: "length rs < l"
  have cur: "count_where (within t) (cur @ [now]) \<le> l" for t
  proof (cases "now \<le> t")
    case True
    have "count_where (within t) cur \<le> count_where (\<lambda>x. now - minute < x) cur"
      using True by (intro count_where_mono) auto
    then show ?thesis using l by (simp add: rs count_where_def)
  next
    case False
    then show ?thesis using oc(5) by simp
  qed
  have "count_where (within t) (adm @ [now]) \<le> 2 * l" for t
  proof (cases "sw_start w \<le> t")
    case True
    have "count_where (within t) old \<le> count_where (within (sw_start w)) old"
      using True oc(2) by (intro count_where_mono) auto
    then show ?thesis using cur [of t] oc(1,3) by simp
  next
    case False
    then show ?thesis using le(1) spec [OF le(3), of t] by simp
  qed
  then show "limiter_inv l (Some (w\<lparr>sw_requests := rs @ [now]\<rparr>)) (adm @ [now]) now"
    by (intro limiter_inv_SomeI [where old = old and cur = "cur @ [now]" and p = now] allI cur)
      (use oc le rs in auto)
qed

lemma limiter_inv_step:
  assumes "limiter_inv (nat (limits k)) (fst s k) (snd s) now" and "now \<le> fst op"
  shows "limiter_inv (nat (limits k)) (fst (limiter_step limits k op s) k) (snd (limiter_step limits k op s)) (fst op)"
proof -
  obtain rl adm where s: "s = (rl, adm)" by (cases s)
  obtain t o' where op: "op = (t, o')" by (cases op)
  have inv: "limiter_inv (nat (limits k)) (rl k) adm t"
    using limiter_inv_later [OF assms] by (simp add: s op)
  show ?thesis
  proof (cases o')
    case OpCleanup
    then show ?thesis using limiter_inv_cleanup inv by (simp add: s op)
  next
    case (OpAllow i)
    show ?thesis
    proof (cases "i = k")
      case False
      then show ?thesis
        using inv by (auto simp: s op OpAllow Allow_def Let_def split: option.split)
    next
      case True
      show ?thesis
      proof (cases "current_window t (limits k) (rl k)")
        case None
        then show ?thesis using inv True by (simp add: s op OpAllow Allow_def)
      next
        case (Some w)
        note req = limiter_inv_request [OF limiter_inv_window [OF inv Some] refl]
        show ?thesis using req True Some by (simp add: s op OpAllow Allow_def Let_def)
      qed
    qed
  qed
qed

lemma limiter_inv_steps:
  assumes "limiter_inv (nat (limits k)) (fst s k) (snd s) now"
    and "sorted (map fst ops)" and "\<forall>op \<in> set ops. now \<le> fst op"
  shows "\<exists>now'. limiter_inv (nat (limits k)) (fst (fold (limiter_step limits k) ops s) k)
    (snd (fold (limiter_step limits k) ops s)) now'"
  using assms
proof (induction ops arbitrary: s now)
  case (Cons op ops)
  have "limiter_inv (nat (limits k)) (fst (limiter_step limits k op s) k) (snd (limiter_step limits k op s)) (fst op)"
    using Cons.prems by (intro limiter_inv_step) auto
  then show ?case using Cons.IH [of _ "fst op"] Cons.prems by auto
qed auto

text \<open>
  Property C33. However requests of a key and clean-ups are interleaved, by a clock that does not go back, no
  minute admits more than twice the limit of the key. The limiter does not keep the limit itself: it forgets the
  admitted requests of a window that is older than a minute, recent or not, so that twice the
  limit can be admitted within little more than a second, as in the instance that follows. This is of a key whose
  limit stays the same and that is not deleted: deleting a key resets its window.
\<close>
theorem rate_limiter_twice_the_limit:
  assumes "sorted (map fst ops)"
  shows "count_where (within t)
      (snd (fold (limiter_step limits k) ops (NewSlidingWindowRateLimiter, []))) \<le> 2 * nat (limits k)"
proof (cases ops)
  case (Cons op ops')
  have "limiter_inv (nat (limits k)) (fst (NewSlidingWindowRateLimiter, []) k) (snd (NewSlidingWindowRateLimiter, [])) (fst op)"
    by (simp add: limiter_inv_def NewSlidingWindowRateLimiter_def)
  from limiter_inv_steps [where s = "(NewSlidingWindowRateLimiter, [])" and k = k and limits = limits, OF this assms] show ?thesis
    using assms by (auto simp: Cons limiter_inv_def)
qed simp

text \<open>Three requests a minute: one at the start, two a second before and four just after its end.\<close>

definition burst :: "(time \<times> limiter_op) list" where
  "burst = [(0, OpAllow 1), (59 * second, OpAllow 1), (59 * second, OpAllow 1), (minute, OpAllow 1),
     (minute + 1, OpAllow 1), (minute + 1, OpAllow 1), (minute + 1, OpAllow 1), (minute + 1, OpAllow 1)]"

theorem rate_limiter_twice_the_limit_witness:
  "count_where (within (minute + 1)) (snd (fold (limiter_step (\<lambda>_. 3) 1) burst (NewSlidingWindowRateLimiter, []))) = 6
   \<and> count_where (within (minute + 1)) (snd (fold (limiter_step (\<lambda>_. 3) 1) burst (NewSlidingWindowRateLimiter, []))) \<le> 2 * nat 3"
proof
  show "count_where (within (minute + 1)) (snd (fold (limiter_step (\<lambda>_. 3) 1) burst (NewSlidingWindowRateLimiter, []))) = 6"
    by code_simp
  show "count_where (within (minute + 1)) (snd (fold (limiter_step (\<lambda>_. 3) 1) burst (NewSlidingWindowRateLimiter, []))) \<le> 2 * nat 3"
    using rate_limiter_twice_the_limit [of burst "minute + 1" "\<lambda>_. 3" 1] by (simp add: burst_def)
qed

end
