(* ===== verification/ApiKeyModel.thy ===== *)
theory ApiKeyModel
  imports GoFloat GoNet "HOL-Library.Sublist"
begin

text \<open>
  API keys of the integration service, \<open>integration-service/internal/model/api_key.go\<close> and
  \<open>service/security/api_key_generator.go\<close>: the key, its format and how it is generated, scopes,
  address whitelists, rotation. Identifiers are numbers. SHA-256, printed in hexadecimal, is the
  argument \<open>sha\<close>; the random bytes are an argument too, \<open>None\<close> when there are none.
\<close>

section \<open>Model\<close>

datatype key_status = KeyActive | KeyInactive | KeyDisabled | KeyMaintenance

datatype key_type = KeyReadOnly | KeyReadWrite | KeyAdmin | KeyUntyped string

datatype integration_error =
    EmptyKeyName | KeyNameTooLong | InvalidScope | KeyInvalid | KeyNotFound | KeyLimitReached
  | DuplicateKeyName | RandomFailed | EncryptFailed | BillingFailed | IntegrationRepoError

definition ValidScopes :: "string set" where
  "ValidScopes = {''read_monitors'', ''write_monitors'', ''read_alerts'', ''write_alerts'',
     ''read_integrations'', ''write_integrations'', ''read_api_keys'', ''write_api_keys'',
     ''read_imports'', ''write_imports'', ''admin''}"

record api_key =
  ak_id :: nat
  ak_user :: nat
  ak_name :: string
  ak_description :: "string option"
  ak_hash :: string
  ak_prefix :: string
  ak_scopes :: "string list"
  ak_status :: key_status
  ak_secret :: "string option"
  ak_expires :: "time option"
  ak_whitelist :: "string list"
  ak_rate :: int
  ak_total :: int
  ak_ok :: int
  ak_failed :: int
  ak_used :: "time option"
  ak_used_ip :: "string option"
  ak_endpoint :: "string option"
  ak_created :: time
  ak_updated :: time
  ak_rotated :: "time option"

definition validateAPIKeyName :: "string \<Rightarrow> integration_error option" where
  "validateAPIKeyName name =
     (if name = [] then Some EmptyKeyName else if 255 < length name then Some KeyNameTooLong else None)"

definition validateScopes :: "string list \<Rightarrow> integration_error option" where
  "validateScopes scopes =
     (if scopes = [] then Some InvalidScope
      else if \<not> list_all (\<lambda>s. s \<in> ValidScopes) scopes then Some InvalidScope else None)"

text \<open>\<open>hex.EncodeToString\<close>.\<close>

definition hex_digit :: "nat \<Rightarrow> char" where
  "hex_digit n = ''0123456789abcdef'' ! n"

definition hex_encode :: "string \<Rightarrow> string" where
  "hex_encode s = concat (map (\<lambda>c. [hex_digit (of_char c div 16), hex_digit (of_char c mod 16)]) s)"

definition getPrefixForKeyType :: "key_type \<Rightarrow> string" where
  "getPrefixForKeyType kt = (case kt of
     KeyReadOnly \<Rightarrow> ''baku_ro_'' | KeyReadWrite \<Rightarrow> ''baku_rw_'' | KeyAdmin \<Rightarrow> ''baku_admin_''
   | KeyUntyped _ \<Rightarrow> ''baku_'')"

text \<open>The key of a type with the secret in hexadecimal.\<close>

definition full_key :: "key_type \<Rightarrow> string \<Rightarrow> string" where
  "full_key kt rnd = getPrefixForKeyType kt @ hex_encode rnd"

definition NewAPIKey ::
    "(string \<Rightarrow> string) \<Rightarrow> string option \<Rightarrow> nat \<Rightarrow> time \<Rightarrow> nat \<Rightarrow> string \<Rightarrow> key_type \<Rightarrow> string list \<Rightarrow>
     integration_error + api_key \<times> string" where
  "NewAPIKey sha random i now u name kt scopes =
     (case validateAPIKeyName name of
        Some e \<Rightarrow> Inl e
      | None \<Rightarrow>
     (case validateScopes scopes of
        Some e \<Rightarrow> Inl e
      | None \<Rightarrow>
     (case random of
        None \<Rightarrow> Inl RandomFailed
      | Some rnd \<Rightarrow>
          (let key = full_key kt rnd
           in Inr (\<lparr>ak_id = i, ak_user = u, ak_name = name, ak_description = None, ak_hash = sha key,
                ak_prefix = getPrefixForKeyType kt @ take 8 (hex_encode rnd) @ ''...'', ak_scopes = scopes,
                ak_status = KeyActive, ak_secret = Some key, ak_expires = None, ak_whitelist = [],
                ak_rate = 100, ak_total = 0, ak_ok = 0, ak_failed = 0, ak_used = None, ak_used_ip = None,
                ak_endpoint = None, ak_created = now, ak_updated = now, ak_rotated = None\<rparr>, key)))))"

definition key_IsActive :: "api_key \<Rightarrow> bool" where
  "key_IsActive k \<longleftrightarrow> ak_status k = KeyActive"

text \<open>With a minute of tolerance.\<close>

definition key_IsExpired :: "time \<Rightarrow> api_key \<Rightarrow> bool" where
  "key_IsExpired now k \<longleftrightarrow> (case ak_expires k of None \<Rightarrow> False | Some t \<Rightarrow> t + minute < now)"

definition key_IsValid :: "time \<Rightarrow> api_key \<Rightarrow> bool" where
  "key_IsValid now k \<longleftrightarrow> key_IsActive k \<and> \<not> key_IsExpired now k"

definition HasScope :: "string \<Rightarrow> api_key \<Rightarrow> bool" where
  "HasScope required k \<longleftrightarrow> list_ex (\<lambda>s. s = ''admin'') (ak_scopes k) \<or> list_ex (\<lambda>s. s = required) (ak_scopes k)"

definition HasAnyScope :: "string list \<Rightarrow> api_key \<Rightarrow> bool" where
  "HasAnyScope required k \<longleftrightarrow> list_ex (\<lambda>s. HasScope s k) required"

text \<open>One entry of the whitelist: an address or a network.\<close>

definition entry_allows :: "ip \<Rightarrow> string \<Rightarrow> bool" where
  "entry_allows client allowed \<longleftrightarrow>
     (case ParseIP allowed of Some a \<Rightarrow> a = client | None \<Rightarrow> False) \<or>
     (case ParseCIDR allowed of Some net \<Rightarrow> net_Contains net client | None \<Rightarrow> False)"

definition IsIPAllowed :: "string \<Rightarrow> api_key \<Rightarrow> bool" where
  "IsIPAllowed addr k \<longleftrightarrow>
     (if ak_whitelist k = [] then True
      else case ParseIP addr of
          None \<Rightarrow> False
        | Some client \<Rightarrow> list_ex (entry_allows client) (ak_whitelist k))"

definition MarkAsUsed :: "time \<Rightarrow> string \<Rightarrow> string \<Rightarrow> bool \<Rightarrow> api_key \<Rightarrow> api_key" where
  "MarkAsUsed now endpoint addr success k =
     (let k1 = k\<lparr>ak_total := ak_total k + 1, ak_used := Some now, ak_used_ip := Some addr\<rparr>;
          k2 = (if ak_endpoint k1 = None \<or> ak_endpoint k1 \<noteq> Some endpoint
            then k1\<lparr>ak_endpoint := Some endpoint\<rparr> else k1);
          k3 = (if success then k2\<lparr>ak_ok := ak_ok k2 + 1\<rparr> else k2\<lparr>ak_failed := ak_failed k2 + 1\<rparr>)
      in k3\<lparr>ak_updated := now\<rparr>)"

definition key_Disable :: "time \<Rightarrow> api_key \<Rightarrow> api_key" where
  "key_Disable now k = k\<lparr>ak_status := KeyDisabled, ak_updated := now\<rparr>"

definition key_Enable :: "time \<Rightarrow> api_key \<Rightarrow> api_key" where
  "key_Enable now k = k\<lparr>ak_status := KeyActive, ak_updated := now\<rparr>"

definition key_Deactivate :: "time \<Rightarrow> api_key \<Rightarrow> api_key" where
  "key_Deactivate now k = k\<lparr>ak_status := KeyInactive, ak_updated := now\<rparr>"

definition key_SetMaintenance :: "time \<Rightarrow> api_key \<Rightarrow> api_key" where
  "key_SetMaintenance now k = k\<lparr>ak_status := KeyMaintenance, ak_updated := now\<rparr>"

text \<open>\<open>strings.TrimSuffix\<close>.\<close>

definition trim_suffix :: "string \<Rightarrow> string \<Rightarrow> string" where
  "trim_suffix s sfx = (if suffix sfx s then take (length s - length sfx) s else s)"

text \<open>The new secret is appended to the prefix that is displayed, eight digits included.\<close>

definition RotateSecret ::
    "(string \<Rightarrow> string) \<Rightarrow> string option \<Rightarrow> time \<Rightarrow> api_key \<Rightarrow> integration_error + string \<times> api_key" where
  "RotateSecret sha random now k =
     (case random of
        None \<Rightarrow> Inl RandomFailed
      | Some rnd \<Rightarrow>
          (let prefix = trim_suffix (ak_prefix k) ''...''; key = prefix @ hex_encode rnd
           in Inr (key, k\<lparr>ak_hash := sha key, ak_prefix := prefix @ take 8 (hex_encode rnd) @ ''...'',
                ak_secret := Some key, ak_rotated := Some now, ak_updated := now\<rparr>)))"

definition key_GetSuccessRate :: "api_key \<Rightarrow> real" where
  "key_GetSuccessRate k =
     (if ak_total k = 0 then 0
      else fl64 (fl64 (fl64 (of_int (ak_ok k)) / fl64 (of_int (ak_total k))) * 100))"

record key_usage =
  us_id :: nat
  us_key :: nat
  us_endpoint :: string
  us_method :: string
  us_status :: int
  us_response_ms :: "int option"
  us_ip :: "string option"
  us_agent :: "string option"
  us_request :: "nat option"
  us_limited :: bool
  us_created :: time

definition NewAPIKeyUsageLog :: "nat \<Rightarrow> time \<Rightarrow> nat \<Rightarrow> string \<Rightarrow> string \<Rightarrow> int \<Rightarrow> key_usage" where
  "NewAPIKeyUsageLog i now k endpoint meth status =
     \<lparr>us_id = i, us_key = k, us_endpoint = endpoint, us_method = meth, us_status = status,
      us_response_ms = None, us_ip = None, us_agent = None, us_request = None, us_limited = False,
      us_created = now\<rparr>"

definition MarkRateLimited :: "key_usage \<Rightarrow> key_usage" where
  "MarkRateLimited l = l\<lparr>us_limited := True\<rparr>"

definition SetResponseDetails :: "int \<Rightarrow> string \<Rightarrow> string \<Rightarrow> nat \<Rightarrow> key_usage \<Rightarrow> key_usage" where
  "SetResponseDetails ms addr agent request l =
     l\<lparr>us_response_ms := Some ms, us_ip := Some addr, us_agent := Some agent, us_request := Some request\<rparr>"

section \<open>The format of a key\<close>

definition hex_char :: "char \<Rightarrow> bool" where
  "hex_char c \<longleftrightarrow> hex_value c \<noteq> None"

text \<open>No prefix is a prefix of another, so that the order of the map does not matter.\<close>

definition ValidateAPIKey :: "string \<Rightarrow> integration_error option" where
  "ValidateAPIKey key =
     (if key = [] then Some KeyInvalid
      else case List.find (\<lambda>p. prefix p key) [''baku_ro_'', ''baku_rw_'', ''baku_admin_''] of
          None \<Rightarrow> Some KeyInvalid
        | Some p \<Rightarrow>
            if length key \<noteq> length p + 64 then Some KeyInvalid
            else if \<not> list_all hex_char (drop (length p) key) then Some KeyInvalid
            else None)"

text \<open>\<open>None\<close> is the panic of slicing a key that is too short.\<close>

definition ExtractKeyPrefix :: "string \<Rightarrow> string option" where
  "ExtractKeyPrefix key =
     (if 13 \<le> length key then Some (take 13 key)
      else if length key < 10 then None else Some (take 10 key))"

definition GetAPIKeyTypeFromKey :: "string \<Rightarrow> key_type option" where
  "GetAPIKeyTypeFromKey key =
     (if prefix ''baku_ro_'' key then Some KeyReadOnly
      else if prefix ''baku_rw_'' key then Some KeyReadWrite
      else if prefix ''baku_admin_'' key then Some KeyAdmin
      else None)"

definition GenerateAPIKeyForType :: "string option \<Rightarrow> key_type \<Rightarrow> integration_error + string" where
  "GenerateAPIKeyForType random kt =
     (case random of None \<Rightarrow> Inl RandomFailed | Some rnd \<Rightarrow> Inr (full_key kt rnd))"

text \<open>The generator's own functions: the types are words, and every prefix counts ten characters.\<close>

definition generator_prefix :: "string \<Rightarrow> string" where
  "generator_prefix kt =
     (let t = ascii_lower kt
      in if t \<in> {''read_only'', ''readonly'', ''ro''} then ''baku_ro_''
         else if t \<in> {''read_write'', ''readwrite'', ''rw''} then ''baku_rw_''
         else if t = ''admin'' then ''baku_admin_'' else ''baku_'')"

definition GenerateAPIKey :: "string option \<Rightarrow> string \<Rightarrow> integration_error + string" where
  "GenerateAPIKey random kt =
     (case random of None \<Rightarrow> Inl RandomFailed | Some rnd \<Rightarrow> Inr (generator_prefix kt @ hex_encode rnd))"

definition ValidateAPIKeyFormat :: "string \<Rightarrow> bool" where
  "ValidateAPIKeyFormat key \<longleftrightarrow> key \<noteq> [] \<and>
     list_ex (\<lambda>p. prefix p key) [''baku_ro_'', ''baku_rw_'', ''baku_admin_''] \<and>
     length key = 10 + 64 \<and> list_all hex_char (drop 10 key)"

definition generator_ExtractKeyPrefix :: "string \<Rightarrow> string option" where
  "generator_ExtractKeyPrefix key =
     (if 13 \<le> length key then Some (take 13 key @ ''...'')
      else if length key < 10 then None else Some (take 10 key @ ''...''))"

definition VerifyAPIKey :: "(string \<Rightarrow> string) \<Rightarrow> string \<Rightarrow> string \<Rightarrow> bool" where
  "VerifyAPIKey sha key hash \<longleftrightarrow> sha key = hash"

section \<open>Generated keys\<close>

lemma hex_digits: "list_all (\<lambda>n. hex_char (hex_digit n)) [0..<16]"
  by code_simp

lemma hex_encode_chars: "list_all hex_char (hex_encode s)"
proof -
  have "hex_char (hex_digit n)" if "n < 16" for n
    using hex_digits that by (auto simp: list_all_iff)
  then show ?thesis
    by (induction s) (simp_all add: hex_encode_def less_mult_imp_div_less)
qed

lemma length_hex_encode [simp]: "length (hex_encode s) = 2 * length s"
  by (induction s) (simp_all add: hex_encode_def)

lemma hex_encode_Nil_iff [simp]: "hex_encode s = [] \<longleftrightarrow> s = []"
  using length_hex_encode [of s] by (metis length_0_conv mult_is_0 zero_neq_numeral)

lemma not_hex: "\<not> hex_char CHR ''r''" "\<not> hex_char CHR ''_''"
  by (simp_all add: hex_char_def hex_value_def)

text \<open>The digits of an untyped key never complete another prefix.\<close>

lemma hd_hex: "hex_encode s \<noteq> [] \<Longrightarrow> hd (hex_encode s) \<noteq> CHR ''r'' \<and>
    (hd (hex_encode s) = CHR ''a'' \<longrightarrow> tl (hex_encode s) \<noteq> [] \<longrightarrow> hd (tl (hex_encode s)) \<noteq> CHR ''_'')"
  using hex_encode_chars [of s] not_hex by (cases "hex_encode s"; cases "tl (hex_encode s)") auto

lemma find_prefix_full_key:
  assumes "\<not> (\<exists>t. kt = KeyUntyped t)"
  shows "List.find (\<lambda>p. prefix p (getPrefixForKeyType kt @ s)) [''baku_ro_'', ''baku_rw_'', ''baku_admin_'']
    = Some (getPrefixForKeyType kt)"
  using assms by (cases kt) (auto simp: getPrefixForKeyType_def)

lemma hex_not_prefix: "\<not> prefix ''ro_'' (hex_encode s)" "\<not> prefix ''rw_'' (hex_encode s)"
  "\<not> prefix ''admin_'' (hex_encode s)"
  using hex_encode_chars [of s] not_hex by (auto simp: prefix_def list_all_iff hex_char_def hex_value_def)

lemma validate_full_key:
  assumes "length rnd = 32"
  shows "ValidateAPIKey (full_key kt rnd) = None \<longleftrightarrow> (\<nexists>t. kt = KeyUntyped t)"
proof (cases "\<exists>t. kt = KeyUntyped t")
  case True
  then show ?thesis using hex_not_prefix [of rnd]
    by (auto simp: ValidateAPIKey_def full_key_def getPrefixForKeyType_def)
next
  case False
  have len: "length (hex_encode rnd) = 64" using assms by simp
  then have "full_key kt rnd \<noteq> []" by (auto simp: full_key_def)
  then have "ValidateAPIKey (full_key kt rnd) = None"
    unfolding ValidateAPIKey_def full_key_def find_prefix_full_key [OF False]
    using len hex_encode_chars by simp
  then show ?thesis using False by simp
qed

text \<open>
  A generated key has the format that \<open>ValidateAPIKey\<close> wants exactly when it has one of
  the three types, and its type is read back from it. A key of any other type is refused, though
  \<open>CreateAPIKey\<close> issues it; and the generator's own check of the format refuses every key that
  the generator makes, since no prefix has the ten characters it counts.
\<close>
theorem key_format_roundtrip:
  assumes "length rnd = 32"
  shows "(ValidateAPIKey (full_key kt rnd) = None \<longleftrightarrow> (\<nexists>t. kt = KeyUntyped t)) \<and>
    GetAPIKeyTypeFromKey (full_key kt rnd) = (case kt of KeyUntyped t \<Rightarrow> None | _ \<Rightarrow> Some kt) \<and>
    GenerateAPIKeyForType (Some rnd) kt = Inr (full_key kt rnd) \<and>
    \<not> ValidateAPIKeyFormat (full_key kt rnd)"
proof -
  have "\<not> ValidateAPIKeyFormat (full_key kt rnd)"
    using assms by (cases kt) (auto simp: ValidateAPIKeyFormat_def full_key_def getPrefixForKeyType_def)
  moreover have "GetAPIKeyTypeFromKey (full_key kt rnd) = (case kt of KeyUntyped t \<Rightarrow> None | _ \<Rightarrow> Some kt)"
    using hex_not_prefix [of rnd]
    by (cases kt) (simp_all add: GetAPIKeyTypeFromKey_def full_key_def getPrefixForKeyType_def)
  ultimately show ?thesis using validate_full_key [OF assms] by (simp add: GenerateAPIKeyForType_def)
qed

theorem key_format_roundtrip_witness:
  "ValidateAPIKey (full_key KeyReadOnly (replicate 32 CHR ''x'')) = None \<and>
   \<not> ValidateAPIKeyFormat (full_key KeyReadOnly (replicate 32 CHR ''x''))"
  using key_format_roundtrip [of "replicate 32 CHR ''x''" KeyReadOnly] by simp

section \<open>Whitelists\<close>

lemma dotted_not_v6: "ParseIP (show_v4 bs @ ''/'' @ s) = None"
proof -
  have "v4_fields (show_v4 bs @ ''/'' @ s) val len fs = None" for val len fs
  proof -
    have "v4_fields (ds @ CHR ''/'' # s) val len fs = None" for ds
      by (induction ds arbitrary: val len fs) (auto simp: is_digit_seps Let_def)
    then show ?thesis by simp
  qed
  then have "parse_v4 (show_v4 bs @ ''/'' @ s) = None" by (simp add: parse_v4_def)
  moreover have "List.find (\<lambda>c. c \<in> {CHR ''.'', CHR '':'', CHR ''%''}) (show_v4 bs @ t) = Some CHR ''.''" for t
  proof -
    have d: "\<forall>c \<in> set (show_nat n). c \<notin> {CHR ''.'', CHR '':'', CHR ''%''}" for n
      using show_nat_digits [of n] is_digit_seps by auto
    have "List.find P (xs @ CHR ''.'' # ys) = Some CHR ''.''" if "\<forall>c \<in> set xs. \<not> P c" "P CHR ''.''" for P xs ys
      using that by (induction xs) auto
    from this [OF d] show ?thesis by (simp add: show_v4_def)
  qed
  ultimately show ?thesis by (simp add: ParseIP_def parse_addr_def)
qed

lemma ParseCIDR_no_slash: "CHR ''/'' \<notin> set s \<Longrightarrow> ParseCIDR s = None"
proof -
  assume "CHR ''/'' \<notin> set s"
  then have "dropWhile (\<lambda>c. c \<noteq> CHR ''/'') s = []" by (simp add: dropWhile_eq_Nil_conv) metis
  then show ?thesis by (simp add: ParseCIDR_def)
qed

text \<open>
  A whitelist of one IPv4 network, in the usual notation, lets an IPv4 address pass
  exactly when the two agree on the bits of the network, for every length from 0 to 32; a single
  address lets only itself pass.
\<close>
theorem whitelisted_network:
  assumes "bytes4 a" and "bytes4 x" and "n \<le> 32"
  shows "IsIPAllowed (show_v4 x) (k\<lparr>ak_whitelist := [show_v4 a @ ''/'' @ show_nat n]\<rparr>)
      = (\<forall>j < n. v4_bit a j = v4_bit x j) \<and>
    IsIPAllowed (show_v4 x) (k\<lparr>ak_whitelist := [show_v4 a]\<rparr>) = (x = a)"
proof
  show "IsIPAllowed (show_v4 x) (k\<lparr>ak_whitelist := [show_v4 a @ ''/'' @ show_nat n]\<rparr>)
      = (\<forall>j < n. v4_bit a j = v4_bit x j)"
    using ParseCIDR_show [OF assms(1,3)] net_Contains_v4 [OF assms] dotted_not_v6 [of a "show_nat n"]
    by (simp add: IsIPAllowed_def ParseIP_show [OF assms(2)] entry_allows_def)
  have "CHR ''/'' \<notin> set (show_v4 a)" using set_show_v4 [of "CHR ''/''" a] by (auto simp: is_digit_seps)
  moreover have "(map of_nat a :: 8 word list) = map of_nat x \<longleftrightarrow> a = x"
  proof -
    have "(of_nat p :: 8 word) = of_nat q \<longleftrightarrow> p = q" if "p < 256" "q < 256" for p q
      using that by (simp add: word_of_nat_eq_iff take_bit_eq_mod)
    then show ?thesis using assms(1,2) by (auto simp: bytes4_def list_eq_iff_nth_eq)
  qed
  ultimately show "IsIPAllowed (show_v4 x) (k\<lparr>ak_whitelist := [show_v4 a]\<rparr>) = (x = a)"
    by (auto simp: IsIPAllowed_def ParseIP_show assms entry_allows_def ParseCIDR_no_slash)
qed

definition demo_key :: api_key where
  "demo_key = \<lparr>ak_id = 1, ak_user = 7, ak_name = ''ci'', ak_description = None, ak_hash = ''h'',
     ak_prefix = ''baku_ro_00000000...'', ak_scopes = [''read_monitors''], ak_status = KeyActive,
     ak_secret = None, ak_expires = None, ak_whitelist = [], ak_rate = 100, ak_total = 0, ak_ok = 0,
     ak_failed = 0, ak_used = None, ak_used_ip = None, ak_endpoint = None, ak_created = 0,
     ak_updated = 0, ak_rotated = None\<rparr>"

theorem whitelisted_network_witness:
  "IsIPAllowed (show_v4 [10, 1, 2, 3]) (demo_key\<lparr>ak_whitelist := [show_v4 [10, 0, 0, 0] @ ''/'' @ show_nat 15]\<rparr>) \<and>
   \<not> IsIPAllowed (show_v4 [10, 2, 2, 3]) (demo_key\<lparr>ak_whitelist := [show_v4 [10, 0, 0, 0] @ ''/'' @ show_nat 15]\<rparr>)"
proof -
  have "list_all (\<lambda>j. v4_bit [10, 0, 0, 0] j = v4_bit [10, 1, 2, 3] j) [0..<15]" by code_simp
  then have "\<forall>j < 15. v4_bit [10, 0, 0, 0] j = v4_bit [10, 1, 2, 3] j" by (auto simp: list_all_iff)
  moreover have "v4_bit [10, 0, 0, 0] 14 \<noteq> v4_bit [10, 2, 2, 3] 14" by code_simp
  then have "\<not> (\<forall>j < 15. v4_bit [10, 0, 0, 0] j = v4_bit [10, 2, 2, 3] j)"
    by (intro notI) (drule spec [of _ 14], simp)
  moreover have b: "bytes4 [10, 0, 0, 0]" "bytes4 [10, 1, 2, 3]" "bytes4 [10, 2, 2, 3]" by (simp_all add: bytes4_def)
  note conjunct1 [OF whitelisted_network [OF b(1,2)], of 15 demo_key]
    conjunct1 [OF whitelisted_network [OF b(1,3)], of 15 demo_key]
  ultimately show ?thesis by simp
qed

end
