(* ===== verification/BillingLimits.thy ===== *)
theory BillingLimits
  imports ApiKeyModel
begin

text \<open>
  What a subscription allows, \<open>integration-service/internal/client/billing_client.go\<close>. The billing
  service is the argument \<open>subs\<close>, the subscription of a user or \<open>None\<close> for an error.
\<close>

section \<open>Limits of the subscription\<close>

datatype subscription_tier = TierFree | TierStarter | TierProfessional | TierBusiness | TierOther

record billing_plan =
  bp_id :: string
  bp_monitors :: int

record billing_subscription =
  bs_tier :: subscription_tier
  bs_active :: bool
  bs_plan :: string

type_synonym subscriptions = "nat \<Rightarrow> billing_subscription option"

definition max_api_keys :: "subscription_tier \<Rightarrow> nat" where
  "max_api_keys t = (case t of TierFree \<Rightarrow> 2 | TierStarter \<Rightarrow> 10 | TierProfessional \<Rightarrow> 100
     | TierBusiness \<Rightarrow> 1000 | TierOther \<Rightarrow> 2)"

definition CheckAPIKeyLimit :: "subscriptions \<Rightarrow> nat \<Rightarrow> nat \<Rightarrow> integration_error + bool" where
  "CheckAPIKeyLimit subs u count =
     (case subs u of None \<Rightarrow> Inl BillingFailed | Some s \<Rightarrow> Inr (count < max_api_keys (bs_tier s)))"

definition CheckWebhookLimit :: "subscriptions \<Rightarrow> nat \<Rightarrow> nat \<Rightarrow> integration_error + bool" where
  "CheckWebhookLimit subs u count =
     (case subs u of
        None \<Rightarrow> Inl BillingFailed
      | Some s \<Rightarrow> Inr (count < (case bs_tier s of TierFree \<Rightarrow> 5 | TierStarter \<Rightarrow> 20
          | TierProfessional \<Rightarrow> 100 | TierBusiness \<Rightarrow> 1000 | TierOther \<Rightarrow> 5)))"

definition CheckMonitorLimit ::
    "subscriptions \<Rightarrow> billing_plan list option \<Rightarrow> nat \<Rightarrow> int \<Rightarrow> integration_error + bool" where
  "CheckMonitorLimit subs plans u count =
     (case subs u of
        None \<Rightarrow> Inl BillingFailed
      | Some s \<Rightarrow>
          if \<not> bs_active s then Inr False
          else case plans of
              None \<Rightarrow> Inl BillingFailed
            | Some ps \<Rightarrow>
                (let m = (case List.find (\<lambda>p. bp_id p = bs_plan s) ps of None \<Rightarrow> 0 | Some p \<Rightarrow> bp_monitors p)
                 in Inr (count < (if m = 0 then 10 else m))))"

lemma CheckAPIKeyLimit_True:
  "CheckAPIKeyLimit subs u n = Inr True \<longleftrightarrow> (\<exists>s. subs u = Some s \<and> n < max_api_keys (bs_tier s))"
  by (auto simp: CheckAPIKeyLimit_def split: option.split)

end
