(* ===== verification/ApiKeyService.thy ===== *)
theory ApiKeyService
  imports BillingLimits RateLimiter PageToken
begin

text \<open>
  The service of API keys: \<open>integration-service/internal/repository/postgres/api_key_*.go\<close> and
  \<open>service/apikey/api_key_service.go\<close>. The tables and the limiter are the state. A call fails when
  \<open>down\<close> says so or when it violates a key of its table. Encryption is the argument \<open>encrypt\<close>.
\<close>

section \<open>Tables\<close>

datatype key_call =
    KeyCreate | KeyGet nat | KeyGetHash | KeyGetName | KeyList | KeyUpdate | KeyUsage | KeyDelete
  | KeyCount | KeyExists | UsageCreate | UsageCleanup

type_synonym key_faults = "key_call \<Rightarrow> bool"

record key_db =
  kd_keys :: "api_key list"
  kd_usage :: "key_usage list"

definition key_Create :: "key_faults \<Rightarrow> api_key \<Rightarrow> key_db \<Rightarrow> integration_error + key_db" where
  "key_Create down k db =
     (if down KeyCreate \<or> list_ex (\<lambda>r. ak_id r = ak_id k \<or> ak_hash r = ak_hash k \<or>
          ak_user r = ak_user k \<and> ak_name r = ak_name k) (kd_keys db)
      then Inl IntegrationRepoError
      else Inr (db\<lparr>kd_keys := kd_keys db @ [k]\<rparr>))"

definition key_GetByID :: "key_faults \<Rightarrow> nat \<Rightarrow> key_db \<Rightarrow> integration_error + api_key" where
  "key_GetByID down i db =
     (if down (KeyGet i) then Inl IntegrationRepoError
      else case List.find (\<lambda>k. ak_id k = i) (kd_keys db) of None \<Rightarrow> Inl KeyNotFound | Some k \<Rightarrow> Inr k)"

definition key_GetByKeyHash :: "key_faults \<Rightarrow> string \<Rightarrow> key_db \<Rightarrow> integration_error + api_key" where
  "key_GetByKeyHash down h db =
     (if down KeyGetHash then Inl IntegrationRepoError
      else case List.find (\<lambda>k. ak_hash k = h) (kd_keys db) of None \<Rightarrow> Inl KeyNotFound | Some k \<Rightarrow> Inr k)"

definition key_GetByUserIDAndName ::
    "key_faults \<Rightarrow> nat \<Rightarrow> string \<Rightarrow> key_db \<Rightarrow> integration_error + api_key" where
  "key_GetByUserIDAndName down u name db =
     (if down KeyGetName then Inl IntegrationRepoError
      else case List.find (\<lambda>k. ak_user k = u \<and> ak_name k = name) (kd_keys db) of
        None \<Rightarrow> Inl KeyNotFound | Some k \<Rightarrow> Inr k)"

text \<open>A negative limit or offset is an error of the statement.\<close>

definition key_ListByUserID ::
    "key_faults \<Rightarrow> nat \<Rightarrow> int \<Rightarrow> int \<Rightarrow> key_db \<Rightarrow> integration_error + api_key list" where
  "key_ListByUserID down u limit offset db =
     (if down KeyList \<or> limit < 0 \<or> offset < 0 then Inl IntegrationRepoError
      else Inr (page_of (nat limit) (nat offset)
        (newest_first ak_created (filter (\<lambda>k. ak_user k = u) (kd_keys db)))))"

text \<open>The columns that \<open>UPDATE\<close> writes: neither the hash nor the prefix is among them.\<close>

definition set_key_columns :: "api_key \<Rightarrow> api_key \<Rightarrow> api_key" where
  "set_key_columns k r = r\<lparr>ak_name := ak_name k, ak_description := ak_description k,
     ak_scopes := ak_scopes k, ak_status := ak_status k, ak_secret := ak_secret k,
     ak_expires := ak_expires k, ak_whitelist := ak_whitelist k, ak_rate := ak_rate k,
     ak_total := ak_total k, ak_ok := ak_ok k, ak_failed := ak_failed k, ak_used := ak_used k,
     ak_used_ip := ak_used_ip k, ak_endpoint := ak_endpoint k, ak_updated := ak_updated k,
     ak_rotated := ak_rotated k\<rparr>"

definition key_Update :: "key_faults \<Rightarrow> api_key \<Rightarrow> key_db \<Rightarrow> integration_error + key_db" where
  "key_Update down k db =
     (let here = (\<lambda>r. ak_id r = ak_id k)
      in if down KeyUpdate then Inl IntegrationRepoError
         else if \<not> list_ex here (kd_keys db) then Inl KeyNotFound
         else if list_ex (\<lambda>r. here r \<and> list_ex (\<lambda>r'. \<not> here r' \<and> ak_user r' = ak_user r \<and>
             ak_name r' = ak_name k) (kd_keys db)) (kd_keys db)
         then Inl IntegrationRepoError
         else Inr (db\<lparr>kd_keys := upd_where here (set_key_columns k) (kd_keys db)\<rparr>))"

record usage_stats =
  st_total :: int
  st_ok :: int
  st_failed :: int
  st_used :: "time option"
  st_used_ip :: "string option"
  st_endpoint :: "string option"

definition key_UpdateUsage ::
    "key_faults \<Rightarrow> time \<Rightarrow> nat \<Rightarrow> usage_stats \<Rightarrow> key_db \<Rightarrow> integration_error + key_db" where
  "key_UpdateUsage down now i s db =
     (if down KeyUsage then Inl IntegrationRepoError
      else if \<not> list_ex (\<lambda>r. ak_id r = i) (kd_keys db) then Inl KeyNotFound
      else Inr (db\<lparr>kd_keys := upd_where (\<lambda>r. ak_id r = i)
        (\<lambda>r. r\<lparr>ak_total := st_total s, ak_ok := st_ok s, ak_failed := st_failed s, ak_used := st_used s,
           ak_used_ip := st_used_ip s, ak_endpoint := st_endpoint s, ak_updated := now\<rparr>) (kd_keys db)\<rparr>))"

text \<open>The usage of a deleted key goes with it.\<close>

definition key_Delete :: "key_faults \<Rightarrow> nat \<Rightarrow> key_db \<Rightarrow> integration_error + key_db" where
  "key_Delete down i db =
     (if down KeyDelete then Inl IntegrationRepoError
      else if \<not> list_ex (\<lambda>r. ak_id r = i) (kd_keys db) then Inl KeyNotFound
      else Inr (db\<lparr>kd_keys := del_where (\<lambda>r. ak_id r = i) (kd_keys db),
        kd_usage := del_where (\<lambda>r. us_key r = i) (kd_usage db)\<rparr>))"

definition key_CountByUserID :: "key_faults \<Rightarrow> nat \<Rightarrow> key_db \<Rightarrow> integration_error + nat" where
  "key_CountByUserID down u db =
     (if down KeyCount then Inl IntegrationRepoError
      else Inr (count_where (\<lambda>k. ak_user k = u) (kd_keys db)))"

definition key_ExistsByName :: "key_faults \<Rightarrow> nat \<Rightarrow> string \<Rightarrow> key_db \<Rightarrow> integration_error + bool" where
  "key_ExistsByName down u name db =
     (if down KeyExists then Inl IntegrationRepoError
      else Inr (list_ex (\<lambda>k. ak_user k = u \<and> ak_name k = name) (kd_keys db)))"

definition usage_Create :: "key_faults \<Rightarrow> key_usage \<Rightarrow> key_db \<Rightarrow> integration_error + key_db" where
  "usage_Create down l db =
     (if down UsageCreate \<or> list_ex (\<lambda>r. us_id r = us_id l) (kd_usage db)
         \<or> \<not> list_ex (\<lambda>k. ak_id k = us_key l) (kd_keys db)
      then Inl IntegrationRepoError
      else Inr (db\<lparr>kd_usage := kd_usage db @ [l]\<rparr>))"

definition DeleteOldLogs :: "key_faults \<Rightarrow> time \<Rightarrow> int \<Rightarrow> key_db \<Rightarrow> integration_error + nat \<times> key_db" where
  "DeleteOldLogs down now days db =
     (if down UsageCleanup then Inl IntegrationRepoError
      else let old = (\<lambda>r. us_created r < now - 24 * hour * days)
        in Inr (count_where old (kd_usage db), db\<lparr>kd_usage := del_where old (kd_usage db)\<rparr>))"

section \<open>Service\<close>

record key_state =
  ks_db :: key_db
  ks_limiter :: limiter

record create_key_request =
  cr_user :: nat
  cr_name :: string
  cr_description :: "string option"
  cr_type :: key_type
  cr_scopes :: "string list"
  cr_expires :: "time option"
  cr_whitelist :: "string list"
  cr_rate :: int

definition cr_Validate :: "create_key_request \<Rightarrow> integration_error option" where
  "cr_Validate r =
     (if cr_name r = [] then Some EmptyKeyName
      else if 255 < length (cr_name r) then Some KeyNameTooLong
      else if cr_scopes r = [] then Some InvalidScope
      else if \<not> list_all (\<lambda>s. s \<in> ValidScopes) (cr_scopes r) then Some InvalidScope
      else None)"

text \<open>The optional fields of a new key.\<close>

definition apply_request :: "create_key_request \<Rightarrow> api_key \<Rightarrow> api_key" where
  "apply_request r k =
     (let k1 = (if cr_description r = None then k else k\<lparr>ak_description := cr_description r\<rparr>);
          k2 = (if cr_expires r = None then k1 else k1\<lparr>ak_expires := cr_expires r\<rparr>);
          k3 = (if cr_whitelist r = [] then k2 else k2\<lparr>ak_whitelist := cr_whitelist r\<rparr>)
      in if 0 < cr_rate r then k3\<lparr>ak_rate := cr_rate r\<rparr> else k3)"

definition CreateAPIKey ::
    "key_faults \<Rightarrow> subscriptions \<Rightarrow> (string \<Rightarrow> string) \<Rightarrow> (string \<Rightarrow> string option) \<Rightarrow> string option \<Rightarrow>
     nat \<Rightarrow> time \<Rightarrow> create_key_request \<Rightarrow> key_db \<Rightarrow> (integration_error + api_key \<times> string) \<times> key_db" where
  "CreateAPIKey down subs sha encrypt random i now r db =
     (case cr_Validate r of
        Some e \<Rightarrow> (Inl e, db)
      | None \<Rightarrow>
     (case key_CountByUserID down (cr_user r) db of
        Inl e \<Rightarrow> (Inl e, db)
      | Inr count \<Rightarrow>
     (case CheckAPIKeyLimit subs (cr_user r) count of
        Inl e \<Rightarrow> (Inl e, db)
      | Inr False \<Rightarrow> (Inl KeyLimitReached, db)
      | Inr True \<Rightarrow>
     (case NewAPIKey sha random i now (cr_user r) (cr_name r) (cr_type r) (cr_scopes r) of
        Inl e \<Rightarrow> (Inl e, db)
      | Inr (k, full) \<Rightarrow>
     (case encrypt full of
        None \<Rightarrow> (Inl EncryptFailed, db)
      | Some secret \<Rightarrow>
          (let k' = (apply_request r k)\<lparr>ak_secret := Some secret\<rparr>
           in case key_ExistsByName down (ak_user k') (ak_name k') db of
                Inl e \<Rightarrow> (Inl e, db)
              | Inr True \<Rightarrow> (Inl DuplicateKeyName, db)
              | Inr False \<Rightarrow>
                  (case key_Create down k' db of
                     Inl e \<Rightarrow> (Inl e, db)
                   | Inr db' \<Rightarrow>
                       (case key_GetByID down i db' of
                          Inl e \<Rightarrow> (Inl e, db')
                        | Inr created \<Rightarrow> (Inr (created, full), db')))))))))"

text \<open>The key when it is the user's; somebody else's key is not found.\<close>

definition own_key :: "key_faults \<Rightarrow> nat \<Rightarrow> nat \<Rightarrow> key_db \<Rightarrow> integration_error + api_key" where
  "own_key down i u db =
     (case key_GetByID down i db of
        Inl e \<Rightarrow> Inl e
      | Inr k \<Rightarrow> if ak_user k \<noteq> u then Inl KeyNotFound else Inr k)"

definition GetAPIKey :: "key_faults \<Rightarrow> nat \<Rightarrow> nat \<Rightarrow> key_db \<Rightarrow> integration_error + api_key" where
  "GetAPIKey down i u db = own_key down i u db"

definition ListAPIKeys ::
    "key_faults \<Rightarrow> nat \<Rightarrow> int \<Rightarrow> string \<Rightarrow> key_db \<Rightarrow> integration_error + api_key list" where
  "ListAPIKeys down u page_size token db =
     (let limit = (if page_size \<le> 0 \<or> 100 < page_size then 50 else page_size)
      in key_ListByUserID down u limit (page_offset token) db)"

record update_key_request =
  ur_id :: nat
  ur_user :: nat
  ur_name :: "string option"
  ur_description :: "string option"
  ur_enabled :: "bool option"
  ur_expires :: "time option"
  ur_whitelist :: "string list option"
  ur_rate :: "int option"

definition ApplyToModel :: "time \<Rightarrow> update_key_request \<Rightarrow> api_key \<Rightarrow> api_key" where
  "ApplyToModel now r k =
     (let k1 = (case ur_name r of None \<Rightarrow> k | Some s \<Rightarrow> k\<lparr>ak_name := s\<rparr>);
          k2 = (if ur_description r = None then k1 else k1\<lparr>ak_description := ur_description r\<rparr>);
          k3 = (case ur_enabled r of None \<Rightarrow> k2 | Some b \<Rightarrow> if b then key_Enable now k2 else key_Disable now k2);
          k4 = (if ur_expires r = None then k3 else k3\<lparr>ak_expires := ur_expires r\<rparr>);
          k5 = (case ur_whitelist r of None \<Rightarrow> k4 | Some l \<Rightarrow> k4\<lparr>ak_whitelist := l\<rparr>)
      in case ur_rate r of None \<Rightarrow> k5 | Some n \<Rightarrow> k5\<lparr>ak_rate := n\<rparr>)"

text \<open>Store a changed key and read it back.\<close>

definition store_key ::
    "key_faults \<Rightarrow> time \<Rightarrow> api_key \<Rightarrow> key_db \<Rightarrow> (integration_error + api_key) \<times> key_db" where
  "store_key down now k db =
     (case key_Update down (k\<lparr>ak_updated := now\<rparr>) db of
        Inl e \<Rightarrow> (Inl e, db)
      | Inr db' \<Rightarrow> (key_GetByID down (ak_id k) db', db'))"

definition UpdateAPIKey ::
    "key_faults \<Rightarrow> time \<Rightarrow> update_key_request \<Rightarrow> key_db \<Rightarrow> (integration_error + api_key) \<times> key_db" where
  "UpdateAPIKey down now r db =
     (case own_key down (ur_id r) (ur_user r) db of
        Inl e \<Rightarrow> (Inl e, db)
      | Inr k \<Rightarrow>
          (case (case ur_name r of None \<Rightarrow> None | Some s \<Rightarrow> validateAPIKeyName s) of
             Some e \<Rightarrow> (Inl e, db)
           | None \<Rightarrow> store_key down now (ApplyToModel now r k) db))"

definition DeleteAPIKey ::
    "key_faults \<Rightarrow> nat \<Rightarrow> nat \<Rightarrow> key_state \<Rightarrow> integration_error option \<times> key_state" where
  "DeleteAPIKey down i u st =
     (case own_key down i u (ks_db st) of
        Inl e \<Rightarrow> (Some e, st)
      | Inr k \<Rightarrow>
          (case key_Delete down i (ks_db st) of
             Inl e \<Rightarrow> (Some e, st)
           | Inr db \<Rightarrow> (None, st\<lparr>ks_db := db, ks_limiter := rl_Reset i (ks_limiter st)\<rparr>)))"

definition RotateAPIKeySecret ::
    "key_faults \<Rightarrow> (string \<Rightarrow> string) \<Rightarrow> (string \<Rightarrow> string option) \<Rightarrow> string option \<Rightarrow> time \<Rightarrow> nat \<Rightarrow> nat \<Rightarrow>
     key_db \<Rightarrow> (integration_error + api_key \<times> string) \<times> key_db" where
  "RotateAPIKeySecret down sha encrypt random now i u db =
     (case own_key down i u db of
        Inl e \<Rightarrow> (Inl e, db)
      | Inr k \<Rightarrow>
     (case RotateSecret sha random now k of
        Inl e \<Rightarrow> (Inl e, db)
      | Inr (full, k') \<Rightarrow>
     (case encrypt full of
        None \<Rightarrow> (Inl EncryptFailed, db)
      | Some secret \<Rightarrow>
     (case store_key down now (k'\<lparr>ak_secret := Some secret\<rparr>) db of
        (Inl e, db') \<Rightarrow> (Inl e, db')
      | (Inr updated, db') \<Rightarrow> (Inr (updated, full), db')))))"

record key_stats =
  kst_total :: int
  kst_ok :: int
  kst_failed :: int
  kst_rate :: real
  kst_latency :: int
  kst_used :: "int option"
  kst_used_ip :: string
  kst_endpoint :: string

definition APIKeyStatsFromModel :: "api_key \<Rightarrow> int \<Rightarrow> key_stats" where
  "APIKeyStatsFromModel k latency =
     \<lparr>kst_total = ak_total k, kst_ok = ak_ok k, kst_failed = ak_failed k, kst_rate = key_GetSuccessRate k,
      kst_latency = latency, kst_used = map_option (\<lambda>t. t div second) (ak_used k),
      kst_used_ip = (case ak_used_ip k of None \<Rightarrow> [] | Some s \<Rightarrow> s),
      kst_endpoint = (case ak_endpoint k of None \<Rightarrow> [] | Some s \<Rightarrow> s)\<rparr>"

definition GetAPIKeyStats :: "key_faults \<Rightarrow> nat \<Rightarrow> nat \<Rightarrow> key_db \<Rightarrow> integration_error + key_stats" where
  "GetAPIKeyStats down i u db =
     (case own_key down i u db of
        Inl e \<Rightarrow> Inl e
      | Inr k \<Rightarrow> Inr (APIKeyStatsFromModel k (if 0 < ak_total k then 100 else 0)))"

text \<open>Who the key belongs to, when it was found, and the code of the error, when it is not valid.\<close>

record validation =
  va_valid :: bool
  va_user :: "nat option"
  va_scopes :: "string list"
  va_status :: "key_status option"
  va_code :: string

definition refused :: "api_key option \<Rightarrow> string \<Rightarrow> validation" where
  "refused ko code = (case ko of
     None \<Rightarrow> \<lparr>va_valid = False, va_user = None, va_scopes = [], va_status = None, va_code = code\<rparr>
   | Some k \<Rightarrow> \<lparr>va_valid = False, va_user = Some (ak_user k), va_scopes = ak_scopes k,
       va_status = Some (ak_status k), va_code = code\<rparr>)"

definition invalid_code :: "time \<Rightarrow> api_key \<Rightarrow> string" where
  "invalid_code now k =
     (if key_IsExpired now k then ''API_KEY_EXPIRED''
      else if ak_status k = KeyInactive then ''API_KEY_DEACTIVATED''
      else if ak_status k = KeyMaintenance then ''API_KEY_UNDER_MAINTENANCE''
      else ''API_KEY_DISABLED'')"

text \<open>The outer \<open>None\<close> is the limiter's panic.\<close>

definition service_ValidateAPIKey ::
    "key_faults \<Rightarrow> (string \<Rightarrow> string) \<Rightarrow> time \<Rightarrow> string \<Rightarrow> string \<Rightarrow> key_state \<Rightarrow>
     ((integration_error + validation) \<times> key_state) option" where
  "service_ValidateAPIKey down sha now key addr st =
     (if ValidateAPIKey key \<noteq> None then Some (Inr (refused None ''INVALID_API_KEY''), st)
      else case key_GetByKeyHash down (sha key) (ks_db st) of
          Inl KeyNotFound \<Rightarrow> Some (Inr (refused None ''API_KEY_NOT_FOUND''), st)
        | Inl e \<Rightarrow> Some (Inl e, st)
        | Inr k \<Rightarrow>
            if \<not> key_IsValid now k then Some (Inr (refused (Some k) (invalid_code now k)), st)
            else if \<not> IsIPAllowed addr k then Some (Inr (refused (Some k) ''IP_NOT_ALLOWED''), st)
            else case Allow now (ak_id k) (ak_rate k) (ks_limiter st) of
                None \<Rightarrow> None
              | Some (False, rl) \<Rightarrow>
                  Some (Inr (refused (Some k) ''RATE_LIMIT_EXCEEDED''), st\<lparr>ks_limiter := rl\<rparr>)
              | Some (True, rl) \<Rightarrow>
                  Some (Inr \<lparr>va_valid = True, va_user = Some (ak_user k), va_scopes = ak_scopes k,
                    va_status = Some (ak_status k), va_code = []\<rparr>, st\<lparr>ks_limiter := rl\<rparr>))"

definition LogAPIKeyUsage ::
    "key_faults \<Rightarrow> nat \<Rightarrow> time \<Rightarrow> nat \<Rightarrow> string \<Rightarrow> string \<Rightarrow> int \<Rightarrow> int \<Rightarrow> string \<Rightarrow> string \<Rightarrow> nat \<Rightarrow> bool \<Rightarrow>
     key_db \<Rightarrow> integration_error option \<times> key_db" where
  "LogAPIKeyUsage down i now k endpoint meth status ms addr agent request limited db =
     (let l = SetResponseDetails ms addr agent request (NewAPIKeyUsageLog i now k endpoint meth status)
      in case usage_Create down (if limited then MarkRateLimited l else l) db of
           Inl e \<Rightarrow> (Some e, db)
         | Inr db' \<Rightarrow> (None, db'))"

section \<open>Rotation\<close>

text \<open>A stored key shows its type and the first eight digits of its secret.\<close>

definition shown_prefix :: "string \<Rightarrow> bool" where
  "shown_prefix s \<longleftrightarrow> (\<exists>kt h. s = getPrefixForKeyType kt @ h @ ''...'' \<and> length h = 8)"

lemma own_key_Inr:
  assumes "own_key down i u db = Inr k"
  shows "List.find (\<lambda>k. ak_id k = i) (kd_keys db) = Some k" and "ak_id k = i" and "ak_user k = u"
    and "k \<in> set (kd_keys db)" and "\<not> down (KeyGet i)"
  using assms by (auto simp: own_key_def key_GetByID_def split: if_splits option.splits dest: find_Some_inD)

lemma trim_shown: "trim_suffix (p @ ''...'') ''...'' = p"
  by (auto simp: trim_suffix_def suffix_def)

text \<open>A key made of the displayed prefix is eight characters too long.\<close>

lemma rotated_key_invalid:
  assumes "length h = 8" and "length rnd = 32"
  shows "ValidateAPIKey (getPrefixForKeyType kt @ h @ hex_encode rnd) = Some KeyInvalid"
proof -
  let ?key = "getPrefixForKeyType kt @ h @ hex_encode rnd"
  have len: "length ?key = length (getPrefixForKeyType kt) + 72" using assms by simp
  show ?thesis
  proof (cases "\<exists>t. kt = KeyUntyped t")
    case True
    then have "length ?key = 77" using len by (auto simp: getPrefixForKeyType_def)
    moreover have "List.find (\<lambda>p. prefix p ?key) [''baku_ro_'', ''baku_rw_'', ''baku_admin_''] = Some p
        \<Longrightarrow> length p \<in> {8, 11}" for p
      by (auto split: if_splits)
    ultimately show ?thesis by (auto simp: ValidateAPIKey_def split: option.split)
  next
    case False
    then show ?thesis using len find_prefix_full_key [OF False, of "h @ hex_encode rnd"]
      by (simp add: ValidateAPIKey_def)
  qed
qed

text \<open>Two tables that agree on all that a validation reads validate the same keys.\<close>

definition same_checks :: "api_key \<Rightarrow> api_key \<Rightarrow> bool" where
  "same_checks k k' \<longleftrightarrow> ak_id k' = ak_id k \<and> ak_user k' = ak_user k \<and> ak_hash k' = ak_hash k \<and>
     ak_scopes k' = ak_scopes k \<and> ak_status k' = ak_status k \<and> ak_expires k' = ak_expires k \<and>
     ak_whitelist k' = ak_whitelist k \<and> ak_rate k' = ak_rate k"

lemma find_upd_same:
  assumes "\<And>r. p r \<Longrightarrow> same_checks r (f r)"
  shows "case List.find (\<lambda>k. ak_hash k = h) rs of
      None \<Rightarrow> List.find (\<lambda>k. ak_hash k = h) (upd_where p f rs) = None
    | Some k \<Rightarrow> \<exists>k'. List.find (\<lambda>k. ak_hash k = h) (upd_where p f rs) = Some k' \<and> same_checks k k'"
  using assms by (induction rs) (auto simp: upd_where_Cons same_checks_def split: option.splits)

lemma validate_same_checks:
  assumes "\<And>r. r \<in> set (kd_keys db) \<Longrightarrow> p r \<Longrightarrow> same_checks r (f r)"
  shows "map_option fst (service_ValidateAPIKey down sha now key addr
      (st\<lparr>ks_db := db\<lparr>kd_keys := upd_where p f (kd_keys db)\<rparr>\<rparr>))
    = map_option fst (service_ValidateAPIKey down sha now key addr (st\<lparr>ks_db := db\<rparr>))"
proof -
  let ?f = "\<lambda>r. if r \<in> set (kd_keys db) \<and> p r then f r else r"
  have eq: "upd_where p f (kd_keys db) = upd_where p ?f (kd_keys db)" by (auto simp: upd_where_def)
  have find: "case List.find (\<lambda>k. ak_hash k = sha key) (kd_keys db) of
      None \<Rightarrow> List.find (\<lambda>k. ak_hash k = sha key) (upd_where p f (kd_keys db)) = None
    | Some k \<Rightarrow> \<exists>k'. List.find (\<lambda>k. ak_hash k = sha key) (upd_where p f (kd_keys db)) = Some k' \<and> same_checks k k'"
    unfolding eq using assms by (intro find_upd_same) (auto simp: same_checks_def)
  show ?thesis
  proof (cases "List.find (\<lambda>k. ak_hash k = sha key) (kd_keys db)")
    case None
    then show ?thesis using find by (simp add: service_ValidateAPIKey_def key_GetByKeyHash_def)
  next
    case (Some k)
    then obtain k' where k': "List.find (\<lambda>k. ak_hash k = sha key) (upd_where p f (kd_keys db)) = Some k'"
        "same_checks k k'"
      using find by auto
    have "key_IsValid now k' = key_IsValid now k" "invalid_code now k' = invalid_code now k"
      "IsIPAllowed addr k' = IsIPAllowed addr k" "refused (Some k') = refused (Some k)"
      "ak_id k' = ak_id k" "ak_rate k' = ak_rate k" "ak_user k' = ak_user k" "ak_scopes k' = ak_scopes k"
      "ak_status k' = ak_status k"
      using k'(2) by (simp_all add: same_checks_def key_IsValid_def key_IsActive_def key_IsExpired_def
          invalid_code_def IsIPAllowed_def refused_def fun_eq_iff split: option.split)
    then show ?thesis
      by (simp add: service_ValidateAPIKey_def key_GetByKeyHash_def Some k'(1) split: option.split bool.split)
  qed
qed

lemma rotate_stores:
  assumes "RotateAPIKeySecret down sha encrypt (Some rnd) now i u db = (Inr (k', full), db')"
  obtains k secret where "List.find (\<lambda>k. ak_id k = i) (kd_keys db) = Some k" "ak_user k = u"
    and "full = trim_suffix (ak_prefix k) ''...'' @ hex_encode rnd"
    and "db' = db\<lparr>kd_keys := upd_where (\<lambda>r. ak_id r = i)
      (set_key_columns (k\<lparr>ak_rotated := Some now, ak_secret := Some secret, ak_updated := now\<rparr>)) (kd_keys db)\<rparr>"
proof -
  obtain k where k: "own_key down i u db = Inr k"
    using assms by (auto simp: RotateAPIKeySecret_def split: sum.splits)
  let ?full = "trim_suffix (ak_prefix k) ''...'' @ hex_encode rnd"
  obtain secret where "encrypt ?full = Some secret"
    using assms by (auto simp: RotateAPIKeySecret_def k RotateSecret_def Let_def split: option.splits)
  moreover have cols: "set_key_columns (k\<lparr>ak_hash := x, ak_prefix := y, ak_rotated := t, ak_secret := s, ak_updated := n\<rparr>)
      = set_key_columns (k\<lparr>ak_rotated := t, ak_secret := s, ak_updated := n\<rparr>)" for x y s t n
    by (rule ext) (simp add: set_key_columns_def)
  ultimately have "full = ?full" "db' = db\<lparr>kd_keys := upd_where (\<lambda>r. ak_id r = i)
      (set_key_columns (k\<lparr>ak_rotated := Some now, ak_secret := Some secret, ak_updated := now\<rparr>)) (kd_keys db)\<rparr>"
    using assms own_key_Inr(2) [OF k]
    by (auto simp: RotateAPIKeySecret_def k RotateSecret_def Let_def store_key_def key_Update_def
        split: sum.splits if_splits prod.splits)
  then show thesis using that own_key_Inr [OF k] by blast
qed

text \<open>
  Rotating the secret of a key has no effect on which keys are accepted: the old key,
  which may have leaked, is accepted as before, because the new hash is never stored; and the new
  key that the caller is given is refused, because it is too long.
\<close>
theorem rotation_keeps_old_key:
  assumes "RotateAPIKeySecret down sha encrypt (Some rnd) now i u (ks_db st) = (Inr (k', full), db')"
    and "distinct (map ak_id (kd_keys (ks_db st)))"
    and "\<forall>k \<in> set (kd_keys (ks_db st)). shown_prefix (ak_prefix k)" and "length rnd = 32"
  shows "map_option fst (service_ValidateAPIKey down' sha now' key addr (st\<lparr>ks_db := db'\<rparr>))
      = map_option fst (service_ValidateAPIKey down' sha now' key addr st) \<and>
    service_ValidateAPIKey down' sha now' full addr (st\<lparr>ks_db := db'\<rparr>)
      = Some (Inr (refused None ''INVALID_API_KEY''), st\<lparr>ks_db := db'\<rparr>)"
  using assms(1)
proof (rule rotate_stores)
  fix k secret
  let ?f = "set_key_columns (k\<lparr>ak_rotated := Some now, ak_secret := Some secret, ak_updated := now\<rparr>)"
  assume k: "List.find (\<lambda>k. ak_id k = i) (kd_keys (ks_db st)) = Some k"
    and full: "full = trim_suffix (ak_prefix k) ''...'' @ hex_encode rnd"
    and db': "db' = (ks_db st)\<lparr>kd_keys := upd_where (\<lambda>r. ak_id r = i) ?f (kd_keys (ks_db st))\<rparr>"
  have in_k: "k \<in> set (kd_keys (ks_db st))" "ak_id k = i" using find_Some_inD [OF k] by simp_all
  have "r = k" if "r \<in> set (kd_keys (ks_db st))" "ak_id r = i" for r
    using that in_k assms(2) by (metis distinct_map inj_onD)
  then have "same_checks r (?f r)" if "r \<in> set (kd_keys (ks_db st))" "ak_id r = i" for r
    using that by (auto simp: same_checks_def set_key_columns_def)
  from validate_same_checks [where db = "ks_db st" and p = "\<lambda>r. ak_id r = i" and f = ?f, OF this, of down' sha now' key addr st]
  have same: "map_option fst (service_ValidateAPIKey down' sha now' key addr (st\<lparr>ks_db := db'\<rparr>))
      = map_option fst (service_ValidateAPIKey down' sha now' key addr st)"
    by (simp add: db')
  obtain kt h where "ak_prefix k = (getPrefixForKeyType kt @ h) @ ''...''" "length h = 8"
    using assms(3) in_k by (auto simp: shown_prefix_def)
  then have "full = (getPrefixForKeyType kt @ h) @ hex_encode rnd" and "length h = 8"
    by (simp_all only: full trim_shown)
  then have "ValidateAPIKey full = Some KeyInvalid"
    using rotated_key_invalid [OF _ assms(4)] by simp
  then show ?thesis using same by (simp add: service_ValidateAPIKey_def)
qed

text \<open>A table of one key, whose hash the stand-in for SHA-256 makes from the key itself.\<close>

definition demo_random :: string where
  "demo_random = replicate 32 CHR 0x0F"

definition demo_key_db :: key_db where
  "demo_key_db = \<lparr>kd_keys = [demo_key\<lparr>ak_hash := full_key KeyReadOnly (replicate 32 CHR 0x00)\<rparr>], kd_usage = []\<rparr>"

definition demo_key_state :: key_state where
  "demo_key_state = \<lparr>ks_db = demo_key_db, ks_limiter = NewSlidingWindowRateLimiter\<rparr>"

lemma demo_rotation:
  "fst (RotateAPIKeySecret (\<lambda>_. False) id Some (Some demo_random) 5 1 7 demo_key_db) = Inr (k', full)
   \<longleftrightarrow> full = ''baku_ro_00000000'' @ hex_encode demo_random \<and>
     k' = demo_key\<lparr>ak_hash := full_key KeyReadOnly (replicate 32 CHR 0x00), ak_secret := Some full,
       ak_rotated := Some 5, ak_updated := 5\<rparr>"
proof -
  have "trim_suffix ''baku_ro_00000000...'' ''...'' = ''baku_ro_00000000''"
    using trim_shown [of "''baku_ro_00000000''"] by simp
  then show ?thesis
    by (auto simp: RotateAPIKeySecret_def RotateSecret_def own_key_def key_GetByID_def store_key_def key_Update_def
        demo_key_db_def demo_key_def Let_def upd_where_def set_key_columns_def)
qed

theorem rotation_keeps_old_key_witness:
  "\<exists>k' full db'. RotateAPIKeySecret (\<lambda>_. False) id Some (Some demo_random) 5 1 7 demo_key_db = (Inr (k', full), db') \<and>
     service_ValidateAPIKey (\<lambda>_. False) id 9 full ''10.0.0.1'' (demo_key_state\<lparr>ks_db := db'\<rparr>)
       = Some (Inr (refused None ''INVALID_API_KEY''), demo_key_state\<lparr>ks_db := db'\<rparr>)"
proof -
  obtain k' full db' where r: "RotateAPIKeySecret (\<lambda>_. False) id Some (Some demo_random) 5 1 7 demo_key_db = (Inr (k', full), db')"
    using demo_rotation by (metis prod.exhaust_sel)
  moreover have "shown_prefix ''baku_ro_00000000...''"
    unfolding shown_prefix_def
    by (rule exI [of _ KeyReadOnly], rule exI [of _ "''00000000''"]) (simp add: getPrefixForKeyType_def)
  ultimately show ?thesis
    using rotation_keeps_old_key [of "\<lambda>_. False" id Some demo_random 5 1 7 demo_key_state k' full db'
        "\<lambda>_. False" 9 _ "''10.0.0.1''"]
    by (auto simp: demo_key_state_def demo_key_db_def demo_key_def demo_random_def)
qed

section \<open>Issued keys\<close>

definition fresh_key :: "(string \<Rightarrow> string) \<Rightarrow> string \<Rightarrow> nat \<Rightarrow> time \<Rightarrow> string \<Rightarrow> create_key_request \<Rightarrow> api_key" where
  "fresh_key sha rnd i now secret r = \<lparr>ak_id = i, ak_user = cr_user r, ak_name = cr_name r,
     ak_description = cr_description r, ak_hash = sha (full_key (cr_type r) rnd),
     ak_prefix = getPrefixForKeyType (cr_type r) @ take 8 (hex_encode rnd) @ ''...'', ak_scopes = cr_scopes r,
     ak_status = KeyActive, ak_secret = Some secret, ak_expires = cr_expires r, ak_whitelist = cr_whitelist r,
     ak_rate = (if 0 < cr_rate r then cr_rate r else 100), ak_total = 0, ak_ok = 0, ak_failed = 0,
     ak_used = None, ak_used_ip = None, ak_endpoint = None, ak_created = now, ak_updated = now,
     ak_rotated = None\<rparr>"

text \<open>What a creation that stores a key has checked and stored, whether or not it is read back.\<close>

lemma new_row_changes: "db\<lparr>kd_keys := kd_keys db @ [k]\<rparr> \<noteq> db" "db \<noteq> db\<lparr>kd_keys := kd_keys db @ [k]\<rparr>"
  by (auto dest: arg_cong [where f = kd_keys])

lemma CreateAPIKey_cases:
  obtains (none) e where "CreateAPIKey down subs sha encrypt random i now r db = (Inl e, db)"
  | (stored) rnd secret e db' where "random = Some rnd" "cr_Validate r = None"
      "CheckAPIKeyLimit subs (cr_user r) (count_where (\<lambda>k. ak_user k = cr_user r) (kd_keys db)) = Inr True"
      "key_Create down (fresh_key sha rnd i now secret r) db = Inr db'"
      "CreateAPIKey down subs sha encrypt random i now r db =
         (case key_GetByID down i db' of Inl e \<Rightarrow> Inl e | Inr k \<Rightarrow> Inr (k, full_key (cr_type r) rnd), db')"
proof (cases "snd (CreateAPIKey down subs sha encrypt random i now r db) = db")
  case True
  show thesis
  proof (cases "fst (CreateAPIKey down subs sha encrypt random i now r db)")
    case (Inl e)
    then show thesis using none True by (metis prod.exhaust_sel)
  next
    case (Inr x)
    then have False using True
      by (auto simp: CreateAPIKey_def NewAPIKey_def key_CountByUserID_def key_ExistsByName_def key_Create_def Let_def
          new_row_changes split: option.splits sum.splits bool.splits if_splits)
    then show thesis ..
  qed
next
  case False
  then obtain rnd secret where "random = Some rnd" and v: "cr_Validate r = None"
    and "encrypt (full_key (cr_type r) rnd) = Some secret"
    by (auto simp: CreateAPIKey_def NewAPIKey_def Let_def split: option.splits sum.splits bool.splits)
  moreover have "NewAPIKey sha (Some rnd) i now (cr_user r) (cr_name r) (cr_type r) (cr_scopes r) =
      Inr (\<lparr>ak_id = i, ak_user = cr_user r, ak_name = cr_name r, ak_description = None,
        ak_hash = sha (full_key (cr_type r) rnd),
        ak_prefix = getPrefixForKeyType (cr_type r) @ take 8 (hex_encode rnd) @ ''...'', ak_scopes = cr_scopes r,
        ak_status = KeyActive, ak_secret = Some (full_key (cr_type r) rnd), ak_expires = None, ak_whitelist = [],
        ak_rate = 100, ak_total = 0, ak_ok = 0, ak_failed = 0, ak_used = None, ak_used_ip = None,
        ak_endpoint = None, ak_created = now, ak_updated = now, ak_rotated = None\<rparr>, full_key (cr_type r) rnd)"
      (is "_ = Inr (?k0, _)")
    using v by (simp add: NewAPIKey_def validateAPIKeyName_def validateScopes_def cr_Validate_def Let_def split: if_splits)
  moreover have "(apply_request r ?k0)\<lparr>ak_secret := Some secret\<rparr> = fresh_key sha rnd i now secret r"
    by (simp add: apply_request_def fresh_key_def Let_def)
  moreover have "ak_user (fresh_key sha rnd i now secret r) = cr_user r"
      "ak_name (fresh_key sha rnd i now secret r) = cr_name r"
    by (simp_all add: fresh_key_def)
  ultimately show thesis using False stored
    by (auto simp: CreateAPIKey_def key_CountByUserID_def Let_def split: sum.splits bool.splits if_splits)
qed

lemma key_Create_Inr:
  "key_Create down k db = Inr db' \<longleftrightarrow> \<not> down KeyCreate \<and> db' = db\<lparr>kd_keys := kd_keys db @ [k]\<rparr> \<and>
     (\<forall>r \<in> set (kd_keys db). ak_id r \<noteq> ak_id k \<and> ak_hash r \<noteq> ak_hash k \<and>
       (ak_user r, ak_name r) \<noteq> (ak_user k, ak_name k))"
  by (auto simp: key_Create_def list_ex_iff)

lemma find_append_new: "\<forall>r \<in> set rs. \<not> p r \<Longrightarrow> p x \<Longrightarrow> List.find p (rs @ [x]) = Some x"
  by (induction rs) auto

text \<open>
  The key that \<open>CreateAPIKey\<close> returns is accepted by \<open>ValidateAPIKey\<close>, for its owner and
  with its scopes, from any address that its whitelist allows and until a minute after it
  expires; it is refused, with the right reason, otherwise, and always when its type is none of
  the three. SHA-256 can be any function: that no two keys share a hash is checked by the table.
\<close>
theorem issued_key_is_accepted:
  assumes "CreateAPIKey down subs sha encrypt (Some rnd) i now r db = (Inr (k, full), db')"
    and "length rnd = 32" and "\<not> down' KeyGetHash" and "rl i = None"
  shows "map_option fst (service_ValidateAPIKey down' sha now' full addr \<lparr>ks_db = db', ks_limiter = rl\<rparr>) =
    Some (Inr (case cr_type r of KeyUntyped t \<Rightarrow> refused None ''INVALID_API_KEY''
      | _ \<Rightarrow> if key_IsExpired now' k then refused (Some k) ''API_KEY_EXPIRED''
        else if \<not> IsIPAllowed addr k then refused (Some k) ''IP_NOT_ALLOWED''
        else \<lparr>va_valid = True, va_user = Some (cr_user r), va_scopes = cr_scopes r,
          va_status = Some KeyActive, va_code = []\<rparr>))"
proof (rule CreateAPIKey_cases [of down subs sha encrypt "Some rnd" i now r db])
  fix e assume "CreateAPIKey down subs sha encrypt (Some rnd) i now r db = (Inl e, db)"
  then show ?thesis using assms(1) by simp
next
  fix rnd' secret e db1
  let ?k = "fresh_key sha rnd i now secret r"
  assume "Some rnd = Some rnd'" and "key_Create down (fresh_key sha rnd' i now secret r) db = Inr db1"
    and "CreateAPIKey down subs sha encrypt (Some rnd) i now r db =
         (case key_GetByID down i db1 of Inl e \<Rightarrow> Inl e | Inr k \<Rightarrow> Inr (k, full_key (cr_type r) rnd'), db1)"
  then have c: "key_Create down ?k db = Inr db1" and g: "key_GetByID down i db1 = Inr k"
    and full: "full = full_key (cr_type r) rnd" and db1: "db' = db1"
    using assms(1) by (auto split: sum.splits)
  have k: "k = ?k" and h: "List.find (\<lambda>k. ak_hash k = sha full) (kd_keys db') = Some ?k"
    using c g by (auto simp: key_Create_Inr db1 key_GetByID_def full fresh_key_def find_append_new split: if_splits)
  have f: "ak_id ?k = i" "ak_user ?k = cr_user r" "ak_scopes ?k = cr_scopes r" "ak_status ?k = KeyActive"
      "0 < ak_rate ?k"
    by (simp_all add: fresh_key_def)
  have fmt: "ValidateAPIKey full = None \<longleftrightarrow> (\<nexists>t. cr_type r = KeyUntyped t)"
    using validate_full_key [OF assms(2)] by (simp add: full)
  show ?thesis
  proof (cases "\<exists>t. cr_type r = KeyUntyped t")
    case True
    then show ?thesis using fmt by (auto simp: service_ValidateAPIKey_def)
  next
    case False
    have allow: "\<exists>rl'. Allow now' i (ak_rate ?k) rl = Some (True, rl')"
      using f assms(4) by (simp add: Allow_def current_window_def Let_def)
    show ?thesis
      using False fmt h f assms(3) allow
      by (cases "cr_type r")
        (auto simp: service_ValidateAPIKey_def key_GetByKeyHash_def k key_IsValid_def key_IsActive_def invalid_code_def)
  qed
qed

text \<open>With the identity for SHA-256 and no encryption, an empty table issues a key that is accepted.\<close>

definition demo_request :: create_key_request where
  "demo_request = \<lparr>cr_user = 7, cr_name = ''ci'', cr_description = None, cr_type = KeyReadOnly,
     cr_scopes = [''read_monitors''], cr_expires = None, cr_whitelist = [], cr_rate = 0\<rparr>"

definition demo_subs :: subscriptions where
  "demo_subs u = Some \<lparr>bs_tier = TierFree, bs_active = True, bs_plan = ''free''\<rparr>"

theorem issued_key_is_accepted_witness:
  "\<exists>k full db'. CreateAPIKey (\<lambda>_. False) demo_subs id Some (Some demo_random) 1 5 demo_request
       \<lparr>kd_keys = [], kd_usage = []\<rparr> = (Inr (k, full), db') \<and>
     map_option fst (service_ValidateAPIKey (\<lambda>_. False) id 6 full ''10.0.0.1''
       \<lparr>ks_db = db', ks_limiter = NewSlidingWindowRateLimiter\<rparr>) =
       Some (Inr \<lparr>va_valid = True, va_user = Some 7, va_scopes = [''read_monitors''],
         va_status = Some KeyActive, va_code = []\<rparr>)"
proof -
  let ?db = "\<lparr>kd_keys = [], kd_usage = []\<rparr>" and ?full = "full_key KeyReadOnly demo_random"
  let ?k = "fresh_key id demo_random 1 5 ?full demo_request"
  have "fst (CreateAPIKey (\<lambda>_. False) demo_subs id Some (Some demo_random) 1 5 demo_request ?db) = Inr (?k, ?full)"
    by (simp add: CreateAPIKey_def cr_Validate_def demo_request_def ValidScopes_def key_CountByUserID_def
        CheckAPIKeyLimit_def demo_subs_def max_api_keys_def NewAPIKey_def validateAPIKeyName_def validateScopes_def
        apply_request_def key_ExistsByName_def key_Create_def key_GetByID_def Let_def count_where_def fresh_key_def)
  then obtain k full db' where c: "CreateAPIKey (\<lambda>_. False) demo_subs id Some (Some demo_random) 1 5 demo_request ?db
      = (Inr (k, full), db')" and "ak_expires k = None" "ak_whitelist k = []"
    using that [of ?k ?full] by (cases "CreateAPIKey (\<lambda>_. False) demo_subs id Some (Some demo_random) 1 5 demo_request ?db")
      (simp add: fresh_key_def demo_request_def)
  moreover from this have "\<not> key_IsExpired 6 k" "IsIPAllowed ''10.0.0.1'' k"
    by (simp_all add: key_IsExpired_def IsIPAllowed_def)
  ultimately show ?thesis
    using issued_key_is_accepted [OF c, of "\<lambda>_. False" NewSlidingWindowRateLimiter 6 "''10.0.0.1''"]
    by (auto simp: demo_random_def demo_request_def NewSlidingWindowRateLimiter_def)
qed

end
