(* ===== verification/ApiKeyHistory.thy ===== *)
theory ApiKeyHistory
  imports ApiKeyService
begin

text \<open>
  What holds of the API keys of \<open>integration-service/internal/service/apikey/api_key_service.go\<close>
  after any sequence of calls.
\<close>

section \<open>Calls\<close>

text \<open>
  The calls that reach the tables or the limiter, one after the other. Each has its own failures
  and the subscriptions of its time; a call whose limiter panics leaves no trace.
\<close>

datatype key_op =
    OpCreate nat time "string option" create_key_request
  | OpUpdate time update_key_request
  | OpDelete nat nat
  | OpRotate time "string option" nat nat
  | OpValidate time string string

fun key_step ::
    "(string \<Rightarrow> string) \<Rightarrow> (string \<Rightarrow> string option) \<Rightarrow> key_faults \<times> subscriptions \<times> key_op \<Rightarrow>
     key_state \<Rightarrow> key_state" where
  "key_step sha encrypt (down, subs, OpCreate i now random r) st =
     st\<lparr>ks_db := snd (CreateAPIKey down subs sha encrypt random i now r (ks_db st))\<rparr>"
| "key_step sha encrypt (down, subs, OpUpdate now r) st = st\<lparr>ks_db := snd (UpdateAPIKey down now r (ks_db st))\<rparr>"
| "key_step sha encrypt (down, subs, OpDelete i u) st = snd (DeleteAPIKey down i u st)"
| "key_step sha encrypt (down, subs, OpRotate now random i u) st =
     st\<lparr>ks_db := snd (RotateAPIKeySecret down sha encrypt random now i u (ks_db st))\<rparr>"
| "key_step sha encrypt (down, subs, OpValidate now key addr) st =
     (case service_ValidateAPIKey down sha now key addr st of None \<Rightarrow> st | Some (_, st') \<Rightarrow> st')"

text \<open>How the table of keys can change in one call.\<close>

inductive key_change :: "subscriptions \<Rightarrow> nat option \<Rightarrow> api_key list \<Rightarrow> api_key list \<Rightarrow> bool" for subs where
  same: "key_change subs u ks ks"
| created: "subs (ak_user k) = Some s \<Longrightarrow> count_where (\<lambda>r. ak_user r = ak_user k) ks < max_api_keys (bs_tier s) \<Longrightarrow>
    \<forall>r \<in> set ks. ak_id r \<noteq> ak_id k \<and> ak_hash r \<noteq> ak_hash k \<and> (ak_user r, ak_name r) \<noteq> (ak_user k, ak_name k) \<Longrightarrow>
    validateAPIKeyName (ak_name k) = None \<Longrightarrow> shown_prefix (ak_prefix k) \<Longrightarrow>
    key_change subs (Some (ak_user k)) ks (ks @ [k])"
| updated: "r \<in> set ks \<Longrightarrow> ak_user r = u \<Longrightarrow> validateAPIKeyName (ak_name k) = None \<or> ak_name k = ak_name r \<Longrightarrow>
    \<forall>r' \<in> set ks. ak_id r' \<noteq> ak_id r \<longrightarrow> (ak_user r', ak_name r') \<noteq> (u, ak_name k) \<Longrightarrow>
    key_change subs (Some u) ks (upd_where (\<lambda>r'. ak_id r' = ak_id r) (set_key_columns k) ks)"
| deleted: "r \<in> set ks \<Longrightarrow> ak_user r = u \<Longrightarrow> key_change subs (Some u) ks (del_where (\<lambda>r'. ak_id r' = ak_id r) ks)"

fun op_user :: "key_op \<Rightarrow> nat option" where
  "op_user (OpCreate i now random r) = Some (cr_user r)"
| "op_user (OpUpdate now r) = Some (ur_user r)"
| "op_user (OpDelete i u) = Some u"
| "op_user (OpRotate now random i u) = Some u"
| "op_user (OpValidate now key addr) = None"

text \<open>\<open>rand.Read\<close> fills its buffer of 32 bytes or fails.\<close>

fun random_ok :: "key_op \<Rightarrow> bool" where
  "random_ok (OpCreate i now random r) = (\<forall>rnd. random = Some rnd \<longrightarrow> length rnd = 32)"
| "random_ok op = True"

lemma CreateAPIKey_change:
  assumes "\<And>rnd. random = Some rnd \<Longrightarrow> length rnd = 32"
  shows "key_change subs (Some (cr_user r)) (kd_keys db)
     (kd_keys (snd (CreateAPIKey down subs sha encrypt random i now r db)))"
proof (rule CreateAPIKey_cases [of down subs sha encrypt random i now r db])
  fix rnd secret db'
  let ?k = "fresh_key sha rnd i now secret r"
  assume rnd: "random = Some rnd" and v: "cr_Validate r = None" and c: "key_Create down ?k db = Inr db'"
    and lim: "CheckAPIKeyLimit subs (cr_user r) (count_where (\<lambda>k. ak_user k = cr_user r) (kd_keys db)) = Inr True"
    and eq: "CreateAPIKey down subs sha encrypt random i now r db =
         (case key_GetByID down i db' of Inl e \<Rightarrow> Inl e | Inr k \<Rightarrow> Inr (k, full_key (cr_type r) rnd), db')"
  have "shown_prefix (ak_prefix ?k)"
    unfolding shown_prefix_def using assms [OF rnd]
    by (intro exI [of _ "cr_type r"] exI [of _ "take 8 (hex_encode rnd)"]) (simp add: fresh_key_def)
  moreover have "ak_user ?k = cr_user r" "validateAPIKeyName (ak_name ?k) = None"
    using v by (simp_all add: fresh_key_def cr_Validate_def validateAPIKeyName_def split: if_splits)
  moreover obtain s where "subs (cr_user r) = Some s"
      "count_where (\<lambda>k. ak_user k = cr_user r) (kd_keys db) < max_api_keys (bs_tier s)"
    using lim by (auto simp: CheckAPIKeyLimit_True)
  moreover have "\<forall>r \<in> set (kd_keys db). ak_id r \<noteq> ak_id ?k \<and> ak_hash r \<noteq> ak_hash ?k \<and>
       (ak_user r, ak_name r) \<noteq> (ak_user ?k, ak_name ?k)"
    using c by (simp add: key_Create_Inr)
  ultimately have "key_change subs (Some (ak_user ?k)) (kd_keys db) (kd_keys db @ [?k])"
    by (intro key_change.created [where s = s]) simp_all
  then show ?thesis using c \<open>ak_user ?k = cr_user r\<close> by (simp add: eq key_Create_Inr)
qed (simp add: key_change.same)

lemma key_Update_change:
  assumes k: "List.find (\<lambda>r. ak_id r = i) (kd_keys db) = Some k" and "ak_user k = u"
    and "ak_id k' = ak_id k" and "validateAPIKeyName (ak_name k') = None \<or> ak_name k' = ak_name k"
  shows "key_change subs (Some u) (kd_keys db) (kd_keys (snd (store_key down now k' db)))"
proof (cases "key_Update down (k'\<lparr>ak_updated := now\<rparr>) db")
  case (Inl e)
  then show ?thesis by (simp add: store_key_def key_change.same)
next
  case (Inr db')
  have in_k: "k \<in> set (kd_keys db)" using find_Some_inD [OF k] by simp
  have "\<forall>r' \<in> set (kd_keys db). ak_id r' \<noteq> ak_id k \<longrightarrow> (ak_user r', ak_name r') \<noteq> (u, ak_name k')"
    using Inr in_k assms(2,3) by (auto simp: key_Update_def Let_def list_ex_iff split: if_splits)
  then have "key_change subs (Some u) (kd_keys db)
      (upd_where (\<lambda>r'. ak_id r' = ak_id k) (set_key_columns (k'\<lparr>ak_updated := now\<rparr>)) (kd_keys db))"
    using in_k assms by (intro key_change.updated) auto
  moreover have "kd_keys db' = upd_where (\<lambda>r'. ak_id r' = ak_id k) (set_key_columns (k'\<lparr>ak_updated := now\<rparr>)) (kd_keys db)"
    using Inr assms(3) by (auto simp: key_Update_def Let_def split: if_splits)
  ultimately show ?thesis by (simp add: store_key_def Inr)
qed

lemma own_key_found: "own_key down i u db = Inr k \<Longrightarrow> List.find (\<lambda>r. ak_id r = i) (kd_keys db) = Some k \<and> ak_user k = u"
  by (auto dest: own_key_Inr)

lemma ApplyToModel_id_name:
  "ak_id (ApplyToModel now r k) = ak_id k"
  "ak_name (ApplyToModel now r k) = (case ur_name r of None \<Rightarrow> ak_name k | Some s \<Rightarrow> s)"
  by (auto simp: ApplyToModel_def Let_def key_Enable_def key_Disable_def split: option.split)

lemma UpdateAPIKey_change:
  "key_change subs (Some (ur_user r)) (kd_keys db) (kd_keys (snd (UpdateAPIKey down now r db)))"
proof (cases "own_key down (ur_id r) (ur_user r) db")
  case (Inr k)
  show ?thesis
  proof (cases "case ur_name r of None \<Rightarrow> None | Some s \<Rightarrow> validateAPIKeyName s")
    case None
    then show ?thesis using own_key_found [OF Inr]
      by (auto simp: UpdateAPIKey_def Inr ApplyToModel_id_name split: option.split intro!: key_Update_change)
  qed (simp add: UpdateAPIKey_def Inr key_change.same)
qed (simp add: UpdateAPIKey_def key_change.same)

lemma RotateSecret_id_name: "RotateSecret sha random now k = Inr (full, k') \<Longrightarrow> ak_id k' = ak_id k \<and> ak_name k' = ak_name k"
  by (auto simp: RotateSecret_def Let_def split: option.splits)

lemma RotateAPIKeySecret_change:
  "key_change subs (Some u) (kd_keys db) (kd_keys (snd (RotateAPIKeySecret down sha encrypt random now i u db)))"
proof (cases "own_key down i u db")
  case (Inr k)
  show ?thesis
  proof (cases "RotateSecret sha random now k")
    case rotated: (Inr p)
    obtain full k' where p: "p = (full, k')" by force
    have "key_change subs (Some u) (kd_keys db) (kd_keys (snd (store_key down now (k'\<lparr>ak_secret := Some s\<rparr>) db)))" for s
      using own_key_found [OF Inr] RotateSecret_id_name [OF rotated [unfolded p]]
      by (intro key_Update_change) auto
    then have "key_change subs (Some u) (kd_keys db) (kd_keys db')"
      if "store_key down now (k'\<lparr>ak_secret := Some s\<rparr>) db = (x, db')" for s x db'
      by (metis that snd_conv)
    then show ?thesis
      by (auto simp: RotateAPIKeySecret_def Inr rotated p key_change.same split: option.split sum.split prod.split)
  qed (simp add: RotateAPIKeySecret_def Inr key_change.same)
qed (simp add: RotateAPIKeySecret_def key_change.same)

lemma DeleteAPIKey_change:
  "key_change subs (Some u) (kd_keys (ks_db st)) (kd_keys (ks_db (snd (DeleteAPIKey down i u st))))"
proof (cases "own_key down i u (ks_db st)")
  case (Inr k)
  have "key_change subs (Some u) (kd_keys (ks_db st)) (del_where (\<lambda>r'. ak_id r' = ak_id k) (kd_keys (ks_db st)))"
    using own_key_Inr [OF Inr] by (intro key_change.deleted)
  then show ?thesis using own_key_Inr(2) [OF Inr]
    by (auto simp: DeleteAPIKey_def Inr key_Delete_def key_change.same)
qed (simp add: DeleteAPIKey_def key_change.same)

lemma ValidateAPIKey_keeps_db:
  "service_ValidateAPIKey down sha now key addr st = Some (v, st') \<Longrightarrow> ks_db st' = ks_db st"
  by (auto simp: service_ValidateAPIKey_def split: if_splits sum.splits integration_error.splits option.splits
      prod.splits bool.splits)

lemma key_step_change:
  assumes "random_ok op"
  shows "key_change subs (op_user op) (kd_keys (ks_db st)) (kd_keys (ks_db (key_step sha encrypt (down, subs, op) st)))"
proof (cases op)
  case (OpValidate now key addr)
  then show ?thesis
    by (auto simp: key_change.same ValidateAPIKey_keeps_db split: option.split)
qed (use assms in \<open>simp_all add: CreateAPIKey_change UpdateAPIKey_change DeleteAPIKey_change RotateAPIKeySecret_change\<close>)

section \<open>Invariants\<close>

definition keys_wf :: "api_key list \<Rightarrow> bool" where
  "keys_wf ks \<longleftrightarrow> distinct (map ak_id ks) \<and> distinct (map ak_hash ks) \<and>
     distinct (map (\<lambda>k. (ak_user k, ak_name k)) ks) \<and>
     (\<forall>k \<in> set ks. validateAPIKeyName (ak_name k) = None \<and> shown_prefix (ak_prefix k))"

lemma set_key_columns_keeps [simp]:
  "ak_id (set_key_columns k r) = ak_id r" "ak_hash (set_key_columns k r) = ak_hash r"
  "ak_prefix (set_key_columns k r) = ak_prefix r" "ak_user (set_key_columns k r) = ak_user r"
  "ak_name (set_key_columns k r) = ak_name k"
  by (simp_all add: set_key_columns_def)

lemma key_change_count:
  assumes "key_change subs u ks ks'" and "count_where (\<lambda>k. ak_user k = v) ks \<le> m"
    and "\<And>s. subs v = Some s \<Longrightarrow> max_api_keys (bs_tier s) \<le> m"
  shows "count_where (\<lambda>k. ak_user k = v) ks' \<le> m"
  using assms
proof (cases rule: key_change.cases)
  case (created k s)
  then show ?thesis using assms(2,3) by (cases "ak_user k = v") fastforce+
next
  case (updated r w k)
  then show ?thesis using assms(2) by (simp add: count_where_upd_where)
next
  case (deleted r w)
  then show ?thesis using assms(2) count_where_mono [of ks "\<lambda>k. ak_user k = v \<and> \<not> ak_id k = ak_id r" "\<lambda>k. ak_user k = v"]
    by (simp add: count_where_del_where)
qed simp

text \<open>An update of one row keeps the names apart.\<close>

lemma distinct_names_upd:
  assumes "distinct (map (\<lambda>k. (ak_user k, ak_name k)) ks)" and "distinct (map ak_id ks)"
    and "r \<in> set ks" and "\<forall>r' \<in> set ks. ak_id r' \<noteq> ak_id r \<longrightarrow> (ak_user r', ak_name r') \<noteq> (ak_user r, ak_name k)"
  shows "distinct (map (\<lambda>k. (ak_user k, ak_name k)) (upd_where (\<lambda>r'. ak_id r' = ak_id r) (set_key_columns k) ks))"
proof -
  let ?n = "\<lambda>k. (ak_user k, ak_name k)" and ?u = "\<lambda>r'. if ak_id r' = ak_id r then set_key_columns k r' else r'"
  have "inj_on (?n \<circ> ?u) (set ks)"
  proof (rule inj_onI)
    fix x y assume xy: "x \<in> set ks" "y \<in> set ks" "(?n \<circ> ?u) x = (?n \<circ> ?u) y"
    have eq: "a = r" if "a \<in> set ks" "ak_id a = ak_id r" for a
      using that assms(2,3) by (metis distinct_map inj_onD)
    have clash: False if "a \<in> set ks" "ak_id a \<noteq> ak_id r" "?n a = (ak_user r, ak_name k)" for a
      using assms(4) that by blast
    have same: "?n x = ?n y \<Longrightarrow> x = y" using assms(1) xy(1,2) by (meson distinct_map inj_onD)
    show "x = y"
    proof (cases "ak_id x = ak_id r"; cases "ak_id y = ak_id r")
      assume "ak_id x = ak_id r" "ak_id y = ak_id r"
      then show ?thesis using eq xy(1,2) by blast
    next
      assume i: "ak_id x = ak_id r" "ak_id y \<noteq> ak_id r"
      then have "x = r" using eq xy(1) by blast
      then have "?n y = (ak_user r, ak_name k)" using xy(3) i by simp
      then show ?thesis using clash xy(2) i by blast
    next
      assume i: "ak_id x \<noteq> ak_id r" "ak_id y = ak_id r"
      then have "y = r" using eq xy(2) by blast
      then have "?n x = (ak_user r, ak_name k)" using xy(3) i by simp
      then show ?thesis using clash xy(1) i by blast
    next
      assume "ak_id x \<noteq> ak_id r" "ak_id y \<noteq> ak_id r"
      then show ?thesis using same xy(3) by simp
    qed
  qed
  moreover have "distinct ks" using assms(2) by (simp add: distinct_map)
  ultimately show ?thesis by (simp add: upd_where_def distinct_map comp_inj_on_iff)
qed

lemma key_change_wf:
  assumes "key_change subs u ks ks'" and "keys_wf ks"
  shows "keys_wf ks'"
  using assms(1)
proof (cases rule: key_change.cases)
  case (created k s)
  then show ?thesis using assms(2) by (auto simp: keys_wf_def)
next
  case (updated r w k)
  then have "distinct (map (\<lambda>k. (ak_user k, ak_name k)) ks')"
    using assms(2) distinct_names_upd [of ks r k] by (simp add: keys_wf_def)
  moreover have "\<forall>k' \<in> set ks'. validateAPIKeyName (ak_name k') = None \<and> shown_prefix (ak_prefix k')"
    using updated assms(2) by (auto simp: keys_wf_def upd_where_def)
  moreover have "distinct (map ak_id ks')" "distinct (map ak_hash ks')"
    using updated assms(2) by (simp_all add: keys_wf_def)
  ultimately show ?thesis by (simp add: keys_wf_def)
next
  case (deleted r w)
  then show ?thesis using assms(2) by (auto simp: keys_wf_def del_where_def distinct_map_filter)
qed (use assms(2) in simp)

text \<open>
  Property C23. Whatever calls are made, one after the other and each with its own failures, a user
  never has more keys than the best subscription that he had allows, and the table stays well
  formed: identifiers, hashes and the names of one user are distinct, names have 1 to 255
  characters, and every key shows its type and eight digits.
\<close>
theorem keys_stay_within_limit:
  assumes "\<forall>(down, subs, op) \<in> set calls. random_ok op \<and>
      (\<forall>s. subs v = Some s \<longrightarrow> max_api_keys (bs_tier s) \<le> m)"
    and "keys_wf (kd_keys (ks_db st))" and "count_where (\<lambda>k. ak_user k = v) (kd_keys (ks_db st)) \<le> m"
  shows "keys_wf (kd_keys (ks_db (fold (key_step sha encrypt) calls st))) \<and>
    count_where (\<lambda>k. ak_user k = v) (kd_keys (ks_db (fold (key_step sha encrypt) calls st))) \<le> m"
  using assms
proof (induction calls arbitrary: st)
  case (Cons c calls)
  obtain down subs op where c: "c = (down, subs, op)" by (metis prod.exhaust)
  have ch: "key_change subs (op_user op) (kd_keys (ks_db st)) (kd_keys (ks_db (key_step sha encrypt c st)))"
    unfolding c using Cons.prems(1) by (intro key_step_change) (auto simp: c)
  have "count_where (\<lambda>k. ak_user k = v) (kd_keys (ks_db (key_step sha encrypt c st))) \<le> m"
    using Cons.prems by (intro key_change_count [OF ch]) (auto simp: c)
  then show ?case using Cons.IH [of "key_step sha encrypt c st"] Cons.prems key_change_wf [OF ch] by simp
qed simp

theorem keys_stay_within_limit_witness:
  "count_where (\<lambda>k. ak_user k = 7) (kd_keys (ks_db (fold (key_step id Some)
     (map (\<lambda>i. ((\<lambda>_. False), demo_subs, OpCreate i (int i) (Some demo_random) demo_request)) [0..<50])
     \<lparr>ks_db = \<lparr>kd_keys = [], kd_usage = []\<rparr>, ks_limiter = NewSlidingWindowRateLimiter\<rparr>))) \<le> 2"
  by (rule keys_stay_within_limit [THEN conjunct2])
    (auto simp: demo_random_def demo_subs_def max_api_keys_def keys_wf_def)

text \<open>
  The calls of one user never touch the keys of another: they are the same rows, in the
  same order, after it.
\<close>
theorem only_owner_changes_keys:
  assumes "op_user op \<noteq> Some v" and "random_ok op" and "distinct (map ak_id (kd_keys (ks_db st)))"
  shows "filter (\<lambda>k. ak_user k = v) (kd_keys (ks_db (key_step sha encrypt (down, subs, op) st)))
    = filter (\<lambda>k. ak_user k = v) (kd_keys (ks_db st))"
proof -
  let ?ks = "kd_keys (ks_db st)" and ?ks' = "kd_keys (ks_db (key_step sha encrypt (down, subs, op) st))"
  have same: "a = r" if "r \<in> set ?ks" "a \<in> set ?ks" "ak_id a = ak_id r" for a r
    using that assms(3) by (metis distinct_map inj_onD)
  have "key_change subs (op_user op) ?ks ?ks'" using assms(2) by (rule key_step_change)
  then show ?thesis
  proof (cases rule: key_change.cases)
    case (updated r w k)
    have "filter (\<lambda>k. ak_user k = v) (upd_where (\<lambda>r'. ak_id r' = ak_id r) (set_key_columns k) rs)
        = filter (\<lambda>k. ak_user k = v) rs" if "set rs \<subseteq> set ?ks" for rs
      using that same [OF updated(3)] updated(1,4) assms(1) by (induction rs) (auto simp: upd_where_def)
    then show ?thesis using updated by simp
  next
    case (deleted r w)
    then show ?thesis using same [OF deleted(3)] assms(1)
      by (auto simp: del_where_def intro!: filter_cong)
  qed (use assms(1) in auto)
qed

theorem only_owner_changes_keys_witness:
  "filter (\<lambda>k. ak_user k = 7) (kd_keys (ks_db (key_step id Some (\<lambda>_. False, demo_subs, OpDelete 1 8) demo_key_state)))
    = kd_keys demo_key_db"
  using only_owner_changes_keys [of "OpDelete 1 8" 7 demo_key_state id Some "\<lambda>_. False" demo_subs]
  by (simp add: demo_key_state_def demo_key_db_def demo_key_def)

end
