(* ===== verification/WebhookModel.thy ===== *)
theory WebhookModel
  imports GoFloat "HOL-Library.Sublist"
begin

text \<open>
  Webhooks of the integration service, \<open>integration-service/internal/model/webhook_integration.go\<close>
  and \<open>service/security/hmac_service.go\<close>: the webhook, its validation and its statistics, one
  attempt of a delivery, and signatures. \<open>url.Parse\<close> is the argument \<open>parse_url\<close>, the scheme or
  \<open>None\<close> for an error, and HMAC-SHA256 in hexadecimal the argument \<open>hmac\<close> of a secret and a text.
\<close>

section \<open>Webhooks\<close>

datatype webhook_status = WhActive | WhInactive | WhFailed | WhDisabled

datatype webhook_err =
    EmptyWebhookName | WebhookNameTooLong | WebhookInvalidURL | WebhookInjection | WebhookInvalidMethod
  | WebhookPayloadTooLarge | WebhookTimeout | WebhookAuthFailed | Webhook5xxError | DeliveryPermanentError
  | WebhookNotFound | WebhookDuplicateName | WebhookLimitReached | EncryptSecretFailed | BillingCheckFailed
  | WebhookRepoError | AttemptNotFound | EmptyWebhookURL | WebhookURLScheme | WebhookURLTooLong
  | WebhookRequestFailed

text \<open>Priority and strategy are words that clients choose.\<close>

record webhook =
  wh_id :: nat
  wh_user :: nat
  wh_name :: string
  wh_url :: string
  wh_method :: string
  wh_headers :: "(string \<times> string) list"
  wh_secret :: "string option"
  wh_enabled :: bool
  wh_status :: webhook_status
  wh_priority :: string
  wh_severities :: "string list"
  wh_max_size :: int
  wh_strategy :: string
  wh_total :: int
  wh_ok :: int
  wh_failed :: int
  wh_avg :: "int option"
  wh_sent :: "time option"
  wh_success :: "time option"
  wh_failure :: "time option"
  wh_failures :: int
  wh_streak :: int
  wh_created :: time
  wh_updated :: time

definition validateWebhookName :: "string \<Rightarrow> webhook_err option" where
  "validateWebhookName name =
     (if name = [] then Some EmptyWebhookName
      else if 255 < length name then Some WebhookNameTooLong else None)"

definition containsInjection :: "string \<Rightarrow> bool" where
  "containsInjection url = list_ex (\<lambda>p. sublist p (ascii_lower url))
     [''<script'', ''</script>'', ''javascript:'', ''onerror='', ''onload='',
      ''../'', ''..'' @ [CHR 0x5C], ''file://'', ''data:'']"

definition validateWebhookURL :: "(string \<Rightarrow> string option) \<Rightarrow> string \<Rightarrow> webhook_err option" where
  "validateWebhookURL parse_url url =
     (case parse_url url of
        None \<Rightarrow> Some WebhookInvalidURL
      | Some scheme \<Rightarrow>
          if scheme \<noteq> ''http'' \<and> scheme \<noteq> ''https'' then Some WebhookInvalidURL
          else if containsInjection url then Some WebhookInjection
          else None)"

definition ascii_upper :: "string \<Rightarrow> string" where
  "ascii_upper s = map (\<lambda>c. let n = (of_char c :: nat)
     in if 97 \<le> n \<and> n \<le> 122 then char_of (n - 32) else c) s"

definition validateHTTPMethod :: "string \<Rightarrow> webhook_err option" where
  "validateHTTPMethod meth =
     (if ascii_upper meth \<in> {''GET'', ''POST'', ''PUT'', ''PATCH''} then None else Some WebhookInvalidMethod)"

definition NewWebhookIntegration ::
    "(string \<Rightarrow> string option) \<Rightarrow> nat \<Rightarrow> time \<Rightarrow> nat \<Rightarrow> string \<Rightarrow> string \<Rightarrow> string \<Rightarrow> webhook_err + webhook" where
  "NewWebhookIntegration parse_url i now u name url meth =
     (case validateWebhookName name of
        Some e \<Rightarrow> Inl e
      | None \<Rightarrow>
     (case validateWebhookURL parse_url url of
        Some e \<Rightarrow> Inl e
      | None \<Rightarrow>
     (case validateHTTPMethod meth of
        Some e \<Rightarrow> Inl e
      | None \<Rightarrow> Inr \<lparr>wh_id = i, wh_user = u, wh_name = name, wh_url = url, wh_method = meth, wh_headers = [],
          wh_secret = None, wh_enabled = True, wh_status = WhActive, wh_priority = ''normal'',
          wh_severities = [''critical'', ''warning'', ''degraded''], wh_max_size = 1048576,
          wh_strategy = ''truncate'', wh_total = 0, wh_ok = 0, wh_failed = 0, wh_avg = None, wh_sent = None,
          wh_success = None, wh_failure = None, wh_failures = 0, wh_streak = 0, wh_created = now,
          wh_updated = now\<rparr>)))"

definition CanDeliver :: "webhook \<Rightarrow> bool" where
  "CanDeliver w \<longleftrightarrow> wh_enabled w \<and> wh_status w = WhActive"

text \<open>\<open>strings.EqualFold\<close> compares without regard to case.\<close>

definition ShouldDeliverForSeverity :: "string \<Rightarrow> webhook \<Rightarrow> bool" where
  "ShouldDeliverForSeverity severity w \<longleftrightarrow>
     wh_severities w = [] \<or> list_ex (\<lambda>s. ascii_lower s = ascii_lower severity) (wh_severities w)"

definition wh_MarkAsFailed :: "time \<Rightarrow> webhook \<Rightarrow> webhook" where
  "wh_MarkAsFailed now w =
     (let w1 = w\<lparr>wh_failures := wh_failures w + 1, wh_streak := wh_streak w + 1, wh_failure := Some now,
        wh_updated := now\<rparr>
      in if 5 \<le> wh_streak w1 then w1\<lparr>wh_status := WhFailed, wh_enabled := False\<rparr> else w1)"

text \<open>\<open>float64(old) * 0.9 + float64(new) * 0.1\<close>, rounded.\<close>

definition moving_average :: "int \<Rightarrow> int \<Rightarrow> int" where
  "moving_average old new =
     int_of_float (fl64 (fl64 (fl64 (fl64 (of_int old) * fl64 (9 / 10)) + fl64 (fl64 (of_int new) * fl64 (1 / 10)))
       + 1 / 2))"

definition wh_MarkAsSuccessful :: "time \<Rightarrow> int \<Rightarrow> webhook \<Rightarrow> webhook" where
  "wh_MarkAsSuccessful now ms w =
     w\<lparr>wh_total := wh_total w + 1, wh_ok := wh_ok w + 1, wh_sent := Some now, wh_success := Some now,
       wh_streak := 0, wh_updated := now,
       wh_avg := Some (case wh_avg w of None \<Rightarrow> ms | Some old \<Rightarrow> moving_average old ms)\<rparr>"

definition wh_MarkAsDisabled :: "time \<Rightarrow> webhook \<Rightarrow> webhook" where
  "wh_MarkAsDisabled now w = w\<lparr>wh_status := WhDisabled, wh_enabled := False, wh_updated := now\<rparr>"

definition wh_MarkAsActive :: "time \<Rightarrow> webhook \<Rightarrow> webhook" where
  "wh_MarkAsActive now w = w\<lparr>wh_status := WhActive, wh_enabled := True, wh_streak := 0, wh_updated := now\<rparr>"

definition wh_UpdateStats :: "time \<Rightarrow> int \<Rightarrow> int \<Rightarrow> int \<Rightarrow> int \<Rightarrow> webhook \<Rightarrow> webhook" where
  "wh_UpdateStats now sent good bad avg w =
     w\<lparr>wh_total := sent, wh_ok := good, wh_failed := bad, wh_avg := Some avg, wh_updated := now\<rparr>"

definition ValidatePayloadSize :: "int \<Rightarrow> webhook \<Rightarrow> webhook_err option" where
  "ValidatePayloadSize n w = (if wh_max_size w < n then Some WebhookPayloadTooLarge else None)"

definition ShouldTruncatePayload :: "webhook \<Rightarrow> bool" where
  "ShouldTruncatePayload w \<longleftrightarrow> wh_strategy w = ''truncate''"

text \<open>\<open>None\<close> is the panic of a slice with a negative bound.\<close>

definition TruncatePayload :: "string \<Rightarrow> webhook \<Rightarrow> string option" where
  "TruncatePayload payload w =
     (if int (length payload) \<le> wh_max_size w then Some payload
      else if wh_max_size w < 0 then None else Some (take (nat (wh_max_size w)) payload))"

section \<open>Attempts\<close>

datatype wh_attempt_status = WaPending | WaSent | WaFailed | WaRetryScheduled

record wh_attempt =
  wa_id :: nat
  wa_webhook :: nat
  wa_alert :: nat
  wa_status :: wh_attempt_status
  wa_retries :: nat
  wa_next :: "time option"
  wa_http :: "int option"
  wa_ms :: "int option"
  wa_error :: "string option"
  wa_code :: "string option"
  wa_size :: int
  wa_truncated :: bool
  wa_algorithm :: "string option"
  wa_created :: time
  wa_sent :: "time option"

definition NewWebhookDeliveryAttempt :: "nat \<Rightarrow> time \<Rightarrow> nat \<Rightarrow> nat \<Rightarrow> wh_attempt" where
  "NewWebhookDeliveryAttempt i now w a =
     \<lparr>wa_id = i, wa_webhook = w, wa_alert = a, wa_status = WaPending, wa_retries = 0, wa_next = None,
      wa_http = None, wa_ms = None, wa_error = None, wa_code = None, wa_size = 0, wa_truncated = False,
      wa_algorithm = None, wa_created = now, wa_sent = None\<rparr>"

definition wa_MarkAsSent :: "time \<Rightarrow> int \<Rightarrow> int \<Rightarrow> wh_attempt \<Rightarrow> wh_attempt" where
  "wa_MarkAsSent now code ms a =
     a\<lparr>wa_status := WaSent, wa_http := Some code, wa_ms := Some ms, wa_sent := Some now\<rparr>"

definition wa_MarkAsFailed :: "string \<Rightarrow> string \<Rightarrow> wh_attempt \<Rightarrow> wh_attempt" where
  "wa_MarkAsFailed code message a =
     a\<lparr>wa_status := WaFailed, wa_code := Some code, wa_error := Some message\<rparr>"

definition wa_ScheduleRetry :: "time \<Rightarrow> nat \<Rightarrow> wh_attempt \<Rightarrow> wh_attempt" where
  "wa_ScheduleRetry next n a = a\<lparr>wa_status := WaRetryScheduled, wa_next := Some next, wa_retries := n\<rparr>"

section \<open>Signatures\<close>

text \<open>The text that is signed: \<open>fmt.Sprintf("%d.%s", timestamp, payload)\<close>.\<close>

definition signed_text :: "int \<Rightarrow> string \<Rightarrow> string" where
  "signed_text ts payload = show_int ts @ ''.'' @ payload"

definition hmac_signature :: "(string \<Rightarrow> string \<Rightarrow> string) \<Rightarrow> string \<Rightarrow> string \<Rightarrow> int \<Rightarrow> string" where
  "hmac_signature hmac payload secret ts = ''sha256='' @ hmac secret (signed_text ts payload)"

definition GenerateSignature :: "(string \<Rightarrow> string \<Rightarrow> string) \<Rightarrow> string \<Rightarrow> int \<Rightarrow> webhook \<Rightarrow> string" where
  "GenerateSignature hmac payload ts w =
     (case wh_secret w of
        None \<Rightarrow> []
      | Some secret \<Rightarrow> if secret = [] then [] else hmac_signature hmac payload secret ts)"

definition VerifySignature :: "(string \<Rightarrow> string \<Rightarrow> string) \<Rightarrow> string \<Rightarrow> string \<Rightarrow> int \<Rightarrow> string \<Rightarrow> bool" where
  "VerifySignature hmac payload secret ts signature \<longleftrightarrow> hmac_signature hmac payload secret ts = signature"

text \<open>
  Clock and time stamp in seconds; a tolerance of whole seconds. The difference and its negation
  are of the type \<open>int64\<close> and wrap around.
\<close>

definition int64 :: "int \<Rightarrow> int" where
  "int64 z = sint (of_int z :: 64 word)"

definition ValidateTimestamp :: "time \<Rightarrow> int \<Rightarrow> int \<Rightarrow> bool" where
  "ValidateTimestamp now ts tolerance =
     (let diff = int64 (now div second - ts) in (if diff < 0 then int64 (- diff) else diff) \<le> tolerance)"

definition SignWebhookPayload :: "(string \<Rightarrow> string \<Rightarrow> string) \<Rightarrow> time \<Rightarrow> string \<Rightarrow> string \<Rightarrow> string \<times> int" where
  "SignWebhookPayload hmac now payload secret =
     (let ts = now div second in (hmac_signature hmac payload secret ts, ts))"

definition VerifyWebhookSignature ::
    "(string \<Rightarrow> string \<Rightarrow> string) \<Rightarrow> time \<Rightarrow> string \<Rightarrow> string \<Rightarrow> string \<Rightarrow> int \<Rightarrow> bool" where
  "VerifyWebhookSignature hmac now payload secret signature ts \<longleftrightarrow>
     ValidateTimestamp now ts 300 \<and> VerifySignature hmac payload secret ts signature"

text \<open>The two headers, signature and time stamp.\<close>

definition GetSignatureHeaders ::
    "(string \<Rightarrow> string \<Rightarrow> string) \<Rightarrow> time \<Rightarrow> string \<Rightarrow> string \<Rightarrow> (string \<times> string) list" where
  "GetSignatureHeaders hmac now payload secret =
     (let ts = now div second
      in [(''X-Webhook-Signature'', hmac_signature hmac payload secret ts), (''X-Webhook-Timestamp'', show_int ts)])"

section \<open>What a signature binds\<close>

lemma is_digit_not: "is_digit c \<Longrightarrow> c \<noteq> CHR ''.'' \<and> c \<noteq> CHR ''-''"
  by (auto simp: is_digit_def)

lemma show_nat_inj: "show_nat m = show_nat n \<longleftrightarrow> m = n"
  using show_nat_digits by (metis of_nat_eq_iff)

lemma show_int_no_dot: "CHR ''.'' \<notin> set (show_int z)"
  using show_nat_digits is_digit_not by (auto simp: show_int_def)

lemma show_nat_not_minus: "show_nat n \<noteq> CHR ''-'' # s"
  using show_nat_digits [of n] is_digit_not by (metis list.set_intros(1))

lemma show_int_inj: "show_int a = show_int b \<longleftrightarrow> a = b"
  using show_nat_not_minus by (auto simp: show_int_def show_nat_inj split: if_splits) metis+

lemma signed_text_inj: "signed_text ts p = signed_text ts' p' \<longleftrightarrow> ts = ts' \<and> p = p'"
proof
  assume eq: "signed_text ts p = signed_text ts' p'"
  have "takeWhile (\<lambda>c. c \<noteq> CHR ''.'') (signed_text z q) = show_int z" for z q
    unfolding signed_text_def by (subst takeWhile_append2) (use show_int_no_dot [of z] in auto)
  with eq have "show_int ts = show_int ts'" by metis
  with eq show "ts = ts' \<and> p = p'" by (simp add: signed_text_def show_int_inj)
qed simp

lemma int64_shift: "int64 z = (z + 2 ^ 63) mod 2 ^ 64 - 2 ^ 63"
  by (simp add: int64_def sint_sbintrunc' signed_take_bit_eq_take_bit_shift take_bit_eq_mod)

lemma int64_id: "- (2 ^ 63) \<le> z \<Longrightarrow> z < 2 ^ 63 \<Longrightarrow> int64 z = z"
  by (simp add: int64_shift)

lemma int64_over: "2 ^ 63 \<le> z \<Longrightarrow> z < 2 ^ 64 \<Longrightarrow> int64 z = z - 2 ^ 64"
proof -
  assume z: "2 ^ 63 \<le> z" "z < 2 ^ 64"
  then have "(z + 2 ^ 63) mod 2 ^ 64 = (z - 2 ^ 63 + 2 ^ 64) mod 2 ^ 64" by (simp add: add.commute)
  also have "\<dots> = z - 2 ^ 63" using z by (simp only: mod_add_self2) simp
  finally show ?thesis by (simp add: int64_shift)
qed

text \<open>
  For a clock after 1970 the window is the tolerance, and one time stamp more, \<open>2 ^ 63\<close> seconds
  before the clock: its difference is the least \<open>int64\<close>, which is its own negation.
\<close>

lemma ValidateTimestamp_near: "\<bar>now div second - ts\<bar> \<le> 300 \<Longrightarrow> ValidateTimestamp now ts 300"
  by (auto simp: ValidateTimestamp_def Let_def int64_id)

lemma ValidateTimestamp_iff:
  assumes "0 \<le> now div second" and "now div second < 2 ^ 62" and "- (2 ^ 63) \<le> ts" and "ts < 2 ^ 63"
  shows "ValidateTimestamp now ts 300 \<longleftrightarrow> \<bar>now div second - ts\<bar> \<le> 300 \<or> ts = now div second - 2 ^ 63"
proof (cases "now div second - ts < 2 ^ 63")
  case True
  then have d: "int64 (now div second - ts) = now div second - ts" using assms by (intro int64_id) auto
  have "int64 (- (now div second - ts)) = - (now div second - ts)" if "now div second - ts < 0"
    using that assms by (intro int64_id) auto
  with d True show ?thesis by (auto simp: ValidateTimestamp_def Let_def)
next
  case False
  then have d: "int64 (now div second - ts) = now div second - ts - 2 ^ 64" using assms by (intro int64_over) auto
  show ?thesis
  proof (cases "now div second - ts = 2 ^ 63")
    case True
    then show ?thesis by (simp add: ValidateTimestamp_def Let_def int64_shift)
  next
    case far: False
    then have "int64 (- (now div second - ts - 2 ^ 64)) = - (now div second - ts - 2 ^ 64)"
      using False assms by (intro int64_id) auto
    with d False far assms show ?thesis by (auto simp: ValidateTimestamp_def Let_def)
  qed
qed

text \<open>
  Property C37. A receiver that shares the secret accepts a payload with a time stamp and the
  signature of another exactly when the time stamp is in his window and the two texts that are
  signed have the same HMAC; these texts determine time stamp and payload, which cannot be shifted
  against each other, so that whoever gets anything but the signed payload and time stamp accepted
  has a collision of the HMAC, while these themselves are accepted for five minutes. The window is
  five minutes around the receiver's clock and, as the difference is an \<open>int64\<close> that wraps around,
  the one time stamp that lies \<open>2 ^ 63\<close> seconds before it. (Clocks are after 1970, time stamps any
  \<open>int64\<close>.)
\<close>
theorem signature_roundtrip:
  assumes "SignWebhookPayload hmac now payload secret = (signature, ts)"
    and "0 \<le> now" and "now div second < 2 ^ 62" and "0 \<le> now'" and "now' div second < 2 ^ 62" and "- (2 ^ 63) \<le> ts'" and "ts' < 2 ^ 63"
  shows "(VerifyWebhookSignature hmac now' payload' secret signature ts' \<longleftrightarrow>
      (\<bar>now' div second - ts'\<bar> \<le> 300 \<or> ts' = now' div second - 2 ^ 63) \<and>
      hmac secret (signed_text ts' payload') = hmac secret (signed_text ts payload)) \<and>
    (signed_text ts' payload' = signed_text ts payload \<longleftrightarrow> ts' = ts \<and> payload' = payload) \<and>
    (VerifyWebhookSignature hmac now' payload secret signature ts \<longleftrightarrow> \<bar>now' div second - ts\<bar> \<le> 300)"
proof -
  have sig: "signature = hmac_signature hmac payload secret ts" and ts: "ts = now div second"
    using assms(1) by (auto simp: SignWebhookPayload_def Let_def)
  have clock: "0 \<le> now div second" "0 \<le> now' div second"
    using assms(2,4) by (simp_all add: pos_imp_zdiv_nonneg_iff)
  have own: "ValidateTimestamp now' ts 300 \<longleftrightarrow> \<bar>now' div second - ts\<bar> \<le> 300"
    using ValidateTimestamp_iff [of now' ts] clock assms(3,5) ts by auto
  show ?thesis
    using ValidateTimestamp_iff [OF clock(2) assms(5-7)] own
    by (auto simp: VerifyWebhookSignature_def VerifySignature_def sig hmac_signature_def signed_text_inj)
qed

text \<open>An HMAC that has collisions: the length of the text.\<close>

theorem signature_roundtrip_witness:
  "VerifyWebhookSignature (\<lambda>k s. show_nat (length s)) (400 * second) ''{}'' ''key'' ''sha256=6'' 100 \<and>
   \<not> VerifyWebhookSignature (\<lambda>k s. show_nat (length s)) (401 * second) ''{}'' ''key'' ''sha256=6'' 100 \<and>
   VerifyWebhookSignature (\<lambda>k s. show_nat (length s)) (401 * second) ''[]'' ''key'' ''sha256=6'' 101 \<and>
   \<not> VerifyWebhookSignature (\<lambda>k s. show_nat (length s)) (401 * second) ''[1]'' ''key'' ''sha256=6'' 101"
proof -
  have n: "show_int 100 = ''100''" "show_int 101 = ''101''" "show_nat (Suc (Suc (Suc (Suc (Suc (Suc 0)))))) = ''6''"
    "show_nat (Suc (Suc (Suc (Suc (Suc (Suc (Suc 0))))))) = ''7''" by code_simp+
  then have sign: "SignWebhookPayload (\<lambda>k s. show_nat (length s)) (100 * second) ''{}'' ''key'' = (''sha256=6'', 100)"
    by (simp add: SignWebhookPayload_def hmac_signature_def signed_text_def)
  show ?thesis
    using signature_roundtrip [OF sign, of "400 * second" 100 "''{}''"] signature_roundtrip [OF sign, of "401 * second" 101 "''[]''"]
      signature_roundtrip [OF sign, of "401 * second" 101 "''[1]''"] signature_roundtrip [OF sign, of "401 * second" 100 "''{}''"] n
    by (simp add: signed_text_def)
qed

end
