(* ===== verification/WebhookClient.thy ===== *)
theory WebhookClient
  imports WebhookModel
begin

text \<open>
  Sending a webhook, \<open>integration-service/internal/infrastructure/httpclient/webhook_client.go\<close>: the
  request that is made of a payload, and what its outcome means. The payload is the text of its
  JSON; what the network does is the argument \<open>exchange\<close>.
\<close>

section \<open>Requests\<close>

text \<open>The characters of a token: header names and methods.\<close>

definition token_char :: "char \<Rightarrow> bool" where
  "token_char c \<longleftrightarrow> (let n = (of_char c :: nat)
     in 48 \<le> n \<and> n \<le> 57 \<or> 65 \<le> n \<and> n \<le> 90 \<or> 97 \<le> n \<and> n \<le> 122 \<or> c \<in> set ''!#$%&*+-.^_`|~'' \<or> n = 39)"

text \<open>\<open>textproto.CanonicalMIMEHeaderKey\<close>: capital letters at the beginning and after hyphens.\<close>

fun canonical_from :: "bool \<Rightarrow> string \<Rightarrow> string" where
  "canonical_from up [] = []"
| "canonical_from up (c # cs) =
     hd (if up then ascii_upper [c] else ascii_lower [c]) # canonical_from (c = CHR ''-'') cs"

definition canonical_header :: "string \<Rightarrow> string" where
  "canonical_header k = (if list_all token_char k then canonical_from True k else k)"

definition header_set :: "string \<Rightarrow> string \<Rightarrow> (string \<times> string) list \<Rightarrow> (string \<times> string) list" where
  "header_set k v hs = (canonical_header k, v) # filter (\<lambda>h. fst h \<noteq> canonical_header k) hs"

record hook_request =
  hq_url :: string
  hq_method :: string
  hq_headers :: "(string \<times> string) list"
  hq_payload :: string
  hq_secret :: "string option"
  hq_max :: int
  hq_truncate :: bool

record wire_request =
  wr_method :: string
  wr_url :: string
  wr_headers :: "(string \<times> string) list"
  wr_body :: string

text \<open>An error of the exchange, with its text and, for a \<open>url.Error\<close>, whether it is a timeout.\<close>

datatype exchange =
    ExchangeFailed string "bool option"
  | BodyFailed int
  | Answered int string

definition client_truncatePayload :: "string \<Rightarrow> int \<Rightarrow> string" where
  "client_truncatePayload payload n = (if int (length payload) \<le> n then payload else take (nat n) payload)"

definition handleRequestError :: "string \<Rightarrow> bool option \<Rightarrow> webhook_err" where
  "handleRequestError message timeout =
     (if message = ''context deadline exceeded'' then WebhookTimeout
      else if timeout = Some True then WebhookTimeout
      else WebhookRequestFailed)"

definition handleHTTPError :: "int \<Rightarrow> webhook_err" where
  "handleHTTPError code =
     (if 400 \<le> code \<and> code < 500
      then (if code = 401 then WebhookAuthFailed
            else if code = 404 then WebhookInvalidURL
            else if code = 408 then WebhookTimeout
            else DeliveryPermanentError)
      else if 500 \<le> code then Webhook5xxError
      else WebhookRequestFailed)"

text \<open>The headers of the request; the custom ones come in the order of the iteration over their map.\<close>

definition request_headers ::
    "(string \<Rightarrow> string \<Rightarrow> string) \<Rightarrow> time \<Rightarrow> hook_request \<Rightarrow> string \<Rightarrow> (string \<times> string) list" where
  "request_headers hmac now q body =
     (let hs = fold (\<lambda>(k, v). header_set k v) (hq_headers q) (header_set ''Content-Type'' ''application/json'' [])
      in case hq_secret q of
           None \<Rightarrow> hs
         | Some secret \<Rightarrow>
             if secret = [] then hs
             else (let ts = now div second
                   in header_set ''X-Webhook-Timestamp'' (show_int ts)
                        (header_set ''X-Webhook-Signature'' (hmac_signature hmac body secret ts) hs)))"

definition wire_request_of ::
    "(string \<Rightarrow> string option) \<Rightarrow> (string \<Rightarrow> string \<Rightarrow> string) \<Rightarrow> time \<Rightarrow> hook_request \<Rightarrow> webhook_err + wire_request" where
  "wire_request_of parse_url hmac now q =
     (case validateWebhookURL parse_url (hq_url q) of
        Some e \<Rightarrow> Inl e
      | None \<Rightarrow>
          (let large = 0 < hq_max q \<and> hq_max q < int (length (hq_payload q));
               body = (if large then client_truncatePayload (hq_payload q) (hq_max q) else hq_payload q)
           in if large \<and> \<not> hq_truncate q then Inl WebhookPayloadTooLarge
              else if \<not> list_all token_char (hq_method q) then Inl WebhookRequestFailed
              else Inr \<lparr>wr_method = (if hq_method q = [] then ''GET'' else hq_method q), wr_url = hq_url q,
                     wr_headers = request_headers hmac now q body, wr_body = body\<rparr>))"

definition SendWebhook ::
    "(string \<Rightarrow> string option) \<Rightarrow> (string \<Rightarrow> string \<Rightarrow> string) \<Rightarrow> (wire_request \<Rightarrow> exchange) \<Rightarrow> time \<Rightarrow>
     hook_request \<Rightarrow> webhook_err + int" where
  "SendWebhook parse_url hmac exchange now q =
     (case wire_request_of parse_url hmac now q of
        Inl e \<Rightarrow> Inl e
      | Inr w \<Rightarrow>
          (case exchange w of
             ExchangeFailed message timeout \<Rightarrow> Inl (handleRequestError message timeout)
           | BodyFailed code \<Rightarrow> Inl WebhookRequestFailed
           | Answered code body \<Rightarrow>
               if code < 200 \<or> 300 \<le> code then Inl (handleHTTPError code) else Inr code))"

text \<open>The test request of the client, which the service does not use.\<close>

definition client_TestWebhook ::
    "(string \<Rightarrow> string option) \<Rightarrow> exchange \<Rightarrow> string \<Rightarrow> webhook_err option" where
  "client_TestWebhook parse_url reply url =
     (case validateWebhookURL parse_url url of
        Some e \<Rightarrow> Some e
      | None \<Rightarrow>
          (case reply of
             ExchangeFailed message timeout \<Rightarrow> Some (handleRequestError message timeout)
           | BodyFailed code \<Rightarrow>
               if code = 408 \<or> code = 504 then Some WebhookTimeout
               else if 400 \<le> code then Some (handleHTTPError code) else None
           | Answered code body \<Rightarrow>
               if code = 408 \<or> code = 504 then Some WebhookTimeout
               else if 400 \<le> code then Some (handleHTTPError code) else None))"

section \<open>What the receiver sees\<close>

lemma header_set_lookup:
  "map_of (header_set k v hs) h = (if h = canonical_header k then Some v else map_of hs h)"
  by (induction hs) (auto simp: header_set_def)

lemma canonical_signature_headers:
  "canonical_header ''X-Webhook-Signature'' = ''X-Webhook-Signature''"
  "canonical_header ''X-Webhook-Timestamp'' = ''X-Webhook-Timestamp''"
  by code_simp+

text \<open>
  Whatever custom headers a webhook has, a receiver with its secret who reads the signature
  and the time stamp from the headers of a request accepts its body within five minutes, cut
  off or not; and no request is longer than the limit of the webhook.
\<close>
theorem sent_request_verifies:
  assumes "wire_request_of parse_url hmac now q = Inr w" and "hq_secret q = Some secret" and "secret \<noteq> []"
    and "\<bar>now' div second - now div second\<bar> \<le> 300"
  shows "\<exists>signature. map_of (wr_headers w) ''X-Webhook-Signature'' = Some signature \<and>
      map_of (wr_headers w) ''X-Webhook-Timestamp'' = Some (show_int (now div second)) \<and>
      VerifyWebhookSignature hmac now' (wr_body w) secret signature (now div second) \<and>
      (0 < hq_max q \<longrightarrow> int (length (wr_body w)) \<le> hq_max q)"
proof -
  have "ValidateTimestamp now' (now div second) 300"
    by (rule ValidateTimestamp_near [OF assms(4)])
  moreover have "wr_headers w = request_headers hmac now q (wr_body w)"
      "0 < hq_max q \<longrightarrow> int (length (wr_body w)) \<le> hq_max q"
    using assms(1)
    by (auto simp: wire_request_of_def Let_def client_truncatePayload_def split: option.splits if_splits)
  ultimately show ?thesis
    by (simp add: request_headers_def assms(2,3) Let_def header_set_lookup canonical_signature_headers
        VerifyWebhookSignature_def VerifySignature_def)
qed

definition demo_hook_request :: hook_request where
  "demo_hook_request = \<lparr>hq_url = ''https://a'', hq_method = ''POST'',
     hq_headers = [(''x-webhook-signature'', ''none'')], hq_payload = ''{}'', hq_secret = Some ''key'',
     hq_max = 1, hq_truncate = True\<rparr>"

theorem sent_request_verifies_witness:
  "\<exists>w. wire_request_of (\<lambda>_. Some ''https'') (\<lambda>k s. k @ s) (100 * second) demo_hook_request = Inr w \<and>
     wr_body w = ''{'' \<and>
     (\<exists>signature. map_of (wr_headers w) ''X-Webhook-Signature'' = Some signature \<and>
       VerifyWebhookSignature (\<lambda>k s. k @ s) (400 * second) ''{'' ''key'' signature 100)"
proof -
  have "validateWebhookURL (\<lambda>_. Some ''https'') ''https://a'' = None" "list_all token_char ''POST''" by code_simp+
  then obtain w where w: "wire_request_of (\<lambda>_. Some ''https'') (\<lambda>k s. k @ s) (100 * second) demo_hook_request = Inr w"
      and "wr_body w = ''{''"
    by (auto simp: wire_request_of_def demo_hook_request_def client_truncatePayload_def Let_def)
  then show ?thesis using sent_request_verifies [OF w, of "''key''" "400 * second"]
    by (auto simp: demo_hook_request_def)
qed

text \<open>Which errors are worth another attempt.\<close>

definition shouldRetry :: "webhook_err \<Rightarrow> bool" where
  "shouldRetry e \<longleftrightarrow> e = WebhookTimeout \<or> e = Webhook5xxError"

text \<open>
  A request that is made succeeds exactly when it is answered by a status from 200 to 299,
  and is worth a retry exactly when it timed out, was answered by 408, or by 500 and more.
\<close>
theorem delivery_outcome:
  assumes "wire_request_of parse_url hmac now q = Inr w"
  shows "((\<exists>code. SendWebhook parse_url hmac exchange now q = Inr code) \<longleftrightarrow>
      (\<exists>code body. exchange w = Answered code body \<and> 200 \<le> code \<and> code < 300)) \<and>
    ((\<exists>e. SendWebhook parse_url hmac exchange now q = Inl e \<and> shouldRetry e) \<longleftrightarrow>
      (case exchange w of
         ExchangeFailed message timeout \<Rightarrow> message = ''context deadline exceeded'' \<or> timeout = Some True
       | BodyFailed code \<Rightarrow> False
       | Answered code body \<Rightarrow> code = 408 \<or> 500 \<le> code))"
  using assms by (auto simp: SendWebhook_def shouldRetry_def handleHTTPError_def handleRequestError_def
      split: exchange.split)

theorem delivery_outcome_witness:
  "\<exists>w. wire_request_of (\<lambda>_. Some ''https'') (\<lambda>k s. k @ s) 0 demo_hook_request = Inr w \<and>
     (\<exists>e. SendWebhook (\<lambda>_. Some ''https'') (\<lambda>k s. k @ s) (\<lambda>_. Answered 503 []) 0 demo_hook_request = Inl e \<and>
       shouldRetry e)"
proof -
  have "validateWebhookURL (\<lambda>_. Some ''https'') ''https://a'' = None" "list_all token_char ''POST''" by code_simp+
  then obtain w where w: "wire_request_of (\<lambda>_. Some ''https'') (\<lambda>k s. k @ s) 0 demo_hook_request = Inr w"
    by (auto simp: wire_request_of_def demo_hook_request_def Let_def)
  then show ?thesis using delivery_outcome [OF w, of "\<lambda>_. Answered 503 []"] by auto
qed

end
