(* ===== verification/WebhookService.thy ===== *)
theory WebhookService
  imports WebhookModel BillingLimits PageToken
begin

text \<open>
  Managing webhooks: the tables of \<open>integration-service/internal/repository/postgres/webhook_*.go\<close>
  and \<open>service/webhook/webhook_service.go\<close>. A call fails when \<open>down\<close> says so or when it violates
  a constraint of its table. \<open>encrypt\<close> encrypts secrets; \<open>post\<close> sends a test request.
\<close>

section \<open>Tables\<close>

datatype wh_call =
    WhCreate | WhGet nat | WhGetName | WhList | WhListActive | WhUpdate nat | WhStats | WhDelete | WhCount
  | WhExists | WaCreate nat | WaGet | WaList | WaPendingRetry | WaUpdate nat | WaCleanup

type_synonym wh_faults = "wh_call \<Rightarrow> bool"

record wh_db =
  wd_hooks :: "webhook list"
  wd_attempts :: "wh_attempt list"

text \<open>The lengths of the columns and the \<open>CHECK\<close> constraints of \<open>webhook_integrations\<close>.\<close>

definition hook_columns_ok :: "webhook \<Rightarrow> bool" where
  "hook_columns_ok w \<longleftrightarrow> char_count (wh_name w) \<le> 255 \<and> char_count (wh_url w) \<le> 2048 \<and>
     char_count (wh_method w) \<le> 10 \<and> (case wh_secret w of None \<Rightarrow> True | Some s \<Rightarrow> char_count s \<le> 255) \<and>
     wh_priority w \<in> {''high'', ''normal'', ''low''} \<and> wh_strategy w \<in> {''truncate'', ''reject''}"

definition hook_Create :: "wh_faults \<Rightarrow> webhook \<Rightarrow> wh_db \<Rightarrow> webhook_err + wh_db" where
  "hook_Create down w db =
     (if down WhCreate \<or> \<not> hook_columns_ok w \<or> list_ex (\<lambda>r. wh_id r = wh_id w \<or>
          wh_user r = wh_user w \<and> wh_name r = wh_name w) (wd_hooks db)
      then Inl WebhookRepoError
      else Inr (db\<lparr>wd_hooks := wd_hooks db @ [w]\<rparr>))"

definition hook_GetByID :: "wh_faults \<Rightarrow> nat \<Rightarrow> wh_db \<Rightarrow> webhook_err + webhook" where
  "hook_GetByID down i db =
     (if down (WhGet i) then Inl WebhookRepoError
      else case List.find (\<lambda>w. wh_id w = i) (wd_hooks db) of None \<Rightarrow> Inl WebhookNotFound | Some w \<Rightarrow> Inr w)"

definition hook_GetByUserIDAndName ::
    "wh_faults \<Rightarrow> nat \<Rightarrow> string \<Rightarrow> wh_db \<Rightarrow> webhook_err + webhook" where
  "hook_GetByUserIDAndName down u name db =
     (if down WhGetName then Inl WebhookRepoError
      else case List.find (\<lambda>w. wh_user w = u \<and> wh_name w = name) (wd_hooks db) of
        None \<Rightarrow> Inl WebhookNotFound | Some w \<Rightarrow> Inr w)"

definition hook_ListByUserID ::
    "wh_faults \<Rightarrow> nat \<Rightarrow> int \<Rightarrow> int \<Rightarrow> wh_db \<Rightarrow> webhook_err + webhook list" where
  "hook_ListByUserID down u limit offset db =
     (if down WhList \<or> limit < 0 \<or> offset < 0 then Inl WebhookRepoError
      else Inr (page_of (nat limit) (nat offset)
        (newest_first wh_created (filter (\<lambda>w. wh_user w = u) (wd_hooks db)))))"

text \<open>
  \<open>ORDER BY priority DESC, created_at ASC\<close>: the priorities are ordered as words, so that normal
  ones come first and high ones last.
\<close>

definition priority_word_rank :: "string \<Rightarrow> nat" where
  "priority_word_rank p = (if p = ''normal'' then 0 else if p = ''low'' then 1 else 2)"

definition hook_ListActiveByUserID :: "wh_faults \<Rightarrow> nat \<Rightarrow> wh_db \<Rightarrow> webhook_err + webhook list" where
  "hook_ListActiveByUserID down u db =
     (if down WhListActive then Inl WebhookRepoError
      else Inr (sort_key (\<lambda>w. priority_word_rank (wh_priority w)) (sort_key wh_created
        (filter (\<lambda>w. wh_user w = u \<and> wh_enabled w \<and> wh_status w = WhActive) (wd_hooks db)))))"

definition set_hook_columns :: "webhook \<Rightarrow> webhook \<Rightarrow> webhook" where
  "set_hook_columns w r = w\<lparr>wh_id := wh_id r, wh_user := wh_user r, wh_created := wh_created r\<rparr>"

definition hook_Update :: "wh_faults \<Rightarrow> webhook \<Rightarrow> wh_db \<Rightarrow> webhook_err + wh_db" where
  "hook_Update down w db =
     (let here = (\<lambda>r. wh_id r = wh_id w)
      in if down (WhUpdate (wh_id w)) then Inl WebhookRepoError
         else if \<not> list_ex here (wd_hooks db) then Inl WebhookNotFound
         else if \<not> hook_columns_ok w \<or> list_ex (\<lambda>r. here r \<and> list_ex (\<lambda>r'. \<not> here r' \<and>
             wh_user r' = wh_user r \<and> wh_name r' = wh_name w) (wd_hooks db)) (wd_hooks db)
         then Inl WebhookRepoError
         else Inr (db\<lparr>wd_hooks := upd_where here (set_hook_columns w) (wd_hooks db)\<rparr>))"

definition hook_UpdateStats ::
    "wh_faults \<Rightarrow> time \<Rightarrow> nat \<Rightarrow> int \<Rightarrow> int \<Rightarrow> int \<Rightarrow> int \<Rightarrow> wh_db \<Rightarrow> webhook_err + wh_db" where
  "hook_UpdateStats down now i sent good bad avg db =
     (if down WhStats then Inl WebhookRepoError
      else if \<not> list_ex (\<lambda>r. wh_id r = i) (wd_hooks db) then Inl WebhookNotFound
      else Inr (db\<lparr>wd_hooks := upd_where (\<lambda>r. wh_id r = i) (wh_UpdateStats now sent good bad avg)
        (wd_hooks db)\<rparr>))"

text \<open>The attempts of a deleted webhook go with it.\<close>

definition hook_Delete :: "wh_faults \<Rightarrow> nat \<Rightarrow> wh_db \<Rightarrow> webhook_err + wh_db" where
  "hook_Delete down i db =
     (if down WhDelete then Inl WebhookRepoError
      else if \<not> list_ex (\<lambda>r. wh_id r = i) (wd_hooks db) then Inl WebhookNotFound
      else Inr (db\<lparr>wd_hooks := del_where (\<lambda>r. wh_id r = i) (wd_hooks db),
        wd_attempts := del_where (\<lambda>a. wa_webhook a = i) (wd_attempts db)\<rparr>))"

definition hook_CountByUserID :: "wh_faults \<Rightarrow> nat \<Rightarrow> wh_db \<Rightarrow> webhook_err + nat" where
  "hook_CountByUserID down u db =
     (if down WhCount then Inl WebhookRepoError
      else Inr (count_where (\<lambda>w. wh_user w = u) (wd_hooks db)))"

definition hook_ExistsByName :: "wh_faults \<Rightarrow> nat \<Rightarrow> string \<Rightarrow> wh_db \<Rightarrow> webhook_err + bool" where
  "hook_ExistsByName down u name db =
     (if down WhExists then Inl WebhookRepoError
      else Inr (list_ex (\<lambda>w. wh_user w = u \<and> wh_name w = name) (wd_hooks db)))"

section \<open>Service\<close>

record create_hook_request =
  chr_user :: nat
  chr_name :: string
  chr_url :: string
  chr_method :: string
  chr_headers :: "(string \<times> string) list"
  chr_secret :: "string option"
  chr_priority :: string
  chr_severities :: "string list"
  chr_max_size :: int
  chr_strategy :: string

definition chr_ToModel ::
    "(string \<Rightarrow> string option) \<Rightarrow> nat \<Rightarrow> time \<Rightarrow> create_hook_request \<Rightarrow> webhook_err + webhook" where
  "chr_ToModel parse_url i now r =
     (case NewWebhookIntegration parse_url i now (chr_user r) (chr_name r) (chr_url r) (chr_method r) of
        Inl e \<Rightarrow> Inl e
      | Inr w0 \<Rightarrow>
          (let w1 = w0\<lparr>wh_headers := chr_headers r\<rparr>;
               w2 = (if chr_priority r \<noteq> [] then w1\<lparr>wh_priority := chr_priority r\<rparr> else w1);
               w3 = (if chr_severities r \<noteq> [] then w2\<lparr>wh_severities := chr_severities r\<rparr> else w2);
               w4 = (if 0 < chr_max_size r then w3\<lparr>wh_max_size := chr_max_size r\<rparr> else w3)
           in Inr (if chr_strategy r \<noteq> [] then w4\<lparr>wh_strategy := chr_strategy r\<rparr> else w4)))"

text \<open>An absent or empty secret is not encrypted, and not stored.\<close>

definition encrypt_secret :: "(string \<Rightarrow> string option) \<Rightarrow> string option \<Rightarrow> webhook \<Rightarrow> webhook_err + webhook" where
  "encrypt_secret encrypt secret w =
     (case secret of
        None \<Rightarrow> Inr w
      | Some s \<Rightarrow>
          if s = [] then Inr w
          else case encrypt s of
              None \<Rightarrow> Inl EncryptSecretFailed
            | Some c \<Rightarrow> Inr (w\<lparr>wh_secret := Some c\<rparr>))"

definition CreateWebhook ::
    "wh_faults \<Rightarrow> subscriptions \<Rightarrow> (string \<Rightarrow> string option) \<Rightarrow> (string \<Rightarrow> string option) \<Rightarrow> nat \<Rightarrow> time \<Rightarrow>
     create_hook_request \<Rightarrow> wh_db \<Rightarrow> (webhook_err + webhook) \<times> wh_db" where
  "CreateWebhook down subs parse_url encrypt i now r db =
     (case chr_ToModel parse_url i now r of
        Inl e \<Rightarrow> (Inl e, db)
      | Inr w0 \<Rightarrow>
     (case encrypt_secret encrypt (chr_secret r) w0 of
        Inl e \<Rightarrow> (Inl e, db)
      | Inr w \<Rightarrow>
     (case hook_ExistsByName down (wh_user w) (wh_name w) db of
        Inl e \<Rightarrow> (Inl e, db)
      | Inr True \<Rightarrow> (Inl WebhookDuplicateName, db)
      | Inr False \<Rightarrow>
     (case hook_CountByUserID down (wh_user w) db of
        Inl e \<Rightarrow> (Inl e, db)
      | Inr count \<Rightarrow>
     (case CheckWebhookLimit subs (wh_user w) count of
        Inl e \<Rightarrow> (Inl BillingCheckFailed, db)
      | Inr False \<Rightarrow> (Inl WebhookLimitReached, db)
      | Inr True \<Rightarrow>
     (case hook_Create down w db of
        Inl e \<Rightarrow> (Inl e, db)
      | Inr db' \<Rightarrow> (hook_GetByID down i db', db')))))))"

text \<open>The webhook when it is the user's; somebody else's webhook is not found.\<close>

definition own_hook :: "wh_faults \<Rightarrow> nat \<Rightarrow> nat \<Rightarrow> wh_db \<Rightarrow> webhook_err + webhook" where
  "own_hook down i u db =
     (case hook_GetByID down i db of
        Inl e \<Rightarrow> Inl e
      | Inr w \<Rightarrow> if wh_user w \<noteq> u then Inl WebhookNotFound else Inr w)"

definition GetWebhook :: "wh_faults \<Rightarrow> nat \<Rightarrow> nat \<Rightarrow> wh_db \<Rightarrow> webhook_err + webhook" where
  "GetWebhook down i u db = own_hook down i u db"

definition ListWebhooks ::
    "wh_faults \<Rightarrow> nat \<Rightarrow> int \<Rightarrow> string \<Rightarrow> wh_db \<Rightarrow> webhook_err + webhook list" where
  "ListWebhooks down u page_size token db =
     (let limit = (if page_size \<le> 0 \<or> 100 < page_size then 50 else page_size)
      in hook_ListByUserID down u limit (page_offset token) db)"

record update_hook_request =
  uhr_id :: nat
  uhr_user :: nat
  uhr_name :: "string option"
  uhr_url :: "string option"
  uhr_method :: "string option"
  uhr_headers :: "(string \<times> string) list option"
  uhr_enabled :: "bool option"
  uhr_priority :: "string option"
  uhr_severities :: "string list option"
  uhr_max_size :: "int option"
  uhr_strategy :: "string option"

definition uhr_ApplyToModel :: "update_hook_request \<Rightarrow> webhook \<Rightarrow> webhook" where
  "uhr_ApplyToModel r w = w\<lparr>
     wh_name := (case uhr_name r of None \<Rightarrow> wh_name w | Some x \<Rightarrow> x),
     wh_url := (case uhr_url r of None \<Rightarrow> wh_url w | Some x \<Rightarrow> x),
     wh_method := (case uhr_method r of None \<Rightarrow> wh_method w | Some x \<Rightarrow> x),
     wh_headers := (case uhr_headers r of None \<Rightarrow> wh_headers w | Some x \<Rightarrow> x),
     wh_enabled := (case uhr_enabled r of None \<Rightarrow> wh_enabled w | Some x \<Rightarrow> x),
     wh_priority := (case uhr_priority r of None \<Rightarrow> wh_priority w | Some x \<Rightarrow> x),
     wh_severities := (case uhr_severities r of None \<Rightarrow> wh_severities w | Some x \<Rightarrow> x),
     wh_max_size := (case uhr_max_size r of None \<Rightarrow> wh_max_size w | Some x \<Rightarrow> x),
     wh_strategy := (case uhr_strategy r of None \<Rightarrow> wh_strategy w | Some x \<Rightarrow> x)\<rparr>"

text \<open>The service's own check of a URL, the match of \<open>^https?://\<close> written out.\<close>

definition service_validateWebhookURL :: "string \<Rightarrow> webhook_err option" where
  "service_validateWebhookURL url =
     (if url = [] then Some EmptyWebhookURL
      else if \<not> prefix ''http://'' url \<and> \<not> prefix ''https://'' url then Some WebhookURLScheme
      else if 2048 < length url then Some WebhookURLTooLong
      else None)"

definition check_field :: "('a \<Rightarrow> webhook_err option) \<Rightarrow> 'a option \<Rightarrow> webhook_err option" where
  "check_field check x = (case x of None \<Rightarrow> None | Some v \<Rightarrow> check v)"

definition UpdateWebhook ::
    "wh_faults \<Rightarrow> time \<Rightarrow> update_hook_request \<Rightarrow> wh_db \<Rightarrow> (webhook_err + webhook) \<times> wh_db" where
  "UpdateWebhook down now r db =
     (case own_hook down (uhr_id r) (uhr_user r) db of
        Inl e \<Rightarrow> (Inl e, db)
      | Inr w \<Rightarrow>
     (case check_field validateWebhookName (uhr_name r) of
        Some e \<Rightarrow> (Inl e, db)
      | None \<Rightarrow>
     (case check_field service_validateWebhookURL (uhr_url r) of
        Some e \<Rightarrow> (Inl e, db)
      | None \<Rightarrow>
     (case hook_Update down ((uhr_ApplyToModel r w)\<lparr>wh_updated := now\<rparr>) db of
        Inl e \<Rightarrow> (Inl e, db)
      | Inr db' \<Rightarrow> (hook_GetByID down (wh_id w) db', db')))))"

definition DeleteWebhook :: "wh_faults \<Rightarrow> nat \<Rightarrow> nat \<Rightarrow> wh_db \<Rightarrow> webhook_err option \<times> wh_db" where
  "DeleteWebhook down i u db =
     (case own_hook down i u db of
        Inl e \<Rightarrow> (Some e, db)
      | Inr w \<Rightarrow> (case hook_Delete down i db of Inl e \<Rightarrow> (Some e, db) | Inr db' \<Rightarrow> (None, db')))"

definition EnableWebhook :: "wh_faults \<Rightarrow> time \<Rightarrow> nat \<Rightarrow> nat \<Rightarrow> wh_db \<Rightarrow> webhook_err option \<times> wh_db" where
  "EnableWebhook down now i u db =
     (case own_hook down i u db of
        Inl e \<Rightarrow> (Some e, db)
      | Inr w \<Rightarrow> (case hook_Update down (wh_MarkAsActive now w) db of Inl e \<Rightarrow> (Some e, db) | Inr db' \<Rightarrow> (None, db')))"

definition DisableWebhook :: "wh_faults \<Rightarrow> time \<Rightarrow> nat \<Rightarrow> nat \<Rightarrow> wh_db \<Rightarrow> webhook_err option \<times> wh_db" where
  "DisableWebhook down now i u db =
     (case own_hook down i u db of
        Inl e \<Rightarrow> (Some e, db)
      | Inr w \<Rightarrow> (case hook_Update down (wh_MarkAsDisabled now w) db of Inl e \<Rightarrow> (Some e, db) | Inr db' \<Rightarrow> (None, db')))"

text \<open>
  What the test request comes to: it cannot be made, it fails, its body cannot be read, or it is
  answered; with the milliseconds it took.
\<close>

datatype test_reply = BadRequest string | NoReply string int | NoBody string int int | Reply string int int

record test_response =
  tr_success :: bool
  tr_status :: int
  tr_ms :: int
  tr_message :: string

definition TestWebhook ::
    "wh_faults \<Rightarrow> (webhook \<Rightarrow> test_reply) \<Rightarrow> nat \<Rightarrow> nat \<Rightarrow> wh_db \<Rightarrow> webhook_err + test_response" where
  "TestWebhook down post i u db =
     (case own_hook down i u db of
        Inl e \<Rightarrow> Inl e
      | Inr w \<Rightarrow>
          if wh_status w \<noteq> WhActive
          then Inr \<lparr>tr_success = False, tr_status = 0, tr_ms = 0, tr_message = ''webhook is not active''\<rparr>
          else case post w of
              BadRequest e \<Rightarrow>
                Inr \<lparr>tr_success = False, tr_status = 0, tr_ms = 0, tr_message = ''failed to create request: '' @ e\<rparr>
            | NoReply e ms \<Rightarrow>
                Inr \<lparr>tr_success = False, tr_status = 0, tr_ms = ms, tr_message = ''request failed: '' @ e\<rparr>
            | NoBody e code ms \<Rightarrow>
                Inr \<lparr>tr_success = False, tr_status = code, tr_ms = ms, tr_message = ''failed to read response: '' @ e\<rparr>
            | Reply body code ms \<Rightarrow>
                (let ok = 200 \<le> code \<and> code < 300
                 in Inr \<lparr>tr_success = ok, tr_status = code, tr_ms = ms,
                      tr_message = (if ok then [] else ''HTTP '' @ show_int code @ '': '' @ body)\<rparr>))"

text \<open>The copy of a webhook: nothing of the new name and URL is checked, and no limit.\<close>

definition cloned_hook :: "nat \<Rightarrow> time \<Rightarrow> string \<Rightarrow> string \<Rightarrow> webhook \<Rightarrow> webhook" where
  "cloned_hook i now name url w = w\<lparr>wh_id := i, wh_name := name, wh_url := url, wh_total := 0, wh_ok := 0,
     wh_failed := 0, wh_avg := None, wh_sent := None, wh_success := None, wh_failure := None,
     wh_failures := 0, wh_streak := 0, wh_created := now, wh_updated := now\<rparr>"

definition CloneWebhook ::
    "wh_faults \<Rightarrow> nat \<Rightarrow> time \<Rightarrow> nat \<Rightarrow> nat \<Rightarrow> string \<Rightarrow> string \<Rightarrow> wh_db \<Rightarrow> (webhook_err + webhook) \<times> wh_db" where
  "CloneWebhook down new_id now i u name url db =
     (case own_hook down i u db of
        Inl e \<Rightarrow> (Inl e, db)
      | Inr w \<Rightarrow>
          (let c = cloned_hook new_id now name url w
           in case hook_Create down c db of Inl e \<Rightarrow> (Inl e, db) | Inr db' \<Rightarrow> (Inr c, db')))"

record hook_stats =
  hs_total :: int
  hs_ok :: int
  hs_failed :: int
  hs_rate :: real
  hs_avg :: int
  hs_sent :: "int option"
  hs_success :: "int option"
  hs_failure :: "int option"
  hs_failures :: int

definition hook_rate :: "int \<Rightarrow> int \<Rightarrow> real" where
  "hook_rate good sent =
     (if 0 < sent then fl64 (fl64 (fl64 (of_int good) / fl64 (of_int sent)) * 100) else 0)"

abbreviation unix_seconds :: "time option \<Rightarrow> int option" where
  "unix_seconds t \<equiv> map_option (\<lambda>t. t div second) t"

definition GetWebhookStats :: "wh_faults \<Rightarrow> nat \<Rightarrow> nat \<Rightarrow> wh_db \<Rightarrow> webhook_err + hook_stats" where
  "GetWebhookStats down i u db =
     (case own_hook down i u db of
        Inl e \<Rightarrow> Inl e
      | Inr w \<Rightarrow> Inr \<lparr>hs_total = wh_total w, hs_ok = wh_total w - wh_failures w, hs_failed = wh_failures w,
          hs_rate = hook_rate (wh_total w - wh_failures w) (wh_total w),
          hs_avg = (case wh_avg w of None \<Rightarrow> 0 | Some n \<Rightarrow> n), hs_sent = unix_seconds (wh_sent w),
          hs_success = unix_seconds (wh_success w), hs_failure = unix_seconds (wh_failure w),
          hs_failures = wh_failures w\<rparr>)"

text \<open>The statistics that nothing calls for.\<close>

definition WebhookStatsFromModel :: "webhook \<Rightarrow> hook_stats" where
  "WebhookStatsFromModel w =
     \<lparr>hs_total = wh_total w, hs_ok = wh_ok w, hs_failed = wh_failed w, hs_rate = hook_rate (wh_ok w) (wh_total w),
      hs_avg = (case wh_avg w of None \<Rightarrow> 0 | Some n \<Rightarrow> n), hs_sent = unix_seconds (wh_sent w),
      hs_success = unix_seconds (wh_success w), hs_failure = unix_seconds (wh_failure w),
      hs_failures = wh_failures w\<rparr>"

end
