(* ===== verification/WebhookDelivery.thy ===== *)
theory WebhookDelivery
  imports WebhookService WebhookClient "HOL-Library.Multiset"
begin

text \<open>
  Delivering webhooks, \<open>integration-service/internal/service/webhook/webhook_delivery_service.go\<close> and
  \<open>worker_pool.go\<close>, with the table of attempts. An alert makes one attempt and one job for each
  webhook; a worker takes a job from the queue and delivers it. A job holds the webhook as it
  was when the job was made, and a delivery writes it back.
\<close>

section \<open>The table of attempts\<close>

definition hook_attempt_Create :: "wh_faults \<Rightarrow> wh_attempt \<Rightarrow> wh_db \<Rightarrow> webhook_err + wh_db" where
  "hook_attempt_Create down a db =
     (if down (WaCreate (wa_webhook a)) \<or> list_ex (\<lambda>r. wa_id r = wa_id a) (wd_attempts db)
         \<or> \<not> list_ex (\<lambda>w. wh_id w = wa_webhook a) (wd_hooks db)
      then Inl WebhookRepoError
      else Inr (db\<lparr>wd_attempts := wd_attempts db @ [a]\<rparr>))"

text \<open>
  The attempts are read into a structure without the names of its columns: \<open>scan\<close> says what
  \<open>StructScan\<close> makes of a row.
\<close>

type_synonym row_scan = "wh_attempt \<Rightarrow> wh_attempt option"

definition scan_rows :: "row_scan \<Rightarrow> wh_attempt list \<Rightarrow> webhook_err + wh_attempt list" where
  "scan_rows scan rs =
     (if list_all (\<lambda>r. scan r \<noteq> None) rs then Inr (map (\<lambda>r. the (scan r)) rs) else Inl WebhookRepoError)"

definition hook_attempt_GetByID :: "wh_faults \<Rightarrow> row_scan \<Rightarrow> nat \<Rightarrow> wh_db \<Rightarrow> webhook_err + wh_attempt" where
  "hook_attempt_GetByID down scan i db =
     (if down WaGet then Inl WebhookRepoError
      else case List.find (\<lambda>a. wa_id a = i) (wd_attempts db) of
        None \<Rightarrow> Inl AttemptNotFound
      | Some a \<Rightarrow> (case scan a of None \<Rightarrow> Inl WebhookRepoError | Some a' \<Rightarrow> Inr a'))"

definition hook_attempt_ListByWebhookID ::
    "wh_faults \<Rightarrow> row_scan \<Rightarrow> nat \<Rightarrow> int \<Rightarrow> int \<Rightarrow> wh_db \<Rightarrow> webhook_err + wh_attempt list" where
  "hook_attempt_ListByWebhookID down scan i limit offset db =
     (if down WaList \<or> limit < 0 \<or> offset < 0 then Inl WebhookRepoError
      else scan_rows scan (page_of (nat limit) (nat offset)
        (newest_first wa_created (filter (\<lambda>a. wa_webhook a = i) (wd_attempts db)))))"

definition retry_due :: "time \<Rightarrow> wh_attempt \<Rightarrow> bool" where
  "retry_due now a \<longleftrightarrow> wa_status a = WaRetryScheduled \<and> (case wa_next a of None \<Rightarrow> False | Some t \<Rightarrow> t \<le> now)"

definition ListPendingForRetry ::
    "wh_faults \<Rightarrow> row_scan \<Rightarrow> time \<Rightarrow> nat \<Rightarrow> wh_db \<Rightarrow> webhook_err + wh_attempt list" where
  "ListPendingForRetry down scan now limit db =
     (if down WaPendingRetry then Inl WebhookRepoError
      else scan_rows scan (take limit
        (sort_key (\<lambda>a. the (wa_next a)) (filter (retry_due now) (wd_attempts db)))))"

definition set_hook_attempt_columns :: "wh_attempt \<Rightarrow> wh_attempt \<Rightarrow> wh_attempt" where
  "set_hook_attempt_columns a r = r\<lparr>wa_status := wa_status a, wa_retries := wa_retries a, wa_next := wa_next a,
     wa_http := wa_http a, wa_ms := wa_ms a, wa_error := wa_error a, wa_code := wa_code a,
     wa_sent := wa_sent a\<rparr>"

definition hook_attempt_Update :: "wh_faults \<Rightarrow> wh_attempt \<Rightarrow> wh_db \<Rightarrow> webhook_err + wh_db" where
  "hook_attempt_Update down a db =
     (if down (WaUpdate (wa_id a)) \<or> (case wa_code a of None \<Rightarrow> False | Some c \<Rightarrow> 100 < char_count c)
      then Inl WebhookRepoError
      else if \<not> list_ex (\<lambda>r. wa_id r = wa_id a) (wd_attempts db) then Inl AttemptNotFound
      else Inr (db\<lparr>wd_attempts := upd_where (\<lambda>r. wa_id r = wa_id a) (set_hook_attempt_columns a) (wd_attempts db)\<rparr>))"

definition hook_DeleteOldAttempts :: "wh_faults \<Rightarrow> time \<Rightarrow> int \<Rightarrow> wh_db \<Rightarrow> webhook_err + nat \<times> wh_db" where
  "hook_DeleteOldAttempts down now days db =
     (if down WaCleanup then Inl WebhookRepoError
      else let old = (\<lambda>a. wa_created a < now - 24 * hour * days)
        in Inr (count_where old (wd_attempts db), db\<lparr>wd_attempts := del_where old (wd_attempts db)\<rparr>))"

text \<open>An update whose error is only logged.\<close>

definition try_hook_attempt_Update :: "wh_faults \<Rightarrow> wh_attempt \<Rightarrow> wh_db \<Rightarrow> wh_db" where
  "try_hook_attempt_Update down a db = (case hook_attempt_Update down a db of Inl e \<Rightarrow> db | Inr db' \<Rightarrow> db')"

definition try_hook_Update :: "wh_faults \<Rightarrow> webhook \<Rightarrow> wh_db \<Rightarrow> wh_db" where
  "try_hook_Update down w db = (case hook_Update down w db of Inl e \<Rightarrow> db | Inr db' \<Rightarrow> db')"

section \<open>Jobs\<close>

record alert_event =
  ae_user :: nat
  ae_alert :: nat
  ae_monitor :: nat
  ae_monitor_name :: string
  ae_monitor_status :: string
  ae_severity :: string
  ae_failures :: int
  ae_flapping :: bool
  ae_flaps :: int
  ae_at :: time

text \<open>The event that \<open>ParseAlertEventFromJSON\<close> accepts; identifier 0 stands for the nil UUID.\<close>

definition check_alert_event :: "time \<Rightarrow> alert_event \<Rightarrow> alert_event option" where
  "check_alert_event now e =
     (if ae_alert e = 0 \<or> ae_monitor e = 0 then None
      else Some (if ae_at e = zero_time then e\<lparr>ae_at := now\<rparr> else e))"

datatype payload_value = PText string | PId nat | PNumber int | PFlag bool | PTime time

definition buildWebhookPayload :: "alert_event option \<Rightarrow> (string \<times> payload_value) list" where
  "buildWebhookPayload eo = (case eo of
     None \<Rightarrow> []
   | Some e \<Rightarrow>
       [(''alert_id'', PId (ae_alert e)), (''monitor_id'', PId (ae_monitor e)),
        (''monitor_name'', PText (ae_monitor_name e)), (''monitor_status'', PText (ae_monitor_status e)),
        (''severity'', PText (ae_severity e)), (''triggered_at'', PTime (ae_at e)),
        (''consecutive_failures'', PNumber (ae_failures e)), (''is_flapping'', PFlag (ae_flapping e))]
       @ (if ae_flapping e then [(''flap_count'', PNumber (ae_flaps e))] else []))"

record delivery_job =
  dj_hook :: webhook
  dj_attempt :: wh_attempt
  dj_event :: "alert_event option"

record delivery_state =
  ds_db :: wh_db
  ds_jobs :: "delivery_job list"

record delivery_cfg =
  dc_retries :: nat
  dc_intervals :: "duration list"

definition default_delivery_cfg :: delivery_cfg where
  "default_delivery_cfg = \<lparr>dc_retries = 3, dc_intervals = [30 * second, 60 * second, 120 * second]\<rparr>"

text \<open>Priorities; the map gives 0 for a word it does not know.\<close>

definition priority_order :: "string \<Rightarrow> nat" where
  "priority_order p = (if p = ''high'' then 0 else if p = ''normal'' then 1 else if p = ''low'' then 2 else 0)"

abbreviation hook_order :: "webhook \<Rightarrow> nat" where
  "hook_order w \<equiv> priority_order (wh_priority w)"

definition swap_step :: "nat \<Rightarrow> webhook list \<Rightarrow> webhook list" where
  "swap_step j ws =
     (if hook_order (ws ! (j + 1)) < hook_order (ws ! j)
      then ws[j := ws ! (j + 1), j + 1 := ws ! j] else ws)"

definition sortByPriority :: "webhook list \<Rightarrow> webhook list" where
  "sortByPriority ws =
     (let n = length ws in fold (\<lambda>i. fold swap_step [0..<n - i - 1]) [0..<n - 1] ws)"

text \<open>
  The loop over the webhooks of an event. \<open>accept\<close> says which jobs the pool takes, and a job waits
  for room in the queue as long as it must.
\<close>

primrec dispatch_loop ::
    "wh_faults \<Rightarrow> (nat \<Rightarrow> nat) \<Rightarrow> (nat \<Rightarrow> bool) \<Rightarrow> time \<Rightarrow> alert_event \<Rightarrow> webhook list \<Rightarrow>
     delivery_state \<Rightarrow> delivery_state" where
  "dispatch_loop down new_id accept now e [] st = st"
| "dispatch_loop down new_id accept now e (w # ws) st =
     (let a = NewWebhookDeliveryAttempt (new_id (wh_id w)) now (wh_id w) (ae_alert e)
      in dispatch_loop down new_id accept now e ws
        (case hook_attempt_Create down a (ds_db st) of
           Inl err \<Rightarrow> st
         | Inr db \<Rightarrow>
             if accept (wh_id w)
             then st\<lparr>ds_db := db, ds_jobs := ds_jobs st @ [\<lparr>dj_hook = w, dj_attempt = a, dj_event = Some e\<rparr>]\<rparr>
             else st\<lparr>ds_db := try_hook_attempt_Update down
               (wa_MarkAsFailed ''WORKER_QUEUE_FULL'' ''Failed to submit to worker pool'' a) db\<rparr>))"

definition ProcessAlertEvent ::
    "wh_faults \<Rightarrow> (nat \<Rightarrow> nat) \<Rightarrow> (nat \<Rightarrow> bool) \<Rightarrow> time \<Rightarrow> alert_event \<Rightarrow> delivery_state \<Rightarrow>
     webhook_err option \<times> delivery_state" where
  "ProcessAlertEvent down new_id accept now e st =
     (case hook_ListActiveByUserID down (ae_user e) (ds_db st) of
        Inl err \<Rightarrow> (Some err, st)
      | Inr ws \<Rightarrow>
          (None, dispatch_loop down new_id accept now e
             (sortByPriority (filter (ShouldDeliverForSeverity (ae_severity e)) ws)) st))"

section \<open>Deliveries\<close>

text \<open>\<open>None\<close> is the panic of an empty list of intervals. The error that is returned is that of the update.\<close>

definition retry_index :: "delivery_cfg \<Rightarrow> nat \<Rightarrow> nat option" where
  "retry_index cfg n =
     (if dc_intervals cfg = [] then None
      else Some (if length (dc_intervals cfg) \<le> n then length (dc_intervals cfg) - 1 else n))"

definition delivery_scheduleRetry ::
    "wh_faults \<Rightarrow> delivery_cfg \<Rightarrow> time \<Rightarrow> wh_attempt \<Rightarrow> string \<Rightarrow> string \<Rightarrow> wh_db \<Rightarrow>
     (webhook_err option \<times> wh_db) option" where
  "delivery_scheduleRetry down cfg now a code message db =
     (case retry_index cfg (wa_retries a) of
        None \<Rightarrow> None
      | Some i \<Rightarrow>
          (let a1 = wa_ScheduleRetry (now + dc_intervals cfg ! i) (wa_retries a + 1) a;
               a2 = wa_MarkAsFailed code message a1
           in Some (case hook_attempt_Update down a2 db of Inl e \<Rightarrow> (Some e, db) | Inr db' \<Rightarrow> (None, db'))))"

definition updateWebhookFailureStats :: "wh_faults \<Rightarrow> time \<Rightarrow> webhook \<Rightarrow> wh_db \<Rightarrow> wh_db" where
  "updateWebhookFailureStats down now w db = try_hook_Update down (wh_MarkAsFailed now w) db"

text \<open>What a delivery uses: JSON, decryption, URLs, HMAC, the network, and the texts of errors.\<close>

record delivery_env =
  de_json :: "(string \<times> payload_value) list \<Rightarrow> string"
  de_decrypt :: "string \<Rightarrow> string option"
  de_parse_url :: "string \<Rightarrow> string option"
  de_hmac :: "string \<Rightarrow> string \<Rightarrow> string"
  de_exchange :: "wire_request \<Rightarrow> exchange"
  de_text :: "webhook_err \<Rightarrow> string"
  de_ms :: int

definition job_request :: "delivery_env \<Rightarrow> delivery_job \<Rightarrow> hook_request" where
  "job_request env j =
     (let w = dj_hook j
      in \<lparr>hq_url = wh_url w, hq_method = wh_method w, hq_headers = wh_headers w,
          hq_payload = de_json env (buildWebhookPayload (dj_event j)),
          hq_secret = (case wh_secret w of None \<Rightarrow> None | Some s \<Rightarrow> de_decrypt env s),
          hq_max = wh_max_size w, hq_truncate = (wh_strategy w = ''truncate'')\<rparr>)"

definition DeliverWebhook ::
    "wh_faults \<Rightarrow> delivery_env \<Rightarrow> delivery_cfg \<Rightarrow> time \<Rightarrow> delivery_job \<Rightarrow> wh_db \<Rightarrow>
     (webhook_err option \<times> wh_db) option" where
  "DeliverWebhook down env cfg now j db =
     (case SendWebhook (de_parse_url env) (de_hmac env) (de_exchange env) now (job_request env j) of
        Inl e \<Rightarrow>
          if shouldRetry e
          then delivery_scheduleRetry down cfg now (dj_attempt j) (de_text env e) (de_text env e) db
          else Some (Some e, updateWebhookFailureStats down now (dj_hook j)
            (try_hook_attempt_Update down (wa_MarkAsFailed ''PERMANENT_ERROR'' (de_text env e) (dj_attempt j)) db))
      | Inr code \<Rightarrow>
          Some (None, try_hook_Update down (wh_MarkAsSuccessful now (de_ms env) (dj_hook j))
            (try_hook_attempt_Update down (wa_MarkAsSent now code (de_ms env) (dj_attempt j)) db)))"

text \<open>One worker takes the first job; the error is only logged.\<close>

definition worker_step ::
    "wh_faults \<Rightarrow> delivery_env \<Rightarrow> delivery_cfg \<Rightarrow> time \<Rightarrow> delivery_state \<Rightarrow> delivery_state option" where
  "worker_step down env cfg now st =
     (case ds_jobs st of
        [] \<Rightarrow> Some st
      | j # js \<Rightarrow>
          (case DeliverWebhook down env cfg now j (ds_db st) of
             None \<Rightarrow> None
           | Some (e, db) \<Rightarrow> Some (st\<lparr>ds_db := db, ds_jobs := js\<rparr>)))"

text \<open>A tick of the retry scheduler.\<close>

primrec hook_retry_loop ::
    "wh_faults \<Rightarrow> delivery_cfg \<Rightarrow> (nat \<Rightarrow> bool) \<Rightarrow> time \<Rightarrow> wh_attempt list \<Rightarrow> delivery_state \<Rightarrow> delivery_state" where
  "hook_retry_loop down cfg accept now [] st = st"
| "hook_retry_loop down cfg accept now (a # as) st =
     hook_retry_loop down cfg accept now as
       (if (case wa_next a of None \<Rightarrow> False | Some t \<Rightarrow> now < t) then st
        else if dc_retries cfg \<le> wa_retries a
        then st\<lparr>ds_db := try_hook_attempt_Update down
          (wa_MarkAsFailed ''MAX_RETRIES_EXCEEDED'' ''Exceeded maximum retry attempts'' a) (ds_db st)\<rparr>
        else case hook_GetByID down (wa_webhook a) (ds_db st) of
            Inl e \<Rightarrow> st
          | Inr w \<Rightarrow>
              if accept (wa_id a)
              then st\<lparr>ds_jobs := ds_jobs st @ [\<lparr>dj_hook = w,
                dj_attempt = a\<lparr>wa_retries := wa_retries a + 1, wa_status := WaPending\<rparr>, dj_event = None\<rparr>]\<rparr>
              else st)"

definition processRetryQueue ::
    "wh_faults \<Rightarrow> row_scan \<Rightarrow> delivery_cfg \<Rightarrow> (nat \<Rightarrow> bool) \<Rightarrow> time \<Rightarrow> delivery_state \<Rightarrow> delivery_state" where
  "processRetryQueue down scan cfg accept now st =
     (case ListPendingForRetry down scan now 100 (ds_db st) of
        Inl e \<Rightarrow> st
      | Inr as \<Rightarrow> hook_retry_loop down cfg accept now as st)"

section \<open>The worker pool\<close>

record worker_pool =
  wp_started :: bool
  wp_stopped :: bool
  wp_closed :: bool
  wp_workers :: nat

definition NewWorkerPool :: worker_pool where
  "NewWorkerPool = \<lparr>wp_started = False, wp_stopped = False, wp_closed = False, wp_workers = 0\<rparr>"

text \<open>Workers on a closed and empty queue end at once; \<open>drained\<close> says whether all did in time.\<close>

definition pool_Start :: "nat \<Rightarrow> worker_pool \<Rightarrow> bool \<times> worker_pool" where
  "pool_Start n p =
     (if wp_started p then (False, p)
      else (True, p\<lparr>wp_started := True, wp_workers := (if wp_closed p then 0 else n)\<rparr>))"

definition pool_Stop :: "bool \<Rightarrow> worker_pool \<Rightarrow> bool \<times> worker_pool" where
  "pool_Stop drained p =
     (if \<not> wp_started p then (False, p)
      else if wp_stopped p then (True, p\<lparr>wp_started := False\<rparr>)
      else (drained, p\<lparr>wp_started := False, wp_stopped := True, wp_closed := True,
        wp_workers := (if drained then 0 else wp_workers p)\<rparr>))"

text \<open>
  A job is taken when there is room in the queue, refused when the context is cancelled; it waits
  otherwise. On a closed queue it panics.
\<close>

datatype submit_outcome = Submitted | SubmitCancelled | SubmitBlocks | SubmitPanics

definition pool_Submit :: "nat \<Rightarrow> nat \<Rightarrow> bool \<Rightarrow> worker_pool \<Rightarrow> submit_outcome set" where
  "pool_Submit capacity queued cancelled p =
     (if wp_closed p then {SubmitPanics}
      else if queued < capacity then insert Submitted (if cancelled then {SubmitCancelled} else {})
      else if cancelled then {SubmitCancelled} else {SubmitBlocks})"

section \<open>Examples\<close>

definition demo_hook :: webhook where
  "demo_hook = \<lparr>wh_id = 1, wh_user = 7, wh_name = ''ops'', wh_url = ''https://a'', wh_method = ''POST'',
     wh_headers = [], wh_secret = None, wh_enabled = True, wh_status = WhActive, wh_priority = ''normal'',
     wh_severities = [''Critical''], wh_max_size = 1048576, wh_strategy = ''truncate'', wh_total = 0, wh_ok = 0,
     wh_failed = 0, wh_avg = None, wh_sent = None, wh_success = None, wh_failure = None, wh_failures = 0,
     wh_streak = 0, wh_created = 0, wh_updated = 0\<rparr>"

definition demo_alert_event :: alert_event where
  "demo_alert_event = \<lparr>ae_user = 7, ae_alert = 3, ae_monitor = 4, ae_monitor_name = ''m'', ae_monitor_status = ''DOWN'',
     ae_severity = ''critical'', ae_failures = 3, ae_flapping = False, ae_flaps = 0, ae_at = 0\<rparr>"

definition demo_delivery_env :: "int \<Rightarrow> delivery_env" where
  "demo_delivery_env code = \<lparr>de_json = (\<lambda>_. ''{}''), de_decrypt = Some, de_parse_url = (\<lambda>_. Some ''https''),
     de_hmac = (\<lambda>k s. k @ s), de_exchange = (\<lambda>_. Answered code []), de_text = (\<lambda>_. []), de_ms = 20\<rparr>"

definition demo_job :: delivery_job where
  "demo_job = \<lparr>dj_hook = demo_hook, dj_attempt = NewWebhookDeliveryAttempt 1 0 1 3, dj_event = Some demo_alert_event\<rparr>"

lemma demo_send: "SendWebhook (de_parse_url (demo_delivery_env code)) (de_hmac (demo_delivery_env code)) (de_exchange (demo_delivery_env code)) now
    (job_request (demo_delivery_env code) demo_job)
  = (if code < 200 \<or> 300 \<le> code then Inl (handleHTTPError code) else Inr code)"
proof -
  have "validateWebhookURL (\<lambda>_. Some ''https'') ''https://a'' = None" "list_all token_char ''POST''" by code_simp+
  then show ?thesis
    by (simp add: SendWebhook_def wire_request_of_def job_request_def demo_delivery_env_def demo_job_def demo_hook_def Let_def)
qed

end
