(* ===== verification/WebhookOrder.thy ===== *)
theory WebhookOrder
  imports WebhookDelivery
begin

text \<open>
  The order in which \<open>ProcessAlertEvent\<close> of \<open>webhook_delivery_service.go\<close> makes the jobs of an alert.
\<close>

section \<open>Bubble sort\<close>

text \<open>One pass over the first elements, as a recursion.\<close>

fun bubble :: "webhook list \<Rightarrow> webhook list" where
  "bubble (x # y # ws) =
     (if hook_order y < hook_order x then y # bubble (x # ws) else x # bubble (y # ws))"
| "bubble ws = ws"

lemma swap_step_Suc: "swap_step (Suc j) (w # ws) = w # swap_step j ws"
  by (simp add: swap_step_def)

lemma fold_swap_Suc: "fold swap_step (map Suc js) (w # ws) = w # fold swap_step js ws"
  by (induction js arbitrary: ws) (simp_all add: swap_step_Suc)

lemma swap_step_0: "swap_step 0 (x # y # ws) =
    (if hook_order y < hook_order x then y # x # ws else x # y # ws)"
  by (simp add: swap_step_def)

lemma pass_bubble: "length xs = Suc m \<Longrightarrow> fold swap_step [0..<m] (xs @ ys) = bubble xs @ ys"
proof (induction m arbitrary: xs)
  case 0
  then show ?case by (cases xs) auto
next
  case (Suc m)
  then obtain x y zs where xs: "xs = x # y # zs" and len: "length zs = m"
    by (metis length_Suc_conv)
  have upt: "[0..<Suc m] = 0 # map Suc [0..<m]" by (simp only: upt_conv_Cons [of 0 "Suc m"] map_Suc_upt)
  show ?case
    using Suc.IH [of "x # zs"] Suc.IH [of "y # zs"] len
    by (simp only: upt fold.simps o_apply xs append_Cons swap_step_0) (simp add: fold_swap_Suc)
qed

text \<open>A pass keeps the order of equals and brings a largest element to the end.\<close>

lemma bubble_mset [simp]: "mset (bubble ws) = mset ws"
  by (induction ws rule: bubble.induct) auto

lemma bubble_stable: "filter (\<lambda>w. hook_order w = k) (bubble ws) = filter (\<lambda>w. hook_order w = k) ws"
  by (induction ws rule: bubble.induct) auto

lemma bubble_set [simp]: "set (bubble ws) = set ws"
  by (metis bubble_mset set_mset_mset)

lemma bubble_last_step:
  assumes "bubble (g # ws) = us @ [z]" and "\<forall>u \<in> set us. hook_order u \<le> hook_order z"
    and "hook_order l \<le> hook_order g"
  shows "\<forall>u \<in> set (l # us). hook_order u \<le> hook_order z"
proof -
  have "g \<in> set (us @ [z])" by (metis assms(1) bubble_set list.set_intros(1))
  then have "hook_order g \<le> hook_order z" using assms(2) by auto
  then show ?thesis using assms(2,3) by auto
qed

lemma bubble_last:
  "ws \<noteq> [] \<Longrightarrow> \<exists>us z. bubble ws = us @ [z] \<and> (\<forall>u \<in> set us. hook_order u \<le> hook_order z)"
proof (induction ws rule: bubble.induct)
  case (1 x y ws)
  show ?case
  proof (cases "hook_order y < hook_order x")
    case True
    then obtain us z where "bubble (x # ws) = us @ [z]" "\<forall>u \<in> set us. hook_order u \<le> hook_order z"
      using "1.IH"(1) by blast
    then show ?thesis using True bubble_last_step [of x ws us z y]
      by (intro exI [of _ "y # us"] exI [of _ z]) simp
  next
    case False
    then obtain us z where "bubble (y # ws) = us @ [z]" "\<forall>u \<in> set us. hook_order u \<le> hook_order z"
      using "1.IH"(2) by blast
    then show ?thesis using False bubble_last_step [of y ws us z x]
      by (intro exI [of _ "x # us"] exI [of _ z]) simp
  qed
qed auto

text \<open>After \<open>i\<close> passes the last \<open>i\<close> elements are in place.\<close>

definition pass_inv :: "webhook list \<Rightarrow> nat \<Rightarrow> webhook list \<Rightarrow> bool" where
  "pass_inv ws i vs \<longleftrightarrow> mset vs = mset ws \<and>
     (\<forall>k. filter (\<lambda>w. hook_order w = k) vs = filter (\<lambda>w. hook_order w = k) ws) \<and>
     (\<exists>pre suf. vs = pre @ suf \<and> length suf = i \<and> sorted (map hook_order suf) \<and>
       (\<forall>x \<in> set pre. \<forall>y \<in> set suf. hook_order x \<le> hook_order y))"

lemma pass_inv_step:
  assumes "pass_inv ws i vs" and "i < length ws - 1"
  shows "pass_inv ws (Suc i) (fold swap_step [0..<length ws - i - 1] vs)"
proof -
  obtain pre suf where v: "vs = pre @ suf" "length suf = i" "sorted (map hook_order suf)"
      "\<forall>x \<in> set pre. \<forall>y \<in> set suf. hook_order x \<le> hook_order y" and m: "mset vs = mset ws"
      and f: "\<forall>k. filter (\<lambda>w. hook_order w = k) vs = filter (\<lambda>w. hook_order w = k) ws"
    using assms(1) by (auto simp: pass_inv_def)
  have "length vs = length ws" using m by (metis size_mset)
  then have len: "length pre = Suc (length ws - i - 1)" using v(1,2) assms(2) by simp
  then have pass: "fold swap_step [0..<length ws - i - 1] vs = bubble pre @ suf"
    unfolding v(1) by (rule pass_bubble)
  obtain us z where uz: "bubble pre = us @ [z]" "\<forall>u \<in> set us. hook_order u \<le> hook_order z"
    using bubble_last [of pre] len by (cases pre) auto
  have set: "set (us @ [z]) = set pre" using uz(1) bubble_mset by (metis set_mset_mset)
  have "sorted (map hook_order (z # suf))" "\<forall>x \<in> set us. \<forall>y \<in> set (z # suf). hook_order x \<le> hook_order y"
    using v(3,4) uz(2) set by auto
  moreover have "bubble pre @ suf = us @ (z # suf)" using uz(1) by simp
  moreover have "mset (bubble pre @ suf) = mset ws" using m v(1) by simp
  moreover have "filter (\<lambda>w. hook_order w = k) (bubble pre @ suf) = filter (\<lambda>w. hook_order w = k) ws" for k
    using f v(1) by (simp add: bubble_stable)
  ultimately show ?thesis unfolding pass pass_inv_def using v(2) by (metis length_Cons)
qed

lemma passes_inv: "n \<le> length ws - 1 \<Longrightarrow>
    pass_inv ws n (fold (\<lambda>i. fold swap_step [0..<length ws - i - 1]) [0..<n] ws)"
proof (induction n)
  case 0
  then show ?case by (auto simp: pass_inv_def)
next
  case (Suc n)
  then show ?case using pass_inv_step [of ws n] by simp
qed

lemma sort_key_unique:
  fixes f :: "'a \<Rightarrow> 'b::linorder"
  assumes "mset vs = mset ws" and "sorted (map f vs)" and "\<And>k. filter (\<lambda>w. f w = k) vs = filter (\<lambda>w. f w = k) ws"
  shows "vs = sort_key f ws"
proof -
  have "filter (\<lambda>x. f k = f x) vs = filter (\<lambda>x. f k = f x) ws" for k
    using assms(3) [of "f k"] by (simp add: eq_commute [of "f k"])
  then show ?thesis using assms(1,2) by (intro properties_for_sort_key [symmetric])
qed

lemma sortByPriority_key: "sortByPriority ws = sort_key hook_order ws"
proof -
  let ?vs = "sortByPriority ws"
  have inv: "pass_inv ws (length ws - 1) ?vs"
    using passes_inv [of "length ws - 1" ws] by (simp add: sortByPriority_def Let_def)
  then obtain pre suf where v: "?vs = pre @ suf" "length suf = length ws - 1" "sorted (map hook_order suf)"
      "\<forall>x \<in> set pre. \<forall>y \<in> set suf. hook_order x \<le> hook_order y" and m: "mset ?vs = mset ws"
    by (auto simp: pass_inv_def)
  have "length ?vs = length ws" using m by (metis size_mset)
  then have "length pre \<le> 1" using v(1,2) by simp
  then have "sorted (map hook_order pre)" by (cases pre) auto
  then have "sorted (map hook_order ?vs)" using v(3,4) by (auto simp: v(1) sorted_append)
  moreover have "filter (\<lambda>w. hook_order w = k) ?vs = filter (\<lambda>w. hook_order w = k) ws" for k
    using inv by (simp add: pass_inv_def)
  ultimately show ?thesis using m by (intro sort_key_unique)
qed

text \<open>
  The loop that orders the webhooks of an alert, a bubble sort, is the stable sort by
  priority: high ones first, then normal, then low ones, and those of one priority in the order
  of the query.
\<close>
theorem sortByPriority_stable: "sortByPriority ws = sort_key (\<lambda>w. priority_order (wh_priority w)) ws"
  by (rule sortByPriority_key)

lemma distinct_map_sort: "distinct (map k (sort_key f xs)) \<longleftrightarrow> distinct (map k xs)"
  by (simp add: distinct_map)

section \<open>The jobs of an alert\<close>

lemma filter_sort_key: "filter p (sort_key f ws) = sort_key f (filter p ws)"
proof (rule sort_key_unique)
  show "mset (filter p (sort_key f ws)) = mset (filter p ws)" by simp
  show "sorted (map f (filter p (sort_key f ws)))" by (rule sorted_filter) simp
  fix k
  have "filter (\<lambda>w. f w = k) (filter p (sort_key f ws)) = filter p (filter (\<lambda>w. f w = k) (sort_key f ws))"
    by (simp add: conj_commute)
  then show "filter (\<lambda>w. f w = k) (filter p (sort_key f ws)) = filter (\<lambda>w. f w = k) (filter p ws)"
    by (simp add: sort_key_stable conj_commute)
qed

text \<open>Sorting by the words of the priorities first makes no difference.\<close>

lemma sort_after_rank:
  assumes "\<forall>w \<in> set ws. wh_priority w \<in> {''high'', ''normal'', ''low''}"
  shows "sort_key hook_order (sort_key (\<lambda>w. priority_word_rank (wh_priority w)) ws) = sort_key hook_order ws"
proof -
  let ?r = "\<lambda>w. priority_word_rank (wh_priority w)"
  let ?word = "\<lambda>k::nat. if k = 0 then 2 else if k = 1 then 0 else (1::nat)"
  have eq: "hook_order w = k \<longleftrightarrow> ?r w = ?word k \<and> k \<le> 2" if "w \<in> set ws" for w k
    using that assms by (auto simp: priority_order_def priority_word_rank_def)
  have "filter (\<lambda>w. hook_order w = k) (sort_key ?r ws) = filter (\<lambda>w. hook_order w = k) ws" for k
  proof -
    have "filter (\<lambda>w. hook_order w = k) vs = filter (\<lambda>w. k \<le> 2) (filter (\<lambda>w. ?r w = ?word k) vs)"
      if "set vs \<subseteq> set ws" for vs
      unfolding filter_filter by (rule filter_cong [OF refl]) (use that eq in blast)
    from this [of "sort_key ?r ws"] this [of ws] show ?thesis by (simp only: set_sort order_refl sort_key_stable)
  qed
  moreover have "mset (sort_key hook_order (sort_key ?r ws)) = mset ws" by simp
  ultimately show ?thesis by (intro sort_key_unique) (simp_all add: sort_key_stable)
qed

abbreviation event_attempt :: "(nat \<Rightarrow> nat) \<Rightarrow> time \<Rightarrow> alert_event \<Rightarrow> webhook \<Rightarrow> wh_attempt" where
  "event_attempt new_id now e w \<equiv> NewWebhookDeliveryAttempt (new_id (wh_id w)) now (wh_id w) (ae_alert e)"

abbreviation event_job :: "(nat \<Rightarrow> nat) \<Rightarrow> time \<Rightarrow> alert_event \<Rightarrow> webhook \<Rightarrow> delivery_job" where
  "event_job new_id now e w \<equiv> \<lparr>dj_hook = w, dj_attempt = event_attempt new_id now e w, dj_event = Some e\<rparr>"

lemma new_attempt_id [simp]: "wa_id (NewWebhookDeliveryAttempt i now w a) = i"
    "wa_webhook (NewWebhookDeliveryAttempt i now w a) = w"
  by (simp_all add: NewWebhookDeliveryAttempt_def)

lemma dispatch_all:
  assumes "\<forall>w \<in> set ws. wh_id w \<in> wh_id ` set (wd_hooks (ds_db st))" and "distinct (map wh_id ws)" and "inj new_id"
    and "\<forall>w \<in> set ws. \<forall>a \<in> set (wd_attempts (ds_db st)). wa_id a \<noteq> new_id (wh_id w)"
  shows "dispatch_loop (\<lambda>_. False) new_id (\<lambda>_. True) now e ws st =
    \<lparr>ds_db = (ds_db st)\<lparr>wd_attempts := wd_attempts (ds_db st) @ map (event_attempt new_id now e) ws\<rparr>,
     ds_jobs = ds_jobs st @ map (event_job new_id now e) ws\<rparr>"
  using assms
proof (induction ws arbitrary: st)
  case (Cons w ws)
  let ?a = "event_attempt new_id now e w"
  let ?st = "\<lparr>ds_db = (ds_db st)\<lparr>wd_attempts := wd_attempts (ds_db st) @ [?a]\<rparr>,
    ds_jobs = ds_jobs st @ [event_job new_id now e w]\<rparr>"
  have "hook_attempt_Create (\<lambda>_. False) ?a (ds_db st) = Inr (ds_db ?st)"
    using Cons.prems by (force simp: hook_attempt_Create_def list_ex_iff)
  moreover have fresh: "\<forall>v \<in> set ws. new_id (wh_id w) \<noteq> new_id (wh_id v)"
  proof
    fix v assume "v \<in> set ws"
    then have "wh_id v \<noteq> wh_id w" using Cons.prems(2) by (metis distinct.simps(2) imageI list.simps(9) set_map)
    then show "new_id (wh_id w) \<noteq> new_id (wh_id v)" using Cons.prems(3) by (simp add: inj_eq)
  qed
  moreover from fresh have "dispatch_loop (\<lambda>_. False) new_id (\<lambda>_. True) now e ws ?st =
    \<lparr>ds_db = (ds_db ?st)\<lparr>wd_attempts := wd_attempts (ds_db ?st) @ map (event_attempt new_id now e) ws\<rparr>,
     ds_jobs = ds_jobs ?st @ map (event_job new_id now e) ws\<rparr>"
    using Cons.prems by (intro Cons.IH) (auto simp: new_attempt_id)
  ultimately show ?case by (cases st) (simp add: Let_def)
qed simp

text \<open>
  When nothing fails, an alert makes exactly one attempt and one job for each webhook of the
  user that is enabled, active and wants its severity: high priorities first, then normal, then
  low ones, each from the oldest webhook to the newest, after the jobs that wait already.
\<close>
theorem alert_jobs_in_order:
  assumes "\<forall>w \<in> set (wd_hooks (ds_db st)). wh_priority w \<in> {''high'', ''normal'', ''low''}"
    and "distinct (map wh_id (wd_hooks (ds_db st)))" and "inj new_id"
    and "\<forall>a \<in> set (wd_attempts (ds_db st)). wa_id a \<notin> range new_id"
  shows "ProcessAlertEvent (\<lambda>_. False) new_id (\<lambda>_. True) now e st =
    (let ws = sort_key (\<lambda>w. priority_order (wh_priority w)) (sort_key wh_created
           (filter (\<lambda>w. wh_user w = ae_user e \<and> CanDeliver w \<and> ShouldDeliverForSeverity (ae_severity e) w)
             (wd_hooks (ds_db st))));
         attempt = (\<lambda>w. NewWebhookDeliveryAttempt (new_id (wh_id w)) now (wh_id w) (ae_alert e))
     in (None, \<lparr>ds_db = (ds_db st)\<lparr>wd_attempts := wd_attempts (ds_db st) @ map attempt ws\<rparr>,
          ds_jobs = ds_jobs st @ map (\<lambda>w. \<lparr>dj_hook = w, dj_attempt = attempt w, dj_event = Some e\<rparr>) ws\<rparr>))"
proof -
  let ?hooks = "wd_hooks (ds_db st)" and ?mine = "\<lambda>w. wh_user w = ae_user e \<and> wh_enabled w \<and> wh_status w = WhActive"
  let ?rank = "\<lambda>w. priority_word_rank (wh_priority w)" and ?sev = "ShouldDeliverForSeverity (ae_severity e)"
  let ?ws = "sort_key hook_order (sort_key wh_created
     (filter (\<lambda>w. wh_user w = ae_user e \<and> CanDeliver w \<and> ?sev w) ?hooks))"
  have "filter ?sev (filter ?mine ?hooks) = filter (\<lambda>w. wh_user w = ae_user e \<and> CanDeliver w \<and> ?sev w) ?hooks"
    by (auto simp: CanDeliver_def intro!: filter_cong)
  then have "filter ?sev (sort_key ?rank (sort_key wh_created (filter ?mine ?hooks))) =
      sort_key ?rank (sort_key wh_created (filter (\<lambda>w. wh_user w = ae_user e \<and> CanDeliver w \<and> ?sev w) ?hooks))"
    by (simp only: filter_sort_key)
  then have sorted: "sortByPriority (filter ?sev (sort_key ?rank (sort_key wh_created (filter ?mine ?hooks)))) = ?ws"
    using assms(1) by (simp only: sortByPriority_key) (rule sort_after_rank, auto)
  have "distinct (map wh_id ?ws)"
    using assms(2) by (simp add: distinct_map_filter distinct_map_sort)
  then have "dispatch_loop (\<lambda>_. False) new_id (\<lambda>_. True) now e ?ws st =
    \<lparr>ds_db = (ds_db st)\<lparr>wd_attempts := wd_attempts (ds_db st) @ map (event_attempt new_id now e) ?ws\<rparr>,
     ds_jobs = ds_jobs st @ map (event_job new_id now e) ?ws\<rparr>"
    using assms(3,4) by (intro dispatch_all) auto
  then show ?thesis by (simp add: ProcessAlertEvent_def hook_ListActiveByUserID_def sorted Let_def)
qed

theorem alert_jobs_in_order_witness:
  "map (\<lambda>j. wh_id (dj_hook j)) (ds_jobs (snd (ProcessAlertEvent (\<lambda>_. False) Suc (\<lambda>_. True) 5 demo_alert_event
     \<lparr>ds_db = \<lparr>wd_hooks = [demo_hook\<lparr>wh_id := 1, wh_priority := ''low''\<rparr>,
        demo_hook\<lparr>wh_id := 2, wh_priority := ''high''\<rparr>, demo_hook\<lparr>wh_id := 3, wh_user := 8\<rparr>],
        wd_attempts = []\<rparr>, ds_jobs = []\<rparr>))) = [2, 1]"
proof -
  have "ShouldDeliverForSeverity ''critical'' (demo_hook\<lparr>wh_id := i, wh_priority := p\<rparr>)" for i p
  proof -
    have "ascii_lower ''Critical'' = ascii_lower ''critical''" by code_simp
    then show ?thesis by (simp add: ShouldDeliverForSeverity_def demo_hook_def)
  qed
  then show ?thesis
    by (subst alert_jobs_in_order)
      (auto simp: demo_hook_def demo_alert_event_def CanDeliver_def Let_def priority_order_def)
qed

end
