(* ===== verification/WebhookOutcomes.thy ===== *)
theory WebhookOutcomes
  imports WebhookDelivery
begin

text \<open>
  What becomes of the deliveries of \<open>webhook_delivery_service.go\<close>: retries, what a delivery does to the
  row of its webhook, and the statistics and limits of \<open>webhook_service.go\<close>.
\<close>

section \<open>Retries\<close>

datatype hook_delivery_op =
    OpEvent wh_faults "nat \<Rightarrow> nat" "nat \<Rightarrow> bool" time alert_event
  | OpWork wh_faults delivery_env delivery_cfg time
  | OpTick wh_faults row_scan delivery_cfg "nat \<Rightarrow> bool" time

text \<open>A delivery that panics leaves no trace.\<close>

fun hook_delivery_step :: "hook_delivery_op \<Rightarrow> delivery_state \<Rightarrow> delivery_state" where
  "hook_delivery_step (OpEvent down new_id accept now e) st = snd (ProcessAlertEvent down new_id accept now e st)"
| "hook_delivery_step (OpWork down env cfg now) st =
     (case worker_step down env cfg now st of None \<Rightarrow> st | Some st' \<Rightarrow> st')"
| "hook_delivery_step (OpTick down scan cfg accept now) st = processRetryQueue down scan cfg accept now st"

definition none_scheduled :: "wh_db \<Rightarrow> bool" where
  "none_scheduled db \<longleftrightarrow> (\<forall>a \<in> set (wd_attempts db). wa_status a \<noteq> WaRetryScheduled)"

lemma none_scheduled_attempt_Update:
  "none_scheduled db \<Longrightarrow> wa_status a \<noteq> WaRetryScheduled \<Longrightarrow> none_scheduled (try_hook_attempt_Update down a db)"
  by (auto simp: none_scheduled_def try_hook_attempt_Update_def hook_attempt_Update_def upd_where_def set_hook_attempt_columns_def
      split: option.splits)

lemma none_scheduled_hook_Update: "none_scheduled db \<Longrightarrow> none_scheduled (try_hook_Update down w db)"
  by (auto simp: none_scheduled_def try_hook_Update_def hook_Update_def Let_def)

lemma none_scheduled_Create:
  "hook_attempt_Create down (NewWebhookDeliveryAttempt i now w a) db = Inr db' \<Longrightarrow> none_scheduled db \<Longrightarrow> none_scheduled db'"
  by (auto simp: hook_attempt_Create_def none_scheduled_def NewWebhookDeliveryAttempt_def split: if_splits)

lemma dispatch_none_scheduled:
  "none_scheduled (ds_db st) \<Longrightarrow> none_scheduled (ds_db (dispatch_loop down new_id accept now e ws st))"
proof (induction ws arbitrary: st)
  case (Cons w ws)
  let ?a = "NewWebhookDeliveryAttempt (new_id (wh_id w)) now (wh_id w) (ae_alert e)"
  show ?case
  proof (cases "hook_attempt_Create down ?a (ds_db st)")
    case (Inl err)
    then show ?thesis using Cons by simp
  next
    case (Inr db)
    then have "none_scheduled db" using Cons.prems by (rule none_scheduled_Create)
    then show ?thesis using Inr
      by (auto simp: Let_def wa_MarkAsFailed_def intro!: Cons.IH none_scheduled_attempt_Update)
  qed
qed simp

lemma deliver_none_scheduled:
  assumes "DeliverWebhook down env cfg now j db = Some (e, db')" and "none_scheduled db"
  shows "none_scheduled db'"
proof -
  have "none_scheduled db'" if "delivery_scheduleRetry down cfg now a c m db = Some (e, db')" for a c m
    using that assms(2) none_scheduled_attempt_Update
      [of db "wa_MarkAsFailed c m (wa_ScheduleRetry (now + dc_intervals cfg ! the (retry_index cfg (wa_retries a))) (wa_retries a + 1) a)" down]
    by (auto simp: delivery_scheduleRetry_def Let_def try_hook_attempt_Update_def wa_MarkAsFailed_def
        split: option.splits sum.splits)
  then show ?thesis using assms
    by (auto simp: DeliverWebhook_def updateWebhookFailureStats_def wa_MarkAsFailed_def wa_MarkAsSent_def
        intro!: none_scheduled_hook_Update none_scheduled_attempt_Update split: sum.splits if_splits)
qed

lemma tick_does_nothing: "none_scheduled (ds_db st) \<Longrightarrow> processRetryQueue down scan cfg accept now st = st"
proof -
  assume "none_scheduled (ds_db st)"
  then have "filter (retry_due now) (wd_attempts (ds_db st)) = []"
    by (auto simp: none_scheduled_def retry_due_def filter_empty_conv)
  then show ?thesis
    by (simp add: processRetryQueue_def ListPendingForRetry_def scan_rows_def)
qed

lemma delivery_step_none_scheduled:
  "none_scheduled (ds_db st) \<Longrightarrow> none_scheduled (ds_db (hook_delivery_step op st))"
proof (cases op)
  case (OpWork down env cfg now)
  assume "none_scheduled (ds_db st)"
  then show ?thesis using OpWork
    by (auto simp: worker_step_def split: list.split option.split dest: deliver_none_scheduled)
qed (auto simp: ProcessAlertEvent_def tick_does_nothing intro: dispatch_none_scheduled split: sum.split)

text \<open>
  Property C36. The retry of a failed webhook delivery never runs: from a table without scheduled
  attempts, whatever alerts, workers and ticks do, with any failures, no attempt is stored as scheduled
  for a retry, since the status is overwritten before the attempt is stored; so a tick of the retry
  scheduler finds nothing, and changes nothing, after every history.
\<close>

theorem webhook_retry_never_runs:
  assumes "\<forall>a \<in> set (wd_attempts (ds_db st)). wa_status a \<noteq> WaRetryScheduled"
  shows "(\<forall>a \<in> set (wd_attempts (ds_db (fold hook_delivery_step ops st))). wa_status a \<noteq> WaRetryScheduled) \<and>
    processRetryQueue down scan cfg accept now (fold hook_delivery_step ops st) = fold hook_delivery_step ops st"
proof -
  have "none_scheduled (ds_db (fold hook_delivery_step ops st))"
    using assms unfolding none_scheduled_def [symmetric]
    by (induction ops arbitrary: st) (simp_all add: delivery_step_none_scheduled)
  then show ?thesis by (simp add: tick_does_nothing none_scheduled_def)
qed

definition demo_delivery_run :: delivery_state where
  "demo_delivery_run = fold hook_delivery_step
     [OpEvent (\<lambda>_. False) Suc (\<lambda>_. True) 5 demo_alert_event, OpWork (\<lambda>_. False) (demo_delivery_env 503) default_delivery_cfg 6]
     \<lparr>ds_db = \<lparr>wd_hooks = [demo_hook], wd_attempts = []\<rparr>, ds_jobs = []\<rparr>"

theorem webhook_retry_never_runs_witness:
  "processRetryQueue (\<lambda>_. False) Some default_delivery_cfg (\<lambda>_. True) hour demo_delivery_run = demo_delivery_run"
  unfolding demo_delivery_run_def by (rule webhook_retry_never_runs [THEN conjunct2]) simp

section \<open>The row of the webhook\<close>

text \<open>The webhook of a job can be written back: its row is there, and no other has its name.\<close>

definition writable :: "webhook \<Rightarrow> wh_db \<Rightarrow> bool" where
  "writable w db \<longleftrightarrow> hook_columns_ok w \<and> distinct (map wh_id (wd_hooks db)) \<and>
     (\<exists>r \<in> set (wd_hooks db). wh_id r = wh_id w \<and> wh_user r = wh_user w \<and> wh_created r = wh_created w) \<and>
     (\<forall>r \<in> set (wd_hooks db). wh_id r \<noteq> wh_id w \<longrightarrow> (wh_user r, wh_name r) \<noteq> (wh_user w, wh_name w))"

abbreviation hook_row :: "nat \<Rightarrow> wh_db \<Rightarrow> webhook option" where
  "hook_row i db \<equiv> List.find (\<lambda>r. wh_id r = i) (wd_hooks db)"

lemma writable_inj: "writable w db \<Longrightarrow> inj_on wh_id (set (wd_hooks db))"
  by (simp add: writable_def distinct_map)

lemma writable_row: "writable w db \<Longrightarrow> \<exists>r. hook_row (wh_id w) db = Some r \<and> wh_user r = wh_user w \<and> wh_created r = wh_created w"
proof -
  assume w: "writable w db"
  then obtain r where r: "r \<in> set (wd_hooks db)" "wh_id r = wh_id w" "wh_user r = wh_user w" "wh_created r = wh_created w"
    by (auto simp: writable_def)
  then obtain r' where r': "hook_row (wh_id w) db = Some r'"
    by (cases "hook_row (wh_id w) db") (auto simp: find_None_iff)
  then have "r' = r" using r(1,2) find_Some_inD [OF r'] by (intro inj_onD [OF writable_inj [OF w]]) simp_all
  then show ?thesis using r r' by simp
qed

lemma set_hook_columns_same:
  "wh_id r = wh_id w \<Longrightarrow> wh_user r = wh_user w \<Longrightarrow> wh_created r = wh_created w \<Longrightarrow> set_hook_columns w r = w"
  by (simp add: set_hook_columns_def)

lemma writable_upd:
  assumes "writable w db"
  shows "writable w (db\<lparr>wd_hooks := upd_where (\<lambda>r. wh_id r = wh_id w) (set_hook_columns v) (wd_hooks db)\<rparr>)"
proof -
  let ?hooks = "upd_where (\<lambda>r. wh_id r = wh_id w) (set_hook_columns v) (wd_hooks db)"
  obtain r where r: "r \<in> set (wd_hooks db)" "wh_id r = wh_id w" "wh_user r = wh_user w" "wh_created r = wh_created w"
    using assms by (auto simp: writable_def)
  then have "set_hook_columns v r \<in> set ?hooks" by (simp add: set_upd_where)
  then have "\<exists>r \<in> set ?hooks. wh_id r = wh_id w \<and> wh_user r = wh_user w \<and> wh_created r = wh_created w"
    using r by (intro bexI [of _ "set_hook_columns v r"]) (simp_all add: set_hook_columns_def)
  moreover have "\<forall>r \<in> set ?hooks. wh_id r \<noteq> wh_id w \<longrightarrow> (wh_user r, wh_name r) \<noteq> (wh_user w, wh_name w)"
  proof (intro ballI impI)
    fix x assume "x \<in> set ?hooks" "wh_id x \<noteq> wh_id w"
    then show "(wh_user x, wh_name x) \<noteq> (wh_user w, wh_name w)"
    proof (cases rule: in_upd_whereE)
      case same
      then show ?thesis using assms \<open>wh_id x \<noteq> wh_id w\<close> unfolding writable_def by blast
    next
      case (changed r0)
      then show ?thesis using \<open>wh_id x \<noteq> wh_id w\<close> by (simp add: set_hook_columns_def)
    qed
  qed
  moreover have "distinct (map wh_id ?hooks)" using assms by (simp add: writable_def set_hook_columns_def)
  ultimately show ?thesis using assms by (simp add: writable_def)
qed

text \<open>A webhook that is written back replaces the row, whatever the row was.\<close>

lemma write_back:
  assumes "writable w db"
  shows "hook_row (wh_id w) (try_hook_Update (\<lambda>_. False) w db) = Some w"
    and "writable w (try_hook_Update (\<lambda>_. False) w db)"
proof -
  let ?here = "\<lambda>r. wh_id r = wh_id w"
  obtain r where r: "hook_row (wh_id w) db = Some r" "wh_user r = wh_user w" "wh_created r = wh_created w"
    using writable_row [OF assms] by blast
  have in_r: "r \<in> set (wd_hooks db)" "wh_id r = wh_id w" using find_Some_inD [OF r(1)] by simp_all
  have same: "x = r" if "x \<in> set (wd_hooks db)" "wh_id x = wh_id w" for x
    using that in_r by (intro inj_onD [OF writable_inj [OF assms]]) simp_all
  have clash: "\<not> list_ex (\<lambda>r. ?here r \<and> list_ex (\<lambda>r'. \<not> ?here r' \<and> wh_user r' = wh_user r \<and> wh_name r' = wh_name w)
      (wd_hooks db)) (wd_hooks db)"
  proof
    assume "list_ex (\<lambda>r. ?here r \<and> list_ex (\<lambda>r'. \<not> ?here r' \<and> wh_user r' = wh_user r \<and> wh_name r' = wh_name w)
      (wd_hooks db)) (wd_hooks db)"
    then obtain x x' where "x \<in> set (wd_hooks db)" "wh_id x = wh_id w" "x' \<in> set (wd_hooks db)"
        "wh_id x' \<noteq> wh_id w" "wh_user x' = wh_user x" "wh_name x' = wh_name w"
      unfolding list_ex_iff by blast
    then show False using assms same [of x] r(2) unfolding writable_def by (metis prod.inject)
  qed
  have "list_ex ?here (wd_hooks db)" "hook_columns_ok w"
    using in_r assms unfolding list_ex_iff writable_def by blast+
  then have upd: "try_hook_Update (\<lambda>_. False) w db
      = db\<lparr>wd_hooks := upd_where ?here (set_hook_columns w) (wd_hooks db)\<rparr>"
    using clash by (simp only: try_hook_Update_def hook_Update_def Let_def sum.case if_True if_False simp_thms)
  have "hook_row (wh_id w) (try_hook_Update (\<lambda>_. False) w db) = Some (set_hook_columns w r)"
    using r(1) by (simp add: upd find_upd_where set_hook_columns_def)
  then show row: "hook_row (wh_id w) (try_hook_Update (\<lambda>_. False) w db) = Some w"
    using in_r r by (simp add: set_hook_columns_same)
  show "writable w (try_hook_Update (\<lambda>_. False) w db)" unfolding upd by (rule writable_upd [OF assms])
qed

lemma try_hook_attempt_Update_hooks [simp]: "wd_hooks (try_hook_attempt_Update down a db) = wd_hooks db"
  by (auto simp: try_hook_attempt_Update_def hook_attempt_Update_def split: option.split)

lemma writable_hooks: "wd_hooks db' = wd_hooks db \<Longrightarrow> writable w db' = writable w db"
  by (simp add: writable_def)

lemma writable_cong:
  "wh_id v = wh_id w \<Longrightarrow> wh_user v = wh_user w \<Longrightarrow> wh_created v = wh_created w \<Longrightarrow> wh_name v = wh_name w \<Longrightarrow>
   hook_columns_ok v = hook_columns_ok w \<Longrightarrow> writable v db = writable w db"
  by (simp add: writable_def)

lemma marks_keep [simp]:
  "wh_id (wh_MarkAsSuccessful now ms w) = wh_id w" "wh_id (wh_MarkAsFailed now w) = wh_id w"
  "CanDeliver (wh_MarkAsSuccessful now ms w) = CanDeliver w"
  by (simp_all add: wh_MarkAsSuccessful_def wh_MarkAsFailed_def CanDeliver_def Let_def)

lemma marks_writable [simp]:
  "writable (wh_MarkAsSuccessful now ms w) db = writable w db" "writable (wh_MarkAsFailed now w) db = writable w db"
  by (rule writable_cong; simp add: wh_MarkAsSuccessful_def wh_MarkAsFailed_def hook_columns_ok_def Let_def)+

text \<open>
  Property C34. A successful delivery during which no statement fails writes the webhook back as it was when the
  job was made, if its row is still there and the name it had is still free: whatever has been changed since is
  undone, and in particular a webhook that its owner has disabled in the meantime is enabled and active again.
\<close>
theorem delivery_undoes_changes:
  assumes "SendWebhook (de_parse_url env) (de_hmac env) (de_exchange env) now (job_request env j) = Inr code"
    and "CanDeliver (dj_hook j)" and "writable (dj_hook j) db"
    and "DisableWebhook down now' (wh_id (dj_hook j)) (wh_user (dj_hook j)) db = (None, db1)"
  shows "\<exists>r db2 r2. List.find (\<lambda>r. wh_id r = wh_id (dj_hook j)) (wd_hooks db1) = Some r \<and> \<not> CanDeliver r \<and>
    DeliverWebhook (\<lambda>_. False) env cfg now j db1 = Some (None, db2) \<and>
    List.find (\<lambda>r. wh_id r = wh_id (dj_hook j)) (wd_hooks db2) = Some r2 \<and> CanDeliver r2 \<and>
    r2 = wh_MarkAsSuccessful now (de_ms env) (dj_hook j)"
proof -
  let ?w = "dj_hook j" and ?w2 = "wh_MarkAsSuccessful now (de_ms env) (dj_hook j)"
  let ?a = "wa_MarkAsSent now code (de_ms env) (dj_attempt j)"
  obtain r where r: "hook_row (wh_id ?w) db = Some r" "wh_user r = wh_user ?w" "wh_created r = wh_created ?w"
    using writable_row [OF assms(3)] by blast
  have id: "wh_id r = wh_id ?w" using find_Some_inD [OF r(1)] by simp
  let ?d = "wh_MarkAsDisabled now' r"
  have "own_hook down (wh_id ?w) (wh_user ?w) db = Inr r"
    using assms(4) r by (auto simp: DisableWebhook_def own_hook_def hook_GetByID_def split: if_splits)
  then have "hook_Update down ?d db = Inr db1"
    using assms(4) by (auto simp: DisableWebhook_def split: sum.splits)
  then have db1: "db1 = db\<lparr>wd_hooks := upd_where (\<lambda>x. wh_id x = wh_id ?w) (set_hook_columns ?d) (wd_hooks db)\<rparr>"
    using id by (auto simp: hook_Update_def Let_def wh_MarkAsDisabled_def split: if_splits)
  then have row1: "hook_row (wh_id ?w) db1 = Some (set_hook_columns ?d r)"
    using r(1) by (simp add: find_upd_where set_hook_columns_def)
  have "writable ?w db1" unfolding db1 by (rule writable_upd [OF assms(3)])
  then have "writable ?w2 (try_hook_attempt_Update (\<lambda>_. False) ?a db1)"
    by (simp add: writable_hooks [of "try_hook_attempt_Update (\<lambda>_. False) ?a db1" db1])
  from write_back(1) [OF this]
  have "hook_row (wh_id ?w) (try_hook_Update (\<lambda>_. False) ?w2 (try_hook_attempt_Update (\<lambda>_. False) ?a db1)) = Some ?w2"
    by simp
  moreover have "DeliverWebhook (\<lambda>_. False) env cfg now j db1
      = Some (None, try_hook_Update (\<lambda>_. False) ?w2 (try_hook_attempt_Update (\<lambda>_. False) ?a db1))"
    by (simp add: DeliverWebhook_def assms(1))
  moreover have "\<not> CanDeliver (set_hook_columns ?d r)"
    by (simp add: CanDeliver_def set_hook_columns_def wh_MarkAsDisabled_def)
  ultimately show ?thesis using row1 assms(2) by auto
qed

definition demo_hook_db :: wh_db where
  "demo_hook_db = \<lparr>wd_hooks = [demo_hook], wd_attempts = []\<rparr>"

lemma demo_writable: "writable (dj_hook demo_job) demo_hook_db"
proof -
  have "char_count ''ops'' = 3" "char_count ''https://a'' = 9" "char_count ''POST'' = 4" by code_simp+
  then show ?thesis
    by (simp add: writable_def demo_hook_db_def demo_job_def demo_hook_def hook_columns_ok_def)
qed

theorem delivery_undoes_changes_witness:
  "\<exists>db1 db2 r2. DisableWebhook (\<lambda>_. False) 5 1 7 demo_hook_db = (None, db1) \<and>
     DeliverWebhook (\<lambda>_. False) (demo_delivery_env 200) default_delivery_cfg 6 demo_job db1 = Some (None, db2) \<and>
     List.find (\<lambda>r. wh_id r = 1) (wd_hooks db2) = Some r2 \<and> CanDeliver r2"
proof -
  have job: "wh_id (dj_hook demo_job) = 1" "wh_user (dj_hook demo_job) = 7" "CanDeliver (dj_hook demo_job)"
    by (simp_all add: demo_job_def demo_hook_def CanDeliver_def)
  have "fst (DisableWebhook (\<lambda>_. False) 5 1 7 demo_hook_db) = None"
    using demo_writable by (simp add: DisableWebhook_def own_hook_def hook_GetByID_def hook_Update_def demo_hook_db_def
        demo_hook_def wh_MarkAsDisabled_def Let_def writable_def demo_job_def hook_columns_ok_def)
  then obtain db1 where d: "DisableWebhook (\<lambda>_. False) 5 1 7 demo_hook_db = (None, db1)"
    by (metis prod.collapse)
  show ?thesis
    using delivery_undoes_changes [OF _ job(3) demo_writable, of "demo_delivery_env 200" 6 200 "\<lambda>_. False" 5 db1 default_delivery_cfg]
      d by (auto simp: demo_send job)
qed

section \<open>Failures\<close>

text \<open>
  A delivery that fails in a way that is worth a retry is over: its attempt is stored as failed,
  and neither the webhook nor its count of failures changes, so that a receiver that always times
  out or answers 500 never disables a webhook.
\<close>
theorem transient_failure_is_final:
  assumes "SendWebhook (de_parse_url env) (de_hmac env) (de_exchange env) now (job_request env j) = Inl err"
    and "shouldRetry err" and "DeliverWebhook (\<lambda>_. False) env cfg now j db = Some (e, db')"
    and "a \<in> set (wd_attempts db)" and "wa_id a = wa_id (dj_attempt j)" and "char_count (de_text env err) \<le> 100"
  shows "wd_hooks db' = wd_hooks db \<and>
    (\<exists>a' \<in> set (wd_attempts db'). wa_id a' = wa_id a \<and> wa_status a' = WaFailed \<and>
      wa_retries a' = wa_retries (dj_attempt j) + 1 \<and> wa_next a' \<noteq> None)"
proof -
  obtain i where i: "retry_index cfg (wa_retries (dj_attempt j)) = Some i"
    using assms(1-3) by (auto simp: DeliverWebhook_def delivery_scheduleRetry_def split: option.splits)
  let ?a = "wa_MarkAsFailed (de_text env err) (de_text env err)
    (wa_ScheduleRetry (now + dc_intervals cfg ! i) (wa_retries (dj_attempt j) + 1) (dj_attempt j))"
  have id: "wa_id ?a = wa_id a" "wa_code ?a = Some (de_text env err)"
    by (simp_all add: wa_MarkAsFailed_def wa_ScheduleRetry_def assms(5))
  have "hook_attempt_Update (\<lambda>_. False) ?a db
      = Inr (db\<lparr>wd_attempts := upd_where (\<lambda>r. wa_id r = wa_id a) (set_hook_attempt_columns ?a) (wd_attempts db)\<rparr>)"
    using assms(4,6) id by (auto simp: hook_attempt_Update_def list_ex_iff)
  then have db': "db' = db\<lparr>wd_attempts := upd_where (\<lambda>r. wa_id r = wa_id a) (set_hook_attempt_columns ?a) (wd_attempts db)\<rparr>"
    using assms(1-3) i by (simp add: DeliverWebhook_def delivery_scheduleRetry_def Let_def)
  have "set_hook_attempt_columns ?a a \<in> set (wd_attempts db')" using assms(4) by (simp add: db' set_upd_where)
  then show ?thesis
    by (intro conjI bexI [of _ "set_hook_attempt_columns ?a a"])
      (simp_all add: db' set_hook_attempt_columns_def wa_MarkAsFailed_def wa_ScheduleRetry_def)
qed

theorem transient_failure_is_final_witness:
  "wd_hooks (snd (the (DeliverWebhook (\<lambda>_. False) (demo_delivery_env 500) default_delivery_cfg 6 demo_job
     (demo_hook_db\<lparr>wd_attempts := [dj_attempt demo_job]\<rparr>)))) = [demo_hook]"
proof -
  let ?db = "demo_hook_db\<lparr>wd_attempts := [dj_attempt demo_job]\<rparr>"
  have send: "SendWebhook (de_parse_url (demo_delivery_env 500)) (de_hmac (demo_delivery_env 500)) (de_exchange (demo_delivery_env 500)) 6
      (job_request (demo_delivery_env 500) demo_job) = Inl Webhook5xxError"
    by (simp add: demo_send handleHTTPError_def)
  then have "DeliverWebhook (\<lambda>_. False) (demo_delivery_env 500) default_delivery_cfg 6 demo_job ?db \<noteq> None"
    by (simp add: DeliverWebhook_def shouldRetry_def delivery_scheduleRetry_def retry_index_def
        default_delivery_cfg_def Let_def)
  then obtain e db' where d: "DeliverWebhook (\<lambda>_. False) (demo_delivery_env 500) default_delivery_cfg 6 demo_job ?db = Some (e, db')"
    by (metis not_None_eq surj_pair)
  have "char_count (de_text (demo_delivery_env 500) Webhook5xxError) \<le> 100"
    by (simp add: demo_delivery_env_def char_count_def count_where_def)
  then show ?thesis
    using transient_failure_is_final [OF send _ d, of "dj_attempt demo_job"] d
    by (simp add: shouldRetry_def demo_hook_db_def)
qed

text \<open>
  Jobs made of one webhook before any of them is delivered, all of which fail for good.
\<close>

definition deliver_all :: "delivery_env \<Rightarrow> delivery_cfg \<Rightarrow> time \<Rightarrow> delivery_job list \<Rightarrow> wh_db \<Rightarrow> wh_db" where
  "deliver_all env cfg now js db =
     fold (\<lambda>j db. case DeliverWebhook (\<lambda>_. False) env cfg now j db of None \<Rightarrow> db | Some (e, db') \<Rightarrow> db') js db"

lemma permanent_failure_writes:
  assumes "SendWebhook (de_parse_url env) (de_hmac env) (de_exchange env) now (job_request env j) = Inl err"
    and "\<not> shouldRetry err" and "writable (dj_hook j) db"
  shows "\<exists>e db'. DeliverWebhook (\<lambda>_. False) env cfg now j db = Some (e, db') \<and> writable (dj_hook j) db' \<and>
    hook_row (wh_id (dj_hook j)) db' = Some (wh_MarkAsFailed now (dj_hook j))"
proof -
  let ?db1 = "try_hook_attempt_Update (\<lambda>_. False) (wa_MarkAsFailed ''PERMANENT_ERROR'' (de_text env err) (dj_attempt j)) db"
  let ?w = "wh_MarkAsFailed now (dj_hook j)"
  have w: "writable ?w ?db1" using assms(3) by (simp add: writable_hooks [of ?db1 db])
  from write_back [OF w] show ?thesis
    by (simp add: DeliverWebhook_def assms(1,2) updateWebhookFailureStats_def)
qed

text \<open>
  Any number of jobs that are made of a webhook before the first of them is delivered, and that
  all fail for good, count as one failure, since each writes back the same old count plus one: a
  webhook with no failures so far stays active after a burst of failures of any length.
\<close>
theorem burst_of_failures_counts_once:
  assumes "js \<noteq> []" and "\<forall>j \<in> set js. dj_hook j = w" and "writable w db"
    and "\<forall>j \<in> set js. \<exists>err. SendWebhook (de_parse_url env) (de_hmac env) (de_exchange env) now (job_request env j)
      = Inl err \<and> \<not> shouldRetry err"
  shows "List.find (\<lambda>r. wh_id r = wh_id w) (wd_hooks (deliver_all env cfg now js db)) = Some (wh_MarkAsFailed now w) \<and>
    (wh_streak w < 4 \<longrightarrow> CanDeliver (wh_MarkAsFailed now w) = CanDeliver w)"
proof
  show "hook_row (wh_id w) (deliver_all env cfg now js db) = Some (wh_MarkAsFailed now w)"
    using assms
  proof (induction js arbitrary: db)
    case (Cons j js)
    obtain err where "SendWebhook (de_parse_url env) (de_hmac env) (de_exchange env) now (job_request env j) = Inl err"
        "\<not> shouldRetry err"
      using Cons.prems(4) by auto
    then obtain e db' where d: "DeliverWebhook (\<lambda>_. False) env cfg now j db = Some (e, db')" "writable w db'"
        "hook_row (wh_id w) db' = Some (wh_MarkAsFailed now w)"
      using permanent_failure_writes [of env now j err db cfg] Cons.prems(2,3) by auto
    show ?case
    proof (cases js)
      case Nil
      then show ?thesis using d by (simp add: deliver_all_def)
    next
      case (Cons j' js')
      then have "hook_row (wh_id w) (deliver_all env cfg now js db') = Some (wh_MarkAsFailed now w)"
        using Cons.prems d(2) by (intro Cons.IH) auto
      then show ?thesis using d(1) by (simp add: deliver_all_def)
    qed
  qed simp
  show "wh_streak w < 4 \<longrightarrow> CanDeliver (wh_MarkAsFailed now w) = CanDeliver w"
    by (simp add: wh_MarkAsFailed_def CanDeliver_def Let_def)
qed

theorem burst_of_failures_counts_once_witness:
  "\<exists>r. List.find (\<lambda>r. wh_id r = 1) (wd_hooks (deliver_all (demo_delivery_env 400) default_delivery_cfg 6
     (replicate 100 demo_job) demo_hook_db)) = Some r \<and> wh_failures r = 1 \<and> CanDeliver r"
  using burst_of_failures_counts_once [of "replicate 100 demo_job" "dj_hook demo_job" demo_hook_db "demo_delivery_env 400" 6
      default_delivery_cfg]
  by (simp add: demo_writable demo_send handleHTTPError_def shouldRetry_def)
    (simp add: demo_job_def demo_hook_def wh_MarkAsFailed_def CanDeliver_def)

section \<open>Statistics\<close>

text \<open>An outcome of a delivery: when, and the milliseconds of a success.\<close>

fun mark_outcome :: "time \<times> int option \<Rightarrow> webhook \<Rightarrow> webhook" where
  "mark_outcome (now, None) w = wh_MarkAsFailed now w"
| "mark_outcome (now, Some ms) w = wh_MarkAsSuccessful now ms w"

lemma mark_outcome_count:
  "wh_total (mark_outcome x w) = wh_total w + (if snd x \<noteq> None then 1 else 0)"
  "wh_failures (mark_outcome x w) = wh_failures w + (if snd x = None then 1 else 0)"
  by (cases "(x, w)" rule: mark_outcome.cases; simp add: wh_MarkAsFailed_def wh_MarkAsSuccessful_def Let_def)+

lemma mark_outcomes_count:
  "wh_total (fold mark_outcome os w) = wh_total w + int (count_where (\<lambda>x. snd x \<noteq> None) os)"
  "wh_failures (fold mark_outcome os w) = wh_failures w + int (count_where (\<lambda>x. snd x = None) os)"
  by (induction os arbitrary: w) (simp_all add: mark_outcome_count count_where_def)

text \<open>
  The statistics that \<open>GetWebhookStats\<close> reports count only the successful deliveries as
  sent, and subtract the failed ones from them: a webhook with one success and three failures is
  reported with 1 sent, -2 successful and a success rate of -200 per cent.
\<close>
theorem stats_subtract_failures:
  assumes "own_hook down i u db = Inr (fold mark_outcome os w)" and "wh_total w = 0" and "wh_failures w = 0"
    and "GetWebhookStats down i u db = Inr s"
  shows "hs_total s = int (count_where (\<lambda>x. snd x \<noteq> None) os) \<and>
    hs_failed s = int (count_where (\<lambda>x. snd x = None) os) \<and>
    hs_ok s = int (count_where (\<lambda>x. snd x \<noteq> None) os) - int (count_where (\<lambda>x. snd x = None) os) \<and>
    hs_rate s = hook_rate (hs_ok s) (hs_total s)"
  using assms by (auto simp: GetWebhookStats_def mark_outcomes_count)

theorem stats_subtract_failures_witness:
  "\<exists>s. GetWebhookStats (\<lambda>_. False) 1 7 \<lparr>wd_hooks = [fold mark_outcome [(1, Some 20), (2, None), (3, None), (4, None)]
     demo_hook], wd_attempts = []\<rparr> = Inr s \<and> hs_total s = 1 \<and> hs_ok s = - 2"
proof -
  let ?os = "[(1, Some 20), (2, None), (3, None), (4, None)] :: (time \<times> int option) list"
  let ?db = "\<lparr>wd_hooks = [fold mark_outcome ?os demo_hook], wd_attempts = []\<rparr>"
  have own: "own_hook (\<lambda>_. False) 1 7 ?db = Inr (fold mark_outcome ?os demo_hook)"
    by (simp add: own_hook_def hook_GetByID_def wh_MarkAsFailed_def wh_MarkAsSuccessful_def demo_hook_def Let_def)
  then obtain s where "GetWebhookStats (\<lambda>_. False) 1 7 ?db = Inr s" by (simp add: GetWebhookStats_def)
  then show ?thesis using stats_subtract_failures [OF own, of s]
    by (simp add: demo_hook_def count_where_def)
qed

section \<open>Limits\<close>

lemma hook_Create_ok:
  "hook_columns_ok w \<Longrightarrow> \<forall>r \<in> set (wd_hooks db). wh_id r \<noteq> wh_id w \<and> (wh_user r, wh_name r) \<noteq> (wh_user w, wh_name w) \<Longrightarrow>
   hook_Create (\<lambda>_. False) w db = Inr (db\<lparr>wd_hooks := wd_hooks db @ [w]\<rparr>)"
  by (auto simp: hook_Create_def list_ex_iff)

text \<open>
  Cloning is not limited: a user whose subscription allows no further webhook, so that
  \<open>CreateWebhook\<close> refuses every one, can clone one of his under any free name, with any
  URL that fits its column.
\<close>
theorem clone_bypasses_limit:
  assumes "CheckWebhookLimit subs u (count_where (\<lambda>w. wh_user w = u) (wd_hooks db)) = Inr False"
    and "own_hook (\<lambda>_. False) i u db = Inr w" and "hook_columns_ok w"
    and "char_count name \<le> 255" and "char_count url \<le> 2048"
    and "\<forall>r \<in> set (wd_hooks db). wh_id r \<noteq> new_id \<and> (wh_user r, wh_name r) \<noteq> (u, name)"
  shows "(chr_user r = u \<longrightarrow> (\<exists>e. CreateWebhook (\<lambda>_. False) subs parse_url encrypt k now r db = (Inl e, db))) \<and>
    (\<exists>c db'. CloneWebhook (\<lambda>_. False) new_id now i u name url db = (Inr c, db') \<and> wh_url c = url \<and>
      count_where (\<lambda>w. wh_user w = u) (wd_hooks db') = count_where (\<lambda>w. wh_user w = u) (wd_hooks db) + 1)"
proof
  show "chr_user r = u \<longrightarrow> (\<exists>e. CreateWebhook (\<lambda>_. False) subs parse_url encrypt k now r db = (Inl e, db))"
  proof
    assume r: "chr_user r = u"
    show "\<exists>e. CreateWebhook (\<lambda>_. False) subs parse_url encrypt k now r db = (Inl e, db)"
    proof (cases "chr_ToModel parse_url k now r")
      case m: (Inr w0)
      show ?thesis
      proof (cases "encrypt_secret encrypt (chr_secret r) w0")
        case (Inr w')
        have "wh_user w0 = u" using m r
          by (auto simp: chr_ToModel_def NewWebhookIntegration_def Let_def split: option.splits sum.splits)
        then have "wh_user w' = u" using Inr
          by (auto simp: encrypt_secret_def split: option.splits if_splits)
        then show ?thesis using m Inr assms(1)
          by (cases "list_ex (\<lambda>w. wh_user w = u \<and> wh_name w = wh_name w') (wd_hooks db)")
            (simp_all add: CreateWebhook_def hook_ExistsByName_def hook_CountByUserID_def)
      qed (simp add: CreateWebhook_def m)
    qed (simp add: CreateWebhook_def)
  qed
  let ?c = "cloned_hook new_id now name url w"
  have "wh_user w = u" using assms(2) by (auto simp: own_hook_def split: sum.splits if_splits)
  then have c: "wh_id ?c = new_id" "wh_user ?c = u" "wh_name ?c = name" "wh_url ?c = url" "hook_columns_ok ?c"
    using assms(3-5) by (auto simp: cloned_hook_def hook_columns_ok_def)
  have "hook_Create (\<lambda>_. False) ?c db = Inr (db\<lparr>wd_hooks := wd_hooks db @ [?c]\<rparr>)"
    using assms(6) c by (intro hook_Create_ok) auto
  then show "\<exists>c db'. CloneWebhook (\<lambda>_. False) new_id now i u name url db = (Inr c, db') \<and> wh_url c = url \<and>
      count_where (\<lambda>w. wh_user w = u) (wd_hooks db') = count_where (\<lambda>w. wh_user w = u) (wd_hooks db) + 1"
    using c by (simp add: CloneWebhook_def assms(2) Let_def count_where_def)
qed

definition full_hook_db :: wh_db where
  "full_hook_db = \<lparr>wd_hooks = map (\<lambda>(i, name). demo_hook\<lparr>wh_id := i, wh_name := name\<rparr>)
     [(1, ''1''), (2, ''2''), (3, ''3''), (4, ''4''), (5, ''5'')], wd_attempts = []\<rparr>"

theorem clone_bypasses_limit_witness:
  "\<exists>c db'. CloneWebhook (\<lambda>_. False) 9 5 1 7 ''copy'' ''javascript:x'' full_hook_db = (Inr c, db') \<and>
     wh_url c = ''javascript:x'' \<and> count_where (\<lambda>w. wh_user w = 7) (wd_hooks db') = 6"
proof -
  let ?subs = "\<lambda>_. Some \<lparr>bs_tier = TierFree, bs_active = True, bs_plan = []\<rparr>"
  have c: "char_count ''copy'' = 4" "char_count ''javascript:x'' = 12" "char_count ''1'' = 1"
      "char_count ''https://a'' = 9" "char_count ''POST'' = 4" by code_simp+
  note hooks = full_hook_db_def
  have own: "own_hook (\<lambda>_. False) 1 7 full_hook_db = Inr (demo_hook\<lparr>wh_id := 1, wh_name := ''1''\<rparr>)"
    by (simp add: own_hook_def hook_GetByID_def hooks) (simp add: demo_hook_def)
  have count: "count_where (\<lambda>w. wh_user w = 7) (wd_hooks full_hook_db) = 5"
    by (simp add: hooks count_where_def demo_hook_def)
  have "CheckWebhookLimit ?subs 7 (count_where (\<lambda>w. wh_user w = 7) (wd_hooks full_hook_db)) = Inr False"
    by (simp add: count CheckWebhookLimit_def)
  moreover have "hook_columns_ok (demo_hook\<lparr>wh_id := 1, wh_name := ''1''\<rparr>)"
    using c by (simp add: hook_columns_ok_def demo_hook_def)
  moreover have "char_count ''copy'' \<le> 255" "char_count ''javascript:x'' \<le> 2048" using c by simp_all
  moreover have "\<forall>r \<in> set (wd_hooks full_hook_db). wh_id r \<noteq> 9 \<and> (wh_user r, wh_name r) \<noteq> (7, ''copy'')"
    by (simp add: hooks)
  ultimately have "\<exists>c db'. CloneWebhook (\<lambda>_. False) 9 5 1 7 ''copy'' ''javascript:x'' full_hook_db = (Inr c, db') \<and>
      wh_url c = ''javascript:x'' \<and> count_where (\<lambda>w. wh_user w = 7) (wd_hooks db')
        = count_where (\<lambda>w. wh_user w = 7) (wd_hooks full_hook_db) + 1"
    by (rule clone_bypasses_limit [OF _ own, THEN conjunct2])
  then show ?thesis by (simp add: count)
qed

section \<open>The pool\<close>

text \<open>A pool that has been stopped never works again: a job that is submitted to it panics.\<close>

lemma stopped_pool_is_dead:
  assumes "pool_Stop drained p = (ok, p')" and "wp_started p" and "\<not> wp_stopped p" and "pool_Start n p' = (True, p'')"
  shows "wp_workers p'' = 0 \<and> pool_Submit capacity queued cancelled p'' = {SubmitPanics} \<and> pool_Stop d p'' = (True, p''\<lparr>wp_started := False\<rparr>)"
  using assms by (auto simp: pool_Stop_def pool_Start_def pool_Submit_def split: if_splits)

end
