(* ===== verification/AuthModel.thy ===== *)
theory AuthModel
  imports Prelude
begin

text \<open>
  The entities of the authentication service: \<open>auth-service/internal/model/*.go\<close> (users, sessions,
  refresh tokens, linked accounts, audit entries, organizations, memberships, invites) and the tokens of
  \<open>infrastructure/jwt\<close>. An identifier is a UUID, here a number; \<open>uuid.Nil\<close> is 0. The text of a UUID is
  the number itself. Signing and parsing a JWT, rounding its dates, and SHA-256 are arguments.
\<close>

section \<open>Users\<close>

record auth_user =
  au_id :: nat
  au_email :: string
  au_hash :: string
  au_name :: string
  au_tier :: string
  au_created :: time
  au_updated :: time
  au_login :: "time option"
  au_attempts :: int
  au_locked :: "time option"

definition user_IsLocked :: "time \<Rightarrow> auth_user \<Rightarrow> bool" where
  "user_IsLocked now u = (case au_locked u of None \<Rightarrow> False | Some t \<Rightarrow> now < t)"

definition user_ShouldLock :: "int \<Rightarrow> auth_user \<Rightarrow> bool" where
  "user_ShouldLock limit u \<longleftrightarrow> limit \<le> au_attempts u"

definition user_ResetLoginAttempts :: "auth_user \<Rightarrow> auth_user" where
  "user_ResetLoginAttempts u = u\<lparr>au_attempts := 0, au_locked := None\<rparr>"

definition user_IncrementLoginAttempts :: "auth_user \<Rightarrow> auth_user" where
  "user_IncrementLoginAttempts u = u\<lparr>au_attempts := au_attempts u + 1\<rparr>"

definition user_UpdateLastLogin :: "time \<Rightarrow> auth_user \<Rightarrow> auth_user" where
  "user_UpdateLastLogin now u = u\<lparr>au_login := Some now, au_updated := now\<rparr>"

definition user_Lock :: "time \<Rightarrow> time \<Rightarrow> auth_user \<Rightarrow> auth_user" where
  "user_Lock now until u = u\<lparr>au_locked := Some until, au_updated := now\<rparr>"

definition NewUser :: "nat \<Rightarrow> time \<Rightarrow> string \<Rightarrow> string \<Rightarrow> string \<Rightarrow> string \<Rightarrow> auth_user" where
  "NewUser i now email hash name tier =
     \<lparr>au_id = i, au_email = email, au_hash = hash, au_name = name, au_tier = tier, au_created = now,
      au_updated = now, au_login = None, au_attempts = 0, au_locked = None\<rparr>"

section \<open>Sessions, refresh tokens\<close>

record auth_session =
  se_id :: nat
  se_user :: nat
  se_device :: string
  se_ip :: string
  se_created :: time
  se_active :: time
  se_expires :: time

definition session_IsExpired :: "time \<Rightarrow> auth_session \<Rightarrow> bool" where
  "session_IsExpired now s \<longleftrightarrow> se_expires s < now"

definition session_UpdateLastActive :: "time \<Rightarrow> auth_session \<Rightarrow> auth_session" where
  "session_UpdateLastActive now s = s\<lparr>se_active := now\<rparr>"

definition NewSession :: "nat \<Rightarrow> time \<Rightarrow> nat \<Rightarrow> string \<Rightarrow> string \<Rightarrow> duration \<Rightarrow> auth_session" where
  "NewSession i now u device ip d =
     \<lparr>se_id = i, se_user = u, se_device = device, se_ip = ip, se_created = now, se_active = now,
      se_expires = now + d\<rparr>"

record refresh_token =
  rt_id :: nat
  rt_user :: nat
  rt_hash :: string
  rt_device :: string
  rt_ip :: string
  rt_expires :: time
  rt_revoked :: "time option"
  rt_created :: time

definition token_IsValid :: "time \<Rightarrow> refresh_token \<Rightarrow> bool" where
  "token_IsValid now t \<longleftrightarrow> rt_revoked t = None \<and> now < rt_expires t"

definition token_Revoke :: "time \<Rightarrow> refresh_token \<Rightarrow> refresh_token" where
  "token_Revoke now t = t\<lparr>rt_revoked := Some now\<rparr>"

definition NewRefreshToken ::
    "nat \<Rightarrow> time \<Rightarrow> nat \<Rightarrow> string \<Rightarrow> string \<Rightarrow> string \<Rightarrow> duration \<Rightarrow> refresh_token" where
  "NewRefreshToken i now u hash device ip d =
     \<lparr>rt_id = i, rt_user = u, rt_hash = hash, rt_device = device, rt_ip = ip, rt_expires = now + d,
      rt_revoked = None, rt_created = now\<rparr>"

section \<open>Linked accounts, audit\<close>

record oauth_account =
  oa_id :: nat
  oa_user :: nat
  oa_provider :: string
  oa_subject :: string
  oa_email :: string
  oa_profile :: "(string \<times> string) list"
  oa_created :: time

definition NewOAuthAccount ::
    "nat \<Rightarrow> time \<Rightarrow> nat \<Rightarrow> string \<Rightarrow> string \<Rightarrow> string \<Rightarrow> (string \<times> string) list \<Rightarrow> oauth_account" where
  "NewOAuthAccount i now u provider subject email profile =
     \<lparr>oa_id = i, oa_user = u, oa_provider = provider, oa_subject = subject, oa_email = email,
      oa_profile = profile, oa_created = now\<rparr>"

definition ProfileDataValue :: "string \<Rightarrow> oauth_account \<Rightarrow> string option" where
  "ProfileDataValue key a = map_of (oa_profile a) key"

datatype audit_event =
    EvLogin | EvLogout | EvOAuthCallback | EvSessionCreated | EvSessionRevoked | EvAccountLocked
  | EvAccountUnlocked | EvTokenRefresh | EvTokenValidate | EvRegister | EvMemberInvited
  | EvInviteAccepted | EvInviteRevoked | EvInviteResent | EvMemberRoleChanged | EvMemberRemoved
  | EvOwnershipTransferred | EvMemberLeft | EvOrganizationCreated

text \<open>\<open>al_ip\<close> is \<open>None\<close> for the column's \<open>NULL\<close>.\<close>

record audit_log =
  al_id :: nat
  al_user :: "nat option"
  al_event :: audit_event
  al_provider :: string
  al_success :: bool
  al_ip :: "string option"
  al_agent :: string
  al_error :: string
  al_created :: time

section \<open>Organizations\<close>

datatype team_role = RoleOwner | RoleAdmin | RoleMember | RoleViewer | OtherRole string

definition role_IsValid :: "team_role \<Rightarrow> bool" where
  "role_IsValid r = (case r of OtherRole _ \<Rightarrow> False | _ \<Rightarrow> True)"

definition CanManageMembers :: "team_role \<Rightarrow> bool" where
  "CanManageMembers r \<longleftrightarrow> r = RoleOwner \<or> r = RoleAdmin"

datatype invite_status = InvitePending | InviteAccepted | InviteDeclined | InviteExpired | InviteRevoked

record organization =
  og_id :: nat
  og_name :: string
  og_owner :: nat
  og_tier :: string
  og_created :: time
  og_updated :: time

record membership =
  mb_id :: nat
  mb_org :: nat
  mb_user :: nat
  mb_role :: team_role
  mb_joined :: time
  mb_active :: "time option"

record invite =
  iv_id :: nat
  iv_org :: nat
  iv_inviter :: nat
  iv_email :: string
  iv_role :: team_role
  iv_token :: nat
  iv_status :: invite_status
  iv_created :: time
  iv_expires :: time
  iv_accepted :: "time option"
  iv_revoked :: "time option"

definition invite_IsExpired :: "time \<Rightarrow> invite \<Rightarrow> bool" where
  "invite_IsExpired now i \<longleftrightarrow> \<not> now < iv_expires i"

section \<open>Errors\<close>

datatype auth_error =
    InvalidCredentials | InvalidRefreshToken | AccountLocked | UserNotFound | UserExists
  | OAuthFailed | OAuthStateMismatch | SessionNotFound | AuthInternalError
  | UnsupportedProvider | StateStoreError

section \<open>Tokens\<close>

record claims =
  cl_user :: nat
  cl_email :: string
  cl_tier :: string
  cl_org :: nat
  cl_role :: string
  cl_id :: nat
  cl_issued :: time
  cl_expires :: time
  cl_from :: time

definition NewClaims :: "(time \<Rightarrow> time) \<Rightarrow> nat \<Rightarrow> time \<Rightarrow> nat \<Rightarrow> string \<Rightarrow> string \<Rightarrow> duration \<Rightarrow> claims" where
  "NewClaims numeric i now u email tier expiry =
     \<lparr>cl_user = u, cl_email = email, cl_tier = tier, cl_org = 0, cl_role = [], cl_id = i,
      cl_issued = numeric now, cl_expires = numeric (now + expiry), cl_from = numeric now\<rparr>"

definition WithTeamContext :: "nat \<Rightarrow> string \<Rightarrow> claims \<Rightarrow> claims" where
  "WithTeamContext org role c = c\<lparr>cl_org := org, cl_role := role\<rparr>"

text \<open>The JWT library and the configuration: \<open>SignedString\<close>, \<open>ParseWithClaims\<close> at a time,
  \<open>NewNumericDate\<close>, and the two durations.\<close>

record jwt_env =
  jw_sign :: "claims \<Rightarrow> string option"
  jw_parse :: "time \<Rightarrow> string \<Rightarrow> claims option"
  jw_numeric :: "time \<Rightarrow> time"
  jw_access :: duration
  jw_refresh :: duration

definition NewTokenService :: "string \<Rightarrow> bool" where
  "NewTokenService secret \<longleftrightarrow> \<not> length secret < 32"

definition jwt_claims ::
    "jwt_env \<Rightarrow> nat \<Rightarrow> time \<Rightarrow> nat \<Rightarrow> string \<Rightarrow> string \<Rightarrow> nat \<Rightarrow> string \<Rightarrow> duration \<Rightarrow> claims" where
  "jwt_claims j i now u email tier org role d =
     (let c = NewClaims (jw_numeric j) i now u email tier d
      in if org \<noteq> 0 then WithTeamContext org role c else c)"

text \<open>The access token gets the identifier \<open>i\<close>, the refresh token the next one.\<close>

definition jwt_generate ::
    "jwt_env \<Rightarrow> nat \<Rightarrow> time \<Rightarrow> nat \<Rightarrow> string \<Rightarrow> string \<Rightarrow> nat \<Rightarrow> string \<Rightarrow> (string \<times> string) option" where
  "jwt_generate j i now u email tier org role =
     (case jw_sign j (jwt_claims j i now u email tier org role (jw_access j)) of
        None \<Rightarrow> None
      | Some access \<Rightarrow>
          (case jw_sign j (jwt_claims j (Suc i) now u email tier org role (jw_refresh j)) of
             None \<Rightarrow> None
           | Some refresh \<Rightarrow> Some (access, refresh)))"

definition GenerateTokenPair ::
    "jwt_env \<Rightarrow> nat \<Rightarrow> time \<Rightarrow> nat \<Rightarrow> string \<Rightarrow> string \<Rightarrow> (string \<times> string) option" where
  "GenerateTokenPair j i now u email tier = jwt_generate j i now u email tier 0 []"

definition GenerateTokenPairWithTeam ::
    "jwt_env \<Rightarrow> nat \<Rightarrow> time \<Rightarrow> nat \<Rightarrow> string \<Rightarrow> string \<Rightarrow> nat \<Rightarrow> string \<Rightarrow> (string \<times> string) option" where
  "GenerateTokenPairWithTeam j i now u email tier org role = jwt_generate j i now u email tier org role"

text \<open>\<open>ParseWithClaims\<close> yields a valid token or an error; the service checks the date once more.\<close>

definition ValidateAccessToken :: "jwt_env \<Rightarrow> time \<Rightarrow> string \<Rightarrow> claims option" where
  "ValidateAccessToken j now token =
     (case jw_parse j now token of
        None \<Rightarrow> None
      | Some c \<Rightarrow> if cl_expires c < now then None else Some c)"

end
