(* ===== verification/AuthStore.thy ===== *)
theory AuthStore
  imports AuthModel
begin

text \<open>
  What the authentication service stores: the PostgreSQL tables with the constraints of
  \<open>auth-service/migrations\<close>, one definition for each statement of \<open>repository/postgres\<close>, and
  the keys of \<open>infrastructure/redis\<close>. A statement fails when \<open>down\<close> says so or when it violates a
  constraint. \<open>inet\<close> says which texts PostgreSQL takes for an address. Fresh UUIDs come from the
  counter \<open>ad_next\<close>.
\<close>

section \<open>State\<close>

datatype auth_call =
    UserCreate | UserGet nat | UserByEmail | UserUpdate | UserLastLogin | UserIncrement | UserReset
  | UserLock | UserUnlock | UserExistsCall
  | TokenCreate | TokenByHash | TokenByUser | TokenDelete | TokenRevoke
  | OAuthCreate | OAuthGet | OAuthByProvider | OAuthList | OAuthDelete
  | AuditCreate audit_event | AuditGet | AuditCount | AuditList | AuditCleanup
  | OrgCreate | OrgGet | OrgOwner
  | MemberCreate | MemberGet nat | MemberList | MemberCount | MemberRole nat | MemberDelete | MemberByEmail
  | InviteCreate | InviteGet | InviteByToken | InviteFind | InviteCount | InviteStatus
  | RedisGet | RedisSet | RedisDel | RedisSAdd | RedisSRem | RedisSMembers | RedisScan
  | Publish

type_synonym auth_faults = "auth_call \<Rightarrow> bool"

record auth_db =
  ad_users :: "auth_user list"
  ad_tokens :: "refresh_token list"
  ad_oauth :: "oauth_account list"
  ad_audit :: "audit_log list"
  ad_orgs :: "organization list"
  ad_members :: "membership list"
  ad_invites :: "invite list"
  ad_next :: nat

definition empty_auth_db :: auth_db where
  "empty_auth_db = \<lparr>ad_users = [], ad_tokens = [], ad_oauth = [], ad_audit = [], ad_orgs = [],
     ad_members = [], ad_invites = [], ad_next = 1\<rparr>"

text \<open>\<open>uuid.New()\<close> \<open>n\<close> times.\<close>

definition use_ids :: "nat \<Rightarrow> auth_db \<Rightarrow> auth_db" where
  "use_ids n db = db\<lparr>ad_next := ad_next db + n\<rparr>"

section \<open>Users\<close>

definition user_columns_ok :: "auth_user \<Rightarrow> bool" where
  "user_columns_ok u \<longleftrightarrow> char_count (au_email u) \<le> 255 \<and> char_count (au_hash u) \<le> 255 \<and>
     char_count (au_name u) \<le> 255 \<and> char_count (au_tier u) \<le> 50"

definition user_Create :: "auth_faults \<Rightarrow> auth_user \<Rightarrow> auth_db \<Rightarrow> (auth_user \<times> auth_db) option" where
  "user_Create down u db =
     (let row = u\<lparr>au_login := None, au_attempts := 0, au_locked := None\<rparr>
      in if down UserCreate \<or> \<not> user_columns_ok u
            \<or> list_ex (\<lambda>r. au_id r = au_id u \<or> au_email r = au_email u) (ad_users db)
         then None
         else Some (row, db\<lparr>ad_users := ad_users db @ [row]\<rparr>))"

definition user_GetByID :: "auth_faults \<Rightarrow> nat \<Rightarrow> auth_db \<Rightarrow> auth_user option" where
  "user_GetByID down i db =
     (if down (UserGet i) then None else List.find (\<lambda>u. au_id u = i) (ad_users db))"

definition user_GetByEmail :: "auth_faults \<Rightarrow> string \<Rightarrow> auth_db \<Rightarrow> auth_user option" where
  "user_GetByEmail down email db =
     (if down UserByEmail then None else List.find (\<lambda>u. au_email u = email) (ad_users db))"

text \<open>An \<open>UPDATE users .. WHERE id = $1\<close>; no row is no error.\<close>

definition set_user :: "nat \<Rightarrow> (auth_user \<Rightarrow> auth_user) \<Rightarrow> auth_db \<Rightarrow> auth_db" where
  "set_user i f db = db\<lparr>ad_users := upd_where (\<lambda>u. au_id u = i) f (ad_users db)\<rparr>"

definition set_user_columns :: "auth_user \<Rightarrow> auth_user \<Rightarrow> auth_user" where
  "set_user_columns u r = r\<lparr>au_email := au_email u, au_hash := au_hash u, au_name := au_name u,
     au_tier := au_tier u, au_updated := au_updated u, au_login := au_login u,
     au_attempts := au_attempts u, au_locked := au_locked u\<rparr>"

definition user_Update :: "auth_faults \<Rightarrow> auth_user \<Rightarrow> auth_db \<Rightarrow> auth_db option" where
  "user_Update down u db =
     (if down UserUpdate \<or> list_ex (\<lambda>r. au_id r = au_id u) (ad_users db) \<and>
           (\<not> user_columns_ok u \<or> list_ex (\<lambda>r. au_id r \<noteq> au_id u \<and> au_email r = au_email u) (ad_users db))
      then None
      else Some (set_user (au_id u) (set_user_columns u) db))"

definition user_row_login :: "time \<Rightarrow> auth_user \<Rightarrow> auth_user" where
  "user_row_login now u =
     u\<lparr>au_login := Some now, au_updated := now, au_attempts := 0, au_locked := None\<rparr>"

definition user_LastLogin :: "auth_faults \<Rightarrow> time \<Rightarrow> nat \<Rightarrow> auth_db \<Rightarrow> auth_db option" where
  "user_LastLogin down now i db = (if down UserLastLogin then None else Some (set_user i (user_row_login now) db))"

definition user_row_increment :: "time \<Rightarrow> auth_user \<Rightarrow> auth_user" where
  "user_row_increment now u = u\<lparr>au_attempts := au_attempts u + 1, au_updated := now\<rparr>"

definition user_Increment :: "auth_faults \<Rightarrow> time \<Rightarrow> nat \<Rightarrow> auth_db \<Rightarrow> auth_db option" where
  "user_Increment down now i db =
     (if down UserIncrement then None else Some (set_user i (user_row_increment now) db))"

definition user_row_reset :: "time \<Rightarrow> auth_user \<Rightarrow> auth_user" where
  "user_row_reset now u = u\<lparr>au_attempts := 0, au_updated := now\<rparr>"

definition user_Reset :: "auth_faults \<Rightarrow> time \<Rightarrow> nat \<Rightarrow> auth_db \<Rightarrow> auth_db option" where
  "user_Reset down now i db = (if down UserReset then None else Some (set_user i (user_row_reset now) db))"

definition user_row_lock :: "time \<Rightarrow> time \<Rightarrow> auth_user \<Rightarrow> auth_user" where
  "user_row_lock now until u = u\<lparr>au_locked := Some until, au_updated := now\<rparr>"

definition user_LockAccount :: "auth_faults \<Rightarrow> time \<Rightarrow> nat \<Rightarrow> time \<Rightarrow> auth_db \<Rightarrow> auth_db option" where
  "user_LockAccount down now i until db =
     (if down UserLock then None else Some (set_user i (user_row_lock now until) db))"

definition user_row_unlock :: "time \<Rightarrow> auth_user \<Rightarrow> auth_user" where
  "user_row_unlock now u = u\<lparr>au_locked := None, au_attempts := 0, au_updated := now\<rparr>"

definition user_UnlockAccount :: "auth_faults \<Rightarrow> time \<Rightarrow> nat \<Rightarrow> auth_db \<Rightarrow> auth_db option" where
  "user_UnlockAccount down now i db =
     (if down UserUnlock then None else Some (set_user i (user_row_unlock now) db))"

definition user_ExistsByEmail :: "auth_faults \<Rightarrow> string \<Rightarrow> auth_db \<Rightarrow> bool option" where
  "user_ExistsByEmail down email db =
     (if down UserExistsCall then None else Some (list_ex (\<lambda>u. au_email u = email) (ad_users db)))"

definition user_exists :: "auth_db \<Rightarrow> nat \<Rightarrow> bool" where
  "user_exists db i \<longleftrightarrow> list_ex (\<lambda>u. au_id u = i) (ad_users db)"

section \<open>Refresh tokens\<close>

text \<open>An empty address is no \<open>INET\<close>: it is not replaced by \<open>NULL\<close> here.\<close>

definition token_Create ::
    "auth_faults \<Rightarrow> (string \<Rightarrow> bool) \<Rightarrow> refresh_token \<Rightarrow> auth_db \<Rightarrow> auth_db option" where
  "token_Create down inet t db =
     (if down TokenCreate \<or> list_ex (\<lambda>r. rt_id r = rt_id t) (ad_tokens db) \<or> \<not> user_exists db (rt_user t)
         \<or> 255 < char_count (rt_hash t) \<or> 255 < char_count (rt_device t) \<or> \<not> inet (rt_ip t)
      then None
      else Some (db\<lparr>ad_tokens := ad_tokens db @ [t\<lparr>rt_revoked := None\<rparr>]\<rparr>))"

definition token_GetByTokenHash :: "auth_faults \<Rightarrow> string \<Rightarrow> auth_db \<Rightarrow> refresh_token option" where
  "token_GetByTokenHash down h db =
     (if down TokenByHash then None else List.find (\<lambda>t. rt_hash t = h) (ad_tokens db))"

definition token_GetByUserID :: "auth_faults \<Rightarrow> nat \<Rightarrow> auth_db \<Rightarrow> refresh_token list option" where
  "token_GetByUserID down u db =
     (if down TokenByUser then None
      else Some (newest_first rt_created
        (filter (\<lambda>t. rt_user t = u \<and> rt_revoked t = None) (ad_tokens db))))"

definition token_Delete :: "auth_faults \<Rightarrow> nat \<Rightarrow> auth_db \<Rightarrow> auth_db option" where
  "token_Delete down i db =
     (if down TokenDelete then None
      else Some (db\<lparr>ad_tokens := del_where (\<lambda>t. rt_id t = i) (ad_tokens db)\<rparr>))"

definition token_DeleteByUserID :: "auth_faults \<Rightarrow> nat \<Rightarrow> auth_db \<Rightarrow> auth_db option" where
  "token_DeleteByUserID down u db =
     (if down TokenDelete then None
      else Some (db\<lparr>ad_tokens := del_where (\<lambda>t. rt_user t = u) (ad_tokens db)\<rparr>))"

definition token_RevokeRow :: "auth_faults \<Rightarrow> time \<Rightarrow> nat \<Rightarrow> auth_db \<Rightarrow> auth_db option" where
  "token_RevokeRow down now i db =
     (if down TokenRevoke then None
      else Some (db\<lparr>ad_tokens := upd_where (\<lambda>t. rt_id t = i) (\<lambda>t. t\<lparr>rt_revoked := Some now\<rparr>) (ad_tokens db)\<rparr>))"

definition token_RevokeByUserID :: "auth_faults \<Rightarrow> time \<Rightarrow> nat \<Rightarrow> auth_db \<Rightarrow> auth_db option" where
  "token_RevokeByUserID down now u db =
     (if down TokenRevoke then None
      else Some (db\<lparr>ad_tokens := upd_where (\<lambda>t. rt_user t = u) (\<lambda>t. t\<lparr>rt_revoked := Some now\<rparr>) (ad_tokens db)\<rparr>))"

definition token_DeleteExpired :: "auth_faults \<Rightarrow> time \<Rightarrow> auth_db \<Rightarrow> auth_db option" where
  "token_DeleteExpired down now db =
     (if down TokenDelete then None
      else Some (db\<lparr>ad_tokens := del_where (\<lambda>t. rt_expires t < now) (ad_tokens db)\<rparr>))"

section \<open>Linked accounts\<close>

definition oauth_Create :: "auth_faults \<Rightarrow> oauth_account \<Rightarrow> auth_db \<Rightarrow> auth_db option" where
  "oauth_Create down a db =
     (if down OAuthCreate \<or> \<not> user_exists db (oa_user a)
         \<or> list_ex (\<lambda>r. oa_id r = oa_id a \<or> oa_provider r = oa_provider a \<and> oa_subject r = oa_subject a) (ad_oauth db)
         \<or> 50 < char_count (oa_provider a) \<or> 255 < char_count (oa_subject a) \<or> 255 < char_count (oa_email a)
      then None
      else Some (db\<lparr>ad_oauth := ad_oauth db @ [a]\<rparr>))"

definition oauth_GetByID :: "auth_faults \<Rightarrow> nat \<Rightarrow> auth_db \<Rightarrow> oauth_account option" where
  "oauth_GetByID down i db =
     (if down OAuthGet then None else List.find (\<lambda>a. oa_id a = i) (ad_oauth db))"

definition oauth_GetByProviderUserID ::
    "auth_faults \<Rightarrow> string \<Rightarrow> string \<Rightarrow> auth_db \<Rightarrow> oauth_account option" where
  "oauth_GetByProviderUserID down provider subject db =
     (if down OAuthByProvider then None
      else List.find (\<lambda>a. oa_provider a = provider \<and> oa_subject a = subject) (ad_oauth db))"

definition oauth_GetByUserID :: "auth_faults \<Rightarrow> nat \<Rightarrow> auth_db \<Rightarrow> oauth_account list option" where
  "oauth_GetByUserID down u db =
     (if down OAuthList then None
      else Some (newest_first oa_created (filter (\<lambda>a. oa_user a = u) (ad_oauth db))))"

definition oauth_Delete :: "auth_faults \<Rightarrow> nat \<Rightarrow> auth_db \<Rightarrow> auth_db option" where
  "oauth_Delete down i db =
     (if down OAuthDelete then None
      else Some (db\<lparr>ad_oauth := del_where (\<lambda>a. oa_id a = i) (ad_oauth db)\<rparr>))"

end
