(* ===== verification/TeamStore.thy ===== *)
theory TeamStore
  imports AuthStore
begin

text \<open>
  The rest of the store: the audit log, organizations, memberships and invites in PostgreSQL, and the
  sessions and OAuth states in Redis (\<open>infrastructure/redis/session_repository_impl.go\<close>,
  \<open>state_store.go\<close>). A Redis key carries the time at which it expires; reading it later finds nothing.
  The members of a set come in the order of the list.
\<close>

section \<open>Audit log\<close>

text \<open>An empty address is stored as \<open>NULL\<close>.\<close>

definition NewAuditLog ::
    "nat \<Rightarrow> time \<Rightarrow> nat option \<Rightarrow> audit_event \<Rightarrow> string \<Rightarrow> bool \<Rightarrow> string \<Rightarrow> string \<Rightarrow> string \<Rightarrow> audit_log" where
  "NewAuditLog i now u ev provider ok ip agent err =
     \<lparr>al_id = i, al_user = u, al_event = ev, al_provider = provider, al_success = ok,
      al_ip = (if ip = [] then None else Some ip), al_agent = agent, al_error = err, al_created = now\<rparr>"

definition audit_Create :: "auth_faults \<Rightarrow> (string \<Rightarrow> bool) \<Rightarrow> audit_log \<Rightarrow> auth_db \<Rightarrow> auth_db option" where
  "audit_Create down inet l db =
     (if down (AuditCreate (al_event l)) \<or> list_ex (\<lambda>r. al_id r = al_id l) (ad_audit db)
         \<or> (case al_user l of None \<Rightarrow> False | Some u \<Rightarrow> \<not> user_exists db u)
         \<or> (case al_ip l of None \<Rightarrow> False | Some ip \<Rightarrow> \<not> inet ip)
         \<or> 50 < char_count (al_provider l) \<or> 500 < char_count (al_agent l)
      then None
      else Some (db\<lparr>ad_audit := ad_audit db @ [l]\<rparr>))"

text \<open>The read statements scan the address into a string, which a \<open>NULL\<close> is not.\<close>

definition audit_GetByID :: "auth_faults \<Rightarrow> nat \<Rightarrow> auth_db \<Rightarrow> audit_log option" where
  "audit_GetByID down i db =
     (if down AuditGet then None
      else case List.find (\<lambda>l. al_id l = i) (ad_audit db) of
        None \<Rightarrow> None
      | Some l \<Rightarrow> if al_ip l = None then None else Some l)"

definition audit_page ::
    "auth_faults \<Rightarrow> (audit_log \<Rightarrow> bool) \<Rightarrow> int \<Rightarrow> int \<Rightarrow> auth_db \<Rightarrow> (audit_log list \<times> nat) option" where
  "audit_page down p limit offset db =
     (if down AuditCount \<or> down AuditList \<or> limit < 0 \<or> offset < 0 then None
      else let rows = page_of (nat limit) (nat offset) (newest_first al_created (filter p (ad_audit db)))
        in if list_ex (\<lambda>l. al_ip l = None) rows then None
           else Some (rows, count_where p (ad_audit db)))"

definition audit_GetByUserID ::
    "auth_faults \<Rightarrow> nat \<Rightarrow> int \<Rightarrow> int \<Rightarrow> auth_db \<Rightarrow> (audit_log list \<times> nat) option" where
  "audit_GetByUserID down u limit offset db = audit_page down (\<lambda>l. al_user l = Some u) limit offset db"

definition audit_GetByEventType ::
    "auth_faults \<Rightarrow> audit_event \<Rightarrow> int \<Rightarrow> int \<Rightarrow> auth_db \<Rightarrow> (audit_log list \<times> nat) option" where
  "audit_GetByEventType down ev limit offset db = audit_page down (\<lambda>l. al_event l = ev) limit offset db"

definition audit_DeleteOldLogs :: "auth_faults \<Rightarrow> time \<Rightarrow> int \<Rightarrow> auth_db \<Rightarrow> auth_db option" where
  "audit_DeleteOldLogs down now days db =
     (if down AuditCleanup then None
      else Some (db\<lparr>ad_audit := del_where (\<lambda>l. al_created l < now - 24 * hour * days) (ad_audit db)\<rparr>))"

section \<open>Organizations\<close>

definition org_Create :: "auth_faults \<Rightarrow> organization \<Rightarrow> auth_db \<Rightarrow> auth_db option" where
  "org_Create down g db =
     (if down OrgCreate \<or> list_ex (\<lambda>r. og_id r = og_id g) (ad_orgs db) \<or> \<not> user_exists db (og_owner g)
         \<or> 255 < char_count (og_name g) \<or> 50 < char_count (og_tier g)
      then None
      else Some (db\<lparr>ad_orgs := ad_orgs db @ [g]\<rparr>))"

definition org_GetByID :: "auth_faults \<Rightarrow> nat \<Rightarrow> auth_db \<Rightarrow> organization option" where
  "org_GetByID down i db = (if down OrgGet then None else List.find (\<lambda>g. og_id g = i) (ad_orgs db))"

definition org_UpdateOwner :: "auth_faults \<Rightarrow> time \<Rightarrow> nat \<Rightarrow> nat \<Rightarrow> auth_db \<Rightarrow> auth_db option" where
  "org_UpdateOwner down now i u db =
     (if down OrgOwner \<or> \<not> list_ex (\<lambda>g. og_id g = i) (ad_orgs db) \<or> \<not> user_exists db u then None
      else Some (db\<lparr>ad_orgs := upd_where (\<lambda>g. og_id g = i)
        (\<lambda>g. g\<lparr>og_owner := u, og_updated := now\<rparr>) (ad_orgs db)\<rparr>))"

section \<open>Memberships\<close>

text \<open>\<open>UNIQUE (organization_id, user_id)\<close> and \<open>idx_memberships_one_owner\<close>; the role is one of the
  enumeration.\<close>

definition member_clash :: "membership \<Rightarrow> membership \<Rightarrow> bool" where
  "member_clash m r \<longleftrightarrow> mb_id r = mb_id m \<or> mb_org r = mb_org m \<and>
     (mb_user r = mb_user m \<or> mb_role r = RoleOwner \<and> mb_role m = RoleOwner)"

definition member_Create :: "auth_faults \<Rightarrow> membership \<Rightarrow> auth_db \<Rightarrow> auth_db option" where
  "member_Create down m db =
     (if down MemberCreate \<or> \<not> role_IsValid (mb_role m) \<or> \<not> user_exists db (mb_user m)
         \<or> \<not> list_ex (\<lambda>g. og_id g = mb_org m) (ad_orgs db) \<or> list_ex (member_clash m) (ad_members db)
      then None
      else Some (db\<lparr>ad_members := ad_members db @ [m]\<rparr>))"

definition is_member :: "nat \<Rightarrow> nat \<Rightarrow> membership \<Rightarrow> bool" where
  "is_member g u m \<longleftrightarrow> mb_org m = g \<and> mb_user m = u"

text \<open>The outer \<open>None\<close> is a failure of the statement, the inner one no row.\<close>

definition member_GetByOrgAndUser :: "auth_faults \<Rightarrow> nat \<Rightarrow> nat \<Rightarrow> auth_db \<Rightarrow> membership option option" where
  "member_GetByOrgAndUser down g u db =
     (if down (MemberGet u) then None else Some (List.find (is_member g u) (ad_members db)))"

definition member_ListByOrg ::
    "auth_faults \<Rightarrow> nat \<Rightarrow> int \<Rightarrow> int \<Rightarrow> auth_db \<Rightarrow> (membership list \<times> nat) option" where
  "member_ListByOrg down g page_no page_len db =
     (let p = (if page_no < 1 then 1 else page_no); n = (if page_len < 1 then 20 else page_len)
      in if down MemberCount \<or> down MemberList then None
         else Some (page_of (nat n) (nat ((p - 1) * n)) (sort_key mb_joined (filter (\<lambda>m. mb_org m = g) (ad_members db))),
           count_where (\<lambda>m. mb_org m = g) (ad_members db)))"

definition member_CountByOrg :: "auth_faults \<Rightarrow> nat \<Rightarrow> auth_db \<Rightarrow> nat option" where
  "member_CountByOrg down g db =
     (if down MemberCount then None else Some (count_where (\<lambda>m. mb_org m = g) (ad_members db)))"

definition member_UpdateRole ::
    "auth_faults \<Rightarrow> nat \<Rightarrow> nat \<Rightarrow> team_role \<Rightarrow> auth_db \<Rightarrow> auth_db option" where
  "member_UpdateRole down g u role db =
     (if down (MemberRole u) \<or> \<not> role_IsValid role \<or> \<not> list_ex (is_member g u) (ad_members db)
         \<or> role = RoleOwner \<and>
           list_ex (\<lambda>r. mb_org r = g \<and> mb_user r \<noteq> u \<and> mb_role r = RoleOwner) (ad_members db)
      then None
      else Some (db\<lparr>ad_members := upd_where (is_member g u) (\<lambda>m. m\<lparr>mb_role := role\<rparr>) (ad_members db)\<rparr>))"

definition member_Delete :: "auth_faults \<Rightarrow> nat \<Rightarrow> nat \<Rightarrow> auth_db \<Rightarrow> auth_db option" where
  "member_Delete down g u db =
     (if down MemberDelete \<or> \<not> list_ex (is_member g u) (ad_members db) then None
      else Some (db\<lparr>ad_members := del_where (is_member g u) (ad_members db)\<rparr>))"

definition member_FindByUserEmail ::
    "auth_faults \<Rightarrow> nat \<Rightarrow> string \<Rightarrow> auth_db \<Rightarrow> membership option option" where
  "member_FindByUserEmail down g email db =
     (if down MemberByEmail then None
      else Some (List.find (\<lambda>m. mb_org m = g \<and>
        list_ex (\<lambda>u. au_id u = mb_user m \<and> au_email u = email) (ad_users db)) (ad_members db)))"

section \<open>Invites\<close>

definition invite_clash :: "invite \<Rightarrow> invite \<Rightarrow> bool" where
  "invite_clash i r \<longleftrightarrow> iv_id r = iv_id i \<or> iv_token r = iv_token i \<or>
     iv_org r = iv_org i \<and> iv_email r = iv_email i \<and> iv_status r = InvitePending \<and> iv_status i = InvitePending"

definition inv_Create :: "auth_faults \<Rightarrow> invite \<Rightarrow> auth_db \<Rightarrow> auth_db option" where
  "inv_Create down i db =
     (if down InviteCreate \<or> \<not> role_IsValid (iv_role i) \<or> iv_role i = RoleOwner
         \<or> 255 < char_count (iv_email i) \<or> \<not> user_exists db (iv_inviter i)
         \<or> \<not> list_ex (\<lambda>g. og_id g = iv_org i) (ad_orgs db) \<or> list_ex (invite_clash i) (ad_invites db)
      then None
      else Some (db\<lparr>ad_invites := ad_invites db @ [i]\<rparr>))"

text \<open>No row is an error here, other than for the next statement.\<close>

definition inv_GetByID :: "auth_faults \<Rightarrow> nat \<Rightarrow> auth_db \<Rightarrow> invite option" where
  "inv_GetByID down i db = (if down InviteGet then None else List.find (\<lambda>v. iv_id v = i) (ad_invites db))"

definition inv_GetByToken :: "auth_faults \<Rightarrow> nat \<Rightarrow> auth_db \<Rightarrow> invite option" where
  "inv_GetByToken down token db =
     (if down InviteByToken then None else List.find (\<lambda>v. iv_token v = token) (ad_invites db))"

definition inv_FindPendingByOrgEmail ::
    "auth_faults \<Rightarrow> nat \<Rightarrow> string \<Rightarrow> auth_db \<Rightarrow> invite option option" where
  "inv_FindPendingByOrgEmail down g email db =
     (if down InviteFind then None
      else Some (List.find (\<lambda>v. iv_org v = g \<and> iv_email v = email \<and> iv_status v = InvitePending) (ad_invites db)))"

definition inv_CountPendingByOrg :: "auth_faults \<Rightarrow> nat \<Rightarrow> auth_db \<Rightarrow> nat option" where
  "inv_CountPendingByOrg down g db =
     (if down InviteCount then None
      else Some (count_where (\<lambda>v. iv_org v = g \<and> iv_status v = InvitePending) (ad_invites db)))"

definition set_invite_status :: "invite_status \<Rightarrow> time \<Rightarrow> invite \<Rightarrow> invite" where
  "set_invite_status s at v = v\<lparr>iv_status := s,
     iv_accepted := (if s = InviteAccepted then Some at else iv_accepted v),
     iv_revoked := (if s \<in> {InviteRevoked, InviteExpired, InviteDeclined} then Some at else iv_revoked v)\<rparr>"

definition inv_UpdateStatus ::
    "auth_faults \<Rightarrow> nat \<Rightarrow> invite_status \<Rightarrow> time \<Rightarrow> auth_db \<Rightarrow> auth_db option" where
  "inv_UpdateStatus down i s at db =
     (if down InviteStatus \<or> \<not> list_ex (\<lambda>v. iv_id v = i) (ad_invites db)
         \<or> s = InvitePending \<and> list_ex (\<lambda>v. iv_id v = i \<and> list_ex (\<lambda>r. iv_id r \<noteq> i \<and> iv_org r = iv_org v
             \<and> iv_email r = iv_email v \<and> iv_status r = InvitePending) (ad_invites db)) (ad_invites db)
      then None
      else Some (db\<lparr>ad_invites := upd_where (\<lambda>v. iv_id v = i) (set_invite_status s at) (ad_invites db)\<rparr>))"

section \<open>Redis\<close>

type_synonym ('k, 'v) redis_keys = "('k \<times> 'v \<times> time) list"

record redis =
  rd_sessions :: "(nat, auth_session) redis_keys"
  rd_members :: "nat \<Rightarrow> nat list"
  rd_states :: "(string, string \<times> string) redis_keys"

definition empty_redis :: redis where
  "empty_redis = \<lparr>rd_sessions = [], rd_members = (\<lambda>_. []), rd_states = []\<rparr>"

definition redis_get :: "time \<Rightarrow> 'k \<Rightarrow> ('k, 'v) redis_keys \<Rightarrow> 'v option" where
  "redis_get now k ks = map_option (\<lambda>(_, v, _). v) (List.find (\<lambda>(k', _, t). k' = k \<and> now < t) ks)"

definition redis_del :: "'k \<Rightarrow> ('k, 'v) redis_keys \<Rightarrow> ('k, 'v) redis_keys" where
  "redis_del k ks = del_where (\<lambda>(k', _). k' = k) ks"

definition redis_set :: "time \<Rightarrow> 'k \<Rightarrow> 'v \<Rightarrow> duration \<Rightarrow> ('k, 'v) redis_keys \<Rightarrow> ('k, 'v) redis_keys" where
  "redis_set now k v ttl ks = (k, v, now + ttl) # redis_del k ks"

text \<open>The session is written before its identifier enters the user's set. The second component is the
  state also when the call fails.\<close>

definition session_Create :: "auth_faults \<Rightarrow> time \<Rightarrow> auth_session \<Rightarrow> redis \<Rightarrow> bool \<times> redis" where
  "session_Create down now s rd =
     (let d = se_expires s - now; ttl = (if d \<le> 0 then hour else d)
      in if down RedisSet then (False, rd)
         else let rd1 = rd\<lparr>rd_sessions := redis_set now (se_id s) s ttl (rd_sessions rd)\<rparr>
           in if down RedisSAdd then (False, rd1)
              else (True, rd1\<lparr>rd_members := (rd_members rd1)(se_user s := List.insert (se_id s) (rd_members rd1 (se_user s)))\<rparr>))"

definition session_GetByID :: "auth_faults \<Rightarrow> time \<Rightarrow> nat \<Rightarrow> redis \<Rightarrow> auth_session option" where
  "session_GetByID down now i rd = (if down RedisGet then None else redis_get now i (rd_sessions rd))"

datatype ('e, 'a) redis_outcome = ListFails 'e | ListPanics | ListReturns 'a

text \<open>The slice \<open>sessionIDs[offset:end]\<close> panics when a bound is negative or the bounds are out of
  order. The number returned is that of the sessions found on the page.\<close>

definition session_GetByUserID ::
    "auth_faults \<Rightarrow> time \<Rightarrow> nat \<Rightarrow> int \<Rightarrow> int \<Rightarrow> redis \<Rightarrow> (unit, auth_session list \<times> nat) redis_outcome" where
  "session_GetByUserID down now u limit offset rd =
     (if down RedisSMembers then ListFails ()
      else let ids = rd_members rd u; n = int (length ids)
        in if n \<le> offset then ListReturns ([], length ids)
           else let e = (if n < offset + limit then n else offset + limit)
             in if offset < 0 \<or> e < offset then ListPanics
                else let found = List.map_filter (\<lambda>i. session_GetByID down now i rd)
                       (take (nat (e - offset)) (drop (nat offset) ids))
                  in ListReturns (found, length found))"

definition session_Update :: "auth_faults \<Rightarrow> time \<Rightarrow> auth_session \<Rightarrow> redis \<Rightarrow> bool \<times> redis" where
  "session_Update down now s rd = session_Create down now s rd"

definition session_Delete :: "auth_faults \<Rightarrow> time \<Rightarrow> nat \<Rightarrow> redis \<Rightarrow> bool \<times> redis" where
  "session_Delete down now i rd =
     (let del = (\<lambda>rd. if down RedisDel then (False, rd)
                      else (True, rd\<lparr>rd_sessions := redis_del i (rd_sessions rd)\<rparr>))
      in case session_GetByID down now i rd of
           None \<Rightarrow> del rd
         | Some s \<Rightarrow>
             if down RedisSRem then (False, rd)
             else del (rd\<lparr>rd_members := (rd_members rd)(se_user s := removeAll i (rd_members rd (se_user s)))\<rparr>))"

definition session_DeleteByUserID :: "auth_faults \<Rightarrow> nat \<Rightarrow> redis \<Rightarrow> bool \<times> redis" where
  "session_DeleteByUserID down u rd =
     (if down RedisSMembers \<or> down RedisDel then (False, rd)
      else (True, rd\<lparr>rd_sessions := fold redis_del (rd_members rd u) (rd_sessions rd),
                     rd_members := (rd_members rd)(u := [])\<rparr>))"

definition session_TouchActive :: "auth_faults \<Rightarrow> time \<Rightarrow> nat \<Rightarrow> redis \<Rightarrow> bool \<times> redis" where
  "session_TouchActive down now i rd =
     (case session_GetByID down now i rd of
        None \<Rightarrow> (False, rd)
      | Some s \<Rightarrow> session_Create down now (session_UpdateLastActive now s) rd)"

text \<open>All keys are scanned; a key that cannot be read is passed over.\<close>

definition session_DeleteExpired :: "auth_faults \<Rightarrow> time \<Rightarrow> redis \<Rightarrow> bool \<times> redis" where
  "session_DeleteExpired down now rd =
     (if down RedisScan then (False, rd)
      else let old = (\<lambda>(_, s, t). now < t \<and> session_IsExpired now s)
        in if down RedisGet then (True, rd)
           else if down RedisDel then (\<not> list_ex old (rd_sessions rd), rd)
           else (True, rd\<lparr>rd_sessions := del_where old (rd_sessions rd)\<rparr>))"

text \<open>The state store keeps a state for a quarter of an hour.\<close>

definition state_Set :: "auth_faults \<Rightarrow> time \<Rightarrow> string \<Rightarrow> string \<times> string \<Rightarrow> redis \<Rightarrow> redis option" where
  "state_Set down now k v rd =
     (if down RedisSet then None else Some (rd\<lparr>rd_states := redis_set now k v (15 * minute) (rd_states rd)\<rparr>))"

definition state_Get :: "auth_faults \<Rightarrow> time \<Rightarrow> string \<Rightarrow> redis \<Rightarrow> (string \<times> string) option" where
  "state_Get down now k rd = (if down RedisGet then None else redis_get now k (rd_states rd))"

definition state_Delete :: "auth_faults \<Rightarrow> string \<Rightarrow> redis \<Rightarrow> redis option" where
  "state_Delete down k rd =
     (if down RedisDel then None else Some (rd\<lparr>rd_states := redis_del k (rd_states rd)\<rparr>))"

end
