(* ===== verification/TeamService.thy ===== *)
theory TeamService
  imports TeamStore
begin

text \<open>
  The team of an organization: \<open>auth-service/internal/service/team_service.go\<close>. The state of the whole
  service is the two stores and the events published so far (\<open>publisher/publisher.go\<close>); what the
  service is built with, and the functions of other packages, are the fields of \<open>auth_env\<close>. The only
  session revoker of the source is the one that does nothing.
\<close>

section \<open>State and surroundings\<close>

datatype auth_event =
    UserCreatedEvent nat string
  | UserLoggedInEvent nat string string string
  | UserFailedLoginEvent nat string string string
  | UserLockedEvent nat string int
  | OAuthAccountLinkedEvent nat string string string
  | SessionCreatedEvent nat string nat int
  | InviteCreatedEvent invite
  | MemberRoleChangedEvent nat nat team_role team_role
  | MemberRemovedEvent nat nat

record auth_state =
  as_db :: auth_db
  as_redis :: redis
  as_events :: "auth_event list"

record user_info =
  ui_subject :: string
  ui_email :: string
  ui_name :: string
  ui_picture :: string

record auth_env =
  ae_down :: auth_faults
  ae_inet :: "string \<Rightarrow> bool"
  ae_sha :: "string \<Rightarrow> string"
  ae_compare :: "string \<Rightarrow> string \<Rightarrow> bool"
  ae_bcrypt :: "string \<Rightarrow> string option"
  ae_uuid :: "nat \<Rightarrow> string"
  ae_jwt :: jwt_env
  ae_max :: int
  ae_lock :: duration
  ae_team :: bool
  ae_team_tokens :: bool
  ae_providers :: "string \<Rightarrow> bool"
  ae_url :: "string \<Rightarrow> string \<Rightarrow> string \<Rightarrow> string"
  ae_exchange :: "string \<Rightarrow> string \<Rightarrow> string \<Rightarrow> user_info option"
  ae_error :: "auth_error \<Rightarrow> string"

definition publish :: "auth_env \<Rightarrow> auth_event \<Rightarrow> auth_state \<Rightarrow> auth_state" where
  "publish env e st = (if ae_down env Publish then st else st\<lparr>as_events := as_events st @ [e]\<rparr>)"

definition set_db :: "auth_db \<Rightarrow> auth_state \<Rightarrow> auth_state" where
  "set_db db st = st\<lparr>as_db := db\<rparr>"

section \<open>Errors, limits, operations\<close>

datatype team_error =
    InsufficientPermissions | CannotModifyOwner | CannotRemoveOwner | OwnerCannotLeave
  | UserAlreadyMember | CannotAssignOwnerRole | UserLimitExceeded | OrganizationAccessDenied
  | InviteInvalidEmail | ErrInviteNotFound | ErrInviteExpired | ErrInviteAlreadyUsed
  | InviteEmailMismatch | InviteLimitReached | TeamStoreError

definition TierUserLimits :: "string \<Rightarrow> nat option" where
  "TierUserLimits = map_of [(''Free'', 1), (''Starter'', 5), (''Pro'', 20), (''Enterprise'', 100)]"

definition InviteTTL :: duration where
  "InviteTTL = 7 * 24 * hour"

definition MaxPendingInvites :: nat where
  "MaxPendingInvites = 50"

datatype team_operation =
    OpInviteMember | OpRemoveMember | OpChangeRole | OpTransferOwnership | OpCreateMonitor
  | OpListMembers | OtherOp string

definition permissionFor :: "team_role \<Rightarrow> team_operation \<Rightarrow> bool" where
  "permissionFor role op = (case op of
     OpInviteMember \<Rightarrow> role = RoleOwner \<or> role = RoleAdmin
   | OpRemoveMember \<Rightarrow> role = RoleOwner \<or> role = RoleAdmin
   | OpChangeRole \<Rightarrow> role = RoleOwner \<or> role = RoleAdmin
   | OpTransferOwnership \<Rightarrow> role = RoleOwner
   | OpCreateMonitor \<Rightarrow> role = RoleOwner \<or> role = RoleAdmin \<or> role = RoleMember
   | OpListMembers \<Rightarrow> role_IsValid role
   | OtherOp _ \<Rightarrow> False)"

section \<open>Organizations of new users\<close>

text \<open>Neither the times of the organization nor the time of joining are set.\<close>

definition new_org :: "nat \<Rightarrow> nat \<Rightarrow> auth_user \<Rightarrow> organization" where
  "new_org i owner u =
     \<lparr>og_id = i, og_name = (if au_name u = [] then au_email u else au_name u), og_owner = owner,
      og_tier = au_tier u, og_created = zero_time, og_updated = zero_time\<rparr>"

definition new_member :: "nat \<Rightarrow> nat \<Rightarrow> nat \<Rightarrow> team_role \<Rightarrow> membership" where
  "new_member i g u role =
     \<lparr>mb_id = i, mb_org = g, mb_user = u, mb_role = role, mb_joined = zero_time, mb_active = None\<rparr>"

definition EnsureOrganization ::
    "auth_env \<Rightarrow> nat \<Rightarrow> auth_db \<Rightarrow> (team_error + organization \<times> bool) \<times> auth_db" where
  "EnsureOrganization env u db =
     (case user_GetByID (ae_down env) u db of
        None \<Rightarrow> (Inl TeamStoreError, db)
      | Some user \<Rightarrow>
          (let g = new_org (ad_next db) u user; db1 = use_ids 1 db
           in case org_Create (ae_down env) g db1 of
                None \<Rightarrow> (Inl TeamStoreError, db1)
              | Some db2 \<Rightarrow>
                  (let m = new_member (ad_next db2) (og_id g) u RoleOwner; db3 = use_ids 1 db2
                   in case member_Create (ae_down env) m db3 of
                        None \<Rightarrow> (Inl TeamStoreError, db3)
                      | Some db4 \<Rightarrow> (Inr (g, True), db4))))"

definition GetMembership :: "auth_env \<Rightarrow> nat \<Rightarrow> nat \<Rightarrow> auth_db \<Rightarrow> membership option option" where
  "GetMembership env g u db = member_GetByOrgAndUser (ae_down env) g u db"

definition ListMembers :: "auth_env \<Rightarrow> nat \<Rightarrow> int \<Rightarrow> int \<Rightarrow> auth_db \<Rightarrow> (membership list \<times> nat) option" where
  "ListMembers env g page_no page_len db =
     member_ListByOrg (ae_down env) g (if page_no < 1 then 1 else page_no)
       (if page_len < 1 then 20 else page_len) db"

section \<open>Members\<close>

definition resolveActorAndTarget ::
    "auth_env \<Rightarrow> nat \<Rightarrow> nat \<Rightarrow> nat \<Rightarrow> auth_db \<Rightarrow> team_error + membership \<times> membership" where
  "resolveActorAndTarget env g actor target db =
     (case member_GetByOrgAndUser (ae_down env) g actor db of
        None \<Rightarrow> Inl TeamStoreError
      | Some None \<Rightarrow> Inl OrganizationAccessDenied
      | Some (Some a) \<Rightarrow>
          (case member_GetByOrgAndUser (ae_down env) g target db of
             None \<Rightarrow> Inl TeamStoreError
           | Some None \<Rightarrow> Inl OrganizationAccessDenied
           | Some (Some t) \<Rightarrow> Inr (a, t)))"

definition ChangeMemberRole ::
    "auth_env \<Rightarrow> nat \<Rightarrow> nat \<Rightarrow> nat \<Rightarrow> team_role \<Rightarrow> auth_state \<Rightarrow> team_error option \<times> auth_state" where
  "ChangeMemberRole env g actor target role st =
     (if \<not> role_IsValid role then (Some InsufficientPermissions, st)
      else if role = RoleOwner then (Some CannotAssignOwnerRole, st)
      else case resolveActorAndTarget env g actor target (as_db st) of
        Inl e \<Rightarrow> (Some e, st)
      | Inr (a, t) \<Rightarrow>
          if \<not> CanManageMembers (mb_role a) then (Some InsufficientPermissions, st)
          else if mb_role t = RoleOwner then (Some CannotModifyOwner, st)
          else if mb_role t = role then (None, st)
          else case member_UpdateRole (ae_down env) g target role (as_db st) of
            None \<Rightarrow> (Some TeamStoreError, st)
          | Some db \<Rightarrow>
              (None, publish env (MemberRoleChangedEvent g target (mb_role t) role) (set_db db st)))"

definition RemoveMember ::
    "auth_env \<Rightarrow> nat \<Rightarrow> nat \<Rightarrow> nat \<Rightarrow> auth_state \<Rightarrow> team_error option \<times> auth_state" where
  "RemoveMember env g actor target st =
     (case resolveActorAndTarget env g actor target (as_db st) of
        Inl e \<Rightarrow> (Some e, st)
      | Inr (a, t) \<Rightarrow>
          if \<not> CanManageMembers (mb_role a) then (Some InsufficientPermissions, st)
          else if mb_role t = RoleOwner then (Some CannotRemoveOwner, st)
          else case member_Delete (ae_down env) g target (as_db st) of
            None \<Rightarrow> (Some TeamStoreError, st)
          | Some db \<Rightarrow> (None, publish env (MemberRemovedEvent g target) (set_db db st)))"

definition TransferOwnership ::
    "auth_env \<Rightarrow> time \<Rightarrow> nat \<Rightarrow> nat \<Rightarrow> nat \<Rightarrow> auth_state \<Rightarrow> team_error option \<times> auth_state" where
  "TransferOwnership env now g actor target st =
     (case resolveActorAndTarget env g actor target (as_db st) of
        Inl e \<Rightarrow> (Some e, st)
      | Inr (a, t) \<Rightarrow>
          if mb_role a \<noteq> RoleOwner then (Some InsufficientPermissions, st)
          else if actor = target then (None, st)
          else case member_UpdateRole (ae_down env) g actor RoleAdmin (as_db st) of
            None \<Rightarrow> (Some TeamStoreError, st)
          | Some db1 \<Rightarrow>
              (case member_UpdateRole (ae_down env) g target RoleOwner db1 of
                 None \<Rightarrow> (Some TeamStoreError, set_db db1 st)
               | Some db2 \<Rightarrow>
                   (case org_UpdateOwner (ae_down env) now g target db2 of
                      None \<Rightarrow> (Some TeamStoreError, set_db db2 st)
                    | Some db3 \<Rightarrow> (None, set_db db3 st))))"

definition LeaveOrganization ::
    "auth_env \<Rightarrow> nat \<Rightarrow> nat \<Rightarrow> auth_state \<Rightarrow> team_error option \<times> auth_state" where
  "LeaveOrganization env g actor st =
     (case member_GetByOrgAndUser (ae_down env) g actor (as_db st) of
        None \<Rightarrow> (Some TeamStoreError, st)
      | Some None \<Rightarrow> (Some OrganizationAccessDenied, st)
      | Some (Some a) \<Rightarrow>
          let leave = (case member_Delete (ae_down env) g actor (as_db st) of
                None \<Rightarrow> (Some TeamStoreError, st)
              | Some db \<Rightarrow> (None, set_db db st))
          in if mb_role a \<noteq> RoleOwner then leave
             else case member_CountByOrg (ae_down env) g (as_db st) of
               None \<Rightarrow> (Some TeamStoreError, st)
             | Some n \<Rightarrow> if 1 < n then (Some OwnerCannotLeave, st) else leave)"

definition CheckPermission ::
    "auth_env \<Rightarrow> nat \<Rightarrow> nat \<Rightarrow> team_operation \<Rightarrow> auth_db \<Rightarrow> team_error + bool \<times> team_role" where
  "CheckPermission env g u op db =
     (case member_GetByOrgAndUser (ae_down env) g u db of
        None \<Rightarrow> Inl TeamStoreError
      | Some None \<Rightarrow> Inl OrganizationAccessDenied
      | Some (Some m) \<Rightarrow> Inr (permissionFor (mb_role m) op, mb_role m))"

end
