(* ===== verification/GoText.thy ===== *)
theory GoText
  imports Prelude "HOL-Library.Sublist"
begin

text \<open>
  What the code uses of Go's package \<open>strings\<close>. A string is its bytes, in UTF-8: \<open>TrimSpace\<close> removes the
  encodings of the characters that \<open>unicode.IsSpace\<close> accepts.
\<close>

section \<open>Characters\<close>

text \<open>The encoding of a code point below \<open>0x10000\<close>.\<close>

definition utf8_char :: "nat \<Rightarrow> string" where
  "utf8_char n =
     (if n < 128 then [char_of n]
      else if n < 2048 then [char_of (192 + n div 64), char_of (128 + n mod 64)]
      else [char_of (224 + n div 4096), char_of (128 + n div 64 mod 64), char_of (128 + n mod 64)])"

definition utf8 :: "nat list \<Rightarrow> string" where
  "utf8 ns = concat (map utf8_char ns)"

text \<open>U+0009 to U+000D, the space, U+0085, U+00A0, U+1680, U+2000 to U+200A, U+2028, U+2029, U+202F, U+205F, U+3000.\<close>

definition utf8_spaces :: "string list" where
  "utf8_spaces =
    [[CHR 0x09], [CHR 0x0A], [CHR 0x0B], [CHR 0x0C], [CHR 0x0D], [CHR 0x20], [CHR 0xC2, CHR 0x85],
     [CHR 0xC2, CHR 0xA0], [CHR 0xE1, CHR 0x9A, CHR 0x80], [CHR 0xE2, CHR 0x80, CHR 0x80],
     [CHR 0xE2, CHR 0x80, CHR 0x81], [CHR 0xE2, CHR 0x80, CHR 0x82], [CHR 0xE2, CHR 0x80, CHR 0x83],
     [CHR 0xE2, CHR 0x80, CHR 0x84], [CHR 0xE2, CHR 0x80, CHR 0x85], [CHR 0xE2, CHR 0x80, CHR 0x86],
     [CHR 0xE2, CHR 0x80, CHR 0x87], [CHR 0xE2, CHR 0x80, CHR 0x88], [CHR 0xE2, CHR 0x80, CHR 0x89],
     [CHR 0xE2, CHR 0x80, CHR 0x8A], [CHR 0xE2, CHR 0x80, CHR 0xA8], [CHR 0xE2, CHR 0x80, CHR 0xA9],
     [CHR 0xE2, CHR 0x80, CHR 0xAF], [CHR 0xE2, CHR 0x81, CHR 0x9F], [CHR 0xE3, CHR 0x80, CHR 0x80]]"

section \<open>Trimming\<close>

fun strip_front :: "string list \<Rightarrow> string \<Rightarrow> string" where
  "strip_front ps s =
     (case List.find (\<lambda>p. p \<noteq> [] \<and> prefix p s) ps of
        None \<Rightarrow> s
      | Some p \<Rightarrow> if p = [] \<or> s = [] then s else strip_front ps (drop (length p) s))"

declare strip_front.simps [simp del]

definition TrimSpace :: "string \<Rightarrow> string" where
  "TrimSpace s = rev (strip_front (map rev utf8_spaces) (rev (strip_front utf8_spaces s)))"

definition TrimPrefix :: "string \<Rightarrow> string \<Rightarrow> string" where
  "TrimPrefix s p = (if prefix p s then drop (length p) s else s)"

section \<open>Searching\<close>

fun go_Index :: "string \<Rightarrow> string \<Rightarrow> nat option" where
  "go_Index s sub =
     (if prefix sub s then Some 0
      else case s of [] \<Rightarrow> None | _ # t \<Rightarrow> map_option Suc (go_Index t sub))"

declare go_Index.simps [simp del]

definition ContainsAny :: "string \<Rightarrow> string \<Rightarrow> bool" where
  "ContainsAny s chars \<longleftrightarrow> list_ex (\<lambda>c. c \<in> set chars) s"

lemma go_Index_bound: "go_Index s sub = Some i \<Longrightarrow> i + length sub \<le> length s"
proof (induction s sub arbitrary: i rule: go_Index.induct)
  case (1 s sub)
  then show ?case
    using go_Index.simps [of s sub] by (auto split: if_splits list.splits dest: prefix_length_le)
qed

text \<open>\<open>strings.Split\<close> at the separator \<open>c # cs\<close>.\<close>

function go_Split :: "string \<Rightarrow> char \<Rightarrow> string \<Rightarrow> string list" where
  "go_Split s c cs =
     (case go_Index s (c # cs) of
        None \<Rightarrow> [s]
      | Some i \<Rightarrow> take i s # go_Split (drop (i + length (c # cs)) s) c cs)"
  by auto
termination
  by (relation "measure (\<lambda>(s, c, cs). length s)") (auto dest: go_Index_bound)

declare go_Split.simps [simp del]

section \<open>Lemmas\<close>

lemma strip_front_none:
  assumes "\<And>p. p \<in> set ps \<Longrightarrow> p \<noteq> [] \<Longrightarrow> \<not> prefix p s"
  shows "strip_front ps s = s"
  using assms by (subst strip_front.simps) (auto split: option.splits dest: find_Some_inD)

text \<open>A text that does not start, or end, with a white space is not trimmed there.\<close>

definition word_char :: "char \<Rightarrow> bool" where
  "word_char c \<longleftrightarrow> (let n = (of_char c :: nat) in 33 \<le> n \<and> n < 127)"

lemma no_space_prefix:
  assumes "s = [] \<or> word_char (hd s)" and "p \<in> set utf8_spaces"
  shows "\<not> prefix p s" "\<not> prefix (rev p) s"
  using assms by (cases s; force simp: utf8_spaces_def word_char_def Let_def)+

lemma strip_words:
  assumes "s = [] \<or> word_char (hd s)"
  shows "strip_front utf8_spaces s = s" "strip_front (map rev utf8_spaces) s = s"
  using no_space_prefix [OF assms] by (auto intro!: strip_front_none)

lemma TrimSpace_word: "s = [] \<or> word_char (hd s) \<and> word_char (last s) \<Longrightarrow> TrimSpace s = s"
  by (auto simp: TrimSpace_def strip_words hd_rev)

end
