(* ===== verification/InviteService.thy ===== *)
theory InviteService
  imports TeamService GoText
begin

text \<open>
  Invites: \<open>auth-service/internal/service/invite_service.go\<close>. \<open>parse\<close> is \<open>mail.ParseAddress\<close>, with the
  display name and the address. Case folding is that of ASCII letters.
\<close>

definition EqualFold :: "string \<Rightarrow> string \<Rightarrow> bool" where
  "EqualFold s t \<longleftrightarrow> ascii_lower s = ascii_lower t"

definition normalizeEmail :: "(string \<Rightarrow> (string \<times> string) option) \<Rightarrow> string \<Rightarrow> string option" where
  "normalizeEmail parse s =
     (let s' = TrimSpace s
      in if s' = [] then None
         else case parse s' of
           None \<Rightarrow> None
         | Some (name, addr) \<Rightarrow> if name \<noteq> [] then None else Some (ascii_lower addr))"

text \<open>Who may invite whom, up to the limits: \<open>None\<close> when the invite may be made.\<close>

definition invite_refused ::
    "auth_env \<Rightarrow> nat \<Rightarrow> nat \<Rightarrow> string \<Rightarrow> auth_db \<Rightarrow> team_error option" where
  "invite_refused env g inviter email db =
     (case member_GetByOrgAndUser (ae_down env) g inviter db of
        None \<Rightarrow> Some TeamStoreError
      | Some None \<Rightarrow> Some OrganizationAccessDenied
      | Some (Some m) \<Rightarrow>
     if \<not> CanManageMembers (mb_role m) then Some InsufficientPermissions
     else case member_FindByUserEmail (ae_down env) g email db of
        None \<Rightarrow> Some TeamStoreError
      | Some (Some _) \<Rightarrow> Some UserAlreadyMember
      | Some None \<Rightarrow>
     (case org_GetByID (ae_down env) g db of
        None \<Rightarrow> Some TeamStoreError
      | Some org \<Rightarrow>
     (let full = (case TierUserLimits (og_tier org) of
            None \<Rightarrow> None
          | Some limit \<Rightarrow>
              (case member_CountByOrg (ae_down env) g db of
                 None \<Rightarrow> Some TeamStoreError
               | Some n \<Rightarrow> if limit \<le> n then Some UserLimitExceeded else None))
      in if full \<noteq> None then full
         else case inv_CountPendingByOrg (ae_down env) g db of
           None \<Rightarrow> Some TeamStoreError
         | Some pending \<Rightarrow> if MaxPendingInvites \<le> pending then Some InviteLimitReached else None)))"

definition new_invite :: "nat \<Rightarrow> nat \<Rightarrow> time \<Rightarrow> nat \<Rightarrow> nat \<Rightarrow> string \<Rightarrow> team_role \<Rightarrow> invite" where
  "new_invite i token now g inviter email role =
     \<lparr>iv_id = i, iv_org = g, iv_inviter = inviter, iv_email = email, iv_role = role, iv_token = token,
      iv_status = InvitePending, iv_created = now, iv_expires = now + InviteTTL, iv_accepted = None,
      iv_revoked = None\<rparr>"

text \<open>The invite and whether it replaces a pending one.\<close>

definition Invite ::
    "auth_env \<Rightarrow> (string \<Rightarrow> (string \<times> string) option) \<Rightarrow> time \<Rightarrow> nat \<Rightarrow> nat \<Rightarrow> string \<Rightarrow> team_role \<Rightarrow>
     auth_state \<Rightarrow> (team_error + invite \<times> bool) \<times> auth_state" where
  "Invite env parse now g inviter address role st =
     (case normalizeEmail parse address of
        None \<Rightarrow> (Inl InviteInvalidEmail, st)
      | Some email \<Rightarrow>
     if \<not> role_IsValid role then (Inl InsufficientPermissions, st)
     else if role = RoleOwner then (Inl CannotAssignOwnerRole, st)
     else case invite_refused env g inviter email (as_db st) of
        Some e \<Rightarrow> (Inl e, st)
      | None \<Rightarrow>
     (case inv_FindPendingByOrgEmail (ae_down env) g email (as_db st) of
        None \<Rightarrow> (Inl TeamStoreError, st)
      | Some prev \<Rightarrow>
     (case (case prev of
              None \<Rightarrow> Some (as_db st)
            | Some p \<Rightarrow> inv_UpdateStatus (ae_down env) (iv_id p) InviteRevoked now (as_db st)) of
        None \<Rightarrow> (Inl TeamStoreError, st)
      | Some db1 \<Rightarrow>
          (let v = new_invite (ad_next db1) (Suc (ad_next db1)) now g inviter email role; db2 = use_ids 2 db1
           in case inv_Create (ae_down env) v db2 of
                None \<Rightarrow> (Inl TeamStoreError, set_db db2 st)
              | Some db3 \<Rightarrow> (Inr (v, prev \<noteq> None), publish env (InviteCreatedEvent v) (set_db db3 st))))))"

text \<open>An invite that is not there is an error of the statement.\<close>

definition RevokeInvite ::
    "auth_env \<Rightarrow> time \<Rightarrow> nat \<Rightarrow> nat \<Rightarrow> auth_state \<Rightarrow> team_error option \<times> auth_state" where
  "RevokeInvite env now actor i st =
     (case inv_GetByID (ae_down env) i (as_db st) of
        None \<Rightarrow> (Some TeamStoreError, st)
      | Some v \<Rightarrow>
     (case member_GetByOrgAndUser (ae_down env) (iv_org v) actor (as_db st) of
        None \<Rightarrow> (Some TeamStoreError, st)
      | Some None \<Rightarrow> (Some OrganizationAccessDenied, st)
      | Some (Some m) \<Rightarrow>
     if \<not> CanManageMembers (mb_role m) then (Some InsufficientPermissions, st)
     else if iv_status v \<noteq> InvitePending then (Some ErrInviteAlreadyUsed, st)
     else case inv_UpdateStatus (ae_down env) (iv_id v) InviteRevoked now (as_db st) of
        None \<Rightarrow> (Some TeamStoreError, st)
      | Some db \<Rightarrow> (None, set_db db st)))"

definition AcceptInvite ::
    "auth_env \<Rightarrow> time \<Rightarrow> nat \<Rightarrow> string \<Rightarrow> nat \<Rightarrow> auth_state \<Rightarrow> (team_error + membership) \<times> auth_state" where
  "AcceptInvite env now token email u st =
     (case inv_GetByToken (ae_down env) token (as_db st) of
        None \<Rightarrow> (Inl TeamStoreError, st)
      | Some v \<Rightarrow>
     if invite_IsExpired now v then
       (Inl ErrInviteExpired,
        if iv_status v \<noteq> InvitePending then st
        else case inv_UpdateStatus (ae_down env) (iv_id v) InviteExpired now (as_db st) of
          None \<Rightarrow> st | Some db \<Rightarrow> set_db db st)
     else if iv_status v \<noteq> InvitePending then (Inl ErrInviteAlreadyUsed, st)
     else if \<not> EqualFold (TrimSpace email) (iv_email v) then (Inl InviteEmailMismatch, st)
     else case inv_UpdateStatus (ae_down env) (iv_id v) InviteAccepted now (as_db st) of
        None \<Rightarrow> (Inl TeamStoreError, st)
      | Some db1 \<Rightarrow>
          (let m = new_member (ad_next db1) (iv_org v) u (iv_role v); db2 = use_ids 1 db1
           in case member_Create (ae_down env) m db2 of
                None \<Rightarrow> (Inl TeamStoreError, set_db db2 st)
              | Some db3 \<Rightarrow> (Inr m, set_db db3 st)))"

end
