(* ===== verification/AuthService.thy ===== *)
theory AuthService
  imports InviteService
begin

text \<open>
  Logging in: \<open>auth-service/internal/service/auth_service.go\<close>. A call reads the clock once. An audit entry
  that cannot be written is dropped, except where \<open>Register\<close> checks it. Each definition is the whole
  handler: what it returns and the state it leaves, also when it fails half way.
\<close>

section \<open>Audit, team context, tokens\<close>

definition write_audit ::
    "auth_env \<Rightarrow> time \<Rightarrow> nat option \<Rightarrow> audit_event \<Rightarrow> string \<Rightarrow> bool \<Rightarrow> string \<Rightarrow> string \<Rightarrow> string \<Rightarrow>
     auth_db \<Rightarrow> bool \<times> auth_db" where
  "write_audit env now u ev provider ok ip agent err db =
     (let l = NewAuditLog (ad_next db) now u ev provider ok ip agent err; db1 = use_ids 1 db
      in case audit_Create (ae_down env) (ae_inet env) l db1 of
           None \<Rightarrow> (False, db1) | Some db2 \<Rightarrow> (True, db2))"

definition logAuditEvent ::
    "auth_env \<Rightarrow> time \<Rightarrow> nat option \<Rightarrow> audit_event \<Rightarrow> string \<Rightarrow> bool \<Rightarrow> string \<Rightarrow> string \<Rightarrow> string \<Rightarrow>
     auth_state \<Rightarrow> auth_state" where
  "logAuditEvent env now u ev provider ok ip agent err st =
     set_db (snd (write_audit env now u ev provider ok ip agent err (as_db st))) st"

definition role_text :: "team_role \<Rightarrow> string" where
  "role_text r = (case r of RoleOwner \<Rightarrow> ''OWNER'' | RoleAdmin \<Rightarrow> ''ADMIN'' | RoleMember \<Rightarrow> ''MEMBER''
     | RoleViewer \<Rightarrow> ''VIEWER'' | OtherRole s \<Rightarrow> s)"

definition ensureTeamContext :: "auth_env \<Rightarrow> time \<Rightarrow> nat \<Rightarrow> auth_state \<Rightarrow> (nat \<times> string) \<times> auth_state" where
  "ensureTeamContext env now u st =
     (if \<not> ae_team env then ((0, []), st)
      else case EnsureOrganization env u (as_db st) of
        (Inl _, db) \<Rightarrow> ((0, []), set_db db st)
      | (Inr (g, created), db) \<Rightarrow>
          (let st1 = set_db db st;
               st2 = (if created
                 then logAuditEvent env now (Some u) EvOrganizationCreated [] True [] [] [] st1 else st1);
               role = (case GetMembership env (og_id g) u (as_db st2) of
                   Some (Some m) \<Rightarrow> role_text (mb_role m) | _ \<Rightarrow> role_text RoleOwner)
           in ((og_id g, role), st2)))"

definition generateTokens ::
    "auth_env \<Rightarrow> nat \<Rightarrow> time \<Rightarrow> auth_user \<Rightarrow> nat \<Rightarrow> string \<Rightarrow> (string \<times> string) option" where
  "generateTokens env i now u org role =
     (if ae_team_tokens env \<and> org \<noteq> 0
      then GenerateTokenPairWithTeam (ae_jwt env) i now (au_id u) (au_email u) (au_tier u) org role
      else GenerateTokenPair (ae_jwt env) i now (au_id u) (au_email u) (au_tier u))"

section \<open>The session of a login\<close>

record auth_response =
  ar_access :: string
  ar_refresh :: string
  ar_type :: string
  ar_expires :: int
  ar_user :: auth_user

definition token_response :: "string \<Rightarrow> string \<Rightarrow> auth_user \<Rightarrow> auth_response" where
  "token_response access refresh u =
     \<lparr>ar_access = access, ar_refresh = refresh, ar_type = ''Bearer'', ar_expires = 900, ar_user = u\<rparr>"

text \<open>What both logins do once they know the user: organization, tokens, refresh token, session. The
  identifier is that of the session.\<close>

definition open_session ::
    "auth_env \<Rightarrow> time \<Rightarrow> auth_user \<Rightarrow> string \<Rightarrow> audit_event \<Rightarrow> string \<Rightarrow> string \<Rightarrow> string \<Rightarrow> auth_state \<Rightarrow>
     (auth_error + auth_response \<times> nat) \<times> auth_state" where
  "open_session env now u device ev provider ip agent st =
     (case ensureTeamContext env now (au_id u) st of ((org, role), st1) \<Rightarrow>
     (case generateTokens env (ad_next (as_db st1)) now u org role of
        None \<Rightarrow> (Inl AuthInternalError,
          logAuditEvent env now (Some (au_id u)) ev provider False ip agent (ae_error env AuthInternalError) st1)
      | Some (access, refresh) \<Rightarrow>
     (let db2 = use_ids 2 (as_db st1);
          t = NewRefreshToken (ad_next db2) now (au_id u) (ae_sha env refresh) device ip (7 * 24 * hour);
          db3 = use_ids 1 db2
      in case token_Create (ae_down env) (ae_inet env) t db3 of
        None \<Rightarrow> (Inl AuthInternalError,
          logAuditEvent env now (Some (au_id u)) ev provider True ip agent ''failed to store refresh token''
            (set_db db3 st1))
      | Some db4 \<Rightarrow>
     (let s = NewSession (ad_next db4) now (au_id u) device ip (24 * hour); st5 = set_db (use_ids 1 db4) st1
      in case session_Create (ae_down env) now s (as_redis st5) of
        (False, rd) \<Rightarrow> (Inl AuthInternalError,
          logAuditEvent env now (Some (au_id u)) ev provider True ip agent ''failed to create session''
            (st5\<lparr>as_redis := rd\<rparr>))
      | (True, rd) \<Rightarrow> (Inr (token_response access refresh u, se_id s),
          logAuditEvent env now (Some (au_id u)) ev provider True ip agent [] (st5\<lparr>as_redis := rd\<rparr>))))))"

definition session_event :: "auth_env \<Rightarrow> time \<Rightarrow> auth_user \<Rightarrow> nat \<Rightarrow> auth_state \<Rightarrow> auth_state" where
  "session_event env now u sid st =
     publish env (SessionCreatedEvent (au_id u) (au_email u) sid ((now + 24 * hour) div second)) st"

section \<open>Passwords\<close>

text \<open>A wrong password counts; the count that decides is the one read before.\<close>

definition wrong_password ::
    "auth_env \<Rightarrow> time \<Rightarrow> auth_user \<Rightarrow> string \<Rightarrow> string \<Rightarrow> auth_state \<Rightarrow> auth_error \<times> auth_state" where
  "wrong_password env now u ip agent st =
     (let st1 = (case user_Increment (ae_down env) now (au_id u) (as_db st) of
            None \<Rightarrow> st | Some db \<Rightarrow> set_db db st)
      in if user_ShouldLock (ae_max env) u then
           (let st2 = (case user_LockAccount (ae_down env) now (au_id u) (now + ae_lock env) (as_db st1) of
                  None \<Rightarrow> st1 | Some db \<Rightarrow> set_db db st1);
                st3 = logAuditEvent env now (Some (au_id u)) EvLogin [] False ip agent
                  ''account locked due to too many failed attempts'' st2
            in (AccountLocked, publish env (UserLockedEvent (au_id u) (au_email u) (ae_max env)) st3))
         else
           (let st2 = logAuditEvent env now (Some (au_id u)) EvLogin [] False ip agent ''invalid password'' st1
            in (InvalidCredentials,
                publish env (UserFailedLoginEvent (au_id u) (au_email u) ip ''invalid password'') st2)))"

definition PasswordLogin ::
    "auth_env \<Rightarrow> time \<Rightarrow> string \<Rightarrow> string \<Rightarrow> string \<Rightarrow> string \<Rightarrow> auth_state \<Rightarrow>
     (auth_error + auth_response) \<times> auth_state" where
  "PasswordLogin env now email pw ip agent st =
     (case user_GetByEmail (ae_down env) email (as_db st) of
        None \<Rightarrow> (Inl InvalidCredentials,
          logAuditEvent env now None EvLogin [] False ip agent ''user not found'' st)
      | Some u \<Rightarrow>
     if user_IsLocked now u then
       (Inl AccountLocked, logAuditEvent env now (Some (au_id u)) EvLogin [] False ip agent ''account locked'' st)
     else if \<not> ae_compare env (au_hash u) pw then
       (case wrong_password env now u ip agent st of (e, st') \<Rightarrow> (Inl e, st'))
     else case user_Reset (ae_down env) now (au_id u) (as_db st) of
        None \<Rightarrow> (Inl AuthInternalError, logAuditEvent env now (Some (au_id u)) EvLogin [] True ip agent
          ''failed to reset login attempts'' st)
      | Some db1 \<Rightarrow>
     (case user_LastLogin (ae_down env) now (au_id u) db1 of
        None \<Rightarrow> (Inl AuthInternalError, logAuditEvent env now (Some (au_id u)) EvLogin [] True ip agent
          ''failed to update last login'' (set_db db1 st))
      | Some db2 \<Rightarrow>
     (case open_session env now u ''password'' EvLogin [] ip agent (set_db db2 st) of
        (Inl e, st') \<Rightarrow> (Inl e, st')
      | (Inr (r, sid), st') \<Rightarrow> (Inr r, session_event env now u sid
          (publish env (UserLoggedInEvent (au_id u) (au_email u) ip agent) st')))))"

definition Register ::
    "auth_env \<Rightarrow> time \<Rightarrow> string \<Rightarrow> string \<Rightarrow> string \<Rightarrow> string \<Rightarrow> string \<Rightarrow> auth_state \<Rightarrow>
     (auth_error + auth_user) \<times> auth_state" where
  "Register env now email pw name ip agent st =
     (case user_ExistsByEmail (ae_down env) email (as_db st) of
        None \<Rightarrow> (Inl AuthInternalError, st)
      | Some True \<Rightarrow> (Inl UserExists, st)
      | Some False \<Rightarrow>
     (case ae_bcrypt env pw of
        None \<Rightarrow> (Inl AuthInternalError, st)
      | Some hash \<Rightarrow>
     (let u = NewUser (ad_next (as_db st)) now email hash name ''Free''; db1 = use_ids 1 (as_db st)
      in case user_Create (ae_down env) u db1 of
        None \<Rightarrow> (Inl AuthInternalError, set_db db1 st)
      | Some (created, db2) \<Rightarrow>
     (case write_audit env now (Some (au_id created)) EvRegister [] True ip agent [] db2 of
        (False, db3) \<Rightarrow> (Inl AuthInternalError, set_db db3 st)
      | (True, db3) \<Rightarrow>
          (let st1 = publish env (UserCreatedEvent (au_id created) (au_email created)) (set_db db3 st)
           in (Inr created, snd (ensureTeamContext env now (au_id created) st1)))))))"

section \<open>OAuth\<close>

definition state_key :: "string \<Rightarrow> string" where
  "state_key s = ''oauth_state:'' @ s"

text \<open>The URL to visit and the state.\<close>

definition OAuthLogin ::
    "auth_env \<Rightarrow> time \<Rightarrow> string \<Rightarrow> string \<Rightarrow> auth_state \<Rightarrow> (auth_error + string \<times> string) \<times> auth_state" where
  "OAuthLogin env now provider redirect st =
     (if \<not> ae_providers env provider then (Inl UnsupportedProvider, st)
      else let s = ae_uuid env (ad_next (as_db st)); st1 = set_db (use_ids 1 (as_db st)) st
        in case state_Set (ae_down env) now (state_key s) (provider, redirect) (as_redis st1) of
             None \<Rightarrow> (Inl StateStoreError, st1)
           | Some rd \<Rightarrow> (Inr (ae_url env provider s redirect, s), st1\<lparr>as_redis := rd\<rparr>))"

definition verifyState ::
    "auth_env \<Rightarrow> time \<Rightarrow> string \<Rightarrow> redis \<Rightarrow> (auth_error + string \<times> string) \<times> redis" where
  "verifyState env now s rd =
     (case state_Get (ae_down env) now (state_key s) rd of
        None \<Rightarrow> (Inl OAuthStateMismatch, rd)
      | Some v \<Rightarrow>
          (case state_Delete (ae_down env) (state_key s) rd of
             None \<Rightarrow> (Inl OAuthStateMismatch, rd)
           | Some rd' \<Rightarrow> (Inr v, rd')))"

definition new_account :: "nat \<Rightarrow> time \<Rightarrow> nat \<Rightarrow> string \<Rightarrow> user_info \<Rightarrow> oauth_account" where
  "new_account i now u provider info =
     NewOAuthAccount i now u provider (ui_subject info) (ui_email info)
       [(''picture'', ui_picture info), (''name'', ui_name info)]"

definition oauth_createUser ::
    "auth_env \<Rightarrow> time \<Rightarrow> user_info \<Rightarrow> string \<Rightarrow> auth_db \<Rightarrow> auth_user option \<times> auth_db" where
  "oauth_createUser env now info provider db =
     (let db1 = use_ids 1 db
      in case ae_bcrypt env (ae_uuid env (ad_next db)) of
        None \<Rightarrow> (None, db1)
      | Some hash \<Rightarrow>
     (let u = NewUser (ad_next db1) now (ui_email info) hash (ui_name info) ''Free''; db2 = use_ids 1 db1
      in case user_Create (ae_down env) u db2 of
        None \<Rightarrow> (None, db2)
      | Some (created, db3) \<Rightarrow>
     (let a = new_account (ad_next db3) now (au_id created) provider info; db4 = use_ids 1 db3
      in case oauth_Create (ae_down env) a db4 of
        None \<Rightarrow> (None, db4)
      | Some db5 \<Rightarrow> (Some created, db5))))"

text \<open>The user of an account: the linked one, else the one with its e-mail address, which is linked now,
  else a new one. Any failure to read the account counts as not linked.\<close>

definition oauth_user ::
    "auth_env \<Rightarrow> time \<Rightarrow> user_info \<Rightarrow> string \<Rightarrow> string \<Rightarrow> string \<Rightarrow> auth_state \<Rightarrow> auth_user option \<times> auth_state" where
  "oauth_user env now info provider ip agent st =
     (let failed = (\<lambda>u st. (None, logAuditEvent env now u EvOAuthCallback provider False ip agent
            (ae_error env AuthInternalError) st))
      in case oauth_GetByProviderUserID (ae_down env) provider (ui_subject info) (as_db st) of
        Some a \<Rightarrow>
          (case user_GetByID (ae_down env) (oa_user a) (as_db st) of
             None \<Rightarrow> failed None st | Some u \<Rightarrow> (Some u, st))
      | None \<Rightarrow>
     (case user_GetByEmail (ae_down env) (ui_email info) (as_db st) of
        Some u \<Rightarrow>
          (let a = new_account (ad_next (as_db st)) now (au_id u) provider info; db1 = use_ids 1 (as_db st)
           in case oauth_Create (ae_down env) a db1 of
                None \<Rightarrow> failed (Some (au_id u)) (set_db db1 st)
              | Some db2 \<Rightarrow> (Some u,
                  publish env (OAuthAccountLinkedEvent (au_id u) (au_email u) provider (ui_subject info)) (set_db db2 st)))
      | None \<Rightarrow>
          (case oauth_createUser env now info provider (as_db st) of
             (None, db1) \<Rightarrow> failed None (set_db db1 st)
           | (Some u, db1) \<Rightarrow> (Some u, publish env (UserCreatedEvent (au_id u) (au_email u)) (set_db db1 st)))))"

definition OAuthCallback ::
    "auth_env \<Rightarrow> time \<Rightarrow> string \<Rightarrow> string \<Rightarrow> string \<Rightarrow> string \<Rightarrow> auth_state \<Rightarrow>
     (auth_error + auth_response) \<times> auth_state" where
  "OAuthCallback env now code s ip agent st =
     (let refuse = (\<lambda>e u provider st. (Inl e, logAuditEvent env now u EvOAuthCallback provider False ip agent
            (ae_error env e) st))
      in case verifyState env now s (as_redis st) of
        (Inl e, rd) \<Rightarrow> refuse e None [] (st\<lparr>as_redis := rd\<rparr>)
      | (Inr (provider, redirect), rd) \<Rightarrow>
     (let st1 = st\<lparr>as_redis := rd\<rparr>
      in if \<not> ae_providers env provider then refuse OAuthFailed None provider st1
         else case ae_exchange env provider code redirect of
           None \<Rightarrow> refuse OAuthFailed None provider st1
         | Some info \<Rightarrow>
     (case oauth_user env now info provider ip agent st1 of
        (None, st2) \<Rightarrow> (Inl AuthInternalError, st2)
      | (Some u, st2) \<Rightarrow>
     if user_IsLocked now u then refuse AccountLocked (Some (au_id u)) provider st2
     else case user_LastLogin (ae_down env) now (au_id u) (as_db st2) of
        None \<Rightarrow> (Inl AuthInternalError, logAuditEvent env now (Some (au_id u)) EvOAuthCallback provider True ip
          agent ''failed to update last login'' st2)
      | Some db3 \<Rightarrow>
     (case open_session env now u ''oauth'' EvOAuthCallback provider ip agent (set_db db3 st2) of
        (Inl e, st') \<Rightarrow> (Inl e, st')
      | (Inr (r, sid), st') \<Rightarrow> (Inr r, session_event env now u sid st')))))"

end
