(* ===== verification/AuthAccounts.thy ===== *)
theory AuthAccounts
  imports AuthService
begin

text \<open>
  Tokens, users and sessions after the login: \<open>auth-service/internal/service/token_service.go\<close>,
  \<open>user_service.go\<close>, \<open>session_service.go\<close>, and the page arithmetic of \<open>handler/session_handler.go\<close>.
\<close>

section \<open>Tokens\<close>

text \<open>
  Reading the token and revoking it are two statements without a transaction; here the operation is one step, and no
  other runs in between.
\<close>

definition RefreshToken ::
    "auth_env \<Rightarrow> time \<Rightarrow> string \<Rightarrow> string \<Rightarrow> string \<Rightarrow> auth_state \<Rightarrow>
     (auth_error + auth_response) \<times> auth_state" where
  "RefreshToken env now token ip agent st =
     (let audit = (\<lambda>u ok err. logAuditEvent env now u EvTokenRefresh [] ok ip agent err)
      in case token_GetByTokenHash (ae_down env) (ae_sha env token) (as_db st) of
        None \<Rightarrow> (Inl InvalidRefreshToken, audit None False ''invalid refresh token'' st)
      | Some t \<Rightarrow>
     if \<not> token_IsValid now t then
       (Inl InvalidRefreshToken, audit (Some (rt_user t)) False ''refresh token expired or revoked'' st)
     else case user_GetByID (ae_down env) (rt_user t) (as_db st) of
        None \<Rightarrow> (Inl InvalidRefreshToken, audit (Some (rt_user t)) False ''user not found'' st)
      | Some u \<Rightarrow>
     (case GenerateTokenPair (ae_jwt env) (ad_next (as_db st)) now (au_id u) (au_email u) (au_tier u) of
        None \<Rightarrow> (Inl AuthInternalError,
          audit (Some (rt_user t)) False (ae_error env AuthInternalError) st)
      | Some (access, refresh) \<Rightarrow>
     (let db1 = use_ids 2 (as_db st)
      in case token_RevokeRow (ae_down env) now (rt_id t) db1 of
        None \<Rightarrow> (Inl AuthInternalError, set_db db1 st)
      | Some db2 \<Rightarrow>
     (let t' = NewRefreshToken (ad_next db2) now (rt_user t) (ae_sha env refresh) ''refresh'' ip (7 * 24 * hour);
          db3 = use_ids 1 db2
      in case token_Create (ae_down env) (ae_inet env) t' db3 of
        None \<Rightarrow> (Inl AuthInternalError,
          audit (Some (rt_user t)) True ''failed to store new refresh token'' (set_db db3 st))
      | Some db4 \<Rightarrow>
          (Inr (token_response access refresh u), audit (Some (rt_user t)) True [] (set_db db4 st))))))"

record token_validation =
  tv_valid :: bool
  tv_user :: "nat option"
  tv_email :: string
  tv_tier :: string
  tv_expires :: "time option"

definition token_refused :: token_validation where
  "token_refused = \<lparr>tv_valid = False, tv_user = None, tv_email = [], tv_tier = [], tv_expires = None\<rparr>"

definition ValidateToken :: "auth_env \<Rightarrow> time \<Rightarrow> string \<Rightarrow> auth_state \<Rightarrow> token_validation \<times> auth_state" where
  "ValidateToken env now token st =
     (case ValidateAccessToken (ae_jwt env) now token of
        None \<Rightarrow> (token_refused, st)
      | Some c \<Rightarrow>
          (case user_GetByID (ae_down env) (cl_user c) (as_db st) of
             None \<Rightarrow> (token_refused, st)
           | Some u \<Rightarrow>
               (\<lparr>tv_valid = True, tv_user = Some (cl_user c), tv_email = au_email u, tv_tier = cl_tier c,
                 tv_expires = Some (cl_expires c)\<rparr>,
                logAuditEvent env now (Some (au_id u)) EvTokenValidate [] True [] [] [] st)))"

text \<open>An empty token or session is none. Nothing compares their owner with the caller.\<close>

definition Logout ::
    "auth_env \<Rightarrow> time \<Rightarrow> nat \<Rightarrow> string \<Rightarrow> nat option \<Rightarrow> string \<Rightarrow> string \<Rightarrow> auth_state \<Rightarrow> auth_state" where
  "Logout env now u token sid ip agent st =
     (let (owner, st1) =
        (if token = [] then (None, st)
         else case token_GetByTokenHash (ae_down env) (ae_sha env token) (as_db st) of
           None \<Rightarrow> (None, st)
         | Some t \<Rightarrow>
             (case token_RevokeRow (ae_down env) now (rt_id t) (as_db st) of
                None \<Rightarrow> (None, st) | Some db \<Rightarrow> (Some (rt_user t), set_db db st)));
          st2 = (case sid of None \<Rightarrow> st1
                 | Some i \<Rightarrow> st1\<lparr>as_redis := snd (session_Delete (ae_down env) now i (as_redis st1))\<rparr>);
          who = (if owner = None \<and> u \<noteq> 0 then Some u else owner)
      in logAuditEvent env now who EvLogout [] True ip agent [] st2)"

section \<open>Users\<close>

definition GetUser :: "auth_env \<Rightarrow> nat \<Rightarrow> auth_db \<Rightarrow> auth_error + auth_user" where
  "GetUser env i db = (case user_GetByID (ae_down env) i db of None \<Rightarrow> Inl UserNotFound | Some u \<Rightarrow> Inr u)"

definition UpdateUser ::
    "auth_env \<Rightarrow> time \<Rightarrow> nat \<Rightarrow> string \<Rightarrow> string \<Rightarrow> auth_state \<Rightarrow> (auth_error + auth_user) \<times> auth_state" where
  "UpdateUser env now i email name st =
     (case user_GetByID (ae_down env) i (as_db st) of
        None \<Rightarrow> (Inl UserNotFound, st)
      | Some u \<Rightarrow>
          (let u1 = (if email = [] then u else u\<lparr>au_email := email\<rparr>);
               u2 = (if name = [] then u1 else u1\<lparr>au_name := name\<rparr>);
               u3 = u2\<lparr>au_updated := now\<rparr>
           in case user_Update (ae_down env) u3 (as_db st) of
                None \<Rightarrow> (Inl AuthInternalError, st)
              | Some db \<Rightarrow> (Inr u3, set_db db st)))"

text \<open>The hours are an \<open>int64\<close>, and so is their product with the nanoseconds of an hour.\<close>

definition hours_duration :: "64 word \<Rightarrow> duration" where
  "hours_duration h = sint (h * word_of_int hour)"

definition LockAccount ::
    "auth_env \<Rightarrow> time \<Rightarrow> nat \<Rightarrow> 64 word \<Rightarrow> auth_state \<Rightarrow> auth_error option \<times> auth_state" where
  "LockAccount env now i hours st =
     (case user_LockAccount (ae_down env) now i (now + hours_duration hours) (as_db st) of
        None \<Rightarrow> (Some AuthInternalError, st)
      | Some db \<Rightarrow>
          (case write_audit env now (Some i) EvAccountLocked [] True [] [] [] db of
             (ok, db') \<Rightarrow> (if ok then None else Some AuthInternalError, set_db db' st)))"

definition UnlockAccount :: "auth_env \<Rightarrow> time \<Rightarrow> nat \<Rightarrow> auth_state \<Rightarrow> auth_error option \<times> auth_state" where
  "UnlockAccount env now i st =
     (case user_UnlockAccount (ae_down env) now i (as_db st) of
        None \<Rightarrow> (Some AuthInternalError, st)
      | Some db \<Rightarrow>
          (case write_audit env now (Some i) EvAccountUnlocked [] True [] [] [] db of
             (ok, db') \<Rightarrow> (if ok then None else Some AuthInternalError, set_db db' st)))"

section \<open>Sessions\<close>

definition ToSessionDTOs :: "nat option \<Rightarrow> auth_session list \<Rightarrow> (auth_session \<times> bool) list" where
  "ToSessionDTOs current ss = map (\<lambda>s. (s, Some (se_id s) = current)) ss"

definition ListSessions ::
    "auth_env \<Rightarrow> time \<Rightarrow> nat \<Rightarrow> int \<Rightarrow> int \<Rightarrow> nat option \<Rightarrow> redis \<Rightarrow>
     (auth_error, (auth_session \<times> bool) list \<times> nat) redis_outcome" where
  "ListSessions env now u limit offset current rd =
     (case session_GetByUserID (ae_down env) now u limit offset rd of
        ListFails _ \<Rightarrow> ListFails AuthInternalError
      | ListPanics \<Rightarrow> ListPanics
      | ListReturns (ss, n) \<Rightarrow> ListReturns (ToSessionDTOs current ss, n))"

text \<open>The handler turns the page, from 1, and its size into a limit and an offset.\<close>

definition sessions_of_page ::
    "auth_env \<Rightarrow> time \<Rightarrow> nat \<Rightarrow> 32 word \<Rightarrow> 32 word \<Rightarrow> nat option \<Rightarrow> redis \<Rightarrow>
     (auth_error, (auth_session \<times> bool) list \<times> nat) redis_outcome" where
  "sessions_of_page env now u page_no page_len current rd =
     ListSessions env now u (sint page_len) (sint (page_no - 1) * sint page_len) current rd"

definition RevokeSession ::
    "auth_env \<Rightarrow> time \<Rightarrow> nat \<Rightarrow> nat \<Rightarrow> redis \<Rightarrow> auth_error option \<times> redis" where
  "RevokeSession env now u sid rd =
     (case session_GetByID (ae_down env) now sid rd of
        None \<Rightarrow> (Some SessionNotFound, rd)
      | Some s \<Rightarrow>
          if u \<noteq> se_user s then (Some SessionNotFound, rd)
          else case session_Delete (ae_down env) now sid rd of
            (ok, rd') \<Rightarrow> (if ok then None else Some AuthInternalError, rd'))"

end
