(* ===== verification/AuthTrace.thy ===== *)
theory AuthTrace
  imports AuthAccounts
begin

text \<open>
  Histories of the authentication service: any sequence of its operations, each with its own failing
  statements. The locale \<open>db_invariant\<close> says what a property of the tables must satisfy, statement by
  statement; then every operation, and so every history, keeps the property.
\<close>

section \<open>Operations\<close>

datatype auth_op =
    DoLogin time string string string string
  | DoRegister time string string string string string
  | DoOAuthLogin time string string
  | DoOAuthCallback time string string string string
  | DoRefresh time string string string
  | DoValidate time string
  | DoLogout time nat string "nat option" string string
  | DoUpdateUser time nat string string
  | DoLockAccount time nat "64 word"
  | DoUnlockAccount time nat
  | DoRevokeSession time nat nat
  | DoChangeRole nat nat nat team_role
  | DoRemoveMember nat nat nat
  | DoTransfer time nat nat nat
  | DoLeave nat nat
  | DoInvite time nat nat string team_role
  | DoRevokeInvite time nat nat
  | DoAccept time nat string nat

type_synonym mail_parser = "string \<Rightarrow> (string \<times> string) option"

fun run_op :: "auth_env \<Rightarrow> mail_parser \<Rightarrow> auth_op \<Rightarrow> auth_state \<Rightarrow> auth_state" where
  "run_op env parse (DoLogin now email pw ip agent) st = snd (PasswordLogin env now email pw ip agent st)"
| "run_op env parse (DoRegister now email pw name ip agent) st =
     snd (Register env now email pw name ip agent st)"
| "run_op env parse (DoOAuthLogin now provider redirect) st = snd (OAuthLogin env now provider redirect st)"
| "run_op env parse (DoOAuthCallback now code s ip agent) st = snd (OAuthCallback env now code s ip agent st)"
| "run_op env parse (DoRefresh now token ip agent) st = snd (RefreshToken env now token ip agent st)"
| "run_op env parse (DoValidate now token) st = snd (ValidateToken env now token st)"
| "run_op env parse (DoLogout now u token sid ip agent) st = Logout env now u token sid ip agent st"
| "run_op env parse (DoUpdateUser now i email name) st = snd (UpdateUser env now i email name st)"
| "run_op env parse (DoLockAccount now i hours) st = snd (LockAccount env now i hours st)"
| "run_op env parse (DoUnlockAccount now i) st = snd (UnlockAccount env now i st)"
| "run_op env parse (DoRevokeSession now u sid) st =
     st\<lparr>as_redis := snd (RevokeSession env now u sid (as_redis st))\<rparr>"
| "run_op env parse (DoChangeRole g a t role) st = snd (ChangeMemberRole env g a t role st)"
| "run_op env parse (DoRemoveMember g a t) st = snd (RemoveMember env g a t st)"
| "run_op env parse (DoTransfer now g a t) st = snd (TransferOwnership env now g a t st)"
| "run_op env parse (DoLeave g a) st = snd (LeaveOrganization env g a st)"
| "run_op env parse (DoInvite now g a email role) st = snd (Invite env parse now g a email role st)"
| "run_op env parse (DoRevokeInvite now a i) st = snd (RevokeInvite env now a i st)"
| "run_op env parse (DoAccept now token email u) st = snd (AcceptInvite env now token email u st)"

text \<open>A history: which statements fail is chosen anew for each operation.\<close>

fun run_ops :: "auth_env \<Rightarrow> mail_parser \<Rightarrow> (auth_faults \<times> auth_op) list \<Rightarrow> auth_state \<Rightarrow> auth_state" where
  "run_ops env parse [] st = st"
| "run_ops env parse ((down, op) # ops) st =
     run_ops env parse ops (run_op (env\<lparr>ae_down := down\<rparr>) parse op st)"

lemma run_ops_append: "run_ops env parse (xs @ ys) st = run_ops env parse ys (run_ops env parse xs st)"
  by (induction xs arbitrary: st) (auto split: prod.splits)

lemma as_db_set_db [simp]: "as_db (set_db db st) = db"
  by (simp add: set_db_def)

lemma as_redis_set_db [simp]: "as_redis (set_db db st) = as_redis st"
  by (simp add: set_db_def)

lemma as_db_publish [simp]: "as_db (publish env e st) = as_db st"
  by (simp add: publish_def)

lemma as_redis_publish [simp]: "as_redis (publish env e st) = as_redis st"
  by (simp add: publish_def)

lemma as_db_session_event [simp]: "as_db (session_event env now u sid st) = as_db st"
  by (simp add: session_event_def)

section \<open>What a property of the tables must satisfy\<close>

locale db_invariant =
  fixes P :: "auth_db \<Rightarrow> bool"
  assumes ids: "P db \<Longrightarrow> P (use_ids n db)"
    and user_made: "P db \<Longrightarrow> au_tier r = ''Free'' \<Longrightarrow> user_Create down r db = Some (r', db') \<Longrightarrow> P db'"
    and user_updated: "P db \<Longrightarrow> r0 \<in> set (ad_users db) \<Longrightarrow> au_id r = au_id r0 \<Longrightarrow> au_tier r = au_tier r0 \<Longrightarrow>
      user_Update down r db = Some db' \<Longrightarrow> P db'"
    and user_set: "P db \<Longrightarrow> (\<And>r. au_id (f r) = au_id r \<and> au_email (f r) = au_email r \<and> au_tier (f r) = au_tier r) \<Longrightarrow>
      P (set_user i f db)"
    and token_made: "P db \<Longrightarrow> token_Create down inet tok db = Some db' \<Longrightarrow> P db'"
    and token_revoked: "P db \<Longrightarrow> token_RevokeRow down now i db = Some db' \<Longrightarrow> P db'"
    and oauth_made: "P db \<Longrightarrow> oauth_Create down acc db = Some db' \<Longrightarrow> P db'"
    and audit_made: "P db \<Longrightarrow> audit_Create down inet l db = Some db' \<Longrightarrow> P db'"
    and org_made: "P db \<Longrightarrow> r \<in> set (ad_users db) \<Longrightarrow> og_tier o' = au_tier r \<Longrightarrow> org_Create down o' db = Some db' \<Longrightarrow> P db'"
    and owner_made: "P db \<Longrightarrow> r \<in> set (ad_users db) \<Longrightarrow> og_tier o' = au_tier r \<Longrightarrow> org_Create down o' db = Some db1 \<Longrightarrow>
      member_Create down (new_member i (og_id o') u RoleOwner) (use_ids 1 db1) = Some db' \<Longrightarrow> P db'"
    and owner_updated: "P db \<Longrightarrow> org_UpdateOwner down now g u db = Some db' \<Longrightarrow> P db'"
    and member_made: "P db \<Longrightarrow> mb_role m \<noteq> RoleOwner \<Longrightarrow> member_Create down m db = Some db' \<Longrightarrow> P db'"
    and role_updated: "P db \<Longrightarrow> role \<noteq> RoleOwner \<Longrightarrow> member_UpdateRole down g u role db = Some db' \<Longrightarrow> P db'"
    and owner_moved: "P db \<Longrightarrow> m \<in> set (ad_members db) \<Longrightarrow> is_member g a m \<Longrightarrow> mb_role m = RoleOwner \<Longrightarrow> a \<noteq> t \<Longrightarrow>
      member_UpdateRole down g a RoleAdmin db = Some db1 \<Longrightarrow>
      member_UpdateRole down g t RoleOwner db1 = Some db' \<Longrightarrow> P db'"
    and member_deleted: "P db \<Longrightarrow> member_Delete down g u db = Some db' \<Longrightarrow> P db'"
    and invite_made: "P db \<Longrightarrow> inv_Create down v db = Some db' \<Longrightarrow> P db'"
    and invite_updated: "P db \<Longrightarrow> s \<noteq> InvitePending \<Longrightarrow> inv_UpdateStatus down i s at db = Some db' \<Longrightarrow> P db'"
    and invite_role: "P db \<Longrightarrow> v \<in> set (ad_invites db) \<Longrightarrow> iv_role v \<noteq> RoleOwner"
begin

lemma user_statements:
  assumes "P db"
  shows "user_LastLogin down now i db = Some db' \<Longrightarrow> P db'"
    and "user_Increment down now i db = Some db' \<Longrightarrow> P db'"
    and "user_Reset down now i db = Some db' \<Longrightarrow> P db'"
    and "user_LockAccount down now i t db = Some db' \<Longrightarrow> P db'"
    and "user_UnlockAccount down now i db = Some db' \<Longrightarrow> P db'"
  using assms
  by (auto simp: user_LastLogin_def user_Increment_def user_Reset_def user_LockAccount_def
      user_UnlockAccount_def user_row_login_def user_row_increment_def user_row_reset_def
      user_row_lock_def user_row_unlock_def split: if_splits intro!: user_set)

lemma new_user_made:
  "user_Create down (NewUser i now email hash name ''Free'') db = Some (r', db') \<Longrightarrow> P db \<Longrightarrow> P db'"
  by (rule user_made) (simp_all add: NewUser_def)

lemmas statements = new_user_made token_made [rotated] token_revoked [rotated]
  oauth_made [rotated] user_statements [rotated] member_deleted [rotated] invite_made [rotated]
  owner_updated [rotated]

lemma keeps_write_audit: "P db \<Longrightarrow> P (snd (write_audit env now u ev provider ok ip agent err db))"
  by (auto simp: write_audit_def Let_def split: option.splits intro: ids audit_made)

lemma write_audit_keeps: "write_audit env now u ev provider ok ip agent err db = (b, db') \<Longrightarrow> P db \<Longrightarrow> P db'"
  using keeps_write_audit [of db env now u ev provider ok ip agent err] by simp

lemma keeps_audit:
  "P (as_db st) \<Longrightarrow> P (as_db (logAuditEvent env now u ev provider ok ip agent err st))"
  by (simp add: logAuditEvent_def keeps_write_audit)

lemma keeps_ensure:
  assumes "P db"
  shows "P (snd (EnsureOrganization env u db))"
proof (cases "user_GetByID (ae_down env) u db")
  case None
  then show ?thesis using assms by (simp add: EnsureOrganization_def)
next
  case found: (Some user)
  let ?g = "new_org (ad_next db) u user"
  have user: "user \<in> set (ad_users (use_ids 1 db))" and tier: "og_tier ?g = au_tier user"
    using found by (auto simp: user_GetByID_def use_ids_def new_org_def split: if_splits dest: find_Some_inD)
  show ?thesis
  proof (cases "org_Create (ae_down env) ?g (use_ids 1 db)")
    case None
    then show ?thesis using assms found ids [of db 1] by (simp add: EnsureOrganization_def Let_def)
  next
    case (Some db2)
    have p: "P db2" using org_made [OF ids [OF assms] user tier Some] .
    show ?thesis
    proof (cases "member_Create (ae_down env) (new_member (ad_next db2) (og_id ?g) u RoleOwner) (use_ids 1 db2)")
      case None
      then show ?thesis using found Some ids [OF p, of 1] by (simp add: EnsureOrganization_def Let_def)
    next
      case made: (Some db4)
      have "P db4" using owner_made [OF ids [OF assms] user tier Some made] .
      then show ?thesis using found Some made by (simp add: EnsureOrganization_def Let_def)
    qed
  qed
qed

lemma keeps_team_context:
  "P (as_db st) \<Longrightarrow> P (as_db (snd (ensureTeamContext env now u st)))"
  using keeps_ensure [of "as_db st" env u]
  by (auto simp: ensureTeamContext_def Let_def keeps_audit split: sum.splits prod.splits)

lemma team_context_keeps: "ensureTeamContext env now u st = (r, st') \<Longrightarrow> P (as_db st) \<Longrightarrow> P (as_db st')"
  using keeps_team_context [of st env now u] by simp

lemma open_session_keeps:
  assumes "open_session env now u device ev provider ip agent st = (r, st')" and "P (as_db st)"
  shows "P (as_db st')"
proof -
  obtain org role st1 where e: "ensureTeamContext env now (au_id u) st = ((org, role), st1)"
    by (metis prod.exhaust)
  then have p1: "P (as_db st1)" using team_context_keeps assms(2) by blast
  show ?thesis
    using p1 assms(1)
    by (auto simp: open_session_def e Let_def split: option.splits prod.splits bool.splits
        intro!: keeps_audit ids intro: statements)
qed

lemma keeps_wrong_password:
  assumes "P (as_db st)"
  shows "P (as_db (snd (wrong_password env now u ip agent st)))"
  using assms
  by (auto simp: wrong_password_def Let_def split: option.splits intro!: keeps_audit intro: statements)

lemma wrong_password_keeps: "wrong_password env now u ip agent st = (e, st') \<Longrightarrow> P (as_db st) \<Longrightarrow> P (as_db st')"
  using keeps_wrong_password [of st env now u ip agent] by simp

lemmas handlers = write_audit_keeps team_context_keeps open_session_keeps wrong_password_keeps

lemma keeps_login:
  assumes "P (as_db st)"
  shows "P (as_db (snd (PasswordLogin env now email pw ip agent st)))"
  using assms
  by (auto simp: PasswordLogin_def split: option.splits sum.splits prod.splits
      intro!: keeps_audit intro: statements elim!: handlers)

lemma keeps_register:
  assumes "P (as_db st)"
  shows "P (as_db (snd (Register env now email pw name ip agent st)))"
  using assms
  by (auto simp: Register_def Let_def split: option.splits prod.splits bool.splits
      intro!: keeps_team_context ids intro: statements write_audit_keeps)

lemma keeps_oauth_login:
  "P (as_db st) \<Longrightarrow> P (as_db (snd (OAuthLogin env now provider redirect st)))"
  by (auto simp: OAuthLogin_def Let_def ids split: option.splits)

lemma createUser_keeps: "oauth_createUser env now info provider db = (r, db') \<Longrightarrow> P db \<Longrightarrow> P db'"
  by (auto simp: oauth_createUser_def Let_def split: option.splits prod.splits
      intro!: ids intro: statements)

lemma oauth_user_keeps:
  assumes "oauth_user env now info provider ip agent st = (r, st')" and "P (as_db st)"
  shows "P (as_db st')"
  using assms
  by (auto simp: oauth_user_def Let_def split: option.splits prod.splits
      intro!: keeps_audit ids intro: statements elim!: createUser_keeps)

lemma keeps_callback:
  assumes "P (as_db st)"
  shows "P (as_db (snd (OAuthCallback env now code s ip agent st)))"
proof -
  obtain v rd where v: "verifyState env now s (as_redis st) = (v, rd)" by force
  have p1: "P (as_db (st\<lparr>as_redis := rd\<rparr>))" using assms by simp
  have p2: "P (as_db st2)" if "oauth_user env now info provider ip agent (st\<lparr>as_redis := rd\<rparr>) = (r, st2)"
    for info provider r st2 using oauth_user_keeps [OF that p1] .
  show ?thesis
  proof (cases v)
    case (Inl e)
    then show ?thesis using v p1 by (simp add: OAuthCallback_def Let_def keeps_audit)
  next
    case (Inr a)
    then show ?thesis
      using v p1
      by (auto simp: OAuthCallback_def Let_def split: option.splits sum.splits prod.splits
          intro!: keeps_audit intro: statements p2 elim!: open_session_keeps)
  qed
qed

lemma keeps_refresh:
  assumes "P (as_db st)"
  shows "P (as_db (snd (RefreshToken env now token ip agent st)))"
  using assms
  by (auto simp: RefreshToken_def Let_def split: option.splits prod.splits
      intro!: keeps_audit ids intro: statements)

lemma keeps_validate: "P (as_db st) \<Longrightarrow> P (as_db (snd (ValidateToken env now token st)))"
  by (auto simp: ValidateToken_def keeps_audit split: option.splits)

lemma keeps_logout: "P (as_db st) \<Longrightarrow> P (as_db (Logout env now u token sid ip agent st))"
  by (auto simp: Logout_def Let_def split: option.splits prod.splits
      intro!: keeps_audit intro: statements)

lemma keeps_update_user:
  assumes "P (as_db st)"
  shows "P (as_db (snd (UpdateUser env now i email name st)))"
proof (cases "user_GetByID (ae_down env) i (as_db st)")
  case None
  then show ?thesis using assms by (simp add: UpdateUser_def)
next
  case (Some u)
  then have u: "u \<in> set (ad_users (as_db st))"
    by (auto simp: user_GetByID_def split: if_splits dest: find_Some_inD)
  have "P db'" if "user_Update (ae_down env) r (as_db st) = Some db'" "au_id r = au_id u" "au_tier r = au_tier u"
    for r db' using user_updated [OF assms u that(2,3,1)] .
  then show ?thesis using assms Some
    by (auto simp: UpdateUser_def Let_def split: option.splits)
qed

lemma keeps_user_ops:
  assumes "P (as_db st)"
  shows "P (as_db (snd (LockAccount env now i hours st)))"
    and "P (as_db (snd (UnlockAccount env now i st)))"
  using assms
  by (auto simp: LockAccount_def UnlockAccount_def Let_def split: option.splits prod.splits
      intro: statements elim!: write_audit_keeps)

lemma keeps_team_ops:
  assumes "P (as_db st)"
  shows "P (as_db (snd (ChangeMemberRole env g a t role st)))"
    and "P (as_db (snd (RemoveMember env g a t st)))"
    and "P (as_db (snd (LeaveOrganization env g a st)))"
  using assms
  by (auto simp: ChangeMemberRole_def RemoveMember_def LeaveOrganization_def Let_def
      split: option.splits sum.splits intro: statements role_updated)

lemma keeps_transfer:
  assumes "P (as_db st)"
  shows "P (as_db (snd (TransferOwnership env now g a t st)))"
proof (cases "resolveActorAndTarget env g a t (as_db st)")
  case (Inl e)
  then show ?thesis using assms by (simp add: TransferOwnership_def)
next
  case (Inr mt)
  then obtain m m' where r: "resolveActorAndTarget env g a t (as_db st) = Inr (m, m')" by (cases mt) simp
  then have m: "m \<in> set (ad_members (as_db st))" "is_member g a m"
    by (auto simp: resolveActorAndTarget_def member_GetByOrgAndUser_def split: option.splits if_splits
        dest: find_Some_inD)
  show ?thesis
  proof (cases "mb_role m = RoleOwner \<and> a \<noteq> t")
    case False
    then show ?thesis using assms r by (auto simp: TransferOwnership_def)
  next
    case True
    have p1: "P db1" if "member_UpdateRole (ae_down env) g a RoleAdmin (as_db st) = Some db1" for db1
      using role_updated [OF assms _ that] by simp
    have p2: "P db2" if "member_UpdateRole (ae_down env) g a RoleAdmin (as_db st) = Some db1"
        "member_UpdateRole (ae_down env) g t RoleOwner db1 = Some db2" for db1 db2
      using owner_moved [OF assms m _ _ that] True by simp
    show ?thesis using assms r True p1 p2
      by (auto simp: TransferOwnership_def split: option.splits intro: owner_updated [rotated])
  qed
qed

lemma keeps_invite_ops:
  assumes "P (as_db st)"
  shows "P (as_db (snd (Invite env parse now g a email role st)))"
    and "P (as_db (snd (RevokeInvite env now a i st)))"
  using assms
  by (auto simp: Invite_def RevokeInvite_def Let_def split: option.splits
      intro!: ids intro: statements invite_updated [rotated 2])

lemma keeps_accept:
  assumes "P (as_db st)"
  shows "P (as_db (snd (AcceptInvite env now token email u st)))"
proof (cases "inv_GetByToken (ae_down env) token (as_db st)")
  case None
  then show ?thesis using assms by (simp add: AcceptInvite_def)
next
  case (Some v)
  then have "v \<in> set (ad_invites (as_db st))"
    by (auto simp: inv_GetByToken_def split: if_splits dest: find_Some_inD)
  then have "iv_role v \<noteq> RoleOwner" by (rule invite_role [OF assms])
  then show ?thesis using assms Some
    by (auto simp: AcceptInvite_def Let_def new_member_def split: option.splits
        intro!: ids intro: invite_updated [rotated 2] member_made [rotated 2])
qed

lemma keeps_op: "P (as_db st) \<Longrightarrow> P (as_db (run_op env parse op st))"
  by (cases op) (simp_all add: keeps_login keeps_register keeps_oauth_login keeps_callback keeps_refresh
      keeps_validate keeps_logout keeps_update_user keeps_user_ops keeps_team_ops keeps_transfer keeps_invite_ops keeps_accept)

lemma keeps_run: "P (as_db st) \<Longrightarrow> P (as_db (run_ops env parse ops st))"
  by (induction env parse ops st rule: run_ops.induct) (simp_all add: keeps_op)

end

end
