(* ===== verification/AuthInvariants.thy ===== *)
theory AuthInvariants
  imports AuthTrace
begin

text \<open>
  What every history of the authentication service keeps, whatever statements fail: the constraints of
  the tables, that a refresh token once revoked stays revoked, and that an organization that has lost
  its owner has none again. Each is an interpretation of \<open>db_invariant\<close>.
\<close>

lemmas statement_defs = use_ids_def user_Create_def user_Update_def set_user_def token_Create_def
  token_RevokeRow_def oauth_Create_def audit_Create_def org_Create_def org_UpdateOwner_def
  member_Create_def member_UpdateRole_def member_Delete_def inv_Create_def inv_UpdateStatus_def

definition invites_ok :: "auth_db \<Rightarrow> bool" where
  "invites_ok db \<longleftrightarrow> list_all (\<lambda>v. iv_role v \<noteq> RoleOwner) (ad_invites db)"

lemma invites_ok_add: "invites_ok db \<Longrightarrow> iv_role v \<noteq> RoleOwner \<Longrightarrow>
    invites_ok (db\<lparr>ad_invites := ad_invites db @ [v]\<rparr>)"
  by (simp add: invites_ok_def)

lemma invites_ok_status: "invites_ok db \<Longrightarrow>
    invites_ok (db\<lparr>ad_invites := upd_where p (set_invite_status s at) (ad_invites db)\<rparr>)"
  by (auto simp: invites_ok_def list_all_iff set_upd_where set_invite_status_def)

section \<open>Revoked tokens\<close>

definition spent :: "string \<Rightarrow> auth_db \<Rightarrow> bool" where
  "spent h db \<longleftrightarrow> invites_ok db \<and>
     (case List.find (\<lambda>t. rt_hash t = h) (ad_tokens db) of None \<Rightarrow> False | Some t \<Rightarrow> rt_revoked t \<noteq> None)"

lemma spent_revoke: "spent h db \<Longrightarrow> token_RevokeRow down now i db = Some db' \<Longrightarrow> spent h db'"
  by (auto simp: spent_def token_RevokeRow_def invites_ok_def find_upd_kept split: if_splits option.splits)

interpretation spent: db_invariant "spent h" for h
proof (unfold_locales, goal_cases)
  case (6 db down now i db')
  then show ?case by (rule spent_revoke)
qed (auto simp: spent_def statement_defs invites_ok_def find_append set_upd_where list_all_iff
    set_invite_status_def Let_def split: if_splits option.splits)

section \<open>Organizations without an owner\<close>

definition ownerless :: "nat \<Rightarrow> auth_db \<Rightarrow> bool" where
  "ownerless g db \<longleftrightarrow> invites_ok db \<and> list_ex (\<lambda>r. og_id r = g) (ad_orgs db) \<and>
     \<not> list_ex (\<lambda>m. mb_org m = g \<and> mb_role m = RoleOwner) (ad_members db)"

interpretation ownerless: db_invariant "ownerless g" for g
proof (unfold_locales, goal_cases)
  case (10 db r0 r down db1 i u db')
  then have "og_id r \<noteq> g" by (auto simp: ownerless_def org_Create_def list_ex_iff split: if_splits)
  then show ?case using 10
    by (auto simp: ownerless_def statement_defs invites_ok_def new_member_def list_ex_iff split: if_splits)
next
  case (11 db down now g' u db')
  then show ?case by (auto simp: ownerless_def org_UpdateOwner_def invites_ok_def split: if_splits)
next
  case (13 db role down g' u db')
  then show ?case
    by (auto simp: ownerless_def statement_defs invites_ok_def list_ex_iff set_upd_where split: if_splits)
next
  case (14 db m g' a t down db1 db')
  then have "g' \<noteq> g" by (auto simp: ownerless_def is_member_def list_ex_iff)
  then show ?case using 14
    by (auto simp: ownerless_def statement_defs invites_ok_def list_ex_iff set_upd_where is_member_def
        split: if_splits)
qed (auto simp: ownerless_def statement_defs invites_ok_def list_ex_iff set_upd_where list_all_iff
    set_invite_status_def Let_def split: if_splits option.splits)

section \<open>Users stay, and stay on the free plan\<close>

definition user_known :: "nat \<Rightarrow> auth_db \<Rightarrow> bool" where
  "user_known i db \<longleftrightarrow> invites_ok db \<and> list_ex (\<lambda>u. au_id u = i) (ad_users db)"

interpretation user_known: db_invariant "user_known i" for i
  by unfold_locales
    (auto simp: user_known_def statement_defs invites_ok_def set_upd_where list_all_iff set_user_columns_def
      set_invite_status_def Let_def split: if_splits)

definition all_free :: "auth_db \<Rightarrow> bool" where
  "all_free db \<longleftrightarrow> invites_ok db \<and> list_all (\<lambda>u. au_tier u = ''Free'') (ad_users db) \<and>
     list_all (\<lambda>g. og_tier g = ''Free'') (ad_orgs db)"

interpretation all_free: db_invariant all_free
  by unfold_locales
    (auto simp: all_free_def statement_defs invites_ok_def set_upd_where list_all_iff set_user_columns_def
      set_invite_status_def Let_def split: if_splits)

section \<open>The constraints of the tables\<close>

definition is_owner :: "membership \<Rightarrow> bool" where
  "is_owner m \<longleftrightarrow> mb_role m = RoleOwner"

definition is_pending :: "invite \<Rightarrow> bool" where
  "is_pending v \<longleftrightarrow> iv_status v = InvitePending"

definition users_ok :: "auth_db \<Rightarrow> bool" where
  "users_ok db \<longleftrightarrow> distinct (map au_id (ad_users db)) \<and> distinct (map au_email (ad_users db)) \<and>
     distinct (map rt_id (ad_tokens db)) \<and> list_all (\<lambda>t. user_exists db (rt_user t)) (ad_tokens db) \<and>
     distinct (map (\<lambda>a. (oa_provider a, oa_subject a)) (ad_oauth db)) \<and>
     list_all (\<lambda>a. user_exists db (oa_user a)) (ad_oauth db)"

definition members_ok :: "auth_db \<Rightarrow> bool" where
  "members_ok db \<longleftrightarrow> distinct (map og_id (ad_orgs db)) \<and>
     list_all (\<lambda>g. user_exists db (og_owner g)) (ad_orgs db) \<and>
     distinct (map (\<lambda>m. (mb_org m, mb_user m)) (ad_members db)) \<and>
     distinct (map mb_org (filter is_owner (ad_members db))) \<and>
     list_all (\<lambda>m. role_IsValid (mb_role m) \<and> user_exists db (mb_user m) \<and>
       list_ex (\<lambda>g. og_id g = mb_org m) (ad_orgs db)) (ad_members db)"

definition pending_ok :: "auth_db \<Rightarrow> bool" where
  "pending_ok db \<longleftrightarrow> invites_ok db \<and> distinct (map iv_id (ad_invites db)) \<and>
     distinct (map iv_token (ad_invites db)) \<and>
     distinct (map (\<lambda>v. (iv_org v, iv_email v)) (filter is_pending (ad_invites db))) \<and>
     list_all (\<lambda>v. list_ex (\<lambda>g. og_id g = iv_org v) (ad_orgs db)) (ad_invites db)"

definition tables_ok :: "auth_db \<Rightarrow> bool" where
  "tables_ok db \<longleftrightarrow> users_ok db \<and> members_ok db \<and> pending_ok db"

lemma tables_ok_empty: "tables_ok empty_auth_db"
  by (simp add: tables_ok_def users_ok_def members_ok_def pending_ok_def invites_ok_def empty_auth_db_def)

lemma user_exists_add [simp]: "user_exists (db\<lparr>ad_users := ad_users db @ [u]\<rparr>) i \<longleftrightarrow> user_exists db i \<or> au_id u = i"
  by (simp add: user_exists_def)

lemma user_exists_set [simp]:
  "(\<And>r. au_id (f r) = au_id r) \<Longrightarrow> user_exists (db\<lparr>ad_users := upd_where p f (ad_users db)\<rparr>) i = user_exists db i"
  by (auto simp: user_exists_def list_ex_iff set_upd_where)

lemma user_exists_other [simp]:
  "user_exists (db\<lparr>ad_tokens := a\<rparr>) i = user_exists db i"
  "user_exists (db\<lparr>ad_oauth := b\<rparr>) i = user_exists db i"
  "user_exists (db\<lparr>ad_audit := c\<rparr>) i = user_exists db i"
  "user_exists (db\<lparr>ad_orgs := d\<rparr>) i = user_exists db i"
  "user_exists (db\<lparr>ad_members := e\<rparr>) i = user_exists db i"
  "user_exists (db\<lparr>ad_invites := f\<rparr>) i = user_exists db i"
  "user_exists (db\<lparr>ad_next := g\<rparr>) i = user_exists db i"
  by (simp_all add: user_exists_def)

text \<open>The statements on memberships and invites keep their unique indexes.\<close>

lemma member_role_ok:
  assumes "members_ok db" and "member_UpdateRole down g u role db = Some db'"
  shows "members_ok db'"
proof -
  have role: "role_IsValid role" and db': "db' = db\<lparr>ad_members :=
      upd_where (is_member g u) (\<lambda>m. m\<lparr>mb_role := role\<rparr>) (ad_members db)\<rparr>"
    and alone: "role = RoleOwner \<Longrightarrow> m \<in> set (ad_members db) \<Longrightarrow> mb_org m = g \<Longrightarrow> is_owner m \<Longrightarrow> mb_user m = u" for m
    using assms(2) by (auto simp: member_UpdateRole_def list_ex_iff is_owner_def split: if_splits)
  have "distinct (map mb_org (filter is_owner (ad_members db')))"
    unfolding db' using assms(1) alone
    by (auto simp: members_ok_def is_owner_def is_member_def
        intro!: distinct_filter_upd [where key = "\<lambda>m. (mb_org m, mb_user m)" and c = "(g, u)"])
  then show ?thesis using assms(1) role
    by (auto simp: members_ok_def db' list_all_iff set_upd_where)
qed

lemma member_create_ok:
  assumes "members_ok db" and "member_Create down m db = Some db'"
  shows "members_ok db'"
proof -
  have db': "db' = db\<lparr>ad_members := ad_members db @ [m]\<rparr>"
    and new: "role_IsValid (mb_role m)" "user_exists db (mb_user m)" "list_ex (\<lambda>g. og_id g = mb_org m) (ad_orgs db)"
    and no: "r \<in> set (ad_members db) \<Longrightarrow> \<not> member_clash m r" for r
    using assms(2) by (auto simp: member_Create_def list_ex_iff split: if_splits)
  have "(mb_org m, mb_user m) \<notin> (\<lambda>r. (mb_org r, mb_user r)) ` set (ad_members db)"
    using no by (force simp: member_clash_def)
  moreover have "is_owner m \<Longrightarrow> mb_org m \<notin> mb_org ` {r \<in> set (ad_members db). is_owner r}"
    using no by (force simp: member_clash_def is_owner_def)
  ultimately show ?thesis using assms(1) new by (simp add: members_ok_def db')
qed

lemma member_delete_ok:
  assumes "members_ok db" and "member_Delete down g u db = Some db'"
  shows "members_ok db'"
proof -
  have "distinct (map k (filter p (del_where q rs)))" if "distinct (map k (filter p rs))"
    for k :: "membership \<Rightarrow> nat" and p q rs
    using that by (induction rs) (auto simp: del_where_def split: if_splits)
  then show ?thesis using assms
    by (auto simp: members_ok_def member_Delete_def list_all_iff distinct_key_del_where split: if_splits)
qed

lemma invite_status_ok:
  assumes "pending_ok db" and "s \<noteq> InvitePending" and "inv_UpdateStatus down i s at db = Some db'"
  shows "pending_ok db'"
proof -
  have db': "db' = db\<lparr>ad_invites := upd_where (\<lambda>v. iv_id v = i) (set_invite_status s at) (ad_invites db)\<rparr>"
    using assms(2,3) by (auto simp: inv_UpdateStatus_def split: if_splits)
  have "distinct (map (\<lambda>v. (iv_org v, iv_email v)) (filter is_pending (ad_invites db')))"
    unfolding db' using assms(1,2)
    by (auto simp: pending_ok_def is_pending_def set_invite_status_def
        intro!: distinct_filter_upd [where key = iv_id and c = i])
  then show ?thesis using assms(1)
    by (auto simp: pending_ok_def db' list_all_iff set_upd_where invites_ok_def set_invite_status_def)
qed

lemma invite_create_ok:
  assumes "pending_ok db" and "inv_Create down v db = Some db'"
  shows "pending_ok db'"
proof -
  have db': "db' = db\<lparr>ad_invites := ad_invites db @ [v]\<rparr>"
    and new: "iv_role v \<noteq> RoleOwner" "list_ex (\<lambda>g. og_id g = iv_org v) (ad_orgs db)"
    and no: "r \<in> set (ad_invites db) \<Longrightarrow> \<not> invite_clash v r" for r
    using assms(2) by (auto simp: inv_Create_def list_ex_iff split: if_splits)
  have "iv_id v \<notin> iv_id ` set (ad_invites db)" "iv_token v \<notin> iv_token ` set (ad_invites db)"
    using no by (force simp: invite_clash_def)+
  moreover have "is_pending v \<Longrightarrow>
      (iv_org v, iv_email v) \<notin> (\<lambda>r. (iv_org r, iv_email r)) ` {r \<in> set (ad_invites db). is_pending r}"
    using no by (force simp: invite_clash_def is_pending_def)
  ultimately show ?thesis using assms(1) new by (simp add: pending_ok_def invites_ok_def db')
qed

text \<open>The statements on the other tables.\<close>

lemma members_ok_frame:
  "members_ok db \<Longrightarrow> ad_orgs db' = ad_orgs db \<Longrightarrow> ad_members db' = ad_members db \<Longrightarrow>
   (\<And>i. user_exists db i \<Longrightarrow> user_exists db' i) \<Longrightarrow> members_ok db'"
  by (auto simp: members_ok_def list_all_iff)

lemma pending_ok_frame:
  "pending_ok db \<Longrightarrow> ad_invites db' = ad_invites db \<Longrightarrow>
   (\<And>i. list_ex (\<lambda>g. og_id g = i) (ad_orgs db) \<Longrightarrow> list_ex (\<lambda>g. og_id g = i) (ad_orgs db')) \<Longrightarrow> pending_ok db'"
  by (auto simp: pending_ok_def invites_ok_def list_all_iff)

lemma users_ok_frame:
  "users_ok db \<Longrightarrow> ad_users db' = ad_users db \<Longrightarrow> ad_tokens db' = ad_tokens db \<Longrightarrow> ad_oauth db' = ad_oauth db \<Longrightarrow>
   users_ok db'"
  by (auto simp: users_ok_def user_exists_def)

lemma users_ok_set:
  assumes "users_ok db" and "\<And>r. au_id (f r) = au_id r \<and> au_email (f r) = au_email r"
  shows "users_ok (set_user i f db)"
  using assms by (auto simp: users_ok_def set_user_def)

lemma user_create_ok: "users_ok db \<Longrightarrow> user_Create down u db = Some (u', db') \<Longrightarrow> users_ok db'"
  by (auto simp: users_ok_def user_Create_def Let_def list_ex_iff list_all_iff split: if_splits) blast+

lemma user_update_ok:
  assumes "users_ok db" and "user_Update down u db = Some db'"
  shows "users_ok db'"
proof (cases "list_ex (\<lambda>r. au_id r = au_id u) (ad_users db)")
  case False
  then have "db' = db" using assms(2)
    by (auto simp: user_Update_def set_user_def list_ex_iff split: if_splits)
  then show ?thesis using assms(1) by simp
next
  case True
  have db': "db' = set_user (au_id u) (set_user_columns u) db"
    and alone: "r \<in> set (ad_users db) \<Longrightarrow> au_email r = au_email u \<Longrightarrow> au_id r = au_id u" for r
    using assms(2) True by (auto simp: user_Update_def list_ex_iff split: if_splits)
  have key: "au_id (set_user_columns u r) = au_id r" "au_email (set_user_columns u r) = au_email u" for r
    by (simp_all add: set_user_columns_def)
  have "distinct (map au_email (upd_where (\<lambda>r. au_id r = au_id u) (set_user_columns u) rs))"
    if "distinct (map au_id rs)" "distinct (map au_email rs)" "set rs \<subseteq> set (ad_users db)" for rs
    using that
  proof (induction rs)
    case (Cons r rs)
    show ?case
    proof (cases "au_id r = au_id u")
      case True
      then have "au_id r' \<noteq> au_id u" if "r' \<in> set rs" for r' using Cons.prems(1) that True
        by (auto simp: image_iff)
      moreover from this have "au_email r' \<noteq> au_email u" if "r' \<in> set rs" for r'
        using alone [of r'] Cons.prems(3) that by auto
      ultimately show ?thesis using Cons.prems True by (force simp: upd_where_Cons key)
    next
      case False
      then have "au_email r \<noteq> au_email u" using alone [of r] Cons.prems(3) by auto
      then have "au_email r \<notin> au_email ` set (upd_where (\<lambda>r. au_id r = au_id u) (set_user_columns u) rs)"
        using Cons.prems(2) key(2) by (auto simp: set_upd_where image_iff)
      then show ?thesis using Cons False by (auto simp: upd_where_Cons)
    qed
  qed simp
  then show ?thesis using assms(1) key
    by (auto simp: users_ok_def db' set_user_def)
qed

lemma token_ops_ok:
  assumes "users_ok db"
  shows "token_Create down inet t db = Some db' \<Longrightarrow> users_ok db'"
    and "token_RevokeRow down now i db = Some db' \<Longrightarrow> users_ok db'"
    and "oauth_Create down a db = Some db' \<Longrightarrow> users_ok db'"
  using assms
  by (auto simp: users_ok_def token_Create_def token_RevokeRow_def oauth_Create_def list_ex_iff list_all_iff
      set_upd_where split: if_splits) blast+


text \<open>The same over the whole state.\<close>

lemma tables_ids: "tables_ok db \<Longrightarrow> tables_ok (use_ids n db)"
  by (auto simp: tables_ok_def use_ids_def user_exists_def
      intro: users_ok_frame members_ok_frame pending_ok_frame)

lemma org_create_ok:
  assumes "tables_ok db" and "org_Create down g db = Some db'"
  shows "tables_ok db'"
proof -
  have db': "db' = db\<lparr>ad_orgs := ad_orgs db @ [g]\<rparr>" and u: "user_exists db (og_owner g)"
    and no: "og_id g \<notin> og_id ` set (ad_orgs db)"
    using assms(2) by (auto simp: org_Create_def list_ex_iff split: if_splits)
  have "members_ok db'" using assms(1) u no
    by (auto simp: tables_ok_def members_ok_def db' list_all_iff)
  moreover have "pending_ok db'" "users_ok db'" using assms(1)
    by (auto simp: tables_ok_def db' intro: users_ok_frame pending_ok_frame)
  ultimately show ?thesis by (simp add: tables_ok_def)
qed

lemma org_owner_ok:
  assumes "tables_ok db" and "org_UpdateOwner down now g u db = Some db'"
  shows "tables_ok db'"
proof -
  have db': "db' = db\<lparr>ad_orgs := upd_where (\<lambda>r. og_id r = g) (\<lambda>r. r\<lparr>og_owner := u, og_updated := now\<rparr>) (ad_orgs db)\<rparr>"
    and u: "user_exists db u"
    using assms(2) by (auto simp: org_UpdateOwner_def split: if_splits)
  have "members_ok db'" using assms(1) u
    by (auto simp: tables_ok_def members_ok_def db' list_all_iff set_upd_where)
  moreover have "pending_ok db'" "users_ok db'" using assms(1)
    by (auto simp: tables_ok_def db' intro: users_ok_frame pending_ok_frame)
  ultimately show ?thesis by (simp add: tables_ok_def)
qed

lemma tables_member:
  assumes "tables_ok db" and "member_Create down m db = Some db'"
  shows "tables_ok db'"
proof -
  have "ad_users db' = ad_users db" "ad_tokens db' = ad_tokens db" "ad_oauth db' = ad_oauth db"
    "ad_orgs db' = ad_orgs db" "ad_invites db' = ad_invites db"
    using assms(2) by (auto simp: member_Create_def split: if_splits)
  then show ?thesis using assms
    by (auto simp: tables_ok_def intro: users_ok_frame pending_ok_frame member_create_ok)
qed

lemma tables_role:
  assumes "tables_ok db" and "member_UpdateRole down g u role db = Some db'"
  shows "tables_ok db'"
proof -
  have "ad_users db' = ad_users db" "ad_tokens db' = ad_tokens db" "ad_oauth db' = ad_oauth db"
    "ad_orgs db' = ad_orgs db" "ad_invites db' = ad_invites db"
    using assms(2) by (auto simp: member_UpdateRole_def split: if_splits)
  then show ?thesis using assms
    by (auto simp: tables_ok_def intro: users_ok_frame pending_ok_frame member_role_ok)
qed

interpretation tables: db_invariant tables_ok
proof (unfold_locales, goal_cases)
  case (1 db n)
  then show ?case
    by (auto simp: tables_ok_def use_ids_def user_exists_def
        intro: users_ok_frame members_ok_frame pending_ok_frame)
next
  case (2 db r down r' db')
  have f: "ad_orgs db' = ad_orgs db" "ad_members db' = ad_members db" "ad_invites db' = ad_invites db"
    "\<And>i. user_exists db i \<Longrightarrow> user_exists db' i"
    using 2(3) by (auto simp: user_Create_def Let_def split: if_splits)
  show ?case using 2 f by (auto simp: tables_ok_def intro: user_create_ok members_ok_frame pending_ok_frame)
next
  case (3 db r0 r down db')
  have f: "ad_orgs db' = ad_orgs db" "ad_members db' = ad_members db" "ad_invites db' = ad_invites db"
    "\<And>i. user_exists db i \<Longrightarrow> user_exists db' i"
    using 3(5) by (auto simp: user_Update_def set_user_def set_user_columns_def split: if_splits)
  show ?case using 3 f by (auto simp: tables_ok_def intro: user_update_ok members_ok_frame pending_ok_frame)
next
  case (4 db f i)
  then have "members_ok (set_user i f db)" "pending_ok (set_user i f db)"
    by (auto simp: tables_ok_def set_user_def intro: members_ok_frame pending_ok_frame)
  then show ?case using 4 by (simp add: tables_ok_def users_ok_set)
next
  case (5 db down inet tok db')
  then show ?case
    by (auto simp: tables_ok_def token_Create_def split: if_splits
        intro: token_ops_ok(1) [unfolded token_Create_def] members_ok_frame pending_ok_frame)
next
  case (6 db down now i db')
  have f: "ad_orgs db' = ad_orgs db" "ad_members db' = ad_members db" "ad_invites db' = ad_invites db"
    "\<And>i. user_exists db i \<Longrightarrow> user_exists db' i"
    using 6(2) by (auto simp: token_RevokeRow_def split: if_splits)
  show ?case using 6 f by (auto simp: tables_ok_def intro: token_ops_ok members_ok_frame pending_ok_frame)
next
  case (7 db down acc db')
  have f: "ad_orgs db' = ad_orgs db" "ad_members db' = ad_members db" "ad_invites db' = ad_invites db"
    "\<And>i. user_exists db i \<Longrightarrow> user_exists db' i"
    using 7(2) by (auto simp: oauth_Create_def split: if_splits)
  show ?case using 7 f by (auto simp: tables_ok_def intro: token_ops_ok members_ok_frame pending_ok_frame)
next
  case (8 db down inet l db')
  then show ?case
    by (auto simp: tables_ok_def audit_Create_def user_exists_def split: if_splits
        intro: users_ok_frame members_ok_frame pending_ok_frame)
next
  case (9 db r0 r down db')
  show ?case using 9(1,4) by (rule org_create_ok)
next
  case (10 db r0 r down db1 i u db')
  have "tables_ok db1" using 10(1,4) by (rule org_create_ok)
  then have "tables_ok (use_ids 1 db1)" by (rule tables_ids)
  then show ?case using 10(5) by (rule tables_member)
next
  case (11 db down now g u db')
  then show ?case by (rule org_owner_ok)
next
  case (12 db m down db')
  show ?case using 12(1,3) by (rule tables_member)
next
  case (13 db role down g u db')
  show ?case using 13(1,3) by (rule tables_role)
next
  case (14 db m g a t down db1 db')
  have "tables_ok db1" using 14(1,6) by (rule tables_role)
  then show ?case using 14(7) by (rule tables_role)
next
  case (15 db down g u db')
  then show ?case
    by (auto simp: tables_ok_def member_Delete_def split: if_splits
        intro: users_ok_frame member_delete_ok [unfolded member_Delete_def] pending_ok_frame)
next
  case (16 db down v db')
  then show ?case
    by (auto simp: tables_ok_def inv_Create_def split: if_splits
        intro: users_ok_frame members_ok_frame invite_create_ok [unfolded inv_Create_def])
next
  case (17 db s down i at db')
  then show ?case
    by (auto simp: tables_ok_def inv_UpdateStatus_def split: if_splits
        intro: users_ok_frame members_ok_frame invite_status_ok [unfolded inv_UpdateStatus_def])
next
  case (18 db v)
  then show ?case by (auto simp: tables_ok_def pending_ok_def invites_ok_def list_all_iff)
qed

end
