(* ===== verification/AuthSafety.thy ===== *)
theory AuthSafety
  imports AuthInvariants
begin

text \<open>
  What the authentication service guarantees over its histories, and where it does not: one use for a
  refresh token, a bound on the passwords that can be tried, the owner of an organization, the members of a
  team and the sessions of a user.
\<close>

definition auth_init :: auth_state where
  "auth_init = \<lparr>as_db = empty_auth_db, as_redis = empty_redis, as_events = []\<rparr>"

definition no_faults :: auth_faults where
  "no_faults = (\<lambda>_. False)"

abbreviation with_faults :: "auth_env \<Rightarrow> auth_faults \<Rightarrow> auth_env" where
  "with_faults env down \<equiv> env\<lparr>ae_down := down\<rparr>"

lemma reachable_tables_ok: "tables_ok (as_db (run_ops env parse ops auth_init))"
  by (rule tables.keeps_run) (simp add: auth_init_def tables_ok_empty)

lemma tables_ok_invites: "tables_ok db \<Longrightarrow> invites_ok db"
  by (simp add: tables_ok_def pending_ok_def)

section \<open>Refresh tokens\<close>

text \<open>A refresh leaves the token's row revoked.\<close>

lemma refresh_spends:
  assumes "RefreshToken env now token ip agent st = (Inr r, st')" and "invites_ok (as_db st)"
  shows "spent (ae_sha env token) (as_db st')"
proof -
  let ?h = "ae_sha env token"
  obtain t db2 tok db4 ok err where
      t: "token_GetByTokenHash (ae_down env) ?h (as_db st) = Some t"
    and rev: "token_RevokeRow (ae_down env) now (rt_id t) (use_ids 2 (as_db st)) = Some db2"
    and new: "token_Create (ae_down env) (ae_inet env) tok (use_ids 1 db2) = Some db4"
    and st': "st' = logAuditEvent env now (Some (rt_user t)) EvTokenRefresh [] ok ip agent err (set_db db4 st)"
    using assms(1) by (auto simp: RefreshToken_def Let_def split: option.splits if_splits prod.splits)
  have "spent ?h db2" using t rev assms(2)
    by (auto simp: spent_def token_GetByTokenHash_def token_RevokeRow_def use_ids_def invites_ok_def
        find_upd_kept split: if_splits)
  then have "spent ?h db4" by (rule spent.token_made [OF spent.ids new])
  then show ?thesis by (simp add: st' spent.keeps_audit)
qed

lemma spent_refused:
  assumes "spent (ae_sha env token) (as_db st)"
  shows "fst (RefreshToken env now token ip agent st) = Inl InvalidRefreshToken"
  using assms
  by (auto simp: RefreshToken_def spent_def token_GetByTokenHash_def token_IsValid_def split: option.splits)

text \<open>
  Property C8. A refresh token can be redeemed once. After that every later attempt is refused, whatever
  happens in between and whatever statements fail. This is of operations that run one after the other: two
  requests that run at the same time may both read the token before either revokes it, as there is no
  transaction around the two statements.
\<close>

theorem refresh_token_single_use:
  assumes "RefreshToken (with_faults env d1) now token ip agent (run_ops env parse before auth_init) = (Inr r, st')"
  shows "fst (RefreshToken (with_faults env d2) now2 token ip2 agent2 (run_ops env parse after st'))
    = Inl InvalidRefreshToken"
proof -
  have "spent (ae_sha env token) (as_db st')"
    using refresh_spends [OF assms tables_ok_invites [OF reachable_tables_ok]] by simp
  then have "spent (ae_sha env token) (as_db (run_ops env parse after st'))" by (rule spent.keeps_run)
  then show ?thesis by (intro spent_refused) simp
qed

section \<open>Owners\<close>

lemma member_role_frame:
  "member_UpdateRole down g u role db = Some db' \<Longrightarrow> ad_orgs db' = ad_orgs db \<and> ad_invites db' = ad_invites db"
  by (auto simp: member_UpdateRole_def split: if_splits)

text \<open>The new owner's row cannot be written after the old owner's was.\<close>

lemma broken_transfer_orphans:
  assumes ok: "tables_ok (as_db st)" and m: "m \<in> set (ad_members (as_db st))" "is_member g a m" "mb_role m = RoleOwner"
    and t: "list_ex (is_member g t) (ad_members (as_db st))" and "a \<noteq> t"
    and down: "ae_down env = (\<lambda>c. c = MemberRole t)"
  shows "fst (TransferOwnership env now g a t st) = Some TeamStoreError
    \<and> ownerless g (as_db (snd (TransferOwnership env now g a t st)))"
proof -
  let ?db = "as_db st"
  have uniq: "distinct (map (\<lambda>m. (mb_org m, mb_user m)) (ad_members ?db))"
    and one: "distinct (map mb_org (filter is_owner (ad_members ?db)))"
    and fk: "list_ex (\<lambda>r. og_id r = g) (ad_orgs ?db)"
    using ok m by (auto simp: tables_ok_def members_ok_def list_all_iff is_member_def)
  have only: "m' = m" if "m' \<in> set (ad_members ?db)" "mb_org m' = g" "mb_user m' = a" for m'
    using inj_onD [OF conjunct2 [OF uniq [unfolded distinct_map]], of m' m] that m by (auto simp: is_member_def)
  have alone: "m' = m" if "m' \<in> set (ad_members ?db)" "mb_org m' = g" "mb_role m' = RoleOwner" for m'
    using inj_onD [OF conjunct2 [OF one [unfolded distinct_map]], of m' m] that m
    by (auto simp: is_member_def is_owner_def)
  have "List.find (is_member g a) (ad_members ?db) \<noteq> None" using m by (auto simp: find_None_iff)
  then obtain m' where m': "List.find (is_member g a) (ad_members ?db) = Some m'" by blast
  then have "m' = m" using only [of m'] find_Some_inD [OF m'] by (simp add: is_member_def)
  with m' have fa: "List.find (is_member g a) (ad_members ?db) = Some m" by simp
  obtain mt where ft: "List.find (is_member g t) (ad_members ?db) = Some mt"
    using t by (cases "List.find (is_member g t) (ad_members ?db)") (auto simp: find_None_iff list_ex_iff)
  let ?ms = "upd_where (is_member g a) (\<lambda>m. m\<lparr>mb_role := RoleAdmin\<rparr>) (ad_members ?db)"
  have up: "member_UpdateRole (ae_down env) g a RoleAdmin ?db = Some (?db\<lparr>ad_members := ?ms\<rparr>)"
    using m \<open>a \<noteq> t\<close> by (auto simp: member_UpdateRole_def down list_ex_iff role_IsValid_def)
  have no: "member_UpdateRole (ae_down env) g t RoleOwner (?db\<lparr>ad_members := ?ms\<rparr>) = None"
    by (simp add: member_UpdateRole_def down)
  have "TransferOwnership env now g a t st = (Some TeamStoreError, set_db (?db\<lparr>ad_members := ?ms\<rparr>) st)"
    using fa ft m(3) \<open>a \<noteq> t\<close> up no
    by (simp add: TransferOwnership_def resolveActorAndTarget_def member_GetByOrgAndUser_def down)
  moreover have "ownerless g (?db\<lparr>ad_members := ?ms\<rparr>)"
    using fk alone m tables_ok_invites [OF ok]
    by (auto simp: ownerless_def invites_ok_def list_ex_iff set_upd_where)
  ultimately show ?thesis by simp
qed

lemma ownerless_no_owner: "ownerless g db \<Longrightarrow> \<not> list_ex (\<lambda>m. mb_org m = g \<and> mb_role m = RoleOwner) (ad_members db)"
  by (simp add: ownerless_def)

text \<open>
  Property C20. When the second of the three updates of a transfer fails, the organization is left without
  an owner, and no later operation can give it one.
\<close>

theorem broken_transfer_for_ever:
  assumes "tables_ok (as_db st)"
    and "m \<in> set (ad_members (as_db st))" and "is_member g a m" and "mb_role m = RoleOwner"
    and "list_ex (is_member g t) (ad_members (as_db st))" and "a \<noteq> t"
    and "st' = snd (TransferOwnership (with_faults env (\<lambda>c. c = MemberRole t)) now g a t st)"
  shows "\<not> list_ex (\<lambda>m. mb_org m = g \<and> mb_role m = RoleOwner) (ad_members (as_db (run_ops env parse after st')))"
proof -
  have "ownerless g (as_db st')"
    using broken_transfer_orphans [of st m g a t "with_faults env (\<lambda>c. c = MemberRole t)" now] assms by simp
  then show ?thesis by (intro ownerless_no_owner ownerless.keeps_run)
qed

section \<open>Invites\<close>

lemma free_invite_refused:
  assumes "all_free db"
  shows "invite_refused env g inviter email db \<noteq> None"
proof (cases "member_GetByOrgAndUser (ae_down env) g inviter db")
  case (Some mo)
  show ?thesis
  proof (cases mo)
    case m: (Some m)
    then have "\<exists>m \<in> set (ad_members db). mb_org m = g" using Some
      by (auto simp: member_GetByOrgAndUser_def is_member_def split: if_splits dest!: find_Some_inD)
    then have "count_where (\<lambda>m. mb_org m = g) (ad_members db) \<noteq> 0" by (auto simp: count_where_0_iff)
    moreover have "TierUserLimits (og_tier org) = Some 1" if "org_GetByID (ae_down env) g db = Some org" for org
      using assms that
      by (auto simp: all_free_def org_GetByID_def list_all_iff TierUserLimits_def split: if_splits
          dest!: find_Some_inD)
    ultimately show ?thesis using Some m
      by (auto simp: invite_refused_def member_CountByOrg_def Let_def split: option.splits if_splits)
  qed (use Some in \<open>simp add: invite_refused_def\<close>)
qed (simp add: invite_refused_def)

text \<open>
  Property C21. A history that starts with empty tables never comes to an invite: every organization is on the
  free plan, whose limit of one member is reached by the one who invites.
\<close>

theorem invites_always_refused:
  "isl (fst (Invite (with_faults env down) parse now g inviter email role (run_ops env parse ops auth_init)))"
proof -
  let ?st = "run_ops env parse ops auth_init"
  have "all_free (as_db auth_init)"
    by (simp add: all_free_def auth_init_def empty_auth_db_def invites_ok_def)
  then have "all_free (as_db ?st)" by (rule all_free.keeps_run)
  then have no: "invite_refused (with_faults env down) g inviter email (as_db ?st) = None \<longleftrightarrow> False" for email
    using free_invite_refused by simp
  show ?thesis by (auto simp: Invite_def no split: option.split)
qed

end
