(* ===== verification/AuthGuesses.thy ===== *)
theory AuthGuesses
  imports AuthSafety
begin

text \<open>
  How many wrong passwords can be tried on an account. The attempts and the lock of a user are followed
  through \<open>PasswordLogin\<close>; their abstraction is \<open>lock_step\<close>, on which the bound is proved.
\<close>

section \<open>The lock by itself\<close>

type_synonym lock_state = "int \<times> time option"

definition lock_open :: "time \<Rightarrow> lock_state \<Rightarrow> bool" where
  "lock_open now s = (case snd s of None \<Rightarrow> True | Some t \<Rightarrow> \<not> now < t)"

definition lock_step :: "int \<Rightarrow> duration \<Rightarrow> time \<Rightarrow> lock_state \<Rightarrow> lock_state" where
  "lock_step limit d now s =
     (if lock_open now s then (fst s + 1, if limit \<le> fst s then Some (now + d) else snd s) else s)"

fun tries :: "int \<Rightarrow> duration \<Rightarrow> time list \<Rightarrow> lock_state \<Rightarrow> int" where
  "tries limit d [] s = 0"
| "tries limit d (x # xs) s = (if lock_open x s then 1 else 0) + tries limit d xs (lock_step limit d x s)"

definition open_from :: "time \<Rightarrow> lock_state \<Rightarrow> time" where
  "open_from s0 s = (case snd s of None \<Rightarrow> s0 | Some t \<Rightarrow> max s0 t)"

text \<open>From \<open>a\<close> on: one try in each period of the lock.\<close>

definition lock_periods :: "duration \<Rightarrow> time \<Rightarrow> time \<Rightarrow> int" where
  "lock_periods d a e = (if e < a then 0 else (e - a) div d + 1)"

lemma lock_periods_mono: "0 < d \<Longrightarrow> a \<le> b \<Longrightarrow> lock_periods d b e \<le> lock_periods d a e"
  using pos_imp_zdiv_nonneg_iff [of d "e - a"] by (auto simp: lock_periods_def intro: zdiv_mono1)

lemma lock_periods_next:
  assumes "0 < d" and "x \<le> e"
  shows "1 + lock_periods d (x + d) e \<le> lock_periods d x e"
proof (cases "e < x + d")
  case True
  then show ?thesis using assms by (simp add: lock_periods_def pos_imp_zdiv_nonneg_iff)
next
  case False
  have "(e - (x + d)) div d = (e - x) div d - 1"
    using div_mult_self2 [of d "e - (x + d)" 1] assms(1) by (simp add: algebra_simps)
  then show ?thesis using False assms(2) by (simp add: lock_periods_def)
qed

lemma tries_bounded:
  assumes "0 < d" and "sorted (s0 # xs)" and "list_all (\<lambda>x. x \<le> e) xs"
  shows "tries limit d xs s \<le> max 0 (limit - fst s) + lock_periods d (open_from s0 s) e"
  using assms(2,3)
proof (induction xs arbitrary: s0 s)
  case Nil
  then show ?case using assms(1) by (simp add: lock_periods_def pos_imp_zdiv_nonneg_iff)
next
  case (Cons x xs)
  have x: "s0 \<le> x" "x \<le> e" using Cons.prems by auto
  have ih: "tries limit d xs s' \<le> max 0 (limit - fst s') + lock_periods d (open_from x s') e" for s'
    using Cons.IH [of x s'] Cons.prems by simp
  show ?case
  proof (cases "lock_open x s")
    case False
    then have "open_from x s = open_from s0 s" using x
      by (auto simp: open_from_def lock_open_def split: option.splits)
    then show ?thesis using ih [of s] False by (simp add: lock_step_def)
  next
    case True
    then have from_x: "open_from s0 s \<le> x" "open_from x s = x" using x
      by (auto simp: open_from_def lock_open_def split: option.splits)
    note later = lock_periods_mono [OF assms(1) from_x(1), of e]
    show ?thesis
    proof (cases "limit \<le> fst s")
      case limit: True
      have "open_from x (lock_step limit d x s) = x + d" using True limit assms(1)
        by (simp add: lock_step_def open_from_def)
      then show ?thesis using ih [of "lock_step limit d x s"] True limit later
          lock_periods_next [OF assms(1) x(2)]
        by (simp add: lock_step_def)
    next
      case limit: False
      have "open_from x (lock_step limit d x s) = x" using True limit from_x(2)
        by (simp add: lock_step_def open_from_def)
      then show ?thesis using ih [of "lock_step limit d x s"] True limit later
        by (simp add: lock_step_def)
    qed
  qed
qed

text \<open>At one moment: one more than the limit.\<close>

lemma tries_at_once:
  assumes "0 < d" and "lock_open t s" and "fst s \<le> limit"
  shows "tries limit d (replicate n t) s = min (int n) (limit - fst s + 1)"
  using assms(2,3)
proof (induction n arbitrary: s)
  case (Suc n)
  show ?case
  proof (cases "limit \<le> fst s")
    case True
    then have "\<not> lock_open t (lock_step limit d t s)" using Suc.prems assms(1)
      by (simp add: lock_step_def lock_open_def)
    moreover from this have "tries limit d (replicate k t) (lock_step limit d t s) = 0" for k
      by (induction k) (auto simp: lock_step_def)
    ultimately show ?thesis using Suc.prems True by simp
  next
    case False
    then have "lock_step limit d t s = (fst s + 1, snd s)" using Suc.prems by (simp add: lock_step_def)
    then show ?thesis using Suc.IH [of "(fst s + 1, snd s)"] Suc.prems False by (simp add: lock_open_def)
  qed
qed (use assms in simp)

section \<open>The lock of an account\<close>

definition account_lock :: "string \<Rightarrow> auth_state \<Rightarrow> lock_state option" where
  "account_lock email st =
     map_option (\<lambda>u. (au_attempts u, au_locked u)) (List.find (\<lambda>u. au_email u = email) (ad_users (as_db st)))"

lemma users_write_audit [simp]: "ad_users (snd (write_audit env now u ev provider ok ip agent err db)) = ad_users db"
  by (auto simp: write_audit_def Let_def audit_Create_def use_ids_def split: option.splits)

lemma users_audit [simp]:
  "ad_users (as_db (logAuditEvent env now u ev provider ok ip agent err st)) = ad_users (as_db st)"
  by (simp add: logAuditEvent_def)

lemma find_email_set_user:
  "(\<And>r. au_email (f r) = au_email r) \<Longrightarrow> List.find (\<lambda>r. au_email r = e) (ad_users (set_user i f db)) =
     map_option (\<lambda>r. if au_id r = i then f r else r) (List.find (\<lambda>r. au_email r = e) (ad_users db))"
  by (simp add: set_user_def find_upd_kept)

text \<open>
  A wrong password is one step of the lock, and leaves the password as it is, when the two
  statements that count and lock work; a request whose account cannot be read changes nothing.
\<close>

lemma wrong_guess:
  fixes now :: time and ip agent :: string
  assumes "\<not> ae_down env UserIncrement" and "\<not> ae_down env UserLock" and "user_GetByEmail (ae_down env) email (as_db st) = Some u"
    and "\<not> ae_compare env (au_hash u) pw"
  defines "st' \<equiv> snd (PasswordLogin env now email pw ip agent st)"
  shows "\<exists>u'. List.find (\<lambda>u. au_email u = email) (ad_users (as_db st')) = Some u' \<and> au_hash u' = au_hash u
    \<and> (au_attempts u', au_locked u') = lock_step (ae_max env) (ae_lock env) now (au_attempts u, au_locked u)"
proof (cases "user_IsLocked now u")
  case True
  then show ?thesis using assms
    by (auto simp: st'_def PasswordLogin_def user_GetByEmail_def lock_step_def lock_open_def
        user_IsLocked_def split: option.splits if_splits)
next
  case False
  then have "lock_open now (au_attempts u, au_locked u)"
    by (auto simp: lock_open_def user_IsLocked_def split: option.splits)
  moreover have "st' = snd (wrong_password env now u ip agent st)" using assms False
    by (simp add: PasswordLogin_def split: prod.splits)
  moreover have "List.find (\<lambda>u. au_email u = email) (ad_users (as_db st)) = Some u"
    using assms(3) by (simp add: user_GetByEmail_def split: if_splits)
  ultimately show ?thesis using assms(1,2)
    by (auto simp: wrong_password_def Let_def user_Increment_def user_LockAccount_def
        find_email_set_user user_row_increment_def user_row_lock_def lock_step_def user_ShouldLock_def)
qed

lemma unread_guess:
  "user_GetByEmail (ae_down env) email (as_db st) = None \<Longrightarrow>
     ad_users (as_db (snd (PasswordLogin env now email pw ip agent st))) = ad_users (as_db st)"
  by (simp add: PasswordLogin_def)

text \<open>The password of a request is compared when the account is found and not locked.\<close>

definition password_compared :: "auth_env \<Rightarrow> time \<Rightarrow> string \<Rightarrow> auth_state \<Rightarrow> bool" where
  "password_compared env now email st =
     (case user_GetByEmail (ae_down env) email (as_db st) of None \<Rightarrow> False | Some u \<Rightarrow> \<not> user_IsLocked now u)"

text \<open>A request to log in: the statements that fail during it, its time, its password.\<close>

type_synonym guess = "auth_faults \<times> time \<times> string"

fun guesses_compared :: "auth_env \<Rightarrow> string \<Rightarrow> string \<Rightarrow> string \<Rightarrow> guess list \<Rightarrow> auth_state \<Rightarrow> nat" where
  "guesses_compared env email ip agent [] st = 0"
| "guesses_compared env email ip agent ((down, now, pw) # gs) st =
     (if password_compared (with_faults env down) now email st then 1 else 0)
     + guesses_compared env email ip agent gs (snd (PasswordLogin (with_faults env down) now email pw ip agent st))"

definition guess_times :: "guess list \<Rightarrow> time list" where
  "guess_times gs = map (\<lambda>(down, now, pw). now) (filter (\<lambda>(down, now, pw). \<not> down UserByEmail) gs)"

lemma guess_times_simps [simp]:
  "guess_times [] = []"
  "guess_times ((down, now, pw) # gs) =
     (if down UserByEmail then guess_times gs else now # guess_times gs)"
  by (simp_all add: guess_times_def)

definition wrong_guesses :: "auth_env \<Rightarrow> string \<Rightarrow> guess list \<Rightarrow> bool" where
  "wrong_guesses env hash gs \<longleftrightarrow>
     list_all (\<lambda>(down, now, pw). \<not> ae_compare env hash pw \<and> \<not> down UserIncrement \<and> \<not> down UserLock) gs"

lemma guesses_tries:
  assumes "List.find (\<lambda>u. au_email u = email) (ad_users (as_db st)) = Some u"
    and "wrong_guesses env (au_hash u) gs"
  shows "int (guesses_compared env email ip agent gs st) =
    tries (ae_max env) (ae_lock env) (guess_times gs) (au_attempts u, au_locked u)"
  using assms
proof (induction gs arbitrary: st u)
  case (Cons g gs)
  obtain down now pw where g: "g = (down, now, pw)" by (cases g)
  let ?env = "with_faults env down"
  let ?st = "snd (PasswordLogin ?env now email pw ip agent st)"
  show ?case
  proof (cases "down UserByEmail")
    case True
    then have no: "user_GetByEmail (ae_down ?env) email (as_db st) = None"
      by (simp add: user_GetByEmail_def)
    have "List.find (\<lambda>u. au_email u = email) (ad_users (as_db ?st)) = Some u"
      using unread_guess [OF no] Cons.prems(1) by simp
    with Cons.IH [OF this] Cons.prems(2) g True no show ?thesis
      by (simp add: wrong_guesses_def password_compared_def)
  next
    case False
    then have get: "user_GetByEmail (ae_down ?env) email (as_db st) = Some u"
      using Cons.prems(1) by (simp add: user_GetByEmail_def)
    obtain u' where u': "List.find (\<lambda>u. au_email u = email) (ad_users (as_db ?st)) = Some u'"
      "au_hash u' = au_hash u"
      "(au_attempts u', au_locked u') = lock_step (ae_max env) (ae_lock env) now (au_attempts u, au_locked u)"
      using wrong_guess [OF _ _ get, of pw now ip agent] Cons.prems(2) g by (auto simp: wrong_guesses_def)
    have "password_compared ?env now email st = lock_open now (au_attempts u, au_locked u)"
      using get by (auto simp: password_compared_def user_IsLocked_def lock_open_def split: option.splits)
    then show ?thesis using Cons.IH [OF u'(1)] Cons.prems(2) u'(2,3) g False by (simp add: wrong_guesses_def)
  qed
qed simp

lemma guess_times_mset:
  "set (guess_times gs) \<subseteq> (\<lambda>(down, now, pw). now) ` set gs"
  "sorted (map (\<lambda>(down, now, pw). now) gs) \<Longrightarrow> sorted (guess_times gs)"
  by (force simp: guess_times_def, auto simp: guess_times_def intro: sorted_filter)

text \<open>
  Property C9. The wrong passwords that are compared within a time \<open>T\<close>, on an account with no failed
  attempts and no lock: at most the limit and one, and one more for each period of the lock. This is of
  wrong passwords given to \<open>PasswordLogin\<close> one after the other by a clock that does not go back, with no
  successful login, OAuth login or unlocking in between (each of these sets the count back); any
  statement may fail in each request but the two that count the attempt and lock the account, whose
  errors are only logged (\<open>uncounted_guesses\<close> is what happens otherwise).
\<close>

theorem guesses_bounded:
  assumes "0 < ae_lock env" and "0 \<le> ae_max env"
    and "List.find (\<lambda>u. au_email u = email) (ad_users (as_db st)) = Some u"
    and "au_attempts u = 0" and "au_locked u = None"
    and "wrong_guesses env (au_hash u) gs"
    and "sorted (start # map (\<lambda>(down, now, pw). now) gs)"
    and "list_all (\<lambda>(down, now, pw). now \<le> start + T) gs" and "0 \<le> T"
  shows "int (guesses_compared env email ip agent gs st) \<le> ae_max env + 1 + T div ae_lock env"
proof -
  have times: "sorted (start # guess_times gs)" "list_all (\<lambda>x. x \<le> start + T) (guess_times gs)"
    using guess_times_mset [of gs] assms(7,8) by (fastforce simp: list_all_iff)+
  have "int (guesses_compared env email ip agent gs st) =
      tries (ae_max env) (ae_lock env) (guess_times gs) (0, None)"
    using guesses_tries [OF assms(3,6)] assms(4,5) by simp
  also have "\<dots> \<le> max 0 (ae_max env) + lock_periods (ae_lock env) start (start + T)"
    using tries_bounded [OF assms(1) times, of "ae_max env" "(0, None)"] by (simp add: open_from_def)
  finally show ?thesis using assms(2,9) by (simp add: lock_periods_def)
qed

text \<open>Of wrong passwords tried at one moment, the limit and one are compared: the count that locks the
  account is the one read before the attempt.\<close>

theorem burst_of_guesses:
  assumes "0 < ae_lock env" and "0 \<le> ae_max env"
    and "List.find (\<lambda>u. au_email u = email) (ad_users (as_db st)) = Some u"
    and "au_attempts u = 0" and "au_locked u = None" and "\<not> ae_compare env (au_hash u) pw"
  shows "int (guesses_compared env email ip agent (replicate n (no_faults, now, pw)) st) =
    min (int n) (ae_max env + 1)"
proof -
  have "wrong_guesses env (au_hash u) (replicate n (no_faults, now, pw))"
    using assms(6) by (simp add: wrong_guesses_def list_all_iff no_faults_def)
  moreover have "guess_times (replicate n (no_faults, now, pw)) = replicate n now"
    by (induction n) (simp_all add: no_faults_def)
  ultimately show ?thesis
    using guesses_tries [OF assms(3)] tries_at_once [OF assms(1), of now "(0, None)" "ae_max env" n]
      assms(2,4,5)
    by (simp add: lock_open_def)
qed

text \<open>
  While the statement that counts the attempt fails, nothing is counted and the account is never locked:
  its error is recorded in the trace only and every guess is compared.
\<close>

theorem uncounted_guesses:
  assumes "List.find (\<lambda>u. au_email u = email) (ad_users (as_db st)) = Some u"
    and "au_attempts u < ae_max env" and "au_locked u = None"
    and "list_all (\<lambda>(down, now, pw). \<not> ae_compare env (au_hash u) pw \<and> down UserIncrement
      \<and> \<not> down UserByEmail) gs"
  shows "guesses_compared env email ip agent gs st = length gs"
  using assms(1,4)
proof (induction gs arbitrary: st)
  case (Cons g gs)
  obtain down now pw where g: "g = (down, now, pw)" by (cases g)
  let ?st = "snd (PasswordLogin (with_faults env down) now email pw ip agent st)"
  have get: "user_GetByEmail down email (as_db st) = Some u"
    using Cons.prems g by (simp add: user_GetByEmail_def)
  have "ad_users (as_db ?st) = ad_users (as_db st)"
    using get Cons.prems g assms(2,3)
    by (simp add: PasswordLogin_def user_IsLocked_def wrong_password_def user_Increment_def
        user_ShouldLock_def)
  moreover have "password_compared (with_faults env down) now email st"
    using get assms(3) by (simp add: password_compared_def user_IsLocked_def)
  ultimately show ?case using Cons.IH [of ?st] Cons.prems g by simp
qed simp

end
