(* ===== verification/AuthOutcomes.thy ===== *)
theory AuthOutcomes
  imports AuthGuesses
begin

text \<open>
  More of what the authentication service does: new organizations at each login, acceptance of invites,
  refresh tokens taken for access tokens, the matrix of permissions and the pages of sessions; and one
  concrete service on which the hypotheses of the theorems hold.
\<close>

section \<open>A concrete service\<close>

definition demo_jwt :: jwt_env where
  "demo_jwt = \<lparr>jw_sign = (\<lambda>c. Some (show_nat (cl_id c))), jw_parse = (\<lambda>_ _. None), jw_numeric = (\<lambda>t. t),
     jw_access = 15 * minute, jw_refresh = 7 * 24 * hour\<rparr>"

definition demo_auth :: auth_env where
  "demo_auth = \<lparr>ae_down = no_faults, ae_inet = (\<lambda>s. s \<noteq> []), ae_sha = (\<lambda>s. s), ae_compare = (=), ae_bcrypt = Some,
     ae_uuid = show_nat, ae_jwt = demo_jwt, ae_max = 5, ae_lock = hour, ae_team = True, ae_team_tokens = True,
     ae_providers = (\<lambda>_. False), ae_url = (\<lambda>_ _ _. []), ae_exchange = (\<lambda>_ _ _. None), ae_error = (\<lambda>_. [])\<rparr>"

definition demo_history :: "(auth_faults \<times> auth_op) list" where
  "demo_history = [(no_faults, DoRegister 0 ''a@b'' ''pw'' ''A'' ''1.1.1.1'' ''x''),
     (no_faults, DoLogin 10 ''a@b'' ''pw'' ''1.1.1.1'' ''x'')]"

definition demo_parser :: mail_parser where
  "demo_parser s = Some ([], s)"

definition demo_state :: auth_state where
  "demo_state = run_ops demo_auth demo_parser demo_history auth_init"

section \<open>Witnesses\<close>

lemma demo_refresh:
  "isl (fst (RefreshToken (with_faults demo_auth no_faults) 20 ''10'' ''1.1.1.1'' ''x'' demo_state)) = False"
  by code_simp

theorem refresh_token_single_use_witness:
  "fst (RefreshToken (with_faults demo_auth no_faults) 40 ''10'' ''1.1.1.1'' ''x''
     (run_ops demo_auth demo_parser [(no_faults, DoLogin 30 ''a@b'' ''pw'' ''1.1.1.1'' ''x'')]
       (snd (RefreshToken (with_faults demo_auth no_faults) 20 ''10'' ''1.1.1.1'' ''x'' demo_state))))
   = Inl InvalidRefreshToken"
proof -
  let ?r = "RefreshToken (with_faults demo_auth no_faults) 20 ''10'' ''1.1.1.1'' ''x'' demo_state"
  obtain r where "fst ?r = Inr r" using demo_refresh by (cases "fst ?r") auto
  then have "?r = (Inr r, snd ?r)" by (metis prod.collapse)
  then show ?thesis unfolding demo_state_def by (rule refresh_token_single_use)
qed

text \<open>An organization on a larger plan with an owner and a second member.\<close>

definition demo_invited :: auth_state where
  "demo_invited = (let st = run_ops demo_auth demo_parser
       [(no_faults, DoRegister 0 ''a@b'' ''pw'' ''A'' ''1.1.1.1'' ''x''),
        (no_faults, DoRegister 0 ''c@d'' ''pw'' ''C'' ''1.1.1.1'' ''x'')] auth_init;
     st1 = set_db ((as_db st)\<lparr>ad_orgs := map (\<lambda>g. g\<lparr>og_tier := ''Starter''\<rparr>) (ad_orgs (as_db st))\<rparr>) st
   in run_ops demo_auth demo_parser
       [(no_faults, DoInvite 2 3 1 ''c@d'' RoleAdmin)] st1)"

definition demo_team :: auth_state where
  "demo_team = run_ops demo_auth demo_parser [(no_faults, DoAccept 3 12 ''c@d'' 6)] demo_invited"

definition demo_owner :: membership where
  "demo_owner = new_member 4 3 1 RoleOwner"

theorem broken_transfer_for_ever_witness:
  "\<not> list_ex (\<lambda>m. mb_org m = 3 \<and> mb_role m = RoleOwner) (ad_members (as_db (run_ops demo_auth demo_parser
     [(no_faults, DoTransfer 5 3 6 1), (no_faults, DoTransfer 6 3 1 6)]
     (snd (TransferOwnership (with_faults demo_auth (\<lambda>c. c = MemberRole 6)) 4 3 1 6 demo_team)))))"
proof (rule broken_transfer_for_ever)
  show "tables_ok (as_db demo_team)" unfolding tables_ok_def users_ok_def members_ok_def pending_ok_def
      invites_ok_def by code_simp
  show "demo_owner \<in> set (ad_members (as_db demo_team))" by code_simp
  show "is_member 3 1 demo_owner" "mb_role demo_owner = RoleOwner" by code_simp+
  show "list_ex (is_member 3 6) (ad_members (as_db demo_team))" by code_simp
qed simp_all

lemma demo_user: "List.find (\<lambda>u. au_email u = ''a@b'') (ad_users (as_db demo_team)) =
    Some (NewUser 1 0 ''a@b'' ''pw'' ''A'' ''Free'')"
  by code_simp

text \<open>In the second request the account cannot be read and the audit entry is lost.\<close>

theorem guesses_bounded_witness:
  "int (guesses_compared demo_auth ''a@b'' [] [] [(no_faults, 0, ''x''),
      (\<lambda>c. c = UserByEmail \<or> c = RedisGet, hour, ''y''), (no_faults, 3 * hour, ''z'')] demo_team)
   \<le> ae_max demo_auth + 1 + (3 * hour) div ae_lock demo_auth"
  by (rule guesses_bounded [where start = 0, OF _ _ demo_user])
     (simp_all add: demo_auth_def NewUser_def wrong_guesses_def no_faults_def)

theorem burst_of_guesses_witness:
  "int (guesses_compared demo_auth ''a@b'' [] [] (replicate 9 (no_faults, 7, ''x'')) demo_team) =
    min (int 9) (ae_max demo_auth + 1)"
  by (rule burst_of_guesses [OF _ _ demo_user]) (simp_all add: demo_auth_def NewUser_def)

theorem uncounted_guesses_witness:
  "guesses_compared demo_auth ''a@b'' [] [] (replicate 99 (\<lambda>c. c = UserIncrement, 7, ''x'')) demo_team = 99"
  by (subst uncounted_guesses [OF demo_user])
     (simp_all add: demo_auth_def NewUser_def list_all_iff)

section \<open>Organizations and invites\<close>

text \<open>Ensuring that a user has an organization makes one more for that user each time.\<close>

theorem ensure_adds_organization:
  assumes "EnsureOrganization env u db = (Inr (g, created), db')"
  shows "created \<and> count_where (\<lambda>r. og_owner r = u) (ad_orgs db') = Suc (count_where (\<lambda>r. og_owner r = u) (ad_orgs db))"
proof -
  obtain user db2 where user: "user_GetByID (ae_down env) u db = Some user"
    and org: "org_Create (ae_down env) (new_org (ad_next db) u user) (use_ids 1 db) = Some db2"
    and mem: "member_Create (ae_down env) (new_member (ad_next db2) (og_id (new_org (ad_next db) u user)) u RoleOwner)
      (use_ids 1 db2) = Some db'"
    and created
    using assms by (auto simp: EnsureOrganization_def Let_def split: option.splits)
  have "ad_orgs db' = ad_orgs db2" using mem by (auto simp: member_Create_def use_ids_def split: if_splits)
  moreover have "ad_orgs db2 = ad_orgs db @ [new_org (ad_next db) u user]"
    using org by (auto simp: org_Create_def use_ids_def split: if_splits)
  ultimately show ?thesis using \<open>created\<close> by (simp add: new_org_def)
qed

theorem ensure_adds_organization_witness:
  "count_where (\<lambda>r. og_owner r = 1) (ad_orgs (snd (EnsureOrganization demo_auth 1 (as_db demo_team)))) =
   Suc (count_where (\<lambda>r. og_owner r = 1) (ad_orgs (as_db demo_team)))"
proof -
  let ?r = "EnsureOrganization demo_auth 1 (as_db demo_team)"
  have "\<not> isl (fst ?r)" by code_simp
  then obtain g created where r: "fst ?r = Inr (g, created)" by (cases "fst ?r") auto
  then have "?r = (Inr (g, created), snd ?r)" by (metis prod.collapse)
  from ensure_adds_organization [OF this] show ?thesis by (rule conjunct2)
qed

text \<open>
  An invite that is pending and in date makes its addressee a member; the limit of the plan and the
  number of members play no part.
\<close>

theorem accept_adds_member:
  assumes "ae_down env = no_faults" and "tables_ok (as_db st)"
    and "v \<in> set (ad_invites (as_db st))" and "iv_status v = InvitePending" and "now < iv_expires v"
    and "EqualFold (TrimSpace email) (iv_email v)" and "role_IsValid (iv_role v)"
    and "user_exists (as_db st) u" and "\<not> list_ex (is_member (iv_org v) u) (ad_members (as_db st))"
    and "list_all (\<lambda>m. mb_id m \<noteq> ad_next (as_db st)) (ad_members (as_db st))"
  shows "ad_members (as_db (snd (AcceptInvite env now (iv_token v) email u st))) =
    ad_members (as_db st) @ [new_member (ad_next (as_db st)) (iv_org v) u (iv_role v)]"
proof -
  let ?db = "as_db st" and ?m = "new_member (ad_next (as_db st)) (iv_org v) u (iv_role v)"
  have tok: "distinct (map iv_token (ad_invites ?db))" and role: "iv_role v \<noteq> RoleOwner"
    and org: "list_ex (\<lambda>g. og_id g = iv_org v) (ad_orgs ?db)"
    using assms(2,3) by (auto simp: tables_ok_def pending_ok_def invites_ok_def list_all_iff)
  have "List.find (\<lambda>w. iv_token w = iv_token v) (ad_invites ?db) \<noteq> None"
    using assms(3) by (auto simp: find_None_iff)
  then obtain w where w: "List.find (\<lambda>w. iv_token w = iv_token v) (ad_invites ?db) = Some w" by blast
  have "inj_on iv_token (set (ad_invites ?db))" using tok by (simp add: distinct_map)
  then have "w = v" using find_Some_inD [OF w] assms(3) by (auto dest: inj_onD)
  then have get: "inv_GetByToken no_faults (iv_token v) ?db = Some v" using w
    by (simp add: inv_GetByToken_def no_faults_def)
  let ?db1 = "?db\<lparr>ad_invites := upd_where (\<lambda>x. iv_id x = iv_id v) (set_invite_status InviteAccepted now) (ad_invites ?db)\<rparr>"
  have upd: "inv_UpdateStatus no_faults (iv_id v) InviteAccepted now ?db = Some ?db1"
    using assms(3) by (auto simp: inv_UpdateStatus_def no_faults_def list_ex_iff)
  have "member_Create no_faults ?m (use_ids 1 ?db1) =
      Some ((use_ids 1 ?db1)\<lparr>ad_members := ad_members ?db @ [?m]\<rparr>)"
    using assms(7-10) role org
    by (auto simp: member_Create_def no_faults_def use_ids_def new_member_def member_clash_def is_member_def
        list_ex_iff list_all_iff)
  then show ?thesis using get upd assms(1,4-6)
    by (simp add: AcceptInvite_def invite_IsExpired_def Let_def)
qed

definition demo_invite :: invite where
  "demo_invite = new_invite 11 12 2 3 1 ''c@d'' RoleAdmin"

theorem accept_adds_member_witness:
  "ad_members (as_db (snd (AcceptInvite demo_auth 3 (iv_token demo_invite) '' C@d '' 6 demo_invited))) =
    ad_members (as_db demo_invited) @ [new_member (ad_next (as_db demo_invited)) (iv_org demo_invite) 6 (iv_role demo_invite)]"
proof (rule accept_adds_member)
  show "tables_ok (as_db demo_invited)" unfolding tables_ok_def users_ok_def members_ok_def pending_ok_def
      invites_ok_def by code_simp
  show "demo_invite \<in> set (ad_invites (as_db demo_invited))" by code_simp
  show "EqualFold (TrimSpace '' C@d '') (iv_email demo_invite)" by code_simp
  show "user_exists (as_db demo_invited) 6" by code_simp
  show "\<not> list_ex (is_member (iv_org demo_invite) 6) (ad_members (as_db demo_invited))" by code_simp
  show "list_all (\<lambda>m. mb_id m \<noteq> ad_next (as_db demo_invited)) (ad_members (as_db demo_invited))" by code_simp
qed (simp_all add: demo_auth_def demo_invite_def new_invite_def InviteTTL_def role_IsValid_def)

section \<open>Permissions\<close>

text \<open>
  Property C35. Between two members of one organization that can be read, the five operations that ask for a
  role refuse with \<open>ErrInsufficientPermissions\<close> exactly where \<open>CheckPermission\<close> says so: removing a member,
  changing a role, handing the ownership over, inviting, and revoking an invite of the organization (for which
  the matrix has no entry of its own: it follows that of inviting). This is of a requested role that is valid and
  not that of the owner (an invalid one is refused in the same way, whoever asks, and that of the owner by an error
  of its own), of an address that is valid and of an invite that can be read.
\<close>

theorem operations_follow_matrix:
  assumes "resolveActorAndTarget env g a t (as_db st) = Inr (ma, mt)" and "role_IsValid role" and "role \<noteq> RoleOwner"
    and "normalizeEmail parse address = Some email" and "inv_GetByID (ae_down env) i (as_db st) = Some v" and "iv_org v = g"
  shows "(fst (RemoveMember env g a t st) = Some InsufficientPermissions
      \<longleftrightarrow> CheckPermission env g a OpRemoveMember (as_db st) = Inr (False, mb_role ma))
    \<and> (fst (ChangeMemberRole env g a t role st) = Some InsufficientPermissions
      \<longleftrightarrow> CheckPermission env g a OpChangeRole (as_db st) = Inr (False, mb_role ma))
    \<and> (fst (TransferOwnership env now g a t st) = Some InsufficientPermissions
      \<longleftrightarrow> CheckPermission env g a OpTransferOwnership (as_db st) = Inr (False, mb_role ma))
    \<and> (fst (Invite env parse now g a address role st) = Inl InsufficientPermissions
      \<longleftrightarrow> CheckPermission env g a OpInviteMember (as_db st) = Inr (False, mb_role ma))
    \<and> (fst (RevokeInvite env now a i st) = Some InsufficientPermissions
      \<longleftrightarrow> CheckPermission env g a OpInviteMember (as_db st) = Inr (False, mb_role ma))"
proof (intro conjI)
  have m: "member_GetByOrgAndUser (ae_down env) g a (as_db st) = Some (Some ma)"
    using assms(1) by (auto simp: resolveActorAndTarget_def split: option.splits)
  note d = CheckPermission_def permissionFor_def CanManageMembers_def
  show "fst (RemoveMember env g a t st) = Some InsufficientPermissions
      \<longleftrightarrow> CheckPermission env g a OpRemoveMember (as_db st) = Inr (False, mb_role ma)"
    using m assms(1) by (auto simp: RemoveMember_def d split: option.splits)
  show "fst (ChangeMemberRole env g a t role st) = Some InsufficientPermissions
      \<longleftrightarrow> CheckPermission env g a OpChangeRole (as_db st) = Inr (False, mb_role ma)"
    using m assms(1-3) by (auto simp: ChangeMemberRole_def d split: option.splits)
  show "fst (TransferOwnership env now g a t st) = Some InsufficientPermissions
      \<longleftrightarrow> CheckPermission env g a OpTransferOwnership (as_db st) = Inr (False, mb_role ma)"
    using m assms(1) by (auto simp: TransferOwnership_def d split: option.splits)
  have "invite_refused env g a email (as_db st) = Some InsufficientPermissions \<longleftrightarrow> \<not> CanManageMembers (mb_role ma)"
    using m by (auto simp: invite_refused_def Let_def split: option.splits)
  then show "fst (Invite env parse now g a address role st) = Inl InsufficientPermissions
      \<longleftrightarrow> CheckPermission env g a OpInviteMember (as_db st) = Inr (False, mb_role ma)"
    using m assms(2-4) by (auto simp: Invite_def d Let_def split: option.splits)
  show "fst (RevokeInvite env now a i st) = Some InsufficientPermissions
      \<longleftrightarrow> CheckPermission env g a OpInviteMember (as_db st) = Inr (False, mb_role ma)"
    using m assms(5,6) by (auto simp: RevokeInvite_def d split: option.splits)
qed

definition matrix_state :: auth_state where
  "matrix_state = run_ops demo_auth demo_parser [(no_faults, DoInvite 4 3 1 ''e@f'' RoleMember)] demo_team"

text \<open>The admin 6 and the owner 1, with an invite that is pending.\<close>

theorem operations_follow_matrix_witness:
  "fst (RemoveMember demo_auth 3 6 1 matrix_state) \<noteq> Some InsufficientPermissions
    \<and> fst (ChangeMemberRole demo_auth 3 6 1 RoleViewer matrix_state) \<noteq> Some InsufficientPermissions
    \<and> fst (TransferOwnership demo_auth 0 3 6 1 matrix_state) = Some InsufficientPermissions
    \<and> fst (Invite demo_auth demo_parser 0 3 6 ''g@h'' RoleViewer matrix_state) \<noteq> Inl InsufficientPermissions
    \<and> fst (RevokeInvite demo_auth 0 6 (iv_id (hd (rev (ad_invites (as_db matrix_state))))) matrix_state)
        \<noteq> Some InsufficientPermissions"
proof -
  let ?v = "hd (rev (ad_invites (as_db matrix_state)))"
  have r: "resolveActorAndTarget demo_auth 3 6 1 (as_db matrix_state) =
      Inr (new_member 13 3 6 RoleAdmin, demo_owner)" by code_simp
  have v: "inv_GetByID (ae_down demo_auth) (iv_id ?v) (as_db matrix_state) = Some ?v" "iv_org ?v = 3" by code_simp+
  have e: "normalizeEmail demo_parser ''g@h'' = Some ''g@h''" by code_simp
  have c: "CheckPermission demo_auth 3 6 OpRemoveMember (as_db matrix_state) = Inr (True, RoleAdmin)"
    "CheckPermission demo_auth 3 6 OpChangeRole (as_db matrix_state) = Inr (True, RoleAdmin)"
    "CheckPermission demo_auth 3 6 OpTransferOwnership (as_db matrix_state) = Inr (False, RoleAdmin)"
    "CheckPermission demo_auth 3 6 OpInviteMember (as_db matrix_state) = Inr (True, RoleAdmin)" by code_simp+
  have "mb_role (new_member 13 3 6 RoleAdmin) = RoleAdmin" by (simp add: new_member_def)
  then show ?thesis
    using operations_follow_matrix [OF r _ _ e v, of RoleViewer 0] c by (simp add: role_IsValid_def)
qed

section \<open>Sessions\<close>

text \<open>A list of sessions asked for without a page number, or with a negative one, panics unless the
  page size is not positive.\<close>

theorem sessions_without_page_panic:
  assumes "\<not> ae_down env RedisSMembers" and "sint page_no \<le> 0" and "sint page_no \<noteq> - (2 ^ 31)" and "0 < sint page_len"
  shows "sessions_of_page env now u page_no page_len current rd = ListPanics"
proof -
  have "sint (page_no - 1) = sint page_no - 1"
    using assms(2,3) sint_range_size [of page_no] 
    by (simp add: signed_take_bit_int_eq_self_iff sint_word_ariths word_size)
  then have "sint (page_no - 1) * sint page_len < 0" using assms by (simp add: mult_less_0_iff)
  then show ?thesis using assms(1)
    by (simp add: sessions_of_page_def ListSessions_def session_GetByUserID_def Let_def)
qed

theorem sessions_without_page_panic_witness: "sessions_of_page demo_auth 0 1 0 10 None empty_redis = ListPanics"
  by (rule sessions_without_page_panic) (simp_all add: demo_auth_def no_faults_def)

section \<open>Refresh tokens as access tokens\<close>

lemma login_opens_session:
  assumes "PasswordLogin env now email pw ip agent st = (Inr r, st')"
  obtains u db2 sid st2 where "user_GetByEmail (ae_down env) email (as_db st) = Some u"
    and "open_session env now u ''password'' EvLogin [] ip agent (set_db db2 st) = (Inr (r, sid), st2)"
    and "\<not> user_IsLocked now u" and "ae_compare env (au_hash u) pw"
  using assms
  by (auto simp: PasswordLogin_def split: option.splits if_splits prod.splits sum.splits)

lemma session_refresh_token:
  assumes "open_session env now u device ev provider ip agent st = (Inr (r, sid), st2)"
  obtains i org role where
    "jw_sign (ae_jwt env) (jwt_claims (ae_jwt env) i now (au_id u) (au_email u) (au_tier u) org role (jw_refresh (ae_jwt env)))
      = Some (ar_refresh r)"
proof -
  obtain org role st1 where e: "ensureTeamContext env now (au_id u) st = ((org, role), st1)"
    by (metis prod.exhaust)
  obtain access refresh where g: "generateTokens env (ad_next (as_db st1)) now u org role = Some (access, refresh)"
    and r: "r = token_response access refresh u"
    using assms e by (auto simp: open_session_def Let_def split: option.splits prod.splits bool.splits)
  then show thesis using that
    by (auto simp: generateTokens_def GenerateTokenPair_def GenerateTokenPairWithTeam_def jwt_generate_def
        token_response_def split: option.splits if_splits)
qed

text \<open>
  Property C22. The refresh token of a login is accepted where an access token is asked for, until it expires:
  asked right after a login during which no statement failed, at any time from the login until the end of the
  refresh token's life. \<open>law\<close> is what \<open>ParseWithClaims\<close> documents of a token signed with the same key.
\<close>

theorem refresh_token_is_access_token:
  assumes law: "\<And>c s. jw_sign (ae_jwt env) c = Some s \<Longrightarrow> cl_from c \<le> t \<Longrightarrow> t < cl_expires c \<Longrightarrow>
      jw_parse (ae_jwt env) t s = Some c"
    and login: "PasswordLogin env now email pw ip agent st = (Inr r, st')"
    and "tables_ok (as_db st)" and "ae_down env = no_faults"
    and t: "jw_numeric (ae_jwt env) now \<le> t" "t < jw_numeric (ae_jwt env) (now + jw_refresh (ae_jwt env))"
  shows "tv_valid (fst (ValidateToken env t (ar_refresh r) st'))"
proof -
  obtain u db2 sid st2 where u: "user_GetByEmail (ae_down env) email (as_db st) = Some u"
    and o: "open_session env now u ''password'' EvLogin [] ip agent (set_db db2 st) = (Inr (r, sid), st2)"
    using login by (rule login_opens_session)
  obtain i org role where sign: "jw_sign (ae_jwt env) (jwt_claims (ae_jwt env) i now (au_id u) (au_email u)
      (au_tier u) org role (jw_refresh (ae_jwt env))) = Some (ar_refresh r)"
    using o by (rule session_refresh_token)
  let ?c = "jwt_claims (ae_jwt env) i now (au_id u) (au_email u) (au_tier u) org role (jw_refresh (ae_jwt env))"
  have c: "cl_from ?c = jw_numeric (ae_jwt env) now" "cl_user ?c = au_id u"
    "cl_expires ?c = jw_numeric (ae_jwt env) (now + jw_refresh (ae_jwt env))"
    by (simp_all add: jwt_claims_def NewClaims_def WithTeamContext_def Let_def)
  have "user_known (au_id u) (as_db st)" using u tables_ok_invites [OF assms(3)]
    by (auto simp: user_known_def user_GetByEmail_def list_ex_iff split: if_splits dest: find_Some_inD)
  then have "user_known (au_id u) (as_db st')"
    using user_known.keeps_login [of "au_id u" st env now email pw ip agent] login by simp
  then have "List.find (\<lambda>r. au_id r = au_id u) (ad_users (as_db st')) \<noteq> None"
    by (auto simp: user_known_def list_ex_iff find_None_iff)
  then have "user_GetByID (ae_down env) (au_id u) (as_db st') \<noteq> None"
    by (simp add: user_GetByID_def assms(4) no_faults_def)
  moreover have "ValidateAccessToken (ae_jwt env) t (ar_refresh r) = Some ?c"
    using law [OF sign] t by (simp add: ValidateAccessToken_def c)
  ultimately show ?thesis by (auto simp: ValidateToken_def c)
qed

text \<open>A signature that knows the two tokens of one login.\<close>

definition login_claims :: "nat \<Rightarrow> duration \<Rightarrow> claims" where
  "login_claims i d = jwt_claims demo_jwt i 10 1 ''a@b'' ''Free'' 14 ''OWNER'' d"

definition login_jwt :: jwt_env where
  "login_jwt = demo_jwt\<lparr>
     jw_sign := (\<lambda>c. if c = login_claims 17 (15 * minute) then Some ''a''
       else if c = login_claims 18 (7 * 24 * hour) then Some ''r'' else None),
     jw_parse := (\<lambda>_ s. if s = ''a'' then Some (login_claims 17 (15 * minute))
       else if s = ''r'' then Some (login_claims 18 (7 * 24 * hour)) else None)\<rparr>"

definition login_auth :: auth_env where
  "login_auth = demo_auth\<lparr>ae_jwt := login_jwt\<rparr>"

lemma demo_login:
  "map_sum id ar_refresh (fst (PasswordLogin login_auth 10 ''a@b'' ''pw'' ''1.1.1.1'' ''x'' demo_team)) = Inr ''r''"
  by code_simp

theorem refresh_token_is_access_token_witness:
  "tv_valid (fst (ValidateToken login_auth (24 * hour) ''r''
     (snd (PasswordLogin login_auth 10 ''a@b'' ''pw'' ''1.1.1.1'' ''x'' demo_team))))"
proof -
  let ?l = "PasswordLogin login_auth 10 ''a@b'' ''pw'' ''1.1.1.1'' ''x'' demo_team"
  obtain r where r: "fst ?l = Inr r" "ar_refresh r = ''r''" using demo_login by (cases "fst ?l") auto
  then have "?l = (Inr r, snd ?l)" by (metis prod.collapse)
  moreover have "tables_ok (as_db demo_team)" unfolding tables_ok_def users_ok_def members_ok_def
      pending_ok_def invites_ok_def by code_simp
  ultimately have "tv_valid (fst (ValidateToken login_auth (24 * hour) (ar_refresh r) (snd ?l)))"
    by (rule refresh_token_is_access_token [rotated])
       (auto simp: login_auth_def demo_auth_def login_jwt_def demo_jwt_def split: if_splits)
  then show ?thesis using r by simp
qed

section \<open>Locks by hours\<close>

text \<open>The product of the hours wraps: a lock for three hundred years ends in the past.\<close>

lemma long_lock_is_none: "hours_duration 2562048 < 0"
  by (simp add: hours_duration_def signed_take_bit_int_eq_self_iff) 

end
