(* ===== verification/BillingModel.thy ===== *)
theory BillingModel
  imports Prelude "HOL-Library.AList"
begin

text \<open>
  The entities of the billing service, \<open>billing-service/internal/model/*.go\<close>, and its errors,
  \<open>pkg/errors\<close>. An identifier is a UUID, here a number. Metadata is the list of its entries, the
  first of a key counts. A count of days is the code's \<open>int32\<close>, a length of time its
  \<open>int64\<close> nanoseconds.
\<close>

section \<open>Errors\<close>

text \<open>\<open>Wrapped\<close> is \<open>errors.Wrap\<close>; \<open>DatabaseErr\<close> is any error of a statement.\<close>

datatype billing_error =
    NotFoundErr string string
  | AlreadyExistsErr string string
  | InvalidArg string string
  | PermissionDeniedErr
  | UnauthenticatedErr
  | InternalErr
  | PaymentFailedErr string
  | ValidationErr string string
  | DatabaseErr
  | PlainErr string
  | Wrapped string billing_error

text \<open>What a call of the service gives: a value, an error, or a panic.\<close>

datatype 'a billing_result = BOk 'a | BErr billing_error | BPanic

abbreviation ErrCannotCancelSubscription :: billing_error where
  "ErrCannotCancelSubscription \<equiv> ValidationErr ''status'' ''subscription cannot be canceled''"

abbreviation ErrCannotRenewCanceledSubscription :: billing_error where
  "ErrCannotRenewCanceledSubscription \<equiv> ValidationErr ''status'' ''cannot renew canceled subscription''"

abbreviation ErrInvalidPaymentStatus :: billing_error where
  "ErrInvalidPaymentStatus \<equiv> ValidationErr ''status'' ''invalid payment status for this operation''"

abbreviation ErrCannotRefundNonSuccessfulPayment :: billing_error where
  "ErrCannotRefundNonSuccessfulPayment \<equiv> ValidationErr ''status'' ''cannot refund non-successful payment''"

section \<open>Subscriptions\<close>

datatype sub_status = SubActive | SubPending | SubCanceled | SubExpired | OtherSubStatus string

record subscription =
  sn_id :: nat
  sn_user :: nat
  sn_plan :: string
  sn_status :: sub_status
  sn_started :: time
  sn_expires :: time
  sn_canceled :: "time option"
  sn_renew :: bool
  sn_payment :: "string option"
  sn_meta :: "(string \<times> string) list"
  sn_created :: time
  sn_updated :: time

definition sub_IsExpired :: "time \<Rightarrow> subscription \<Rightarrow> bool" where
  "sub_IsExpired now s \<longleftrightarrow> sn_expires s < now"

definition sub_IsActive :: "time \<Rightarrow> subscription \<Rightarrow> bool" where
  "sub_IsActive now s \<longleftrightarrow> sn_status s = SubActive \<and> \<not> sub_IsExpired now s"

definition CanBeCanceled :: "subscription \<Rightarrow> bool" where
  "CanBeCanceled s \<longleftrightarrow> sn_status s = SubActive \<or> sn_status s = SubPending"

definition sub_Cancel :: "time \<Rightarrow> string \<Rightarrow> subscription \<Rightarrow> billing_error + subscription" where
  "sub_Cancel now reason s =
     (if \<not> CanBeCanceled s then Inl ErrCannotCancelSubscription
      else Inr (s\<lparr>sn_status := SubCanceled, sn_canceled := Some now, sn_renew := False, sn_updated := now,
        sn_meta := AList.update ''cancel_reason'' reason (sn_meta s)\<rparr>))"

definition sub_Renew :: "time \<Rightarrow> duration \<Rightarrow> subscription \<Rightarrow> billing_error + subscription" where
  "sub_Renew now d s =
     (if sn_status s = SubCanceled then Inl ErrCannotRenewCanceledSubscription
      else Inr (s\<lparr>sn_expires := sn_expires s + d, sn_status := SubActive, sn_updated := now\<rparr>))"

definition NewSubscription :: "nat \<Rightarrow> time \<Rightarrow> nat \<Rightarrow> string \<Rightarrow> duration \<Rightarrow> subscription" where
  "NewSubscription i now u plan d =
     \<lparr>sn_id = i, sn_user = u, sn_plan = plan, sn_status = SubPending, sn_started = now,
      sn_expires = now + d, sn_canceled = None, sn_renew = True, sn_payment = None, sn_meta = [],
      sn_created = now, sn_updated = now\<rparr>"

text \<open>\<open>time.Duration(days) * 24 * time.Hour\<close>, which wraps around.\<close>

definition days_duration :: "int \<Rightarrow> duration" where
  "days_duration days = sint (word_of_int (days * 24 * hour) :: 64 word)"

section \<open>Payments\<close>

datatype pay_status = PayPending | PaySuccess | PayFailed | PayRefunded | OtherPayStatus string

record bill_payment =
  pm_id :: nat
  pm_user :: nat
  pm_sub :: "nat option"
  pm_provider :: string
  pm_ref :: string
  pm_status :: pay_status
  pm_amount :: int
  pm_currency :: string
  pm_meta :: "(string \<times> string) list"
  pm_created :: time
  pm_updated :: time

definition pay_IsSuccessful :: "bill_payment \<Rightarrow> bool" where
  "pay_IsSuccessful p \<longleftrightarrow> pm_status p = PaySuccess"

definition pay_IsPending :: "bill_payment \<Rightarrow> bool" where
  "pay_IsPending p \<longleftrightarrow> pm_status p = PayPending"

definition MarkAsSuccess :: "time \<Rightarrow> bill_payment \<Rightarrow> billing_error + bill_payment" where
  "MarkAsSuccess now p =
     (if pm_status p \<noteq> PayPending then Inl ErrInvalidPaymentStatus
      else Inr (p\<lparr>pm_status := PaySuccess, pm_updated := now\<rparr>))"

definition pay_MarkAsFailed :: "time \<Rightarrow> string \<Rightarrow> bill_payment \<Rightarrow> billing_error + bill_payment" where
  "pay_MarkAsFailed now reason p =
     (if pm_status p \<noteq> PayPending then Inl ErrInvalidPaymentStatus
      else Inr (p\<lparr>pm_status := PayFailed, pm_updated := now,
        pm_meta := AList.update ''failure_reason'' reason (pm_meta p)\<rparr>))"

definition pay_Refund :: "time \<Rightarrow> bill_payment \<Rightarrow> billing_error + bill_payment" where
  "pay_Refund now p =
     (if \<not> pay_IsSuccessful p then Inl ErrCannotRefundNonSuccessfulPayment
      else Inr (p\<lparr>pm_status := PayRefunded, pm_updated := now\<rparr>))"

definition NewPayment ::
    "nat \<Rightarrow> time \<Rightarrow> nat \<Rightarrow> nat \<Rightarrow> string \<Rightarrow> string \<Rightarrow> int \<Rightarrow> string \<Rightarrow> bill_payment" where
  "NewPayment i now u s provider ref kopeks currency =
     \<lparr>pm_id = i, pm_user = u, pm_sub = Some s, pm_provider = provider, pm_ref = ref,
      pm_status = PayPending, pm_amount = kopeks, pm_currency = currency, pm_meta = [],
      pm_created = now, pm_updated = now\<rparr>"

section \<open>Plans\<close>

record plan_feature =
  ft_id :: string
  ft_name :: string
  ft_description :: string

record tariff =
  pl_id :: string
  pl_name :: string
  pl_description :: string
  pl_price :: int
  pl_days :: int
  pl_monitors :: int
  pl_interval :: int
  pl_alerts :: int
  pl_features :: "plan_feature list"
  pl_active :: bool
  pl_created :: time
  pl_updated :: time

definition plan_IsFree :: "tariff \<Rightarrow> bool" where
  "plan_IsFree p \<longleftrightarrow> pl_id p = ''TIER_FREE'' \<or> pl_price p = 0"

definition IsValidForMonitors :: "int \<Rightarrow> tariff \<Rightarrow> bool" where
  "IsValidForMonitors count p \<longleftrightarrow> pl_monitors p < 0 \<or> count \<le> pl_monitors p"

definition IsValidForCheckInterval :: "int \<Rightarrow> tariff \<Rightarrow> bool" where
  "IsValidForCheckInterval seconds p \<longleftrightarrow> pl_interval p \<le> seconds"

definition IsValidForAlerts :: "int \<Rightarrow> tariff \<Rightarrow> bool" where
  "IsValidForAlerts count p \<longleftrightarrow> pl_alerts p < 0 \<or> count \<le> pl_alerts p"

section \<open>Facts\<close>

lemma sub_Cancel_fields:
  assumes "sub_Cancel now reason s = Inr s'"
  shows "sn_id s' = sn_id s" "sn_user s' = sn_user s" "sn_plan s' = sn_plan s" "sn_status s' = SubCanceled"
    "sn_expires s' = sn_expires s" "sn_payment s' = sn_payment s"
  using assms by (auto simp: sub_Cancel_def split: if_splits)

lemma sub_Renew_fields:
  assumes "sub_Renew now d s = Inr s'"
  shows "sn_id s' = sn_id s" "sn_user s' = sn_user s" "sn_plan s' = sn_plan s" "sn_status s' = SubActive"
    "sn_canceled s' = sn_canceled s" "sn_expires s' = sn_expires s + d"
  using assms by (auto simp: sub_Renew_def split: if_splits)

lemma pay_Refund_fields:
  assumes "pay_Refund now p = Inr p'"
  shows "pm_id p' = pm_id p" "pm_status p' = PayRefunded" "pm_status p = PaySuccess"
  using assms by (auto simp: pay_Refund_def pay_IsSuccessful_def split: if_splits)

text \<open>Up to 106751 days a plan's period is exact.\<close>

lemma days_duration_exact: "0 \<le> d \<Longrightarrow> d \<le> 106751 \<Longrightarrow> days_duration d = d * 24 * hour"
  unfolding days_duration_def sint_sbintrunc' by (simp add: signed_take_bit_int_eq_self_iff)

end
