(* ===== verification/BillingStore.thy ===== *)
theory BillingStore
  imports BillingModel
begin

text \<open>
  What the billing service stores: the PostgreSQL tables with the constraints of
  \<open>billing-service/migrations\<close> and one definition for each statement of \<open>repository/postgres\<close>. A
  statement fails when \<open>down\<close> says so or when it violates a constraint; an \<open>id = $1\<close> whose text is
  no UUID (\<open>None\<close>) fails too. Fresh UUIDs come from the counter \<open>bd_next\<close>; the text of a UUID is the
  number. Where the SQL leaves the order of the rows open the model takes the insertion order.
\<close>

section \<open>State\<close>

datatype billing_call =
    SubInsert | SubGet | SubActiveOf | SubList | SubUpdateCall | SubDeleteCall
  | PayInsert | PayGet | PayByProvider | PayList | PayCount | PayUpdateCall
  | PlanGet | PlanList | PubCreated | PubCanceled

type_synonym billing_faults = "billing_call \<Rightarrow> bool"

record billing_db =
  bd_plans :: "tariff list"
  bd_subs :: "subscription list"
  bd_payments :: "bill_payment list"
  bd_next :: nat

definition next_ids :: "nat \<Rightarrow> billing_db \<Rightarrow> billing_db" where
  "next_ids n db = db\<lparr>bd_next := bd_next db + n\<rparr>"

abbreviation uuid_text :: "nat \<Rightarrow> string" where
  "uuid_text \<equiv> show_nat"

section \<open>Subscriptions\<close>

text \<open>The index \<open>idx_subscriptions_user_active_pending_unique\<close>.\<close>

definition sub_open :: "sub_status \<Rightarrow> bool" where
  "sub_open s \<longleftrightarrow> s = SubActive \<or> s = SubPending"

definition sub_clash :: "nat \<Rightarrow> nat \<Rightarrow> sub_status \<Rightarrow> billing_db \<Rightarrow> bool" where
  "sub_clash i u s db \<longleftrightarrow> sub_open s \<and>
     list_ex (\<lambda>r. sn_id r \<noteq> i \<and> sn_user r = u \<and> sn_status r = s) (bd_subs db)"

definition plan_exists :: "string \<Rightarrow> billing_db \<Rightarrow> bool" where
  "plan_exists p db \<longleftrightarrow> list_ex (\<lambda>r. pl_id r = p) (bd_plans db)"

definition payment_ref_ok :: "string option \<Rightarrow> bool" where
  "payment_ref_ok r = (case r of None \<Rightarrow> True | Some t \<Rightarrow> char_count t \<le> 255)"

definition sub_Create :: "billing_faults \<Rightarrow> subscription \<Rightarrow> billing_db \<Rightarrow> billing_db option" where
  "sub_Create down s db =
     (if down SubInsert \<or> list_ex (\<lambda>r. sn_id r = sn_id s) (bd_subs db) \<or> \<not> plan_exists (sn_plan s) db
         \<or> sub_clash (sn_id s) (sn_user s) (sn_status s) db \<or> \<not> payment_ref_ok (sn_payment s)
      then None
      else Some (db\<lparr>bd_subs := bd_subs db @ [s]\<rparr>))"

definition sub_GetByID :: "billing_faults \<Rightarrow> nat option \<Rightarrow> billing_db \<Rightarrow> subscription option" where
  "sub_GetByID down i db =
     (if down SubGet then None
      else case i of None \<Rightarrow> None | Some n \<Rightarrow> List.find (\<lambda>s. sn_id s = n) (bd_subs db))"

definition sub_GetActiveByUserID :: "billing_faults \<Rightarrow> nat option \<Rightarrow> billing_db \<Rightarrow> subscription option" where
  "sub_GetActiveByUserID down u db =
     (if down SubActiveOf then None
      else case u of
          None \<Rightarrow> None
        | Some n \<Rightarrow> latest_by sn_created (filter (\<lambda>s. sn_user s = n \<and> sn_status s = SubActive) (bd_subs db)))"

text \<open>A negative \<open>LIMIT\<close> or \<open>OFFSET\<close> is an error.\<close>

definition sub_GetByUserID ::
    "billing_faults \<Rightarrow> nat option \<Rightarrow> int \<Rightarrow> int \<Rightarrow> billing_db \<Rightarrow> subscription list option" where
  "sub_GetByUserID down u limit offset db =
     (if down SubList \<or> limit < 0 \<or> offset < 0 then None
      else case u of
          None \<Rightarrow> None
        | Some n \<Rightarrow> Some (page_of (nat limit) (nat offset)
            (newest_first sn_created (filter (\<lambda>s. sn_user s = n) (bd_subs db)))))"

definition set_sub_columns :: "subscription \<Rightarrow> subscription \<Rightarrow> subscription" where
  "set_sub_columns s r = r\<lparr>sn_status := sn_status s, sn_expires := sn_expires s, sn_canceled := sn_canceled s,
     sn_renew := sn_renew s, sn_payment := sn_payment s, sn_meta := sn_meta s, sn_updated := sn_updated s\<rparr>"

definition sub_Update ::
    "billing_faults \<Rightarrow> subscription \<Rightarrow> billing_db \<Rightarrow> billing_error + billing_db" where
  "sub_Update down s db =
     (if down SubUpdateCall then Inl (Wrapped ''failed to update subscription'' DatabaseErr)
      else case List.find (\<lambda>r. sn_id r = sn_id s) (bd_subs db) of
          None \<Rightarrow> Inl (NotFoundErr ''subscription'' (uuid_text (sn_id s)))
        | Some r \<Rightarrow>
            if sub_clash (sn_id s) (sn_user r) (sn_status s) db \<or> \<not> payment_ref_ok (sn_payment s)
            then Inl (Wrapped ''failed to update subscription'' DatabaseErr)
            else Inr (db\<lparr>bd_subs := upd_where (\<lambda>r. sn_id r = sn_id s) (set_sub_columns s) (bd_subs db)\<rparr>))"

definition sub_Delete ::
    "billing_faults \<Rightarrow> time \<Rightarrow> nat option \<Rightarrow> string \<Rightarrow> billing_db \<Rightarrow> billing_error + billing_db" where
  "sub_Delete down now i name db =
     (if down SubDeleteCall then Inl (Wrapped ''failed to delete subscription'' DatabaseErr)
      else case i of
          None \<Rightarrow> Inl (Wrapped ''failed to delete subscription'' DatabaseErr)
        | Some n \<Rightarrow>
            if \<not> list_ex (\<lambda>r. sn_id r = n) (bd_subs db) then Inl (NotFoundErr ''subscription'' name)
            else Inr (db\<lparr>bd_subs := upd_where (\<lambda>r. sn_id r = n)
              (\<lambda>r. r\<lparr>sn_status := SubCanceled, sn_canceled := Some now, sn_updated := now\<rparr>) (bd_subs db)\<rparr>))"

section \<open>Payments\<close>

definition sub_exists :: "nat \<Rightarrow> billing_db \<Rightarrow> bool" where
  "sub_exists i db \<longleftrightarrow> list_ex (\<lambda>s. sn_id s = i) (bd_subs db)"

definition pay_Create :: "billing_faults \<Rightarrow> bill_payment \<Rightarrow> billing_db \<Rightarrow> billing_db option" where
  "pay_Create down p db =
     (if down PayInsert \<or> list_ex (\<lambda>r. pm_id r = pm_id p) (bd_payments db)
         \<or> (case pm_sub p of None \<Rightarrow> False | Some i \<Rightarrow> \<not> sub_exists i db)
         \<or> 20 < char_count (pm_provider p) \<or> 255 < char_count (pm_ref p) \<or> 3 < char_count (pm_currency p)
      then None
      else Some (db\<lparr>bd_payments := bd_payments db @ [p]\<rparr>))"

definition pay_GetByID :: "billing_faults \<Rightarrow> nat option \<Rightarrow> billing_db \<Rightarrow> bill_payment option" where
  "pay_GetByID down i db =
     (if down PayGet then None
      else case i of None \<Rightarrow> None | Some n \<Rightarrow> List.find (\<lambda>p. pm_id p = n) (bd_payments db))"

definition pay_GetByUserID ::
    "billing_faults \<Rightarrow> nat option \<Rightarrow> int \<Rightarrow> int \<Rightarrow> billing_db \<Rightarrow> bill_payment list option" where
  "pay_GetByUserID down u limit offset db =
     (if down PayList \<or> limit < 0 \<or> offset < 0 then None
      else case u of
          None \<Rightarrow> None
        | Some n \<Rightarrow> Some (page_of (nat limit) (nat offset)
            (newest_first pm_created (filter (\<lambda>p. pm_user p = n) (bd_payments db)))))"

definition pay_GetByProviderPaymentID :: "billing_faults \<Rightarrow> string \<Rightarrow> billing_db \<Rightarrow> bill_payment option" where
  "pay_GetByProviderPaymentID down ref db =
     (if down PayByProvider then None else List.find (\<lambda>p. pm_ref p = ref) (bd_payments db))"

definition set_pay_columns :: "bill_payment \<Rightarrow> bill_payment \<Rightarrow> bill_payment" where
  "set_pay_columns p r = r\<lparr>pm_status := pm_status p, pm_meta := pm_meta p, pm_updated := pm_updated p\<rparr>"

definition pay_Update ::
    "billing_faults \<Rightarrow> bill_payment \<Rightarrow> billing_db \<Rightarrow> billing_error + billing_db" where
  "pay_Update down p db =
     (if down PayUpdateCall then Inl (Wrapped ''failed to update payment'' DatabaseErr)
      else if \<not> list_ex (\<lambda>r. pm_id r = pm_id p) (bd_payments db)
      then Inl (NotFoundErr ''payment'' (uuid_text (pm_id p)))
      else Inr (db\<lparr>bd_payments := upd_where (\<lambda>r. pm_id r = pm_id p) (set_pay_columns p) (bd_payments db)\<rparr>))"

definition pay_CountByUserID :: "billing_faults \<Rightarrow> nat option \<Rightarrow> billing_db \<Rightarrow> nat option" where
  "pay_CountByUserID down u db =
     (if down PayCount then None
      else case u of None \<Rightarrow> None | Some n \<Rightarrow> Some (count_where (\<lambda>p. pm_user p = n) (bd_payments db)))"

section \<open>Plans\<close>

definition plan_GetByID :: "billing_faults \<Rightarrow> string \<Rightarrow> billing_db \<Rightarrow> tariff option" where
  "plan_GetByID down i db = (if down PlanGet then None else List.find (\<lambda>p. pl_id p = i) (bd_plans db))"

definition plan_GetAll :: "billing_faults \<Rightarrow> bool \<Rightarrow> billing_db \<Rightarrow> tariff list option" where
  "plan_GetAll down active_only db =
     (if down PlanList then None
      else Some (sort_key pl_price
        (if active_only then filter pl_active (bd_plans db) else bd_plans db)))"

definition plan_GetByTier :: "billing_faults \<Rightarrow> string \<Rightarrow> billing_db \<Rightarrow> tariff option" where
  "plan_GetByTier down tier db = (if down PlanGet then None else List.find (\<lambda>p. pl_id p = tier) (bd_plans db))"

section \<open>Facts about the statements\<close>

lemma set_sub_columns_fields [simp]:
  "sn_id (set_sub_columns s r) = sn_id r" "sn_user (set_sub_columns s r) = sn_user r"
  "sn_plan (set_sub_columns s r) = sn_plan r" "sn_status (set_sub_columns s r) = sn_status s"
  "sn_started (set_sub_columns s r) = sn_started r" "sn_created (set_sub_columns s r) = sn_created r"
  by (simp_all add: set_sub_columns_def)

lemma set_pay_columns_fields [simp]:
  "pm_id (set_pay_columns p r) = pm_id r" "pm_user (set_pay_columns p r) = pm_user r"
  "pm_sub (set_pay_columns p r) = pm_sub r" "pm_provider (set_pay_columns p r) = pm_provider r"
  "pm_ref (set_pay_columns p r) = pm_ref r" "pm_amount (set_pay_columns p r) = pm_amount r"
  "pm_currency (set_pay_columns p r) = pm_currency r" "pm_status (set_pay_columns p r) = pm_status p"
  by (simp_all add: set_pay_columns_def)

lemma sub_Update_frame:
  assumes "sub_Update down s db = Inr db'"
  shows "bd_plans db' = bd_plans db" "bd_payments db' = bd_payments db" "bd_next db' = bd_next db"
    "map sn_id (bd_subs db') = map sn_id (bd_subs db)"
  using assms by (auto simp: sub_Update_def split: if_splits option.splits)

lemma pay_Update_frame:
  assumes "pay_Update down p db = Inr db'"
  shows "bd_plans db' = bd_plans db" "bd_subs db' = bd_subs db" "bd_next db' = bd_next db"
    "map pm_id (bd_payments db') = map pm_id (bd_payments db)"
  using assms by (auto simp: pay_Update_def split: if_splits)

text \<open>The index leaves at most one active subscription to a user, so the newest one is the one.\<close>

lemma the_active_subscription:
  assumes "s \<in> set (bd_subs db)" "sn_user s = u" "sn_status s = SubActive"
    and "length (filter (\<lambda>s. sn_user s = u \<and> sn_status s = SubActive) (bd_subs db)) \<le> 1"
    and "\<not> down SubActiveOf"
  shows "sub_GetActiveByUserID down (Some u) db = Some s"
proof -
  let ?f = "filter (\<lambda>s. sn_user s = u \<and> sn_status s = SubActive) (bd_subs db)"
  have "s \<in> set ?f" using assms by simp
  moreover have "length ?f \<le> 1" using assms(4) .
  ultimately have "?f = [s]"
    by (cases ?f; cases "tl ?f") auto
  then show ?thesis using assms(5) by (simp add: sub_GetActiveByUserID_def latest_by_def newest_first_def)
qed

end
