(* ===== verification/BillingService.thy ===== *)
theory BillingService
  imports BillingStore
begin

text \<open>
  The services of \<open>billing-service/internal/service\<close>: plans (\<open>plan_service.go\<close>), subscriptions
  (\<open>subscription_service_with_publisher.go\<close>) and payments (\<open>payment_service.go\<close>). A payment provider
  is the record of the operations of \<open>infrastructure/payment/provider.go\<close>, \<open>None\<close> when it is not
  configured. \<open>uuid.Parse\<close>, PostgreSQL's reading of a UUID, \<open>json.Marshal\<close> of the payload and the
  RFC 3339 text of a date are arguments. The state holds the tables, the events published and the
  calls made to the providers that charge or refund.
\<close>

section \<open>Providers and environment\<close>

record pay_request =
  pq_amount :: int
  pq_currency :: string
  pq_description :: string
  pq_meta :: "(string \<times> string) list"
  pq_url :: string

record pay_response =
  pr_ref :: string
  pr_checkout :: string
  pr_status :: string
  pr_amount :: int
  pr_currency :: string

record pay_details =
  pd_ref :: string
  pd_status :: string
  pd_amount :: int
  pd_currency :: string
  pd_meta :: "(string \<times> string) list"
  pd_created :: string

record refund_response =
  rf_ref :: string
  rf_status :: string
  rf_amount :: int

record wh_event =
  we_type :: string
  we_payment :: string
  we_status :: string
  we_meta :: "(string \<times> string) list"

text \<open>An error of a provider is its text.\<close>

record pay_provider =
  pp_create :: "pay_request \<Rightarrow> string + pay_response"
  pp_get :: "string \<Rightarrow> string + pay_details"
  pp_refund :: "string \<Rightarrow> string + refund_response"
  pp_verify :: "string \<Rightarrow> string \<Rightarrow> bool"
  pp_parse :: "string \<Rightarrow> string + wh_event"

datatype provider_call =
    CallCreate string pay_request
  | CallRefund string string

datatype billing_event =
    CreatedEvent nat nat string int int int
  | CanceledEvent nat nat string string

record billing_env =
  be_down :: billing_faults
  be_yookassa :: "pay_provider option"
  be_stripe :: "pay_provider option"
  be_publisher :: bool
  be_parse :: "string \<Rightarrow> nat option"
  be_column :: "string \<Rightarrow> nat option"
  be_marshal :: "(string \<times> string) list \<Rightarrow> string"
  be_date :: "time \<Rightarrow> string"

record billing_state =
  bi_db :: billing_db
  bi_events :: "billing_event list"
  bi_calls :: "provider_call list"

definition set_bdb :: "billing_db \<Rightarrow> billing_state \<Rightarrow> billing_state" where
  "set_bdb db st = st\<lparr>bi_db := db\<rparr>"

definition called :: "provider_call \<Rightarrow> billing_state \<Rightarrow> billing_state" where
  "called c st = st\<lparr>bi_calls := bi_calls st @ [c]\<rparr>"

text \<open>A failed publication is only logged.\<close>

definition publish_billing :: "billing_env \<Rightarrow> billing_call \<Rightarrow> billing_event \<Rightarrow> billing_state \<Rightarrow> billing_state" where
  "publish_billing env c e st =
     (if be_publisher env \<and> \<not> be_down env c then st\<lparr>bi_events := bi_events st @ [e]\<rparr> else st)"

section \<open>Plans\<close>

definition GetAllPlans :: "billing_env \<Rightarrow> billing_state \<Rightarrow> tariff list billing_result" where
  "GetAllPlans env st =
     (case plan_GetAll (be_down env) True (bi_db st) of
        None \<Rightarrow> BErr (Wrapped ''failed to get plans'' DatabaseErr)
      | Some ps \<Rightarrow> BOk ps)"

definition GetPlan :: "billing_env \<Rightarrow> string \<Rightarrow> billing_state \<Rightarrow> tariff billing_result" where
  "GetPlan env i st =
     (case plan_GetByID (be_down env) i (bi_db st) of
        None \<Rightarrow> BErr (NotFoundErr ''plan'' i)
      | Some p \<Rightarrow> BOk p)"

definition ValidatePlanLimits ::
    "billing_env \<Rightarrow> string \<Rightarrow> int \<Rightarrow> int \<Rightarrow> billing_state \<Rightarrow> billing_error option" where
  "ValidatePlanLimits env i monitors interval st =
     (case plan_GetByID (be_down env) i (bi_db st) of
        None \<Rightarrow> Some (NotFoundErr ''plan'' i)
      | Some p \<Rightarrow>
          if \<not> IsValidForMonitors monitors p then Some (InvalidArg ''monitors_count'' ''exceeds plan limit'')
          else if \<not> IsValidForCheckInterval interval p
          then Some (InvalidArg ''check_interval'' ''less than minimum allowed by plan'')
          else None)"

section \<open>Subscriptions\<close>

record sub_response =
  sr_id :: string
  sr_user :: string
  sr_plan :: string
  sr_status :: sub_status
  sr_started :: string
  sr_expires :: string
  sr_canceled :: "string option"
  sr_renew :: bool
  sr_payment :: "string option"
  sr_created :: string

definition subscriptionToDTO :: "billing_env \<Rightarrow> subscription \<Rightarrow> sub_response" where
  "subscriptionToDTO env s =
     \<lparr>sr_id = uuid_text (sn_id s), sr_user = uuid_text (sn_user s), sr_plan = sn_plan s,
      sr_status = sn_status s, sr_started = be_date env (sn_started s), sr_expires = be_date env (sn_expires s),
      sr_canceled = map_option (be_date env) (sn_canceled s), sr_renew = sn_renew s,
      sr_payment = sn_payment s, sr_created = be_date env (sn_created s)\<rparr>"

definition GetActiveSubscription :: "billing_env \<Rightarrow> string \<Rightarrow> billing_state \<Rightarrow> sub_response billing_result" where
  "GetActiveSubscription env user st =
     (case sub_GetActiveByUserID (be_down env) (be_column env user) (bi_db st) of
        None \<Rightarrow> BErr (Wrapped ''failed to get active subscription'' (NotFoundErr ''subscription'' user))
      | Some s \<Rightarrow> BOk (subscriptionToDTO env s))"

definition CreateSubscription ::
    "billing_env \<Rightarrow> time \<Rightarrow> string \<Rightarrow> string \<Rightarrow> int \<Rightarrow> billing_state \<Rightarrow> sub_response billing_result \<times> billing_state" where
  "CreateSubscription env now user plan_id days st =
     (let db = bi_db st in
      case plan_GetByID (be_down env) plan_id db of
        None \<Rightarrow> (BErr (NotFoundErr ''plan'' plan_id), st)
      | Some plan \<Rightarrow>
     (if \<not> pl_active plan then (BErr (InvalidArg ''plan_id'' ''plan is not active''), st)
      else case sub_GetActiveByUserID (be_down env) (be_column env user) db of
        Some _ \<Rightarrow> (BErr (AlreadyExistsErr ''subscription'' user), st)
      | None \<Rightarrow>
     (case be_parse env user of
        None \<Rightarrow> (BPanic, st)
      | Some u \<Rightarrow>
     (let sub = NewSubscription (bd_next db) now u plan_id (days_duration days);
          db1 = next_ids 1 db in
      case sub_Create (be_down env) sub db1 of
        None \<Rightarrow> (BErr (Wrapped ''failed to create subscription'' DatabaseErr), set_bdb db1 st)
      | Some db2 \<Rightarrow>
          (BOk (subscriptionToDTO env sub),
           publish_billing env PubCreated
             (CreatedEvent (sn_id sub) u plan_id (pl_monitors plan) (pl_interval plan) (pl_alerts plan))
             (set_bdb db2 st))))))"

definition CancelSubscription ::
    "billing_env \<Rightarrow> time \<Rightarrow> string \<Rightarrow> string \<Rightarrow> billing_state \<Rightarrow> billing_error option \<times> billing_state" where
  "CancelSubscription env now user reason st =
     (case sub_GetActiveByUserID (be_down env) (be_column env user) (bi_db st) of
        None \<Rightarrow> (Some (NotFoundErr ''subscription'' user), st)
      | Some s \<Rightarrow>
     (case sub_Cancel now reason s of
        Inl e \<Rightarrow> (Some (Wrapped ''failed to cancel subscription'' e), st)
      | Inr s' \<Rightarrow>
     (case sub_Update (be_down env) s' (bi_db st) of
        Inl e \<Rightarrow> (Some (Wrapped ''failed to update subscription'' e), st)
      | Inr db \<Rightarrow>
          (None, publish_billing env PubCanceled
             (CanceledEvent (sn_id s') (sn_user s') (sn_plan s') reason) (set_bdb db st)))))"

definition RenewSubscription ::
    "billing_env \<Rightarrow> time \<Rightarrow> string \<Rightarrow> billing_state \<Rightarrow> sub_response billing_result \<times> billing_state" where
  "RenewSubscription env now i st =
     (case sub_GetByID (be_down env) (be_column env i) (bi_db st) of
        None \<Rightarrow> (BErr (NotFoundErr ''subscription'' i), st)
      | Some s \<Rightarrow>
     (case plan_GetByID (be_down env) (sn_plan s) (bi_db st) of
        None \<Rightarrow> (BErr (NotFoundErr ''plan'' (sn_plan s)), st)
      | Some plan \<Rightarrow>
     (case sub_Renew now (days_duration (pl_days plan)) s of
        Inl e \<Rightarrow> (BErr (Wrapped ''failed to renew subscription'' e), st)
      | Inr s' \<Rightarrow>
     (case sub_Update (be_down env) s' (bi_db st) of
        Inl e \<Rightarrow> (BErr (Wrapped ''failed to update subscription'' e), st)
      | Inr db \<Rightarrow> (BOk (subscriptionToDTO env s'), set_bdb db st)))))"

text \<open>\<open>int(page * pageSize)\<close>: the product of two \<open>int32\<close> wraps around.\<close>

definition history_offset :: "32 word \<Rightarrow> 32 word \<Rightarrow> int" where
  "history_offset page_no page_len = sint (page_no * page_len)"

definition safeLenToInt32 :: "nat \<Rightarrow> int" where
  "safeLenToInt32 n = (if 2147483647 < n then 2147483647 else int n)"

definition GetUserSubscriptionHistory ::
    "billing_env \<Rightarrow> string \<Rightarrow> 32 word \<Rightarrow> 32 word \<Rightarrow> billing_state \<Rightarrow> (sub_response list \<times> int) billing_result" where
  "GetUserSubscriptionHistory env user page_no page_len st =
     (case sub_GetByUserID (be_down env) (be_column env user) (sint page_len) (history_offset page_no page_len) (bi_db st) of
        None \<Rightarrow> BErr (Wrapped ''failed to get subscription history'' DatabaseErr)
      | Some ss \<Rightarrow> BOk (map (subscriptionToDTO env) ss, safeLenToInt32 (length ss)))"

section \<open>Payments\<close>

record pay_view =
  pv_id :: string
  pv_user :: string
  pv_sub :: "string option"
  pv_provider :: string
  pv_ref :: string
  pv_status :: pay_status
  pv_amount :: int
  pv_currency :: string
  pv_created :: string
  pv_updated :: string

definition paymentToDTO :: "billing_env \<Rightarrow> bill_payment \<Rightarrow> pay_view" where
  "paymentToDTO env p =
     \<lparr>pv_id = uuid_text (pm_id p), pv_user = uuid_text (pm_user p), pv_sub = map_option uuid_text (pm_sub p),
      pv_provider = pm_provider p, pv_ref = pm_ref p, pv_status = pm_status p, pv_amount = pm_amount p,
      pv_currency = pm_currency p, pv_created = be_date env (pm_created p), pv_updated = be_date env (pm_updated p)\<rparr>"

text \<open>The Russian word for a subscription, a colon and a blank, in UTF-8.\<close>

definition payment_title :: string where
  "payment_title = map char_of [0xD0, 0x9F, 0xD0, 0xBE, 0xD0, 0xB4, 0xD0, 0xBF, 0xD0, 0xB8, 0xD1, 0x81, 0xD0, 0xBA,
     0xD0, 0xB0, 0x3A, 0x20 :: nat]"

definition checkout_request :: "string \<Rightarrow> tariff \<Rightarrow> string \<Rightarrow> pay_request" where
  "checkout_request user plan url =
     \<lparr>pq_amount = pl_price plan, pq_currency = ''RUB'', pq_description = payment_title @ pl_name plan,
      pq_meta = [(''user_id'', user), (''plan_id'', pl_id plan)], pq_url = url\<rparr>"

text \<open>The rows of a checkout, once the provider has taken the payment.\<close>

definition store_checkout ::
    "billing_env \<Rightarrow> time \<Rightarrow> nat \<Rightarrow> tariff \<Rightarrow> string \<Rightarrow> billing_db \<Rightarrow> billing_error option \<times> billing_db" where
  "store_checkout env now u plan ref db =
     (let sub = (NewSubscription (bd_next db) now u (pl_id plan) (days_duration (pl_days plan)))\<lparr>sn_payment := Some ref\<rparr>;
          db1 = next_ids 1 db in
      case sub_Create (be_down env) sub db1 of
        None \<Rightarrow> (Some (Wrapped ''failed to create subscription'' DatabaseErr), db1)
      | Some db2 \<Rightarrow>
     (let pay = NewPayment (bd_next db2) now u (sn_id sub) ''YOOKASSA'' ref (pl_price plan) ''RUB'';
          db3 = next_ids 1 db2 in
      case pay_Create (be_down env) pay db3 of
        None \<Rightarrow> (Some (Wrapped ''failed to create payment record'' DatabaseErr), db3)
      | Some db4 \<Rightarrow> (None, db4)))"

text \<open>The plan found has the identifier asked for.\<close>

definition CreateCheckout ::
    "billing_env \<Rightarrow> time \<Rightarrow> string \<Rightarrow> string \<Rightarrow> string \<Rightarrow> billing_state \<Rightarrow>
     (string \<times> string) billing_result \<times> billing_state" where
  "CreateCheckout env now user plan_id url st =
     (if user = [] then (BErr (InvalidArg ''user_id'' ''required''), st)
      else if plan_id = [] then (BErr (InvalidArg ''plan_id'' ''required''), st)
      else case plan_GetByID (be_down env) plan_id (bi_db st) of
        None \<Rightarrow> (BErr (NotFoundErr ''plan'' plan_id), st)
      | Some plan \<Rightarrow>
     (case be_yookassa env of
        None \<Rightarrow> (BErr InternalErr, st)
      | Some provider \<Rightarrow>
     (let req = checkout_request user plan url; st1 = called (CallCreate ''YOOKASSA'' req) st in
      case pp_create provider req of
        Inl e \<Rightarrow> (BErr (PaymentFailedErr e), st1)
      | Inr resp \<Rightarrow>
     (case be_parse env user of
        None \<Rightarrow> (BPanic, st1)
      | Some u \<Rightarrow>
     (case store_checkout env now u plan (pr_ref resp) (bi_db st1) of
        (Some e, db) \<Rightarrow> (BErr e, set_bdb db st1)
      | (None, db) \<Rightarrow> (BOk (pr_checkout resp, pr_ref resp), set_bdb db st1))))))"

definition GetPayment :: "billing_env \<Rightarrow> string \<Rightarrow> billing_state \<Rightarrow> pay_view billing_result" where
  "GetPayment env i st =
     (case pay_GetByID (be_down env) (be_column env i) (bi_db st) of
        None \<Rightarrow> BErr (NotFoundErr ''payment'' i)
      | Some p \<Rightarrow> BOk (paymentToDTO env p))"

definition GetPaymentHistory ::
    "billing_env \<Rightarrow> string \<Rightarrow> 32 word \<Rightarrow> 32 word \<Rightarrow> billing_state \<Rightarrow> (pay_view list \<times> nat) billing_result" where
  "GetPaymentHistory env user page_no page_len st =
     (case pay_GetByUserID (be_down env) (be_column env user) (sint page_len) (history_offset page_no page_len) (bi_db st) of
        None \<Rightarrow> BErr (Wrapped ''failed to get payment history'' DatabaseErr)
      | Some ps \<Rightarrow>
     (case pay_CountByUserID (be_down env) (be_column env user) (bi_db st) of
        None \<Rightarrow> BErr (Wrapped ''failed to count payments'' DatabaseErr)
      | Some n \<Rightarrow> BOk (map (paymentToDTO env) ps, n)))"

section \<open>Events of the providers\<close>

definition handlePaymentSuccess ::
    "billing_env \<Rightarrow> bill_payment \<Rightarrow> billing_db \<Rightarrow> billing_error option \<times> billing_db" where
  "handlePaymentSuccess env p db =
     (if pm_status p = PaySuccess then (None, db)
      else case pay_Update (be_down env) (p\<lparr>pm_status := PaySuccess\<rparr>) db of
        Inl e \<Rightarrow> (Some (Wrapped ''failed to update payment'' e), db)
      | Inr db1 \<Rightarrow>
     (case pm_sub p of
        None \<Rightarrow> (None, db1)
      | Some i \<Rightarrow>
     (case sub_GetByID (be_down env) (Some i) db1 of
        None \<Rightarrow> (Some (Wrapped ''failed to get subscription'' DatabaseErr), db1)
      | Some s \<Rightarrow>
     (case sub_Update (be_down env) (s\<lparr>sn_status := SubActive\<rparr>) db1 of
        Inl e \<Rightarrow> (Some (Wrapped ''failed to activate subscription'' e), db1)
      | Inr db2 \<Rightarrow> (None, db2)))))"

text \<open>The second half of the two handlers below.\<close>

definition cancel_paid_subscription ::
    "billing_env \<Rightarrow> time \<Rightarrow> string \<Rightarrow> bill_payment \<Rightarrow> billing_db \<Rightarrow> billing_error option \<times> billing_db" where
  "cancel_paid_subscription env now reason p db =
     (case pm_sub p of
        None \<Rightarrow> (None, db)
      | Some i \<Rightarrow>
     (case sub_GetByID (be_down env) (Some i) db of
        None \<Rightarrow> (Some (Wrapped ''failed to get subscription'' DatabaseErr), db)
      | Some s \<Rightarrow>
     (case sub_Cancel now reason s of
        Inl e \<Rightarrow> (Some (Wrapped ''failed to cancel subscription'' e), db)
      | Inr s' \<Rightarrow>
     (case sub_Update (be_down env) s' db of
        Inl e \<Rightarrow> (Some (Wrapped ''failed to update subscription'' e), db)
      | Inr db' \<Rightarrow> (None, db')))))"

definition bill_handlePaymentFailed ::
    "billing_env \<Rightarrow> time \<Rightarrow> bill_payment \<Rightarrow> billing_db \<Rightarrow> billing_error option \<times> billing_db" where
  "bill_handlePaymentFailed env now p db =
     (case pay_Update (be_down env) (p\<lparr>pm_status := PayFailed\<rparr>) db of
        Inl e \<Rightarrow> (Some (Wrapped ''failed to update payment'' e), db)
      | Inr db1 \<Rightarrow> cancel_paid_subscription env now ''payment failed'' p db1)"

definition handleRefundSuccess ::
    "billing_env \<Rightarrow> time \<Rightarrow> bill_payment \<Rightarrow> billing_db \<Rightarrow> billing_error option \<times> billing_db" where
  "handleRefundSuccess env now p db =
     (case pay_Update (be_down env) (p\<lparr>pm_status := PayRefunded\<rparr>) db of
        Inl e \<Rightarrow> (Some (Wrapped ''failed to update payment'' e), db)
      | Inr db1 \<Rightarrow> cancel_paid_subscription env now ''payment refunded'' p db1)"

definition success_events :: "string list" where
  "success_events = [''payment.succeeded'', ''payment_intent.succeeded'']"

definition failure_events :: "string list" where
  "failure_events = [''payment.canceled'', ''payment.failed'', ''payment_intent.payment_failed'']"

definition refund_events :: "string list" where
  "refund_events = [''refund.succeeded'', ''charge.refunded'']"

definition handle_event ::
    "billing_env \<Rightarrow> time \<Rightarrow> string \<Rightarrow> bill_payment \<Rightarrow> billing_db \<Rightarrow> billing_error option \<times> billing_db" where
  "handle_event env now kind p db =
     (if kind \<in> set success_events then handlePaymentSuccess env p db
      else if kind \<in> set failure_events then bill_handlePaymentFailed env now p db
      else if kind \<in> set refund_events then handleRefundSuccess env now p db
      else (None, db))"

definition provider_name :: "string \<Rightarrow> string option" where
  "provider_name s =
     (if s \<in> {''YOOKASSA'', ''yookassa''} then Some ''YOOKASSA''
      else if s \<in> {''STRIPE'', ''stripe''} then Some ''STRIPE''
      else None)"

definition provider_of :: "billing_env \<Rightarrow> string \<Rightarrow> pay_provider option" where
  "provider_of env name =
     (if name = ''YOOKASSA'' then be_yookassa env else if name = ''STRIPE'' then be_stripe env else None)"

definition ProcessWebhook ::
    "billing_env \<Rightarrow> time \<Rightarrow> string \<Rightarrow> (string \<times> string) list \<Rightarrow> string \<Rightarrow> billing_state \<Rightarrow>
     billing_error option \<times> billing_state" where
  "ProcessWebhook env now provider payload signature st =
     (case provider_name provider of
        None \<Rightarrow> (Some (InvalidArg ''provider'' ''unknown provider''), st)
      | Some name \<Rightarrow>
     (case provider_of env name of
        None \<Rightarrow> (Some (InvalidArg ''provider'' ''provider not configured''), st)
      | Some pp \<Rightarrow>
     (let body = be_marshal env payload in
      if \<not> pp_verify pp body signature then (Some PermissionDeniedErr, st)
      else case pp_parse pp body of
        Inl e \<Rightarrow> (Some (Wrapped ''failed to parse webhook'' (PlainErr e)), st)
      | Inr event \<Rightarrow>
     (case pay_GetByProviderPaymentID (be_down env) (we_payment event) (bi_db st) of
        None \<Rightarrow> (Some (NotFoundErr ''payment'' (we_payment event)), st)
      | Some p \<Rightarrow>
     (case handle_event env now (we_type event) p (bi_db st) of (e, db) \<Rightarrow> (e, set_bdb db st))))))"

definition bill_RefundPayment ::
    "billing_env \<Rightarrow> time \<Rightarrow> string \<Rightarrow> billing_state \<Rightarrow> billing_error option \<times> billing_state" where
  "bill_RefundPayment env now i st =
     (case be_parse env i of
        None \<Rightarrow> (Some (InvalidArg ''payment_id'' ''invalid uuid''), st)
      | Some _ \<Rightarrow>
     (case pay_GetByID (be_down env) (be_column env i) (bi_db st) of
        None \<Rightarrow> (Some (NotFoundErr ''payment'' i), st)
      | Some p \<Rightarrow>
     (if pm_provider p \<notin> {''YOOKASSA'', ''STRIPE''} then (Some (InvalidArg ''provider'' ''unknown provider''), st)
      else case provider_of env (pm_provider p) of
        None \<Rightarrow> (Some InternalErr, st)
      | Some pp \<Rightarrow>
     (let st1 = called (CallRefund (pm_provider p) (pm_ref p)) st in
      case pp_refund pp (pm_ref p) of
        Inl e \<Rightarrow> (Some (PaymentFailedErr e), st1)
      | Inr _ \<Rightarrow>
     (case pay_Refund now p of
        Inl e \<Rightarrow> (Some (Wrapped ''failed to mark payment as refunded'' e), st1)
      | Inr p' \<Rightarrow>
     (case pay_Update (be_down env) p' (bi_db st1) of
        Inl e \<Rightarrow> (Some (Wrapped ''failed to update payment'' e), st1)
      | Inr db \<Rightarrow> (None, set_bdb db st1)))))))"

lemma set_bdb_fields [simp]:
  "bi_db (set_bdb db st) = db" "bi_events (set_bdb db st) = bi_events st" "bi_calls (set_bdb db st) = bi_calls st"
  by (simp_all add: set_bdb_def)

lemma called_fields [simp]:
  "bi_db (called c st) = bi_db st" "bi_events (called c st) = bi_events st" "bi_calls (called c st) = bi_calls st @ [c]"
  by (simp_all add: called_def)

lemma publish_billing_fields [simp]:
  "bi_db (publish_billing env c e st) = bi_db st" "bi_calls (publish_billing env c e st) = bi_calls st"
  by (simp_all add: publish_billing_def)

end
