(* ===== verification/BillingTrace.thy ===== *)
theory BillingTrace
  imports BillingService
begin

text \<open>
  Histories of the billing service: any sequence of its operations, each with its own failing
  statements, providers and clock. The locale \<open>billing_invariant\<close> says, statement by statement, what a
  property of the tables must satisfy; then every history of admitted operations keeps it.
\<close>

section \<open>Operations\<close>

datatype billing_op =
    DoCreateSub time string string int
  | DoCancelSub time string string
  | DoRenewSub time string
  | DoCheckout time string string string
  | DoProviderHook time string "(string \<times> string) list" string
  | DoRefundPayment time string

fun run_bill :: "billing_env \<Rightarrow> billing_op \<Rightarrow> billing_state \<Rightarrow> billing_state" where
  "run_bill env (DoCreateSub now user plan days) st = snd (CreateSubscription env now user plan days st)"
| "run_bill env (DoCancelSub now user reason) st = snd (CancelSubscription env now user reason st)"
| "run_bill env (DoRenewSub now i) st = snd (RenewSubscription env now i st)"
| "run_bill env (DoCheckout now user plan url) st = snd (CreateCheckout env now user plan url st)"
| "run_bill env (DoProviderHook now provider payload sig) st = snd (ProcessWebhook env now provider payload sig st)"
| "run_bill env (DoRefundPayment now i) st = snd (bill_RefundPayment env now i st)"

fun run_bills :: "(billing_env \<times> billing_op) list \<Rightarrow> billing_state \<Rightarrow> billing_state" where
  "run_bills [] st = st"
| "run_bills ((env, op) # ops) st = run_bills ops (run_bill env op st)"

lemma run_bills_append: "run_bills (xs @ ys) st = run_bills ys (run_bills xs st)"
  by (induction xs arbitrary: st) auto

text \<open>The event that a webhook delivers, whoever signed it.\<close>

definition hook_event :: "billing_env \<Rightarrow> string \<Rightarrow> (string \<times> string) list \<Rightarrow> wh_event option" where
  "hook_event env provider payload =
     (case provider_name provider of
        None \<Rightarrow> None
      | Some name \<Rightarrow>
     (case provider_of env name of
        None \<Rightarrow> None
      | Some pp \<Rightarrow> (case pp_parse pp (be_marshal env payload) of Inl _ \<Rightarrow> None | Inr e \<Rightarrow> Some e)))"

text \<open>
  Which operations a history may contain. \<open>inner\<close>: those that no request of the gRPC interface reaches,
  renewing and refunding. \<open>revs\<close>: the payments, by the provider's identifier, that a provider may report
  as failed or refunded. \<open>can\<close>: the users who may cancel.
\<close>

fun admitted :: "bool \<Rightarrow> (string \<Rightarrow> bool) \<Rightarrow> (nat \<Rightarrow> bool) \<Rightarrow> billing_env \<Rightarrow> billing_op \<Rightarrow> bool" where
  "admitted inner revs can env (DoCreateSub now user plan days) = True"
| "admitted inner revs can env (DoCancelSub now user reason) =
     (case be_column env user of None \<Rightarrow> True | Some u \<Rightarrow> can u)"
| "admitted inner revs can env (DoRenewSub now i) = inner"
| "admitted inner revs can env (DoCheckout now user plan url) = True"
| "admitted inner revs can env (DoProviderHook now provider payload sig) =
     (case hook_event env provider payload of
        None \<Rightarrow> True
      | Some e \<Rightarrow> we_type e \<in> set failure_events \<union> set refund_events \<longrightarrow> revs (we_payment e))"
| "admitted inner revs can env (DoRefundPayment now i) = inner"

section \<open>What a property of the tables must satisfy\<close>

locale billing_invariant =
  fixes P :: "billing_db \<Rightarrow> bool" and inner :: bool and revs :: "string \<Rightarrow> bool" and can :: "nat \<Rightarrow> bool"
  assumes ids: "P db \<Longrightarrow> P (next_ids n db)"
    and sub_made: "P db \<Longrightarrow> sn_id s = bd_next db \<Longrightarrow> sn_status s = SubPending \<Longrightarrow>
      sub_Create down s (next_ids 1 db) = Some db' \<Longrightarrow> P db'"
    and checkout_stored: "P db \<Longrightarrow> plan \<in> set (bd_plans db) \<Longrightarrow>
      store_checkout env now u plan ref db = (e, db') \<Longrightarrow> P db'"
    and canceled: "P db \<Longrightarrow> s \<in> set (bd_subs db) \<Longrightarrow> sn_status s = SubActive \<Longrightarrow> can (sn_user s) \<Longrightarrow>
      sub_Cancel now r s = Inr s' \<Longrightarrow> sub_Update down s' db = Inr db' \<Longrightarrow> P db'"
    and renewed: "inner \<Longrightarrow> P db \<Longrightarrow> s \<in> set (bd_subs db) \<Longrightarrow> sub_Renew now d s = Inr s' \<Longrightarrow>
      sub_Update down s' db = Inr db' \<Longrightarrow> P db'"
    and succeeded: "P db \<Longrightarrow> p \<in> set (bd_payments db) \<Longrightarrow> handlePaymentSuccess env p db = (e, db') \<Longrightarrow> P db'"
    and reversed: "P db \<Longrightarrow> p \<in> set (bd_payments db) \<Longrightarrow> revs (pm_ref p) \<Longrightarrow> x = PayFailed \<or> x = PayRefunded \<Longrightarrow>
      pay_Update down (p\<lparr>pm_status := x\<rparr>) db = Inr db1 \<Longrightarrow>
      cancel_paid_subscription env now r p db1 = (e, db') \<Longrightarrow> P db'"
    and refunded: "inner \<Longrightarrow> P db \<Longrightarrow> p \<in> set (bd_payments db) \<Longrightarrow> pay_Refund now p = Inr p' \<Longrightarrow>
      pay_Update down p' db = Inr db' \<Longrightarrow> P db'"
begin

lemma keeps_create: "P (bi_db st) \<Longrightarrow> P (bi_db (snd (CreateSubscription env now user plan days st)))"
  by (auto simp: CreateSubscription_def Let_def NewSubscription_def ids split: option.splits
      intro: sub_made [unfolded One_nat_def, rotated 3])

lemma keeps_cancel:
  assumes "P (bi_db st)" and "case be_column env user of None \<Rightarrow> True | Some u \<Rightarrow> can u"
  shows "P (bi_db (snd (CancelSubscription env now user reason st)))"
proof (cases "sub_GetActiveByUserID (be_down env) (be_column env user) (bi_db st)")
  case None
  then show ?thesis using assms by (simp add: CancelSubscription_def)
next
  case (Some s)
  then have s: "s \<in> set (bd_subs (bi_db st))" "sn_status s = SubActive" "can (sn_user s)"
    using assms(2) latest_by_Some(1)
    by (fastforce simp: sub_GetActiveByUserID_def split: if_splits option.splits)+
  show ?thesis using Some assms(1) canceled [OF assms(1) s]
    by (auto simp: CancelSubscription_def split: sum.splits)
qed

lemma keeps_renew:
  assumes "P (bi_db st)" and "inner"
  shows "P (bi_db (snd (RenewSubscription env now i st)))"
proof (cases "sub_GetByID (be_down env) (be_column env i) (bi_db st)")
  case None
  then show ?thesis using assms by (simp add: RenewSubscription_def)
next
  case (Some s)
  then have "s \<in> set (bd_subs (bi_db st))"
    by (auto simp: sub_GetByID_def split: if_splits option.splits dest: find_Some_inD)
  then show ?thesis using Some assms renewed [OF assms(2,1)]
    by (auto simp: RenewSubscription_def split: option.splits sum.splits)
qed

lemma keeps_checkout: "P (bi_db st) \<Longrightarrow> P (bi_db (snd (CreateCheckout env now user plan url st)))"
  by (auto simp: CreateCheckout_def Let_def plan_GetByID_def split: option.splits sum.splits prod.splits
      intro: checkout_stored dest!: find_Some_inD)

lemma keeps_hook:
  assumes "P (bi_db st)" and "admitted inner revs can env (DoProviderHook now provider payload sig)"
  shows "P (bi_db (snd (ProcessWebhook env now provider payload sig st)))"
proof (cases "hook_event env provider payload")
  case None
  then show ?thesis using assms(1)
    by (auto simp: ProcessWebhook_def hook_event_def Let_def split: option.splits sum.splits)
next
  case (Some e)
  show ?thesis
  proof (cases "pay_GetByProviderPaymentID (be_down env) (we_payment e) (bi_db st)")
    case None
    then show ?thesis using assms(1) Some
      by (auto simp: ProcessWebhook_def hook_event_def Let_def split: option.splits sum.splits)
  next
    case found: (Some p)
    then have p: "p \<in> set (bd_payments (bi_db st))" "pm_ref p = we_payment e"
      by (auto simp: pay_GetByProviderPaymentID_def split: if_splits dest: find_Some_inD)
    have "P db'" if "handle_event env now (we_type e) p (bi_db st) = (err, db')" for err db'
      using that assms p Some succeeded [OF assms(1) p(1)] reversed [OF assms(1) p(1)]
      by (auto simp: handle_event_def bill_handlePaymentFailed_def handleRefundSuccess_def
          split: if_splits sum.splits) (blast+)
    then show ?thesis using assms(1) Some found
      by (auto simp: ProcessWebhook_def hook_event_def Let_def split: option.splits sum.splits prod.splits)
  qed
qed

lemma keeps_refund:
  assumes "P (bi_db st)" and "inner"
  shows "P (bi_db (snd (bill_RefundPayment env now i st)))"
proof (cases "pay_GetByID (be_down env) (be_column env i) (bi_db st)")
  case None
  then show ?thesis using assms by (auto simp: bill_RefundPayment_def split: option.splits)
next
  case (Some p)
  then have "p \<in> set (bd_payments (bi_db st))"
    by (auto simp: pay_GetByID_def split: if_splits option.splits dest: find_Some_inD)
  then show ?thesis using Some assms refunded [OF assms(2,1)]
    by (auto simp: bill_RefundPayment_def Let_def split: option.splits sum.splits)
qed

theorem run_bill_keeps: "P (bi_db st) \<Longrightarrow> admitted inner revs can env op \<Longrightarrow> P (bi_db (run_bill env op st))"
  using keeps_create keeps_cancel keeps_renew keeps_checkout keeps_hook keeps_refund
  by (cases op) (auto simp del: admitted.simps(5))

theorem run_bills_keep:
  "list_all (\<lambda>(env, op). admitted inner revs can env op) ops \<Longrightarrow> P (bi_db st) \<Longrightarrow> P (bi_db (run_bills ops st))"
  by (induction ops arbitrary: st) (auto simp: run_bill_keeps)

end

end
