(* ===== verification/BillingInvariants.thy ===== *)
theory BillingInvariants
  imports BillingTrace
begin

text \<open>
  What every history of the billing service keeps, whatever statements fail and whatever the providers
  answer and report: the constraints of the tables with the prices of the payments, an active
  subscription while nobody ends it, a paid subscription that was not activated. Each is an
  interpretation of \<open>billing_invariant\<close>.
\<close>

section \<open>The tables\<close>

definition is_active :: "subscription \<Rightarrow> bool" where
  "is_active s \<longleftrightarrow> sn_status s = SubActive"

definition is_waiting :: "subscription \<Rightarrow> bool" where
  "is_waiting s \<longleftrightarrow> sn_status s = SubPending"

definition sub_row_ok :: "billing_db \<Rightarrow> subscription \<Rightarrow> bool" where
  "sub_row_ok db s \<longleftrightarrow> sn_id s < bd_next db \<and> plan_exists (sn_plan s) db \<and>
     sn_status s \<in> {SubActive, SubPending, SubCanceled}"

definition subs_ok :: "billing_db \<Rightarrow> bool" where
  "subs_ok db \<longleftrightarrow> distinct (map sn_id (bd_subs db)) \<and> list_all (sub_row_ok db) (bd_subs db) \<and>
     distinct (map sn_user (filter is_active (bd_subs db))) \<and>
     distinct (map sn_user (filter is_waiting (bd_subs db)))"

text \<open>A payment is for a subscription of its user and has the price of the plan.\<close>

definition priced :: "billing_db \<Rightarrow> bill_payment \<Rightarrow> bool" where
  "priced db p \<longleftrightarrow> list_ex (\<lambda>s. pm_sub p = Some (sn_id s) \<and> sn_user s = pm_user p \<and>
     list_ex (\<lambda>t. pl_id t = sn_plan s \<and> pl_price t = pm_amount p) (bd_plans db)) (bd_subs db)"

definition pay_row_ok :: "billing_db \<Rightarrow> bill_payment \<Rightarrow> bool" where
  "pay_row_ok db p \<longleftrightarrow> pm_id p < bd_next db \<and> priced db p \<and> pm_provider p = ''YOOKASSA'' \<and>
     pm_currency p = ''RUB'' \<and> pm_status p \<in> {PayPending, PaySuccess, PayFailed, PayRefunded}"

definition pays_ok :: "billing_db \<Rightarrow> bool" where
  "pays_ok db \<longleftrightarrow> distinct (map pm_id (bd_payments db)) \<and> list_all (pay_row_ok db) (bd_payments db)"

definition billing_ok :: "billing_db \<Rightarrow> bool" where
  "billing_ok db \<longleftrightarrow> subs_ok db \<and> pays_ok db"

lemma billing_ok_empty: "bd_subs db = [] \<Longrightarrow> bd_payments db = [] \<Longrightarrow> billing_ok db"
  by (simp add: billing_ok_def subs_ok_def pays_ok_def)

lemma next_ids_fields [simp]:
  "bd_subs (next_ids n db) = bd_subs db" "bd_plans (next_ids n db) = bd_plans db"
  "bd_payments (next_ids n db) = bd_payments db" "bd_next (next_ids n db) = bd_next db + n"
  by (simp_all add: next_ids_def)

lemma row_ok_ids [simp]:
  "sub_row_ok db s \<Longrightarrow> sub_row_ok (next_ids n db) s" "pay_row_ok db p \<Longrightarrow> pay_row_ok (next_ids n db) p"
  by (auto simp: sub_row_ok_def pay_row_ok_def priced_def plan_exists_def)

lemma billing_ok_ids: "billing_ok db \<Longrightarrow> billing_ok (next_ids n db)"
  by (auto simp: billing_ok_def subs_ok_def pays_ok_def list_all_iff)

lemma billing_okD:
  assumes "billing_ok db"
  shows "distinct (map sn_id (bd_subs db))" "list_all (sub_row_ok db) (bd_subs db)"
    "distinct (map sn_user (filter is_active (bd_subs db)))" "distinct (map sn_user (filter is_waiting (bd_subs db)))"
    "distinct (map pm_id (bd_payments db))" "list_all (pay_row_ok db) (bd_payments db)"
  using assms by (simp_all add: billing_ok_def subs_ok_def pays_ok_def)

lemma billing_okI:
  assumes "distinct (map sn_id (bd_subs db))" "list_all (sub_row_ok db) (bd_subs db)"
    "distinct (map sn_user (filter is_active (bd_subs db)))" "distinct (map sn_user (filter is_waiting (bd_subs db)))"
    "distinct (map pm_id (bd_payments db))" "list_all (pay_row_ok db) (bd_payments db)"
  shows "billing_ok db"
  using assms by (simp add: billing_ok_def subs_ok_def pays_ok_def)

lemma ids_below:
  assumes "billing_ok db"
  shows "s \<in> set (bd_subs db) \<Longrightarrow> sn_id s < bd_next db" and "p \<in> set (bd_payments db) \<Longrightarrow> pm_id p < bd_next db"
  using billing_okD(2,6) [OF assms] by (auto simp: list_all_iff sub_row_ok_def pay_row_ok_def)

text \<open>Rows stay well formed when a table grows.\<close>

lemma sub_row_ok_mono:
  assumes "sub_row_ok db s" and "bd_plans db' = bd_plans db" and "bd_next db \<le> bd_next db'"
  shows "sub_row_ok db' s"
  using assms by (simp add: sub_row_ok_def plan_exists_def)

lemma pay_row_ok_mono:
  assumes "pay_row_ok db p" and "bd_plans db' = bd_plans db" and "bd_next db \<le> bd_next db'"
    and "\<And>s. s \<in> set (bd_subs db) \<Longrightarrow>
      \<exists>s' \<in> set (bd_subs db'). sn_id s' = sn_id s \<and> sn_user s' = sn_user s \<and> sn_plan s' = sn_plan s"
  shows "pay_row_ok db' p"
proof -
  obtain s where s: "s \<in> set (bd_subs db)" "pm_sub p = Some (sn_id s)" "sn_user s = pm_user p"
      "list_ex (\<lambda>t. pl_id t = sn_plan s \<and> pl_price t = pm_amount p) (bd_plans db)"
    using assms(1) by (auto simp: pay_row_ok_def priced_def list_ex_iff)
  obtain s' where "s' \<in> set (bd_subs db')" "sn_id s' = sn_id s" "sn_user s' = sn_user s" "sn_plan s' = sn_plan s"
    using assms(4) [OF s(1)] by blast
  then have "priced db' p" using s(2-4) assms(2) by (simp add: priced_def list_ex_iff) metis
  then show ?thesis using assms(1,3) by (simp add: pay_row_ok_def)
qed

text \<open>A new subscription.\<close>

lemma sub_create_ok:
  assumes "billing_ok db" and "sn_id s = bd_next db" and "sn_status s = SubPending"
    and "sub_Create down s (next_ids 1 db) = Some db'"
  shows "billing_ok db'"
proof -
  have db': "db' = (next_ids 1 db)\<lparr>bd_subs := bd_subs db @ [s]\<rparr>" and plan: "plan_exists (sn_plan s) (next_ids 1 db)"
    and clash: "\<not> sub_clash (sn_id s) (sn_user s) SubPending (next_ids 1 db)"
    using assms(3,4) by (auto simp: sub_Create_def split: if_splits)
  note ok = billing_okD [OF assms(1)]
  have fresh: "sn_id s \<notin> sn_id ` set (bd_subs db)"
    using ids_below(1) [OF assms(1)] assms(2) by fastforce
  have alone: "sn_user s \<notin> sn_user ` {r \<in> set (bd_subs db). is_waiting r}"
  proof
    assume "sn_user s \<in> sn_user ` {r \<in> set (bd_subs db). is_waiting r}"
    then obtain r where r: "r \<in> set (bd_subs db)" "is_waiting r" "sn_user r = sn_user s" by force
    then have "sn_id r \<noteq> sn_id s" using fresh by (metis imageI)
    then show False using clash r by (auto simp: sub_clash_def sub_open_def list_ex_iff is_waiting_def)
  qed
  have rows: "sub_row_ok db' r" if "r \<in> set (bd_subs db)" for r
    by (rule sub_row_ok_mono [of db]) (use that ok(2) in \<open>simp_all add: list_all_iff db'\<close>)
  have new: "sub_row_ok db' s" using assms(2,3) plan by (simp add: sub_row_ok_def plan_exists_def db')
  have pays: "pay_row_ok db' p" if "p \<in> set (bd_payments db)" for p
    by (rule pay_row_ok_mono [of db]) (use that ok(6) in \<open>auto simp: list_all_iff db'\<close>)
  show ?thesis
  proof (rule billing_okI)
    show "distinct (map sn_user (filter is_waiting (bd_subs db')))" using ok(4) alone by (simp add: db')
    show "distinct (map sn_user (filter is_active (bd_subs db')))" using ok(3) assms(3) by (simp add: db' is_active_def)
  qed (use ok fresh rows new pays in \<open>simp_all add: db' list_all_iff\<close>)
qed

text \<open>An update of a subscription.\<close>

lemma sub_update_ok:
  assumes "billing_ok db" and "sn_status s \<in> {SubActive, SubPending, SubCanceled}"
    and "sub_Update down s db = Inr db'"
  shows "billing_ok db'"
proof -
  let ?q = "\<lambda>r. sn_id r = sn_id s"
  obtain r0 where r0: "List.find ?q (bd_subs db) = Some r0"
    and db': "db' = db\<lparr>bd_subs := upd_where ?q (set_sub_columns s) (bd_subs db)\<rparr>"
    and clash: "\<not> sub_clash (sn_id s) (sn_user r0) (sn_status s) db"
    using assms(3) by (auto simp: sub_Update_def split: if_splits option.splits)
  note ok = billing_okD [OF assms(1)]
  have same: "r = r0" if "r \<in> set (bd_subs db)" "?q r" for r
    using distinct_key_eq [OF ok(1) that(1), of r0] find_Some_inD [OF r0] that(2) by simp
  have alone: "?q r'" if "sub_open (sn_status s)" "r \<in> set (bd_subs db)" "r' \<in> set (bd_subs db)" "?q r"
      "sn_status r' = sn_status s" "sn_user r' = sn_user r" for r r'
    using same [OF that(2,4)] clash that by (auto simp: sub_clash_def list_ex_iff)
  have act: "distinct (map sn_user (filter is_active (upd_where ?q (set_sub_columns s) (bd_subs db))))"
  proof (rule distinct_filter_upd [where key = sn_id and c = "sn_id s"])
    fix r r'
    assume "r \<in> set (bd_subs db)" "r' \<in> set (bd_subs db)" "?q r" "is_active (set_sub_columns s r)" "is_active r'"
      "sn_user r' = sn_user r"
    then show "?q r'" using alone [of r r'] by (simp add: is_active_def sub_open_def)
  qed (simp_all add: ok)
  have wait: "distinct (map sn_user (filter is_waiting (upd_where ?q (set_sub_columns s) (bd_subs db))))"
  proof (rule distinct_filter_upd [where key = sn_id and c = "sn_id s"])
    fix r r'
    assume "r \<in> set (bd_subs db)" "r' \<in> set (bd_subs db)" "?q r" "is_waiting (set_sub_columns s r)" "is_waiting r'"
      "sn_user r' = sn_user r"
    then show "?q r'" using alone [of r r'] by (simp add: is_waiting_def sub_open_def)
  qed (simp_all add: ok)
  have rows: "sub_row_ok db' r" if "r \<in> set (bd_subs db')" for r
    using that ok(2) assms(2) unfolding db'
    by (auto simp: list_all_iff sub_row_ok_def plan_exists_def elim!: in_upd_whereE)
  have kept: "\<exists>r' \<in> set (bd_subs db'). sn_id r' = sn_id r \<and> sn_user r' = sn_user r \<and> sn_plan r' = sn_plan r"
    if "r \<in> set (bd_subs db)" for r
    by (rule bexI [of _ "if ?q r then set_sub_columns s r else r"]) (use that in \<open>auto simp: db' upd_where_def\<close>)
  have pays: "pay_row_ok db' p" if "p \<in> set (bd_payments db)" for p
    by (rule pay_row_ok_mono [of db]) (use that ok(6) kept in \<open>simp_all add: list_all_iff db'\<close>)
  show ?thesis
    by (rule billing_okI) (use ok act wait rows pays in \<open>simp_all add: list_all_iff db'\<close>)
qed

text \<open>A new payment, an update of a payment.\<close>

lemma pay_update_ok:
  assumes "billing_ok db" and "pm_status p \<in> {PayPending, PaySuccess, PayFailed, PayRefunded}"
    and "pay_Update down p db = Inr db'"
  shows "billing_ok db'"
proof -
  have db': "db' = db\<lparr>bd_payments := upd_where (\<lambda>r. pm_id r = pm_id p) (set_pay_columns p) (bd_payments db)\<rparr>"
    using assms(3) by (auto simp: pay_Update_def split: if_splits)
  note ok = billing_okD [OF assms(1)]
  have pays: "pay_row_ok db' r" if "r \<in> set (bd_payments db')" for r
  proof -
    have "r \<in> set (upd_where (\<lambda>r. pm_id r = pm_id p) (set_pay_columns p) (bd_payments db))"
      using that by (simp add: db')
    then show ?thesis
    proof (cases rule: in_upd_whereE)
      case same
      then have "pay_row_ok db r" using ok(6) by (simp add: list_all_iff)
      then show ?thesis by (simp add: pay_row_ok_def priced_def db')
    next
      case (changed r0)
      then have "pay_row_ok db r0" using ok(6) by (simp add: list_all_iff)
      then show ?thesis using assms(2) changed(3) by (simp add: pay_row_ok_def priced_def db')
    qed
  qed
  have rows: "sub_row_ok db' s" if "s \<in> set (bd_subs db)" for s
    by (rule sub_row_ok_mono [of db]) (use that ok(2) in \<open>simp_all add: list_all_iff db'\<close>)
  show ?thesis
    by (rule billing_okI) (use ok rows pays in \<open>simp_all add: list_all_iff db'\<close>)
qed

lemma pay_create_ok:
  assumes "billing_ok db" and "s \<in> set (bd_subs db)" and "plan \<in> set (bd_plans db)" and "sn_plan s = pl_id plan"
    and "pay_Create down (NewPayment (bd_next db) now (sn_user s) (sn_id s) ''YOOKASSA'' ref (pl_price plan) ''RUB'')
      (next_ids 1 db) = Some db'"
  shows "billing_ok db'"
proof -
  let ?p = "NewPayment (bd_next db) now (sn_user s) (sn_id s) ''YOOKASSA'' ref (pl_price plan) ''RUB''"
  have db': "db' = (next_ids 1 db)\<lparr>bd_payments := bd_payments db @ [?p]\<rparr>"
    using assms(5) by (auto simp: pay_Create_def split: if_splits)
  note ok = billing_okD [OF assms(1)]
  have fresh: "bd_next db \<notin> pm_id ` set (bd_payments db)"
    using ids_below(2) [OF assms(1)] by fastforce
  have "priced db' ?p"
    unfolding priced_def list_ex_iff
    by (rule bexI [of _ s]) (use assms(2-4) in \<open>auto simp: db' NewPayment_def\<close>)
  then have new: "pay_row_ok db' ?p" by (simp add: pay_row_ok_def NewPayment_def db')
  have pays: "pay_row_ok db' r" if "r \<in> set (bd_payments db)" for r
    by (rule pay_row_ok_mono [of db]) (use that ok(6) in \<open>auto simp: list_all_iff db'\<close>)
  have rows: "sub_row_ok db' s" if "s \<in> set (bd_subs db)" for s
    by (rule sub_row_ok_mono [of db]) (use that ok(2) in \<open>simp_all add: list_all_iff db'\<close>)
  show ?thesis
    by (rule billing_okI) (use ok fresh rows pays new in \<open>simp_all add: list_all_iff db' NewPayment_def\<close>)
qed

text \<open>What a handler may have done to the tables.\<close>

lemma handlePaymentSuccess_cases:
  assumes "handlePaymentSuccess env p db = (e, db')"
  obtains (same) "db' = db"
  | (paid) "pm_status p \<noteq> PaySuccess" "pay_Update (be_down env) (p\<lparr>pm_status := PaySuccess\<rparr>) db = Inr db'"
  | (activated) db1 s where "pm_status p \<noteq> PaySuccess"
      "pay_Update (be_down env) (p\<lparr>pm_status := PaySuccess\<rparr>) db = Inr db1"
      "s \<in> set (bd_subs db1)" "pm_sub p = Some (sn_id s)"
      "sub_Update (be_down env) (s\<lparr>sn_status := SubActive\<rparr>) db1 = Inr db'"
  using assms
  by (auto simp: handlePaymentSuccess_def sub_GetByID_def split: if_splits sum.splits option.splits
      dest!: find_Some_inD)

lemma cancel_paid_cases:
  assumes "cancel_paid_subscription env now reason p db = (e, db')"
  obtains (same) "db' = db"
  | (canceled) s s' where "s \<in> set (bd_subs db)" "pm_sub p = Some (sn_id s)"
      "sub_Cancel now reason s = Inr s'" "sub_Update (be_down env) s' db = Inr db'"
  using assms
  by (auto simp: cancel_paid_subscription_def sub_GetByID_def split: if_splits sum.splits option.splits
      dest!: find_Some_inD)

definition checkout_sub :: "time \<Rightarrow> nat \<Rightarrow> tariff \<Rightarrow> string \<Rightarrow> billing_db \<Rightarrow> subscription" where
  "checkout_sub now u plan ref db =
     (NewSubscription (bd_next db) now u (pl_id plan) (days_duration (pl_days plan)))\<lparr>sn_payment := Some ref\<rparr>"

lemma checkout_sub_fields [simp]:
  "sn_id (checkout_sub now u plan ref db) = bd_next db" "sn_user (checkout_sub now u plan ref db) = u"
  "sn_plan (checkout_sub now u plan ref db) = pl_id plan" "sn_status (checkout_sub now u plan ref db) = SubPending"
  by (simp_all add: checkout_sub_def NewSubscription_def)

lemma store_checkout_cases:
  assumes "store_checkout env now u plan ref db = (e, db')"
  obtains (none) "db' = next_ids 1 db" "e \<noteq> None"
  | (subscribed) db2 where "sub_Create (be_down env) (checkout_sub now u plan ref db) (next_ids 1 db) = Some db2"
      "db' = next_ids 1 db2" "e \<noteq> None"
  | (complete) db2 where "sub_Create (be_down env) (checkout_sub now u plan ref db) (next_ids 1 db) = Some db2"
      "pay_Create (be_down env) (NewPayment (bd_next db2) now u (bd_next db) ''YOOKASSA'' ref (pl_price plan) ''RUB'')
         (next_ids 1 db2) = Some db'" "e = None"
proof (cases "sub_Create (be_down env) (checkout_sub now u plan ref db) (next_ids 1 db)")
  case None
  then show ?thesis using assms none by (auto simp: store_checkout_def checkout_sub_def [symmetric] Let_def)
next
  case (Some db2)
  show ?thesis
  proof (cases "pay_Create (be_down env) (NewPayment (bd_next db2) now u (bd_next db) ''YOOKASSA'' ref
      (pl_price plan) ''RUB'') (next_ids 1 db2)")
    case None
    then show ?thesis using assms Some subscribed
      by (auto simp: store_checkout_def checkout_sub_def [symmetric] Let_def)
  next
    case paid: (Some db4)
    then show ?thesis using assms Some complete
      by (simp add: store_checkout_def checkout_sub_def [symmetric] Let_def)
  qed
qed

lemma sub_Create_rows:
  assumes "sub_Create down s (next_ids 1 db) = Some db'"
  shows "db' = (next_ids 1 db)\<lparr>bd_subs := bd_subs db @ [s]\<rparr>"
  using assms by (auto simp: sub_Create_def split: if_splits)

lemma checkout_ok:
  assumes "billing_ok db" and "plan \<in> set (bd_plans db)" and "store_checkout env now u plan ref db = (e, db')"
  shows "billing_ok db'"
  using assms(3)
proof (cases rule: store_checkout_cases)
  case none
  then show ?thesis using billing_ok_ids assms(1) by simp
next
  case (subscribed db2)
  then have "billing_ok db2" using sub_create_ok [OF assms(1) _ _ subscribed(1)] by simp
  then show ?thesis using subscribed(2) billing_ok_ids by simp
next
  case (complete db2)
  let ?s = "checkout_sub now u plan ref db"
  have ok: "billing_ok db2" using sub_create_ok [OF assms(1) _ _ complete(1)] by simp
  have s: "?s \<in> set (bd_subs db2)" "plan \<in> set (bd_plans db2)"
    using sub_Create_rows [OF complete(1)] assms(2) by simp_all
  show ?thesis using pay_create_ok [OF ok s, of "be_down env" now ref db'] complete(2) by simp
qed

interpretation tables: billing_invariant billing_ok inner revs can for inner revs can
proof (unfold_locales, goal_cases)
  case (1 db n)
  then show ?case by (rule billing_ok_ids)
next
  case (2 db s down db')
  then show ?case by (rule sub_create_ok)
next
  case (3 db plan env now u ref e db')
  then show ?case by (rule checkout_ok)
next
  case (4 db s now r s' down db')
  then show ?case using sub_update_ok sub_Cancel_fields(4) by blast
next
  case (5 db s now d s' down db')
  then show ?case using sub_update_ok sub_Renew_fields(4) by blast
next
  case (6 db p env e db')
  show ?case using 6(3)
  proof (cases rule: handlePaymentSuccess_cases)
    case same
    then show ?thesis using 6(1) by simp
  next
    case paid
    then show ?thesis using pay_update_ok [OF 6(1) _ paid(2)] by simp
  next
    case (activated db1 s)
    have "billing_ok db1" using pay_update_ok [OF 6(1) _ activated(2)] by simp
    then show ?thesis using sub_update_ok [OF _ _ activated(5)] by simp
  qed
next
  case (7 db p x down db1 env now r e db')
  have "billing_ok db1" using pay_update_ok [OF 7(1) _ 7(5)] 7(4) by auto
  then show ?case using 7(6) by (elim cancel_paid_cases) (auto dest: sub_Cancel_fields(4) sub_update_ok)
next
  case (8 db p now p' down db')
  then show ?case using pay_update_ok pay_Refund_fields(2) by blast
qed

section \<open>One subscription\<close>

text \<open>The subscription \<open>i\<close> is of the user \<open>u\<close> and has the status \<open>x\<close>.\<close>

definition has_sub :: "nat \<Rightarrow> nat \<Rightarrow> sub_status \<Rightarrow> billing_db \<Rightarrow> bool" where
  "has_sub i u x db \<longleftrightarrow> list_ex (\<lambda>s. sn_id s = i \<and> sn_user s = u \<and> sn_status s = x) (bd_subs db)"

definition pays_for :: "nat \<Rightarrow> billing_db \<Rightarrow> bill_payment list" where
  "pays_for i db = filter (\<lambda>p. pm_sub p = Some i) (bd_payments db)"

lemma has_sub_ids [simp]: "has_sub i u x (next_ids n db) = has_sub i u x db"
  by (simp add: has_sub_def)

lemma pays_for_ids [simp]: "pays_for i (next_ids n db) = pays_for i db"
  by (simp add: pays_for_def)

lemma has_sub_known: "has_sub i u x db \<Longrightarrow> billing_ok db \<Longrightarrow> i < bd_next db"
  using ids_below(1) by (fastforce simp: has_sub_def list_ex_iff)

lemma has_sub_create:
  "has_sub i u x db \<Longrightarrow> sub_Create down s (next_ids 1 db) = Some db' \<Longrightarrow> has_sub i u x db'"
  by (drule sub_Create_rows) (simp add: has_sub_def)

lemma pays_for_create: "sub_Create down s (next_ids 1 db) = Some db' \<Longrightarrow> pays_for i db' = pays_for i db"
  by (drule sub_Create_rows) (simp add: pays_for_def)

lemma has_sub_the:
  assumes "billing_ok db" and "has_sub i u x db" and "s \<in> set (bd_subs db)" and "sn_id s = i"
  shows "sn_user s = u" and "sn_status s = x"
proof -
  obtain s' where s': "s' \<in> set (bd_subs db)" "sn_id s' = i" "sn_user s' = u" "sn_status s' = x"
    using assms(2) by (auto simp: has_sub_def list_ex_iff)
  then have "s = s'" using distinct_key_eq [OF billing_okD(1) [OF assms(1)]] assms(3,4) by simp
  then show "sn_user s = u" "sn_status s = x" using s' by simp_all
qed

lemma has_sub_update:
  assumes "has_sub i u x db" and "sub_Update down s db = Inr db'" and "sn_id s = i \<Longrightarrow> sn_status s = x"
  shows "has_sub i u x db'"
proof -
  have db': "db' = db\<lparr>bd_subs := upd_where (\<lambda>r. sn_id r = sn_id s) (set_sub_columns s) (bd_subs db)\<rparr>"
    using assms(2) by (auto simp: sub_Update_def split: if_splits option.splits)
  obtain r where r: "r \<in> set (bd_subs db)" "sn_id r = i" "sn_user r = u" "sn_status r = x"
    using assms(1) by (auto simp: has_sub_def list_ex_iff)
  let ?r = "if sn_id r = sn_id s then set_sub_columns s r else r"
  have "?r \<in> set (bd_subs db')" using r(1) by (auto simp: db' upd_where_def)
  moreover have "sn_id ?r = i" "sn_user ?r = u" "sn_status ?r = x" using r assms(3) by auto
  ultimately show "has_sub i u x db'" unfolding has_sub_def list_ex_iff by blast
qed

lemma pays_for_sub_update: "sub_Update down s db = Inr db' \<Longrightarrow> pays_for i db' = pays_for i db"
  using sub_Update_frame(2) [of down s db db'] by (simp add: pays_for_def)

lemma has_sub_pay_update: "pay_Update down p db = Inr db' \<Longrightarrow> has_sub i u x db' = has_sub i u x db"
  using pay_Update_frame(2) [of down p db db'] by (simp add: has_sub_def)

text \<open>The update of a payment for another subscription.\<close>

lemma pays_for_other:
  assumes "billing_ok db" and "p \<in> set (bd_payments db)" and "pm_sub p \<noteq> Some i" and "pm_id p' = pm_id p"
    and "pay_Update down p' db = Inr db'"
  shows "pays_for i db' = pays_for i db"
proof -
  have db': "db' = db\<lparr>bd_payments := upd_where (\<lambda>r. pm_id r = pm_id p) (set_pay_columns p') (bd_payments db)\<rparr>"
    using assms(4,5) by (auto simp: pay_Update_def split: if_splits)
  have "pm_sub r \<noteq> Some i" if "r \<in> set (bd_payments db)" "pm_id r = pm_id p" for r
    using distinct_key_eq [OF billing_okD(5) [OF assms(1)] that(1) assms(2) that(2)] assms(3) by simp
  then have "filter (\<lambda>q. pm_sub q = Some i) (upd_where (\<lambda>r. pm_id r = pm_id p) (set_pay_columns p') rs)
      = filter (\<lambda>q. pm_sub q = Some i) rs" if "set rs \<subseteq> set (bd_payments db)" for rs
    using that by (induction rs) (auto simp: upd_where_Cons)
  then show ?thesis by (simp add: pays_for_def db')
qed

text \<open>A checkout leaves the other subscriptions and their payments alone.\<close>

lemma checkout_other:
  assumes "billing_ok db" and "has_sub i u x db" and "store_checkout env now v plan ref db = (e, db')"
  shows "has_sub i u x db'" and "pays_for i db' = pays_for i db"
proof -
  have i: "i \<noteq> bd_next db" using has_sub_known [OF assms(2,1)] by simp
  show "has_sub i u x db'" "pays_for i db' = pays_for i db"
    using assms(3)
    by (cases rule: store_checkout_cases, use has_sub_create [OF assms(2)] pays_for_create assms(2) i in
      \<open>auto simp: pay_Create_def NewPayment_def pays_for_def has_sub_def split: if_splits\<close>)+
qed

end
