(* ===== verification/BillingSafety.thy ===== *)
theory BillingSafety
  imports BillingInvariants
begin

text \<open>
  What becomes of one subscription in any history of the billing service: an active one that nobody
  ends, a paid one that the payment's event did not activate, and one that was never paid.
\<close>

section \<open>An active subscription\<close>

definition held :: "nat \<Rightarrow> nat \<Rightarrow> string \<Rightarrow> billing_db \<Rightarrow> bool" where
  "held i u r db \<longleftrightarrow> billing_ok db \<and> has_sub i u SubActive db \<and>
     list_all (\<lambda>p. pm_ref p = r) (pays_for i db)"

definition stuck :: "nat \<Rightarrow> nat \<Rightarrow> string \<Rightarrow> billing_db \<Rightarrow> bool" where
  "stuck i u r db \<longleftrightarrow> billing_ok db \<and> has_sub i u SubPending db \<and>
     list_all (\<lambda>p. pm_ref p = r \<and> pm_status p = PaySuccess) (pays_for i db)"

lemma in_pays_for: "p \<in> set (bd_payments db) \<Longrightarrow> pm_sub p = Some i \<Longrightarrow> p \<in> set (pays_for i db)"
  by (simp add: pays_for_def)

text \<open>An update of a payment's status keeps the references.\<close>

lemma pays_for_refs:
  assumes "list_all (\<lambda>p. pm_ref p = r) (pays_for i db)" and "pay_Update down p db = Inr db'"
  shows "list_all (\<lambda>p. pm_ref p = r) (pays_for i db')"
proof -
  have db': "db' = db\<lparr>bd_payments := upd_where (\<lambda>r. pm_id r = pm_id p) (set_pay_columns p) (bd_payments db)\<rparr>"
    using assms(2) by (auto simp: pay_Update_def split: if_splits)
  show ?thesis using assms(1)
    unfolding db' pays_for_def list_all_iff by (auto simp: upd_where_def split: if_splits)
qed

lemma held_pay:
  assumes "held i u r db" and "pay_Update down (p\<lparr>pm_status := x\<rparr>) db = Inr db'"
    and "x \<in> {PaySuccess, PayFailed, PayRefunded}"
  shows "held i u r db'"
  using assms pay_update_ok [OF _ _ assms(2)] pays_for_refs [OF _ assms(2)] has_sub_pay_update [OF assms(2)]
  by (auto simp: held_def)

lemma held_sub:
  assumes "held i u r db" and "sub_Update down s db = Inr db'" and "sn_id s = i \<Longrightarrow> sn_status s = SubActive"
    and "sn_status s \<in> {SubActive, SubPending, SubCanceled}"
  shows "held i u r db'"
  using assms sub_update_ok [OF _ assms(4,2)] has_sub_update [OF _ assms(2,3)] pays_for_sub_update [OF assms(2)]
  by (simp add: held_def)

interpretation held: billing_invariant "held i u r" inner "\<lambda>x. x \<noteq> r" "\<lambda>v. v \<noteq> u" for i u r inner
proof (unfold_locales, goal_cases)
  case (1 db n)
  then show ?case by (auto simp: held_def billing_ok_ids)
next
  case (2 db s down db')
  then show ?case using sub_create_ok [OF _ 2(2-4)] has_sub_create [OF _ 2(4)] pays_for_create [OF 2(4)]
    by (auto simp: held_def)
next
  case (3 db plan env now v ref e db')
  then show ?case using checkout_ok [OF _ 3(2,3)] checkout_other [OF _ _ 3(3)] by (auto simp: held_def)
next
  case (4 db s now rs s' down db')
  have "sn_id s \<noteq> i" using 4(1,2,4) has_sub_the(1) by (auto simp: held_def)
  then show ?case using held_sub [OF 4(1,6)] sub_Cancel_fields [OF 4(5)] by simp
next
  case (5 db s now d s' down db')
  then show ?case using held_sub [OF 5(2,5)] sub_Renew_fields [OF 5(4)] by simp
next
  case (6 db p env e db')
  show ?case using 6(3)
  proof (cases rule: handlePaymentSuccess_cases)
    case same
    then show ?thesis using 6(1) by simp
  next
    case paid
    then show ?thesis using held_pay [OF 6(1)] by blast
  next
    case (activated db1 s)
    then have "held i u r db1" using held_pay [OF 6(1)] by blast
    then show ?thesis using held_sub [OF _ activated(5)] by simp
  qed
next
  case (7 db p x down db1 env now rs e db')
  have h: "held i u r db1" using held_pay [OF 7(1,5)] 7(4) by auto
  have other: "pm_sub p \<noteq> Some i"
    using 7(1-3) in_pays_for by (fastforce simp: held_def list_all_iff)
  show ?case using 7(6)
  proof (cases rule: cancel_paid_cases)
    case same
    then show ?thesis using h by simp
  next
    case (canceled s s')
    then show ?thesis using held_sub [OF h canceled(4)] other sub_Cancel_fields [OF canceled(3)] by auto
  qed
next
  case (8 db p now p' down db')
  then have p': "p' = p\<lparr>pm_status := PayRefunded, pm_updated := now\<rparr>"
    by (auto simp: pay_Refund_def split: if_splits)
  show ?case
    using 8(2) pay_update_ok [OF _ _ 8(5)] pays_for_refs [OF _ 8(5)] has_sub_pay_update [OF 8(5)]
    by (auto simp: held_def p')
qed

section \<open>A paid subscription that was not activated\<close>

lemma stuck_sub:
  assumes "stuck i u r db" and "sub_Update down s db = Inr db'" and "sn_id s \<noteq> i"
    and "sn_status s \<in> {SubActive, SubPending, SubCanceled}"
  shows "stuck i u r db'"
  using assms sub_update_ok [OF _ assms(4,2)] has_sub_update [OF _ assms(2)] pays_for_sub_update [OF assms(2)]
  by (simp add: stuck_def)

lemma stuck_pay:
  assumes "stuck i u r db" and "p \<in> set (bd_payments db)" and "pm_sub p \<noteq> Some i"
    and "pay_Update down (p\<lparr>pm_status := x\<rparr>) db = Inr db'" and "x \<in> {PaySuccess, PayFailed, PayRefunded}"
  shows "stuck i u r db'"
  using assms pay_update_ok [OF _ _ assms(4)] pays_for_other [OF _ assms(2,3) _ assms(4)]
    has_sub_pay_update [OF assms(4)]
  by (auto simp: stuck_def)

interpretation stuck: billing_invariant "stuck i u r" False "\<lambda>x. x \<noteq> r" can for i u r can
proof (unfold_locales, goal_cases)
  case (1 db n)
  then show ?case by (auto simp: stuck_def billing_ok_ids)
next
  case (2 db s down db')
  then show ?case using sub_create_ok [OF _ 2(2-4)] has_sub_create [OF _ 2(4)] pays_for_create [OF 2(4)]
    by (auto simp: stuck_def)
next
  case (3 db plan env now v ref e db')
  then show ?case using checkout_ok [OF _ 3(2,3)] checkout_other [OF _ _ 3(3)] by (auto simp: stuck_def)
next
  case (4 db s now rs s' down db')
  have "sn_id s \<noteq> i" using 4(1-3) has_sub_the(2) by (auto simp: stuck_def)
  then show ?case using stuck_sub [OF 4(1,6)] sub_Cancel_fields [OF 4(5)] by simp
next
  case (6 db p env e db')
  have other: "pm_status p \<noteq> PaySuccess \<Longrightarrow> pm_sub p \<noteq> Some i"
    using 6(1,2) in_pays_for by (fastforce simp: stuck_def list_all_iff)
  show ?case using 6(3)
  proof (cases rule: handlePaymentSuccess_cases)
    case same
    then show ?thesis using 6(1) by simp
  next
    case paid
    then show ?thesis using stuck_pay [OF 6(1,2) other paid(2)] by simp
  next
    case (activated db1 s)
    have "stuck i u r db1" using stuck_pay [OF 6(1,2) other activated(2)] activated(1) by simp
    then show ?thesis using stuck_sub [OF _ activated(5)] other activated(1,4) by auto
  qed
next
  case (7 db p x down db1 env now rs e db')
  have other: "pm_sub p \<noteq> Some i"
    using 7(1-3) in_pays_for by (fastforce simp: stuck_def list_all_iff)
  have h: "stuck i u r db1" using stuck_pay [OF 7(1,2) other 7(5)] 7(4) by auto
  show ?case using 7(6)
  proof (cases rule: cancel_paid_cases)
    case same
    then show ?thesis using h by simp
  next
    case (canceled s s')
    then show ?thesis using stuck_sub [OF h canceled(4)] other sub_Cancel_fields [OF canceled(3)] by auto
  qed
qed simp_all

section \<open>Active means paid for\<close>

definition paid_for :: "billing_db \<Rightarrow> subscription \<Rightarrow> bool" where
  "paid_for db s \<longleftrightarrow> list_ex (\<lambda>p. pm_status p \<noteq> PayPending) (pays_for (sn_id s) db)"

definition actives_paid :: "billing_db \<Rightarrow> bool" where
  "actives_paid db \<longleftrightarrow> list_all (\<lambda>s. is_active s \<longrightarrow> paid_for db s) (bd_subs db)"

lemma paid_for_pay:
  assumes "paid_for db s" and "pay_Update down p db = Inr db'" and "pm_status p \<noteq> PayPending"
  shows "paid_for db' s"
proof -
  have db': "db' = db\<lparr>bd_payments := upd_where (\<lambda>r. pm_id r = pm_id p) (set_pay_columns p) (bd_payments db)\<rparr>"
    using assms(2) by (auto simp: pay_Update_def split: if_splits)
  obtain q where q: "q \<in> set (bd_payments db)" "pm_sub q = Some (sn_id s)" "pm_status q \<noteq> PayPending"
    using assms(1) by (auto simp: paid_for_def pays_for_def list_ex_iff)
  let ?q = "if pm_id q = pm_id p then set_pay_columns p q else q"
  have "?q \<in> set (bd_payments db')" using q(1) by (auto simp: db' upd_where_def)
  moreover have "pm_sub ?q = Some (sn_id s)" "pm_status ?q \<noteq> PayPending" using q(2,3) assms(3) by auto
  ultimately show ?thesis unfolding paid_for_def pays_for_def list_ex_iff by auto
qed

lemma actives_paid_pay:
  assumes "actives_paid db" and "pay_Update down p db = Inr db'" and "pm_status p \<noteq> PayPending"
  shows "actives_paid db'"
  using assms(1) paid_for_pay [OF _ assms(2,3)] pay_Update_frame(2) [OF assms(2)]
  by (simp add: actives_paid_def list_all_iff)

lemma actives_paid_sub:
  assumes "actives_paid db" and "sub_Update down s db = Inr db'" and "sn_status s = SubActive \<Longrightarrow> paid_for db s"
  shows "actives_paid db'"
proof -
  have db': "db' = db\<lparr>bd_subs := upd_where (\<lambda>r. sn_id r = sn_id s) (set_sub_columns s) (bd_subs db)\<rparr>"
    using assms(2) by (auto simp: sub_Update_def split: if_splits option.splits)
  have "paid_for db' r" if "r \<in> set (bd_subs db')" "is_active r" for r
  proof -
    have "r \<in> set (upd_where (\<lambda>r. sn_id r = sn_id s) (set_sub_columns s) (bd_subs db))"
      using that(1) by (simp add: db')
    then have "paid_for db r"
    proof (cases rule: in_upd_whereE)
      case same
      then show ?thesis using assms(1) that(2) by (simp add: actives_paid_def list_all_iff)
    next
      case (changed r0)
      then show ?thesis using assms(3) that(2) by (simp add: is_active_def paid_for_def)
    qed
    then show ?thesis by (simp add: paid_for_def pays_for_def db')
  qed
  then show ?thesis by (simp add: actives_paid_def list_all_iff)
qed

text \<open>Only the event of a payment activates.\<close>

lemma paid_for_success:
  assumes "pay_Update down (p\<lparr>pm_status := PaySuccess\<rparr>) db = Inr db1" and "p \<in> set (bd_payments db)"
    and "pm_sub p = Some (sn_id s)"
  shows "paid_for db1 s"
proof -
  have db1: "db1 = db\<lparr>bd_payments := upd_where (\<lambda>r. pm_id r = pm_id p)
      (set_pay_columns (p\<lparr>pm_status := PaySuccess\<rparr>)) (bd_payments db)\<rparr>"
    using assms(1) by (auto simp: pay_Update_def split: if_splits)
  have "set_pay_columns (p\<lparr>pm_status := PaySuccess\<rparr>) p \<in> set (bd_payments db1)"
    using assms(2) by (auto simp: db1 upd_where_def)
  then show ?thesis using assms(3) unfolding paid_for_def pays_for_def list_ex_iff
    by (intro bexI [of _ "set_pay_columns (p\<lparr>pm_status := PaySuccess\<rparr>) p"]) auto
qed

lemma actives_paid_create:
  assumes "actives_paid db" and "sn_status s = SubPending" and "sub_Create down s (next_ids 1 db) = Some db'"
  shows "actives_paid db'"
  using assms(1,2)
  by (simp add: sub_Create_rows [OF assms(3)] actives_paid_def is_active_def paid_for_def pays_for_def cong: list.pred_cong)

interpretation actives: billing_invariant actives_paid False revs can for revs can
proof (unfold_locales, goal_cases)
  case (1 db n)
  then show ?case by (simp add: actives_paid_def paid_for_def cong: list.pred_cong)
next
  case (2 db s down db')
  then show ?case using actives_paid_create by blast
next
  case (3 db plan env now v ref e db')
  show ?case using 3(3)
  proof (cases rule: store_checkout_cases)
    case none
    then show ?thesis using 3(1) by (simp add: actives_paid_def paid_for_def cong: list.pred_cong)
  next
    case (subscribed db2)
    then have "actives_paid db2" using actives_paid_create [OF 3(1) _ subscribed(1)] by simp
    then show ?thesis using subscribed(2) by (simp add: actives_paid_def paid_for_def cong: list.pred_cong)
  next
    case (complete db2)
    then have "actives_paid db2" using actives_paid_create [OF 3(1) _ complete(1)] by simp
    then show ?thesis using complete(2)
      by (auto simp: pay_Create_def actives_paid_def paid_for_def pays_for_def list_all_iff split: if_splits)
  qed
next
  case (4 db s now rs s' down db')
  then show ?case using actives_paid_sub [OF 4(1,6)] sub_Cancel_fields(4) [OF 4(5)] by simp
next
  case (6 db p env e db')
  show ?case using 6(3)
  proof (cases rule: handlePaymentSuccess_cases)
    case same
    then show ?thesis using 6(1) by simp
  next
    case paid
    then show ?thesis using actives_paid_pay [OF 6(1) paid(2)] by simp
  next
    case (activated db1 s)
    have "actives_paid db1" using actives_paid_pay [OF 6(1) activated(2)] by simp
    then show ?thesis using actives_paid_sub [OF _ activated(5)] paid_for_success [OF activated(2) 6(2) activated(4)]
      by (simp add: paid_for_def)
  qed
next
  case (7 db p x down db1 env now rs e db')
  have h: "actives_paid db1" using actives_paid_pay [OF 7(1,5)] 7(4) by auto
  show ?case using 7(6)
  proof (cases rule: cancel_paid_cases)
    case same
    then show ?thesis using h by simp
  next
    case (canceled s s')
    then show ?thesis using actives_paid_sub [OF h canceled(4)] sub_Cancel_fields(4) [OF canceled(3)] by simp
  qed
qed simp_all

end
