(* ===== verification/BillingOutcomes.thy ===== *)
theory BillingOutcomes
  imports BillingSafety
begin

text \<open>
  What the billing service does with subscriptions and payments: the properties of its operations and
  of its histories, with their witnesses.
\<close>

section \<open>A small billing service\<close>

definition demo_plans :: "tariff list" where
  "demo_plans =
     [\<lparr>pl_id = ''TIER_STARTER'', pl_name = ''Starter'', pl_description = [], pl_price = 29900, pl_days = 30,
       pl_monitors = 25, pl_interval = 60, pl_alerts = 100, pl_features = [], pl_active = True,
       pl_created = 0, pl_updated = 0\<rparr>,
      \<lparr>pl_id = ''TIER_BUSINESS'', pl_name = ''Business'', pl_description = [], pl_price = 299900, pl_days = 30,
       pl_monitors = - 1, pl_interval = 10, pl_alerts = - 1, pl_features = [], pl_active = True,
       pl_created = 0, pl_updated = 0\<rparr>]"

definition start_billing :: "tariff list \<Rightarrow> billing_state" where
  "start_billing plans = \<lparr>bi_db = \<lparr>bd_plans = plans, bd_subs = [], bd_payments = [], bd_next = 1\<rparr>,
     bi_events = [], bi_calls = []\<rparr>"

text \<open>A provider that accepts everything: its payment is called \<open>ref\<close>, its event is \<open>kind\<close>.\<close>

definition demo_provider :: "string \<Rightarrow> string \<Rightarrow> pay_provider" where
  "demo_provider kind ref =
     \<lparr>pp_create = (\<lambda>q. Inr \<lparr>pr_ref = ref, pr_checkout = pq_url q, pr_status = ''pending'',
        pr_amount = pq_amount q, pr_currency = pq_currency q\<rparr>),
      pp_get = (\<lambda>_. Inl ''none''),
      pp_refund = (\<lambda>i. Inr \<lparr>rf_ref = ''r'', rf_status = ''succeeded'', rf_amount = 0\<rparr>),
      pp_verify = (\<lambda>_ _. True),
      pp_parse = (\<lambda>_. Inr \<lparr>we_type = kind, we_payment = ref, we_status = [], we_meta = []\<rparr>)\<rparr>"

text \<open>The texts \<open>1\<close> to \<open>9\<close> are UUIDs.\<close>

definition demo_uuid :: "string \<Rightarrow> nat option" where
  "demo_uuid s = (case s of [c] \<Rightarrow> if c \<in> {CHR ''1'', CHR ''2'', CHR ''3'', CHR ''7''}
     then Some (of_char c - 48) else None | _ \<Rightarrow> None)"

definition demo_billing :: "string \<Rightarrow> string \<Rightarrow> billing_env" where
  "demo_billing kind ref =
     \<lparr>be_down = (\<lambda>_. False), be_yookassa = Some (demo_provider kind ref), be_stripe = None,
      be_publisher = True, be_parse = demo_uuid, be_column = demo_uuid, be_marshal = (\<lambda>_. []),
      be_date = (\<lambda>_. [])\<rparr>"

abbreviation pay_ok :: "string \<Rightarrow> billing_env \<times> billing_op" where
  "pay_ok ref \<equiv> (demo_billing ''payment.succeeded'' ref, DoProviderHook 5 ''YOOKASSA'' [] [])"

abbreviation checkout7 :: "string \<Rightarrow> string \<Rightarrow> billing_env \<times> billing_op" where
  "checkout7 plan ref \<equiv> (demo_billing ''payment.succeeded'' ref, DoCheckout 1 ''7'' plan [])"

text \<open>The user 7 has the starter plan (subscription 1) and has checked out the business plan (3).\<close>

definition demo_sub :: "nat \<Rightarrow> string \<Rightarrow> sub_status \<Rightarrow> string \<Rightarrow> subscription" where
  "demo_sub i plan x ref = \<lparr>sn_id = i, sn_user = 7, sn_plan = plan, sn_status = x, sn_started = 1,
     sn_expires = 2592000000000001, sn_canceled = None, sn_renew = True, sn_payment = Some ref, sn_meta = [],
     sn_created = 1, sn_updated = 1\<rparr>"

definition demo_pay :: "nat \<Rightarrow> nat \<Rightarrow> string \<Rightarrow> int \<Rightarrow> pay_status \<Rightarrow> bill_payment" where
  "demo_pay i s ref price x = \<lparr>pm_id = i, pm_user = 7, pm_sub = Some s, pm_provider = ''YOOKASSA'', pm_ref = ref,
     pm_status = x, pm_amount = price, pm_currency = ''RUB'', pm_meta = [], pm_created = 1, pm_updated = 1\<rparr>"

definition upgrading :: billing_state where
  "upgrading = \<lparr>bi_db = \<lparr>bd_plans = demo_plans,
     bd_subs = [demo_sub 1 ''TIER_STARTER'' SubActive ''a'', demo_sub 3 ''TIER_BUSINESS'' SubPending ''b''],
     bd_payments = [demo_pay 2 1 ''a'' 29900 PaySuccess, demo_pay 4 3 ''b'' 299900 PayPending], bd_next = 5\<rparr>,
     bi_events = [], bi_calls = []\<rparr>"

lemma upgrading_reached:
  "bi_db (run_bills [checkout7 ''TIER_STARTER'' ''a'', pay_ok ''a'', checkout7 ''TIER_BUSINESS'' ''b'']
     (start_billing demo_plans)) = bi_db upgrading"
  by code_simp

section \<open>The tables\<close>

text \<open>
  Property C12. From empty tables, whatever operations run and whatever statements fail or providers
  answer: identifiers are unique; a user has at most one active and one pending subscription; a
  subscription has a plan of the catalogue and is active, pending or canceled, so never expired; every
  payment is in roubles through Yookassa, for a subscription of its user, at the price of its plan.
\<close>

theorem billing_tables_kept:
  "billing_ok (bi_db (run_bills ops (start_billing plans)))"
proof -
  have "billing_ok (bi_db (start_billing plans))" by (simp add: start_billing_def billing_ok_empty)
  moreover have "list_all (\<lambda>(env, op). admitted True (\<lambda>_. True) (\<lambda>_. True) env op) ops"
  proof (induction ops)
    case (Cons a ops)
    then show ?case by (cases a; cases "snd a") (auto split: option.splits)
  qed simp
  ultimately show ?thesis using tables.run_bills_keep by blast
qed

text \<open>
  Through the gRPC interface (nobody renews or refunds by the inner operations) every active
  subscription was paid for: it has a payment, at the price of its plan, whose outcome a provider has
  reported.
\<close>

theorem actives_were_paid:
  assumes "list_all (\<lambda>(env, op). admitted False (\<lambda>_. True) (\<lambda>_. True) env op) ops"
    and "s \<in> set (bd_subs (bi_db (run_bills ops (start_billing plans))))" and "sn_status s = SubActive"
  shows "\<exists>p \<in> set (bd_payments (bi_db (run_bills ops (start_billing plans)))).
    pm_sub p = Some (sn_id s) \<and> pm_status p \<noteq> PayPending \<and>
    list_ex (\<lambda>t. pl_id t = sn_plan s \<and> pl_price t = pm_amount p) (bd_plans (bi_db (run_bills ops (start_billing plans))))"
proof -
  let ?db = "bi_db (run_bills ops (start_billing plans))"
  have start: "billing_ok (bi_db (start_billing plans))" "actives_paid (bi_db (start_billing plans))"
    by (simp_all add: start_billing_def billing_ok_empty actives_paid_def)
  have ok: "billing_ok ?db" using tables.run_bills_keep [OF assms(1) start(1)] .
  have "actives_paid ?db" using actives.run_bills_keep [OF assms(1) start(2)] .
  then obtain p where p: "p \<in> set (bd_payments ?db)" "pm_sub p = Some (sn_id s)" "pm_status p \<noteq> PayPending"
    using assms(2,3) by (auto simp: actives_paid_def list_all_iff is_active_def paid_for_def pays_for_def list_ex_iff)
  then have "priced ?db p" using billing_okD(6) [OF ok] by (simp add: list_all_iff pay_row_ok_def)
  then obtain s' where s': "s' \<in> set (bd_subs ?db)" "sn_id s' = sn_id s"
      "list_ex (\<lambda>t. pl_id t = sn_plan s' \<and> pl_price t = pm_amount p) (bd_plans ?db)"
    using p(2) by (force simp: priced_def list_ex_iff)
  then have "s' = s" using distinct_key_eq [OF billing_okD(1) [OF ok]] assms(2) by simp
  then show ?thesis using p s'(3) by blast
qed

section \<open>Events of the providers\<close>

text \<open>The webhook is signed and delivers the event \<open>e\<close>.\<close>

definition hook_accepted ::
    "billing_env \<Rightarrow> string \<Rightarrow> (string \<times> string) list \<Rightarrow> string \<Rightarrow> wh_event \<Rightarrow> bool" where
  "hook_accepted env provider payload sig e \<longleftrightarrow> hook_event env provider payload = Some e \<and>
     (case provider_name provider of
        None \<Rightarrow> False
      | Some name \<Rightarrow> (case provider_of env name of None \<Rightarrow> False | Some pp \<Rightarrow> pp_verify pp (be_marshal env payload) sig))"

lemma ProcessWebhook_accepted:
  assumes "hook_accepted env provider payload sig e"
  shows "ProcessWebhook env now provider payload sig st =
    (case pay_GetByProviderPaymentID (be_down env) (we_payment e) (bi_db st) of
       None \<Rightarrow> (Some (NotFoundErr ''payment'' (we_payment e)), st)
     | Some p \<Rightarrow> (case handle_event env now (we_type e) p (bi_db st) of (err, db) \<Rightarrow> (err, set_bdb db st)))"
  using assms
  by (auto simp: hook_accepted_def hook_event_def ProcessWebhook_def Let_def split: option.splits sum.splits)

text \<open>The event of a payment that is marked, while the subscription is not activated.\<close>

lemma not_activated_stuck:
  assumes "billing_ok db" and "has_sub i u SubPending db" and "pays_for i db = [p]" and "p \<in> set (bd_payments db)"
    and "pm_status p \<noteq> PaySuccess" and "\<not> be_down env PayUpdateCall"
    and "be_down env SubGet \<or> be_down env SubUpdateCall \<or> has_sub j u SubActive db"
  shows "fst (handlePaymentSuccess env p db) \<noteq> None \<and> stuck i u (pm_ref p) (snd (handlePaymentSuccess env p db))"
proof -
  let ?p = "p\<lparr>pm_status := PaySuccess\<rparr>"
  have "p \<in> set (pays_for i db)" using assms(3) by simp
  then have sub: "pm_sub p = Some i" by (simp add: pays_for_def)
  let ?db1 = "db\<lparr>bd_payments := upd_where (\<lambda>r. pm_id r = pm_id p) (set_pay_columns ?p) (bd_payments db)\<rparr>"
  obtain db1 where db1: "db1 = ?db1" by simp
  have up: "pay_Update (be_down env) ?p db = Inr db1"
    using assms(4,6) by (auto simp: pay_Update_def list_ex_iff db1)
  have ok: "billing_ok db1" using pay_update_ok [OF assms(1) _ up] by simp
  have only: "r = p" if "r \<in> set (bd_payments db)" "pm_sub r = Some i" for r
  proof -
    have "r \<in> set (pays_for i db)" using that by (rule in_pays_for)
    then show ?thesis using assms(3) by simp
  qed
  have "list_all (\<lambda>q. pm_ref q = pm_ref p \<and> pm_status q = PaySuccess) (pays_for i db1)"
    using only unfolding list_all_iff pays_for_def db1 by (auto simp: upd_where_def)
  then have st: "stuck i u (pm_ref p) db1"
    using ok assms(2) has_sub_pay_update [OF up] by (simp add: stuck_def)
  have "snd (handlePaymentSuccess env p db) = db1 \<and> fst (handlePaymentSuccess env p db) \<noteq> None"
  proof (cases "sub_GetByID (be_down env) (Some i) db1")
    case None
    then show ?thesis using assms(5) up sub by (simp add: handlePaymentSuccess_def)
  next
    case (Some s)
    then have s: "s \<in> set (bd_subs db1)" "sn_id s = i" "\<not> be_down env SubGet"
      by (auto simp: sub_GetByID_def split: if_splits dest: find_Some_inD)
    have fail: "\<exists>e. sub_Update (be_down env) (s\<lparr>sn_status := SubActive\<rparr>) db1 = Inl e"
    proof (cases "be_down env SubUpdateCall")
      case False
      then have j: "has_sub j u SubActive db1" using assms(7) s(3) has_sub_pay_update [OF up] by simp
      then have "j \<noteq> i" using st has_sub_the(2) [OF ok j s(1)] has_sub_the(2) [OF ok _ s(1)] s(2) unfolding stuck_def by fastforce
      moreover have "sn_user r = u" if "List.find (\<lambda>r. sn_id r = i) (bd_subs db1) = Some r" for r
        using st has_sub_the(1) [OF ok] find_Some_inD [OF that] unfolding stuck_def by blast
      ultimately show ?thesis using j False s(2)
        by (auto simp: sub_Update_def sub_clash_def sub_open_def has_sub_def list_ex_iff split: option.splits)
    qed (simp add: sub_Update_def)
    then show ?thesis using assms(5) up sub Some by (auto simp: handlePaymentSuccess_def)
  qed
  then show ?thesis using st by simp
qed

text \<open>
  Property C11. A payment whose event arrives while its subscription cannot be activated is lost: the user has
  another active subscription (so every paid change of plan), or a statement fails after the payment is
  marked. The event is answered with an error, and then, whatever is delivered again and whatever else
  happens through the gRPC interface, the subscription stays pending, unless the provider reports the
  payment as failed or refunded.
\<close>

theorem paid_upgrade_lost:
  assumes "billing_ok (bi_db st)" and "has_sub i u SubPending (bi_db st)"
    and "be_down env SubGet \<or> be_down env SubUpdateCall \<or> has_sub j u SubActive (bi_db st)"
    and "hook_accepted env provider payload sig e" and "we_type e \<in> set success_events"
    and "pay_GetByProviderPaymentID (be_down env) (we_payment e) (bi_db st) = Some p"
    and "pays_for i (bi_db st) = [p]" and "pm_status p \<noteq> PaySuccess" and "\<not> be_down env PayUpdateCall"
    and "list_all (\<lambda>(env, op). admitted False (\<lambda>x. x \<noteq> we_payment e) (\<lambda>_. True) env op) ops"
  shows "fst (ProcessWebhook env now provider payload sig st) \<noteq> None \<and>
    has_sub i u SubPending (bi_db (run_bills ops (snd (ProcessWebhook env now provider payload sig st))))"
proof -
  have p: "p \<in> set (bd_payments (bi_db st))" "pm_ref p = we_payment e"
    using assms(6) by (auto simp: pay_GetByProviderPaymentID_def split: if_splits dest: find_Some_inD)
  have "fst (ProcessWebhook env now provider payload sig st) \<noteq> None \<and>
      stuck i u (we_payment e) (bi_db (snd (ProcessWebhook env now provider payload sig st)))"
    using not_activated_stuck [OF assms(1,2,7) p(1) assms(8,9,3)] assms(5,6) p(2)
    by (auto simp: ProcessWebhook_accepted [OF assms(4)] handle_event_def split: prod.splits)
  then show ?thesis using stuck.run_bills_keep [OF assms(10)] by (auto simp: stuck_def)
qed

definition event_b :: wh_event where
  "event_b = \<lparr>we_type = ''payment.succeeded'', we_payment = ''b'', we_status = [], we_meta = []\<rparr>"

definition after_b :: "(billing_env \<times> billing_op) list" where
  "after_b = [pay_ok ''b'', checkout7 ''TIER_BUSINESS'' ''c'',
     (demo_billing ''payment.succeeded'' ''b'', DoCancelSub 9 ''7'' []), pay_ok ''b'']"

lemma upgrading_facts:
  "billing_ok (bi_db upgrading)" "has_sub 3 7 SubPending (bi_db upgrading)" "has_sub 1 7 SubActive (bi_db upgrading)"
  "hook_accepted (demo_billing ''payment.succeeded'' ''b'') ''YOOKASSA'' [] [] event_b"
  by code_simp+

lemma upgrading_payment:
  "pay_GetByProviderPaymentID (be_down (demo_billing ''payment.succeeded'' ''b'')) (we_payment event_b) (bi_db upgrading)
     = Some (demo_pay 4 3 ''b'' 299900 PayPending)"
  "pays_for 3 (bi_db upgrading) = [demo_pay 4 3 ''b'' 299900 PayPending]"
  by code_simp+

lemma after_b_admitted:
  "list_all (\<lambda>(env, op). admitted False (\<lambda>x. x \<noteq> we_payment event_b) (\<lambda>_. True) env op) after_b"
  by code_simp

lemma event_b_success: "we_type event_b \<in> set success_events"
  by (simp add: event_b_def success_events_def)

theorem paid_upgrade_lost_witness:
  "fst (ProcessWebhook (demo_billing ''payment.succeeded'' ''b'') 5 ''YOOKASSA'' [] [] upgrading) \<noteq> None \<and>
   has_sub 3 7 SubPending (bi_db (run_bills after_b
     (snd (ProcessWebhook (demo_billing ''payment.succeeded'' ''b'') 5 ''YOOKASSA'' [] [] upgrading))))"
  by (rule paid_upgrade_lost [OF upgrading_facts(1,2) disjI2 [OF disjI2 [OF upgrading_facts(3)]] upgrading_facts(4)
        _ upgrading_payment _ _ after_b_admitted])
    (simp_all add: demo_billing_def demo_pay_def event_b_def success_events_def)

text \<open>The starter plan, checked out and paid for.\<close>

definition one_paid :: "(billing_env \<times> billing_op) list" where
  "one_paid = [checkout7 ''TIER_STARTER'' ''a'', pay_ok ''a'']"

lemma one_paid_admitted: "list_all (\<lambda>(env, op). admitted False (\<lambda>_. True) (\<lambda>_. True) env op) one_paid"
  by code_simp

lemma one_paid_subs: "bd_subs (bi_db (run_bills one_paid (start_billing demo_plans))) =
    [demo_sub 1 ''TIER_STARTER'' SubActive ''a'']"
  by code_simp

theorem actives_were_paid_witness:
  "list_ex (\<lambda>p. pm_sub p = Some 1 \<and> pm_status p \<noteq> PayPending)
     (bd_payments (bi_db (run_bills one_paid (start_billing demo_plans))))"
  using actives_were_paid [OF one_paid_admitted, of "demo_sub 1 ''TIER_STARTER'' SubActive ''a''" demo_plans]
  by (auto simp: one_paid_subs demo_sub_def list_ex_iff)

section \<open>Subscriptions\<close>

text \<open>
  Nothing but the user's cancellation or the provider's report on its payments ends an active
  subscription: whatever the date, after any history without them, \<open>GetActiveSubscription\<close> gives it as
  active. No operation looks at \<open>expires_at\<close>.
\<close>

theorem subscription_never_lapses:
  assumes "billing_ok (bi_db st)" and "has_sub i u SubActive (bi_db st)"
    and "list_all (\<lambda>p. pm_ref p = r) (pays_for i (bi_db st))"
    and "list_all (\<lambda>(env, op). admitted True (\<lambda>x. x \<noteq> r) (\<lambda>v. v \<noteq> u) env op) ops"
    and "\<not> be_down env SubActiveOf" and "be_column env user = Some u"
  shows "\<exists>d. GetActiveSubscription env user (run_bills ops st) = BOk d \<and> sr_id d = uuid_text i \<and> sr_status d = SubActive"
proof -
  let ?db = "bi_db (run_bills ops st)"
  have h: "held i u r ?db" using held.run_bills_keep [OF assms(4)] assms(1-3) by (simp add: held_def)
  then obtain s where s: "s \<in> set (bd_subs ?db)" "sn_id s = i" "sn_user s = u" "sn_status s = SubActive"
    by (auto simp: held_def has_sub_def list_ex_iff)
  let ?f = "filter (\<lambda>s. sn_user s = u \<and> sn_status s = SubActive) (bd_subs ?db)"
  have d: "distinct (map sn_user (filter is_active (bd_subs ?db)))" "distinct (map sn_id (bd_subs ?db))"
    using h billing_okD(1,3) by (simp_all add: held_def)
  have "x = s" if "x \<in> set ?f" for x
    using distinct_key_eq [OF d(1), of x s] that s by (simp add: is_active_def)
  moreover have "distinct ?f" using d(2) by (simp add: distinct_map)
  ultimately have "length ?f \<le> 1" by (cases ?f; cases "tl ?f") auto
  then have "sub_GetActiveByUserID (be_down env) (Some u) ?db = Some s"
    by (intro the_active_subscription [of s]) (use s assms(5) in simp_all)
  then show ?thesis using assms(6) s by (simp add: GetActiveSubscription_def subscriptionToDTO_def)
qed

text \<open>The starter plan of the user 7 ends after 30 days; on day 100 it is active.\<close>

definition much_later :: "(billing_env \<times> billing_op) list" where
  "much_later = [(demo_billing ''payment.succeeded'' ''a'', DoProviderHook (100 * 24 * hour) ''YOOKASSA'' [] [])]"

lemma much_later_admitted:
  "list_all (\<lambda>(env, op). admitted True (\<lambda>x. x \<noteq> ''a'') (\<lambda>v. v \<noteq> 7) env op) much_later"
  "list_all (\<lambda>p. pm_ref p = ''a'') (pays_for 1 (bi_db upgrading))"
  "be_column (demo_billing ''payment.succeeded'' ''a'') ''7'' = Some 7"
  by code_simp+

theorem subscription_never_lapses_witness:
  "sub_IsExpired (100 * 24 * hour) (demo_sub 1 ''TIER_STARTER'' SubActive ''a'') \<and>
   (\<exists>d. GetActiveSubscription (demo_billing ''payment.succeeded'' ''a'') ''7'' (run_bills much_later upgrading) = BOk d \<and>
     sr_id d = uuid_text 1 \<and> sr_status d = SubActive)"
proof
  show "sub_IsExpired (100 * 24 * hour) (demo_sub 1 ''TIER_STARTER'' SubActive ''a'')"
    by (simp add: sub_IsExpired_def demo_sub_def)
  show "\<exists>d. GetActiveSubscription (demo_billing ''payment.succeeded'' ''a'') ''7'' (run_bills much_later upgrading) = BOk d \<and>
     sr_id d = uuid_text 1 \<and> sr_status d = SubActive"
    by (rule subscription_never_lapses [OF upgrading_facts(1,3) much_later_admitted(2,1) _ much_later_admitted(3)])
      (simp add: demo_billing_def)
qed

text \<open>
  A user with a pending subscription cannot check out: the payment is created at the provider,
  and then no row is written and the answer is an error. The pending subscription is one that was never
  paid, or one that \<open>paid_upgrade_lost\<close> is about; the user cannot cancel it.
\<close>

theorem pending_blocks_checkout:
  assumes "billing_ok (bi_db st)" and "has_sub i u SubPending (bi_db st)" and "be_parse env user = Some u"
    and "user \<noteq> []" and "plan_id \<noteq> []" and "plan_GetByID (be_down env) plan_id (bi_db st) = Some plan"
    and "be_yookassa env = Some pp" and "pp_create pp (checkout_request user plan url) = Inr resp"
  shows "fst (CreateCheckout env now user plan_id url st)
      = BErr (Wrapped ''failed to create subscription'' DatabaseErr) \<and>
    bd_subs (bi_db (snd (CreateCheckout env now user plan_id url st))) = bd_subs (bi_db st) \<and>
    bd_payments (bi_db (snd (CreateCheckout env now user plan_id url st))) = bd_payments (bi_db st) \<and>
    bi_calls (snd (CreateCheckout env now user plan_id url st))
      = bi_calls st @ [CallCreate ''YOOKASSA'' (checkout_request user plan url)]"
proof -
  let ?db = "bi_db st" and ?s = "checkout_sub now u plan (pr_ref resp) (bi_db st)"
  have "i \<noteq> bd_next ?db" using has_sub_known [OF assms(2,1)] by simp
  then have "sub_clash (bd_next ?db) u SubPending (next_ids 1 ?db)"
    using assms(2) by (auto simp: sub_clash_def sub_open_def has_sub_def list_ex_iff)
  then have "sub_Create (be_down env) ?s (next_ids 1 ?db) = None" by (simp add: sub_Create_def)
  then have "store_checkout env now u plan (pr_ref resp) ?db
      = (Some (Wrapped ''failed to create subscription'' DatabaseErr), next_ids 1 ?db)"
    by (simp add: store_checkout_def checkout_sub_def [symmetric] Let_def)
  then show ?thesis using assms(3-8) by (simp add: CreateCheckout_def Let_def)
qed

lemma upgrading_checkout:
  "be_parse (demo_billing ''payment.succeeded'' ''c'') ''7'' = Some 7"
  "plan_GetByID (be_down (demo_billing ''payment.succeeded'' ''c'')) ''TIER_BUSINESS'' (bi_db upgrading) = Some (demo_plans ! 1)"
  by code_simp+

theorem pending_blocks_checkout_witness:
  "fst (CreateCheckout (demo_billing ''payment.succeeded'' ''c'') 9 ''7'' ''TIER_BUSINESS'' [] upgrading)
     = BErr (Wrapped ''failed to create subscription'' DatabaseErr) \<and>
   length (bi_calls (snd (CreateCheckout (demo_billing ''payment.succeeded'' ''c'') 9 ''7'' ''TIER_BUSINESS'' [] upgrading))) = 1"
proof -
  let ?env = "demo_billing ''payment.succeeded'' ''c''"
  have "be_yookassa ?env = Some (demo_provider ''payment.succeeded'' ''c'')" by (simp add: demo_billing_def)
  moreover have "pp_create (demo_provider ''payment.succeeded'' ''c'') (checkout_request ''7'' (demo_plans ! 1) [])
      = Inr \<lparr>pr_ref = ''c'', pr_checkout = [], pr_status = ''pending'', pr_amount = 299900, pr_currency = ''RUB''\<rparr>"
    by (simp add: demo_provider_def checkout_request_def demo_plans_def)
  ultimately show ?thesis
    using pending_blocks_checkout [OF upgrading_facts(1,2) upgrading_checkout(1) _ _ upgrading_checkout(2), of _ "[]" _ 9]
    by (simp add: upgrading_def)
qed

section \<open>Events that come twice, late or early\<close>

lemma set_pay_columns_twice [simp]: "set_pay_columns p (set_pay_columns p r) = set_pay_columns p r"
  by (simp add: set_pay_columns_def)

lemma cancel_paid_twice:
  assumes "cancel_paid_subscription env now r p db = (e, db')" and "be_down env = (\<lambda>_. False)" and "pm_sub p' = pm_sub p"
  shows "snd (cancel_paid_subscription env' now' r' p' db') = db'"
proof (cases "pm_sub p")
  case None
  then show ?thesis using assms(3) by (simp add: cancel_paid_subscription_def)
next
  case sub: (Some i)
  show ?thesis
  proof (cases "List.find (\<lambda>s. sn_id s = i) (bd_subs db)")
    case None
    then show ?thesis using assms sub by (auto simp: cancel_paid_subscription_def sub_GetByID_def)
  next
    case (Some s)
    then have i: "sn_id s = i" using find_Some_inD by force
    show ?thesis
    proof (cases "sub_Cancel now r s")
      case (Inl x)
      then have "\<not> CanBeCanceled s" by (auto simp: sub_Cancel_def split: if_splits)
      then show ?thesis using assms sub Some Inl
        by (auto simp: cancel_paid_subscription_def sub_GetByID_def sub_Cancel_def)
    next
      case (Inr s')
      note s' = sub_Cancel_fields [OF Inr]
      show ?thesis
      proof (cases "sub_Update (be_down env) s' db")
        case (Inl x)
        have "\<exists>x. sub_Update (be_down env') s'' db = Inl x" if "sub_Cancel now' r' s = Inr s''" for s''
          using Inl s' sub_Cancel_fields [OF that] assms(2)
          by (auto simp: sub_Update_def sub_clash_def sub_open_def split: option.splits if_splits)
        then show ?thesis using assms sub Some Inr Inl
          by (auto simp: cancel_paid_subscription_def sub_GetByID_def split: sum.splits)
      next
        case upd: (Inr db2)
        then have db2: "db2 = db\<lparr>bd_subs := upd_where (\<lambda>r. sn_id r = sn_id s') (set_sub_columns s') (bd_subs db)\<rparr>"
          by (auto simp: sub_Update_def split: if_splits option.splits)
        have "List.find (\<lambda>s. sn_id s = i) (bd_subs db2) = Some (set_sub_columns s' s)"
          using Some i s'(1) by (simp add: db2 find_upd_kept)
        moreover have "db' = db2" using assms sub Some Inr upd
          by (auto simp: cancel_paid_subscription_def sub_GetByID_def)
        ultimately show ?thesis using assms(3) sub s'(4)
          by (auto simp: cancel_paid_subscription_def sub_GetByID_def sub_Cancel_def CanBeCanceled_def)
      qed
    qed
  qed
qed

text \<open>The payment found again after its status was set.\<close>

lemma pay_found_again:
  assumes "List.find (\<lambda>q. pm_ref q = ref) (bd_payments db) = Some p"
    and "pay_Update (\<lambda>_. False) (p\<lparr>pm_status := x\<rparr>) db = Inr db1" and "bd_payments db2 = bd_payments db1"
  shows "List.find (\<lambda>q. pm_ref q = ref) (bd_payments db2) = Some (p\<lparr>pm_status := x\<rparr>)"
    and "pay_Update down (p\<lparr>pm_status := x\<rparr>) db2 = Inr db' \<Longrightarrow> db' = db2"
proof -
  let ?p = "p\<lparr>pm_status := x\<rparr>"
  have db1: "bd_payments db1 = upd_where (\<lambda>r. pm_id r = pm_id p) (set_pay_columns ?p) (bd_payments db)"
    using assms(2) by (auto simp: pay_Update_def split: if_splits)
  have self: "set_pay_columns ?p p = ?p" by (simp add: set_pay_columns_def)
  show "List.find (\<lambda>q. pm_ref q = ref) (bd_payments db2) = Some ?p"
    using assms(1) self by (simp add: assms(3) db1 find_upd_kept)
  have "upd_where (\<lambda>r. pm_id r = pm_id p) (set_pay_columns ?p) (bd_payments db2) = bd_payments db2"
    unfolding assms(3) db1 by (auto simp: upd_where_def)
  then show "pay_Update down ?p db2 = Inr db' \<Longrightarrow> db' = db2"
    by (auto simp: pay_Update_def split: if_splits)
qed

lemma reversal_twice:
  assumes "List.find (\<lambda>q. pm_ref q = ref) (bd_payments db) = Some p" and "be_down env = (\<lambda>_. False)"
    and "pay_Update (be_down env) (p\<lparr>pm_status := x\<rparr>) db = Inr db1"
    and "cancel_paid_subscription env now r p db1 = (e, db2)"
  shows "List.find (\<lambda>q. pm_ref q = ref) (bd_payments db2) = Some (p\<lparr>pm_status := x\<rparr>)"
    and "pay_Update down (p\<lparr>pm_status := x\<rparr>) db2 = Inr db3 \<Longrightarrow>
      snd (cancel_paid_subscription env' now' r' (p\<lparr>pm_status := x\<rparr>) db3) = db2"
proof -
  have pays: "bd_payments db2 = bd_payments db1"
    using assms(4) by (elim cancel_paid_cases) (auto simp: sub_Update_frame(2))
  note found = pay_found_again [OF assms(1) _ pays, of x]
  show "List.find (\<lambda>q. pm_ref q = ref) (bd_payments db2) = Some (p\<lparr>pm_status := x\<rparr>)"
    using found(1) assms(2,3) by simp
  assume "pay_Update down (p\<lparr>pm_status := x\<rparr>) db2 = Inr db3"
  then have "db3 = db2" using found(2) assms(2,3) by simp
  then show "snd (cancel_paid_subscription env' now' r' (p\<lparr>pm_status := x\<rparr>) db3) = db2"
    using cancel_paid_twice [OF assms(4,2)] by simp
qed

text \<open>An event handled twice with the first handling undisturbed: the second leaves the tables alone.\<close>

lemma handle_event_again:
  assumes found: "List.find (\<lambda>q. pm_ref q = ref) (bd_payments db) = Some p" and down: "be_down env = (\<lambda>_. False)"
    and first: "handle_event env now t p db = (err, db1)"
    and q: "List.find (\<lambda>q. pm_ref q = ref) (bd_payments db1) = Some q"
  shows "snd (handle_event env' now' t q db1) = db1"
proof -
  have p: "p \<in> set (bd_payments db)" using find_Some_inD [OF found] by simp
  have up: "\<exists>db'. pay_Update (be_down env) (p\<lparr>pm_status := x\<rparr>) db = Inr db'" for x
    using p down by (auto simp: pay_Update_def list_ex_iff)
  consider (succ) "t \<in> set success_events" | (fail) "t \<in> set failure_events" "t \<notin> set success_events"
    | (ref) "t \<in> set refund_events" "t \<notin> set failure_events" "t \<notin> set success_events"
    | (none) "t \<notin> set success_events" "t \<notin> set failure_events" "t \<notin> set refund_events"
    by blast
  then show ?thesis
  proof cases
    case succ
    have "pm_status q = PaySuccess"
    proof (cases "pm_status p = PaySuccess")
      case True
      then show ?thesis using q first succ found by (simp add: handle_event_def handlePaymentSuccess_def)
    next
      case False
      obtain dba where a: "pay_Update (be_down env) (p\<lparr>pm_status := PaySuccess\<rparr>) db = Inr dba" using up by blast
      have "handlePaymentSuccess env p db = (err, db1)" using first succ by (simp add: handle_event_def)
      then have "bd_payments db1 = bd_payments dba"
        using a False by (auto simp: handlePaymentSuccess_def sub_Update_frame(2) split: option.splits sum.splits)
      then show ?thesis using pay_found_again(1) [OF found, of PaySuccess dba db1] a down q by auto
    qed
    then show ?thesis using succ by (simp add: handle_event_def handlePaymentSuccess_def)
  next
    case fail
    obtain dba where a: "pay_Update (be_down env) (p\<lparr>pm_status := PayFailed\<rparr>) db = Inr dba" using up by blast
    then have "cancel_paid_subscription env now ''payment failed'' p dba = (err, db1)"
      using first fail by (simp add: handle_event_def bill_handlePaymentFailed_def)
    note twice = reversal_twice [OF found down a this]
    then show ?thesis using q fail
      by (auto simp: handle_event_def bill_handlePaymentFailed_def split: sum.splits)
  next
    case ref
    obtain dba where a: "pay_Update (be_down env) (p\<lparr>pm_status := PayRefunded\<rparr>) db = Inr dba" using up by blast
    then have "cancel_paid_subscription env now ''payment refunded'' p dba = (err, db1)"
      using first ref by (simp add: handle_event_def handleRefundSuccess_def)
    note twice = reversal_twice [OF found down a this]
    then show ?thesis using q ref
      by (auto simp: handle_event_def handleRefundSuccess_def split: sum.splits)
  qed (simp add: handle_event_def)
qed

text \<open>A delivery of the event \<open>e\<close> that is accepted, in a state whose tables are those that the first one left.\<close>

lemma redelivered:
  assumes "be_down env = (\<lambda>_. False)" and "hook_accepted env provider payload sig e" and "hook_accepted env' provider' payload' sig' e"
    and same: "bi_db st' = bi_db (snd (ProcessWebhook env now provider payload sig st))"
  shows "bi_db (snd (ProcessWebhook env' now' provider' payload' sig' st')) = bi_db st'"
proof (cases "List.find (\<lambda>q. pm_ref q = we_payment e) (bd_payments (bi_db st))")
  case None
  then have "bi_db st' = bi_db st"
    using assms(1) same by (simp add: ProcessWebhook_accepted [OF assms(2)] pay_GetByProviderPaymentID_def)
  then show ?thesis using None by (simp add: ProcessWebhook_accepted [OF assms(3)] pay_GetByProviderPaymentID_def)
next
  case (Some p)
  obtain err db1 where first: "handle_event env now (we_type e) p (bi_db st) = (err, db1)" by force
  have db1: "bi_db st' = db1"
    using assms(1) Some first same by (simp add: ProcessWebhook_accepted [OF assms(2)] pay_GetByProviderPaymentID_def)
  have again: "snd (handle_event env' now' (we_type e) q db1) = db1"
    if "List.find (\<lambda>q. pm_ref q = we_payment e) (bd_payments db1) = Some q" for q
    by (rule handle_event_again [OF Some assms(1) first that])
  show ?thesis
    using again db1
    by (auto simp: ProcessWebhook_accepted [OF assms(3)] pay_GetByProviderPaymentID_def split: option.splits prod.splits)
qed

type_synonym hook_delivery = "billing_env \<times> time \<times> string \<times> (string \<times> string) list \<times> string"

definition deliver_hook :: "hook_delivery \<Rightarrow> billing_state \<Rightarrow> billing_state" where
  "deliver_hook = (\<lambda>(env, now, provider, payload, sig) st. snd (ProcessWebhook env now provider payload sig st))"

text \<open>
  Property C19. When an event that was processed with all statements working is delivered again at
  once, with nothing else in between, and however often, the tables stay as they are, whatever the clock
  and whatever fails in these deliveries. (After other events it may change them again: the success of a
  payment that was refunded in the meantime activates the subscription, \<open>late_success_reactivates\<close>.)
\<close>

theorem redelivery_changes_nothing:
  assumes "be_down env = (\<lambda>_. False)" and "hook_accepted env provider payload sig e"
    and "list_all (\<lambda>(env', now', provider', payload', sig'). hook_accepted env' provider' payload' sig' e) ds"
  shows "bi_db (fold deliver_hook ds (deliver_hook (env, now, provider, payload, sig) st))
    = bi_db (deliver_hook (env, now, provider, payload, sig) st)"
proof -
  have "bi_db (fold deliver_hook ds st') = bi_db st'"
    if "bi_db st' = bi_db (snd (ProcessWebhook env now provider payload sig st))" for st'
    using assms(3) that
  proof (induction ds arbitrary: st')
    case (Cons d ds)
    obtain env' now' provider' payload' sig' where d: "d = (env', now', provider', payload', sig')" by (cases d)
    have "bi_db (deliver_hook d st') = bi_db st'"
      using redelivered [OF assms(1,2) _ Cons.prems(2), of env' provider' payload' sig' now'] Cons.prems(1)
      by (simp add: d deliver_hook_def)
    then show ?case using Cons.IH [of "deliver_hook d st'"] Cons.prems by simp
  qed simp
  then show ?thesis by (simp add: deliver_hook_def)
qed

theorem redelivery_changes_nothing_witness:
  "bi_db (fold deliver_hook [(demo_billing ''payment.succeeded'' ''b'', 8, ''YOOKASSA'', [], []),
       (demo_billing ''payment.succeeded'' ''b'', 9, ''YOOKASSA'', [], [])]
     (deliver_hook (demo_billing ''payment.succeeded'' ''b'', 5, ''YOOKASSA'', [], []) upgrading))
   = bi_db (deliver_hook (demo_billing ''payment.succeeded'' ''b'', 5, ''YOOKASSA'', [], []) upgrading)"
  by (rule redelivery_changes_nothing [OF _ upgrading_facts(4)])
     (use upgrading_facts(4) in \<open>simp_all add: demo_billing_def\<close>)

text \<open>
  The event of a success that arrives after the payment failed or was refunded counts again: the
  payment is successful and its canceled subscription active, unless the user has another active one.
\<close>

theorem late_success_reactivates:
  assumes "billing_ok (bi_db st)" and "be_down env = (\<lambda>_. False)"
    and "hook_accepted env provider payload sig e" and "we_type e \<in> set success_events"
    and "pay_GetByProviderPaymentID (be_down env) (we_payment e) (bi_db st) = Some p"
    and "pm_status p \<noteq> PaySuccess" and "pm_sub p = Some i" and "has_sub i u x (bi_db st)"
    and "\<not> sub_clash i u SubActive (bi_db st)" and "list_all (\<lambda>s. payment_ref_ok (sn_payment s)) (bd_subs (bi_db st))"
  shows "fst (ProcessWebhook env now provider payload sig st) = None \<and>
    has_sub i u SubActive (bi_db (snd (ProcessWebhook env now provider payload sig st))) \<and>
    list_ex (\<lambda>q. pm_ref q = we_payment e \<and> pm_status q = PaySuccess)
      (bd_payments (bi_db (snd (ProcessWebhook env now provider payload sig st))))"
proof -
  let ?db = "bi_db st" and ?p = "p\<lparr>pm_status := PaySuccess\<rparr>"
  let ?db1 = "?db\<lparr>bd_payments := upd_where (\<lambda>r. pm_id r = pm_id p) (set_pay_columns ?p) (bd_payments ?db)\<rparr>"
  have p: "p \<in> set (bd_payments ?db)" "pm_ref p = we_payment e"
    using assms(5) by (auto simp: pay_GetByProviderPaymentID_def split: if_splits dest: find_Some_inD)
  have up: "pay_Update (be_down env) ?p ?db = Inr ?db1"
    using p(1) assms(2) by (auto simp: pay_Update_def list_ex_iff)
  obtain s where s: "List.find (\<lambda>s. sn_id s = i) (bd_subs ?db) = Some s"
    using assms(8) by (cases "List.find (\<lambda>s. sn_id s = i) (bd_subs ?db)") (auto simp: has_sub_def list_ex_iff find_None_iff)
  have in_s: "s \<in> set (bd_subs ?db)" "sn_id s = i" using find_Some_inD [OF s] by auto
  have u: "sn_user s = u" using has_sub_the(1) [OF assms(1,8) in_s] .
  let ?s = "s\<lparr>sn_status := SubActive\<rparr>"
  let ?db2 = "?db1\<lparr>bd_subs := upd_where (\<lambda>r. sn_id r = sn_id ?s) (set_sub_columns ?s) (bd_subs ?db)\<rparr>"
  have "sub_clash i u SubActive ?db1 = sub_clash i u SubActive ?db" by (simp add: sub_clash_def)
  then have "sub_Update (be_down env) ?s ?db1 = Inr ?db2"
    using s in_s u assms(2,9,10) by (simp add: sub_Update_def list_all_iff)
  then have done1: "handlePaymentSuccess env p ?db = (None, ?db2)"
    using assms(2,6,7) up s by (simp add: handlePaymentSuccess_def sub_GetByID_def)
  have "has_sub i u SubActive ?db2"
    using in_s u unfolding has_sub_def list_ex_iff
    by (intro bexI [of _ "set_sub_columns ?s s"]) (auto simp: upd_where_def)
  moreover have "set_pay_columns ?p p \<in> set (bd_payments ?db2)" using p(1) by (auto simp: upd_where_def)
  then have "list_ex (\<lambda>q. pm_ref q = we_payment e \<and> pm_status q = PaySuccess) (bd_payments ?db2)"
    using p(2) unfolding list_ex_iff by (intro bexI [of _ "set_pay_columns ?p p"]) auto
  ultimately show ?thesis
    using done1 assms(4,5) by (simp add: ProcessWebhook_accepted [OF assms(3)] handle_event_def)
qed

text \<open>The business plan, refunded and canceled, then the success of its payment delivered once more.\<close>

definition refunded_state :: billing_state where
  "refunded_state = \<lparr>bi_db = \<lparr>bd_plans = demo_plans, bd_subs = [demo_sub 3 ''TIER_BUSINESS'' SubCanceled ''b''],
     bd_payments = [demo_pay 4 3 ''b'' 299900 PayRefunded], bd_next = 5\<rparr>, bi_events = [], bi_calls = []\<rparr>"

lemma refunded_facts:
  "billing_ok (bi_db refunded_state)" "has_sub 3 7 SubCanceled (bi_db refunded_state)"
  "pay_GetByProviderPaymentID (be_down (demo_billing ''payment.succeeded'' ''b'')) (we_payment event_b) (bi_db refunded_state)
     = Some (demo_pay 4 3 ''b'' 299900 PayRefunded)"
  "list_all (\<lambda>s. payment_ref_ok (sn_payment s)) (bd_subs (bi_db refunded_state))"
  by code_simp+

lemma refunded_alone: "\<not> sub_clash 3 7 SubActive (bi_db refunded_state)"
  by (simp add: sub_clash_def refunded_state_def demo_sub_def)

theorem late_success_reactivates_witness:
  "has_sub 3 7 SubActive (bi_db (snd (ProcessWebhook (demo_billing ''payment.succeeded'' ''b'') 9 ''YOOKASSA'' [] [] refunded_state)))"
  using late_success_reactivates [OF refunded_facts(1) _ upgrading_facts(4) event_b_success refunded_facts(3) _ _
      refunded_facts(2) refunded_alone refunded_facts(4), of 9]
  by (simp add: demo_billing_def demo_pay_def)

text \<open>
  \<open>RefundPayment\<close> asks the provider for the money before it looks at the payment: for a payment
  that is not successful (pending, failed or refunded before) the provider is asked, every time, and then
  the answer is an error and no row changes.
\<close>

theorem refund_asked_before_check:
  assumes "be_parse env i = Some n" and "pay_GetByID (be_down env) (be_column env i) (bi_db st) = Some p"
    and "pm_provider p = ''YOOKASSA''" and "be_yookassa env = Some pp" and "pp_refund pp (pm_ref p) = Inr resp"
    and "pm_status p \<noteq> PaySuccess"
  shows "bill_RefundPayment env now i st =
    (Some (Wrapped ''failed to mark payment as refunded'' ErrCannotRefundNonSuccessfulPayment),
     called (CallRefund ''YOOKASSA'' (pm_ref p)) st)"
  using assms by (simp add: bill_RefundPayment_def provider_of_def Let_def pay_Refund_def pay_IsSuccessful_def)

lemma paid_twice_facts:
  "be_parse (demo_billing [] ''b'') ''3'' = Some 3"
  "pay_GetByID (be_down (demo_billing [] ''b'')) (be_column (demo_billing [] ''b'') ''3'')
     ((bi_db refunded_state)\<lparr>bd_payments := [demo_pay 3 3 ''b'' 299900 PayRefunded]\<rparr>)
     = Some (demo_pay 3 3 ''b'' 299900 PayRefunded)"
  by code_simp+

theorem refund_asked_before_check_witness:
  "bi_calls (snd (bill_RefundPayment (demo_billing [] ''b'') 1 ''3''
     (set_bdb ((bi_db refunded_state)\<lparr>bd_payments := [demo_pay 3 3 ''b'' 299900 PayRefunded]\<rparr>) refunded_state)))
   = [CallRefund ''YOOKASSA'' ''b'']"
proof -
  let ?db = "(bi_db refunded_state)\<lparr>bd_payments := [demo_pay 3 3 ''b'' 299900 PayRefunded]\<rparr>"
  have "pay_GetByID (be_down (demo_billing [] ''b'')) (be_column (demo_billing [] ''b'') ''3'') (bi_db (set_bdb ?db refunded_state))
      = Some (demo_pay 3 3 ''b'' 299900 PayRefunded)" using paid_twice_facts(2) by simp
  then show ?thesis
    using refund_asked_before_check [OF paid_twice_facts(1), of "set_bdb ?db refunded_state"]
    by (simp add: demo_billing_def demo_provider_def demo_pay_def refunded_state_def)
qed

end
