(* ===== verification/MaintenanceModel.thy ===== *)
theory MaintenanceModel
  imports Prelude
begin

text \<open>
  Maintenance windows of the monitor service: \<open>monitor-service/internal/model/maintenance_window.go\<close> and
  the tables of \<open>repository/postgres/maintenance_window_repository.go\<close> with the constraints of the migration.
  UUIDs are numbers. A statement fails when \<open>down\<close> says so or when it violates a constraint.
\<close>

section \<open>Windows\<close>

datatype window_status = WindowScheduled | WindowActive | WindowCompleted | WindowCancelled | WindowOrphaned

fun window_status_text :: "window_status \<Rightarrow> string" where
  "window_status_text WindowScheduled = ''SCHEDULED''"
| "window_status_text WindowActive = ''ACTIVE''"
| "window_status_text WindowCompleted = ''COMPLETED''"
| "window_status_text WindowCancelled = ''CANCELLED''"
| "window_status_text WindowOrphaned = ''ORPHANED''"

definition recurrence_types :: "string list" where
  "recurrence_types = [''ONCE'', ''DAILY'', ''WEEKLY'', ''MONTHLY'']"

datatype window_error =
    BadWindowID | BadWindowUser | BadWindowMonitor | GlobalNotAllowed | WindowLimitReached
  | EmptyWindowName | WindowNameTooLong | EndTimeBeforeStartTime | DurationBelowMinimum | DurationExceedsMaximum
  | InvalidRecurrence | CannotCreateInPast | MonitorLimitPerWindow | OverlappingWindows
  | VersionConflict | OnlyScheduled | OnlyActive | NotCancellable
  | WindowNotFound | WindowNotOwned | WindowDbFailed

record window =
  wi_id :: nat
  wi_user :: nat
  wi_name :: string
  wi_start :: time
  wi_end :: time
  wi_status :: window_status
  wi_recurrence :: string
  wi_global :: bool
  wi_pause :: bool
  wi_suppress :: bool
  wi_safe :: bool
  wi_monitors :: "nat list"
  wi_created :: time
  wi_updated :: time
  wi_activated :: "time option"
  wi_completed :: "time option"
  wi_version :: int

record window_config =
  wc_min_minutes :: int
  wc_max_hours :: int
  wc_max_monitors :: int

definition DefaultWindowConfig :: window_config where
  "DefaultWindowConfig = \<lparr>wc_min_minutes = 1, wc_max_hours = 24, wc_max_monitors = 50\<rparr>"

definition validateWindowName :: "string \<Rightarrow> window_error option" where
  "validateWindowName name =
     (if name = [] then Some EmptyWindowName else if 255 < length name then Some WindowNameTooLong else None)"

definition validateTimeRange :: "time \<Rightarrow> time \<Rightarrow> window_error option" where
  "validateTimeRange s e = (if \<not> s < e then Some EndTimeBeforeStartTime else None)"

definition validateDuration :: "time \<Rightarrow> time \<Rightarrow> window_config \<Rightarrow> window_error option" where
  "validateDuration s e cfg =
     (if e - s < wc_min_minutes cfg * minute then Some DurationBelowMinimum
      else if wc_max_hours cfg * hour < e - s then Some DurationExceedsMaximum
      else None)"

definition validateRecurrence :: "string \<Rightarrow> window_error option" where
  "validateRecurrence r = (if r \<in> set recurrence_types then None else Some InvalidRecurrence)"

definition validateNotInPast :: "time \<Rightarrow> time \<Rightarrow> window_error option" where
  "validateNotInPast now s = (if s < now - second then Some CannotCreateInPast else None)"

definition validateMonitorsPerWindow :: "nat list \<Rightarrow> window_config \<Rightarrow> window_error option" where
  "validateMonitorsPerWindow ms cfg = (if wc_max_monitors cfg < int (length ms) then Some MonitorLimitPerWindow else None)"

text \<open>The first error of a list of checks.\<close>

fun first_error :: "'e option list \<Rightarrow> 'e option" where
  "first_error [] = None"
| "first_error (Some e # es) = Some e"
| "first_error (None # es) = first_error es"

definition NewMaintenanceWindow :: "time \<Rightarrow> nat \<Rightarrow> nat \<Rightarrow> string \<Rightarrow> time \<Rightarrow> time \<Rightarrow> string \<Rightarrow> bool \<Rightarrow> bool \<Rightarrow> bool \<Rightarrow> bool \<Rightarrow>
    nat list \<Rightarrow> window_config \<Rightarrow> window_error + window" where
  "NewMaintenanceWindow now new user name s e recur glob pause supp safe ms cfg =
     (case first_error [validateWindowName name, validateTimeRange s e, validateDuration s e cfg,
                        validateRecurrence recur, validateNotInPast now s, validateMonitorsPerWindow ms cfg] of
        Some err \<Rightarrow> Inl err
      | None \<Rightarrow> Inr
          \<lparr>wi_id = new, wi_user = user, wi_name = name, wi_start = s, wi_end = e, wi_status = WindowScheduled,
           wi_recurrence = recur, wi_global = glob, wi_pause = pause, wi_suppress = supp, wi_safe = safe,
           wi_monitors = ms, wi_created = now, wi_updated = now, wi_activated = None, wi_completed = None,
           wi_version = 1\<rparr>)"

definition window_IsActive :: "time \<Rightarrow> window \<Rightarrow> bool" where
  "window_IsActive now w \<longleftrightarrow> wi_status w = WindowActive \<and> (now = wi_start w \<or> (wi_start w < now \<and> now < wi_end w))"

definition ShouldBeActive :: "time \<Rightarrow> window \<Rightarrow> bool" where
  "ShouldBeActive now w \<longleftrightarrow> wi_status w = WindowScheduled \<and> \<not> now < wi_start w"

definition ShouldBeCompleted :: "time \<Rightarrow> window \<Rightarrow> bool" where
  "ShouldBeCompleted now w \<longleftrightarrow> wi_status w = WindowActive \<and> wi_end w < now"

definition sharesMonitorsWith :: "window \<Rightarrow> window \<Rightarrow> bool" where
  "sharesMonitorsWith w v \<longleftrightarrow> wi_global w \<or> wi_global v \<or> list_ex (\<lambda>i. i \<in> set (wi_monitors w)) (wi_monitors v)"

definition OverlapsWith :: "window \<Rightarrow> window \<Rightarrow> bool" where
  "OverlapsWith w v \<longleftrightarrow> sharesMonitorsWith w v \<and> wi_start w < wi_end v \<and> wi_start v < wi_end w"

definition window_Activate :: "time \<Rightarrow> window \<Rightarrow> window_error + window" where
  "window_Activate now w =
     (if wi_status w \<noteq> WindowScheduled then Inl OnlyScheduled
      else Inr (w\<lparr>wi_status := WindowActive, wi_activated := Some now, wi_updated := now, wi_version := wi_version w + 1\<rparr>))"

definition window_Complete :: "time \<Rightarrow> window \<Rightarrow> window_error + window" where
  "window_Complete now w =
     (if wi_status w \<noteq> WindowActive then Inl OnlyActive
      else Inr (w\<lparr>wi_status := WindowCompleted, wi_completed := Some now, wi_updated := now, wi_version := wi_version w + 1\<rparr>))"

definition window_Cancel :: "time \<Rightarrow> window \<Rightarrow> window_error + window" where
  "window_Cancel now w =
     (if wi_status w \<noteq> WindowScheduled \<and> wi_status w \<noteq> WindowActive then Inl NotCancellable
      else Inr (w\<lparr>wi_status := WindowCancelled, wi_updated := now, wi_version := wi_version w + 1\<rparr>))"

definition window_CanTransitionTo :: "window_status \<Rightarrow> window_status \<Rightarrow> bool" where
  "window_CanTransitionTo s t \<longleftrightarrow>
     (case s of
        WindowScheduled \<Rightarrow> t = WindowActive \<or> t = WindowCancelled
      | WindowActive \<Rightarrow> t = WindowCompleted \<or> t = WindowCancelled
      | _ \<Rightarrow> False)"

definition UpdateDetails :: "time \<Rightarrow> string \<Rightarrow> time \<Rightarrow> time \<Rightarrow> int \<Rightarrow> window \<Rightarrow> window_error + window" where
  "UpdateDetails now name s e v w =
     (if wi_version w \<noteq> v then Inl VersionConflict
      else if wi_status w \<noteq> WindowScheduled then Inl OnlyScheduled
      else case first_error [validateWindowName name, validateTimeRange s e, validateDuration s e DefaultWindowConfig] of
        Some err \<Rightarrow> Inl err
      | None \<Rightarrow> Inr (w\<lparr>wi_name := name, wi_start := s, wi_end := e, wi_version := wi_version w + 1, wi_updated := now\<rparr>))"

section \<open>Tables\<close>

text \<open>Windows, the pairs of a window and a monitor, the monitors that exist, and the audit log.\<close>

datatype maint_audit =
    AuditCreated nat string string nat
  | AuditUpdated
  | AuditDeleted nat window_status
  | AuditCancelled window_status
  | AuditListed nat
  | AuditGlobalDenied string
  | AuditLimitReached int nat
  | AuditOverlapRejected time time
  | AuditStatusChanged nat window_status window_status int

record maint_db =
  mdb_windows :: "window list"
  mdb_links :: "(nat \<times> nat) list"
  mdb_known :: "nat list"
  mdb_audit :: "(nat \<times> maint_audit) list"
  mdb_next :: nat

datatype maint_call =
    WinInsert | WinLink | WinGet | WinMonitors | WinByUser | WinCount | WinOverlap | WinUpdate nat | WinDelete
  | WinActivation | WinCompletion | WinActiveFor | WinHistory | WinAudit maint_audit | WinUnlink

type_synonym maint_faults = "maint_call \<Rightarrow> bool"

definition window_columns_ok :: "window \<Rightarrow> bool" where
  "window_columns_ok w \<longleftrightarrow> char_count (wi_name w) \<le> 255 \<and> CHR 0x00 \<notin> set (wi_name w) \<and> wi_start w < wi_end w
     \<and> - (2 ^ 31) \<le> wi_version w \<and> wi_version w < 2 ^ 31"

text \<open>The monitors of a window, when it has some and is not global, are linked in the same transaction.\<close>

definition win_Create :: "maint_faults \<Rightarrow> window \<Rightarrow> maint_db \<Rightarrow> maint_db option" where
  "win_Create down w db =
     (let links = (if wi_global w then [] else map (Pair (wi_id w)) (wi_monitors w))
      in if down WinInsert \<or> \<not> window_columns_ok w \<or> wi_recurrence w \<notin> set recurrence_types
           \<or> list_ex (\<lambda>r. wi_id r = wi_id w) (mdb_windows db)
         then None
         else if links \<noteq> [] \<and> (down WinLink \<or> \<not> distinct links \<or> list_ex (\<lambda>(_, m). m \<notin> set (mdb_known db)) links)
         then None
         else Some (db\<lparr>mdb_windows := mdb_windows db @ [w\<lparr>wi_monitors := []\<rparr>], mdb_links := mdb_links db @ links\<rparr>))"

definition linked :: "maint_db \<Rightarrow> nat \<Rightarrow> nat \<Rightarrow> bool" where
  "linked db w m \<longleftrightarrow> (w, m) \<in> set (mdb_links db)"

text \<open>One statement per monitor, with no transaction around them: those before the first failure stay.\<close>

fun AddMonitorsToWindow :: "maint_faults \<Rightarrow> nat \<Rightarrow> nat list \<Rightarrow> maint_db \<Rightarrow> maint_db \<times> bool" where
  "AddMonitorsToWindow down w [] db = (db, True)"
| "AddMonitorsToWindow down w (m # ms) db =
     (if down WinLink \<or> m \<notin> set (mdb_known db) \<or> \<not> list_ex (\<lambda>r. wi_id r = w) (mdb_windows db) then (db, False)
      else AddMonitorsToWindow down w ms
        (if linked db w m then db else db\<lparr>mdb_links := mdb_links db @ [(w, m)]\<rparr>))"

definition RemoveMonitorsFromWindow :: "maint_faults \<Rightarrow> nat \<Rightarrow> nat list \<Rightarrow> maint_db \<Rightarrow> maint_db option" where
  "RemoveMonitorsFromWindow down w ms db =
     (if down WinUnlink then None
      else Some (db\<lparr>mdb_links := del_where (\<lambda>(v, m). v = w \<and> m \<in> set ms) (mdb_links db)\<rparr>))"

definition GetWindowMonitors :: "maint_faults \<Rightarrow> nat \<Rightarrow> maint_db \<Rightarrow> nat list option" where
  "GetWindowMonitors down i db =
     (if down WinMonitors then None else Some (map snd (filter (\<lambda>(w, _). w = i) (mdb_links db))))"

text \<open>\<open>Inr None\<close> when there is no such window.\<close>

definition win_GetByID :: "maint_faults \<Rightarrow> nat \<Rightarrow> maint_db \<Rightarrow> window_error + window option" where
  "win_GetByID down i db =
     (if down WinGet then Inl WindowDbFailed
      else case List.find (\<lambda>w. wi_id w = i) (mdb_windows db) of
        None \<Rightarrow> Inr None
      | Some w \<Rightarrow>
          (case GetWindowMonitors down i db of
             None \<Rightarrow> Inl WindowDbFailed
           | Some ms \<Rightarrow> Inr (Some (w\<lparr>wi_monitors := ms\<rparr>))))"

definition page_rows :: "int \<Rightarrow> int \<Rightarrow> 'a list \<Rightarrow> 'a list option" where
  "page_rows limit off rs = (if limit < 0 \<or> off < 0 then None else Some (take (nat limit) (drop (nat off) rs)))"

definition GetByUserID :: "maint_faults \<Rightarrow> nat \<Rightarrow> string \<Rightarrow> int \<Rightarrow> int \<Rightarrow> maint_db \<Rightarrow> window list option" where
  "GetByUserID down u st limit off db =
     (if down WinByUser then None
      else page_rows limit off (newest_first wi_created
        (filter (\<lambda>w. wi_user w = u \<and> (st = [] \<or> window_status_text (wi_status w) = st)) (mdb_windows db))))"

definition GetActiveWindowsForMonitor :: "maint_faults \<Rightarrow> nat \<Rightarrow> time \<Rightarrow> maint_db \<Rightarrow> window list option" where
  "GetActiveWindowsForMonitor down m at db =
     (if down WinActiveFor then None
      else Some (sort_key wi_start
        (filter (\<lambda>w. wi_status w = WindowActive \<and> wi_start w \<le> at \<and> at < wi_end w \<and> (wi_global w \<or> linked db (wi_id w) m))
          (mdb_windows db))))"

definition GetActiveWindowsForUser :: "maint_faults \<Rightarrow> nat \<Rightarrow> time \<Rightarrow> maint_db \<Rightarrow> window list option" where
  "GetActiveWindowsForUser down u at db =
     (if down WinActiveFor then None
      else Some (sort_key wi_start
        (filter (\<lambda>w. wi_user w = u \<and> wi_status w = WindowActive \<and> wi_start w \<le> at \<and> at < wi_end w) (mdb_windows db))))"

definition set_window_columns :: "window \<Rightarrow> window \<Rightarrow> window" where
  "set_window_columns w r =
     r\<lparr>wi_name := wi_name w, wi_start := wi_start w, wi_end := wi_end w, wi_status := wi_status w,
       wi_updated := wi_updated w, wi_version := wi_version w\<rparr>"

definition win_Update :: "maint_faults \<Rightarrow> window \<Rightarrow> maint_db \<Rightarrow> maint_db option" where
  "win_Update down w db =
     (let here = (\<lambda>r. wi_id r = wi_id w \<and> wi_version r = wi_version w - 1)
      in if down (WinUpdate (wi_id w)) \<or> \<not> list_ex here (mdb_windows db) \<or> \<not> window_columns_ok w then None
         else Some (db\<lparr>mdb_windows := upd_where here (set_window_columns w) (mdb_windows db)\<rparr>))"

text \<open>The links of the window go with it.\<close>

definition win_Delete :: "maint_faults \<Rightarrow> nat \<Rightarrow> maint_db \<Rightarrow> maint_db option" where
  "win_Delete down i db =
     (if down WinDelete then None
      else Some (db\<lparr>mdb_windows := del_where (\<lambda>w. wi_id w = i) (mdb_windows db),
                   mdb_links := del_where (\<lambda>(w, _). w = i) (mdb_links db)\<rparr>))"

definition CountByUserID :: "maint_faults \<Rightarrow> nat \<Rightarrow> maint_db \<Rightarrow> nat option" where
  "CountByUserID down u db = (if down WinCount then None else Some (count_where (\<lambda>w. wi_user w = u) (mdb_windows db)))"

definition CheckOverlap :: "maint_faults \<Rightarrow> nat \<Rightarrow> nat list \<Rightarrow> time \<Rightarrow> time \<Rightarrow> nat option \<Rightarrow> maint_db \<Rightarrow> bool option" where
  "CheckOverlap down u ms s e without db =
     (if down WinOverlap then None
      else Some (list_ex (\<lambda>w. wi_user w = u \<and> (wi_status w = WindowScheduled \<or> wi_status w = WindowActive)
          \<and> wi_start w < e \<and> s < wi_end w \<and> without \<noteq> Some (wi_id w)
          \<and> (wi_global w \<or> list_ex (linked db (wi_id w)) ms)) (mdb_windows db)))"

definition GetWindowsRequiringActivation :: "maint_faults \<Rightarrow> time \<Rightarrow> maint_db \<Rightarrow> window list option" where
  "GetWindowsRequiringActivation down before db =
     (if down WinActivation then None
      else Some (sort_key wi_start (filter (\<lambda>w. wi_status w = WindowScheduled \<and> wi_start w \<le> before) (mdb_windows db))))"

definition GetWindowsRequiringCompletion :: "maint_faults \<Rightarrow> time \<Rightarrow> maint_db \<Rightarrow> window list option" where
  "GetWindowsRequiringCompletion down before db =
     (if down WinCompletion then None
      else Some (sort_key wi_end (filter (\<lambda>w. wi_status w = WindowActive \<and> wi_end w \<le> before) (mdb_windows db))))"

text \<open>A window appears once, however many of its monitors are asked for.\<close>

definition win_GetHistory :: "maint_faults \<Rightarrow> nat \<Rightarrow> time \<Rightarrow> time \<Rightarrow> nat list \<Rightarrow> int \<Rightarrow> int \<Rightarrow> maint_db \<Rightarrow> window list option" where
  "win_GetHistory down u since till ms limit off db =
     (if down WinHistory then None
      else page_rows limit off (newest_first wi_created
        (filter (\<lambda>w. wi_user w = u \<and> (wi_status w = WindowCompleted \<or> wi_status w = WindowCancelled)
            \<and> since \<le> wi_created w \<and> wi_created w \<le> till \<and> (ms = [] \<or> list_ex (linked db (wi_id w)) ms)) (mdb_windows db))))"

end
