(* ===== verification/MaintenanceService.thy ===== *)
theory MaintenanceService
  imports MaintenanceModel
begin

text \<open>
  Maintenance windows of the monitor service: \<open>monitor-service/internal/service/maintenance_service.go\<close>.
  The environment of a request gives the statements that fail, the UUIDs that texts denote, the clock and the
  limits. Numbers of pages are read as integers. An audit entry that cannot be written is only logged.
\<close>

record window_limits =
  wl_min_minutes :: int
  wl_max_hours :: int
  wl_free :: int
  wl_pro :: int
  wl_enterprise :: int
  wl_max_monitors :: int

definition DefaultWindowLimits :: window_limits where
  "DefaultWindowLimits = \<lparr>wl_min_minutes = 1, wl_max_hours = 24, wl_free = 5, wl_pro = 20, wl_enterprise = 100, wl_max_monitors = 50\<rparr>"

record maint_env =
  mw_down :: maint_faults
  mw_uuid :: "string \<Rightarrow> nat option"
  mw_now :: time
  mw_limits :: window_limits

record window_request =
  wr_user :: string
  wr_name :: string
  wr_start :: time
  wr_end :: time
  wr_recurrence :: string
  wr_global :: bool
  wr_pause :: bool
  wr_suppress :: bool
  wr_safe :: bool
  wr_monitors :: "string list"
  wr_role :: string
  wr_tier :: string

definition maint_log :: "maint_env \<Rightarrow> nat \<Rightarrow> maint_audit \<Rightarrow> maint_db \<Rightarrow> maint_db" where
  "maint_log env u a db = (if mw_down env (WinAudit a) then db else db\<lparr>mdb_audit := mdb_audit db @ [(u, a)]\<rparr>)"

definition getMaxWindowsForTier :: "window_limits \<Rightarrow> string \<Rightarrow> int" where
  "getMaxWindowsForTier wl tier =
     (if tier = ''Pro'' then wl_pro wl else if tier = ''Enterprise'' then wl_enterprise wl else wl_free wl)"

text \<open>Neither conversion carries the monitors over.\<close>

definition toRepoWindow :: "window \<Rightarrow> window" where
  "toRepoWindow w = w\<lparr>wi_monitors := []\<rparr>"

definition toDomainWindow :: "window \<Rightarrow> window" where
  "toDomainWindow w = w\<lparr>wi_monitors := []\<rparr>"

fun parse_ids :: "(string \<Rightarrow> nat option) \<Rightarrow> string list \<Rightarrow> nat list option" where
  "parse_ids p [] = Some []"
| "parse_ids p (t # ts) =
     (case p t of None \<Rightarrow> None | Some i \<Rightarrow> map_option ((#) i) (parse_ids p ts))"

section \<open>Requests\<close>

definition save_window :: "maint_env \<Rightarrow> nat \<Rightarrow> window \<Rightarrow> maint_db \<Rightarrow> maint_db \<times> (window_error + window)" where
  "save_window env u w db =
     (case win_Create (mw_down env) (toRepoWindow w) db of
        None \<Rightarrow> (db, Inl WindowDbFailed)
      | Some db' \<Rightarrow>
          (maint_log env u (AuditCreated (wi_id w) (wi_name w) (wi_recurrence w) (length (wi_monitors w))) db', Inr w))"

definition window_config_of :: "window_limits \<Rightarrow> window_config" where
  "window_config_of wl =
     \<lparr>wc_min_minutes = wl_min_minutes wl, wc_max_hours = wl_max_hours wl, wc_max_monitors = wl_max_monitors wl\<rparr>"

definition create_window :: "maint_env \<Rightarrow> window_request \<Rightarrow> nat \<Rightarrow> nat list \<Rightarrow> maint_db \<Rightarrow> maint_db \<times> (window_error + window)" where
  "create_window env req u ms db =
     (case NewMaintenanceWindow (mw_now env) (mdb_next db) u (wr_name req) (wr_start req) (wr_end req) (wr_recurrence req)
             (wr_global req) (wr_pause req) (wr_suppress req) (wr_safe req) ms (window_config_of (mw_limits env)) of
        Inl err \<Rightarrow> (db, Inl err)
      | Inr w \<Rightarrow>
          let db1 = db\<lparr>mdb_next := Suc (mdb_next db)\<rparr>
          in if ms \<noteq> [] \<and> \<not> wr_global req
             then (case CheckOverlap (mw_down env) u ms (wr_start req) (wr_end req) None db1 of
                     None \<Rightarrow> (db1, Inl WindowDbFailed)
                   | Some True \<Rightarrow> (maint_log env u (AuditOverlapRejected (wr_start req) (wr_end req)) db1, Inl OverlappingWindows)
                   | Some False \<Rightarrow> save_window env u w db1)
             else save_window env u w db1)"

definition CreateMaintenanceWindow :: "maint_env \<Rightarrow> window_request \<Rightarrow> maint_db \<Rightarrow> maint_db \<times> (window_error + window)" where
  "CreateMaintenanceWindow env req db =
     (case mw_uuid env (wr_user req) of
        None \<Rightarrow> (db, Inl BadWindowUser)
      | Some u \<Rightarrow>
          if wr_global req \<and> wr_role req \<noteq> ''ADMIN''
          then (maint_log env u (AuditGlobalDenied (wr_name req)) db, Inl GlobalNotAllowed)
          else case parse_ids (mw_uuid env) (wr_monitors req) of
            None \<Rightarrow> (db, Inl BadWindowMonitor)
          | Some ms \<Rightarrow>
              (case CountByUserID (mw_down env) u db of
                 None \<Rightarrow> (db, Inl WindowDbFailed)
               | Some n \<Rightarrow>
                   let limit = getMaxWindowsForTier (mw_limits env) (wr_tier req)
                   in if limit \<le> int n then (maint_log env u (AuditLimitReached limit n) db, Inl WindowLimitReached)
                      else create_window env req u ms db))"

text \<open>What update, cancel and delete begin with: the window, when it is the user's own.\<close>

definition own_window :: "maint_env \<Rightarrow> string \<Rightarrow> string \<Rightarrow> maint_db \<Rightarrow> window_error + nat \<times> window" where
  "own_window env i u db =
     (case mw_uuid env i of
        None \<Rightarrow> Inl BadWindowID
      | Some wid \<Rightarrow>
          (case mw_uuid env u of
             None \<Rightarrow> Inl BadWindowUser
           | Some uid \<Rightarrow>
               (case win_GetByID (mw_down env) wid db of
                  Inl err \<Rightarrow> Inl err
                | Inr None \<Rightarrow> Inl WindowNotFound
                | Inr (Some w) \<Rightarrow> if wi_user w \<noteq> uid then Inl WindowNotOwned else Inr (uid, w))))"

definition UpdateMaintenanceWindow ::
    "maint_env \<Rightarrow> string \<Rightarrow> string \<Rightarrow> string \<Rightarrow> time \<Rightarrow> time \<Rightarrow> int \<Rightarrow> maint_db \<Rightarrow> maint_db \<times> (window_error + window)" where
  "UpdateMaintenanceWindow env i u name s e v db =
     (case own_window env i u db of
        Inl err \<Rightarrow> (db, Inl err)
      | Inr (uid, r) \<Rightarrow>
          (case UpdateDetails (mw_now env) name s e v (toDomainWindow r) of
             Inl err \<Rightarrow> (db, Inl err)
           | Inr w \<Rightarrow>
               (case GetWindowMonitors (mw_down env) (wi_id r) db of
                  None \<Rightarrow> (db, Inl WindowDbFailed)
                | Some ms \<Rightarrow>
                    (case (if ms = [] then Some False else CheckOverlap (mw_down env) uid ms s e (Some (wi_id r)) db) of
                       None \<Rightarrow> (db, Inl WindowDbFailed)
                     | Some True \<Rightarrow> (db, Inl OverlappingWindows)
                     | Some False \<Rightarrow>
                         (case win_Update (mw_down env) (toRepoWindow w) db of
                            None \<Rightarrow> (db, Inl WindowDbFailed)
                          | Some db' \<Rightarrow> (maint_log env uid AuditUpdated db', Inr w))))))"

definition ListMaintenanceWindows :: "maint_env \<Rightarrow> string \<Rightarrow> string \<Rightarrow> int \<Rightarrow> int \<Rightarrow> maint_db \<Rightarrow>
    maint_db \<times> (window_error + window list \<times> nat)" where
  "ListMaintenanceWindows env u st page_no len db =
     (case mw_uuid env u of
        None \<Rightarrow> (db, Inl BadWindowUser)
      | Some uid \<Rightarrow>
          (case GetByUserID (mw_down env) uid st len ((page_no - 1) * len) db of
             None \<Rightarrow> (db, Inl WindowDbFailed)
           | Some ws \<Rightarrow>
               (case CountByUserID (mw_down env) uid db of
                  None \<Rightarrow> (db, Inl WindowDbFailed)
                | Some n \<Rightarrow> (maint_log env uid (AuditListed (length ws)) db, Inr (map toDomainWindow ws, n)))))"

text \<open>The entry names the status after the change as the old one.\<close>

definition CancelMaintenanceWindow :: "maint_env \<Rightarrow> string \<Rightarrow> string \<Rightarrow> maint_db \<Rightarrow> maint_db \<times> (window_error + window)" where
  "CancelMaintenanceWindow env i u db =
     (case own_window env i u db of
        Inl err \<Rightarrow> (db, Inl err)
      | Inr (uid, r) \<Rightarrow>
          (case window_Cancel (mw_now env) (toDomainWindow r) of
             Inl err \<Rightarrow> (db, Inl err)
           | Inr w \<Rightarrow>
               (case win_Update (mw_down env) (toRepoWindow w) db of
                  None \<Rightarrow> (db, Inl WindowDbFailed)
                | Some db' \<Rightarrow> (maint_log env uid (AuditCancelled (wi_status w)) db', Inr w))))"

definition GetMaintenanceWindowHistory :: "maint_env \<Rightarrow> string \<Rightarrow> time \<Rightarrow> time \<Rightarrow> string list \<Rightarrow> int \<Rightarrow> int \<Rightarrow> maint_db \<Rightarrow>
    window_error + window list \<times> nat" where
  "GetMaintenanceWindowHistory env u since till monitors page_no len db =
     (case mw_uuid env u of
        None \<Rightarrow> Inl BadWindowUser
      | Some uid \<Rightarrow>
          (case parse_ids (mw_uuid env) monitors of
             None \<Rightarrow> Inl BadWindowMonitor
           | Some ms \<Rightarrow>
               (case win_GetHistory (mw_down env) uid since till ms len ((page_no - 1) * len) db of
                  None \<Rightarrow> Inl WindowDbFailed
                | Some ws \<Rightarrow> Inr (map toDomainWindow ws, length ws))))"

definition DeleteMaintenanceWindow :: "maint_env \<Rightarrow> string \<Rightarrow> string \<Rightarrow> maint_db \<Rightarrow> maint_db \<times> window_error option" where
  "DeleteMaintenanceWindow env i u db =
     (case own_window env i u db of
        Inl err \<Rightarrow> (db, Some err)
      | Inr (uid, r) \<Rightarrow>
          (case win_Delete (mw_down env) (wi_id r) db of
             None \<Rightarrow> (db, Some WindowDbFailed)
           | Some db' \<Rightarrow> (maint_log env uid (AuditDeleted (wi_id r) (wi_status r)) db', None)))"

section \<open>The clock\<close>

definition activate_one :: "maint_env \<Rightarrow> window \<Rightarrow> maint_db \<Rightarrow> maint_db" where
  "activate_one env r db =
     (case window_Activate (mw_now env) (toDomainWindow r) of
        Inl _ \<Rightarrow> db
      | Inr w \<Rightarrow>
          (case win_Update (mw_down env) (toRepoWindow w) db of
             None \<Rightarrow> db
           | Some db' \<Rightarrow> maint_log env (wi_user w) (AuditStatusChanged (wi_id w) (wi_status r) WindowActive 0) db'))"

definition ActivateScheduledWindows :: "maint_env \<Rightarrow> maint_db \<Rightarrow> maint_db \<times> window_error option" where
  "ActivateScheduledWindows env db =
     (case GetWindowsRequiringActivation (mw_down env) (mw_now env) db of
        None \<Rightarrow> (db, Some WindowDbFailed)
      | Some ws \<Rightarrow> (fold (activate_one env) ws db, None))"

text \<open>The whole minutes of the window; \<open>int(Duration.Minutes())\<close> is exact below 182 days.\<close>

definition complete_one :: "maint_env \<Rightarrow> window \<Rightarrow> maint_db \<Rightarrow> maint_db" where
  "complete_one env r db =
     (case window_Complete (mw_now env) (toDomainWindow r) of
        Inl _ \<Rightarrow> db
      | Inr w \<Rightarrow>
          (case win_Update (mw_down env) (toRepoWindow w) db of
             None \<Rightarrow> db
           | Some db' \<Rightarrow> maint_log env (wi_user w)
               (AuditStatusChanged (wi_id w) (wi_status r) WindowCompleted ((wi_end r - wi_start r) div minute)) db'))"

definition CompleteActiveWindows :: "maint_env \<Rightarrow> maint_db \<Rightarrow> maint_db \<times> window_error option" where
  "CompleteActiveWindows env db =
     (case GetWindowsRequiringCompletion (mw_down env) (mw_now env) db of
        None \<Rightarrow> (db, Some WindowDbFailed)
      | Some ws \<Rightarrow> (fold (complete_one env) ws db, None))"

section \<open>Histories\<close>

text \<open>The requests and the runs of the clock, and what the monitor service does to the monitors: a new
  monitor, and a deleted one whose links go with it.\<close>

datatype maint_event =
    CreateWindow window_request
  | UpdateWindow string string string time time int
  | ListWindows string string int int
  | CancelWindow string string
  | DeleteWindow string string
  | ActivateWindows
  | CompleteWindows
  | MonitorAdded nat
  | MonitorGone nat

fun maint_step :: "maint_env \<Rightarrow> maint_event \<Rightarrow> maint_db \<Rightarrow> maint_db" where
  "maint_step env (CreateWindow req) db = fst (CreateMaintenanceWindow env req db)"
| "maint_step env (UpdateWindow i u name s e v) db = fst (UpdateMaintenanceWindow env i u name s e v db)"
| "maint_step env (ListWindows u st p n) db = fst (ListMaintenanceWindows env u st p n db)"
| "maint_step env (CancelWindow i u) db = fst (CancelMaintenanceWindow env i u db)"
| "maint_step env (DeleteWindow i u) db = fst (DeleteMaintenanceWindow env i u db)"
| "maint_step env ActivateWindows db = fst (ActivateScheduledWindows env db)"
| "maint_step env CompleteWindows db = fst (CompleteActiveWindows env db)"
| "maint_step env (MonitorAdded m) db = db\<lparr>mdb_known := mdb_known db @ [m]\<rparr>"
| "maint_step env (MonitorGone m) db =
     db\<lparr>mdb_known := del_where (\<lambda>k. k = m) (mdb_known db), mdb_links := del_where (\<lambda>(_, k). k = m) (mdb_links db)\<rparr>"

definition run_maints :: "(maint_env \<times> maint_event) list \<Rightarrow> maint_db \<Rightarrow> maint_db" where
  "run_maints evs db = fold (\<lambda>(env, ev). maint_step env ev) evs db"

lemma run_maints_Nil [simp]: "run_maints [] db = db"
  by (simp add: run_maints_def)

lemma run_maints_Cons [simp]: "run_maints ((env, ev) # evs) db = run_maints evs (maint_step env ev db)"
  by (simp add: run_maints_def)

end
