(* ===== verification/MaintenanceOutcomes.thy ===== *)
theory MaintenanceOutcomes
  imports MaintenanceService
begin

text \<open>
  What histories of the maintenance windows keep. Every operation is a sequence of moves on the tables
  (\<open>maint_move\<close>); a condition that each move keeps holds in every history (locale \<open>window_invariant\<close>), and the
  moves are simulated by the transitions of \<open>window_CanTransitionTo\<close> on the status of each window.
\<close>

section \<open>Moves\<close>

definition status_follows :: "window \<Rightarrow> window \<Rightarrow> bool" where
  "status_follows r w \<longleftrightarrow>
     wi_status w = WindowScheduled \<and> wi_status r = WindowScheduled \<or> window_CanTransitionTo (wi_status r) (wi_status w)"

inductive maint_move :: "maint_db \<Rightarrow> maint_db \<Rightarrow> bool" where
  logged: "maint_move db (db\<lparr>mdb_audit := a\<rparr>)"
| drawn: "maint_move db (db\<lparr>mdb_next := Suc (mdb_next db)\<rparr>)"
| inserted: "win_Create down w (db\<lparr>mdb_next := Suc (mdb_next db)\<rparr>) = Some db' \<Longrightarrow> wi_id w = mdb_next db \<Longrightarrow>
    wi_status w = WindowScheduled \<Longrightarrow> wi_monitors w = [] \<Longrightarrow> maint_move db db'"
| replaced: "win_Update down w db = Some db' \<Longrightarrow> r \<in> set (mdb_windows db) \<Longrightarrow> wi_id w = wi_id r \<Longrightarrow>
    wi_version w = wi_version r + 1 \<Longrightarrow> status_follows r w \<Longrightarrow> maint_move db db'"
| removed: "win_Delete down i db = Some db' \<Longrightarrow> maint_move db db'"
| known: "maint_move db (db\<lparr>mdb_known := ks, mdb_links := del_where p (mdb_links db)\<rparr>)"

definition rows_ok :: "maint_db \<Rightarrow> bool" where
  "rows_ok db \<longleftrightarrow> distinct (map wi_id (mdb_windows db))
     \<and> list_all (\<lambda>w. wi_id w < mdb_next db \<and> wi_monitors w = []) (mdb_windows db)"

lemma set_window_columns_fields [simp]:
  "wi_id (set_window_columns w r) = wi_id r" "wi_monitors (set_window_columns w r) = wi_monitors r"
  "wi_status (set_window_columns w r) = wi_status w" "wi_version (set_window_columns w r) = wi_version w"
  "wi_global (set_window_columns w r) = wi_global r" "wi_user (set_window_columns w r) = wi_user r"
  by (simp_all add: set_window_columns_def)

lemma win_Update_SomeD:
  assumes "win_Update down w db = Some db'"
  shows "db' = db\<lparr>mdb_windows := upd_where (\<lambda>r. wi_id r = wi_id w \<and> wi_version r = wi_version w - 1)
      (set_window_columns w) (mdb_windows db)\<rparr>"
  using assms by (auto simp: win_Update_def Let_def split: if_splits)

lemma win_Create_SomeD:
  assumes "win_Create down w db = Some db'" and "wi_monitors w = []"
  shows "db' = db\<lparr>mdb_windows := mdb_windows db @ [w]\<rparr>"
proof -
  have "w\<lparr>wi_monitors := []\<rparr> = w" using assms(2) by simp
  then show ?thesis using assms by (auto simp: win_Create_def Let_def split: if_splits)
qed

lemma rows_ok_move:
  assumes "maint_move db db'" and "rows_ok db"
  shows "rows_ok db'"
  using assms
proof (cases rule: maint_move.cases)
  case (inserted down w)
  then show ?thesis
    using assms(2) win_Create_SomeD [OF inserted(1,4)] by (fastforce simp: rows_ok_def list_all_iff)
next
  case (replaced down w r)
  then show ?thesis
    using assms(2) win_Update_SomeD [OF replaced(1)]
    by (auto simp: rows_ok_def list_all_iff elim!: in_upd_whereE)
next
  case (removed down i)
  then show ?thesis
    using assms(2)
    by (auto simp: rows_ok_def list_all_iff win_Delete_def distinct_key_del_where split: if_splits)
qed (auto simp: rows_ok_def list_all_iff)

lemma rows_ok_moves: "maint_move\<^sup>*\<^sup>* db db' \<Longrightarrow> rows_ok db \<Longrightarrow> rows_ok db'"
  by (induction rule: rtranclp_induct) (auto intro: rows_ok_move)

section \<open>Every operation is a sequence of moves\<close>

lemma log_move: "maint_move\<^sup>*\<^sup>* db db' \<Longrightarrow> maint_move\<^sup>*\<^sup>* db (maint_log env u a db')"
  by (auto simp: maint_log_def intro: rtranclp.rtrancl_into_rtrancl maint_move.logged)

lemma one_move: "maint_move db db' \<Longrightarrow> maint_move\<^sup>*\<^sup>* db db'"
  by auto

lemma created_window:
  assumes "NewMaintenanceWindow now i u name s e recur g p a safe ms cfg = Inr w"
  shows "wi_id w = i \<and> wi_status w = WindowScheduled \<and> wi_user w = u \<and> wi_monitors w = ms \<and> wi_global w = g \<and> wi_version w = 1"
  using assms by (auto simp: NewMaintenanceWindow_def split: option.splits)

lemma save_moves:
  assumes "wi_id w = mdb_next db" and "wi_status w = WindowScheduled"
  shows "maint_move\<^sup>*\<^sup>* db (fst (save_window env u w (db\<lparr>mdb_next := Suc (mdb_next db)\<rparr>)))"
proof (cases "win_Create (mw_down env) (toRepoWindow w) (db\<lparr>mdb_next := Suc (mdb_next db)\<rparr>)")
  case None
  then show ?thesis by (auto simp: save_window_def intro: maint_move.drawn)
next
  case (Some db')
  then have "maint_move db db'"
    using assms by (auto simp: toRepoWindow_def intro: maint_move.inserted)
  then show ?thesis by (auto simp: save_window_def Some intro!: log_move)
qed

lemma create_moves: "maint_move\<^sup>*\<^sup>* db (fst (create_window env req u ms db))"
proof (cases "NewMaintenanceWindow (mw_now env) (mdb_next db) u (wr_name req) (wr_start req) (wr_end req) (wr_recurrence req)
             (wr_global req) (wr_pause req) (wr_suppress req) (wr_safe req) ms (window_config_of (mw_limits env))")
  case (Inr w)
  note w = created_window [OF Inr]
  have saved: "maint_move\<^sup>*\<^sup>* db (fst (save_window env u w (db\<lparr>mdb_next := Suc (mdb_next db)\<rparr>)))"
    using w by (intro save_moves) auto
  have drawn: "maint_move\<^sup>*\<^sup>* db (db\<lparr>mdb_next := Suc (mdb_next db)\<rparr>)"
    by (intro one_move maint_move.drawn)
  show ?thesis
    using saved drawn log_move [OF drawn]
    by (auto simp: create_window_def Inr Let_def split: option.splits bool.splits)
qed (simp add: create_window_def)

lemma find_row:
  assumes "win_GetByID down i db = Inr (Some r)" and "rows_ok db"
  shows "toDomainWindow r \<in> set (mdb_windows db) \<and> wi_id r = i"
proof -
  obtain w where w: "List.find (\<lambda>w. wi_id w = i) (mdb_windows db) = Some w"
      "toDomainWindow r = toDomainWindow w" "wi_id r = wi_id w"
    using assms(1) by (auto simp: win_GetByID_def toDomainWindow_def split: if_splits option.splits)
  note in_table = find_Some_inD [OF w(1)]
  then have "toDomainWindow w = w" using assms(2) by (auto simp: rows_ok_def list_all_iff toDomainWindow_def)
  then show ?thesis using in_table w by simp
qed

lemma own_window_row:
  assumes "own_window env i u db = Inr (uid, r)" and "rows_ok db"
  shows "toDomainWindow r \<in> set (mdb_windows db)"
  using assms(1) find_row [OF _ assms(2)]
  by (auto simp: own_window_def split: option.splits sum.splits if_splits)

text \<open>The four operations of the model that change a window.\<close>

definition changes_window :: "window \<Rightarrow> window \<Rightarrow> bool" where
  "changes_window r w \<longleftrightarrow> wi_id w = wi_id r \<and> wi_version w = wi_version r + 1 \<and> status_follows r w"

lemma UpdateDetails_changes: "UpdateDetails now name s e v r = Inr w \<Longrightarrow> changes_window r w"
  by (auto simp: UpdateDetails_def changes_window_def status_follows_def split: if_splits option.splits)

lemma Cancel_changes: "window_Cancel now r = Inr w \<Longrightarrow> changes_window r w"
  by (auto simp: window_Cancel_def changes_window_def status_follows_def window_CanTransitionTo_def
      split: if_splits window_status.splits)

lemma Activate_changes: "window_Activate now r = Inr w \<Longrightarrow> changes_window r w"
  by (auto simp: window_Activate_def changes_window_def status_follows_def window_CanTransitionTo_def split: if_splits)

lemma Complete_changes: "window_Complete now r = Inr w \<Longrightarrow> changes_window r w"
  by (auto simp: window_Complete_def changes_window_def status_follows_def window_CanTransitionTo_def split: if_splits)

lemmas window_changes = UpdateDetails_changes Cancel_changes Activate_changes Complete_changes

lemma update_move:
  assumes "win_Update down (toRepoWindow w) db = Some db'" and "r \<in> set (mdb_windows db)" and "changes_window r w"
  shows "maint_move\<^sup>*\<^sup>* db db'"
  using assms by (intro one_move maint_move.replaced [OF assms(1)])
    (auto simp: changes_window_def status_follows_def toRepoWindow_def)

text \<open>A loop over rows of the table, each of which it may change.\<close>

lemma fold_moves:
  assumes move: "\<And>r d. r \<in> set (mdb_windows d) \<Longrightarrow> rows_ok d \<Longrightarrow> maint_move\<^sup>*\<^sup>* d (f r d)"
    and others: "\<And>r d x. x \<in> set (mdb_windows d) \<Longrightarrow> wi_id x \<noteq> wi_id r \<Longrightarrow> x \<in> set (mdb_windows (f r d))"
    and "distinct (map wi_id ws)" and "set ws \<subseteq> set (mdb_windows db)" and "rows_ok db"
  shows "maint_move\<^sup>*\<^sup>* db (fold f ws db)"
  using assms(3-)
proof (induction ws arbitrary: db)
  case (Cons r ws)
  have here: "maint_move\<^sup>*\<^sup>* db (f r db)" using Cons.prems by (intro move) auto
  have "x \<in> set (mdb_windows (f r db))" if "x \<in> set ws" for x
  proof (rule others)
    show "x \<in> set (mdb_windows db)" using Cons.prems(2) that by auto
    show "wi_id x \<noteq> wi_id r" using Cons.prems(1) that by (metis distinct.simps(2) image_eqI list.set_map list.simps(9))
  qed
  then have "maint_move\<^sup>*\<^sup>* (f r db) (fold f ws (f r db))"
    using Cons.prems rows_ok_moves [OF here] by (intro Cons.IH) auto
  then show ?case using here by simp
qed simp

lemma sorted_rows:
  "rows_ok db \<Longrightarrow> distinct (map wi_id (sort_key k (filter p (mdb_windows db))))"
  by (auto simp: rows_ok_def distinct_map intro: inj_on_subset)

lemma conversions_keep [simp]: "wi_id (toDomainWindow r) = wi_id r" "wi_id (toRepoWindow r) = wi_id r"
  by (simp_all add: toDomainWindow_def toRepoWindow_def)

lemma domain_row: "r \<in> set (mdb_windows db) \<Longrightarrow> rows_ok db \<Longrightarrow> toDomainWindow r = r"
  by (auto simp: rows_ok_def list_all_iff toDomainWindow_def)

lemma log_windows [simp]: "mdb_windows (maint_log env u a db) = mdb_windows db" "mdb_links (maint_log env u a db) = mdb_links db"
  by (simp_all add: maint_log_def)

lemma update_others:
  "win_Update down w db = Some db' \<Longrightarrow> x \<in> set (mdb_windows db) \<Longrightarrow> wi_id x \<noteq> wi_id w \<Longrightarrow> x \<in> set (mdb_windows db')"
  by (drule win_Update_SomeD) (auto simp: set_upd_where)

lemma activate_one_moves:
  "r \<in> set (mdb_windows db) \<Longrightarrow> rows_ok db \<Longrightarrow> maint_move\<^sup>*\<^sup>* db (activate_one env r db)"
  by (auto simp: activate_one_def domain_row split: sum.splits option.splits
      intro!: log_move dest: Activate_changes update_move)

lemma activate_one_others:
  "x \<in> set (mdb_windows db) \<Longrightarrow> wi_id x \<noteq> wi_id r \<Longrightarrow> x \<in> set (mdb_windows (activate_one env r db))"
  by (auto simp: activate_one_def changes_window_def split: sum.splits option.splits dest!: Activate_changes intro: update_others)

lemma complete_one_moves:
  "r \<in> set (mdb_windows db) \<Longrightarrow> rows_ok db \<Longrightarrow> maint_move\<^sup>*\<^sup>* db (complete_one env r db)"
  by (auto simp: complete_one_def domain_row split: sum.splits option.splits
      intro!: log_move dest: Complete_changes update_move)

lemma complete_one_others:
  "x \<in> set (mdb_windows db) \<Longrightarrow> wi_id x \<noteq> wi_id r \<Longrightarrow> x \<in> set (mdb_windows (complete_one env r db))"
  by (auto simp: complete_one_def changes_window_def split: sum.splits option.splits dest!: Complete_changes intro: update_others)

lemma activate_moves: "rows_ok db \<Longrightarrow> maint_move\<^sup>*\<^sup>* db (fst (ActivateScheduledWindows env db))"
  by (auto simp: ActivateScheduledWindows_def GetWindowsRequiringActivation_def sorted_rows split: option.splits
      intro!: fold_moves activate_one_moves activate_one_others)

lemma complete_moves: "rows_ok db \<Longrightarrow> maint_move\<^sup>*\<^sup>* db (fst (CompleteActiveWindows env db))"
  by (auto simp: CompleteActiveWindows_def GetWindowsRequiringCompletion_def sorted_rows split: option.splits
      intro!: fold_moves complete_one_moves complete_one_others)

lemma create_request_moves: "maint_move\<^sup>*\<^sup>* db (fst (CreateMaintenanceWindow env req db))"
  by (auto simp: CreateMaintenanceWindow_def Let_def create_moves split: option.splits intro!: log_move)

lemma update_request_moves:
  "rows_ok db \<Longrightarrow> maint_move\<^sup>*\<^sup>* db (fst (UpdateMaintenanceWindow env i u name s e v db))"
  by (auto simp: UpdateMaintenanceWindow_def split: option.splits sum.splits bool.splits prod.splits
      intro!: log_move dest!: UpdateDetails_changes own_window_row intro: update_move)

lemma cancel_request_moves: "rows_ok db \<Longrightarrow> maint_move\<^sup>*\<^sup>* db (fst (CancelMaintenanceWindow env i u db))"
  by (auto simp: CancelMaintenanceWindow_def split: option.splits sum.splits prod.splits
      intro!: log_move dest!: Cancel_changes own_window_row intro: update_move)

lemma delete_request_moves: "maint_move\<^sup>*\<^sup>* db (fst (DeleteMaintenanceWindow env i u db))"
  by (auto simp: DeleteMaintenanceWindow_def split: option.splits sum.splits prod.splits
      intro!: log_move intro: r_into_rtranclp maint_move.removed)

lemma list_moves: "maint_move\<^sup>*\<^sup>* db (fst (ListMaintenanceWindows env u st p n db))"
  by (auto simp: ListMaintenanceWindows_def split: option.splits intro!: log_move)

lemma monitor_moves:
  "maint_move\<^sup>*\<^sup>* db (maint_step env (MonitorAdded m) db)" "maint_move\<^sup>*\<^sup>* db (maint_step env (MonitorGone m) db)"
  using maint_move.known [of db "\<lambda>_. False" "mdb_known db @ [m]"] maint_move.known [of db]
  by (auto simp: del_where_def intro!: one_move)

lemmas request_moves =
  create_request_moves update_request_moves cancel_request_moves delete_request_moves list_moves activate_moves complete_moves

lemma step_moves: "rows_ok db \<Longrightarrow> maint_move\<^sup>*\<^sup>* db (maint_step env ev db)"
  using monitor_moves by (cases ev) (simp_all add: request_moves)

lemma history_moves: "rows_ok db \<Longrightarrow> maint_move\<^sup>*\<^sup>* db (run_maints evs db)"
proof (induction evs arbitrary: db)
  case (Cons e evs)
  obtain env ev where e: "e = (env, ev)" by (cases e)
  have "maint_move\<^sup>*\<^sup>* db (maint_step env ev db)" using Cons.prems by (rule step_moves)
  moreover have "maint_move\<^sup>*\<^sup>* (maint_step env ev db) (run_maints evs (maint_step env ev db))"
    using Cons.prems rows_ok_moves [OF calculation] by (intro Cons.IH) auto
  ultimately show ?case by (simp add: e)
qed simp

section \<open>What every history keeps\<close>

locale window_invariant =
  fixes P :: "maint_db \<Rightarrow> bool"
  assumes kept: "maint_move db db' \<Longrightarrow> rows_ok db \<Longrightarrow> P db \<Longrightarrow> P db'"
begin

lemma moves: "maint_move\<^sup>*\<^sup>* db db' \<Longrightarrow> rows_ok db \<Longrightarrow> P db \<Longrightarrow> P db'"
  by (induction rule: rtranclp_induct) (auto intro: kept rows_ok_moves)

lemma history: "rows_ok db \<Longrightarrow> P db \<Longrightarrow> P (run_maints evs db)"
  by (rule moves [OF history_moves])

end

text \<open>The rows that a move replaces: the one with the identifier of the new window.\<close>

lemma replaced_rows:
  assumes "rows_ok db" and "r \<in> set (mdb_windows db)" and "wi_id w = wi_id r" and "wi_version w = wi_version r + 1"
    and "win_Update down w db = Some db'"
  shows "db' = db\<lparr>mdb_windows := upd_where (\<lambda>x. wi_id x = wi_id r) (set_window_columns w) (mdb_windows db)\<rparr>"
proof -
  have "x = r" if "x \<in> set (mdb_windows db)" "wi_id x = wi_id r" for x
    using assms(1,2) that distinct_key_eq [of wi_id] by (auto simp: rows_ok_def)
  then have "(wi_id x = wi_id w \<and> wi_version x = wi_version w - 1) \<longleftrightarrow> wi_id x = wi_id r" if "x \<in> set (mdb_windows db)" for x
    using assms(3,4) that by auto
  then show ?thesis using win_Update_SomeD [OF assms(5)] by (auto simp: upd_where_def)
qed

definition no_links :: "maint_db \<Rightarrow> bool" where
  "no_links db \<longleftrightarrow> mdb_links db = []"

interpretation unlinked: window_invariant no_links
proof
  fix db db'
  assume "maint_move db db'" and "rows_ok db" and "no_links db"
  then show "no_links db'"
    by (cases rule: maint_move.cases)
      (auto simp: no_links_def del_where_def win_Delete_def dest!: win_Create_SomeD win_Update_SomeD split: if_splits)
qed

text \<open>A window that is over, and one whose version has moved on.\<close>

definition window_over :: "window \<Rightarrow> bool" where
  "window_over w \<longleftrightarrow> wi_status w \<noteq> WindowScheduled \<and> wi_status w \<noteq> WindowActive"

definition only_as :: "window \<Rightarrow> maint_db \<Rightarrow> bool" where
  "only_as w db \<longleftrightarrow> window_over w \<and> wi_id w < mdb_next db \<and> list_all (\<lambda>x. wi_id x = wi_id w \<longrightarrow> x = w) (mdb_windows db)"

lemma over_not_changed: "window_over r \<Longrightarrow> \<not> status_follows r w"
  by (auto simp: window_over_def status_follows_def window_CanTransitionTo_def split: window_status.splits)

interpretation over: window_invariant "only_as w" for w
proof
  fix db db'
  assume move: "maint_move db db'" and "rows_ok db" and only: "only_as w db"
  from move show "only_as w db'"
  proof (cases rule: maint_move.cases)
    case (inserted down v)
    then show ?thesis using only win_Create_SomeD [OF inserted(1,4)] by (auto simp: only_as_def)
  next
    case (replaced down v r)
    have "wi_id r \<noteq> wi_id w"
      using replaced(2,5) only over_not_changed [of w v] by (auto simp: only_as_def list_all_iff)
    then show ?thesis
      using only replaced_rows [OF \<open>rows_ok db\<close> replaced(2-4,1)] by (auto simp: only_as_def list_all_iff set_upd_where)
  next
    case (removed down i)
    then show ?thesis using only by (auto simp: only_as_def list_all_iff win_Delete_def split: if_splits)
  qed (use only in \<open>auto simp: only_as_def\<close>)
qed

definition newer_than :: "window \<Rightarrow> maint_db \<Rightarrow> bool" where
  "newer_than r db \<longleftrightarrow> wi_id r < mdb_next db
     \<and> list_all (\<lambda>x. wi_id x = wi_id r \<longrightarrow> wi_version r < wi_version x) (mdb_windows db)"

interpretation newer: window_invariant "newer_than r" for r
proof
  fix db db'
  assume move: "maint_move db db'" and "rows_ok db" and new: "newer_than r db"
  from move show "newer_than r db'"
  proof (cases rule: maint_move.cases)
    case (inserted down v)
    then show ?thesis using new win_Create_SomeD [OF inserted(1,4)] by (auto simp: newer_than_def)
  next
    case (replaced down v r')
    then show ?thesis
      using new replaced_rows [OF \<open>rows_ok db\<close> replaced(2-4,1)] by (auto simp: newer_than_def list_all_iff set_upd_where)
  next
    case (removed down i)
    then show ?thesis using new by (auto simp: newer_than_def list_all_iff win_Delete_def split: if_splits)
  qed (use new in \<open>auto simp: newer_than_def\<close>)
qed

section \<open>Refinement of the transitions\<close>

text \<open>The abstract machine: the status of each window that exists, and the next identifier.\<close>

type_synonym phases = "(nat \<rightharpoonup> window_status) \<times> nat"

definition phases_of :: "maint_db \<Rightarrow> phases" where
  "phases_of db = (\<lambda>i. map_option wi_status (List.find (\<lambda>w. wi_id w = i) (mdb_windows db)), mdb_next db)"

inductive phase_step :: "phases \<Rightarrow> phases \<Rightarrow> bool" where
  unused: "phase_step (p, n) (p, Suc n)"
| scheduled: "phase_step (p, n) (p(n \<mapsto> WindowScheduled), Suc n)"
| moved: "p i = Some s \<Longrightarrow> window_CanTransitionTo s t \<Longrightarrow> phase_step (p, n) (p(i \<mapsto> t), n)"
| gone: "phase_step (p, n) (p(i := None), n)"

lemma phases_insert:
  assumes "rows_ok db" and "wi_id w = mdb_next db"
  shows "phases_of (db\<lparr>mdb_next := Suc (mdb_next db), mdb_windows := mdb_windows db @ [w]\<rparr>)
    = ((fst (phases_of db))(mdb_next db \<mapsto> wi_status w), Suc (mdb_next db))"
proof -
  have "List.find (\<lambda>x. wi_id x = mdb_next db) (mdb_windows db) = None"
    using assms(1) by (auto simp: find_None_iff rows_ok_def list_all_iff)
  then show ?thesis
    using assms(2) by (auto simp: phases_of_def find_append fun_eq_iff split: option.splits)
qed

lemma phases_upd:
  assumes "r \<in> set (mdb_windows db)"
  shows "phases_of (db\<lparr>mdb_windows := upd_where (\<lambda>x. wi_id x = wi_id r) (set_window_columns w) (mdb_windows db)\<rparr>)
    = ((fst (phases_of db))(wi_id r \<mapsto> wi_status w), mdb_next db)"
proof -
  let ?upd = "upd_where (\<lambda>x. wi_id x = wi_id r) (set_window_columns w) (mdb_windows db)"
  have "map_option wi_status (List.find (\<lambda>x. wi_id x = i) ?upd)
      = (if i = wi_id r then Some (wi_status w) else map_option wi_status (List.find (\<lambda>x. wi_id x = i) (mdb_windows db)))" for i
  proof (cases "List.find (\<lambda>x. wi_id x = i) (mdb_windows db)")
    case None
    then have "i \<noteq> wi_id r" using assms by (auto simp: find_None_iff)
    then show ?thesis using None by (simp add: find_upd_kept)
  next
    case (Some x)
    then show ?thesis using find_Some_inD [OF Some] by (simp add: find_upd_kept)
  qed
  then show ?thesis by (simp add: phases_of_def fun_eq_iff)
qed

lemma phase_at:
  assumes "rows_ok db" and "r \<in> set (mdb_windows db)"
  shows "fst (phases_of db) (wi_id r) = Some (wi_status r)"
proof (cases "List.find (\<lambda>x. wi_id x = wi_id r) (mdb_windows db)")
  case None
  then show ?thesis using assms(2) by (auto simp: find_None_iff)
next
  case (Some x)
  then have "x = r"
    using find_Some_inD [OF Some] assms by (auto simp: rows_ok_def intro: distinct_key_eq [of wi_id])
  then show ?thesis using Some by (simp add: phases_of_def)
qed

lemma find_del_where:
  "List.find (\<lambda>x. k x = j) (del_where (\<lambda>x. k x = i) rs) = (if j = i then None else List.find (\<lambda>x. k x = j) rs)"
  by (induction rs) (auto simp: del_where_def)

lemma move_phases:
  assumes "maint_move db db'" and "rows_ok db"
  shows "phase_step\<^sup>=\<^sup>= (phases_of db) (phases_of db')"
  using assms(1)
proof (cases rule: maint_move.cases)
  case (inserted down w)
  then have "db' = db\<lparr>mdb_next := Suc (mdb_next db), mdb_windows := mdb_windows db @ [w]\<rparr>"
    using win_Create_SomeD [OF inserted(1,4)] by simp
  then have "phases_of db' = ((fst (phases_of db))(mdb_next db \<mapsto> WindowScheduled), Suc (mdb_next db))"
    using phases_insert [OF assms(2) inserted(2)] inserted(3) by simp
  then show ?thesis using phase_step.scheduled [of "fst (phases_of db)" "mdb_next db"] by (simp add: phases_of_def)
next
  case (replaced down w r)
  note at = phase_at [OF assms(2) replaced(2)]
  have "phases_of db' = ((fst (phases_of db))(wi_id r \<mapsto> wi_status w), mdb_next db)"
    using replaced_rows [OF assms(2) replaced(2-4,1)] phases_upd [OF replaced(2)] by simp
  moreover have "phases_of db = (fst (phases_of db), mdb_next db)" by (simp add: phases_of_def)
  moreover have "phase_step (fst (phases_of db), mdb_next db) ((fst (phases_of db))(wi_id r \<mapsto> wi_status w), mdb_next db)"
    if "window_CanTransitionTo (wi_status r) (wi_status w)"
    using at that by (rule phase_step.moved)
  moreover have "(fst (phases_of db))(wi_id r \<mapsto> wi_status w) = fst (phases_of db)" if "wi_status w = wi_status r"
    using at that by (simp add: fun_upd_idem)
  ultimately show ?thesis using replaced(5) by (auto simp: status_follows_def)
next
  case (removed down i)
  then have "phases_of db' = ((fst (phases_of db))(i := None), mdb_next db)"
    by (auto simp: phases_of_def win_Delete_def find_del_where fun_eq_iff split: if_splits)
  then show ?thesis using phase_step.gone [of "fst (phases_of db)" "mdb_next db" i] by (simp add: phases_of_def)
qed (auto simp: phases_of_def intro: phase_step.unused)

definition phases_reached :: "phases \<Rightarrow> maint_db \<Rightarrow> bool" where
  "phases_reached p db \<longleftrightarrow> phase_step\<^sup>*\<^sup>* p (phases_of db)"

interpretation simulated: window_invariant "phases_reached p" for p
proof
  fix db db'
  assume "maint_move db db'" and "rows_ok db" and "phases_reached p db"
  then show "phases_reached p db'"
    using move_phases [of db db'] rtranclp.rtrancl_into_rtrancl [of phase_step p "phases_of db" "phases_of db'"]
    by (auto simp: phases_reached_def)
qed

section \<open>Properties\<close>

text \<open>An administrator and a user, whose texts denote the number 1, and the monitor 5.\<close>

definition demo_maint_env :: "time \<Rightarrow> maint_env" where
  "demo_maint_env now = \<lparr>mw_down = (\<lambda>_. False),
     mw_uuid = (\<lambda>t. if t = ''u'' then Some 1 else if t = ''m'' then Some 5 else if t = ''0'' then Some 0 else None),
     mw_now = now, mw_limits = DefaultWindowLimits\<rparr>"

definition demo_window_request :: "bool \<Rightarrow> window_request" where
  "demo_window_request glob =
     \<lparr>wr_user = ''u'', wr_name = ''patch'', wr_start = 100 * second, wr_end = 700 * second, wr_recurrence = ''DAILY'',
      wr_global = glob, wr_pause = True, wr_suppress = True, wr_safe = False,
      wr_monitors = (if glob then [] else [''m'']), wr_role = ''ADMIN'', wr_tier = ''Free''\<rparr>"

definition demo_maint_db :: maint_db where
  "demo_maint_db = \<lparr>mdb_windows = [], mdb_links = [], mdb_known = [5], mdb_audit = [], mdb_next = 0\<rparr>"

definition two_windows :: "(maint_env \<times> maint_event) list" where
  "two_windows =
     [(demo_maint_env 0, CreateWindow (demo_window_request False)), (demo_maint_env 0, CreateWindow (demo_window_request True)),
      (demo_maint_env (200 * second), ActivateWindows)]"

definition demo_row :: "bool \<Rightarrow> nat \<Rightarrow> window_status \<Rightarrow> time \<Rightarrow> int \<Rightarrow> window" where
  "demo_row glob i st upd v =
     \<lparr>wi_id = i, wi_user = 1, wi_name = ''patch'', wi_start = 100 * second, wi_end = 700 * second, wi_status = st,
      wi_recurrence = ''DAILY'', wi_global = glob, wi_pause = True, wi_suppress = True, wi_safe = False, wi_monitors = [],
      wi_created = 0, wi_updated = upd, wi_activated = None, wi_completed = None, wi_version = v\<rparr>"

lemmas demo_maint_simps =
  two_windows_def demo_maint_env_def demo_window_request_def demo_maint_db_def demo_row_def DefaultWindowLimits_def
  CreateMaintenanceWindow_def create_window_def save_window_def NewMaintenanceWindow_def window_config_of_def
  getMaxWindowsForTier_def CountByUserID_def CheckOverlap_def win_Create_def window_columns_ok_def maint_log_def
  validateWindowName_def validateTimeRange_def validateDuration_def validateRecurrence_def validateNotInPast_def
  validateMonitorsPerWindow_def recurrence_types_def toRepoWindow_def toDomainWindow_def char_count_def
  ActivateScheduledWindows_def GetWindowsRequiringActivation_def activate_one_def window_Activate_def
  CompleteActiveWindows_def GetWindowsRequiringCompletion_def complete_one_def window_Complete_def
  win_Update_def upd_where_def set_window_columns_def Let_def

lemma demo_rows: "mdb_windows (run_maints two_windows demo_maint_db)
   = [demo_row False 0 WindowActive (200 * second) 2, demo_row True 1 WindowActive (200 * second) 2]"
  by (simp add: demo_maint_simps)

text \<open>
  Property C25. No window ever covers a monitor it was created for: whatever is asked for, the windows that hold
  for a monitor are the global ones, as the row that is stored has lost its monitors.
\<close>
theorem windows_cover_no_monitor:
  assumes "rows_ok db" and "mdb_links db = []"
    and "GetActiveWindowsForMonitor down m at (run_maints evs db) = Some ws"
  shows "list_all wi_global ws"
proof -
  have "mdb_links (run_maints evs db) = []"
    using unlinked.history [OF assms(1)] assms(2) by (simp add: no_links_def)
  then show ?thesis
    using assms(3) by (auto simp: GetActiveWindowsForMonitor_def linked_def list_all_iff split: if_splits)
qed

theorem windows_cover_no_monitor_witness:
  "GetActiveWindowsForMonitor (\<lambda>_. False) 5 (300 * second) (run_maints two_windows demo_maint_db)
      = Some [demo_row True 1 WindowActive (200 * second) 2]
   \<and> list_all wi_global [demo_row True 1 WindowActive (200 * second) 2]"
proof -
  have got: "GetActiveWindowsForMonitor (\<lambda>_. False) 5 (300 * second) (run_maints two_windows demo_maint_db)
      = Some [demo_row True 1 WindowActive (200 * second) 2]"
    by (simp add: GetActiveWindowsForMonitor_def demo_rows demo_row_def linked_def)
      (simp add: demo_maint_simps)
  moreover have "rows_ok demo_maint_db" "mdb_links demo_maint_db = []"
    by (simp_all add: rows_ok_def demo_maint_db_def)
  ultimately show ?thesis using windows_cover_no_monitor [OF _ _ got] by blast
qed

text \<open>
  A window that is over never comes back: in every history it is the same row until it is deleted.
  Its recurrence has no effect: a window of every day is over after the first.
\<close>
theorem finished_windows_stay:
  assumes "rows_ok db" and "w \<in> set (mdb_windows db)" and "window_over w"
  shows "List.find (\<lambda>x. wi_id x = wi_id w) (mdb_windows (run_maints evs db)) \<in> {None, Some w}"
proof -
  have "x = w" if "x \<in> set (mdb_windows db)" "wi_id x = wi_id w" for x
    using assms(1,2) that distinct_key_eq [of wi_id] by (auto simp: rows_ok_def)
  then have "only_as w db" using assms by (auto simp: only_as_def rows_ok_def list_all_iff)
  then have "only_as w (run_maints evs db)" by (rule over.history [OF assms(1)])
  then show ?thesis
    by (cases "List.find (\<lambda>x. wi_id x = wi_id w) (mdb_windows (run_maints evs db))")
      (auto simp: only_as_def list_all_iff dest!: find_Some_inD)
qed

definition daily_done :: window where
  "daily_done = demo_row False 0 WindowCompleted (800 * second) 3"

theorem finished_windows_stay_witness:
  "daily_done \<in> set (mdb_windows (run_maints (two_windows @ [(demo_maint_env (800 * second), CompleteWindows)]) demo_maint_db))
   \<and> List.find (\<lambda>x. wi_id x = 0) (mdb_windows (run_maints [(demo_maint_env (90000 * second), ActivateWindows)]
       (demo_maint_db\<lparr>mdb_windows := [daily_done], mdb_next := 1\<rparr>))) \<in> {None, Some daily_done}"
proof
  show "daily_done \<in> set (mdb_windows (run_maints (two_windows @ [(demo_maint_env (800 * second), CompleteWindows)]) demo_maint_db))"
    by (simp add: daily_done_def demo_maint_simps)
  have "rows_ok (demo_maint_db\<lparr>mdb_windows := [daily_done], mdb_next := 1\<rparr>)"
    by (simp add: rows_ok_def daily_done_def demo_row_def)
  moreover have "window_over daily_done" "wi_id daily_done = 0"
    by (simp_all add: daily_done_def demo_row_def window_over_def)
  ultimately show "List.find (\<lambda>x. wi_id x = 0) (mdb_windows (run_maints [(demo_maint_env (90000 * second), ActivateWindows)]
       (demo_maint_db\<lparr>mdb_windows := [daily_done], mdb_next := 1\<rparr>))) \<in> {None, Some daily_done}"
    using finished_windows_stay [of "demo_maint_db\<lparr>mdb_windows := [daily_done], mdb_next := 1\<rparr>" daily_done
      "[(demo_maint_env (90000 * second), ActivateWindows)]"] by simp
qed

text \<open>
  Property C24. Every history of requests, clock runs and failing statements is one of the abstract machine, in which a
  new window is scheduled, a status moves only along \<open>window_CanTransitionTo\<close>, and a window may be removed.
\<close>
theorem windows_follow_transitions:
  assumes "rows_ok db"
  shows "phase_step\<^sup>*\<^sup>* (phases_of db) (phases_of (run_maints evs db))"
  using simulated.history [OF assms, of "phases_of db"] by (simp add: phases_reached_def)

theorem windows_follow_transitions_witness:
  "phase_step\<^sup>*\<^sup>* (Map.empty, 0) ([0 \<mapsto> WindowActive, 1 \<mapsto> WindowActive], 2)"
proof -
  have "phases_of demo_maint_db = (Map.empty, 0)" "rows_ok demo_maint_db"
    by (simp_all add: phases_of_def demo_maint_db_def rows_ok_def)
  moreover have "mdb_next (run_maints two_windows demo_maint_db) = 2"
    by (simp add: demo_maint_simps)
  then have "phases_of (run_maints two_windows demo_maint_db) = ([0 \<mapsto> WindowActive, 1 \<mapsto> WindowActive], 2)"
    by (auto simp: phases_of_def demo_rows demo_row_def)
  ultimately show ?thesis using windows_follow_transitions [of demo_maint_db two_windows] by simp
qed

text \<open>
  Property C26. No change of a window is lost: of two changes computed from the same reading, once one is stored the
  other is refused, whatever happens in between.
\<close>
theorem stale_window_write_refused:
  assumes "rows_ok db" and "r \<in> set (mdb_windows db)" and "changes_window r w" and "changes_window r v"
    and "win_Update down w db = Some db'"
  shows "win_Update down' v (run_maints evs db') = None"
proof -
  have w: "wi_id w = wi_id r" "wi_version w = wi_version r + 1" "status_follows r w"
    using assms(3) by (auto simp: changes_window_def)
  have "newer_than r db'"
    using replaced_rows [OF assms(1,2) w(1,2) assms(5)] assms(1,2) w
    by (auto simp: newer_than_def list_all_iff set_upd_where rows_ok_def)
  moreover have "rows_ok db'"
    using maint_move.replaced [OF assms(5,2) w] assms(1) by (rule rows_ok_move)
  ultimately have "newer_than r (run_maints evs db')" by (intro newer.history)
  then show ?thesis
    using assms(4) by (auto simp: win_Update_def Let_def newer_than_def changes_window_def list_all_iff list_ex_iff)
qed

definition demo_open :: window where
  "demo_open = demo_row False 0 WindowScheduled 0 1"

definition demo_open_db :: maint_db where
  "demo_open_db = demo_maint_db\<lparr>mdb_windows := [demo_open], mdb_next := 1\<rparr>"

definition demo_cancelled :: window where
  "demo_cancelled = demo_open\<lparr>wi_status := WindowCancelled, wi_updated := 9, wi_version := 2\<rparr>"

definition demo_moved :: window where
  "demo_moved = demo_open\<lparr>wi_name := ''later'', wi_start := 200 * second, wi_version := 2, wi_updated := 8\<rparr>"

theorem stale_window_write_refused_witness:
  "window_Cancel 9 demo_open = Inr demo_cancelled
   \<and> UpdateDetails 8 ''later'' (200 * second) (700 * second) 1 demo_open = Inr demo_moved
   \<and> win_Update (\<lambda>_. False) demo_moved (demo_open_db\<lparr>mdb_windows := [demo_cancelled]\<rparr>) = None"
proof -
  have c: "window_Cancel 9 demo_open = Inr demo_cancelled"
    by (simp add: window_Cancel_def demo_cancelled_def demo_open_def demo_row_def)
  have m: "UpdateDetails 8 ''later'' (200 * second) (700 * second) 1 demo_open = Inr demo_moved"
    by (simp add: UpdateDetails_def demo_moved_def demo_open_def demo_row_def validateWindowName_def validateTimeRange_def
      validateDuration_def DefaultWindowConfig_def)
  have stored: "win_Update (\<lambda>_. False) demo_cancelled demo_open_db = Some (demo_open_db\<lparr>mdb_windows := [demo_cancelled]\<rparr>)"
    by (simp add: win_Update_def Let_def demo_cancelled_def demo_open_db_def demo_open_def demo_row_def window_columns_ok_def
      char_count_def upd_where_def set_window_columns_def demo_maint_db_def)
  have "rows_ok demo_open_db" "demo_open \<in> set (mdb_windows demo_open_db)"
    by (simp_all add: rows_ok_def demo_open_db_def demo_open_def demo_row_def)
  then show ?thesis
    using stale_window_write_refused [OF _ _ Cancel_changes [OF c] UpdateDetails_changes [OF m] stored, of "\<lambda>_. False" "[]"] c m
    by simp
qed

section \<open>Further facts\<close>

text \<open>
  The overlap that the table is asked for is the overlap of the model: a new window that is not global overlaps with an
  open window of the user, read with its monitors, as \<open>OverlapsWith\<close> has it.
\<close>

definition with_monitors :: "maint_db \<Rightarrow> window \<Rightarrow> window" where
  "with_monitors db w = w\<lparr>wi_monitors := map snd (filter (\<lambda>(i, _). i = wi_id w) (mdb_links db))\<rparr>"

lemma CheckOverlap_is_OverlapsWith:
  assumes "\<not> down WinOverlap" and "\<not> wi_global new"
  shows "CheckOverlap down u (wi_monitors new) (wi_start new) (wi_end new) None db =
    Some (list_ex (\<lambda>w. wi_user w = u \<and> \<not> window_over w \<and> OverlapsWith new (with_monitors db w)) (mdb_windows db))"
proof -
  have "list_ex (linked db (wi_id w)) (wi_monitors new) \<longleftrightarrow>
      list_ex (\<lambda>i. i \<in> set (wi_monitors new)) (wi_monitors (with_monitors db w))" for w
    by (force simp: list_ex_iff linked_def with_monitors_def)
  then show ?thesis
    using assms by (simp add: CheckOverlap_def OverlapsWith_def sharesMonitorsWith_def window_over_def with_monitors_def
      conj_ac) (rule arg_cong2 [where f = list_ex], auto)
qed

text \<open>As no link is ever written, only a global window of the user makes the check refuse: two windows of one monitor at
  the same time are both accepted.\<close>

lemma overlap_sees_global_only:
  assumes "rows_ok db" and "mdb_links db = []"
    and "CheckOverlap down u ms s e without (run_maints evs db) = Some True"
  shows "list_ex (\<lambda>w. wi_user w = u \<and> wi_global w) (mdb_windows (run_maints evs db))"
proof -
  have "mdb_links (run_maints evs db) = []"
    using unlinked.history [OF assms(1)] assms(2) by (simp add: no_links_def)
  then show ?thesis using assms(3) by (auto simp: CheckOverlap_def linked_def list_ex_iff split: if_splits)
qed

text \<open>Finished windows use up the limit: with as many as the tier allows, over or not, a request that names
  monitors that exist and asks for no global window is refused.\<close>

lemma finished_windows_use_the_limit:
  assumes "mw_uuid env (wr_user req) = Some u" and "\<not> wr_global req" and "parse_ids (mw_uuid env) (wr_monitors req) = Some ms"
    and "\<not> mw_down env WinCount"
    and "getMaxWindowsForTier (mw_limits env) (wr_tier req) \<le> int (count_where (\<lambda>w. wi_user w = u \<and> window_over w) (mdb_windows db))"
  shows "snd (CreateMaintenanceWindow env req db) = Inl WindowLimitReached"
proof -
  have "count_where (\<lambda>w. wi_user w = u \<and> window_over w) (mdb_windows db) \<le> count_where (\<lambda>w. wi_user w = u) (mdb_windows db)"
    by (rule count_where_mono) simp
  then show ?thesis using assms by (simp add: CreateMaintenanceWindow_def CountByUserID_def Let_def)
qed

text \<open>The entry of a cancelled window calls \<open>CANCELLED\<close> the status it had before.\<close>

lemma cancel_logged_as_cancelled:
  assumes "CancelMaintenanceWindow env i u db = (db', Inr w)" and "\<And>a. \<not> mw_down env (WinAudit a)"
  shows "snd (last (mdb_audit db')) = AuditCancelled WindowCancelled"
  using assms by (auto simp: CancelMaintenanceWindow_def maint_log_def window_Cancel_def
    split: sum.splits option.splits if_splits)

text \<open>The total of a list does not see the filter, and the total of a page of the history is the length of the page.\<close>

lemma list_total_ignores_filter:
  "ListMaintenanceWindows env u st p n db = (db', Inr (ws, found)) \<Longrightarrow> mw_uuid env u = Some uid \<Longrightarrow>
   found = count_where (\<lambda>w. wi_user w = uid) (mdb_windows db)"
  by (auto simp: ListMaintenanceWindows_def CountByUserID_def split: option.splits if_splits)

lemma history_total_is_page:
  "GetMaintenanceWindowHistory env u since till ms p n db = Inr (ws, found) \<Longrightarrow> found = length ws"
  by (auto simp: GetMaintenanceWindowHistory_def split: option.splits)

text \<open>The times at which a window was activated and completed are computed and never stored.\<close>

lemma times_not_stored:
  "wi_activated (set_window_columns w r) = wi_activated r \<and> wi_completed (set_window_columns w r) = wi_completed r"
  by (simp add: set_window_columns_def)

end
