(* ===== verification/AlertWindows.thy ===== *)
theory AlertWindows
  imports AlertDelivery
begin

text \<open>
  Maintenance windows of the alert service: \<open>alert-service/internal/model/mute.go\<close>,
  \<open>repository/postgres/maintenance_window_repository.go\<close> with the service's own migrations,
  \<open>service/maintenance/maintenance_service.go\<close> and \<open>handler/maintenance_service_handlers.go\<close>.
  A user is a number, 0 the zero UUID; the readings of UUIDs by Go and by PostgreSQL, and what \<open>pq.Array\<close> makes of a
  list of texts, are arguments. A statement fails when \<open>down\<close> says so or when it violates a constraint.
\<close>

section \<open>Windows\<close>

datatype aw_status = AwNoStatus | AwScheduled | AwActive | AwCompleted | AwCancelled | AwOrphaned

datatype aw_recurrence = AwNoRecurrence | AwOnce | AwDaily | AwWeekly | AwMonthly

record alert_window =
  aw_id :: nat
  aw_user :: nat
  aw_monitor :: "nat option"
  aw_name :: string
  aw_status_of :: aw_status
  aw_recurrence_of :: aw_recurrence
  aw_global :: bool
  aw_pause :: bool
  aw_suppress :: bool
  aw_safe :: bool
  aw_monitors :: "string list"
  aw_starts :: time
  aw_ends :: time
  aw_activated :: "time option"
  aw_completed :: "time option"
  aw_version :: int
  aw_reason :: "string option"
  aw_created :: time
  aw_updated :: time

record aw_filter =
  af_status :: aw_status
  af_start :: "time option"
  af_end :: "time option"
  af_page :: int
  af_size :: int

datatype aw_error =
    AwNotFound | AwTooLong | AwTooShort | AwInPast | AwEndBeforeStart | AwOverlapping | AwNotScheduled
  | AwConflict | AwForbidden | AwInternal

section \<open>The table\<close>

datatype aw_audit =
    AwGlobalDenied string
  | AwOverlapLogged nat
  | AwCreatedLogged nat string aw_recurrence nat bool
  | AwUpdatedLogged nat string
  | AwDeletedLogged string string
  | AwCancelledLogged string string string

record aw_db =
  awd_windows :: "alert_window list"
  awd_users :: "nat list"
  awd_monitors :: "nat list"
  awd_audit :: "(nat \<times> aw_audit) list"
  awd_next :: nat

datatype aw_call = AwInsert | AwGet | AwReload | AwActiveFor | AwUnder | AwUpdate | AwDelete | AwCount | AwSelect | AwOverlap | AwAudit

record aw_env =
  ax_down :: "aw_call \<Rightarrow> bool"
  ax_uuid :: "string \<Rightarrow> nat option"
  ax_pg_uuid :: "string \<Rightarrow> nat option"
  ax_array :: "string list \<Rightarrow> string list option"
  ax_now :: time
  ax_audited :: bool

text \<open>A text column takes no byte zero, and the version is a 32-bit integer.\<close>

definition aw_text_ok :: "string \<Rightarrow> bool" where
  "aw_text_ok s \<longleftrightarrow> CHR 0x00 \<notin> set s"

text \<open>The first monitor is stored in the old column too, where it has to be a monitor that exists.\<close>

definition aw_Create :: "aw_env \<Rightarrow> alert_window \<Rightarrow> aw_db \<Rightarrow> aw_db option" where
  "aw_Create env w db =
     (if ax_down env AwInsert \<or> \<not> aw_text_ok (aw_name w) \<or> \<not> list_all aw_text_ok (aw_monitors w)
         \<or> (case aw_reason w of None \<Rightarrow> False | Some r \<Rightarrow> \<not> aw_text_ok r)
         \<or> aw_user w \<notin> set (awd_users db) \<or> list_ex (\<lambda>r. aw_id r = aw_id w) (awd_windows db)
      then None
      else case ax_array env (aw_monitors w) of
        None \<Rightarrow> None
      | Some ms \<Rightarrow>
          (case aw_monitors w of
             [] \<Rightarrow> Some (db\<lparr>awd_windows := awd_windows db @ [w\<lparr>aw_monitor := None, aw_monitors := ms\<rparr>]\<rparr>)
           | t # _ \<Rightarrow>
               (case ax_pg_uuid env t of
                  None \<Rightarrow> None
                | Some m \<Rightarrow>
                    if m \<notin> set (awd_monitors db) then None
                    else Some (db\<lparr>awd_windows := awd_windows db @ [w\<lparr>aw_monitor := Some m, aw_monitors := ms\<rparr>]\<rparr>))))"

text \<open>Reading a row leaves the old column out.\<close>

definition scanRow :: "alert_window \<Rightarrow> alert_window" where
  "scanRow w = w\<lparr>aw_monitor := None\<rparr>"

definition aw_GetByID :: "aw_env \<Rightarrow> aw_call \<Rightarrow> string \<Rightarrow> aw_db \<Rightarrow> aw_error + alert_window" where
  "aw_GetByID env c t db =
     (if ax_down env c then Inl AwInternal
      else case ax_pg_uuid env t of
        None \<Rightarrow> Inl AwInternal
      | Some i \<Rightarrow>
          (case List.find (\<lambda>w. aw_id w = i) (awd_windows db) of
             None \<Rightarrow> Inl AwNotFound
           | Some w \<Rightarrow> Inr (scanRow w)))"

definition aw_covers :: "string \<Rightarrow> time \<Rightarrow> alert_window \<Rightarrow> bool" where
  "aw_covers m now w \<longleftrightarrow> (aw_global w \<or> m \<in> set (aw_monitors w)) \<and> aw_starts w \<le> now \<and> now \<le> aw_ends w
     \<and> aw_status_of w \<in> {AwScheduled, AwActive}"

definition GetActiveByMonitorID :: "aw_env \<Rightarrow> string \<Rightarrow> aw_db \<Rightarrow> aw_error + alert_window option" where
  "GetActiveByMonitorID env m db =
     (if ax_down env AwActiveFor then Inl AwInternal
      else Inr (map_option scanRow (latest_by aw_created (filter (aw_covers m (ax_now env)) (awd_windows db)))))"

definition aw_IsUnderMaintenance :: "aw_env \<Rightarrow> string \<Rightarrow> aw_db \<Rightarrow> bool option" where
  "aw_IsUnderMaintenance env m db =
     (if ax_down env AwUnder then None else Some (0 < count_where (aw_covers m (ax_now env)) (awd_windows db)))"

definition set_aw_columns :: "alert_window \<Rightarrow> alert_window \<Rightarrow> alert_window" where
  "set_aw_columns w r =
     r\<lparr>aw_name := aw_name w, aw_status_of := aw_status_of w, aw_starts := aw_starts w, aw_ends := aw_ends w,
       aw_activated := aw_activated w, aw_completed := aw_completed w, aw_version := aw_version r + 1,
       aw_updated := aw_updated w\<rparr>"

definition aw_Update :: "aw_env \<Rightarrow> alert_window \<Rightarrow> aw_db \<Rightarrow> aw_error + aw_db" where
  "aw_Update env w db =
     (let here = (\<lambda>r. aw_id r = aw_id w \<and> aw_version r = aw_version w)
      in if ax_down env AwUpdate \<or> list_ex here (awd_windows db) \<and> (\<not> aw_text_ok (aw_name w) \<or> 2 ^ 31 \<le> aw_version w + 1)
         then Inl AwInternal
         else if \<not> list_ex here (awd_windows db) then Inl AwConflict
         else Inr (db\<lparr>awd_windows := upd_where here (set_aw_columns w) (awd_windows db)\<rparr>))"

definition aw_Delete :: "aw_env \<Rightarrow> string \<Rightarrow> aw_db \<Rightarrow> aw_error + aw_db" where
  "aw_Delete env t db =
     (if ax_down env AwDelete then Inl AwInternal
      else case ax_pg_uuid env t of
        None \<Rightarrow> Inl AwInternal
      | Some i \<Rightarrow>
          if \<not> list_ex (\<lambda>w. aw_id w = i) (awd_windows db) then Inl AwNotFound
          else Inr (db\<lparr>awd_windows := del_where (\<lambda>w. aw_id w = i) (awd_windows db)\<rparr>))"

definition aw_matches :: "nat \<Rightarrow> aw_filter \<Rightarrow> alert_window \<Rightarrow> bool" where
  "aw_matches u f w \<longleftrightarrow> aw_user w = u \<and> (af_status f = AwNoStatus \<or> aw_status_of w = af_status f)
     \<and> (case af_start f of None \<Rightarrow> True | Some t \<Rightarrow> t \<le> aw_starts w)
     \<and> (case af_end f of None \<Rightarrow> True | Some t \<Rightarrow> aw_ends w \<le> t)"

definition aw_List :: "aw_env \<Rightarrow> nat \<Rightarrow> aw_filter \<Rightarrow> aw_db \<Rightarrow> aw_error + alert_window list \<times> nat" where
  "aw_List env u f db =
     (if ax_down env AwCount \<or> ax_down env AwSelect then Inl AwInternal
      else let page = (if af_page f < 1 then 1 else af_page f);
               size = (if af_size f < 1 then 20 else af_size f);
               rows = filter (aw_matches u f) (awd_windows db)
           in Inr (map scanRow (page_of (nat size) (nat ((page - 1) * size)) (newest_first aw_created rows)), length rows))"

text \<open>Some window that overlaps; the query names no order.\<close>

definition CheckOverlapping :: "aw_env \<Rightarrow> string list \<Rightarrow> time \<Rightarrow> time \<Rightarrow> string \<Rightarrow> aw_db \<Rightarrow> aw_error + alert_window option" where
  "CheckOverlapping env ms s e without db =
     (if ax_down env AwOverlap \<or> \<not> list_all aw_text_ok ms then Inl AwInternal
      else Inr (map_option scanRow (List.find
        (\<lambda>w. aw_status_of w \<in> {AwScheduled, AwActive} \<and> list_ex (\<lambda>m. m \<in> set (aw_monitors w)) ms
           \<and> aw_starts w < e \<and> s < aw_ends w \<and> (without = [] \<or> ax_pg_uuid env without \<noteq> Some (aw_id w)))
        (awd_windows db))))"

section \<open>The service\<close>

definition minWindowDuration :: duration where "minWindowDuration = minute"
definition maxWindowDuration :: duration where "maxWindowDuration = 24 * hour"

definition aw_validateTimeRange :: "time \<Rightarrow> time \<Rightarrow> time \<Rightarrow> aw_error option" where
  "aw_validateTimeRange now s e =
     (if e \<le> s then Some AwEndBeforeStart
      else if s < now - 30 * second then Some AwInPast
      else if e - s < minWindowDuration then Some AwTooShort
      else if maxWindowDuration < e - s then Some AwTooLong
      else None)"

definition aw_logAudit :: "aw_env \<Rightarrow> nat \<Rightarrow> aw_audit \<Rightarrow> aw_db \<Rightarrow> aw_db" where
  "aw_logAudit env u a db =
     (if \<not> ax_audited env \<or> ax_down env AwAudit then db else db\<lparr>awd_audit := awd_audit db @ [(u, a)]\<rparr>)"

record aw_request =
  aq_user :: nat
  aq_role :: string
  aq_name :: string
  aq_starts :: time
  aq_ends :: time
  aq_recurrence :: aw_recurrence
  aq_global :: bool
  aq_pause :: bool
  aq_suppress :: bool
  aq_safe :: bool
  aq_monitors :: "string list"

definition aw_save :: "aw_env \<Rightarrow> aw_request \<Rightarrow> aw_db \<Rightarrow> aw_db \<times> (aw_error + alert_window)" where
  "aw_save env q db =
     (let recur = (if aq_recurrence q = AwNoRecurrence then AwOnce else aq_recurrence q);
          w = \<lparr>aw_id = awd_next db, aw_user = aq_user q, aw_monitor = None, aw_name = aq_name q, aw_status_of = AwScheduled,
               aw_recurrence_of = recur, aw_global = aq_global q, aw_pause = aq_pause q, aw_suppress = aq_suppress q,
               aw_safe = aq_safe q, aw_monitors = aq_monitors q, aw_starts = aq_starts q, aw_ends = aq_ends q,
               aw_activated = None, aw_completed = None, aw_version = 0, aw_reason = None,
               aw_created = ax_now env, aw_updated = ax_now env\<rparr>;
          db1 = db\<lparr>awd_next := Suc (awd_next db)\<rparr>
      in case aw_Create env w db1 of
           None \<Rightarrow> (db1, Inl AwInternal)
         | Some db2 \<Rightarrow>
             (aw_logAudit env (aq_user q)
               (AwCreatedLogged (aw_id w) (aw_name w) recur (length (aq_monitors q)) (aq_global q)) db2, Inr w))"

definition aw_CreateMaintenanceWindow :: "aw_env \<Rightarrow> aw_request \<Rightarrow> aw_db \<Rightarrow> aw_db \<times> (aw_error + alert_window)" where
  "aw_CreateMaintenanceWindow env q db =
     (case aw_validateTimeRange (ax_now env) (aq_starts q) (aq_ends q) of
        Some err \<Rightarrow> (db, Inl err)
      | None \<Rightarrow>
          if aq_global q \<and> aq_role q \<noteq> ''ADMIN''
          then (aw_logAudit env (aq_user q) (AwGlobalDenied (aq_role q)) db, Inl AwForbidden)
          else if aq_global q \<or> aq_monitors q = [] then aw_save env q db
          else case CheckOverlapping env (aq_monitors q) (aq_starts q) (aq_ends q) [] db of
            Inl err \<Rightarrow> (db, Inl AwInternal)
          | Inr (Some w) \<Rightarrow> (aw_logAudit env (aq_user q) (AwOverlapLogged (aw_id w)) db, Inl AwOverlapping)
          | Inr None \<Rightarrow> aw_save env q db)"

record aw_change =
  ac_id :: string
  ac_user :: nat
  ac_name :: string
  ac_starts :: "time option"
  ac_ends :: "time option"
  ac_version :: int

definition changed_window :: "aw_env \<Rightarrow> aw_change \<Rightarrow> alert_window \<Rightarrow> alert_window" where
  "changed_window env c w =
     w\<lparr>aw_name := (if ac_name c \<noteq> [] then ac_name c else aw_name w),
       aw_starts := (case ac_starts c of None \<Rightarrow> aw_starts w | Some t \<Rightarrow> t),
       aw_ends := (case ac_ends c of None \<Rightarrow> aw_ends w | Some t \<Rightarrow> t),
       aw_version := ac_version c, aw_updated := ax_now env\<rparr>"

text \<open>The row is read again; that it is gone by then is an internal error.\<close>

definition aw_reload :: "aw_env \<Rightarrow> string \<Rightarrow> aw_db \<Rightarrow> aw_db \<times> (aw_error + alert_window)" where
  "aw_reload env t db =
     (db, case aw_GetByID env AwReload t db of Inl err \<Rightarrow> Inl AwInternal | Inr w \<Rightarrow> Inr w)"

definition aw_UpdateMaintenanceWindow :: "aw_env \<Rightarrow> aw_change \<Rightarrow> aw_db \<Rightarrow> aw_db \<times> (aw_error + alert_window)" where
  "aw_UpdateMaintenanceWindow env c db =
     (case aw_GetByID env AwGet (ac_id c) db of
        Inl err \<Rightarrow> (db, Inl err)
      | Inr w0 \<Rightarrow>
          if aw_status_of w0 \<noteq> AwScheduled then (db, Inl AwNotScheduled)
          else let w = changed_window env c w0
               in case aw_validateTimeRange (ax_now env) (aw_starts w) (aw_ends w) of
                    Some err \<Rightarrow> (db, Inl err)
                  | None \<Rightarrow>
                      (case aw_Update env w db of
                         Inl err \<Rightarrow> (db, Inl err)
                       | Inr db' \<Rightarrow> aw_reload env (ac_id c) (aw_logAudit env (ac_user c) (AwUpdatedLogged (aw_id w) (aw_name w)) db')))"

definition aw_ListMaintenanceWindows :: "aw_env \<Rightarrow> nat \<Rightarrow> aw_filter \<Rightarrow> aw_db \<Rightarrow> aw_error + alert_window list \<times> nat" where
  "aw_ListMaintenanceWindows env u f db = aw_List env u f db"

definition aw_DeleteMaintenanceWindow :: "aw_env \<Rightarrow> string \<Rightarrow> nat \<Rightarrow> aw_db \<Rightarrow> aw_db \<times> aw_error option" where
  "aw_DeleteMaintenanceWindow env t u db =
     (case aw_GetByID env AwGet t db of
        Inl err \<Rightarrow> (db, Some err)
      | Inr w \<Rightarrow>
          if aw_status_of w \<noteq> AwScheduled then (db, Some AwNotScheduled)
          else case aw_Delete env t db of
            Inl err \<Rightarrow> (db, Some AwInternal)
          | Inr db' \<Rightarrow> (aw_logAudit env u (AwDeletedLogged t (aw_name w)) db', None))"

definition aw_CancelMaintenanceWindow :: "aw_env \<Rightarrow> string \<Rightarrow> nat \<Rightarrow> string \<Rightarrow> aw_db \<Rightarrow> aw_db \<times> (aw_error + alert_window)" where
  "aw_CancelMaintenanceWindow env t u reason db =
     (case aw_GetByID env AwGet t db of
        Inl err \<Rightarrow> (db, Inl err)
      | Inr w \<Rightarrow>
          if aw_status_of w \<noteq> AwScheduled \<and> aw_status_of w \<noteq> AwActive then (db, Inl AwNotScheduled)
          else case aw_Update env (w\<lparr>aw_status_of := AwCancelled, aw_completed := Some (ax_now env), aw_updated := ax_now env\<rparr>) db of
            Inl err \<Rightarrow> (db, Inl err)
          | Inr db' \<Rightarrow> aw_reload env t (aw_logAudit env u (AwCancelledLogged t (aw_name w) reason) db'))"

definition aw_GetMaintenanceWindowHistory :: "aw_env \<Rightarrow> nat \<Rightarrow> aw_filter \<Rightarrow> aw_db \<Rightarrow> aw_error + alert_window list \<times> nat" where
  "aw_GetMaintenanceWindowHistory env u f db =
     aw_List env u (if af_status f = AwNoStatus then f\<lparr>af_status := AwCompleted\<rparr> else f) db"

text \<open>The old operation, for one monitor and without any validation.\<close>

definition CreateWindow :: "aw_env \<Rightarrow> nat \<Rightarrow> nat \<Rightarrow> string \<Rightarrow> time \<Rightarrow> time \<Rightarrow> string option \<Rightarrow> aw_db \<Rightarrow> aw_db \<times> aw_error option" where
  "CreateWindow env u m mtext s e reason db =
     (let w = \<lparr>aw_id = awd_next db, aw_user = u, aw_monitor = Some m,
               aw_name = (case reason of None \<Rightarrow> ''maintenance'' | Some r \<Rightarrow> r), aw_status_of = AwScheduled,
               aw_recurrence_of = AwOnce, aw_global = False, aw_pause = False, aw_suppress = False, aw_safe = False,
               aw_monitors = [mtext], aw_starts = s, aw_ends = e, aw_activated = None, aw_completed = None, aw_version = 0,
               aw_reason = reason, aw_created = ax_now env, aw_updated = ax_now env\<rparr>;
          db1 = db\<lparr>awd_next := Suc (awd_next db)\<rparr>
      in case aw_Create env w db1 of None \<Rightarrow> (db1, Some AwInternal) | Some db2 \<Rightarrow> (db2, None))"

definition service_IsUnderMaintenance :: "aw_env \<Rightarrow> string \<Rightarrow> aw_db \<Rightarrow> aw_error + bool" where
  "service_IsUnderMaintenance env m db =
     (case aw_IsUnderMaintenance env m db of None \<Rightarrow> Inl AwInternal | Some b \<Rightarrow> Inr b)"

definition GetActiveWindow :: "aw_env \<Rightarrow> string \<Rightarrow> aw_db \<Rightarrow> aw_error + alert_window option" where
  "GetActiveWindow env m db = GetActiveByMonitorID env m db"

section \<open>The gRPC calls\<close>

datatype aw_code =
    CodeInvalid | CodeUnauthenticated | CodeNotFound | CodeExists | CodePrecondition | CodeAborted | CodeDenied | CodeInternal

definition mapMaintenanceError :: "aw_error \<Rightarrow> aw_code" where
  "mapMaintenanceError err =
     (case err of
        AwNotFound \<Rightarrow> CodeNotFound
      | AwTooLong \<Rightarrow> CodeInvalid | AwTooShort \<Rightarrow> CodeInvalid | AwInPast \<Rightarrow> CodeInvalid | AwEndBeforeStart \<Rightarrow> CodeInvalid
      | AwOverlapping \<Rightarrow> CodeExists
      | AwNotScheduled \<Rightarrow> CodePrecondition
      | AwConflict \<Rightarrow> CodeAborted
      | AwForbidden \<Rightarrow> CodeDenied
      | AwInternal \<Rightarrow> CodeInternal)"

definition aw_answer :: "aw_error + 'a \<Rightarrow> aw_code + 'a" where
  "aw_answer r = (case r of Inl err \<Rightarrow> Inl (mapMaintenanceError err) | Inr x \<Rightarrow> Inr x)"

text \<open>The times of the request may be missing.\<close>

record aw_message =
  am_name :: string
  am_start :: "time option"
  am_end :: "time option"
  am_recurrence :: aw_recurrence
  am_global :: bool
  am_pause :: bool
  am_suppress :: bool
  am_safe :: bool
  am_monitors :: "string list"

definition protoToRecurrenceType :: "aw_recurrence \<Rightarrow> aw_recurrence" where
  "protoToRecurrenceType r = (if r = AwNoRecurrence then AwOnce else r)"

definition call_CreateMaintenanceWindow :: "aw_env \<Rightarrow> nat \<Rightarrow> string \<Rightarrow> aw_message \<Rightarrow> aw_db \<Rightarrow> aw_db \<times> (aw_code + alert_window)" where
  "call_CreateMaintenanceWindow env u role m db =
     (if am_name m = [] then (db, Inl CodeInvalid)
      else case (am_start m, am_end m) of
        (Some s, Some e) \<Rightarrow>
          if \<not> am_global m \<and> am_monitors m = [] then (db, Inl CodeInvalid)
          else if u = 0 then (db, Inl CodeUnauthenticated)
          else map_prod id aw_answer (aw_CreateMaintenanceWindow env
            \<lparr>aq_user = u, aq_role = role, aq_name = am_name m, aq_starts = s, aq_ends = e,
             aq_recurrence = protoToRecurrenceType (am_recurrence m), aq_global = am_global m, aq_pause = am_pause m,
             aq_suppress = am_suppress m, aq_safe = am_safe m, aq_monitors = am_monitors m\<rparr> db)
      | _ \<Rightarrow> (db, Inl CodeInvalid))"

definition named_window :: "aw_env \<Rightarrow> string \<Rightarrow> nat \<Rightarrow> aw_code option" where
  "named_window env t u =
     (if t = [] \<or> ax_uuid env t = None then Some CodeInvalid else if u = 0 then Some CodeUnauthenticated else None)"

definition call_UpdateMaintenanceWindow :: "aw_env \<Rightarrow> aw_change \<Rightarrow> aw_db \<Rightarrow> aw_db \<times> (aw_code + alert_window)" where
  "call_UpdateMaintenanceWindow env c db =
     (case named_window env (ac_id c) (ac_user c) of
        Some code \<Rightarrow> (db, Inl code)
      | None \<Rightarrow> map_prod id aw_answer (aw_UpdateMaintenanceWindow env c db))"

definition call_DeleteMaintenanceWindow :: "aw_env \<Rightarrow> string \<Rightarrow> nat \<Rightarrow> aw_db \<Rightarrow> aw_db \<times> aw_code option" where
  "call_DeleteMaintenanceWindow env t u db =
     (case named_window env t u of
        Some code \<Rightarrow> (db, Some code)
      | None \<Rightarrow> map_prod id (map_option mapMaintenanceError) (aw_DeleteMaintenanceWindow env t u db))"

definition call_CancelMaintenanceWindow :: "aw_env \<Rightarrow> string \<Rightarrow> nat \<Rightarrow> string \<Rightarrow> aw_db \<Rightarrow> aw_db \<times> (aw_code + alert_window)" where
  "call_CancelMaintenanceWindow env t u reason db =
     (case named_window env t u of
        Some code \<Rightarrow> (db, Inl code)
      | None \<Rightarrow> map_prod id aw_answer (aw_CancelMaintenanceWindow env t u reason db))"

text \<open>The answer repeats the page and its size, or the values that stand for them.\<close>

definition answered_page :: "aw_filter \<Rightarrow> alert_window list \<times> nat \<Rightarrow> alert_window list \<times> nat \<times> int \<times> int" where
  "answered_page f r =
     (fst r, snd r, (if af_page f < 1 then 1 else af_page f), (if af_size f < 1 then 20 else af_size f))"

definition call_ListMaintenanceWindows :: "aw_env \<Rightarrow> nat \<Rightarrow> aw_filter \<Rightarrow> aw_db \<Rightarrow> aw_code + alert_window list \<times> nat \<times> int \<times> int" where
  "call_ListMaintenanceWindows env u f db =
     (if u = 0 then Inl CodeUnauthenticated
      else map_sum mapMaintenanceError (answered_page f) (map_sum (\<lambda>_. AwInternal) id (aw_ListMaintenanceWindows env u f db)))"

definition call_GetMaintenanceWindowHistory :: "aw_env \<Rightarrow> nat \<Rightarrow> aw_filter \<Rightarrow> aw_db \<Rightarrow> aw_code + alert_window list \<times> nat \<times> int \<times> int" where
  "call_GetMaintenanceWindowHistory env u f db =
     (if u = 0 then Inl CodeUnauthenticated
      else map_sum mapMaintenanceError (answered_page f)
        (map_sum (\<lambda>_. AwInternal) id (aw_GetMaintenanceWindowHistory env u (f\<lparr>af_status := AwCompleted\<rparr>) db)))"

section \<open>Histories\<close>

datatype aw_event =
    AwCreateCall nat string aw_message
  | AwUpdateCall aw_change
  | AwDeleteCall string nat
  | AwCancelCall string nat string
  | AwOldCreate nat nat string time time "string option"

fun aw_step :: "aw_env \<Rightarrow> aw_event \<Rightarrow> aw_db \<Rightarrow> aw_db" where
  "aw_step env (AwCreateCall u role m) db = fst (call_CreateMaintenanceWindow env u role m db)"
| "aw_step env (AwUpdateCall c) db = fst (call_UpdateMaintenanceWindow env c db)"
| "aw_step env (AwDeleteCall t u) db = fst (call_DeleteMaintenanceWindow env t u db)"
| "aw_step env (AwCancelCall t u reason) db = fst (call_CancelMaintenanceWindow env t u reason db)"
| "aw_step env (AwOldCreate u m t s e reason) db = fst (CreateWindow env u m t s e reason db)"

definition run_aws :: "(aw_env \<times> aw_event) list \<Rightarrow> aw_db \<Rightarrow> aw_db" where
  "run_aws evs db = fold (\<lambda>(env, ev). aw_step env ev) evs db"

end
