(* ===== verification/AlertWindowOutcomes.thy ===== *)
theory AlertWindowOutcomes
  imports AlertWindows
begin

text \<open>
  What histories of the alert service's maintenance windows keep (contract \<open>aw_invariant\<close> of the table's operations, with
  three interpretations), whom its calls obey, and what a window does to the delivery of alerts.
\<close>

section \<open>Invariants\<close>

text \<open>The window that a call names by the text of its id.\<close>

fun named :: "aw_env \<Rightarrow> aw_event \<Rightarrow> nat set" where
  "named env (AwUpdateCall c) = set_option (ax_pg_uuid env (ac_id c))"
| "named env (AwDeleteCall t u) = set_option (ax_pg_uuid env t)"
| "named env (AwCancelCall t u reason) = set_option (ax_pg_uuid env t)"
| "named env ev = {}"

text \<open>\<open>P\<close> is kept by every call that names no window of \<open>N\<close>.\<close>

locale aw_invariant =
  fixes P :: "aw_db \<Rightarrow> bool" and N :: "nat set"
  assumes drawn: "P db \<Longrightarrow> P (db\<lparr>awd_next := Suc (awd_next db)\<rparr>)"
    and logged: "P db \<Longrightarrow> P (db\<lparr>awd_audit := a\<rparr>)"
    and inserted: "P db \<Longrightarrow> aw_id w = awd_next db \<Longrightarrow> aw_status_of w = AwScheduled \<Longrightarrow>
      P (db\<lparr>awd_next := Suc (awd_next db), awd_windows := awd_windows db @ [w]\<rparr>)"
    and replaced: "P db \<Longrightarrow> aw_Update env w db = Inr db' \<Longrightarrow> r \<in> set (awd_windows db) \<Longrightarrow> aw_id w = aw_id r \<Longrightarrow>
      aw_id r \<notin> N \<Longrightarrow> aw_status_of r \<in> {AwScheduled, AwActive} \<Longrightarrow> aw_status_of w \<in> {aw_status_of r, AwCancelled} \<Longrightarrow> P db'"
    and removed: "P db \<Longrightarrow> r \<in> set (awd_windows db) \<Longrightarrow> aw_id r \<notin> N \<Longrightarrow> aw_status_of r = AwScheduled \<Longrightarrow>
      P (db\<lparr>awd_windows := del_where (\<lambda>w. aw_id w = aw_id r) (awd_windows db)\<rparr>)"
begin

lemma log_kept: "P db \<Longrightarrow> P (aw_logAudit env u a db)"
  by (simp add: aw_logAudit_def logged)

lemma create_kept:
  assumes "P db" and "aw_id w = awd_next db" and "aw_status_of w = AwScheduled"
    and "aw_Create env w (db\<lparr>awd_next := Suc (awd_next db)\<rparr>) = Some db'"
  shows "P db'"
proof -
  obtain m ms where "db' = db\<lparr>awd_next := Suc (awd_next db),
      awd_windows := awd_windows db @ [w\<lparr>aw_monitor := m, aw_monitors := ms\<rparr>]\<rparr>"
    using assms(4) by (auto simp: aw_Create_def split: if_splits option.splits list.splits)
  then show ?thesis
    using inserted [of db "w\<lparr>aw_monitor := m, aw_monitors := ms\<rparr>"] assms(1-3) by simp
qed

lemma save_kept: "P db \<Longrightarrow> P (fst (aw_save env q db))"
  unfolding aw_save_def Let_def
  by (auto split: option.splits intro!: log_kept drawn elim!: create_kept)

lemma request_kept: "P db \<Longrightarrow> P (fst (aw_CreateMaintenanceWindow env q db))"
  by (auto simp: aw_CreateMaintenanceWindow_def save_kept log_kept split: option.splits sum.splits)

lemma row_read:
  "aw_GetByID env c t db = Inr w \<Longrightarrow> \<exists>r \<in> set (awd_windows db). w = scanRow r \<and> ax_pg_uuid env t = Some (aw_id r)"
  by (auto simp: aw_GetByID_def split: if_splits option.splits dest!: find_Some_inD)

lemma reload_db [simp]: "fst (aw_reload env t db) = db"
  by (simp add: aw_reload_def)

lemma update_kept: "P db \<Longrightarrow> named env (AwUpdateCall c) \<inter> N = {} \<Longrightarrow> P (fst (aw_UpdateMaintenanceWindow env c db))"
  by (auto simp: aw_UpdateMaintenanceWindow_def changed_window_def scanRow_def Let_def
      split: sum.splits option.splits dest!: row_read intro!: log_kept elim!: replaced)

lemma cancel_kept: "P db \<Longrightarrow> named env (AwCancelCall t u reason) \<inter> N = {} \<Longrightarrow>
    P (fst (aw_CancelMaintenanceWindow env t u reason db))"
  by (auto simp: aw_CancelMaintenanceWindow_def scanRow_def split: sum.splits
      dest!: row_read intro!: log_kept elim!: replaced)

lemma delete_kept: "P db \<Longrightarrow> named env (AwDeleteCall t u) \<inter> N = {} \<Longrightarrow> P (fst (aw_DeleteMaintenanceWindow env t u db))"
  by (auto simp: aw_DeleteMaintenanceWindow_def aw_Delete_def scanRow_def split: sum.splits if_splits option.splits
      dest!: row_read intro!: log_kept removed)

lemma old_create_kept: "P db \<Longrightarrow> P (fst (CreateWindow env u m t s e reason db))"
  unfolding CreateWindow_def Let_def by (auto split: option.splits intro!: drawn elim!: create_kept)

lemma step_kept: "P db \<Longrightarrow> named env ev \<inter> N = {} \<Longrightarrow> P (aw_step env ev db)"
  using update_kept cancel_kept delete_kept
  by (cases ev) (auto simp: call_CreateMaintenanceWindow_def call_UpdateMaintenanceWindow_def call_DeleteMaintenanceWindow_def
      call_CancelMaintenanceWindow_def request_kept old_create_kept split: option.splits)

lemma history: "P db \<Longrightarrow> \<forall>(env, ev) \<in> set evs. named env ev \<inter> N = {} \<Longrightarrow> P (run_aws evs db)"
  by (induction evs arbitrary: db) (auto simp: run_aws_def step_kept)

end

definition aw_rows_ok :: "aw_db \<Rightarrow> bool" where
  "aw_rows_ok db \<longleftrightarrow> distinct (map aw_id (awd_windows db))
     \<and> list_all (\<lambda>w. aw_id w < awd_next db \<and> aw_status_of w \<in> {AwScheduled, AwCancelled}) (awd_windows db)"

lemma set_aw_columns_fields [simp]:
  "aw_id (set_aw_columns w r) = aw_id r" "aw_status_of (set_aw_columns w r) = aw_status_of w"
  by (simp_all add: set_aw_columns_def)

lemma aw_Update_InrD:
  "aw_Update env w db = Inr db' \<Longrightarrow> db' = db\<lparr>awd_windows :=
     upd_where (\<lambda>r. aw_id r = aw_id w \<and> aw_version r = aw_version w) (set_aw_columns w) (awd_windows db)\<rparr>"
  by (auto simp: aw_Update_def Let_def split: if_splits)

interpretation aw_shape: aw_invariant aw_rows_ok "{}"
proof
  fix env w db db' r
  assume ok: "aw_rows_ok db" and "aw_Update env w db = Inr db'" and "r \<in> set (awd_windows db)"
    and "aw_status_of w \<in> {aw_status_of r, AwCancelled}"
  then have "aw_status_of w \<in> {AwScheduled, AwCancelled}" by (auto simp: aw_rows_ok_def list_all_iff)
  then show "aw_rows_ok db'"
    using ok aw_Update_InrD [OF \<open>aw_Update env w db = Inr db'\<close>]
    by (auto simp: aw_rows_ok_def list_all_iff elim!: in_upd_whereE)
qed (auto simp: aw_rows_ok_def list_all_iff distinct_key_del_where)

text \<open>A cancelled window stays: it can neither be changed nor deleted.\<close>

definition keeps_cancelled :: "alert_window \<Rightarrow> aw_db \<Rightarrow> bool" where
  "keeps_cancelled w db \<longleftrightarrow> aw_rows_ok db \<and> w \<in> set (awd_windows db) \<and> aw_status_of w = AwCancelled"

lemma same_row: "aw_rows_ok db \<Longrightarrow> r \<in> set (awd_windows db) \<Longrightarrow> w \<in> set (awd_windows db) \<Longrightarrow> aw_id r = aw_id w \<Longrightarrow> r = w"
  by (auto simp: aw_rows_ok_def intro: distinct_key_eq [of aw_id])

interpretation aw_cancelled: aw_invariant "keeps_cancelled w" "{}" for w
proof
  fix env v db db' r
  assume kept: "keeps_cancelled w db" and upd: "aw_Update env v db = Inr db'" and "r \<in> set (awd_windows db)"
    and "aw_id v = aw_id r" and "aw_status_of r \<in> {AwScheduled, AwActive}" and "aw_status_of v \<in> {aw_status_of r, AwCancelled}"
  then have "aw_id w \<noteq> aw_id v" using same_row [of db r w] by (auto simp: keeps_cancelled_def)
  then have "w \<in> set (awd_windows db')"
    using kept aw_Update_InrD [OF upd] by (auto simp: keeps_cancelled_def set_upd_where)
  moreover have "aw_rows_ok db'"
    using kept upd \<open>r \<in> _\<close> \<open>aw_id v = _\<close> \<open>aw_status_of r \<in> _\<close> \<open>aw_status_of v \<in> _\<close>
    by (auto simp: keeps_cancelled_def elim!: aw_shape.replaced)
  ultimately show "keeps_cancelled w db'" using kept by (simp add: keeps_cancelled_def)
next
  fix db r
  assume kept: "keeps_cancelled w db" and r: "r \<in> set (awd_windows db)" "aw_status_of r = AwScheduled"
  then have "aw_id w \<noteq> aw_id r" using same_row [of db r w] by (auto simp: keeps_cancelled_def)
  moreover have "aw_rows_ok (db\<lparr>awd_windows := del_where (\<lambda>w. aw_id w = aw_id r) (awd_windows db)\<rparr>)"
    using kept r by (intro aw_shape.removed) (simp_all add: keeps_cancelled_def)
  ultimately show "keeps_cancelled w (db\<lparr>awd_windows := del_where (\<lambda>w. aw_id w = aw_id r) (awd_windows db)\<rparr>)"
    using kept by (simp add: keeps_cancelled_def)
next
  fix db and v :: alert_window
  assume "keeps_cancelled w db" and "aw_id v = awd_next db" and "aw_status_of v = AwScheduled"
  then show "keeps_cancelled w (db\<lparr>awd_next := Suc (awd_next db), awd_windows := awd_windows db @ [v]\<rparr>)"
    using aw_shape.inserted [of db v] by (simp add: keeps_cancelled_def)
qed (simp_all add: keeps_cancelled_def aw_shape.drawn aw_shape.logged)

text \<open>A window that no call names stays as it is.\<close>

definition holds_window :: "alert_window \<Rightarrow> aw_db \<Rightarrow> bool" where
  "holds_window w db \<longleftrightarrow> aw_rows_ok db \<and> w \<in> set (awd_windows db)"

interpretation aw_unnamed: aw_invariant "holds_window w" "{aw_id w}" for w
proof
  fix env v db db' r
  assume kept: "holds_window w db" and upd: "aw_Update env v db = Inr db'" and "r \<in> set (awd_windows db)"
    and "aw_id v = aw_id r" and "aw_id r \<notin> {aw_id w}" and "aw_status_of r \<in> {AwScheduled, AwActive}"
    and "aw_status_of v \<in> {aw_status_of r, AwCancelled}"
  then have "w \<in> set (awd_windows db')"
    using aw_Update_InrD [OF upd] by (auto simp: holds_window_def set_upd_where)
  moreover have "aw_rows_ok db'"
    using kept upd \<open>r \<in> _\<close> \<open>aw_id v = _\<close> \<open>aw_status_of r \<in> _\<close> \<open>aw_status_of v \<in> _\<close>
    by (auto simp: holds_window_def elim!: aw_shape.replaced)
  ultimately show "holds_window w db'" by (simp add: holds_window_def)
next
  fix db r
  assume kept: "holds_window w db" and r: "r \<in> set (awd_windows db)" "aw_id r \<notin> {aw_id w}" "aw_status_of r = AwScheduled"
  then have "aw_rows_ok (db\<lparr>awd_windows := del_where (\<lambda>w. aw_id w = aw_id r) (awd_windows db)\<rparr>)"
    by (intro aw_shape.removed) (simp_all add: holds_window_def)
  then show "holds_window w (db\<lparr>awd_windows := del_where (\<lambda>w. aw_id w = aw_id r) (awd_windows db)\<rparr>)"
    using kept r by (simp add: holds_window_def)
next
  fix db and v :: alert_window
  assume "holds_window w db" and "aw_id v = awd_next db" and "aw_status_of v = AwScheduled"
  then show "holds_window w (db\<lparr>awd_next := Suc (awd_next db), awd_windows := awd_windows db @ [v]\<rparr>)"
    using aw_shape.inserted [of db v] by (simp add: holds_window_def)
qed (simp_all add: holds_window_def aw_shape.drawn aw_shape.logged)

section \<open>Properties\<close>

text \<open>Two users, the second of whom owns a window for the monitor 2, named \<open>m2\<close>; texts of windows are \<open>w0\<close> and \<open>w1\<close>.\<close>

definition demo_aw_env :: "time \<Rightarrow> aw_env" where
  "demo_aw_env now = \<lparr>ax_down = (\<lambda>_. False),
     ax_uuid = (\<lambda>t. if t = ''w0'' then Some 0 else if t = ''m2'' then Some 2 else None),
     ax_pg_uuid = (\<lambda>t. if t = ''w0'' then Some 0 else if t = ''m2'' then Some 2 else None),
     ax_array = (\<lambda>ts. if ts = [] then None else Some ts), ax_now = now, ax_audited = True\<rparr>"

definition demo_alert_window :: alert_window where
  "demo_alert_window = \<lparr>aw_id = 0, aw_user = 2, aw_monitor = Some 2, aw_name = ''db'', aw_status_of = AwScheduled,
     aw_recurrence_of = AwOnce, aw_global = False, aw_pause = False, aw_suppress = False, aw_safe = False,
     aw_monitors = [''m2''], aw_starts = 100 * second, aw_ends = 400 * second, aw_activated = None, aw_completed = None,
     aw_version = 0, aw_reason = None, aw_created = 0, aw_updated = 0\<rparr>"

definition demo_aw_db :: aw_db where
  "demo_aw_db = \<lparr>awd_windows = [demo_alert_window], awd_users = [1, 2], awd_monitors = [2], awd_audit = [], awd_next = 1\<rparr>"

text \<open>
  Property C28. Whoever is logged in cancels the window of anyone: when the statements run, the call returns the
  cancelled window, whatever its owner.
\<close>
theorem anyone_cancels_any_window:
  assumes "aw_rows_ok db" and "w \<in> set (awd_windows db)" and "aw_status_of w = AwScheduled"
    and "ax_uuid env t \<noteq> None" and "ax_pg_uuid env t = Some (aw_id w)" and "t \<noteq> []" and "u \<noteq> 0"
    and "\<And>c. \<not> ax_down env c" and "aw_text_ok (aw_name w)" and "aw_version w + 1 < 2 ^ 31"
  shows "snd (call_CancelMaintenanceWindow env t u reason db) =
    Inr (scanRow w\<lparr>aw_status_of := AwCancelled, aw_completed := Some (ax_now env), aw_updated := ax_now env,
                 aw_version := aw_version w + 1\<rparr>)"
proof -
  let ?w = "scanRow w\<lparr>aw_status_of := AwCancelled, aw_completed := Some (ax_now env), aw_updated := ax_now env\<rparr>"
  let ?db = "db\<lparr>awd_windows := upd_where (\<lambda>r. aw_id r = aw_id w \<and> aw_version r = aw_version w) (set_aw_columns ?w) (awd_windows db)\<rparr>"
  have one: "(aw_id r = aw_id w) = (r = w)" if "r \<in> set (awd_windows db)" for r
    using assms(1,2) that same_row by auto
  have found: "List.find (\<lambda>r. aw_id r = aw_id w) (awd_windows db) = Some w"
    using assms(2) one by (cases "List.find (\<lambda>r. aw_id r = aw_id w) (awd_windows db)")
      (auto simp: find_None_iff dest!: find_Some_inD)
  then have read: "aw_GetByID env AwGet t db = Inr (scanRow w)"
    using assms(5,8) by (simp add: aw_GetByID_def)
  have "list_ex (\<lambda>r. aw_id r = aw_id w \<and> aw_version r = aw_version w) (awd_windows db)"
    using assms(2) by (auto simp: list_ex_iff)
  then have upd: "aw_Update env ?w db = Inr ?db"
    using assms(8-10) by (simp add: aw_Update_def Let_def scanRow_def)
  have "List.find (\<lambda>r. aw_id r = aw_id w) (awd_windows ?db) = Some (set_aw_columns ?w w)"
    by (simp add: find_upd_kept found)
  then show ?thesis
    using read upd assms(3-8)
    by (simp add: call_CancelMaintenanceWindow_def named_window_def aw_CancelMaintenanceWindow_def aw_reload_def aw_GetByID_def
        aw_logAudit_def aw_answer_def scanRow_def set_aw_columns_def)
qed

theorem anyone_cancels_any_window_witness:
  "aw_user demo_alert_window = 2
   \<and> snd (call_CancelMaintenanceWindow (demo_aw_env 5) ''w0'' 1 [] demo_aw_db) =
     Inr (scanRow demo_alert_window\<lparr>aw_status_of := AwCancelled, aw_completed := Some 5, aw_updated := 5, aw_version := 1\<rparr>)"
proof -
  have w: "aw_rows_ok demo_aw_db" "demo_alert_window \<in> set (awd_windows demo_aw_db)"
    "aw_status_of demo_alert_window = AwScheduled" "aw_text_ok (aw_name demo_alert_window)" "aw_id demo_alert_window = 0"
    "aw_version demo_alert_window = 0" "aw_user demo_alert_window = 2"
    by (simp_all add: aw_rows_ok_def demo_aw_db_def demo_alert_window_def aw_text_ok_def)
  have env: "ax_uuid (demo_aw_env 5) ''w0'' \<noteq> None" "ax_pg_uuid (demo_aw_env 5) ''w0'' = Some (aw_id demo_alert_window)"
    "\<And>c. \<not> ax_down (demo_aw_env 5) c" "ax_now (demo_aw_env 5) = 5"
    by (simp_all add: demo_aw_env_def w)
  show ?thesis
    using anyone_cancels_any_window [OF w(1-3) env(1,2) _ _ env(3) w(4), of 1 "[]"] w env(4) by simp
qed

lemma created_window_row:
  assumes "aw_rows_ok db" and "snd (aw_CreateMaintenanceWindow env q db) = Inr w"
    and "ax_array env (aq_monitors q) = Some (aq_monitors q)"
  obtains r where "holds_window r (fst (aw_CreateMaintenanceWindow env q db))" and "aw_id r = aw_id w"
    and "aw_monitors r = aq_monitors q" and "aw_starts r = aq_starts q" and "aw_ends r = aq_ends q"
    and "aw_status_of r = AwScheduled"
proof -
  let ?db = "fst (aw_CreateMaintenanceWindow env q db)"
  have saved: "aw_CreateMaintenanceWindow env q db = aw_save env q db"
    using assms(2) by (auto simp: aw_CreateMaintenanceWindow_def split: option.splits sum.splits if_splits)
  have "\<exists>r \<in> set (awd_windows ?db). aw_id r = aw_id w \<and> aw_monitors r = aq_monitors q \<and> aw_starts r = aq_starts q
      \<and> aw_ends r = aq_ends q \<and> aw_status_of r = AwScheduled"
    using assms(2,3) unfolding saved
    by (auto simp: aw_save_def Let_def aw_Create_def aw_logAudit_def split: option.splits if_splits list.splits)
  moreover have "aw_rows_ok ?db" by (rule aw_shape.request_kept [OF assms(1)])
  ultimately show thesis using that by (auto simp: holds_window_def)
qed

text \<open>
  Property C27. A window silences the alerts of any monitor: while it runs, \<open>DeliverAlert\<close> does not send an alert of a
  monitor that its creator named but stores a suppressed attempt, whoever owns the monitor, even if the window was to
  suppress no alerts, and whatever was done to the other windows since it was created. This is of the first delivery of
  an alert, to a channel that is enabled and verified and when the question for windows is answered, \<open>mtext\<close> being the
  text of a monitor's id: retries (\<open>ProcessPendingAttempts\<close>) and recovery messages
  (\<open>DeliverRecovery\<close>) do not ask for windows and are sent.
\<close>
theorem window_silences_any_monitor:
  assumes "aw_rows_ok db" and "snd (aw_CreateMaintenanceWindow env q db) = Inr w"
    and "ax_array env (aq_monitors q) = Some (aq_monitors q)"
    and "mtext (al_monitor a) \<in> set (aq_monitors q)" and "aq_starts q \<le> ax_now later" and "ax_now later \<le> aq_ends q"
    and "\<forall>(env', ev) \<in> set evs. aw_id w \<notin> named env' ev"
    and "\<not> ax_down later AwUnder" and "ch_enabled c" and "ch_verified c"
  shows "DeliverAlert down now cfg (Some (aw_IsUnderMaintenance later (mtext (al_monitor a))
        (run_aws evs (fst (aw_CreateMaintenanceWindow env q db))))) send i a c adb
    = (None, case attempt_Create down (new_attempt i now (al_id a) (ch_id c) AttemptSuppressed
                ''suppressed: monitor is under maintenance'') adb of Inl e \<Rightarrow> adb | Inr adb' \<Rightarrow> adb')"
proof -
  let ?db = "run_aws evs (fst (aw_CreateMaintenanceWindow env q db))"
  obtain r where r: "holds_window r (fst (aw_CreateMaintenanceWindow env q db))" "aw_id r = aw_id w"
    "aw_monitors r = aq_monitors q" "aw_starts r = aq_starts q" "aw_ends r = aq_ends q" "aw_status_of r = AwScheduled"
    by (rule created_window_row [OF assms(1-3)])
  have "holds_window r ?db"
    by (rule aw_unnamed.history [OF r(1)]) (use assms(7) r(2) in auto)
  then have "r \<in> set (awd_windows ?db)" "aw_covers (mtext (al_monitor a)) (ax_now later) r"
    using r assms(4-6) by (auto simp: holds_window_def aw_covers_def)
  then have "0 < count_where (aw_covers (mtext (al_monitor a)) (ax_now later)) (awd_windows ?db)"
    using count_where_0_iff [of "aw_covers (mtext (al_monitor a)) (ax_now later)" "awd_windows ?db"] by auto
  then have "aw_IsUnderMaintenance later (mtext (al_monitor a)) ?db = Some True"
    using assms(8) by (simp add: aw_IsUnderMaintenance_def)
  then show ?thesis using assms(9,10) by (simp add: DeliverAlert_def)
qed

text \<open>
  The second user's window for the monitor of the first user's alert; it is to suppress nothing, and the other window is
  cancelled before the alert.
\<close>

definition demo_aw_request :: aw_request where
  "demo_aw_request = \<lparr>aq_user = 2, aq_role = ''USER'', aq_name = ''x'', aq_starts = 500 * second, aq_ends = 900 * second,
     aq_recurrence = AwOnce, aq_global = False, aq_pause = False, aq_suppress = False, aq_safe = False, aq_monitors = [''m2'']\<rparr>"

theorem window_silences_any_monitor_witness:
  "al_user demo_alert = 1 \<and>
   DeliverAlert (\<lambda>_. False) (600 * second) default_delivery
      (Some (aw_IsUnderMaintenance (demo_aw_env (600 * second)) ''m2''
        (run_aws [(demo_aw_env (450 * second), AwCancelCall ''w0'' 2 [])]
          (fst (aw_CreateMaintenanceWindow (demo_aw_env (450 * second)) demo_aw_request demo_aw_db)))))
      timeout_sender 9 demo_alert demo_channel delivery_db
    = (None, case attempt_Create (\<lambda>_. False) (new_attempt 9 (600 * second) (al_id demo_alert) (ch_id demo_channel) AttemptSuppressed
                ''suppressed: monitor is under maintenance'') delivery_db of Inl e \<Rightarrow> delivery_db | Inr db \<Rightarrow> db)"
proof -
  obtain w where w: "snd (aw_CreateMaintenanceWindow (demo_aw_env (450 * second)) demo_aw_request demo_aw_db) = Inr w" "aw_id w = 1"
    by (simp add: aw_CreateMaintenanceWindow_def aw_validateTimeRange_def minWindowDuration_def maxWindowDuration_def
      CheckOverlapping_def aw_save_def Let_def aw_Create_def aw_text_ok_def demo_aw_env_def demo_aw_request_def demo_aw_db_def
      demo_alert_window_def)
  have ok: "aw_rows_ok demo_aw_db" by (simp add: aw_rows_ok_def demo_aw_db_def demo_alert_window_def)
  have q: "ax_array (demo_aw_env (450 * second)) (aq_monitors demo_aw_request) = Some (aq_monitors demo_aw_request)"
    "(\<lambda>_. ''m2'') (al_monitor demo_alert) \<in> set (aq_monitors demo_aw_request)"
    "aq_starts demo_aw_request \<le> ax_now (demo_aw_env (600 * second))"
    "ax_now (demo_aw_env (600 * second)) \<le> aq_ends demo_aw_request"
    "\<forall>(env', ev) \<in> set [(demo_aw_env (450 * second), AwCancelCall ''w0'' 2 [])]. aw_id w \<notin> named env' ev"
    "\<not> ax_down (demo_aw_env (600 * second)) AwUnder"
    by (simp_all add: demo_aw_env_def demo_aw_request_def w(2))
  have "ch_enabled demo_channel" "ch_verified demo_channel" "al_user demo_alert = 1"
    by (simp_all add: demo_channel_def stored_channel_def demo_alert_def)
  then show ?thesis using window_silences_any_monitor [OF ok w(1) q(1,2,3,4,5,6)] by blast
qed

text \<open>
  The history of windows is always empty: no call ever completes a window, and only completed ones are asked
  for.
\<close>
theorem window_history_always_empty:
  assumes "aw_rows_ok db" and "call_GetMaintenanceWindowHistory env u f (run_aws evs db) = Inr (ws, n, p, k)"
  shows "ws = [] \<and> n = 0"
proof -
  have "aw_rows_ok (run_aws evs db)" by (rule aw_shape.history [OF assms(1)]) auto
  then have "filter (aw_matches u (f\<lparr>af_status := AwCompleted\<rparr>)) (awd_windows (run_aws evs db)) = []"
    by (auto simp: filter_empty_conv aw_matches_def aw_rows_ok_def list_all_iff)
  then show ?thesis
    using assms(2) by (auto simp: call_GetMaintenanceWindowHistory_def aw_GetMaintenanceWindowHistory_def aw_List_def Let_def
        answered_page_def newest_first_def page_of_def split: if_splits)
qed

theorem window_history_always_empty_witness:
  "\<exists>ws n. call_GetMaintenanceWindowHistory (demo_aw_env 5) 2
     \<lparr>af_status = AwNoStatus, af_start = None, af_end = None, af_page = 0, af_size = 0\<rparr>
     (run_aws [(demo_aw_env 5, AwCancelCall ''w0'' 2 [])] demo_aw_db) = Inr (ws, n, 1, 20) \<and> ws = [] \<and> n = 0"
proof -
  have got: "call_GetMaintenanceWindowHistory (demo_aw_env 5) 2
     \<lparr>af_status = AwNoStatus, af_start = None, af_end = None, af_page = 0, af_size = 0\<rparr>
     (run_aws [(demo_aw_env 5, AwCancelCall ''w0'' 2 [])] demo_aw_db) = Inr ([], 0, 1, 20)"
    by (simp add: run_aws_def call_CancelMaintenanceWindow_def named_window_def aw_CancelMaintenanceWindow_def aw_GetByID_def
      aw_Update_def aw_reload_def aw_logAudit_def scanRow_def upd_where_def set_aw_columns_def Let_def aw_text_ok_def
      demo_aw_env_def demo_aw_db_def demo_alert_window_def call_GetMaintenanceWindowHistory_def aw_List_def
      aw_GetMaintenanceWindowHistory_def aw_matches_def answered_page_def newest_first_def page_of_def)
  have "aw_rows_ok demo_aw_db" by (simp add: aw_rows_ok_def demo_aw_db_def demo_alert_window_def)
  then show ?thesis using window_history_always_empty [OF _ got] got by blast
qed

section \<open>Further facts\<close>

text \<open>A cancelled window stays in the table for ever: it is neither changed nor deleted.\<close>

lemma cancelled_window_stays:
  "aw_rows_ok db \<Longrightarrow> w \<in> set (awd_windows db) \<Longrightarrow> aw_status_of w = AwCancelled \<Longrightarrow> w \<in> set (awd_windows (run_aws evs db))"
  using aw_cancelled.history [of w db evs] by (simp add: keeps_cancelled_def)

text \<open>The end of a window that runs cannot be moved: its start, which the request leaves alone, is in the past.\<close>

lemma running_window_not_updated:
  assumes "aw_GetByID env AwGet (ac_id c) db = Inr w" and "aw_status_of w = AwScheduled" and "ac_starts c = None"
    and "ac_ends c = Some e" and "aw_starts w < e" and "aw_starts w < ax_now env - 30 * second"
  shows "aw_UpdateMaintenanceWindow env c db = (db, Inl AwInPast)"
  using assms by (simp add: aw_UpdateMaintenanceWindow_def changed_window_def Let_def aw_validateTimeRange_def)

text \<open>\<open>pq.Array\<close> makes \<open>NULL\<close> of a slice that is \<open>nil\<close>, as the one of a message without monitors is, and the column takes
  no \<open>NULL\<close>: a global window without monitors is never stored.\<close>

lemma global_window_without_monitors_refused:
  assumes "ax_array env [] = None" and "am_monitors m = []"
  shows "\<exists>code. snd (call_CreateMaintenanceWindow env u role m db) = Inl code"
  using assms
  by (auto simp: call_CreateMaintenanceWindow_def aw_CreateMaintenanceWindow_def aw_save_def Let_def aw_Create_def aw_answer_def
      split: option.splits)

end
