(* ===== verification/AlertChannels.thy ===== *)
theory AlertChannels
  imports AlertStore
begin

text \<open>
  The channels of the alert service: \<open>alert-service/internal/service/channels/\<close>, the calls on channels of
  \<open>handler/alert_service_handlers.go\<close> with their conversions of \<open>handler/converter.go\<close>, and the table of priorities. The
  name of a channel is in no statement of the repository, so it is beside the row here. Parsers of addresses, URLs,
  UUIDs and JSON are arguments, and a user is a number, 0 the zero UUID.
\<close>

datatype channel_error =
    OfRepository alert_error
  | FieldTooLong | InvalidEmail | InvalidChatID | InvalidURL | InvalidFormat
  | WrappedError string

record channel_env =
  ce_down :: alert_faults
  ce_now :: time
  ce_guest :: bool
  ce_new :: "nat \<Rightarrow> nat"
  ce_limit :: int
  ce_audited :: bool
  ce_uuid :: "string \<Rightarrow> nat option"
  ce_mail :: "string \<Rightarrow> string option"
  ce_scheme :: "string \<Rightarrow> string option"

section \<open>Validation\<close>

definition getChannelAddress :: "alert_channel \<Rightarrow> string" where
  "getChannelAddress c = channel_address (ch_type c) c"

definition isValidEmail :: "channel_env \<Rightarrow> string \<Rightarrow> bool" where
  "isValidEmail env email \<longleftrightarrow> ce_mail env email = Some email"

text \<open>\<open>strings.ToUpper\<close> as far as the methods go: the long s of Unicode has the capital \<open>S\<close>.\<close>

fun method_upper :: "string \<Rightarrow> string" where
  "method_upper [] = []"
| "method_upper (c # cs) =
     (if c = CHR 0xC5 \<and> cs \<noteq> [] \<and> hd cs = CHR 0xBF then CHR ''S'' # method_upper (tl cs)
      else (let n = (of_char c :: nat) in if 97 \<le> n \<and> n \<le> 122 then char_of (n - 32) else c) # method_upper cs)"

definition isValidWebhookMethod :: "string \<Rightarrow> bool" where
  "isValidWebhookMethod m \<longleftrightarrow> method_upper m \<in> {[], ''GET'', ''POST'', ''PUT'', ''PATCH''}"

text \<open>The pattern \<open>^-?\d+$\<close>.\<close>

definition chat_id_ok :: "string \<Rightarrow> bool" where
  "chat_id_ok s \<longleftrightarrow>
     (let ds = (if s \<noteq> [] \<and> hd s = CHR ''-'' then tl s else s) in ds \<noteq> [] \<and> list_all is_digit ds)"

definition chan_validateURL :: "channel_env \<Rightarrow> string \<Rightarrow> channel_error option" where
  "chan_validateURL env url =
     (case ce_scheme env url of
        None \<Rightarrow> Some InvalidURL
      | Some sch \<Rightarrow>
          if sch \<noteq> ''http'' \<and> sch \<noteq> ''https'' then Some InvalidURL
          else if list_ex (\<lambda>c. (of_char c :: nat) \<le> 32 \<or> (of_char c :: nat) = 127) url then Some InvalidURL
          else None)"

definition validateChannel :: "channel_env \<Rightarrow> string \<Rightarrow> alert_channel \<Rightarrow> channel_error option" where
  "validateChannel env name c =
     (if 255 < char_count name then Some FieldTooLong
      else case ch_type c of
        ChannelEmail \<Rightarrow>
          (case ch_email c of None \<Rightarrow> None | Some e \<Rightarrow> if isValidEmail env e then None else Some InvalidEmail)
      | ChannelTelegram \<Rightarrow>
          (case ch_telegram c of None \<Rightarrow> None | Some (i, t) \<Rightarrow> if chat_id_ok i then None else Some InvalidChatID)
      | ChannelWebhook \<Rightarrow>
          (case ch_webhook c of
             None \<Rightarrow> None
           | Some (url, m, h) \<Rightarrow>
               (case chan_validateURL env url of
                  Some err \<Rightarrow> Some err
                | None \<Rightarrow> if isValidWebhookMethod m then None else Some InvalidFormat))
      | ChannelOther s \<Rightarrow> None)"

section \<open>The service\<close>

definition chan_audit :: "channel_env \<Rightarrow> string \<Rightarrow> nat \<Rightarrow> alert_db \<Rightarrow> alert_db" where
  "chan_audit env action i db = (if ce_audited env then audit_Log (ce_down env) action i db else db)"

definition GetUserChannels :: "channel_env \<Rightarrow> nat \<Rightarrow> alert_db \<Rightarrow> channel_error + alert_channel list" where
  "GetUserChannels env u db =
     (case channel_ListByUserID (ce_down env) u db of Inl err \<Rightarrow> Inl (OfRepository err) | Inr cs \<Rightarrow> Inr cs)"

text \<open>The channels are stored one after the other, without a transaction: what was done before an error stays.\<close>

primrec store_channels :: "channel_env \<Rightarrow> nat \<Rightarrow> alert_channel list \<Rightarrow> alert_channel list \<Rightarrow> alert_db \<Rightarrow> alert_db \<times> channel_error option" where
  "store_channels env u current [] db = (db, None)"
| "store_channels env u current (c # cs) db =
     (case ExistsDuplicate (ce_down env) u (ch_type c) (getChannelAddress c) db of
        Inl err \<Rightarrow> (db, Some (OfRepository err))
      | Inr exists \<Rightarrow>
          let old = List.find (\<lambda>r. ch_id r = ch_id c) current
          in if exists \<and> (case old of None \<Rightarrow> False | Some r \<Rightarrow> getChannelAddress r = getChannelAddress c)
             then store_channels env u current cs db
             else case (if old \<noteq> None then channel_Update (ce_down env) (ce_now env) c db else channel_Create (ce_down env) c db) of
               Inl err \<Rightarrow> (db, Some (OfRepository err))
             | Inr db' \<Rightarrow> store_channels env u current cs db')"

primrec drop_channels :: "channel_env \<Rightarrow> alert_channel list \<Rightarrow> alert_channel list \<Rightarrow> alert_db \<Rightarrow> alert_db \<times> channel_error option" where
  "drop_channels env cs [] db = (db, None)"
| "drop_channels env cs (r # rs) db =
     (if list_ex (\<lambda>c. ch_id c = ch_id r) cs then drop_channels env cs rs db
      else case channel_Delete (ce_down env) (ch_id r) db of
        Inl err \<Rightarrow> (db, Some (OfRepository err))
      | Inr db' \<Rightarrow> drop_channels env cs rs db')"

definition UpdateUserChannels :: "channel_env \<Rightarrow> nat \<Rightarrow> alert_channel list \<Rightarrow> alert_db \<Rightarrow> alert_db \<times> channel_error option" where
  "UpdateUserChannels env u cs db =
     (if ce_guest env then (db, Some (OfRepository ErrGuestNotAllowed))
      else case channel_ListByUserID (ce_down env) u db of
        Inl err \<Rightarrow> (db, Some (OfRepository err))
      | Inr current \<Rightarrow>
          (case store_channels env u current cs db of
             (db1, Some err) \<Rightarrow> (db1, Some err)
           | (db1, None) \<Rightarrow> drop_channels env cs current db1))"

definition service_CreateChannel :: "channel_env \<Rightarrow> string \<Rightarrow> alert_channel \<Rightarrow> alert_db \<Rightarrow> alert_db \<times> (channel_error + alert_channel)" where
  "service_CreateChannel env name c db =
     (if ce_guest env then (db, Inl (OfRepository ErrGuestNotAllowed))
      else case validateChannel env name c of
        Some err \<Rightarrow> (db, Inl err)
      | None \<Rightarrow>
          (case channel_CountByUserID (ce_down env) (ch_user c) db of
             Inl err \<Rightarrow> (db, Inl (WrappedError ''failed to count user channels''))
           | Inr n \<Rightarrow>
               if 0 < ce_limit env \<and> ce_limit env \<le> n then (db, Inl (OfRepository ErrChannelLimitReached))
               else case ExistsDuplicate (ce_down env) (ch_user c) (ch_type c) (getChannelAddress c) db of
                 Inl err \<Rightarrow> (db, Inl (OfRepository err))
               | Inr True \<Rightarrow> (db, Inl (OfRepository ErrDuplicateChannel))
               | Inr False \<Rightarrow>
                   (case channel_Create (ce_down env) c db of
                      Inl err \<Rightarrow> (db, Inl (OfRepository err))
                    | Inr db' \<Rightarrow> (chan_audit env ''channel_created'' (ch_id c) db', Inr c))))"

definition service_VerifyChannel :: "channel_env \<Rightarrow> nat \<Rightarrow> string \<Rightarrow> alert_db \<Rightarrow> alert_db \<times> channel_error option" where
  "service_VerifyChannel env i code db =
     (case channel_GetByID (ce_down env) i db of
        Inl err \<Rightarrow> (db, Some (OfRepository err))
      | Inr c \<Rightarrow>
          if ch_verified c then (db, None)
          else if code = [] then (db, Some (OfRepository ErrInvalidVerificationCode))
          else case channel_Update (ce_down env) (ce_now env)
                 (c\<lparr>ch_verified := True, ch_failures := 0, ch_status := ChannelActive\<rparr>) db of
            Inl err \<Rightarrow> (db, Some (OfRepository err))
          | Inr db' \<Rightarrow> (chan_audit env ''channel_verified'' i db', None))"

definition service_GetChannel :: "channel_env \<Rightarrow> nat \<Rightarrow> nat \<Rightarrow> alert_db \<Rightarrow> channel_error + alert_channel" where
  "service_GetChannel env u i db =
     (case channel_GetByID (ce_down env) i db of
        Inl err \<Rightarrow> Inl (OfRepository err)
      | Inr c \<Rightarrow> if ch_user c \<noteq> u then Inl (OfRepository ErrForbidden) else Inr c)"

text \<open>The fields that a request may change, over the stored ones.\<close>

definition patched_channel :: "alert_channel \<Rightarrow> alert_channel \<Rightarrow> alert_channel" where
  "patched_channel p c =
     c\<lparr>ch_telegram := (if ch_telegram p \<noteq> None then ch_telegram p else ch_telegram c),
       ch_email := (if ch_email p \<noteq> None then ch_email p else ch_email c),
       ch_webhook := (if ch_webhook p \<noteq> None then ch_webhook p else ch_webhook c),
       ch_enabled := ch_enabled p\<rparr>"

definition service_UpdateChannel :: "channel_env \<Rightarrow> nat \<Rightarrow> string \<Rightarrow> alert_channel \<Rightarrow> alert_db \<Rightarrow> alert_db \<times> (channel_error + alert_channel)" where
  "service_UpdateChannel env u name p db =
     (if ce_guest env then (db, Inl (OfRepository ErrGuestNotAllowed))
      else case channel_GetByID (ce_down env) (ch_id p) db of
        Inl err \<Rightarrow> (db, Inl (OfRepository err))
      | Inr old \<Rightarrow>
          if ch_user old \<noteq> u then (db, Inl (OfRepository ErrForbidden))
          else let c = patched_channel p old
               in case validateChannel env name c of
                    Some err \<Rightarrow> (db, Inl err)
                  | None \<Rightarrow>
                      (case channel_Update (ce_down env) (ce_now env) c db of
                         Inl err \<Rightarrow> (db, Inl (OfRepository err))
                       | Inr db' \<Rightarrow> (chan_audit env ''channel_updated'' (ch_id c) db', Inr c)))"

definition service_DeleteChannel :: "channel_env \<Rightarrow> nat \<Rightarrow> nat \<Rightarrow> alert_db \<Rightarrow> alert_db \<times> channel_error option" where
  "service_DeleteChannel env u i db =
     (case channel_GetByID (ce_down env) i db of
        Inl err \<Rightarrow> (db, Some (WrappedError ''failed to get channel''))
      | Inr c \<Rightarrow>
          if ch_user c \<noteq> u then (db, Some (OfRepository ErrForbidden))
          else case channel_Delete (ce_down env) i db of
            Inl err \<Rightarrow> (db, Some (WrappedError ''failed to delete channel''))
          | Inr db' \<Rightarrow> (chan_audit env ''channel_deleted'' i db', None))"

section \<open>Conversions\<close>

definition stringToChannelType :: "string \<Rightarrow> channel_type option" where
  "stringToChannelType s =
     (if s \<in> {''TELEGRAM'', ''telegram''} then Some ChannelTelegram
      else if s \<in> {''EMAIL'', ''email''} then Some ChannelEmail
      else if s \<in> {''WEBHOOK'', ''webhook''} then Some ChannelWebhook
      else None)"

fun channelTypeToString :: "channel_type \<Rightarrow> string" where
  "channelTypeToString ChannelTelegram = ''TELEGRAM''"
| "channelTypeToString ChannelEmail = ''EMAIL''"
| "channelTypeToString ChannelWebhook = ''WEBHOOK''"
| "channelTypeToString (ChannelOther s) = []"

text \<open>What the JSON of a configuration holds, for each type; a parser gives \<open>None\<close> for an error.\<close>

record config_parsers =
  cp_telegram :: "string \<Rightarrow> (string \<times> string) option"
  cp_email :: "string \<Rightarrow> string option"
  cp_webhook :: "string \<Rightarrow> (string \<times> string \<times> (string \<times> string) list) option"

definition applyChannelConfigJSON :: "config_parsers \<Rightarrow> string \<Rightarrow> alert_channel \<Rightarrow> alert_channel option" where
  "applyChannelConfigJSON cp cfg c =
     (if cfg = [] then Some c
      else case ch_type c of
        ChannelTelegram \<Rightarrow> map_option (\<lambda>x. c\<lparr>ch_telegram := Some x\<rparr>) (cp_telegram cp cfg)
      | ChannelEmail \<Rightarrow> map_option (\<lambda>x. c\<lparr>ch_email := Some x\<rparr>) (cp_email cp cfg)
      | ChannelWebhook \<Rightarrow>
          map_option (\<lambda>(url, m, h). c\<lparr>ch_webhook := Some (url, if m = [] then ''POST'' else m, h)\<rparr>) (cp_webhook cp cfg)
      | ChannelOther s \<Rightarrow> Some c)"

datatype proto_channel_type = ProtoUnspecified | ProtoEmail | ProtoTelegram | ProtoWebhook | ProtoSms

definition protoToChannelType :: "proto_channel_type \<Rightarrow> channel_type" where
  "protoToChannelType t =
     (case t of ProtoEmail \<Rightarrow> ChannelEmail | ProtoTelegram \<Rightarrow> ChannelTelegram | ProtoWebhook \<Rightarrow> ChannelWebhook
      | ProtoSms \<Rightarrow> ChannelWebhook | ProtoUnspecified \<Rightarrow> ChannelEmail)"

definition channelTypeToProto :: "channel_type \<Rightarrow> proto_channel_type" where
  "channelTypeToProto t =
     (case t of ChannelEmail \<Rightarrow> ProtoEmail | ChannelTelegram \<Rightarrow> ProtoTelegram | ChannelWebhook \<Rightarrow> ProtoWebhook
      | ChannelOther s \<Rightarrow> ProtoUnspecified)"

text \<open>A channel of the list in the request: type, address, and whether it is verified.\<close>

record listed_channel =
  lc_type :: proto_channel_type
  lc_address :: string
  lc_verified :: bool

definition ProtoToAlertChannel :: "time \<Rightarrow> nat \<Rightarrow> nat \<Rightarrow> listed_channel \<Rightarrow> alert_channel" where
  "ProtoToAlertChannel now new u l =
     (let ty = protoToChannelType (lc_type l)
      in \<lparr>ch_id = new, ch_user = u, ch_type = ty, ch_status = ChannelUnverified, ch_enabled = True, ch_verified = lc_verified l,
          ch_failures = 0, ch_last_failure = None,
          ch_telegram = (if ty = ChannelTelegram then Some (lc_address l, []) else None),
          ch_email = (if ty = ChannelEmail then Some (lc_address l) else None),
          ch_webhook = (if ty = ChannelWebhook then Some (lc_address l, ''POST'', []) else None),
          ch_created = now, ch_updated = now\<rparr>)"

definition AlertChannelToProto :: "alert_channel \<Rightarrow> listed_channel" where
  "AlertChannelToProto c =
     \<lparr>lc_type = channelTypeToProto (ch_type c), lc_address = getChannelAddress c, lc_verified = ch_verified c\<rparr>"

section \<open>The gRPC calls\<close>

datatype channel_code =
    ChanInvalid | ChanUnauthenticated | ChanNotFound | ChanDenied | ChanExhausted | ChanExists | ChanUnimplemented | ChanInternal

definition channelErrToStatus :: "channel_error \<Rightarrow> channel_code" where
  "channelErrToStatus err =
     (case err of
        OfRepository e \<Rightarrow>
          (case e of
             ErrAlertChannelNotFound \<Rightarrow> ChanNotFound
           | ErrForbidden \<Rightarrow> ChanDenied
           | ErrGuestNotAllowed \<Rightarrow> ChanDenied
           | ErrChannelLimitReached \<Rightarrow> ChanExhausted
           | ErrDuplicateChannel \<Rightarrow> ChanExists
           | _ \<Rightarrow> ChanInternal)
      | WrappedError s \<Rightarrow> ChanInternal
      | _ \<Rightarrow> ChanInvalid)"

definition chan_answer :: "channel_error + 'a \<Rightarrow> channel_code + 'a" where
  "chan_answer r = map_sum channelErrToStatus id r"

definition GetNotificationChannels :: "channel_env \<Rightarrow> nat \<Rightarrow> alert_db \<Rightarrow> channel_code + listed_channel list" where
  "GetNotificationChannels env u db =
     (if u = 0 then Inl ChanUnauthenticated
      else case GetUserChannels env u db of Inl err \<Rightarrow> Inl ChanInternal | Inr cs \<Rightarrow> Inr (map AlertChannelToProto cs))"

text \<open>Every channel of the request gets an identifier of its own, the \<open>k\<close>-th of the environment.\<close>

definition requested_channels :: "channel_env \<Rightarrow> nat \<Rightarrow> listed_channel list \<Rightarrow> alert_channel list" where
  "requested_channels env u ls = map (\<lambda>(k, l). ProtoToAlertChannel (ce_now env) (ce_new env k) u l) (enumerate 0 ls)"

definition UpdateNotificationChannels :: "channel_env \<Rightarrow> nat \<Rightarrow> listed_channel list \<Rightarrow> alert_db \<Rightarrow> alert_db \<times> (channel_code + listed_channel list)" where
  "UpdateNotificationChannels env u ls db =
     (if u = 0 then (db, Inl ChanUnauthenticated)
      else if list_ex (\<lambda>l. lc_type l = ProtoSms) ls then (db, Inl ChanUnimplemented)
      else case UpdateUserChannels env u (requested_channels env u ls) db of
        (db', Some err) \<Rightarrow> (db', Inl (if err = OfRepository ErrGuestNotAllowed then ChanDenied else ChanInternal))
      | (db', None) \<Rightarrow>
          (db', case GetUserChannels env u db' of Inl err \<Rightarrow> Inl ChanInternal | Inr cs \<Rightarrow> Inr (map AlertChannelToProto cs)))"

definition call_CreateChannel :: "channel_env \<Rightarrow> config_parsers \<Rightarrow> nat \<Rightarrow> string \<Rightarrow> string \<Rightarrow> string \<Rightarrow> alert_db \<Rightarrow> alert_db \<times> (channel_code + alert_channel)" where
  "call_CreateChannel env cp u name ty cfg db =
     (if u = 0 then (db, Inl ChanUnauthenticated)
      else if name = [] then (db, Inl ChanInvalid)
      else case stringToChannelType ty of
        None \<Rightarrow> (db, Inl ChanInvalid)
      | Some t \<Rightarrow>
          (case applyChannelConfigJSON cp cfg
                  \<lparr>ch_id = ce_new env 0, ch_user = u, ch_type = t, ch_status = ChannelUnverified, ch_enabled = True,
                   ch_verified = False, ch_failures = 0, ch_last_failure = None, ch_telegram = None, ch_email = None,
                   ch_webhook = None, ch_created = ce_now env, ch_updated = ce_now env\<rparr> of
             None \<Rightarrow> (db, Inl ChanInvalid)
           | Some c \<Rightarrow> map_prod id chan_answer (service_CreateChannel env name c db)))"

definition own_channel :: "channel_env \<Rightarrow> nat \<Rightarrow> string \<Rightarrow> alert_db \<Rightarrow> channel_code + alert_channel" where
  "own_channel env u t db =
     (if u = 0 then Inl ChanUnauthenticated
      else case ce_uuid env t of
        None \<Rightarrow> Inl ChanInvalid
      | Some i \<Rightarrow> chan_answer (service_GetChannel env u i db))"

definition call_GetChannel :: "channel_env \<Rightarrow> nat \<Rightarrow> string \<Rightarrow> alert_db \<Rightarrow> channel_code + alert_channel" where
  "call_GetChannel env u t db = own_channel env u t db"

definition call_ListChannels :: "channel_env \<Rightarrow> nat \<Rightarrow> alert_db \<Rightarrow> channel_code + alert_channel list" where
  "call_ListChannels env u db =
     (if u = 0 then Inl ChanUnauthenticated
      else case GetUserChannels env u db of Inl err \<Rightarrow> Inl ChanInternal | Inr cs \<Rightarrow> Inr cs)"

definition call_UpdateChannel :: "channel_env \<Rightarrow> config_parsers \<Rightarrow> nat \<Rightarrow> string \<Rightarrow> string \<Rightarrow> bool option \<Rightarrow> string \<Rightarrow> alert_db \<Rightarrow> alert_db \<times> (channel_code + alert_channel)" where
  "call_UpdateChannel env cp u t name enabled cfg db =
     (case own_channel env u t db of
        Inl code \<Rightarrow> (db, Inl code)
      | Inr old \<Rightarrow>
          (case applyChannelConfigJSON cp cfg
                  \<lparr>ch_id = ch_id old, ch_user = u, ch_type = ch_type old, ch_status = ChannelUnverified,
                   ch_enabled = (case enabled of None \<Rightarrow> ch_enabled old | Some b \<Rightarrow> b),
                   ch_verified = False, ch_failures = 0, ch_last_failure = None, ch_telegram = None, ch_email = None,
                   ch_webhook = None, ch_created = zero_time, ch_updated = zero_time\<rparr> of
             None \<Rightarrow> (db, Inl ChanInvalid)
           | Some p \<Rightarrow> map_prod id chan_answer (service_UpdateChannel env u name p db)))"

definition call_DeleteChannel :: "channel_env \<Rightarrow> nat \<Rightarrow> string \<Rightarrow> alert_db \<Rightarrow> alert_db \<times> channel_code option" where
  "call_DeleteChannel env u t db =
     (if u = 0 then (db, Some ChanUnauthenticated)
      else case ce_uuid env t of
        None \<Rightarrow> (db, Some ChanInvalid)
      | Some i \<Rightarrow> map_prod id (map_option channelErrToStatus) (service_DeleteChannel env u i db))"

text \<open>The code that proves the possession of the address is the constant \<open>probe\<close>.\<close>

definition call_VerifyChannel :: "channel_env \<Rightarrow> nat \<Rightarrow> string \<Rightarrow> alert_db \<Rightarrow> alert_db \<times> channel_code option" where
  "call_VerifyChannel env u t db =
     (case own_channel env u t db of
        Inl code \<Rightarrow> (db, Some code)
      | Inr c \<Rightarrow> map_prod id (map_option channelErrToStatus) (service_VerifyChannel env (ch_id c) ''probe'' db))"

section \<open>Priorities\<close>

record channel_priority =
  cq_id :: nat
  cq_rule :: nat
  cq_channel :: nat
  cq_priority :: int
  cq_created :: time

text \<open>The table of priorities is beside the others here. One transaction replaces those of a rule; a rule and a
  channel that exist, a pair of them only once, and 32 bits for the priority.\<close>

definition SetChannelPriorities :: "bool \<Rightarrow> nat \<Rightarrow> channel_priority list \<Rightarrow> alert_db \<Rightarrow> channel_priority list \<Rightarrow> channel_priority list option" where
  "SetChannelPriorities fails rule ps db rows =
     (let kept = del_where (\<lambda>r. cq_rule r = rule) rows
      in if fails \<or> \<not> distinct (map cq_id (kept @ ps)) \<or> \<not> distinct (map (\<lambda>r. (cq_rule r, cq_channel r)) (kept @ ps))
           \<or> list_ex (\<lambda>p. cq_rule p \<notin> ru_id ` set (ad_rules db) \<or> cq_channel p \<notin> ch_id ` set (ad_channels db)
                \<or> cq_priority p < - (2 ^ 31) \<or> 2 ^ 31 \<le> cq_priority p) ps
         then None else Some (kept @ ps))"

definition GetChannelPriorities :: "bool \<Rightarrow> nat \<Rightarrow> channel_priority list \<Rightarrow> channel_priority list option" where
  "GetChannelPriorities fails rule rows =
     (if fails then None else Some (sort_key cq_priority (filter (\<lambda>r. cq_rule r = rule) rows)))"

definition SetPriorities :: "bool \<Rightarrow> (nat \<Rightarrow> nat) \<Rightarrow> time \<Rightarrow> nat \<Rightarrow> nat list \<Rightarrow> int list \<Rightarrow> alert_db \<Rightarrow> channel_priority list \<Rightarrow> channel_priority list option" where
  "SetPriorities fails new_id now rule cs ps db rows =
     (if length cs \<noteq> length ps then None
      else SetChannelPriorities fails rule
        (map (\<lambda>(k, c, p). \<lparr>cq_id = new_id k, cq_rule = rule, cq_channel = c, cq_priority = p, cq_created = now\<rparr>)
          (enumerate 0 (zip cs ps))) db rows)"

definition GetPrioritizedChannels :: "bool \<Rightarrow> nat \<Rightarrow> channel_priority list \<Rightarrow> channel_priority list option" where
  "GetPrioritizedChannels fails rule rows = GetChannelPriorities fails rule rows"

end
