(* ===== verification/AlertChannelOutcomes.thy ===== *)
theory AlertChannelOutcomes
  imports AlertChannels
begin

text \<open>
  What the calls on channels achieve: the list of channels is replaced, a channel is verified without a proof, and what
  a change keeps.
\<close>

section \<open>The list of channels\<close>

lemma store_new_channels:
  assumes "\<And>x. \<not> ce_down env x" and "distinct (map ch_id cs)"
    and "\<And>c. c \<in> set cs \<Longrightarrow> ch_id c \<notin> ch_id ` set (ad_channels db)"
    and "\<And>c. c \<in> set cs \<Longrightarrow> ch_id c \<notin> ch_id ` set current"
  shows "store_channels env u current cs db = (db\<lparr>ad_channels := ad_channels db @ map stored_channel cs\<rparr>, None)"
  using assms(2-4)
proof (induction cs arbitrary: db)
  case (Cons c cs)
  let ?db = "db\<lparr>ad_channels := ad_channels db @ [stored_channel c]\<rparr>"
  have "List.find (\<lambda>r. ch_id r = ch_id c) current = None"
    using Cons.prems(3) [of c] by (auto simp: find_None_iff image_iff)
  moreover have "channel_Create (ce_down env) c db = Inr ?db"
    using Cons.prems(2) [of c] assms(1) by (auto simp: channel_Create_def list_ex_iff image_iff)
  moreover have "store_channels env u current cs ?db = (?db\<lparr>ad_channels := ad_channels ?db @ map stored_channel cs\<rparr>, None)"
  proof (rule Cons.IH)
    show "distinct (map ch_id cs)" using Cons.prems(1) by simp
    show "ch_id x \<notin> ch_id ` set (ad_channels ?db)" if "x \<in> set cs" for x
      using Cons.prems(1) Cons.prems(2) [of x] that by (auto simp: stored_channel_def image_iff)
    show "ch_id x \<notin> ch_id ` set current" if "x \<in> set cs" for x
      using Cons.prems(3) [of x] that by simp
  qed
  ultimately show ?case
    using assms(1) by (simp add: ExistsDuplicate_def split: channel_type.splits)
qed simp

lemma drop_old_channels:
  assumes "\<And>x. \<not> ce_down env x" and "distinct (map ch_id rs)"
    and "\<And>r. r \<in> set rs \<Longrightarrow> r \<in> set (ad_channels db) \<and> ch_id r \<notin> ch_id ` set cs"
  shows "snd (drop_channels env cs rs db) = None
    \<and> ad_channels (fst (drop_channels env cs rs db)) = filter (\<lambda>r. ch_id r \<notin> ch_id ` set rs) (ad_channels db)"
  using assms(2,3)
proof (induction rs arbitrary: db)
  case (Cons r rs)
  let ?db = "db\<lparr>ad_channels := del_where (\<lambda>x. ch_id x = ch_id r) (ad_channels db),
                ad_attempts := del_where (\<lambda>t. at_channel t = ch_id r) (ad_attempts db)\<rparr>"
  have "channel_Delete (ce_down env) (ch_id r) db = Inr ?db"
    using Cons.prems(2) [of r] assms(1) by (auto simp: channel_Delete_def list_ex_iff)
  moreover have "\<not> list_ex (\<lambda>c. ch_id c = ch_id r) cs"
    using Cons.prems(2) [of r] by (auto simp: list_ex_iff image_iff)
  ultimately have go: "drop_channels env cs (r # rs) db = drop_channels env cs rs ?db" by simp
  have "x \<in> set (ad_channels ?db) \<and> ch_id x \<notin> ch_id ` set cs" if "x \<in> set rs" for x
  proof -
    have "ch_id x \<noteq> ch_id r" using Cons.prems(1) that by (metis distinct.simps(2) image_eqI list.set_map list.simps(9))
    then show ?thesis using Cons.prems(2) [of x] that by simp
  qed
  then have "snd (drop_channels env cs rs ?db) = None
      \<and> ad_channels (fst (drop_channels env cs rs ?db)) = filter (\<lambda>x. ch_id x \<notin> ch_id ` set rs) (ad_channels ?db)"
    using Cons.prems(1) by (intro Cons.IH) auto
  then show ?case unfolding go by (auto simp: del_where_def intro: filter_cong)
qed simp

lemma requested_ids: "map ch_id (requested_channels env u ls) = map (ce_new env) [0..<length ls]"
  by (rule nth_equalityI) (simp_all add: requested_channels_def ProtoToAlertChannel_def Let_def nth_enumerate_eq)

lemma requested_user: "c \<in> set (requested_channels env u ls) \<Longrightarrow> ch_user c = u"
  by (auto simp: requested_channels_def ProtoToAlertChannel_def Let_def)

text \<open>
  Property C29. An update of the list of channels replaces every channel of the user by the ones of the request, which are all
  new: known ones are not recognised, duplicates are stored, no limit and no validation applies, and each is verified
  when the request says so. This is of a user who is logged in and no guest, of a request without SMS channels (which is
  refused as a whole), and when no statement fails (an error ends the update where it is); the new ids are fresh.
\<close>
theorem UpdateNotificationChannels_replaces_all:
  assumes "u \<noteq> 0" and "\<not> ce_guest env" and "\<And>x. \<not> ce_down env x" and "\<not> list_ex (\<lambda>l. lc_type l = ProtoSms) ls"
    and "distinct (map ch_id (ad_channels db))"
    and "distinct (map (ce_new env) [0..<length ls] @ map ch_id (ad_channels db))"
  shows "ad_channels (fst (UpdateNotificationChannels env u ls db)) =
    filter (\<lambda>c. ch_user c \<noteq> u) (ad_channels db) @ map stored_channel (requested_channels env u ls)"
proof -
  let ?new = "requested_channels env u ls"
  let ?mine = "newest_first ch_created (filter (\<lambda>c. ch_user c = u) (ad_channels db))"
  let ?db = "db\<lparr>ad_channels := ad_channels db @ map stored_channel ?new\<rparr>"
  have fresh: "ch_id c \<notin> ch_id ` set (ad_channels db)" if "c \<in> set ?new" for c
  proof -
    have "ch_id c \<in> set (map (ce_new env) [0..<length ls])" using that requested_ids by (metis image_eqI list.set_map)
    then show ?thesis using assms(6) by auto
  qed
  have mine: "channel_ListByUserID (ce_down env) u db = Inr ?mine"
    using assms(3) by (simp add: channel_ListByUserID_def)
  have stored: "store_channels env u ?mine ?new db = (?db, None)"
    using assms(3,6) fresh by (intro store_new_channels) (auto simp: requested_ids)
  have "distinct (map ch_id ?mine)"
    using assms(5) by (auto simp: newest_first_def rev_map [symmetric] distinct_map intro: inj_on_subset)
  moreover have "r \<in> set (ad_channels ?db) \<and> ch_id r \<notin> ch_id ` set ?new" if "r \<in> set ?mine" for r
  proof -
    have r: "r \<in> set (ad_channels db)" using that by simp
    then have "ch_id r \<notin> ch_id ` set ?new" using fresh by (metis imageE image_eqI)
    then show ?thesis using r by simp
  qed
  ultimately have dropped: "snd (drop_channels env ?new ?mine ?db) = None"
      "ad_channels (fst (drop_channels env ?new ?mine ?db)) = filter (\<lambda>r. ch_id r \<notin> ch_id ` set ?mine) (ad_channels ?db)"
    using drop_old_channels [OF assms(3), of ?mine ?db ?new] by blast+
  have "filter (\<lambda>r. ch_id r \<notin> ch_id ` set ?mine) (ad_channels db) = filter (\<lambda>c. ch_user c \<noteq> u) (ad_channels db)"
    using distinct_key_eq [OF assms(5)] by (intro filter_cong) (auto simp: image_iff)
  moreover have "filter (\<lambda>r. ch_id r \<notin> ch_id ` set ?mine) (map stored_channel ?new) = map stored_channel ?new"
    using fresh by (auto simp: filter_id_conv stored_channel_def image_iff)
  ultimately show ?thesis
    using assms(1,2,4) mine stored dropped
    by (cases "drop_channels env ?new ?mine ?db") (auto simp: UpdateNotificationChannels_def UpdateUserChannels_def)
qed

text \<open>A user with one channel that is not verified, and the limit of one channel.\<close>

definition demo_chan_env :: channel_env where
  "demo_chan_env = \<lparr>ce_down = (\<lambda>_. False), ce_now = 9, ce_guest = False, ce_new = (\<lambda>k. 10 + k), ce_limit = 1, ce_audited = False,
     ce_uuid = (\<lambda>t. if t = ''c5'' then Some 5 else None), ce_mail = (\<lambda>_. None), ce_scheme = (\<lambda>_. None)\<rparr>"

definition demo_own_channel :: alert_channel where
  "demo_own_channel = stored_channel \<lparr>ch_id = 5, ch_user = 2, ch_type = ChannelEmail, ch_status = ChannelUnverified,
     ch_enabled = True, ch_verified = False, ch_failures = 0, ch_last_failure = None,
     ch_telegram = None, ch_email = Some ''a@b'', ch_webhook = None, ch_created = 0, ch_updated = 0\<rparr>"

definition demo_chan_db :: alert_db where
  "demo_chan_db = \<lparr>ad_alerts = [], ad_rules = [], ad_channels = [demo_own_channel], ad_attempts = [], ad_changes = [],
     ad_escalations = [], ad_mutes = [], ad_audit = []\<rparr>"

definition demo_listed :: "listed_channel list" where
  "demo_listed = replicate 2 \<lparr>lc_type = ProtoEmail, lc_address = ''not an address'', lc_verified = True\<rparr>"

theorem UpdateNotificationChannels_replaces_all_witness:
  "ad_channels (fst (UpdateNotificationChannels demo_chan_env 2 demo_listed demo_chan_db)) =
     map stored_channel (requested_channels demo_chan_env 2 demo_listed)
   \<and> map ch_verified (requested_channels demo_chan_env 2 demo_listed) = [True, True]"
proof
  have "\<not> ce_guest demo_chan_env" "\<And>x. \<not> ce_down demo_chan_env x" "ce_new demo_chan_env = (\<lambda>k. 10 + k)"
    by (simp_all add: demo_chan_env_def)
  moreover have "\<not> list_ex (\<lambda>l. lc_type l = ProtoSms) demo_listed" "length demo_listed = 2"
    by (simp_all add: demo_listed_def numeral_2_eq_2)
  moreover have "ad_channels demo_chan_db = [demo_own_channel]" "ch_id demo_own_channel = 5" "ch_user demo_own_channel = 2"
    by (simp_all add: demo_chan_db_def demo_own_channel_def stored_channel_def)
  ultimately show "ad_channels (fst (UpdateNotificationChannels demo_chan_env 2 demo_listed demo_chan_db)) =
     map stored_channel (requested_channels demo_chan_env 2 demo_listed)"
    using UpdateNotificationChannels_replaces_all [of 2 demo_chan_env demo_listed demo_chan_db]
    by (simp add: upt_conv_Cons)
  show "map ch_verified (requested_channels demo_chan_env 2 demo_listed) = [True, True]"
    by (simp add: requested_channels_def demo_listed_def ProtoToAlertChannel_def Let_def numeral_2_eq_2)
qed

section \<open>Verification\<close>

text \<open>
  Property C30. A channel is verified by asking for it: the owner proves nothing, as the code that is checked is a constant.
\<close>
theorem channel_verified_without_proof:
  assumes "u \<noteq> 0" and "ce_uuid env t = Some (ch_id c)" and "List.find (\<lambda>r. ch_id r = ch_id c) (ad_channels db) = Some c"
    and "ch_user c = u" and "\<And>x. \<not> ce_down env x"
  shows "snd (call_VerifyChannel env u t db) = None
    \<and> map_option ch_verified (List.find (\<lambda>r. ch_id r = ch_id c) (ad_channels (fst (call_VerifyChannel env u t db)))) = Some True"
proof -
  have got: "channel_GetByID (ce_down env) (ch_id c) db = Inr c"
    using assms(3,5) by (simp add: channel_GetByID_def)
  then have own: "own_channel env u t db = Inr c"
    using assms(1,2,4) by (simp add: own_channel_def service_GetChannel_def chan_answer_def)
  have there: "list_ex (\<lambda>r. ch_id r = ch_id c) (ad_channels db)"
    using find_Some_inD [OF assms(3)] by (auto simp: list_ex_iff)
  have kept: "ch_id (set_channel_columns now x r) = ch_id r" "ch_verified (set_channel_columns now x r) = ch_verified x" for now x r
    by (simp_all add: set_channel_columns_def Let_def)
  have audit: "ad_channels (chan_audit env act i d) = ad_channels d" for act i d
    by (simp add: chan_audit_def audit_Log_def)
  show ?thesis
    using own got there assms(3,5)
    by (auto simp: call_VerifyChannel_def service_VerifyChannel_def channel_Update_def audit find_upd_kept kept)
qed

theorem channel_verified_without_proof_witness:
  "\<not> ch_verified demo_own_channel
   \<and> snd (call_VerifyChannel demo_chan_env 2 ''c5'' demo_chan_db) = None
   \<and> map_option ch_verified (List.find (\<lambda>r. ch_id r = 5) (ad_channels (fst (call_VerifyChannel demo_chan_env 2 ''c5'' demo_chan_db)))) = Some True"
proof -
  have c: "ch_id demo_own_channel = 5" "ch_user demo_own_channel = 2" "\<not> ch_verified demo_own_channel"
    by (simp_all add: demo_own_channel_def stored_channel_def)
  moreover have "ce_uuid demo_chan_env ''c5'' = Some (ch_id demo_own_channel)" "\<And>x. \<not> ce_down demo_chan_env x"
    by (simp_all add: demo_chan_env_def c)
  moreover have "List.find (\<lambda>r. ch_id r = ch_id demo_own_channel) (ad_channels demo_chan_db) = Some demo_own_channel"
    by (simp add: demo_chan_db_def)
  ultimately show ?thesis
    using channel_verified_without_proof [of 2 demo_chan_env "''c5''" demo_own_channel demo_chan_db] by simp
qed

section \<open>Further facts\<close>

text \<open>A verified channel stays verified when its address is changed.\<close>

lemma changed_address_stays_verified:
  assumes "service_UpdateChannel env u name p db = (db', Inr c)" and "channel_GetByID (ce_down env) (ch_id p) db = Inr old"
  shows "ch_verified c = ch_verified old \<and> (ch_email p \<noteq> None \<longrightarrow> ch_email c = ch_email p)"
  using assms by (auto simp: service_UpdateChannel_def patched_channel_def Let_def split: if_splits option.splits sum.splits)

text \<open>A change is not checked for duplicates: what the channel becomes depends on its own row alone.\<close>

lemma change_ignores_other_channels:
  assumes "\<not> ce_guest env" and "channel_GetByID (ce_down env) (ch_id p) db = Inr old" and "ch_user old = u"
    and "validateChannel env name (patched_channel p old) = None" and "channel_Update (ce_down env) (ce_now env) (patched_channel p old) db = Inr db'"
  shows "snd (service_UpdateChannel env u name p db) = Inr (patched_channel p old)"
  using assms by (simp add: service_UpdateChannel_def Let_def)

text \<open>A new channel is stored below the limit, and no second one for an address.\<close>

lemma service_CreateChannel_creates:
  assumes "service_CreateChannel env name c db = (db', Inr x)"
  shows "x = c \<and> ad_channels db' = ad_channels db @ [stored_channel c]
    \<and> (0 < ce_limit env \<longrightarrow> int (count_where (\<lambda>r. ch_user r = ch_user c) (ad_channels db')) \<le> ce_limit env)"
  using assms
  by (auto simp: service_CreateChannel_def channel_CountByUserID_def channel_Create_def chan_audit_def audit_Log_def stored_channel_def
      split: if_splits option.splits sum.splits bool.splits)

text \<open>The priorities of a rule are read back as they were set, smallest first.\<close>

lemma priorities_roundtrip:
  assumes "SetChannelPriorities False rule ps db rows = Some rows'" and "list_all (\<lambda>p. cq_rule p = rule) ps"
  shows "GetChannelPriorities False rule rows' = Some (sort_key cq_priority ps)"
proof -
  have "rows' = del_where (\<lambda>r. cq_rule r = rule) rows @ ps"
    using assms(1) by (auto simp: SetChannelPriorities_def Let_def split: if_splits)
  moreover have "filter (\<lambda>r. cq_rule r = rule) (del_where (\<lambda>r. cq_rule r = rule) rows) = []"
    by (auto simp: filter_empty_conv)
  moreover have "filter (\<lambda>r. cq_rule r = rule) ps = ps"
    using assms(2) by (auto simp: filter_id_conv list_all_iff)
  ultimately show ?thesis by (simp add: GetChannelPriorities_def)
qed

end
