(* ===== verification/TemplateModel.thy ===== *)
theory TemplateModel
  imports GoText
begin

text \<open>
  The templates of notifications and their variables:
  \<open>notification-template-service/internal/model/template.go\<close> and \<open>variable.go\<close>. Go's package
  \<open>text/template\<close> is the argument \<open>parse\<close>: for the name given to \<open>template.New\<close> and a text, the error of
  \<open>Parse\<close>, \<open>None\<close> when there is none. The named string types of the code are strings.
\<close>

section \<open>Values\<close>

definition channel_names :: "string list" where
  "channel_names = [''email'', ''telegram'', ''webhook'', ''slack'', ''discord'', ''sms'']"

definition type_names :: "string list" where
  "type_names = [''monitor_up'', ''monitor_down'', ''monitor_degraded'', ''certificate_expiry'',
     ''flapping_detected'', ''incident_created'', ''incident_resolved'', ''maintenance_started'',
     ''maintenance_ended'', ''custom'']"

definition engine_names :: "string list" where
  "engine_names = [''gotemplate'', ''jinja2'', ''handlebars'']"

definition format_names :: "string list" where
  "format_names = [''text'', ''html'', ''markdown'', ''json'']"

datatype tpl_error =
    InvalidTemplateID | InvalidTemplateName | InvalidTemplateBody | InvalidChannel | InvalidType
  | BodyTooLarge int | SystemNotModified | SystemNotDeleted | TemplateNotFound | NotOwnTemplate
  | TemplateDbFailed | RenderFailed "string list"

record template =
  tp_id :: string
  tp_user :: string
  tp_name :: string
  tp_description :: string
  tp_channel :: string
  tp_type :: string
  tp_engine :: string
  tp_subject :: string
  tp_body :: string
  tp_format :: string
  tp_default :: bool
  tp_system :: bool
  tp_created :: time
  tp_updated :: time
  tp_version :: int
  tp_parent :: "string option"

section \<open>Templates\<close>

definition isValidChannel :: "string \<Rightarrow> bool" where
  "isValidChannel c \<longleftrightarrow> c \<in> set channel_names"

definition isValidType :: "string \<Rightarrow> bool" where
  "isValidType t \<longleftrightarrow> t \<in> set type_names"

definition isValidUUID :: "string \<Rightarrow> bool" where
  "isValidUUID i \<longleftrightarrow> map length (go_Split i CHR ''-'' []) = [8, 4, 4, 4, 12]"

definition default_engine :: "template \<Rightarrow> template" where
  "default_engine t = (if tp_engine t = [] then t\<lparr>tp_engine := ''gotemplate''\<rparr> else t)"

definition default_format :: "template \<Rightarrow> template" where
  "default_format t =
     (if tp_format t = []
      then t\<lparr>tp_format :=
        (if tp_channel t = ''email'' then ''html'' else if tp_channel t = ''webhook'' then ''json'' else ''text'')\<rparr>
      else t)"

definition tpl_Validate :: "template \<Rightarrow> tpl_error + template" where
  "tpl_Validate t =
     (if tp_id t \<noteq> [] \<and> \<not> isValidUUID (tp_id t) then Inl InvalidTemplateID
      else if TrimSpace (tp_name t) = [] then Inl InvalidTemplateName
      else if TrimSpace (tp_body t) = [] then Inl InvalidTemplateBody
      else if \<not> isValidChannel (tp_channel t) then Inl InvalidChannel
      else if \<not> isValidType (tp_type t) then Inl InvalidType
      else Inr (default_format (default_engine t)))"

definition CanDelete :: "template \<Rightarrow> bool" where
  "CanDelete t \<longleftrightarrow> \<not> tp_system t"

definition IsDefaultFor :: "string \<Rightarrow> string \<Rightarrow> template \<Rightarrow> bool" where
  "IsDefaultFor c ty t \<longleftrightarrow> tp_default t \<and> tp_channel t = c \<and> tp_type t = ty"

definition tpl_Clone :: "time \<Rightarrow> string \<Rightarrow> template \<Rightarrow> template" where
  "tpl_Clone now name t =
     \<lparr>tp_id = [], tp_user = tp_user t, tp_name = name, tp_description = ''Clone of '' @ tp_name t,
      tp_channel = tp_channel t, tp_type = tp_type t, tp_engine = tp_engine t, tp_subject = tp_subject t,
      tp_body = tp_body t, tp_format = tp_format t, tp_default = False, tp_system = False,
      tp_created = now, tp_updated = now, tp_version = 1, tp_parent = Some (tp_id t)\<rparr>"

definition ValidateSyntax :: "(string \<Rightarrow> string \<Rightarrow> string option) \<Rightarrow> template \<Rightarrow> string list" where
  "ValidateSyntax parse t =
     (if tp_subject t = [] then []
      else case parse ''subject'' (tp_subject t) of None \<Rightarrow> [] | Some e \<Rightarrow> [''subject syntax error: '' @ e])
     @ (case parse ''body'' (tp_body t) of None \<Rightarrow> [] | Some e \<Rightarrow> [''body syntax error: '' @ e])"

definition BeforeCreate :: "time \<Rightarrow> template \<Rightarrow> template" where
  "BeforeCreate now t =
     default_format (default_engine (t\<lparr>tp_created := now, tp_updated := now, tp_version := 1\<rparr>))"

text \<open>The counter is a Go \<open>int\<close>, of 64 bits.\<close>

definition BeforeUpdate :: "time \<Rightarrow> template \<Rightarrow> template" where
  "BeforeUpdate now t = t\<lparr>tp_updated := now, tp_version := sint (of_int (tp_version t + 1) :: 64 word)\<rparr>"

section \<open>Variables\<close>

datatype variable_type =
    VarTypeString | VarTypeInt | VarTypeFloat | VarTypeBool | VarTypeTimestamp | VarTypeDuration
  | VarTypeObject | VarTypeArray

record template_variable =
  tv_name :: string
  tv_description :: string
  tv_type :: variable_type
  tv_required :: bool
  tv_example :: string
  tv_nested :: "string list"

record rendered_template =
  rt_subject :: string
  rt_body :: string
  rt_format :: string
  rt_success :: bool
  rt_errors :: "string list"
  rt_warnings :: "string list"

record validation_result =
  vr_valid :: bool
  vr_errors :: "string list"
  vr_warnings :: "string list"
  vr_used :: "string list"
  vr_missing :: "string list"
  vr_unused :: "string list"

definition HasErrors :: "validation_result \<Rightarrow> bool" where
  "HasErrors v \<longleftrightarrow> 0 < length (vr_errors v)"

definition HasWarnings :: "validation_result \<Rightarrow> bool" where
  "HasWarnings v \<longleftrightarrow> 0 < length (vr_warnings v)"

definition AddError :: "string \<Rightarrow> validation_result \<Rightarrow> validation_result" where
  "AddError e v = v\<lparr>vr_errors := vr_errors v @ [e], vr_valid := False\<rparr>"

definition AddWarning :: "string \<Rightarrow> validation_result \<Rightarrow> validation_result" where
  "AddWarning w v = v\<lparr>vr_warnings := vr_warnings v @ [w]\<rparr>"

text \<open>The variable of the part of a text after an opening pair of braces.\<close>

definition part_variable :: "string \<Rightarrow> string option" where
  "part_variable part =
     (case go_Index part ''}}'' of
        None \<Rightarrow> None
      | Some e \<Rightarrow>
          (let expr = TrimSpace (TrimPrefix (TrimSpace (take e part)) ''.'')
           in if expr \<noteq> [] \<and> \<not> ContainsAny expr ([CHR '' '', CHR 0x09, CHR 0x0A, CHR 0x0D] @ ''+-*/%()[]{}'')
              then Some expr else None))"

fun collect_variables :: "string list \<Rightarrow> string list \<Rightarrow> string list" where
  "collect_variables [] vars = vars"
| "collect_variables (p # ps) vars =
     (case part_variable p of
        None \<Rightarrow> collect_variables ps vars
      | Some e \<Rightarrow> collect_variables ps (if e \<in> set vars then vars else vars @ [e]))"

definition ExtractVariables :: "string \<Rightarrow> string list" where
  "ExtractVariables tmpl = collect_variables (tl (go_Split tmpl CHR ''{'' ''{'')) []"

definition required_var :: "string \<Rightarrow> string \<Rightarrow> variable_type \<Rightarrow> string \<Rightarrow> template_variable" where
  "required_var name description ty example =
     \<lparr>tv_name = name, tv_description = description, tv_type = ty, tv_required = True, tv_example = example,
      tv_nested = []\<rparr>"

definition base_variables :: "template_variable list" where
  "base_variables =
     [required_var ''monitor_name'' (utf8 [1048, 1084, 1103, 32, 1084, 1086, 1085, 1080, 1090, 1086, 1088, 1072]) VarTypeString ''My API Endpoint'',
      required_var ''monitor_url'' (utf8 [85, 82, 76, 32, 1084, 1086, 1085, 1080, 1090, 1086, 1088, 1072]) VarTypeString ''https://api.example.com/health'',
      required_var ''status'' (utf8 [1058, 1077, 1082, 1091, 1097, 1080, 1081, 32, 1089, 1090, 1072, 1090, 1091,
        1089]) VarTypeString ''DOWN'',
      required_var ''timestamp'' (utf8 [1042, 1088, 1077, 1084, 1103, 32, 1089, 1086, 1073, 1099, 1090, 1080, 1103]) VarTypeTimestamp ''2026-03-27T12:34:56Z'']"

definition GetRequiredVariables :: "string \<Rightarrow> string \<Rightarrow> template_variable list" where
  "GetRequiredVariables ty channel =
     (if ty = ''monitor_down'' then base_variables @
     [required_var ''error_message'' (utf8 [1057, 1086, 1086, 1073, 1097, 1077, 1085, 1080, 1077, 32, 1086, 1073, 32, 1086,
        1096, 1080, 1073, 1082, 1077]) VarTypeString ''Connection refused'']
      else if ty = ''monitor_degraded'' then base_variables @
     [required_var ''response_time_ms'' (utf8 [1042, 1088, 1077, 1084, 1103, 32, 1086, 1090, 1082, 1083, 1080, 1082, 1072, 32,
        1074, 32, 1084, 1080, 1083, 1083, 1080, 1089, 1077, 1082, 1091, 1085, 1076,
        1072, 1093]) VarTypeInt ''2500'',
      required_var ''threshold_ms'' (utf8 [1055, 1086, 1088, 1086, 1075, 1086, 1074, 1086, 1077, 32, 1079, 1085, 1072,
        1095, 1077, 1085, 1080, 1077]) VarTypeInt ''1000'']
      else if ty = ''certificate_expiry'' then base_variables @
     [required_var ''days_until_expiry'' (utf8 [1044, 1085, 1077, 1081, 32, 1076, 1086, 32, 1080, 1089, 1090, 1077, 1095, 1077,
        1085, 1080, 1103, 32, 1089, 1077, 1088, 1090, 1080, 1092, 1080, 1082, 1072,
        1090, 1072]) VarTypeInt ''7'',
      required_var ''expiry_date'' (utf8 [1044, 1072, 1090, 1072, 32, 1080, 1089, 1090, 1077, 1095, 1077, 1085, 1080,
        1103, 32, 1089, 1077, 1088, 1090, 1080, 1092, 1080, 1082, 1072, 1090, 1072]) VarTypeTimestamp ''2026-04-03T00:00:00Z'']
      else if ty = ''flapping_detected'' then base_variables @
     [required_var ''state_changes'' (utf8 [1050, 1086, 1083, 1080, 1095, 1077, 1089, 1090, 1074, 1086, 32, 1080, 1079,
        1084, 1077, 1085, 1077, 1085, 1080, 1081, 32, 1089, 1086, 1089, 1090, 1086,
        1103, 1085, 1080, 1103]) VarTypeInt ''5'',
      required_var ''time_window'' (utf8 [1042, 1088, 1077, 1084, 1077, 1085, 1085, 1086, 1077, 32, 1086, 1082, 1085,
        1086]) VarTypeDuration ''5m'']
      else base_variables)"

end
