(* ===== verification/TemplateStore.thy ===== *)
theory TemplateStore
  imports TemplateModel
begin

text \<open>
  The table of templates with the constraints of \<open>notification-template-service/migrations\<close> and one
  definition for each method of \<open>internal/repository/postgres_template_repository.go\<close>. A row is a
  \<open>template\<close>, its identifiers the texts in which PostgreSQL prints a UUID; \<open>te_uuid\<close> reads the text of a
  UUID as PostgreSQL does and gives that form. A statement fails when \<open>te_down\<close> says so, on a text that is
  no UUID and on a violated constraint. An absent \<open>description\<close> or \<open>subject\<close> is read as the empty text.
\<close>

section \<open>The environment\<close>

datatype template_call =
    TplInsert | TplGet | TplDefault | TplList | TplUpdate | TplDelete | TplExists
  | TxBegin | TxSelect | TxReset | TxSet | TxCommit

record template_env =
  te_down :: "template_call \<Rightarrow> bool"
  te_uuid :: "string \<Rightarrow> string option"
  te_db_now :: time
  te_max :: int
  te_parse :: "string \<Rightarrow> string \<Rightarrow> string option"
  te_exec :: "string \<Rightarrow> (string \<Rightarrow> string option) \<Rightarrow> string + string"

type_synonym template_db = "template list"

section \<open>Constraints\<close>

text \<open>A text column does not take the byte 0.\<close>

definition pg_text :: "string \<Rightarrow> bool" where
  "pg_text s \<longleftrightarrow> CHR 0x00 \<notin> set s"

definition same_slot :: "template \<Rightarrow> template \<Rightarrow> bool" where
  "same_slot t r \<longleftrightarrow> tp_user r = tp_user t \<and> tp_channel r = tp_channel t \<and> tp_type r = tp_type t"

text \<open>The unique constraint on the owner, the name, the channel and the type.\<close>

definition name_taken :: "template \<Rightarrow> template_db \<Rightarrow> bool" where
  "name_taken t db \<longleftrightarrow> list_ex (\<lambda>r. tp_id r \<noteq> tp_id t \<and> same_slot t r \<and> tp_name r = tp_name t) db"

definition columns_ok :: "template \<Rightarrow> bool" where
  "columns_ok t \<longleftrightarrow> char_count (tp_name t) \<le> 255 \<and> tp_format t \<in> set format_names
     \<and> pg_text (tp_name t) \<and> pg_text (tp_description t) \<and> pg_text (tp_subject t) \<and> pg_text (tp_body t)
     \<and> - (2 ^ 31) \<le> tp_version t \<and> tp_version t < 2 ^ 31"

definition checks_ok :: "template \<Rightarrow> bool" where
  "checks_ok t \<longleftrightarrow> tp_channel t \<in> set channel_names \<and> tp_type t \<in> set type_names \<and> tp_engine t \<in> set engine_names"

section \<open>Statements\<close>

text \<open>A UUID column that may be null, written from a text; \<open>None\<close> when the text is no UUID.\<close>

definition uuid_column :: "template_env \<Rightarrow> string option \<Rightarrow> string option option" where
  "uuid_column env v = (case v of None \<Rightarrow> Some None | Some s \<Rightarrow> map_option Some (te_uuid env s))"

definition template_row :: "template_env \<Rightarrow> string \<Rightarrow> template \<Rightarrow> template option" where
  "template_row env new t =
     (case (te_uuid env (tp_user t), uuid_column env (tp_parent t)) of
        (Some u, Some p) \<Rightarrow>
          Some (t\<lparr>tp_id := new, tp_user := u, tp_parent := p, tp_created := te_db_now env, tp_updated := te_db_now env\<rparr>)
      | _ \<Rightarrow> None)"

text \<open>\<open>new\<close> is the identifier that \<open>gen_random_uuid\<close> gives.\<close>

definition tpl_Create :: "template_env \<Rightarrow> time \<Rightarrow> string \<Rightarrow> template \<Rightarrow> template_db \<Rightarrow>
    tpl_error + template \<times> template_db" where
  "tpl_Create env now new t db =
     (let t = BeforeCreate now t
      in if te_down env TplInsert then Inl TemplateDbFailed
         else case template_row env new t of
           None \<Rightarrow> Inl TemplateDbFailed
         | Some r \<Rightarrow>
             if list_ex (\<lambda>r. tp_id r = new) db \<or> \<not> columns_ok r \<or> \<not> checks_ok r \<or> name_taken r db
                 \<or> (case tp_parent r of None \<Rightarrow> False | Some p \<Rightarrow> \<not> list_ex (\<lambda>q. tp_id q = p) db)
             then Inl TemplateDbFailed
             else Inr (t\<lparr>tp_id := new, tp_created := te_db_now env, tp_updated := te_db_now env\<rparr>, db @ [r]))"

definition tpl_GetByID :: "template_env \<Rightarrow> string \<Rightarrow> template_db \<Rightarrow> tpl_error + template" where
  "tpl_GetByID env i db =
     (if te_down env TplGet then Inl TemplateDbFailed
      else case te_uuid env i of
        None \<Rightarrow> Inl TemplateDbFailed
      | Some i' \<Rightarrow>
          (case List.find (\<lambda>r. tp_id r = i') db of None \<Rightarrow> Inl TemplateNotFound | Some r \<Rightarrow> Inr r))"

definition tpl_GetDefault :: "template_env \<Rightarrow> string \<Rightarrow> string \<Rightarrow> string \<Rightarrow> template_db \<Rightarrow> tpl_error + template" where
  "tpl_GetDefault env user channel ty db =
     (if te_down env TplDefault then Inl TemplateDbFailed
      else case te_uuid env user of
        None \<Rightarrow> Inl TemplateDbFailed
      | Some u \<Rightarrow>
          (case List.find (\<lambda>r. tp_user r = u \<and> tp_channel r = channel \<and> tp_type r = ty \<and> tp_default r) db of
             None \<Rightarrow> Inl TemplateNotFound | Some r \<Rightarrow> Inr r))"

definition set_template_columns :: "template_env \<Rightarrow> template \<Rightarrow> template \<Rightarrow> template" where
  "set_template_columns env t r =
     r\<lparr>tp_name := tp_name t, tp_description := tp_description t, tp_subject := tp_subject t,
       tp_body := tp_body t, tp_format := tp_format t, tp_version := tp_version t, tp_updated := te_db_now env\<rparr>"

definition tpl_Update :: "template_env \<Rightarrow> template \<Rightarrow> template_db \<Rightarrow> tpl_error + template_db" where
  "tpl_Update env t db =
     (if te_down env TplUpdate then Inl TemplateDbFailed
      else case te_uuid env (tp_id t) of
        None \<Rightarrow> Inl TemplateDbFailed
      | Some i \<Rightarrow>
          (case List.find (\<lambda>r. tp_id r = i) db of
             None \<Rightarrow> Inl TemplateNotFound
           | Some r \<Rightarrow>
               if \<not> columns_ok t \<or> name_taken (set_template_columns env t r) db then Inl TemplateDbFailed
               else Inr (upd_where (\<lambda>r. tp_id r = i) (set_template_columns env t) db)))"

text \<open>\<open>ON DELETE SET NULL\<close> is an update of the clones: the trigger sets their time.\<close>

definition orphan_clones :: "template_env \<Rightarrow> string \<Rightarrow> template_db \<Rightarrow> template_db" where
  "orphan_clones env i =
     upd_where (\<lambda>r. tp_parent r = Some i) (\<lambda>r. r\<lparr>tp_parent := None, tp_updated := te_db_now env\<rparr>)"

definition tpl_Delete :: "template_env \<Rightarrow> string \<Rightarrow> template_db \<Rightarrow> tpl_error + template_db" where
  "tpl_Delete env i db =
     (if te_down env TplDelete then Inl TemplateDbFailed
      else case te_uuid env i of
        None \<Rightarrow> Inl TemplateDbFailed
      | Some i' \<Rightarrow>
          if list_ex (\<lambda>r. tp_id r = i') db
          then Inr (orphan_clones env i' (del_where (\<lambda>r. tp_id r = i') db))
          else Inl TemplateNotFound)"

text \<open>The two statements of the transaction; the trigger sets \<open>updated_at\<close>.\<close>

definition reset_default :: "template_env \<Rightarrow> string \<Rightarrow> string \<Rightarrow> string \<Rightarrow> template_db \<Rightarrow> template_db" where
  "reset_default env u channel ty =
     upd_where (\<lambda>r. tp_user r = u \<and> tp_channel r = channel \<and> tp_type r = ty \<and> tp_default r)
       (\<lambda>r. r\<lparr>tp_default := False, tp_updated := te_db_now env\<rparr>)"

definition mark_default :: "template_env \<Rightarrow> string \<Rightarrow> string \<Rightarrow> template_db \<Rightarrow> template_db" where
  "mark_default env i u =
     upd_where (\<lambda>r. tp_id r = i \<and> tp_user r = u) (\<lambda>r. r\<lparr>tp_default := True, tp_updated := te_db_now env\<rparr>)"

definition tpl_SetDefault :: "template_env \<Rightarrow> string \<Rightarrow> string \<Rightarrow> template_db \<Rightarrow> tpl_error + template_db" where
  "tpl_SetDefault env i user db =
     (if te_down env TxBegin \<or> te_down env TxSelect then Inl TemplateDbFailed
      else case (te_uuid env i, te_uuid env user) of
        (Some i', Some u) \<Rightarrow>
          (case List.find (\<lambda>r. tp_id r = i' \<and> tp_user r = u) db of
             None \<Rightarrow> Inl TemplateNotFound
           | Some t \<Rightarrow>
               if te_down env TxReset \<or> te_down env TxSet \<or> te_down env TxCommit then Inl TemplateDbFailed
               else Inr (mark_default env i' u (reset_default env u (tp_channel t) (tp_type t) db)))
      | _ \<Rightarrow> Inl TemplateDbFailed)"

definition tpl_Exists :: "template_env \<Rightarrow> string \<Rightarrow> template_db \<Rightarrow> tpl_error + bool" where
  "tpl_Exists env i db =
     (if te_down env TplExists then Inl TemplateDbFailed
      else case te_uuid env i of
        None \<Rightarrow> Inl TemplateDbFailed
      | Some i' \<Rightarrow> Inr (list_ex (\<lambda>r. tp_id r = i') db))"

section \<open>Listing\<close>

record list_filter =
  lf_user :: string
  lf_channel :: string
  lf_type :: string
  lf_default :: "bool option"
  lf_system :: "bool option"
  lf_page :: int
  lf_page_size :: int
  lf_sort :: string
  lf_desc :: bool

definition list_conditions :: "list_filter \<Rightarrow> string" where
  "list_conditions f =
     (if lf_user f = [] then [] else '' AND user_id = :user_id'')
     @ (if lf_channel f = [] then [] else '' AND channel = :channel'')
     @ (if lf_type f = [] then [] else '' AND type = :type'')
     @ (case lf_default f of None \<Rightarrow> [] | Some _ \<Rightarrow> '' AND is_default = :is_default'')
     @ (case lf_system f of None \<Rightarrow> [] | Some _ \<Rightarrow> '' AND is_system = :is_system'')"

definition count_query :: "list_filter \<Rightarrow> string" where
  "count_query f = ''SELECT COUNT(*) FROM templates WHERE 1=1'' @ list_conditions f"

definition order_clause :: "list_filter \<Rightarrow> string" where
  "order_clause f = '' ORDER BY '' @ (if lf_sort f = [] then ''created_at'' else lf_sort f)
     @ (if lf_desc f then '' DESC'' else '' ASC'')"

definition page_clause :: "list_filter \<Rightarrow> string" where
  "page_clause f =
     (if 0 < lf_page_size f
      then '' LIMIT '' @ show_int (lf_page_size f)
        @ (if 0 < lf_page f then '' OFFSET '' @ show_int ((lf_page f - 1) * lf_page_size f) else [])
      else [])"

definition select_columns :: string where
  "select_columns = ''SELECT id, user_id, name, COALESCE(description,'' @ [CHR 0x27, CHR 0x27] @ '') as description, channel, type, engine, COALESCE(subject,''
     @ [CHR 0x27, CHR 0x27] @ '') as subject, body, format, is_default, is_system, version, parent_id, created_at, updated_at FROM templates WHERE 1=1''"

definition list_query :: "list_filter \<Rightarrow> string" where
  "list_query f = select_columns @ list_conditions f @ order_clause f @ page_clause f"

text \<open>The rows that the conditions select. A user that is no UUID fails the statement.\<close>

definition list_selects :: "template_env \<Rightarrow> list_filter \<Rightarrow> template \<Rightarrow> bool" where
  "list_selects env f r \<longleftrightarrow>
     (lf_user f = [] \<or> te_uuid env (lf_user f) = Some (tp_user r))
     \<and> (lf_channel f = [] \<or> tp_channel r = lf_channel f) \<and> (lf_type f = [] \<or> tp_type r = lf_type f)
     \<and> (case lf_default f of None \<Rightarrow> True | Some b \<Rightarrow> tp_default r = b)
     \<and> (case lf_system f of None \<Rightarrow> True | Some b \<Rightarrow> tp_system r = b)"

text \<open>
  \<open>run\<close> binds the named parameters of a query and runs it on the table. The count is given as the number of
  rows that its conditions select; the text of the other query is what \<open>list_query\<close> builds.
\<close>

definition tpl_List :: "template_env \<Rightarrow> (string \<Rightarrow> list_filter \<Rightarrow> template_db \<Rightarrow> template list option) \<Rightarrow>
    list_filter \<Rightarrow> template_db \<Rightarrow> tpl_error + template list \<times> nat" where
  "tpl_List env run f db =
     (if te_down env TplList \<or> (lf_user f \<noteq> [] \<and> te_uuid env (lf_user f) = None) then Inl TemplateDbFailed
      else case run (list_query f) f db of
        None \<Rightarrow> Inl TemplateDbFailed
      | Some rows \<Rightarrow> Inr (rows, count_where (list_selects env f) db))"

end
