(* ===== verification/TemplateService.thy ===== *)
theory TemplateService
  imports TemplateStore
begin

text \<open>
  The services of \<open>notification-template-service/internal/service\<close> and the gRPC handler: templates
  (\<open>template_service.go\<close>), rendering (\<open>renderer_service.go\<close>), validation (\<open>validator_service.go\<close>) and the
  conversions of \<open>internal/handler\<close>. Logging and metrics are left out. A Go map of variables is the list of
  its entries in the order in which \<open>range\<close> gives them; where the code builds a map itself, \<open>order\<close> puts
  its keys in that order.
\<close>

section \<open>Templates\<close>

record create_template_request =
  ct_user :: string
  ct_name :: string
  ct_description :: string
  ct_channel :: string
  ct_type :: string
  ct_engine :: string
  ct_subject :: string
  ct_body :: string
  ct_format :: string

record update_template_request =
  ut_name :: string
  ut_description :: string
  ut_subject :: string
  ut_body :: string
  ut_format :: string

definition requested_template :: "create_template_request \<Rightarrow> template" where
  "requested_template req =
     \<lparr>tp_id = [], tp_user = ct_user req, tp_name = ct_name req, tp_description = ct_description req,
      tp_channel = ct_channel req, tp_type = ct_type req, tp_engine = ct_engine req, tp_subject = ct_subject req,
      tp_body = ct_body req, tp_format = ct_format req, tp_default = False, tp_system = False,
      tp_created = zero_time, tp_updated = zero_time, tp_version = 0, tp_parent = None\<rparr>"

definition too_large :: "template_env \<Rightarrow> template \<Rightarrow> bool" where
  "too_large env t \<longleftrightarrow> te_max env < int (length (tp_body t))"

definition CreateTemplate :: "template_env \<Rightarrow> time \<Rightarrow> string \<Rightarrow> create_template_request \<Rightarrow> template_db \<Rightarrow>
    (tpl_error + template) \<times> template_db" where
  "CreateTemplate env now new req db =
     (case tpl_Validate (requested_template req) of
        Inl e \<Rightarrow> (Inl e, db)
      | Inr t \<Rightarrow>
          if too_large env t then (Inl (BodyTooLarge (te_max env)), db)
          else case tpl_Create env now new (BeforeCreate now t) db of
            Inl e \<Rightarrow> (Inl e, db)
          | Inr (t', db') \<Rightarrow> (Inr t', db'))"

definition GetTemplate :: "template_env \<Rightarrow> string \<Rightarrow> template_db \<Rightarrow> tpl_error + template" where
  "GetTemplate env i db = tpl_GetByID env i db"

definition ListTemplates :: "template_env \<Rightarrow> (string \<Rightarrow> list_filter \<Rightarrow> template_db \<Rightarrow> template list option) \<Rightarrow>
    list_filter \<Rightarrow> template_db \<Rightarrow> tpl_error + template list \<times> nat" where
  "ListTemplates env run f db = tpl_List env run f db"

definition with_update :: "update_template_request \<Rightarrow> template \<Rightarrow> template" where
  "with_update req t =
     t\<lparr>tp_name := ut_name req, tp_description := ut_description req, tp_subject := ut_subject req,
       tp_body := ut_body req, tp_format := ut_format req\<rparr>"

definition UpdateTemplate :: "template_env \<Rightarrow> time \<Rightarrow> string \<Rightarrow> update_template_request \<Rightarrow> template_db \<Rightarrow>
    (tpl_error + template) \<times> template_db" where
  "UpdateTemplate env now i req db =
     (case tpl_GetByID env i db of
        Inl e \<Rightarrow> (Inl e, db)
      | Inr t0 \<Rightarrow>
          if tp_system t0 then (Inl SystemNotModified, db)
          else case tpl_Validate (with_update req t0) of
            Inl e \<Rightarrow> (Inl e, db)
          | Inr t \<Rightarrow>
              if too_large env t then (Inl (BodyTooLarge (te_max env)), db)
              else (let t' = BeforeUpdate now t
                    in case tpl_Update env t' db of
                         Inl e \<Rightarrow> (Inl e, db)
                       | Inr db' \<Rightarrow> (Inr t', db')))"

definition DeleteTemplate :: "template_env \<Rightarrow> string \<Rightarrow> template_db \<Rightarrow> tpl_error option \<times> template_db" where
  "DeleteTemplate env i db =
     (case tpl_GetByID env i db of
        Inl e \<Rightarrow> (Some e, db)
      | Inr t \<Rightarrow>
          if \<not> CanDelete t then (Some SystemNotDeleted, db)
          else case tpl_Delete env i db of Inl e \<Rightarrow> (Some e, db) | Inr db' \<Rightarrow> (None, db'))"

definition CloneTemplate :: "template_env \<Rightarrow> time \<Rightarrow> string \<Rightarrow> string \<Rightarrow> string \<Rightarrow> string \<Rightarrow> template_db \<Rightarrow>
    (tpl_error + template) \<times> template_db" where
  "CloneTemplate env now new i user name db =
     (case tpl_GetByID env i db of
        Inl e \<Rightarrow> (Inl e, db)
      | Inr original \<Rightarrow>
          (case tpl_Validate ((tpl_Clone now name original)\<lparr>tp_user := user\<rparr>) of
             Inl e \<Rightarrow> (Inl e, db)
           | Inr c \<Rightarrow>
               (case tpl_Create env now new (BeforeCreate now c) db of
                  Inl e \<Rightarrow> (Inl e, db)
                | Inr (c', db') \<Rightarrow> (Inr c', db'))))"

text \<open>The template returned is the one read before the transaction.\<close>

definition SetDefaultTemplate :: "template_env \<Rightarrow> string \<Rightarrow> string \<Rightarrow> template_db \<Rightarrow>
    (tpl_error + template) \<times> template_db" where
  "SetDefaultTemplate env i user db =
     (case tpl_GetByID env i db of
        Inl e \<Rightarrow> (Inl e, db)
      | Inr t \<Rightarrow>
          if tp_user t \<noteq> user then (Inl NotOwnTemplate, db)
          else case tpl_SetDefault env i user db of
            Inl e \<Rightarrow> (Inl e, db)
          | Inr db' \<Rightarrow> (Inr t, db'))"

definition GetDefaultTemplate :: "template_env \<Rightarrow> string \<Rightarrow> string \<Rightarrow> string \<Rightarrow> template_db \<Rightarrow> tpl_error + template" where
  "GetDefaultTemplate env user channel ty db = tpl_GetDefault env user channel ty db"

section \<open>Rendering\<close>

type_synonym variables_map = "(string \<times> string) list"

definition renderTemplateString :: "template_env \<Rightarrow> string \<Rightarrow> variables_map \<Rightarrow> string + string" where
  "renderTemplateString env s vars =
     (case te_parse env ''template'' s of
        Some e \<Rightarrow> Inl (''failed to parse template: '' @ e)
      | None \<Rightarrow>
          (case te_exec env s (map_of vars) of
             Inl e \<Rightarrow> Inl (''failed to execute template: '' @ e)
           | Inr r \<Rightarrow> Inr r))"

text \<open>The variables that the subject and the body use.\<close>

definition used_variables :: "template \<Rightarrow> string list" where
  "used_variables t =
     concat (map (\<lambda>s. if s = [] then [] else ExtractVariables s) [tp_subject t, tp_body t])"

definition quoted :: "string \<Rightarrow> string" where
  "quoted s = [CHR 0x27] @ s @ [CHR 0x27]"

definition checkUnusedVariables :: "template \<Rightarrow> variables_map \<Rightarrow> rendered_template \<Rightarrow> rendered_template" where
  "checkUnusedVariables t vars res =
     (let used = used_variables t
      in res\<lparr>rt_warnings := rt_warnings res
           @ map (\<lambda>tv. ''required variable '' @ quoted (tv_name tv) @ '' is not used in template'')
               (filter (\<lambda>tv. tv_required tv \<and> tv_name tv \<notin> set used) (GetRequiredVariables (tp_type t) (tp_channel t)))
           @ map (\<lambda>v. ''variable '' @ quoted v @ '' was provided but not used in template'')
               (filter (\<lambda>v. v \<notin> set used) (map fst vars))\<rparr>)"

definition render_part :: "string \<Rightarrow> (string + string) \<Rightarrow> string list \<times> string" where
  "render_part what r = (case r of Inl e \<Rightarrow> ([what @ '' error: '' @ e], []) | Inr s \<Rightarrow> ([], s))"

definition render :: "template_env \<Rightarrow> template \<Rightarrow> variables_map \<Rightarrow> rendered_template" where
  "render env t vars =
     (let (es, subject) = (if tp_subject t = [] then ([], [])
                           else render_part ''subject'' (renderTemplateString env (tp_subject t) vars));
          (eb, body) = render_part ''body'' (renderTemplateString env (tp_body t) vars);
          res = \<lparr>rt_subject = subject, rt_body = body, rt_format = tp_format t, rt_success = (es @ eb = []),
                 rt_errors = es @ eb, rt_warnings = []\<rparr>
      in if length (rt_errors res) = 0 then checkUnusedVariables t vars res else res)"

definition RenderTemplate :: "template_env \<Rightarrow> string \<Rightarrow> variables_map \<Rightarrow> template_db \<Rightarrow> tpl_error + rendered_template" where
  "RenderTemplate env i vars db =
     (case tpl_GetByID env i db of
        Inl e \<Rightarrow> Inl e
      | Inr t \<Rightarrow>
          (let r = render env t vars in if rt_success r then Inr r else Inl (RenderFailed (rt_errors r))))"

text \<open>The names of a type's variables differ, so the map of the sample values has one entry for each.\<close>

definition sample_data :: "template \<Rightarrow> variables_map" where
  "sample_data t =
     map (\<lambda>tv. (tv_name tv, if tv_example tv \<noteq> [] then tv_example tv else ''sample_'' @ tv_name tv))
       (GetRequiredVariables (tp_type t) (tp_channel t))"

definition PreviewTemplate :: "template_env \<Rightarrow> (variables_map \<Rightarrow> variables_map) \<Rightarrow> template \<Rightarrow> rendered_template" where
  "PreviewTemplate env order t = render env t (order (sample_data t))"

section \<open>Validation\<close>

definition ValidateTemplate :: "template_env \<Rightarrow> (string list \<Rightarrow> string list) \<Rightarrow> template \<Rightarrow> validation_result" where
  "ValidateTemplate env order t =
     (let res = \<lparr>vr_valid = True, vr_errors = [], vr_warnings = [], vr_used = [], vr_missing = [], vr_unused = []\<rparr>;
          res = fold AddError (ValidateSyntax (te_parse env) t) res
      in if HasErrors res then res\<lparr>vr_valid := False\<rparr>
         else (let used = order (remdups (used_variables t));
                   required = order (remdups (map tv_name (filter tv_required (GetRequiredVariables (tp_type t) (tp_channel t)))));
                   res = fold (\<lambda>v r. if v \<in> set used then r
                                    else AddWarning (''missing required variable: '' @ v) (r\<lparr>vr_missing := vr_missing r @ [v]\<rparr>))
                           required (res\<lparr>vr_used := used\<rparr>)
               in if 100000 < length (tp_body t)
                  then AddWarning ''template body is very large (>100KB), consider reducing size'' res
                  else res))"

definition GetAvailableVariables :: "string \<Rightarrow> string \<Rightarrow> template_variable list" where
  "GetAvailableVariables ty channel = GetRequiredVariables ty channel"

section \<open>The gRPC handler\<close>

text \<open>The enumerations of the protocol are their numbers, 0 for \<open>UNSPECIFIED\<close>.\<close>

definition protoChannelToModelMap :: "(int \<times> string) list" where
  "protoChannelToModelMap =
     [(1, ''email''), (2, ''telegram''), (3, ''webhook''), (4, ''slack''), (5, ''discord''), (6, ''sms'')]"

definition protoTypeToModelMap :: "(int \<times> string) list" where
  "protoTypeToModelMap =
     [(1, ''monitor_up''), (2, ''monitor_down''), (3, ''monitor_degraded''),
      (4, ''certificate_expiry''), (5, ''flapping_detected''), (6, ''incident_created''),
      (7, ''incident_resolved''), (8, ''maintenance_started''), (9, ''maintenance_ended''),
      (10, ''custom'')]"

definition protoEngineToModelMap :: "(int \<times> string) list" where
  "protoEngineToModelMap = [(1, ''gotemplate''), (2, ''jinja2''), (3, ''handlebars'')]"

definition modelChannelToProtoMap :: "(string \<times> int) list" where
  "modelChannelToProtoMap =
     [(''email'', 1), (''telegram'', 2), (''webhook'', 3), (''slack'', 4), (''discord'', 5), (''sms'', 6)]"

definition modelTypeToProtoMap :: "(string \<times> int) list" where
  "modelTypeToProtoMap =
     [(''monitor_up'', 1), (''monitor_down'', 2), (''monitor_degraded'', 3),
      (''certificate_expiry'', 4), (''flapping_detected'', 5), (''incident_created'', 6),
      (''incident_resolved'', 7), (''maintenance_started'', 8), (''maintenance_ended'', 9),
      (''custom'', 10)]"

definition modelEngineToProtoMap :: "(string \<times> int) list" where
  "modelEngineToProtoMap = [(''gotemplate'', 1), (''jinja2'', 2), (''handlebars'', 3)]"

definition entry_or :: "'b \<Rightarrow> ('a \<times> 'b) list \<Rightarrow> 'a \<Rightarrow> 'b" where
  "entry_or d m k = (case map_of m k of None \<Rightarrow> d | Some v \<Rightarrow> v)"

definition protoChannelToModel :: "int \<Rightarrow> string" where
  "protoChannelToModel = entry_or [] protoChannelToModelMap"

definition modelChannelToProto :: "string \<Rightarrow> int" where
  "modelChannelToProto = entry_or 0 modelChannelToProtoMap"

definition protoTypeToModel :: "int \<Rightarrow> string" where
  "protoTypeToModel = entry_or [] protoTypeToModelMap"

definition modelTypeToProto :: "string \<Rightarrow> int" where
  "modelTypeToProto = entry_or 0 modelTypeToProtoMap"

definition protoEngineToModel :: "int \<Rightarrow> string" where
  "protoEngineToModel = entry_or [] protoEngineToModelMap"

definition modelEngineToProto :: "string \<Rightarrow> int" where
  "modelEngineToProto = entry_or 0 modelEngineToProtoMap"

definition mustTimestamp :: "time \<Rightarrow> time option" where
  "mustTimestamp t = (if t = zero_time then None else Some t)"

record proto_template =
  pt_id :: string
  pt_user :: string
  pt_name :: string
  pt_description :: string
  pt_channel :: int
  pt_type :: int
  pt_engine :: int
  pt_subject :: string
  pt_body :: string
  pt_format :: string
  pt_default :: bool
  pt_system :: bool
  pt_created :: "time option"
  pt_updated :: "time option"
  pt_version :: int
  pt_parent :: string

definition templateToProto :: "template \<Rightarrow> proto_template" where
  "templateToProto t =
     \<lparr>pt_id = tp_id t, pt_user = tp_user t, pt_name = tp_name t, pt_description = tp_description t,
      pt_channel = modelChannelToProto (tp_channel t), pt_type = modelTypeToProto (tp_type t),
      pt_engine = modelEngineToProto (tp_engine t), pt_subject = tp_subject t, pt_body = tp_body t,
      pt_format = tp_format t, pt_default = tp_default t, pt_system = tp_system t,
      pt_created = mustTimestamp (tp_created t), pt_updated = mustTimestamp (tp_updated t),
      pt_version = sint (of_int (tp_version t) :: 32 word),
      pt_parent = (case tp_parent t of None \<Rightarrow> [] | Some p \<Rightarrow> p)\<rparr>"

datatype grpc_failure = CodeInternal tpl_error | CodeNotFound tpl_error

definition replied :: "(tpl_error \<Rightarrow> grpc_failure) \<Rightarrow> tpl_error + template \<Rightarrow> grpc_failure + proto_template" where
  "replied code r = map_sum code templateToProto r"

record proto_create =
  pc_user :: string
  pc_name :: string
  pc_description :: string
  pc_channel :: int
  pc_type :: int
  pc_engine :: int
  pc_subject :: string
  pc_body :: string
  pc_format :: string

definition handler_CreateTemplate :: "template_env \<Rightarrow> time \<Rightarrow> string \<Rightarrow> proto_create \<Rightarrow> template_db \<Rightarrow>
    (grpc_failure + proto_template) \<times> template_db" where
  "handler_CreateTemplate env now new req db =
     map_prod (replied CodeInternal) id
       (CreateTemplate env now new
         \<lparr>ct_user = pc_user req, ct_name = pc_name req, ct_description = pc_description req,
          ct_channel = protoChannelToModel (pc_channel req), ct_type = protoTypeToModel (pc_type req),
          ct_engine = protoEngineToModel (pc_engine req), ct_subject = pc_subject req, ct_body = pc_body req,
          ct_format = pc_format req\<rparr> db)"

definition handler_GetTemplate :: "template_env \<Rightarrow> string \<Rightarrow> template_db \<Rightarrow> grpc_failure + proto_template" where
  "handler_GetTemplate env i db = replied CodeNotFound (GetTemplate env i db)"

record proto_list =
  pl_user :: string
  pl_channel :: int
  pl_type :: int
  pl_default :: bool
  pl_system :: bool
  pl_page :: int
  pl_page_size :: int
  pl_sort_by :: string
  pl_sort_desc :: bool

definition requested_filter :: "proto_list \<Rightarrow> list_filter" where
  "requested_filter req =
     \<lparr>lf_user = pl_user req, lf_channel = protoChannelToModel (pl_channel req), lf_type = protoTypeToModel (pl_type req),
      lf_default = (if pl_default req then Some True else None),
      lf_system = (if pl_system req then Some True else None),
      lf_page = pl_page req, lf_page_size = pl_page_size req, lf_sort = pl_sort_by req, lf_desc = pl_sort_desc req\<rparr>"

definition handler_ListTemplates :: "template_env \<Rightarrow> (string \<Rightarrow> list_filter \<Rightarrow> template_db \<Rightarrow> template list option) \<Rightarrow>
    proto_list \<Rightarrow> template_db \<Rightarrow> grpc_failure + proto_template list \<times> int \<times> int \<times> int" where
  "handler_ListTemplates env run req db =
     map_sum CodeInternal
       (\<lambda>(ts, n). (map templateToProto ts, sint (of_nat n :: 32 word), pl_page req, pl_page_size req))
       (ListTemplates env run (requested_filter req) db)"

definition handler_UpdateTemplate :: "template_env \<Rightarrow> time \<Rightarrow> string \<Rightarrow> update_template_request \<Rightarrow> template_db \<Rightarrow>
    (grpc_failure + proto_template) \<times> template_db" where
  "handler_UpdateTemplate env now i req db = map_prod (replied CodeInternal) id (UpdateTemplate env now i req db)"

definition handler_DeleteTemplate :: "template_env \<Rightarrow> string \<Rightarrow> template_db \<Rightarrow> grpc_failure option \<times> template_db" where
  "handler_DeleteTemplate env i db = map_prod (map_option CodeInternal) id (DeleteTemplate env i db)"

definition handler_CloneTemplate :: "template_env \<Rightarrow> time \<Rightarrow> string \<Rightarrow> string \<Rightarrow> string \<Rightarrow> string \<Rightarrow> template_db \<Rightarrow>
    (grpc_failure + proto_template) \<times> template_db" where
  "handler_CloneTemplate env now new i user name db =
     map_prod (replied CodeInternal) id (CloneTemplate env now new i user name db)"

definition handler_RenderTemplate :: "template_env \<Rightarrow> string \<Rightarrow> variables_map \<Rightarrow> template_db \<Rightarrow> grpc_failure + rendered_template" where
  "handler_RenderTemplate env i vars db = map_sum CodeInternal id (RenderTemplate env i vars db)"

text \<open>The template that is checked, and the one that is previewed, from a request.\<close>

definition bare_template :: "proto_create \<Rightarrow> template" where
  "bare_template req =
     \<lparr>tp_id = [], tp_user = [], tp_name = [], tp_description = [], tp_channel = protoChannelToModel (pc_channel req),
      tp_type = protoTypeToModel (pc_type req), tp_engine = protoEngineToModel (pc_engine req),
      tp_subject = pc_subject req, tp_body = pc_body req, tp_format = [], tp_default = False, tp_system = False,
      tp_created = zero_time, tp_updated = zero_time, tp_version = 0, tp_parent = None\<rparr>"

definition handler_ValidateTemplate :: "template_env \<Rightarrow> (string list \<Rightarrow> string list) \<Rightarrow> proto_create \<Rightarrow> validation_result" where
  "handler_ValidateTemplate env order req = ValidateTemplate env order (bare_template req)"

definition handler_PreviewTemplate :: "template_env \<Rightarrow> (variables_map \<Rightarrow> variables_map) \<Rightarrow> proto_create \<Rightarrow> rendered_template" where
  "handler_PreviewTemplate env order req =
     PreviewTemplate env order ((bare_template req)\<lparr>tp_format := pc_format req\<rparr>)"

definition handler_GetAvailableVariables :: "int \<Rightarrow> int \<Rightarrow> int \<times> template_variable list" where
  "handler_GetAvailableVariables ty channel =
     (ty, GetAvailableVariables (protoTypeToModel ty) (protoChannelToModel channel))"

definition handler_SetDefaultTemplate :: "template_env \<Rightarrow> string \<Rightarrow> string \<Rightarrow> template_db \<Rightarrow>
    (grpc_failure + proto_template) \<times> template_db" where
  "handler_SetDefaultTemplate env i user db = map_prod (replied CodeInternal) id (SetDefaultTemplate env i user db)"

definition handler_GetDefaultTemplate :: "template_env \<Rightarrow> string \<Rightarrow> int \<Rightarrow> int \<Rightarrow> template_db \<Rightarrow> grpc_failure + proto_template" where
  "handler_GetDefaultTemplate env user channel ty db =
     replied CodeNotFound (GetDefaultTemplate env user (protoChannelToModel channel) (protoTypeToModel ty) db)"

end
