(* ===== verification/TemplateVariables.thy ===== *)
theory TemplateVariables
  imports TemplateService
begin

text \<open>
  What \<open>ExtractVariables\<close> finds in a text made of literals and of \<open>{{ .name }}\<close>, and what validation and
  rendering report of the variables that it finds.
\<close>

section \<open>Finding variables\<close>

datatype segment = Literal string | Placeholder string

fun segment_text :: "segment \<Rightarrow> string" where
  "segment_text (Literal s) = s"
| "segment_text (Placeholder v) = ''{{ .'' @ v @ '' }}''"

definition name_char :: "char \<Rightarrow> bool" where
  "name_char c \<longleftrightarrow> (let n = (of_char c :: nat)
     in 48 \<le> n \<and> n \<le> 57 \<or> 65 \<le> n \<and> n \<le> 90 \<or> 97 \<le> n \<and> n \<le> 122 \<or> n = 95)"

fun segment_ok :: "segment \<Rightarrow> bool" where
  "segment_ok (Literal s) \<longleftrightarrow> CHR ''{'' \<notin> set s"
| "segment_ok (Placeholder v) \<longleftrightarrow> v \<noteq> [] \<and> list_all name_char v"

fun placeholders :: "segment list \<Rightarrow> string list" where
  "placeholders [] = []"
| "placeholders (Literal s # r) = placeholders r"
| "placeholders (Placeholder v # r) = v # placeholders r"

text \<open>The elements in the order of their first occurrences.\<close>

definition first_occurrences :: "'a list \<Rightarrow> 'a list" where
  "first_occurrences xs = rev (remdups (rev xs))"

fun split_segments :: "string \<Rightarrow> segment list \<Rightarrow> string list" where
  "split_segments pre [] = [pre]"
| "split_segments pre (Literal s # r) = split_segments (pre @ s) r"
| "split_segments pre (Placeholder v # r) = pre # split_segments ('' .'' @ v @ '' }}'') r"

lemma not_name_char: "\<not> name_char CHR ''{''" "\<not> name_char CHR ''}''" "\<not> name_char CHR '' ''" "\<not> name_char CHR ''.''"
  "\<not> name_char CHR 0x09" "\<not> name_char CHR 0x0A" "\<not> name_char CHR 0x0D"
  by (simp_all add: name_char_def)

lemma no_brace: "list_all name_char v \<Longrightarrow> CHR ''{'' \<notin> set v" "list_all name_char v \<Longrightarrow> CHR ''}'' \<notin> set v"
  using not_name_char by (auto simp: list_all_iff)

lemma go_Index_skip: "c \<notin> set s \<Longrightarrow> prefix cs t \<Longrightarrow> go_Index (s @ c # t) (c # cs) = Some (length s)"
proof (induction s)
  case Nil
  then show ?case by (subst go_Index.simps) simp
next
  case (Cons x s)
  then show ?case by (subst go_Index.simps) simp
qed

lemma go_Index_absent: "c \<notin> set s \<Longrightarrow> go_Index s (c # cs) = None"
  by (induction s) (subst go_Index.simps, simp)+

lemma go_Split_segments:
  "CHR ''{'' \<notin> set pre \<Longrightarrow> list_all segment_ok segs \<Longrightarrow>
   go_Split (pre @ concat (map segment_text segs)) CHR ''{'' ''{'' = split_segments pre segs"
proof (induction pre segs rule: split_segments.induct)
  case (1 pre)
  then show ?case by (simp add: go_Split.simps go_Index_absent)
next
  case (2 pre s r)
  then show ?case by simp
next
  case (3 pre v r)
  let ?rest = "('' .'' @ v @ '' }}'') @ concat (map segment_text r)"
  have i: "go_Index (pre @ ''{{'' @ ?rest) ''{{'' = Some (length pre)"
    using go_Index_skip [OF 3(2), of "''{''" "CHR ''{'' # ?rest"] by simp
  have "go_Split ?rest CHR ''{'' ''{'' = split_segments ('' .'' @ v @ '' }}'') r"
    using 3 no_brace [of v] by (intro "3.IH") simp_all
  then show ?case using i by (subst go_Split.simps) simp
qed

lemma split_segments_hd: "\<exists>s ps. split_segments pre segs = (pre @ s) # ps"
proof (induction pre segs rule: split_segments.induct)
  case (2 pre s r)
  then obtain x ps where "split_segments (pre @ s) r = ((pre @ s) @ x) # ps" by blast
  then show ?case by (intro exI [of _ "s @ x"]) simp
qed auto

lemma TrimSpace_front: "TrimSpace (CHR '' '' # s) = TrimSpace s"
proof -
  have "strip_front utf8_spaces (CHR '' '' # s) = strip_front utf8_spaces s"
    by (subst strip_front.simps) (simp add: utf8_spaces_def)
  then show ?thesis by (simp add: TrimSpace_def)
qed

lemma TrimSpace_end:
  assumes "s = [] \<or> word_char (hd s)" "s \<noteq> []"
  shows "TrimSpace (s @ '' '') = TrimSpace s"
proof -
  have "strip_front (map rev utf8_spaces) (CHR '' '' # rev s) = strip_front (map rev utf8_spaces) (rev s)"
    by (subst strip_front.simps) (simp add: utf8_spaces_def)
  moreover have "strip_front utf8_spaces (s @ '' '') = s @ '' ''" using assms by (intro strip_words) auto
  ultimately show ?thesis using assms by (simp add: TrimSpace_def strip_words)
qed

lemma word_name: "name_char c \<Longrightarrow> word_char c"
  by (auto simp: name_char_def word_char_def Let_def)

lemma part_variable_placeholder:
  assumes "v \<noteq> []" "list_all name_char v"
  shows "part_variable ('' .'' @ v @ '' }}'' @ s) = Some v"
proof -
  have names: "\<forall>c \<in> set v. name_char c" using assms(2) by (simp add: list_all_iff)
  have ends: "word_char (hd v)" "word_char (last v)" using names assms(1) word_name by auto
  have "go_Index (('' .'' @ v @ '' '') @ ''}}'' @ s) ''}}'' = Some (length ('' .'' @ v @ '' ''))"
    using go_Index_skip [of "CHR ''}''" "'' .'' @ v @ '' ''" "''}''" "CHR ''}'' # s"] no_brace(2) [OF assms(2)] by simp
  then have i: "go_Index ('' .'' @ v @ '' }}'' @ s) ''}}'' = Some (length v + 3)" by simp
  have "take (length v + 3) ('' .'' @ v @ '' }}'' @ s) = '' .'' @ v @ '' ''" by (simp add: numeral_eq_Suc)
  moreover have "TrimSpace ('' .'' @ v @ '' '') = CHR ''.'' # v"
    using TrimSpace_end [of "CHR ''.'' # v"] TrimSpace_word [of "CHR ''.'' # v"] ends assms(1)
    by (simp add: TrimSpace_front word_char_def)
  moreover have "TrimSpace v = v" using ends by (intro TrimSpace_word) simp
  moreover have "\<not> ContainsAny v ([CHR '' '', CHR 0x09, CHR 0x0A, CHR 0x0D] @ ''+-*/%()[]{}'')"
    using names by (auto simp: ContainsAny_def list_ex_iff name_char_def Let_def)
  ultimately show ?thesis using i assms(1) by (simp add: part_variable_def TrimPrefix_def)
qed

lemma collect_segments:
  assumes "list_all segment_ok segs"
  shows "collect_variables (tl (split_segments pre segs)) vars
    = fold (\<lambda>v vs. if v \<in> set vs then vs else vs @ [v]) (placeholders segs) vars"
  using assms
proof (induction pre segs arbitrary: vars rule: split_segments.induct)
  case (3 pre v r)
  obtain s ps where s: "split_segments ('' .'' @ v @ '' }}'') r = (('' .'' @ v @ '' }}'') @ s) # ps"
    using split_segments_hd by blast
  have "part_variable (('' .'' @ v @ '' }}'') @ s) = Some v" using part_variable_placeholder [of v s] 3(2) by simp
  then show ?case using 3 s by simp
qed simp_all

lemma fold_first_occurrences:
  "distinct vs \<Longrightarrow> fold (\<lambda>v vs. if v \<in> set vs then vs else vs @ [v]) xs vs = rev (remdups (rev (vs @ xs)))"
proof (induction xs arbitrary: vs)
  case (Cons x xs)
  show ?case
  proof (cases "x \<in> set vs")
    case True
    then have "remdups (rev xs @ x # rev vs) = remdups (rev xs @ rev vs)"
      using remdups_append2 [of "rev xs" "x # rev vs"] remdups_append2 [of "rev xs" "rev vs"] by simp
    then show ?thesis using Cons True by simp
  next
    case False
    then show ?thesis using Cons(1) [of "vs @ [x]"] Cons(2) by simp
  qed
qed (simp add: distinct_remdups_id)

text \<open>
  In a text of literals without an opening brace and placeholders \<open>{{ .name }}\<close> the extraction
  finds the names of the placeholders, each once, in the order of their first occurrences.
\<close>

theorem ExtractVariables_placeholders:
  assumes "list_all segment_ok segs"
  shows "ExtractVariables (concat (map segment_text segs)) = first_occurrences (placeholders segs)"
proof -
  have "go_Split (concat (map segment_text segs)) CHR ''{'' ''{'' = split_segments [] segs"
    using go_Split_segments [of "[]" segs] assms by simp
  then show ?thesis
    using assms by (simp add: ExtractVariables_def collect_segments fold_first_occurrences first_occurrences_def)
qed

theorem ExtractVariables_placeholders_witness:
  "ExtractVariables ''<b>{{ .monitor_name }}</b> is {{ .status }}: {{ .monitor_name }}'' = [''monitor_name'', ''status'']"
proof -
  let ?segs = "[Literal ''<b>'', Placeholder ''monitor_name'', Literal ''</b> is '', Placeholder ''status'',
    Literal '': '', Placeholder ''monitor_name'']"
  have "list_all segment_ok ?segs" by code_simp
  then have "ExtractVariables (concat (map segment_text ?segs)) = first_occurrences (placeholders ?segs)"
    by (rule ExtractVariables_placeholders)
  then show ?thesis by (simp add: first_occurrences_def)
qed

section \<open>Reports\<close>

lemma fold_missing:
  "fold (\<lambda>v r. if v \<in> used then r else AddWarning (f v) (r\<lparr>vr_missing := vr_missing r @ [v]\<rparr>)) vs r
     = r\<lparr>vr_missing := vr_missing r @ filter (\<lambda>v. v \<notin> used) vs,
         vr_warnings := vr_warnings r @ map f (filter (\<lambda>v. v \<notin> used) vs)\<rparr>"
  by (induction vs arbitrary: r) (simp_all add: AddWarning_def)

lemma validated:
  assumes "ValidateSyntax (te_parse env) t = []"
  shows "vr_used (ValidateTemplate env order t) = order (remdups (used_variables t))"
    and "vr_missing (ValidateTemplate env order t) =
      filter (\<lambda>v. v \<notin> set (order (remdups (used_variables t))))
        (order (remdups (map tv_name (filter tv_required (GetRequiredVariables (tp_type t) (tp_channel t))))))"
  using assms by (simp_all add: ValidateTemplate_def HasErrors_def fold_missing AddWarning_def Let_def)

definition missing_text :: "string \<Rightarrow> string" where
  "missing_text v = ''required variable '' @ quoted v @ '' is not used in template''"

definition unused_text :: "string \<Rightarrow> string" where
  "unused_text v = ''variable '' @ quoted v @ '' was provided but not used in template''"

text \<open>
  A template whose syntax is accepted is rendered with the warnings that validation predicts:
  one for each variable that it reports missing and one for each given variable that it does not report used.
\<close>

theorem render_warns_as_validated:
  assumes "ValidateSyntax (te_parse env) t = []" and "rt_success (render env t vars)"
    and "set (order (remdups (used_variables t))) = set (used_variables t)"
    and "set (order (remdups (map tv_name (filter tv_required (GetRequiredVariables (tp_type t) (tp_channel t))))))
      = set (map tv_name (filter tv_required (GetRequiredVariables (tp_type t) (tp_channel t))))"
  shows "set (rt_warnings (render env t vars)) =
    missing_text ` set (vr_missing (ValidateTemplate env order t)) \<union>
    unused_text ` (set (map fst vars) - set (vr_used (ValidateTemplate env order t)))"
proof -
  have "rt_warnings (render env t vars) =
      map (\<lambda>tv. missing_text (tv_name tv))
        (filter (\<lambda>tv. tv_required tv \<and> tv_name tv \<notin> set (used_variables t)) (GetRequiredVariables (tp_type t) (tp_channel t)))
      @ map unused_text (filter (\<lambda>v. v \<notin> set (used_variables t)) (map fst vars))"
    using assms(2)
    by (auto simp: render_def checkUnusedVariables_def missing_text_def unused_text_def Let_def split: prod.splits if_splits)
  then show ?thesis
    by (simp only: validated [OF assms(1)] assms(3,4) set_append set_map set_filter) (auto simp: assms(3,4))
qed

end
