(* ===== verification/TemplateOutcomes.thy ===== *)
theory TemplateOutcomes
  imports TemplateVariables
begin

text \<open>
  What every history of the template service keeps, which requests create a template, and two defaults at
  once. The locale \<open>template_invariant\<close> says, statement by statement, what a property of the table must
  satisfy; \<open>tables\<close> and \<open>systems\<close> are its instances on the constraints and on the system templates.
\<close>

section \<open>Histories\<close>

datatype template_op =
    DoCreateTemplate time string create_template_request
  | DoUpdateTemplate time string update_template_request
  | DoDeleteTemplate string
  | DoCloneTemplate time string string string string
  | DoSetDefault string string

fun run_template :: "template_env \<Rightarrow> template_op \<Rightarrow> template_db \<Rightarrow> template_db" where
  "run_template env (DoCreateTemplate now new req) db = snd (CreateTemplate env now new req db)"
| "run_template env (DoUpdateTemplate now i req) db = snd (UpdateTemplate env now i req db)"
| "run_template env (DoDeleteTemplate i) db = snd (DeleteTemplate env i db)"
| "run_template env (DoCloneTemplate now new i user name) db = snd (CloneTemplate env now new i user name db)"
| "run_template env (DoSetDefault i user) db = snd (SetDefaultTemplate env i user db)"

fun run_templates :: "(template_env \<times> template_op) list \<Rightarrow> template_db \<Rightarrow> template_db" where
  "run_templates [] db = db"
| "run_templates ((env, op) # ops) db = run_templates ops (run_template env op db)"

text \<open>A name of a list, or left out.\<close>

definition one_of :: "string list \<Rightarrow> string \<Rightarrow> bool" where
  "one_of names s \<longleftrightarrow> s = [] \<or> s \<in> set names"

lemma default_fields:
  "tp_user (default_format (default_engine t)) = tp_user t" "tp_name (default_format (default_engine t)) = tp_name t"
  "tp_description (default_format (default_engine t)) = tp_description t"
  "tp_channel (default_format (default_engine t)) = tp_channel t" "tp_type (default_format (default_engine t)) = tp_type t"
  "tp_subject (default_format (default_engine t)) = tp_subject t" "tp_body (default_format (default_engine t)) = tp_body t"
  "tp_parent (default_format (default_engine t)) = tp_parent t" "tp_id (default_format (default_engine t)) = tp_id t"
  "tp_default (default_format (default_engine t)) = tp_default t" "tp_system (default_format (default_engine t)) = tp_system t"
  "tp_engine (default_format (default_engine t)) \<in> set engine_names \<longleftrightarrow> one_of engine_names (tp_engine t)"
  "tp_format (default_format (default_engine t)) \<in> set format_names \<longleftrightarrow> one_of format_names (tp_format t)"
  by (auto simp: default_engine_def default_format_def one_of_def engine_names_def format_names_def)

lemma Validate_fields:
  assumes "tpl_Validate t = Inr t'"
  shows "tp_id t' = tp_id t" "tp_user t' = tp_user t" "tp_name t' = tp_name t" "tp_description t' = tp_description t"
    "tp_channel t' = tp_channel t" "tp_type t' = tp_type t" "tp_subject t' = tp_subject t" "tp_body t' = tp_body t"
    "tp_default t' = tp_default t" "tp_system t' = tp_system t" "tp_parent t' = tp_parent t"
proof -
  have "t' = default_format (default_engine t)" using assms by (simp add: tpl_Validate_def split: if_splits)
  then show "tp_id t' = tp_id t" "tp_user t' = tp_user t" "tp_name t' = tp_name t" "tp_description t' = tp_description t"
    "tp_channel t' = tp_channel t" "tp_type t' = tp_type t" "tp_subject t' = tp_subject t" "tp_body t' = tp_body t"
    "tp_default t' = tp_default t" "tp_system t' = tp_system t" "tp_parent t' = tp_parent t"
    by (simp_all add: default_fields)
qed

lemma BeforeCreate_fields:
  "tp_id (BeforeCreate now t) = tp_id t" "tp_user (BeforeCreate now t) = tp_user t"
  "tp_name (BeforeCreate now t) = tp_name t" "tp_description (BeforeCreate now t) = tp_description t"
  "tp_channel (BeforeCreate now t) = tp_channel t" "tp_type (BeforeCreate now t) = tp_type t"
  "tp_subject (BeforeCreate now t) = tp_subject t" "tp_body (BeforeCreate now t) = tp_body t"
  "tp_default (BeforeCreate now t) = tp_default t" "tp_system (BeforeCreate now t) = tp_system t"
  "tp_parent (BeforeCreate now t) = tp_parent t"
  by (auto simp: BeforeCreate_def default_format_def default_engine_def)

locale template_invariant =
  fixes P :: "template_db \<Rightarrow> bool" and ok :: "template_env \<Rightarrow> bool"
  assumes made: "P db \<Longrightarrow> \<not> tp_default t \<Longrightarrow> \<not> tp_system t \<Longrightarrow> tpl_Create env now new t db = Inr (t', db') \<Longrightarrow> P db'"
    and updated: "P db \<Longrightarrow> ok env \<Longrightarrow> List.find (\<lambda>r. tp_id r = i) db = Some t0 \<Longrightarrow> \<not> tp_system t0 \<Longrightarrow>
      te_uuid env s = Some i \<Longrightarrow> tp_id t = i \<Longrightarrow> tpl_Update env t db = Inr db' \<Longrightarrow> P db'"
    and deleted: "P db \<Longrightarrow> List.find (\<lambda>r. tp_id r = i) db = Some t0 \<Longrightarrow> \<not> tp_system t0 \<Longrightarrow>
      te_uuid env s = Some i \<Longrightarrow> tpl_Delete env s db = Inr db' \<Longrightarrow> P db'"
    and defaulted: "P db \<Longrightarrow> tpl_SetDefault env i user db = Inr db' \<Longrightarrow> P db'"
begin

lemma valid_made:
  assumes "tpl_Create env now new (BeforeCreate now t) db = Inr (t', db')" "tpl_Validate t0 = Inr t"
    and "P db" "\<not> tp_default t0" "\<not> tp_system t0"
  shows "P db'"
  using made [OF assms(3) _ _ assms(1)] assms(4,5) Validate_fields(9,10) [OF assms(2)] by (simp add: BeforeCreate_fields)

lemma create_kept: "P db \<Longrightarrow> P (snd (CreateTemplate env now new req db))"
  by (auto simp: CreateTemplate_def requested_template_def split: sum.splits elim!: valid_made)

lemma update_kept: "P db \<Longrightarrow> ok env \<Longrightarrow> P (snd (UpdateTemplate env now i req db))"
proof (cases "tpl_GetByID env i db")
  case (Inr t0)
  assume P: "P db" "ok env"
  obtain c where c: "te_uuid env i = Some c" "List.find (\<lambda>r. tp_id r = c) db = Some t0"
    using Inr by (auto simp: tpl_GetByID_def split: if_splits option.splits)
  have "tp_id t0 = c" using find_Some_inD [OF c(2)] by simp
  then have "tp_id (BeforeUpdate now t) = c" if "tpl_Validate (with_update req t0) = Inr t" for t
    using Validate_fields(1) [OF that] by (simp add: BeforeUpdate_def with_update_def)
  then show ?thesis using updated [OF P c(2) _ c(1)] P Inr
    by (auto simp: UpdateTemplate_def Let_def split: sum.splits)
qed (simp add: UpdateTemplate_def)

lemma delete_kept: "P db \<Longrightarrow> P (snd (DeleteTemplate env i db))"
  using deleted [of db _ _ env i]
  by (auto simp: DeleteTemplate_def CanDelete_def tpl_GetByID_def split: sum.splits if_splits option.splits)

lemma clone_kept: "P db \<Longrightarrow> P (snd (CloneTemplate env now new i user name db))"
  by (auto simp: CloneTemplate_def tpl_Clone_def split: sum.splits elim!: valid_made)

lemma default_kept: "P db \<Longrightarrow> P (snd (SetDefaultTemplate env i user db))"
  using defaulted [of db env i user] by (auto simp: SetDefaultTemplate_def split: sum.splits)

lemma run_kept: "P db \<Longrightarrow> list_all (\<lambda>(env, op). ok env) ops \<Longrightarrow> P (run_templates ops db)"
proof (induction ops db rule: run_templates.induct)
  case (2 env op ops db)
  then have "P (run_template env op db)"
    by (cases op) (auto intro: create_kept update_kept delete_kept clone_kept default_kept)
  then show ?case using 2 by simp
qed simp

end

section \<open>The constraints\<close>

definition name_key :: "template \<Rightarrow> string \<times> string \<times> string \<times> string" where
  "name_key t = (tp_user t, tp_channel t, tp_type t, tp_name t)"

definition slot_key :: "template \<Rightarrow> string \<times> string \<times> string" where
  "slot_key t = (tp_user t, tp_channel t, tp_type t)"

definition parent_known :: "template_db \<Rightarrow> template \<Rightarrow> bool" where
  "parent_known db t \<longleftrightarrow> (case tp_parent t of None \<Rightarrow> True | Some p \<Rightarrow> list_ex (\<lambda>r. tp_id r = p) db)"

definition templates_ok :: "template_db \<Rightarrow> bool" where
  "templates_ok db \<longleftrightarrow> distinct (map tp_id db) \<and> distinct (map name_key db)
     \<and> distinct (map slot_key (filter tp_default db))
     \<and> list_all (\<lambda>t. columns_ok t \<and> checks_ok t) db \<and> list_all (parent_known db) db"

lemma name_taken_key: "distinct (map tp_id db) \<Longrightarrow>
    name_taken t db \<longleftrightarrow> (\<exists>r \<in> set db. tp_id r \<noteq> tp_id t \<and> name_key r = name_key t)"
  by (auto simp: name_taken_def same_slot_def name_key_def list_ex_iff)

lemma parent_known_mono: "tp_id ` set db \<subseteq> tp_id ` set db' \<Longrightarrow> parent_known db t \<Longrightarrow> parent_known db' t"
  by (fastforce simp: parent_known_def list_ex_iff split: option.splits)

lemma created_row:
  assumes "tpl_Create env now new t db = Inr (t', db')"
  obtains r where "db' = db @ [r]" "tp_id r = new" "columns_ok r" "checks_ok r" "\<not> name_taken r db"
    "tp_default r = tp_default t" "tp_system r = tp_system t" "parent_known db r" "\<forall>q \<in> set db. tp_id q \<noteq> new"
proof -
  obtain r where r: "template_row env new (BeforeCreate now t) = Some r" and db': "db' = db @ [r]"
    and "\<not> list_ex (\<lambda>r. tp_id r = new) db" "columns_ok r" "checks_ok r" "\<not> name_taken r db" "parent_known db r"
    using assms by (auto simp: tpl_Create_def parent_known_def Let_def split: if_splits option.splits)
  moreover have "tp_id r = new" "tp_default r = tp_default t" "tp_system r = tp_system t"
    using r by (auto simp: template_row_def BeforeCreate_fields split: option.splits)
  ultimately show ?thesis using that by (auto simp: list_ex_iff)
qed

lemma templates_ok_create:
  assumes "templates_ok db" "\<not> tp_default t" "tpl_Create env now new t db = Inr (t', db')"
  shows "templates_ok db'"
proof -
  obtain r where r: "db' = db @ [r]" "tp_id r = new" "columns_ok r" "checks_ok r" "\<not> name_taken r db"
    "tp_default r = tp_default t" "parent_known db r" "\<forall>q \<in> set db. tp_id q \<noteq> new"
    using created_row [OF assms(3)] by metis
  have "name_key r \<notin> name_key ` set db"
    using r(2,5,8) assms(1) by (auto simp: templates_ok_def name_taken_key)
  moreover have "list_all (parent_known db') db'"
    using assms(1) r(1,7) parent_known_mono [of db db']
    by (auto simp: templates_ok_def list_all_iff)
  ultimately show ?thesis using assms(1,2) r by (auto simp: templates_ok_def)
qed

lemma checked_upd_where:
  "list_all (\<lambda>t. columns_ok t \<and> checks_ok t) (upd_where q (\<lambda>r. r\<lparr>tp_default := b, tp_updated := n\<rparr>) db)
    = list_all (\<lambda>t. columns_ok t \<and> checks_ok t) db"
  "list_all (\<lambda>t. columns_ok t \<and> checks_ok t) (upd_where q (\<lambda>r. r\<lparr>tp_parent := p, tp_updated := n\<rparr>) db)
    = list_all (\<lambda>t. columns_ok t \<and> checks_ok t) db"
  by (induction db) (simp_all add: upd_where_Cons columns_ok_def checks_ok_def)

lemma set_template_columns_fields:
  "tp_id (set_template_columns env t r) = tp_id r" "tp_user (set_template_columns env t r) = tp_user r"
  "tp_channel (set_template_columns env t r) = tp_channel r" "tp_type (set_template_columns env t r) = tp_type r"
  "tp_engine (set_template_columns env t r) = tp_engine r" "tp_default (set_template_columns env t r) = tp_default r"
  "tp_system (set_template_columns env t r) = tp_system r" "tp_parent (set_template_columns env t r) = tp_parent r"
  "tp_name (set_template_columns env t r) = tp_name t"
  "columns_ok (set_template_columns env t r) = columns_ok t" "checks_ok (set_template_columns env t r) = checks_ok r"
  by (simp_all add: set_template_columns_def columns_ok_def checks_ok_def)

lemma parents_iff: "list_all (parent_known db) db \<longleftrightarrow> (\<forall>p. Some p \<in> tp_parent ` set db \<longrightarrow> p \<in> tp_id ` set db)"
proof -
  have "parent_known db t \<longleftrightarrow> (\<forall>p. Some p = tp_parent t \<longrightarrow> p \<in> tp_id ` set db)" for t
    by (cases "tp_parent t") (auto simp: parent_known_def list_ex_iff)
  then show ?thesis by (simp only: list_all_iff) blast
qed

lemma parents_kept:
  assumes "list_all (parent_known db) db" "map tp_id db' = map tp_id db" "map tp_parent db' = map tp_parent db"
  shows "list_all (parent_known db') db'"
  using assms unfolding parents_iff by (metis list.set_map)

lemma templates_ok_update:
  assumes "templates_ok db" "tpl_Update env t db = Inr db'"
  shows "templates_ok db'"
proof -
  obtain i r where db': "db' = upd_where (\<lambda>r. tp_id r = i) (set_template_columns env t) db" and cols: "columns_ok t"
    and r: "List.find (\<lambda>r. tp_id r = i) db = Some r" "\<not> name_taken (set_template_columns env t r) db"
    using assms(2) by (auto simp: tpl_Update_def split: if_splits option.splits)
  have ids: "distinct (map tp_id db)" using assms(1) by (simp add: templates_ok_def)
  have "name_key q' \<noteq> name_key (set_template_columns env t q)"
    if "q \<in> set db" "q' \<in> set db" "tp_id q = i" "tp_id q' \<noteq> i" for q q'
  proof -
    have "q = r" using distinct_key_eq [OF ids, of q r] find_Some_inD [OF r(1)] that by simp
    then show ?thesis
      using r(2) that by (auto simp: name_taken_key [OF ids] set_template_columns_fields)
  qed
  then have "distinct (map name_key db')"
    using assms(1) unfolding db' by (intro distinct_key_upd [OF _ ids]) (auto simp: templates_ok_def)
  moreover have "filter tp_default db' = map (\<lambda>r. if tp_id r = i then set_template_columns env t r else r) (filter tp_default db)"
    unfolding db' upd_where_def filter_map by (simp add: comp_def set_template_columns_fields if_distrib cong: if_cong)
  then have "map slot_key (filter tp_default db') = map slot_key (filter tp_default db)"
    by (simp add: slot_key_def set_template_columns_fields)
  moreover have "list_all (\<lambda>t. columns_ok t \<and> checks_ok t) db'"
    using assms(1) cols unfolding db' templates_ok_def list_all_iff
    by (auto simp: set_template_columns_fields elim!: in_upd_whereE)
  moreover have "list_all (parent_known db') db'"
    unfolding db' by (rule parents_kept [of db]) (use assms(1) in \<open>simp_all add: templates_ok_def set_template_columns_fields\<close>)
  ultimately show ?thesis using assms(1) unfolding templates_ok_def
    by (simp add: db' set_template_columns_fields)
qed

text \<open>Turning flags off keeps the slots of the defaults apart.\<close>

lemma orphan_clones_fields:
  "map tp_id (orphan_clones env i db) = map tp_id db" "map name_key (orphan_clones env i db) = map name_key db"
  "map slot_key (filter tp_default (orphan_clones env i db)) = map slot_key (filter tp_default db)"
proof -
  show "map slot_key (filter tp_default (orphan_clones env i db)) = map slot_key (filter tp_default db)"
    by (induction db) (simp_all add: orphan_clones_def upd_where_Cons slot_key_def)
qed (simp_all add: orphan_clones_def name_key_def)

lemma templates_ok_delete:
  assumes "templates_ok db" "tpl_Delete env s db = Inr db'"
  shows "templates_ok db'"
proof -
  obtain i where db': "db' = orphan_clones env i (del_where (\<lambda>r. tp_id r = i) db)"
    using assms(2) by (auto simp: tpl_Delete_def split: if_splits option.splits)
  have "list_all (parent_known db') db'"
    unfolding parents_iff
  proof (intro allI impI)
    fix p assume "Some p \<in> tp_parent ` set db'"
    then obtain r where "r \<in> set db" "tp_parent r = Some p" "p \<noteq> i"
      unfolding db' orphan_clones_def by (auto elim!: in_upd_whereE) (metis option.inject)
    then have "p \<in> tp_id ` set (del_where (\<lambda>r. tp_id r = i) db)"
      using assms(1) by (force simp: templates_ok_def parents_iff)
    then show "p \<in> tp_id ` set db'"
      unfolding db' using orphan_clones_fields(1) by (metis list.set_map)
  qed
  moreover have "list_all (\<lambda>t. columns_ok t \<and> checks_ok t) db'"
    using assms(1) unfolding db' templates_ok_def
    by (simp add: orphan_clones_def checked_upd_where) (simp add: list_all_iff)
  moreover have "filter tp_default (del_where (\<lambda>r. tp_id r = i) db) = del_where (\<lambda>r. tp_id r = i) (filter tp_default db)"
    by (simp add: del_where_def filter_filter conj_commute)
  ultimately show ?thesis using assms(1) unfolding templates_ok_def
    by (simp add: db' orphan_clones_fields distinct_key_del_where)
qed

lemma reset_default_fields:
  "map tp_id (reset_default env u c ty db) = map tp_id db"
  "map name_key (reset_default env u c ty db) = map name_key db"
  "map tp_parent (reset_default env u c ty db) = map tp_parent db"
  "map slot_key (filter tp_default (reset_default env u c ty db))
    = filter (\<lambda>k. k \<noteq> (u, c, ty)) (map slot_key (filter tp_default db))"
proof -
  show "map slot_key (filter tp_default (reset_default env u c ty db))
      = filter (\<lambda>k. k \<noteq> (u, c, ty)) (map slot_key (filter tp_default db))"
    by (induction db) (simp_all add: reset_default_def upd_where_Cons slot_key_def)
qed (simp_all add: reset_default_def name_key_def)

lemma mark_default_fields:
  "map tp_id (mark_default env i u db) = map tp_id db"
  "map name_key (mark_default env i u db) = map name_key db"
  "map tp_parent (mark_default env i u db) = map tp_parent db"
  by (simp_all add: mark_default_def name_key_def)

lemma set_default_cases:
  assumes "tpl_SetDefault env i user db = Inr db'"
  obtains i' u t where "List.find (\<lambda>r. tp_id r = i' \<and> tp_user r = u) db = Some t"
    "db' = mark_default env i' u (reset_default env u (tp_channel t) (tp_type t) db)"
  using assms by (auto simp: tpl_SetDefault_def split: if_splits option.splits)

lemma templates_ok_default:
  assumes "templates_ok db" "tpl_SetDefault env i user db = Inr db'"
  shows "templates_ok db'"
proof -
  obtain i' u t where t: "List.find (\<lambda>r. tp_id r = i' \<and> tp_user r = u) db = Some t"
    and db': "db' = mark_default env i' u (reset_default env u (tp_channel t) (tp_type t) db)"
    using set_default_cases [OF assms(2)] .
  let ?db1 = "reset_default env u (tp_channel t) (tp_type t) db"
  let ?key = "\<lambda>r. (tp_id r, tp_user r)"
  have ids: "distinct (map tp_id ?db1)" using assms(1) by (simp add: templates_ok_def reset_default_fields)
  then have keys: "distinct (map ?key ?db1)" by (auto simp: distinct_map inj_on_def)
  have free: "slot_key r \<noteq> (u, tp_channel t, tp_type t)" if "r \<in> set ?db1" "tp_default r" for r
  proof -
    have "slot_key r \<in> set (map slot_key (filter tp_default ?db1))" using that by auto
    then show ?thesis by (auto simp: reset_default_fields)
  qed
  have slot: "slot_key r = (u, tp_channel t, tp_type t)" if "r \<in> set ?db1" "?key r = (i', u)" for r
  proof -
    have "(tp_id r, slot_key r) \<in> set (map (\<lambda>r. (tp_id r, slot_key r)) ?db1)" using that(1) by simp
    also have "map (\<lambda>r. (tp_id r, slot_key r)) ?db1 = map (\<lambda>r. (tp_id r, slot_key r)) db"
      by (simp add: reset_default_def slot_key_def)
    finally obtain r0 where r0: "r0 \<in> set db" "tp_id r0 = tp_id r" "slot_key r0 = slot_key r" by auto
    then have "r0 = t" using distinct_key_eq [of tp_id db r0 t] assms(1) find_Some_inD [OF t] that(2)
      by (simp add: templates_ok_def)
    then show ?thesis using r0 find_Some_inD [OF t] by (simp add: slot_key_def)
  qed
  have "distinct (map slot_key (filter tp_default db'))"
    unfolding db' mark_default_def
  proof (rule distinct_filter_upd [where key = ?key and c = "(i', u)"])
    show "distinct (map slot_key (filter tp_default ?db1))"
      using assms(1) by (simp add: templates_ok_def reset_default_fields)
    show "r' \<in> set ?db1 \<Longrightarrow> tp_default r' \<Longrightarrow> slot_key r' = slot_key r \<Longrightarrow> tp_id r' = i' \<and> tp_user r' = u"
      if "r \<in> set ?db1" "tp_id r = i' \<and> tp_user r = u" for r r'
      using free [of r'] slot [of r] that by auto
  qed (use keys in \<open>auto simp: slot_key_def\<close>)
  moreover have "list_all (\<lambda>t. columns_ok t \<and> checks_ok t) db'"
    using assms(1) unfolding db' templates_ok_def by (simp add: mark_default_def reset_default_def checked_upd_where)
  moreover have "list_all (parent_known db') db'"
    unfolding db' by (rule parents_kept [of db])
      (use assms(1) in \<open>simp_all add: templates_ok_def mark_default_fields reset_default_fields\<close>)
  ultimately show ?thesis using assms(1) unfolding templates_ok_def
    by (simp add: db' mark_default_fields reset_default_fields)
qed

interpretation tables: template_invariant templates_ok "\<lambda>_. True"
  by unfold_locales (auto intro: templates_ok_create templates_ok_update templates_ok_delete templates_ok_default)

text \<open>Two templates of one user, one of them the default, and a system template; a renderer of \<open>{{ .status }}\<close>.\<close>

definition tpl_user :: string where "tpl_user = ''11111111-1111-1111-1111-111111111111''"
definition id_a :: string where "id_a = ''aaaaaaaa-aaaa-4aaa-8aaa-aaaaaaaaaaaa''"
definition id_b :: string where "id_b = ''bbbbbbbb-bbbb-4bbb-8bbb-bbbbbbbbbbbb''"
definition id_s :: string where "id_s = ''00000000-0000-0000-0000-000000000001''"

definition demo_template :: "string \<Rightarrow> string \<Rightarrow> bool \<Rightarrow> template" where
  "demo_template i name sys =
     \<lparr>tp_id = i, tp_user = tpl_user, tp_name = name, tp_description = [], tp_channel = ''sms'',
      tp_type = ''custom'', tp_engine = ''gotemplate'', tp_subject = [], tp_body = ''{{ .status }}'', tp_format = ''text'',
      tp_default = False, tp_system = sys, tp_created = 0, tp_updated = 0, tp_version = 1, tp_parent = None\<rparr>"

definition demo_templates :: template_db where
  "demo_templates = [demo_template id_s ''seed'' True, demo_template id_a ''a'' False, demo_template id_b ''b'' False]"

definition demo_templating :: template_env where
  "demo_templating =
     \<lparr>te_down = (\<lambda>_. False), te_uuid = (\<lambda>s. if length s = 36 then Some s else None), te_db_now = 9, te_max = 100000,
      te_parse = (\<lambda>_ _. None), te_exec = (\<lambda>_ v. case v ''status'' of None \<Rightarrow> Inr [] | Some t \<Rightarrow> Inr t)\<rparr>"

lemma demo_templates_ok: "templates_ok demo_templates"
  by code_simp

text \<open>
  Every sequence of calls keeps the table well formed: identifiers are distinct, a user
  has no two templates of one name, channel and type and at most one default for a channel and a type, every
  column passes its checks, and the template that a clone names exists.
\<close>

theorem template_tables_kept:
  assumes "templates_ok db"
  shows "templates_ok (run_templates ops db)"
  using assms by (rule tables.run_kept) (simp add: list_all_iff split_beta)

theorem template_tables_kept_witness:
  "templates_ok (run_templates [(demo_templating, DoSetDefault id_a tpl_user), (demo_templating, DoDeleteTemplate id_a)] demo_templates)"
  by (rule template_tables_kept [OF demo_templates_ok])

section \<open>System templates\<close>

text \<open>What a reader of a template sees, without the flags and times that other calls may set.\<close>

definition content :: "template \<Rightarrow> string list \<times> int" where
  "content t = ([tp_id t, tp_user t, tp_name t, tp_description t, tp_channel t, tp_type t, tp_engine t,
     tp_subject t, tp_body t, tp_format t], tp_version t)"

definition system_rows :: "template_db \<Rightarrow> (string list \<times> int) list" where
  "system_rows db = map content (filter tp_system db)"

text \<open>The text in which PostgreSQL prints a UUID is read as that UUID.\<close>

definition canonical :: "template_env \<Rightarrow> bool" where
  "canonical env \<longleftrightarrow> (\<forall>s c. te_uuid env s = Some c \<longrightarrow> te_uuid env c = Some c)"

lemma system_rows_upd:
  "(\<And>r. tp_system (f r) = tp_system r) \<Longrightarrow> (\<And>r. r \<in> set db \<Longrightarrow> tp_system r \<Longrightarrow> q r \<Longrightarrow> content (f r) = content r) \<Longrightarrow>
   system_rows (upd_where q f db) = system_rows db"
  by (induction db) (auto simp: system_rows_def upd_where_Cons)

lemma system_rows_del:
  "(\<And>r. r \<in> set db \<Longrightarrow> q r \<Longrightarrow> \<not> tp_system r) \<Longrightarrow> system_rows (del_where q db) = system_rows db"
  by (induction db) (auto simp: system_rows_def del_where_def)

lemma not_system:
  assumes "distinct (map tp_id db)" "List.find (\<lambda>r. tp_id r = i) db = Some t" "\<not> tp_system t" "r \<in> set db" "tp_id r = i"
  shows "\<not> tp_system r"
  using distinct_key_eq [OF assms(1,4), of t] find_Some_inD [OF assms(2)] assms(3,5) by auto

lemma systems_update:
  assumes "distinct (map tp_id db)" "canonical env" "List.find (\<lambda>r. tp_id r = i) db = Some t0" "\<not> tp_system t0"
    and "te_uuid env s = Some i" "tp_id t = i" "tpl_Update env t db = Inr db'"
  shows "map tp_id db' = map tp_id db" "system_rows db' = system_rows db"
proof -
  have "te_uuid env i = Some i" using assms(2,5) by (auto simp: canonical_def)
  then have db': "db' = upd_where (\<lambda>r. tp_id r = i) (set_template_columns env t) db"
    using assms(6,7) by (auto simp: tpl_Update_def split: if_splits option.splits)
  show "map tp_id db' = map tp_id db" by (simp add: db' set_template_columns_fields)
  show "system_rows db' = system_rows db"
    unfolding db' by (rule system_rows_upd) (use not_system [OF assms(1,3,4)] in \<open>auto simp: set_template_columns_fields\<close>)
qed

lemma systems_delete:
  assumes "distinct (map tp_id db)" "List.find (\<lambda>r. tp_id r = i) db = Some t0" "\<not> tp_system t0"
    and "te_uuid env s = Some i" "tpl_Delete env s db = Inr db'"
  shows "distinct (map tp_id db')" "system_rows db' = system_rows db"
proof -
  have db': "db' = orphan_clones env i (del_where (\<lambda>r. tp_id r = i) db)"
    using assms(4,5) by (auto simp: tpl_Delete_def split: if_splits)
  show "distinct (map tp_id db')" using assms(1) by (simp add: db' orphan_clones_fields distinct_key_del_where)
  have "system_rows db' = system_rows (del_where (\<lambda>r. tp_id r = i) db)"
    unfolding db' orphan_clones_def by (rule system_rows_upd) (simp_all add: content_def)
  also have "\<dots> = system_rows db" using not_system [OF assms(1-3)] by (intro system_rows_del) auto
  finally show "system_rows db' = system_rows db" .
qed

lemma systems_default:
  assumes "tpl_SetDefault env i user db = Inr db'"
  shows "map tp_id db' = map tp_id db" "system_rows db' = system_rows db"
proof -
  obtain i' u t where "List.find (\<lambda>r. tp_id r = i' \<and> tp_user r = u) db = Some t"
    and db': "db' = mark_default env i' u (reset_default env u (tp_channel t) (tp_type t) db)"
    using set_default_cases [OF assms] .
  show "map tp_id db' = map tp_id db" by (simp add: db' mark_default_fields reset_default_fields)
  have "system_rows (mark_default env i' u xs) = system_rows xs" for xs
    unfolding mark_default_def by (rule system_rows_upd) (simp_all add: content_def)
  moreover have "system_rows (reset_default env u c ty xs) = system_rows xs" for c ty xs
    unfolding reset_default_def by (rule system_rows_upd) (simp_all add: content_def)
  ultimately show "system_rows db' = system_rows db" by (simp add: db')
qed

lemma systems_create:
  assumes "distinct (map tp_id db)" "\<not> tp_system t" "tpl_Create env now new t db = Inr (t', db')"
  shows "distinct (map tp_id db')" "system_rows db' = system_rows db"
  using assms(1,2) by (rule_tac [!] created_row [OF assms(3)]) (auto simp: system_rows_def)

interpretation systems: template_invariant "\<lambda>db. distinct (map tp_id db) \<and> system_rows db = S" canonical for S
proof unfold_locales
  show "distinct (map tp_id db') \<and> system_rows db' = S"
    if "distinct (map tp_id db) \<and> system_rows db = S" "\<not> tp_system t" "tpl_Create env now new t db = Inr (t', db')"
    for db env now new t t' db'
    using systems_create [of db t] that by auto
  show "distinct (map tp_id db') \<and> system_rows db' = S"
    if "distinct (map tp_id db) \<and> system_rows db = S" "canonical env" "List.find (\<lambda>r. tp_id r = i) db = Some t0"
      "\<not> tp_system t0" "te_uuid env s = Some i" "tp_id t = i" "tpl_Update env t db = Inr db'"
    for db env i t0 s t db'
    using systems_update [OF _ that(2-7)] that(1) by auto
  show "distinct (map tp_id db') \<and> system_rows db' = S"
    if "distinct (map tp_id db) \<and> system_rows db = S" "List.find (\<lambda>r. tp_id r = i) db = Some t0"
      "\<not> tp_system t0" "te_uuid env s = Some i" "tpl_Delete env s db = Inr db'"
    for db env i t0 s db'
    using systems_delete [OF _ that(2-5)] that(1) by auto
  show "distinct (map tp_id db') \<and> system_rows db' = S"
    if "distinct (map tp_id db) \<and> system_rows db = S" "tpl_SetDefault env i user db = Inr db'"
    for db env i user db'
    using systems_default [OF that(2)] that(1) by simp
qed

text \<open>
  No sequence of calls changes or removes a system template: who calls may make one the default
  of its owner, and nothing else of it changes.
\<close>

theorem system_templates_kept:
  assumes "distinct (map tp_id db)" and "list_all (\<lambda>(env, op). canonical env) ops"
  shows "system_rows (run_templates ops db) = system_rows db"
  using systems.run_kept [of db "system_rows db" ops] assms by simp

lemma demo_canonical: "canonical demo_templating"
  by (simp add: canonical_def demo_templating_def)

theorem system_templates_kept_witness:
  "system_rows (run_templates [(demo_templating, DoSetDefault id_s tpl_user), (demo_templating, DoDeleteTemplate id_s)] demo_templates)
   = system_rows demo_templates"
  using demo_templates_ok by (intro system_templates_kept) (simp_all add: demo_canonical templates_ok_def)

section \<open>Creating\<close>

definition creatable :: "int \<Rightarrow> string \<Rightarrow> create_template_request \<Rightarrow> template_db \<Rightarrow> bool" where
  "creatable limit u req db \<longleftrightarrow>
     TrimSpace (ct_name req) \<noteq> [] \<and> char_count (ct_name req) \<le> 255 \<and> TrimSpace (ct_body req) \<noteq> []
     \<and> int (length (ct_body req)) \<le> limit
     \<and> ct_channel req \<in> set channel_names \<and> ct_type req \<in> set type_names
     \<and> one_of engine_names (ct_engine req) \<and> one_of format_names (ct_format req)
     \<and> list_all pg_text [ct_name req, ct_description req, ct_subject req, ct_body req]
     \<and> \<not> list_ex (\<lambda>r. name_key r = (u, ct_channel req, ct_type req, ct_name req)) db"

definition new_row :: "template_env \<Rightarrow> string \<Rightarrow> string \<Rightarrow> create_template_request \<Rightarrow> template" where
  "new_row env new u req =
     (default_format (default_engine (requested_template req)))
       \<lparr>tp_id := new, tp_user := u, tp_created := te_db_now env, tp_updated := te_db_now env, tp_version := 1\<rparr>"

text \<open>The defaults that validation sets are not set again.\<close>

lemma BeforeCreate_valid:
  assumes "tp_engine t \<noteq> []" "tp_format t \<noteq> []"
  shows "BeforeCreate now t = t\<lparr>tp_created := now, tp_updated := now, tp_version := 1\<rparr>"
  using assms by (simp add: BeforeCreate_def default_engine_def default_format_def)

lemma defaults_set: "tp_engine (default_format (default_engine t)) \<noteq> []" "tp_format (default_format (default_engine t)) \<noteq> []"
  by (auto simp: default_engine_def default_format_def)

lemma requested_fields:
  "tp_id (requested_template req) = []" "tp_user (requested_template req) = ct_user req"
  "tp_name (requested_template req) = ct_name req" "tp_description (requested_template req) = ct_description req"
  "tp_channel (requested_template req) = ct_channel req" "tp_type (requested_template req) = ct_type req"
  "tp_engine (requested_template req) = ct_engine req" "tp_subject (requested_template req) = ct_subject req"
  "tp_body (requested_template req) = ct_body req" "tp_format (requested_template req) = ct_format req"
  "tp_parent (requested_template req) = None"
  by (simp_all add: requested_template_def)

lemma new_row_fields:
  "tp_id (new_row env new u req) = new" "tp_parent (new_row env new u req) = None"
  "columns_ok (new_row env new u req) \<longleftrightarrow> char_count (ct_name req) \<le> 255 \<and> one_of format_names (ct_format req)
     \<and> list_all pg_text [ct_name req, ct_description req, ct_subject req, ct_body req]"
  "checks_ok (new_row env new u req) \<longleftrightarrow> ct_channel req \<in> set channel_names \<and> ct_type req \<in> set type_names
     \<and> one_of engine_names (ct_engine req)"
  "name_key (new_row env new u req) = (u, ct_channel req, ct_type req, ct_name req)"
  by (auto simp: new_row_def columns_ok_def checks_ok_def name_key_def default_fields requested_fields)

lemma insert_requested:
  assumes "te_down env TplInsert = False" and "te_uuid env (ct_user req) = Some u"
    and "list_all (\<lambda>r. tp_id r \<noteq> new) db"
  shows "(case tpl_Create env now new (BeforeCreate now (default_format (default_engine (requested_template req)))) db of
        Inl e \<Rightarrow> None | Inr (t, db') \<Rightarrow> Some db')
    = (if columns_ok (new_row env new u req) \<and> checks_ok (new_row env new u req)
          \<and> \<not> list_ex (\<lambda>r. name_key r = name_key (new_row env new u req)) db
       then Some (db @ [new_row env new u req]) else None)"
proof -
  let ?t = "default_format (default_engine (requested_template req))"
  let ?row = "new_row env new u req"
  have row: "template_row env new (BeforeCreate now (BeforeCreate now ?t)) = Some ?row"
    using assms(2) by (simp add: template_row_def uuid_column_def new_row_def BeforeCreate_valid defaults_set default_fields requested_fields)
  have "name_taken ?row db \<longleftrightarrow> list_ex (\<lambda>r. name_key r = name_key ?row) db"
    using assms(3) by (auto simp: name_taken_def same_slot_def name_key_def new_row_fields list_ex_iff list_all_iff)
  then show ?thesis
    using assms(1,3) by (auto simp: tpl_Create_def row new_row_fields(1,2) Let_def list_ex_iff list_all_iff)
qed

text \<open>
  Property C31. When the database works and the user's id is a UUID, a request creates a template exactly when
  its name and body are not blank, the name and the body are not too long, no text of it holds the byte 0, the
  channel and the type are known, the engine and the format are known or left out, and the user has no template of
  that name for the channel and the type; the row then has the fields of the request, and nothing changes when it
  does not.
\<close>

theorem CreateTemplate_creates_iff:
  assumes "te_down env TplInsert = False" and "te_uuid env (ct_user req) = Some u"
    and "list_all (\<lambda>r. tp_id r \<noteq> new) db"
  shows "(isl (fst (CreateTemplate env now new req db)), snd (CreateTemplate env now new req db)) =
    (if creatable (te_max env) u req db then (False, db @ [new_row env new u req]) else (True, db))"
proof -
  let ?t = "default_format (default_engine (requested_template req))"
  let ?valid = "TrimSpace (ct_name req) \<noteq> [] \<and> TrimSpace (ct_body req) \<noteq> []
    \<and> ct_channel req \<in> set channel_names \<and> ct_type req \<in> set type_names"
  have valid: "tpl_Validate (requested_template req) = Inr ?t" if ?valid
    using that by (simp add: tpl_Validate_def requested_fields isValidChannel_def isValidType_def)
  have invalid: "\<exists>e. tpl_Validate (requested_template req) = Inl e" if "\<not> ?valid"
    using that by (auto simp: tpl_Validate_def requested_fields isValidChannel_def isValidType_def)
  have large: "too_large env ?t \<longleftrightarrow> te_max env < int (length (ct_body req))"
    by (simp add: too_large_def default_fields requested_fields)
  show ?thesis
  proof (cases "?valid \<and> \<not> too_large env ?t")
    case True
    then show ?thesis
      using insert_requested [OF assms, of now] valid large
      by (auto simp: CreateTemplate_def creatable_def new_row_fields split: sum.splits if_splits)
  next
    case False
    then show ?thesis using valid invalid large
      by (cases ?valid) (auto simp: CreateTemplate_def creatable_def)
  qed
qed

definition tpl_request :: "string \<Rightarrow> create_template_request" where
  "tpl_request name =
     \<lparr>ct_user = tpl_user, ct_name = name, ct_description = [], ct_channel = ''sms'', ct_type = ''custom'',
      ct_engine = [], ct_subject = [], ct_body = ''{{ .status }}'', ct_format = []\<rparr>"

lemma demo_creatable: "creatable 100000 tpl_user (tpl_request ''c'') demo_templates"
  "\<not> creatable 100000 tpl_user (tpl_request ''a'') demo_templates"
  by code_simp+

lemma demo_new_id: "list_all (\<lambda>r. tp_id r \<noteq> ''cccccccc-cccc-4ccc-8ccc-cccccccccccc'') demo_templates"
  by code_simp

lemma tpl_user_read: "te_uuid demo_templating (ct_user (tpl_request name)) = Some tpl_user"
  by (simp add: demo_templating_def tpl_request_def tpl_user_def)

lemma demo_limit: "te_max demo_templating = 100000"
  by (simp add: demo_templating_def)

theorem CreateTemplate_creates_iff_witness:
  "isl (fst (CreateTemplate demo_templating 5 ''cccccccc-cccc-4ccc-8ccc-cccccccccccc'' (tpl_request ''a'') demo_templates))
   \<and> \<not> isl (fst (CreateTemplate demo_templating 5 ''cccccccc-cccc-4ccc-8ccc-cccccccccccc'' (tpl_request ''c'') demo_templates))"
  using CreateTemplate_creates_iff [OF _ tpl_user_read demo_new_id, of 5 "''a''"]
    CreateTemplate_creates_iff [OF _ tpl_user_read demo_new_id, of 5 "''c''"] demo_creatable
  by (simp add: demo_limit) (simp add: demo_templating_def)

section \<open>Two defaults\<close>

text \<open>
  Two transactions of \<open>SetDefault\<close> that both reset before either sets. While no template of the slot is a
  default the resets lock no row, so neither waits for the other.
\<close>

definition interleaved_defaults :: "template_env \<Rightarrow> template \<Rightarrow> template \<Rightarrow> template_db \<Rightarrow> template_db" where
  "interleaved_defaults env a b db =
     mark_default env (tp_id b) (tp_user b) (mark_default env (tp_id a) (tp_user a)
       (reset_default env (tp_user b) (tp_channel b) (tp_type b)
         (reset_default env (tp_user a) (tp_channel a) (tp_type a) db)))"

text \<open>
  When a user has no default for a channel and a type, two calls at once that make different
  templates the default, each resetting before the other has set, leave both of them the default.
\<close>

theorem concurrent_defaults_both_stay:
  assumes "distinct (map tp_id db)" and "a \<in> set db" "b \<in> set db" and "tp_id a \<noteq> tp_id b" and "slot_key a = slot_key b"
    and "list_all (\<lambda>r. slot_key r = slot_key a \<longrightarrow> \<not> tp_default r) db"
  shows "map tp_id (filter (\<lambda>r. slot_key r = slot_key a \<and> tp_default r) (interleaved_defaults env a b db))
    = map tp_id (filter (\<lambda>r. tp_id r = tp_id a \<or> tp_id r = tp_id b) db)"
proof -
  have reset: "reset_default env (tp_user a) (tp_channel a) (tp_type a) db = db"
    using assms(6) by (auto simp: reset_default_def slot_key_def list_all_iff)
  have slot: "tp_user b = tp_user a" "tp_channel b = tp_channel a" "tp_type b = tp_type a"
    using assms(5) by (auto simp: slot_key_def)
  have only: "r = a \<or> r = b" if "r \<in> set db" "tp_id r = tp_id a \<or> tp_id r = tp_id b" for r
    using distinct_key_eq [OF assms(1) that(1)] assms(2,3) that(2) by blast
  let ?set = "\<lambda>r. if tp_id r = tp_id a \<or> tp_id r = tp_id b then r\<lparr>tp_default := True, tp_updated := te_db_now env\<rparr> else r"
  have "interleaved_defaults env a b db = map (\<lambda>r. let r' = (if tp_id r = tp_id a \<and> tp_user r = tp_user a
      then r\<lparr>tp_default := True, tp_updated := te_db_now env\<rparr> else r) in
      if tp_id r' = tp_id b \<and> tp_user r' = tp_user a then r'\<lparr>tp_default := True, tp_updated := te_db_now env\<rparr> else r') db"
    by (simp add: interleaved_defaults_def slot reset mark_default_def upd_where_def comp_def Let_def)
  also have "\<dots> = map ?set db"
  proof (rule map_cong [OF refl])
    fix r assume "r \<in> set db"
    then have "tp_id r = tp_id a \<Longrightarrow> tp_user r = tp_user a" "tp_id r = tp_id b \<Longrightarrow> tp_user r = tp_user a"
      using only [of r] slot(1) by auto
    then show "(let r' = (if tp_id r = tp_id a \<and> tp_user r = tp_user a
        then r\<lparr>tp_default := True, tp_updated := te_db_now env\<rparr> else r) in
        if tp_id r' = tp_id b \<and> tp_user r' = tp_user a then r'\<lparr>tp_default := True, tp_updated := te_db_now env\<rparr> else r') = ?set r"
      using assms(4) by (cases "tp_id r = tp_id a"; cases "tp_id r = tp_id b") (simp_all add: Let_def)
  qed
  finally have "interleaved_defaults env a b db = map ?set db" .
  moreover have "slot_key (?set r) = slot_key a \<and> tp_default (?set r) \<longleftrightarrow> tp_id r = tp_id a \<or> tp_id r = tp_id b"
    if "r \<in> set db" for r
    using only [OF that] assms(5,6) that by (auto simp: list_all_iff slot_key_def)
  then have "filter (\<lambda>r. slot_key r = slot_key a \<and> tp_default r) (map ?set db)
      = map ?set (filter (\<lambda>r. tp_id r = tp_id a \<or> tp_id r = tp_id b) db)"
    unfolding filter_map comp_def by (intro arg_cong [of _ _ "map ?set"] filter_cong) auto
  moreover have "map tp_id (map ?set xs) = map tp_id xs" for xs by simp
  ultimately show ?thesis by (simp only:)
qed

lemma demo_slot: "slot_key (demo_template id_a ''a'' False) = slot_key (demo_template id_b ''b'' False)"
  "list_all (\<lambda>r. slot_key r = slot_key (demo_template id_a ''a'' False) \<longrightarrow> \<not> tp_default r) demo_templates"
  by code_simp+

theorem concurrent_defaults_both_stay_witness:
  "map tp_id (filter (\<lambda>r. slot_key r = slot_key (demo_template id_a ''a'' False) \<and> tp_default r)
     (interleaved_defaults demo_templating (demo_template id_a ''a'' False) (demo_template id_b ''b'' False) demo_templates)) = [id_a, id_b]"
proof -
  have "map tp_id (filter (\<lambda>r. tp_id r = tp_id (demo_template id_a ''a'' False) \<or> tp_id r = tp_id (demo_template id_b ''b'' False)) demo_templates)
      = [id_a, id_b]" by code_simp
  moreover have "distinct (map tp_id demo_templates)" using demo_templates_ok by (simp add: templates_ok_def)
  ultimately show ?thesis
    using concurrent_defaults_both_stay [OF _ _ _ _ demo_slot, of demo_templating]
    by (simp add: demo_templates_def demo_template_def id_a_def id_b_def)
qed

section \<open>Reports\<close>

lemma demo_render:
  "ValidateSyntax (te_parse demo_templating) (demo_template id_a ''a'' False) = []"
  "rt_success (render demo_templating (demo_template id_a ''a'' False) [(''status'', ''UP''), (''x'', ''y'')])"
  by (simp_all add: demo_templating_def demo_template_def ValidateSyntax_def render_def render_part_def
      renderTemplateString_def checkUnusedVariables_def Let_def)

theorem render_warns_as_validated_witness:
  "set (rt_warnings (render demo_templating (demo_template id_a ''a'' False) [(''status'', ''UP''), (''x'', ''y'')])) =
    missing_text ` set (vr_missing (ValidateTemplate demo_templating (\<lambda>xs. xs) (demo_template id_a ''a'' False))) \<union>
    unused_text ` (set (map fst [(''status'', ''UP''), (''x'', ''y'')])
      - set (vr_used (ValidateTemplate demo_templating (\<lambda>xs. xs) (demo_template id_a ''a'' False))))"
  by (rule render_warns_as_validated [OF demo_render]) simp_all

section \<open>What calls leave out\<close>

text \<open>The engine of a template plays no part in rendering: each is parsed as a Go template.\<close>

lemma render_ignores_engine: "render env (t\<lparr>tp_engine := e\<rparr>) vars = render env t vars"
proof -
  have check: "checkUnusedVariables (t\<lparr>tp_engine := e\<rparr>) vars = checkUnusedVariables t vars"
    by (rule ext) (simp add: checkUnusedVariables_def used_variables_def)
  show ?thesis unfolding render_def check by simp
qed

text \<open>The default of a user is one of his own templates, never one of the system's.\<close>

lemma default_template_is_own:
  "GetDefaultTemplate env user channel ty db = Inr t \<Longrightarrow> te_uuid env user = Some (tp_user t)"
  by (auto simp: GetDefaultTemplate_def tpl_GetDefault_def split: if_splits option.splits dest!: find_Some_inD)

text \<open>The field to sort by is part of the statement as it comes from the request.\<close>

lemma sort_field_spliced:
  assumes "pl_sort_by req \<noteq> []"
  shows "list_query (requested_filter req) = select_columns @ list_conditions (requested_filter req)
    @ '' ORDER BY '' @ pl_sort_by req @ (if pl_sort_desc req then '' DESC'' else '' ASC'') @ page_clause (requested_filter req)"
  using assms by (simp add: list_query_def order_clause_def requested_filter_def)

text \<open>Words of the template language count as variables, and a variable in a condition is not found.\<close>

lemma keywords_are_variables:
  "ExtractVariables ''{{ if .up }}up{{ else }}down{{ end }}'' = [''else'', ''end'']"
  by code_simp

end
