(* ===== verification/ImportModel.thy ===== *)
theory ImportModel
  imports GoText GoFloat "HOL-Library.Signed_Division"
begin

text \<open>
  Imports of monitors: the history of an import, \<open>integration-service/internal/model/import_history.go\<close>, and
  the parsers of \<open>internal/service/import/parser\<close>. The packages \<open>encoding/csv\<close> and \<open>encoding/json\<close> are
  arguments: the records of a CSV file, and the decoded lists of a JSON export, or the text of the error.
  A \<open>nil\<close> list is the empty list. The details of a conflict, which nothing sets, are left out.
\<close>

section \<open>Data of a monitor\<close>

record import_data =
  md_name :: string
  md_url :: string
  md_method :: string
  md_headers :: "(string \<times> string) list"
  md_body :: "string option"
  md_interval :: "int option"
  md_timeout :: "int option"
  md_status :: "int option"
  md_pattern :: "string option"
  md_enabled :: "bool option"
  md_tags :: "string list"

definition md_Validate :: "import_data \<Rightarrow> string option" where
  "md_Validate m =
     (if md_name m = [] then Some ''monitor name is required''
      else if md_url m = [] then Some ''monitor URL is required''
      else if md_method m \<noteq> [] \<and> md_method m \<notin> {''GET'', ''POST'', ''PUT'', ''PATCH'', ''DELETE''}
        then Some ''invalid HTTP method''
      else None)"

section \<open>The history of an import\<close>

definition import_sources :: "string list" where
  "import_sources = [''uptimerobot'', ''pingdom'', ''csv'', ''json'']"

definition ValidateImportSource :: "string \<Rightarrow> string option" where
  "ValidateImportSource s = (if s \<in> set import_sources then Some s else None)"

datatype import_status = ImportPending | ImportRunning | ImportCompleted | ImportFailed | ImportPartial

record validation_error =
  ve_row :: nat
  ve_field :: string
  ve_message :: string
  ve_value :: string

record import_history =
  ih_id :: nat
  ih_user :: nat
  ih_source :: string
  ih_status :: import_status
  ih_total :: int
  ih_successful :: int
  ih_failed :: int
  ih_skipped :: int
  ih_overwrite :: bool
  ih_monitors :: "nat list"
  ih_errors :: "validation_error list"
  ih_file :: "string option"
  ih_size :: "int option"
  ih_started :: time
  ih_completed :: "time option"
  ih_duration :: "int option"
  ih_error :: "string option"

definition NewImportHistory :: "nat \<Rightarrow> time \<Rightarrow> nat \<Rightarrow> string \<Rightarrow> string \<Rightarrow> int \<Rightarrow> bool \<Rightarrow> import_history" where
  "NewImportHistory new now user source file n overwrite =
     \<lparr>ih_id = new, ih_user = user, ih_source = source, ih_status = ImportPending, ih_total = 0,
      ih_successful = 0, ih_failed = 0, ih_skipped = 0, ih_overwrite = overwrite, ih_monitors = [],
      ih_errors = [], ih_file = Some file, ih_size = Some n, ih_started = now, ih_completed = None,
      ih_duration = None, ih_error = None\<rparr>"

definition MarkAsRunning :: "import_history \<Rightarrow> import_history" where
  "MarkAsRunning h = h\<lparr>ih_status := ImportRunning\<rparr>"

text \<open>The end of an import at \<open>now\<close>, with its duration in milliseconds.\<close>

definition mark_finished :: "time \<Rightarrow> import_status \<Rightarrow> import_history \<Rightarrow> import_history" where
  "mark_finished now s h =
     h\<lparr>ih_status := s, ih_completed := Some now, ih_duration := Some ((now - ih_started h) sdiv 1000000)\<rparr>"

definition MarkAsCompleted :: "time \<Rightarrow> import_history \<Rightarrow> import_history" where
  "MarkAsCompleted now h = mark_finished now ImportCompleted h"

definition import_MarkAsFailed :: "time \<Rightarrow> string \<Rightarrow> import_history \<Rightarrow> import_history" where
  "import_MarkAsFailed now e h = (mark_finished now ImportFailed h)\<lparr>ih_error := Some e\<rparr>"

definition MarkAsPartial :: "time \<Rightarrow> import_history \<Rightarrow> import_history" where
  "MarkAsPartial now h = mark_finished now ImportPartial h"

definition AddSuccessfulImport :: "nat \<Rightarrow> import_history \<Rightarrow> import_history" where
  "AddSuccessfulImport i h =
     h\<lparr>ih_successful := ih_successful h + 1, ih_total := ih_total h + 1, ih_monitors := ih_monitors h @ [i]\<rparr>"

definition AddFailedImport :: "import_history \<Rightarrow> import_history" where
  "AddFailedImport h = h\<lparr>ih_failed := ih_failed h + 1, ih_total := ih_total h + 1\<rparr>"

definition AddSkippedImport :: "import_history \<Rightarrow> import_history" where
  "AddSkippedImport h = h\<lparr>ih_skipped := ih_skipped h + 1, ih_total := ih_total h + 1\<rparr>"

definition AddValidationError :: "nat \<Rightarrow> string \<Rightarrow> string \<Rightarrow> string \<Rightarrow> import_history \<Rightarrow> import_history" where
  "AddValidationError row field message v h =
     AddFailedImport (h\<lparr>ih_errors := ih_errors h @ [\<lparr>ve_row = row, ve_field = field, ve_message = message, ve_value = v\<rparr>]\<rparr>)"

definition GetSuccessRate :: "import_history \<Rightarrow> real" where
  "GetSuccessRate h =
     (if ih_total h = 0 then 0 else fl64 (fl64 (fl64 (ih_successful h) / fl64 (ih_total h)) * 100))"

definition import_HasErrors :: "import_history \<Rightarrow> bool" where
  "import_HasErrors h \<longleftrightarrow> 0 < length (ih_errors h)"

definition IsFinished :: "import_history \<Rightarrow> bool" where
  "IsFinished h \<longleftrightarrow> ih_status h \<in> {ImportCompleted, ImportFailed, ImportPartial}"

record import_result =
  ir_id :: nat
  ir_status :: import_status
  ir_total :: int
  ir_successful :: int
  ir_failed :: int
  ir_skipped :: int
  ir_errors :: "validation_error list"

definition NewImportResult :: "import_history \<Rightarrow> import_result" where
  "NewImportResult h =
     \<lparr>ir_id = ih_id h, ir_status = ih_status h, ir_total = ih_total h, ir_successful = ih_successful h,
      ir_failed = ih_failed h, ir_skipped = ih_skipped h, ir_errors = ih_errors h\<rparr>"

section \<open>CSV\<close>

text \<open>\<open>fmt.Sscanf\<close> with \<open>%d\<close>: what follows the digits is not read.\<close>

definition scan_int :: "string \<Rightarrow> int option" where
  "scan_int s =
     (let t = dropWhile (\<lambda>c. c = CHR '' '' \<or> c = CHR 0x09 \<or> c = CHR 0x0D) s;
          neg = (t \<noteq> [] \<and> hd t = CHR ''-'');
          u = (if t \<noteq> [] \<and> (hd t = CHR ''-'' \<or> hd t = CHR ''+'') then tl t else t);
          ds = takeWhile is_digit u;
          n = (if neg then - number_of ds else number_of ds)
      in if ds = [] \<or> n < - (2 ^ 63) \<or> 2 ^ 63 \<le> n then None else Some n)"

definition interval_unit :: "string \<Rightarrow> int \<times> string" where
  "interval_unit s =
     (if suffix ''s'' s then (1, butlast s)
      else if suffix ''m'' s then (60, butlast s)
      else if suffix ''h'' s then (3600, butlast s)
      else (1, s))"

definition parseInterval :: "string \<Rightarrow> int option" where
  "parseInterval s =
     (let (k, t) = interval_unit (ascii_lower (TrimSpace s))
      in map_option (\<lambda>n. sint (of_int (n * k) :: 64 word)) (scan_int t))"

text \<open>The names of the columns are trimmed and in lower case; of two columns of one name the last counts.\<close>

definition column_map :: "string list \<Rightarrow> string list \<Rightarrow> string \<Rightarrow> string option" where
  "column_map headers rec = map_of (rev (zip (map (\<lambda>h. ascii_lower (TrimSpace h)) headers) (map TrimSpace rec)))"

fun getColumn :: "(string \<Rightarrow> string option) \<Rightarrow> string list \<Rightarrow> string option" where
  "getColumn m [] = None"
| "getColumn m (n # ns) = (case m (ascii_lower n) of Some v \<Rightarrow> Some v | None \<Rightarrow> getColumn m ns)"

definition filled :: "string option \<Rightarrow> string option" where
  "filled v = (case v of None \<Rightarrow> None | Some t \<Rightarrow> if t = [] then None else Some t)"

definition parseRecord :: "nat \<Rightarrow> string list \<Rightarrow> string list \<Rightarrow> string + import_data" where
  "parseRecord row headers rec =
     (let col = (\<lambda>ns. filled (getColumn (column_map headers rec) ns))
      in case col [''name'', ''monitor_name''] of
           None \<Rightarrow> Inl ''missing required field: name''
         | Some name \<Rightarrow>
         (case col [''url'', ''monitor_url''] of
            None \<Rightarrow> Inl ''missing required field: url''
          | Some url \<Rightarrow>
              (let m = \<lparr>md_name = name, md_url = url,
                   md_method = (case col [''method'', ''http_method''] of None \<Rightarrow> ''GET'' | Some t \<Rightarrow> t),
                   md_headers = [], md_body = None,
                   md_interval = Option.bind (col [''interval'', ''check_interval'']) parseInterval,
                   md_timeout = Option.bind (col [''timeout'', ''request_timeout'']) parseInterval,
                   md_status = None, md_pattern = col [''expected_status'', ''status_code''],
                   md_enabled = Some (case col [''enabled'', ''is_enabled''] of
                       None \<Rightarrow> True | Some t \<Rightarrow> ascii_lower t = ''true'' \<or> t = ''1''),
                   md_tags = [''csv'', ''csv_row:'' @ show_nat row]\<rparr>
               in case md_Validate m of Some e \<Rightarrow> Inl e | None \<Rightarrow> Inr m)))"

definition csv_Validate :: "string + string list list \<Rightarrow> string option" where
  "csv_Validate recs =
     (case recs of
        Inl e \<Rightarrow> Some (''failed to read CSV: '' @ e)
      | Inr [] \<Rightarrow> Some ''CSV file is empty''
      | Inr (h # _) \<Rightarrow>
          if length h < 2 then Some ''CSV must have at least 2 columns (name, url)''
          else if list_ex (\<lambda>c. ascii_lower (TrimSpace c) \<in> {''name'', ''monitor_name''}) h
              \<and> list_ex (\<lambda>c. ascii_lower (TrimSpace c) \<in> {''url'', ''monitor_url''}) h
          then None
          else Some (''CSV must have '' @ [CHR 0x27] @ ''name'' @ [CHR 0x27] @ '' and '' @ [CHR 0x27] @ ''url'' @ [CHR 0x27] @ '' columns''))"

fun csv_rows :: "string list \<Rightarrow> nat \<Rightarrow> string list list \<Rightarrow> string + import_data list" where
  "csv_rows headers i [] = Inr []"
| "csv_rows headers i (r # rs) =
     (if r = [] then csv_rows headers (Suc i) rs
      else case parseRecord i headers r of
        Inl e \<Rightarrow> Inl (''row '' @ show_nat i @ '': '' @ e)
      | Inr m \<Rightarrow> map_sum id ((#) m) (csv_rows headers (Suc i) rs))"

definition csv_Parse :: "string + string list list \<Rightarrow> string + import_data list" where
  "csv_Parse recs =
     (case recs of
        Inl e \<Rightarrow> Inl (''failed to read CSV: '' @ e)
      | Inr [] \<Rightarrow> Inl ''CSV file is empty''
      | Inr (h # rs) \<Rightarrow> csv_rows h 1 rs)"

section \<open>JSON\<close>

fun first_invalid :: "nat \<Rightarrow> import_data list \<Rightarrow> string option" where
  "first_invalid i [] = None"
| "first_invalid i (m # ms) =
     (case md_Validate m of Some e \<Rightarrow> Some (''monitor '' @ show_nat i @ '': '' @ e) | None \<Rightarrow> first_invalid (Suc i) ms)"

definition json_Validate :: "string + import_data list \<Rightarrow> string option" where
  "json_Validate d =
     (case d of
        Inl e \<Rightarrow> Some e
      | Inr ms \<Rightarrow> if ms = [] then Some ''no monitors found in JSON'' else first_invalid 0 ms)"

definition json_Parse :: "string + import_data list \<Rightarrow> string + import_data list" where
  "json_Parse d = map_sum id (filter (\<lambda>m. md_Validate m = None)) d"

section \<open>Pingdom\<close>

record pingdom_check =
  pg_name :: string
  pg_type :: string
  pg_host :: string
  pg_interval :: int
  pg_timeout :: int
  pg_status :: string
  pg_tags :: "string list"
  pg_headers :: "string \<Rightarrow> string option"
  pg_threshold :: "int option"

definition convertCheck :: "pingdom_check \<Rightarrow> import_data" where
  "convertCheck c =
     \<lparr>md_name = pg_name c, md_url = pg_host c, md_method = ''GET'', md_headers = [], md_body = None,
      md_interval = Some (pg_interval c), md_timeout = None, md_status = None, md_pattern = None,
      md_enabled = Some (pg_status c = ''up'' \<or> pg_status c = ''paused''),
      md_tags = [''pingdom'']
        @ (case (pg_type c = ''http'', pg_headers c ''User-Agent'') of
             (True, Some v) \<Rightarrow> [''ua:'' @ v] | _ \<Rightarrow> [])
        @ pg_tags c
        @ (case pg_threshold c of None \<Rightarrow> [] | Some n \<Rightarrow> [''alert_threshold:'' @ show_int n])\<rparr>"

definition pingdom_Validate :: "string + pingdom_check list \<Rightarrow> string option" where
  "pingdom_Validate d =
     (case d of
        Inl e \<Rightarrow> Some (''invalid Pingdom JSON format: '' @ e)
      | Inr cs \<Rightarrow> if cs = [] then Some ''no checks found in export'' else None)"

definition pingdom_Parse :: "string + pingdom_check list \<Rightarrow> string + import_data list" where
  "pingdom_Parse d = map_sum (\<lambda>e. ''failed to parse Pingdom JSON: '' @ e) (map convertCheck) d"

section \<open>UptimeRobot\<close>

record robot_monitor =
  ur_name :: string
  ur_url :: string
  ur_type :: int
  ur_interval :: int
  ur_timeout :: int
  ur_status :: int
  ur_groups :: "int list"
  ur_tags :: "string list"

text \<open>\<open>%v\<close> of a list of integers.\<close>

definition show_ints :: "int list \<Rightarrow> string" where
  "show_ints ns = ''['' @ concat (map (\<lambda>(i, n). (if i = 0 then [] else '' '') @ show_int n) (enumerate 0 ns)) @ '']''"

definition convertMonitor :: "robot_monitor \<Rightarrow> import_data" where
  "convertMonitor u =
     \<lparr>md_name = ur_name u, md_url = ur_url u, md_method = ''GET'', md_headers = [], md_body = None,
      md_interval = Some (ur_interval u), md_timeout = None, md_status = None, md_pattern = None,
      md_enabled = Some (ur_status u = 1 \<or> ur_status u = 2),
      md_tags = ur_tags u @ (if 0 < length (ur_groups u) then [''contact_groups:'' @ show_ints (ur_groups u)] else [])\<rparr>"

definition robot_Validate :: "string + robot_monitor list \<Rightarrow> string option" where
  "robot_Validate d =
     (case d of
        Inl e \<Rightarrow> Some (''invalid UptimeRobot JSON format: '' @ e)
      | Inr ms \<Rightarrow> if ms = [] then Some ''no monitors found in export'' else None)"

definition robot_Parse :: "string + robot_monitor list \<Rightarrow> string + import_data list" where
  "robot_Parse d = map_sum (\<lambda>e. ''failed to parse UptimeRobot JSON: '' @ e) (map convertMonitor) d"

end
