(* ===== verification/ImportService.thy ===== *)
theory ImportService
  imports ImportModel PageToken
begin

text \<open>
  Importing monitors: the table \<open>import_history\<close> with the constraints of its migration, the client of the
  monitor service (\<open>internal/client/monitor_client.go\<close>), \<open>internal/service/import/import_service.go\<close> and the
  calls of \<open>internal/handler/import_handler.go\<close>. The monitor service is an argument: \<open>ie_list\<close> gives the
  names and identifiers of a user's monitors, \<open>ie_make\<close> answers a request to create one, and \<open>'s\<close> is its
  state. JSON columns hold their values.
\<close>

section \<open>State\<close>

datatype import_call = HistInsert | HistGet | HistList | HistUpdate

record create_monitor_request =
  cq_name :: string
  cq_url :: string
  cq_interval :: int
  cq_timeout :: int
  cq_status :: string
  cq_pattern :: string
  cq_ssl :: bool
  cq_headers :: "(string \<times> string) list"

record 's import_env =
  ie_down :: "import_call \<Rightarrow> bool"
  ie_start :: time
  ie_end :: time
  ie_csv :: "string \<Rightarrow> string + string list list"
  ie_json :: "string \<Rightarrow> string + import_data list"
  ie_pingdom :: "string \<Rightarrow> string + pingdom_check list"
  ie_robot :: "string \<Rightarrow> string + robot_monitor list"
  ie_uuid :: "string \<Rightarrow> string + nat"
  ie_uuid_text :: "nat \<Rightarrow> string"
  ie_list :: "nat \<Rightarrow> 's \<Rightarrow> string + (string \<times> string) list"
  ie_make :: "create_monitor_request \<Rightarrow> 's \<Rightarrow> (string + string) \<times> 's"

record 's import_state =
  is_history :: "import_history list"
  is_monitors :: 's

datatype import_error = ImportDbFailed | UnsupportedSource | InvalidImport string | ImportParseFailed string | ImportUnauthorized

section \<open>The table\<close>

definition history_checks :: "import_history \<Rightarrow> bool" where
  "history_checks h \<longleftrightarrow> ih_source h \<in> set import_sources
     \<and> (case ih_file h of None \<Rightarrow> True | Some f \<Rightarrow> char_count f \<le> 255 \<and> CHR 0x00 \<notin> set f)
     \<and> (case ih_size h of None \<Rightarrow> True | Some n \<Rightarrow> n < 2 ^ 31)"

text \<open>An integer column and the text of the error, as an update writes them.\<close>

definition history_update_ok :: "import_history \<Rightarrow> bool" where
  "history_update_ok h \<longleftrightarrow> ih_total h < 2 ^ 31 \<and> ih_successful h < 2 ^ 31 \<and> ih_failed h < 2 ^ 31 \<and> ih_skipped h < 2 ^ 31
     \<and> (case ih_duration h of None \<Rightarrow> True | Some n \<Rightarrow> - (2 ^ 31) \<le> n \<and> n < 2 ^ 31)
     \<and> (case ih_error h of None \<Rightarrow> True | Some e \<Rightarrow> CHR 0x00 \<notin> set e)"

definition hist_Create :: "(import_call \<Rightarrow> bool) \<Rightarrow> import_history \<Rightarrow> import_history list \<Rightarrow> import_history list option" where
  "hist_Create down h tbl =
     (if down HistInsert \<or> \<not> history_checks h \<or> list_ex (\<lambda>r. ih_id r = ih_id h) tbl then None else Some (tbl @ [h]))"

definition hist_GetByID :: "(import_call \<Rightarrow> bool) \<Rightarrow> nat \<Rightarrow> import_history list \<Rightarrow> import_history option" where
  "hist_GetByID down i tbl = (if down HistGet then None else List.find (\<lambda>r. ih_id r = i) tbl)"

text \<open>PostgreSQL refuses a negative \<open>LIMIT\<close> or \<open>OFFSET\<close>.\<close>

definition hist_ListByUserID :: "(import_call \<Rightarrow> bool) \<Rightarrow> nat \<Rightarrow> int \<Rightarrow> int \<Rightarrow> import_history list \<Rightarrow> import_history list option" where
  "hist_ListByUserID down user limit off tbl =
     (if down HistList \<or> limit < 0 \<or> off < 0 then None
      else Some (take (nat limit) (drop (nat off) (newest_first ih_started (filter (\<lambda>r. ih_user r = user) tbl)))))"

definition set_history_columns :: "import_history \<Rightarrow> import_history \<Rightarrow> import_history" where
  "set_history_columns h r =
     r\<lparr>ih_status := ih_status h, ih_total := ih_total h, ih_successful := ih_successful h, ih_failed := ih_failed h,
       ih_skipped := ih_skipped h, ih_monitors := ih_monitors h, ih_errors := ih_errors h,
       ih_completed := ih_completed h, ih_duration := ih_duration h, ih_error := ih_error h\<rparr>"

definition hist_Update :: "(import_call \<Rightarrow> bool) \<Rightarrow> import_history \<Rightarrow> import_history list \<Rightarrow> import_history list option" where
  "hist_Update down h tbl =
     (if down HistUpdate \<or> (list_ex (\<lambda>r. ih_id r = ih_id h) tbl \<and> \<not> history_update_ok h) then None
      else Some (upd_where (\<lambda>r. ih_id r = ih_id h) (set_history_columns h) tbl))"

definition hist_UpdateStatus :: "(import_call \<Rightarrow> bool) \<Rightarrow> nat \<Rightarrow> import_status \<Rightarrow> import_history list \<Rightarrow> import_history list option" where
  "hist_UpdateStatus down i s tbl =
     (if down HistUpdate then None else Some (upd_where (\<lambda>r. ih_id r = i) (\<lambda>r. r\<lparr>ih_status := s\<rparr>) tbl))"

definition hist_Delete :: "(import_call \<Rightarrow> bool) \<Rightarrow> nat \<Rightarrow> import_history list \<Rightarrow> import_history list option" where
  "hist_Delete down i tbl = (if down HistUpdate then None else Some (del_where (\<lambda>r. ih_id r = i) tbl))"

section \<open>The client of the monitor service\<close>

definition getOrDefault :: "'a option \<Rightarrow> 'a \<Rightarrow> 'a" where
  "getOrDefault v d = (case v of None \<Rightarrow> d | Some x \<Rightarrow> x)"

definition getDurationOrDefault :: "int option \<Rightarrow> int \<Rightarrow> duration" where
  "getDurationOrDefault v d = sint (of_int (getOrDefault v d * second) :: 64 word)"

definition monitor_request :: "import_data \<Rightarrow> create_monitor_request" where
  "monitor_request m =
     \<lparr>cq_name = md_name m, cq_url = md_url m, cq_interval = sint (of_int (getOrDefault (md_interval m) 60) :: 32 word),
      cq_timeout = getDurationOrDefault (md_timeout m) 30,
      cq_status = (case md_status m of None \<Rightarrow> ''200'' | Some n \<Rightarrow> show_int n),
      cq_pattern = getOrDefault (md_pattern m) [], cq_ssl = True, cq_headers = md_headers m\<rparr>"

text \<open>The user is not part of the request: the monitor service takes the caller of the connection.\<close>

definition client_CreateMonitor :: "'s import_env \<Rightarrow> nat \<Rightarrow> import_data \<Rightarrow> 's \<Rightarrow> (string + nat) \<times> 's" where
  "client_CreateMonitor env user m s =
     (case ie_make env (monitor_request m) s of
        (Inl e, s') \<Rightarrow> (Inl e, s')
      | (Inr i, s') \<Rightarrow> (ie_uuid env i, s'))"

definition GetMonitorByName :: "'s import_env \<Rightarrow> nat \<Rightarrow> string \<Rightarrow> 's \<Rightarrow> string + nat option" where
  "GetMonitorByName env user name s =
     (case ie_list env user s of
        Inl e \<Rightarrow> Inl e
      | Inr ms \<Rightarrow>
          (case List.find (\<lambda>(n, i). n = name) ms of
             None \<Rightarrow> Inr None
           | Some (n, i) \<Rightarrow> map_sum id Some (ie_uuid env i)))"

section \<open>Importing\<close>

definition apostrophes :: "string \<Rightarrow> string" where
  "apostrophes s = [CHR 0x27] @ s @ [CHR 0x27]"

definition importMonitor :: "'s import_env \<Rightarrow> nat \<Rightarrow> bool \<Rightarrow> import_data \<Rightarrow> import_history \<Rightarrow> 's \<Rightarrow>
    string option \<times> import_history \<times> 's" where
  "importMonitor env user overwrite m h s =
     (case GetMonitorByName env user (md_name m) s of
        Inr (Some i) \<Rightarrow>
          (Some (''monitor '' @ apostrophes (md_name m) @ '' already exists (ID: '' @ ie_uuid_text env i @ '')''
             @ (if overwrite then ''. Update functionality requires UpdateMonitor API in Monitor Service'' else [])),
           AddSkippedImport h, s)
      | _ \<Rightarrow>
          (case client_CreateMonitor env user m s of
             (Inl e, s') \<Rightarrow> (Some (''failed to create monitor: '' @ e), h, s')
           | (Inr i, s') \<Rightarrow> (None, AddSuccessfulImport i h, s')))"

fun import_loop :: "'s import_env \<Rightarrow> nat \<Rightarrow> bool \<Rightarrow> nat \<Rightarrow> import_data list \<Rightarrow> import_history \<Rightarrow> 's \<Rightarrow> import_history \<times> 's" where
  "import_loop env user overwrite i [] h s = (h, s)"
| "import_loop env user overwrite i (m # ms) h s =
     (case importMonitor env user overwrite m h s of
        (None, h', s') \<Rightarrow> import_loop env user overwrite (Suc i) ms h' s'
      | (Some e, h', s') \<Rightarrow>
          import_loop env user overwrite (Suc i) ms (AddValidationError i ''import'' e (md_name m) h') s')"

text \<open>The two methods of the parser of a source.\<close>

definition parser_Validate :: "'s import_env \<Rightarrow> string \<Rightarrow> string \<Rightarrow> string option option" where
  "parser_Validate env source data =
     map_of [(''uptimerobot'', robot_Validate (ie_robot env data)), (''pingdom'', pingdom_Validate (ie_pingdom env data)),
             (''csv'', csv_Validate (ie_csv env data)), (''json'', json_Validate (ie_json env data))] source"

definition parser_Parse :: "'s import_env \<Rightarrow> string \<Rightarrow> string \<Rightarrow> string + import_data list" where
  "parser_Parse env source data =
     (if source = ''uptimerobot'' then robot_Parse (ie_robot env data)
      else if source = ''pingdom'' then pingdom_Parse (ie_pingdom env data)
      else if source = ''csv'' then csv_Parse (ie_csv env data)
      else json_Parse (ie_json env data))"

text \<open>An import that ends early is stored as failed; whether that worked is only traced.\<close>

definition failed_import :: "'s import_env \<Rightarrow> string \<Rightarrow> import_error \<Rightarrow> import_history \<Rightarrow> 's import_state \<Rightarrow>
    (import_history option \<times> import_error option) \<times> 's import_state" where
  "failed_import env e err h st =
     (let h' = import_MarkAsFailed (ie_end env) e h
      in ((Some h', Some err),
          case hist_Update (ie_down env) h' (is_history st) of None \<Rightarrow> st | Some tbl \<Rightarrow> st\<lparr>is_history := tbl\<rparr>))"

definition finish_import :: "time \<Rightarrow> import_history \<Rightarrow> import_history" where
  "finish_import now h =
     (if import_HasErrors h
      then if 0 < ih_successful h then MarkAsPartial now h
           else import_MarkAsFailed now ''all monitors failed to import'' h
      else MarkAsCompleted now h)"

definition ImportMonitors :: "'s import_env \<Rightarrow> nat \<Rightarrow> nat \<Rightarrow> string \<Rightarrow> string \<Rightarrow> string \<Rightarrow> bool \<Rightarrow> 's import_state \<Rightarrow>
    (import_history option \<times> import_error option) \<times> 's import_state" where
  "ImportMonitors env new user source data file overwrite st =
     (let h = NewImportHistory new (ie_start env) user source file (int (length data)) overwrite
      in case hist_Create (ie_down env) h (is_history st) of
           None \<Rightarrow> ((None, Some ImportDbFailed), st)
         | Some tbl \<Rightarrow>
         (let st = st\<lparr>is_history := tbl\<rparr>
          in case parser_Validate env source data of
               None \<Rightarrow> failed_import env (''unsupported import source: '' @ source) UnsupportedSource h st
             | Some (Some e) \<Rightarrow> failed_import env (''validation failed: '' @ e) (InvalidImport e) h st
             | Some None \<Rightarrow>
             (case parser_Parse env source data of
                Inl e \<Rightarrow> failed_import env (''parsing failed: '' @ e) (ImportParseFailed e) h st
              | Inr ms \<Rightarrow>
              (let h = MarkAsRunning h
               in case hist_Update (ie_down env) h (is_history st) of
                    None \<Rightarrow> ((None, Some ImportDbFailed), st)
                  | Some tbl \<Rightarrow>
                  (let (h, s) = import_loop env user overwrite 0 ms h (is_monitors st);
                       h = finish_import (ie_end env) h
                   in case hist_Update (ie_down env) h tbl of
                        None \<Rightarrow> ((None, Some ImportDbFailed), st\<lparr>is_history := tbl, is_monitors := s\<rparr>)
                      | Some tbl' \<Rightarrow> ((Some h, None), st\<lparr>is_history := tbl', is_monitors := s\<rparr>))))))"

definition GetImportHistory :: "'s import_env \<Rightarrow> nat \<Rightarrow> nat \<Rightarrow> 's import_state \<Rightarrow> import_error + import_history" where
  "GetImportHistory env i user st =
     (case hist_GetByID (ie_down env) i (is_history st) of
        None \<Rightarrow> Inl ImportDbFailed
      | Some h \<Rightarrow> if ih_user h \<noteq> user then Inl ImportUnauthorized else Inr h)"

definition ListImportHistory :: "'s import_env \<Rightarrow> nat \<Rightarrow> string option \<Rightarrow> int \<Rightarrow> int \<Rightarrow> 's import_state \<Rightarrow>
    import_error + import_history list" where
  "ListImportHistory env user source limit off st =
     (case hist_ListByUserID (ie_down env) user limit off (is_history st) of
        None \<Rightarrow> Inl ImportDbFailed
      | Some hs \<Rightarrow> Inr (case source of None \<Rightarrow> hs | Some s \<Rightarrow> filter (\<lambda>h. ih_source h = s) hs))"

section \<open>The handler\<close>

text \<open>The user, a UUID, is that of the request, or the caller when it names none.\<close>

definition resolveUserID :: "'s import_env \<Rightarrow> string option \<Rightarrow> string \<Rightarrow> nat option" where
  "resolveUserID env caller raw =
     (case (if raw = [] then caller else Some raw) of
        None \<Rightarrow> None
      | Some t \<Rightarrow> (case ie_uuid env t of Inl _ \<Rightarrow> None | Inr u \<Rightarrow> Some u))"

datatype import_reply =
    BadImportUser | BadImportSource | BadImportID | ImportReplyError import_error
  | ImportReply import_history | ImportListReply "import_history list" int "string"

definition handler_ImportMonitors :: "'s import_env \<Rightarrow> nat \<Rightarrow> string option \<Rightarrow> string \<Rightarrow> string \<Rightarrow> string \<Rightarrow> string \<Rightarrow> bool \<Rightarrow>
    's import_state \<Rightarrow> import_reply \<times> 's import_state" where
  "handler_ImportMonitors env new caller raw source data file overwrite st =
     (case resolveUserID env caller raw of
        None \<Rightarrow> (BadImportUser, st)
      | Some user \<Rightarrow>
          (case ValidateImportSource source of
             None \<Rightarrow> (BadImportSource, st)
           | Some src \<Rightarrow>
               (case ImportMonitors env new user src data file overwrite st of
                  ((h, Some e), st') \<Rightarrow> (ImportReplyError e, st')
                | ((Some h, None), st') \<Rightarrow> (ImportReply h, st')
                | ((None, None), st') \<Rightarrow> (ImportReplyError ImportDbFailed, st'))))"

definition handler_GetImportHistory :: "'s import_env \<Rightarrow> string option \<Rightarrow> string \<Rightarrow> string \<Rightarrow> 's import_state \<Rightarrow> import_reply" where
  "handler_GetImportHistory env caller raw i st =
     (case ie_uuid env i of
        Inl _ \<Rightarrow> BadImportID
      | Inr n \<Rightarrow>
          (case resolveUserID env caller raw of
             None \<Rightarrow> BadImportUser
           | Some user \<Rightarrow>
               (case GetImportHistory env n user st of Inl e \<Rightarrow> ImportReplyError e | Inr h \<Rightarrow> ImportReply h)))"

text \<open>The filter of the source is applied to the page that the table gave.\<close>

definition handler_ListImportHistory :: "'s import_env \<Rightarrow> string option \<Rightarrow> string \<Rightarrow> string \<Rightarrow> int \<Rightarrow> string \<Rightarrow>
    's import_state \<Rightarrow> import_reply" where
  "handler_ListImportHistory env caller raw source page_size token st =
     (case resolveUserID env caller raw of
        None \<Rightarrow> BadImportUser
      | Some user \<Rightarrow>
          if source \<noteq> [] \<and> ValidateImportSource source = None then BadImportSource
          else (let size = (if page_size \<le> 0 then 50 else page_size);
                    off = page_offset token
                in case ListImportHistory env user (if source = [] then None else Some source) size off st of
                     Inl e \<Rightarrow> ImportReplyError e
                   | Inr hs \<Rightarrow>
                       ImportListReply hs (int (length hs))
                         (if int (length hs) = size then page_token (off + size) else [])))"

end
