(* ===== verification/ImportOutcomes.thy ===== *)
theory ImportOutcomes
  imports ImportService
begin

text \<open>
  What an import does: how its counts relate to the monitors of the file, which files import nothing, what a
  second import of a file does, and how the intervals of a CSV file are read.
\<close>

section \<open>An example\<close>

text \<open>A monitor service that keeps the names; the identifier of a monitor is the text of its place.\<close>

definition demo_importing :: "string list import_env" where
  "demo_importing =
     \<lparr>ie_down = (\<lambda>_. False), ie_start = 0, ie_end = 5000000,
      ie_csv = (\<lambda>d. if d = ''two'' then Inr [[''name'', ''url''], [''a'', ''http://a''], [''b'', ''http://b'']]
         else Inr [[''name'', ''url''], [''a'', ''http://a''], [''c'', []]]),
      ie_json = (\<lambda>_. Inl ''no''), ie_pingdom = (\<lambda>_. Inl ''no''), ie_robot = (\<lambda>_. Inl ''no''),
      ie_uuid = (\<lambda>t. Inr (nat (number_of t))), ie_uuid_text = show_nat,
      ie_list = (\<lambda>_ s. Inr (zip s (map show_nat [0..<length s]))),
      ie_make = (\<lambda>q s. (Inr (show_nat (length s)), s @ [cq_name q]))\<rparr>"

definition known_a :: "string list import_state" where
  "known_a = \<lparr>is_history = [], is_monitors = [''a'']\<rparr>"

definition known_both :: "string list import_state" where
  "known_both = \<lparr>is_history = [], is_monitors = [''a'', ''b'']\<rparr>"

definition demo_run :: "string \<Rightarrow> string list import_state \<Rightarrow>
    (import_history option \<times> import_error option) \<times> string list import_state" where
  "demo_run data st = ImportMonitors demo_importing 1 7 ''csv'' data ''f.csv'' True st"

lemma demo_two: "parser_Parse demo_importing ''csv'' ''two'' = Inr
  [\<lparr>md_name = ''a'', md_url = ''http://a'', md_method = ''GET'', md_headers = [], md_body = None, md_interval = None,
    md_timeout = None, md_status = None, md_pattern = None, md_enabled = Some True, md_tags = [''csv'', ''csv_row:1'']\<rparr>,
   \<lparr>md_name = ''b'', md_url = ''http://b'', md_method = ''GET'', md_headers = [], md_body = None, md_interval = None,
    md_timeout = None, md_status = None, md_pattern = None, md_enabled = Some True, md_tags = [''csv'', ''csv_row:2'']\<rparr>]"
  by code_simp

lemma demo_parsed:
  "parser_Validate demo_importing ''csv'' ''two'' = Some None" "parser_Validate demo_importing ''csv'' ''bad'' = Some None"
  "parser_Parse demo_importing ''csv'' ''bad'' = Inl ''row 2: missing required field: url''"
  by code_simp+

lemma demo_fields:
  "ie_down demo_importing = (\<lambda>_. False)" "ie_start demo_importing = 0" "ie_end demo_importing = 5000000"
  "ie_uuid demo_importing t = Inr (nat (number_of t))"
  "ie_list demo_importing u s = Inr (zip s (map show_nat [0..<length s]))"
  "ie_make demo_importing q s = (Inr (show_nat (length s)), s @ [cq_name q])"
  by (simp_all add: demo_importing_def)

lemmas demo_simps = demo_run_def demo_two demo_parsed demo_fields ImportMonitors_def hist_Create_def history_checks_def
  import_sources_def NewImportHistory_def known_a_def known_both_def char_count_def hist_Update_def history_update_ok_def
  MarkAsRunning_def importMonitor_def GetMonitorByName_def client_CreateMonitor_def finish_import_def failed_import_def
  mark_finished_def MarkAsPartial_def MarkAsCompleted_def import_MarkAsFailed_def AddSkippedImport_def
  AddSuccessfulImport_def AddValidationError_def AddFailedImport_def import_HasErrors_def upd_where_def
  set_history_columns_def monitor_request_def Let_def

lemma demo_runs:
  "\<not> Option.is_none (fst (fst (demo_run ''two'' known_a))) \<and> Option.is_none (snd (fst (demo_run ''two'' known_a)))"
  "\<not> Option.is_none (snd (fst (demo_run ''bad'' known_a)))"
  "\<not> Option.is_none (fst (fst (demo_run ''two'' known_both))) \<and> Option.is_none (snd (fst (demo_run ''two'' known_both)))"
  by (simp_all add: demo_simps)

lemma run_parts:
  "\<not> Option.is_none (fst (fst r)) \<and> Option.is_none (snd (fst r)) \<Longrightarrow> r = ((Some (the (fst (fst r))), None), snd r)"
  "\<not> Option.is_none (snd (fst r)) \<Longrightarrow> r = ((fst (fst r), Some (the (snd (fst r)))), snd r)"
  by (cases r; auto simp: Option.is_none_def)+

section \<open>Counts\<close>

text \<open>What one step of the loop adds to the history, by its outcome.\<close>

lemma importMonitor_cases:
  assumes "importMonitor env user overwrite m h s = (e, h', s')"
  obtains (skipped) x where "e = Some x" "h' = AddSkippedImport h" "s' = s"
  | (failed) x where "e = Some x" "h' = h"
  | (created) i where "e = None" "h' = AddSuccessfulImport i h"
  using assms by (auto simp: importMonitor_def split: sum.splits option.splits prod.splits)

definition counted :: "import_history \<Rightarrow> import_history \<Rightarrow> nat \<Rightarrow> bool" where
  "counted h h' n \<longleftrightarrow>
     ih_successful h' + ih_failed h' = ih_successful h + ih_failed h + int n
     \<and> ih_total h' - ih_skipped h' = ih_total h - ih_skipped h + int n
     \<and> ih_skipped h \<le> ih_skipped h' \<and> ih_skipped h' - ih_skipped h \<le> ih_failed h' - ih_failed h
     \<and> ih_failed h' - ih_failed h = int (length (ih_errors h')) - int (length (ih_errors h))
     \<and> ih_successful h' - ih_successful h = int (length (ih_monitors h')) - int (length (ih_monitors h))
     \<and> ih_id h' = ih_id h \<and> ih_user h' = ih_user h"

lemmas history_steps = AddSkippedImport_def AddSuccessfulImport_def AddValidationError_def AddFailedImport_def

lemma import_loop_counts:
  "import_loop env user overwrite i ms h s = (h', s') \<Longrightarrow> counted h h' (length ms)"
proof (induction ms arbitrary: i h s)
  case Nil
  then show ?case by (simp add: counted_def)
next
  case (Cons m ms)
  obtain e h1 s1 where step: "importMonitor env user overwrite m h s = (e, h1, s1)" by (cases "importMonitor env user overwrite m h s")
  from step show ?case
  proof (cases rule: importMonitor_cases)
    case (skipped x)
    then have "counted (AddValidationError i ''import'' x (md_name m) h1) h' (length ms)"
      using Cons step by auto
    then show ?thesis using skipped by (simp add: counted_def history_steps)
  next
    case (failed x)
    then have "counted (AddValidationError i ''import'' x (md_name m) h1) h' (length ms)"
      using Cons step by auto
    then show ?thesis using failed by (simp add: counted_def history_steps)
  next
    case (created j)
    then have "counted h1 h' (length ms)" using Cons step by auto
    then show ?thesis using created by (simp add: counted_def history_steps)
  qed
qed

lemma finish_fields:
  "ih_total (finish_import now h) = ih_total h" "ih_successful (finish_import now h) = ih_successful h"
  "ih_failed (finish_import now h) = ih_failed h" "ih_skipped (finish_import now h) = ih_skipped h"
  "ih_monitors (finish_import now h) = ih_monitors h" "ih_errors (finish_import now h) = ih_errors h"
  by (simp_all add: finish_import_def MarkAsPartial_def MarkAsCompleted_def import_MarkAsFailed_def mark_finished_def)

text \<open>An import that is answered with a history and no error.\<close>

lemma imported:
  assumes "ImportMonitors env new user source data file overwrite st = ((Some h, None), st')"
  obtains ms h0 where "parser_Parse env source data = Inr ms"
    "import_loop env user overwrite 0 ms (MarkAsRunning (NewImportHistory new (ie_start env) user source file (int (length data)) overwrite))
       (is_monitors st) = (h0, is_monitors st')"
    "h = finish_import (ie_end env) h0"
  using assms by (auto simp: ImportMonitors_def failed_import_def Let_def split: option.splits sum.splits prod.splits)

definition expected_status :: "import_history \<Rightarrow> import_status" where
  "expected_status h =
     (if ih_failed h = 0 then ImportCompleted else if 0 < ih_successful h then ImportPartial else ImportFailed)"

lemma import_counts:
  assumes "ImportMonitors env new user source data file overwrite st = ((Some h, None), st')"
  obtains ms h0 where "parser_Parse env source data = Inr ms" "h = finish_import (ie_end env) h0"
    "import_loop env user overwrite 0 ms
       (MarkAsRunning (NewImportHistory new (ie_start env) user source file (int (length data)) overwrite)) (is_monitors st) = (h0, is_monitors st')"
    "ih_successful h + ih_failed h = int (length ms)" "ih_total h = int (length ms) + ih_skipped h" "ih_skipped h \<le> ih_failed h"
    "int (length (ih_monitors h)) = ih_successful h" "ih_status h = expected_status h"
proof -
  obtain ms h0 where ms: "parser_Parse env source data = Inr ms" and h: "h = finish_import (ie_end env) h0"
    and loop: "import_loop env user overwrite 0 ms
       (MarkAsRunning (NewImportHistory new (ie_start env) user source file (int (length data)) overwrite)) (is_monitors st) = (h0, is_monitors st')"
    by (rule imported [OF assms])
  have c: "counted (MarkAsRunning (NewImportHistory new (ie_start env) user source file (int (length data)) overwrite)) h0 (length ms)"
    by (rule import_loop_counts [OF loop])
  have "ih_failed h0 = int (length (ih_errors h0))"
    using c by (simp add: counted_def MarkAsRunning_def NewImportHistory_def)
  then have "ih_status h = expected_status h"
    by (auto simp: h finish_import_def expected_status_def import_HasErrors_def MarkAsPartial_def MarkAsCompleted_def
        import_MarkAsFailed_def mark_finished_def)
  then show ?thesis
    using c by (intro that [OF ms h loop]) (auto simp: h finish_fields counted_def MarkAsRunning_def NewImportHistory_def)
qed











section \<open>All or nothing\<close>

text \<open>
  An import that is refused has created no monitor: one file that fails its validation, and one
  row of a CSV file that does not parse, leave all the monitors of the file out.
\<close>

theorem refused_import_creates_nothing:
  assumes "ImportMonitors env new user source data file overwrite st = ((h, Some e), st')"
    and "e \<noteq> ImportDbFailed"
  shows "is_monitors st' = is_monitors st \<and> ih_status (the h) = ImportFailed \<and> ih_total (the h) = 0"
  using assms
  by (auto simp: ImportMonitors_def failed_import_def import_MarkAsFailed_def mark_finished_def NewImportHistory_def Let_def
      split: option.splits sum.splits prod.splits if_splits)

theorem refused_import_creates_nothing_witness:
  "is_monitors (snd (demo_run ''bad'' known_a)) = [''a'']"
proof -
  have "the (snd (fst (demo_run ''bad'' known_a))) \<noteq> ImportDbFailed" by code_simp
  then show ?thesis
    using refused_import_creates_nothing [OF run_parts(2) [OF demo_runs(2), unfolded demo_run_def]]
    by (simp add: demo_run_def known_a_def)
qed

lemma bad_row_spoils_file:
  "list_ex (\<lambda>(i, r). r \<noteq> [] \<and> isl (parseRecord i headers r)) (enumerate k rs) \<Longrightarrow> isl (csv_rows headers k rs)"
  by (induction rs arbitrary: k) (auto simp: isl_map_sum split: sum.splits)

section \<open>Importing again\<close>

lemma known_monitors_skipped:
  "list_all (\<lambda>m. \<exists>i. GetMonitorByName env user (md_name m) s = Inr (Some i)) ms \<Longrightarrow>
   import_loop env user overwrite k ms h s = (h', s') \<Longrightarrow>
   s' = s \<and> ih_successful h' = ih_successful h \<and> ih_skipped h' = ih_skipped h + int (length ms) \<and>
   ih_total h' = ih_total h + 2 * int (length ms)"
proof (induction ms arbitrary: k h)
  case (Cons m ms)
  obtain i where "GetMonitorByName env user (md_name m) s = Inr (Some i)" using Cons.prems(1) by auto
  then obtain x where "importMonitor env user overwrite m h s = (Some x, AddSkippedImport h, s)"
    by (auto simp: importMonitor_def)
  then have "import_loop env user overwrite (Suc k) ms (AddValidationError k ''import'' x (md_name m) (AddSkippedImport h)) s = (h', s')"
    using Cons.prems(2) by simp
  from Cons.IH [OF _ this] show ?case using Cons.prems(1) by (auto simp: history_steps)
qed simp

text \<open>
  Importing a file whose monitors all exist creates and changes nothing, with the wish to overwrite
  too: the import is failed, and its total is twice the number of the monitors.
\<close>

theorem reimport_creates_nothing:
  assumes "ImportMonitors env new user source data file overwrite st = ((Some h, None), st')"
    and "parser_Parse env source data = Inr ms" and "ms \<noteq> []"
    and "list_all (\<lambda>m. \<exists>i. GetMonitorByName env user (md_name m) (is_monitors st) = Inr (Some i)) ms"
  shows "is_monitors st' = is_monitors st \<and> ih_status h = ImportFailed \<and> ih_total h = 2 * int (length ms)"
proof -
  obtain ms' h0 where "parser_Parse env source data = Inr ms'" and h: "h = finish_import (ie_end env) h0"
    and loop: "import_loop env user overwrite 0 ms'
       (MarkAsRunning (NewImportHistory new (ie_start env) user source file (int (length data)) overwrite)) (is_monitors st) = (h0, is_monitors st')"
    and counts: "ih_successful h + ih_failed h = int (length ms')" "ih_status h = expected_status h"
    by (rule import_counts [OF assms(1)])
  then have ms: "ms' = ms" using assms(2) by simp
  show ?thesis
    using known_monitors_skipped [OF assms(4) loop [unfolded ms]] counts assms(3)
    by (auto simp: ms h finish_fields expected_status_def MarkAsRunning_def NewImportHistory_def)
qed

lemma demo_known: "GetMonitorByName demo_importing 7 ''a'' (is_monitors known_both) = Inr (Some 0)"
  "GetMonitorByName demo_importing 7 ''b'' (is_monitors known_both) = Inr (Some 1)"
  by code_simp+

theorem reimport_creates_nothing_witness:
  "is_monitors (snd (demo_run ''two'' known_both)) = [''a'', ''b'']"
  using reimport_creates_nothing [OF run_parts(1) [OF demo_runs(3), unfolded demo_run_def] demo_two]
  by (simp add: demo_known demo_run_def) (simp add: known_both_def)

section \<open>Intervals\<close>

lemma digit_word: "is_digit c \<Longrightarrow> word_char c"
  by (auto simp: is_digit_def word_char_def Let_def)

lemma lower_digits: "list_all is_digit s \<Longrightarrow> ascii_lower s = s"
  by (induction s) (auto simp: ascii_lower_def is_digit_def Let_def)

lemma scan_digits:
  assumes "list_all is_digit ds" "ds \<noteq> []" "0 \<le> number_of ds" "number_of ds < 2 ^ 63"
  shows "scan_int ds = Some (number_of ds)"
proof -
  obtain c cs where ds: "ds = c # cs" using assms(2) by (cases ds) auto
  have "is_digit c" using assms(1) ds by simp
  then have "c \<noteq> CHR '' ''" "c \<noteq> CHR 0x09" "c \<noteq> CHR 0x0D" "c \<noteq> CHR ''-''" "c \<noteq> CHR ''+''"
    by (auto simp: is_digit_def)
  moreover have "takeWhile is_digit ds = ds" using assms(1) by (simp add: list_all_iff)
  ultimately show ?thesis using assms(3,4) ds by (simp add: scan_int_def)
qed

definition interval_units :: "(string \<times> int) list" where
  "interval_units = [([], 1), (''s'', 1), (''m'', 60), (''h'', 3600)]"

text \<open>
  A number followed by no unit, \<open>s\<close>, \<open>m\<close> or \<open>h\<close> is read as that many seconds, minutes or
  hours, as long as the seconds fit an \<open>int\<close>.
\<close>

theorem parseInterval_units:
  assumes "(u, k) \<in> set interval_units" and "int n * k < 2 ^ 63"
  shows "parseInterval (show_nat n @ u) = Some (int n * k)"
proof -
  have digits: "list_all is_digit (show_nat n)" "show_nat n \<noteq> []" "number_of (show_nat n) = int n"
    using show_nat_digits [of n] by (auto simp: list_all_iff)
  have words: "word_char (hd (show_nat n))" "word_char (last (show_nat n))"
    using digits(1,2) digit_word by (auto simp: list_all_iff)
  have unit: "u = [] \<or> u \<noteq> [] \<and> word_char (last u)" "ascii_lower u = u" "1 \<le> k"
    using assms(1) by (auto simp: interval_units_def word_char_def ascii_lower_def)
  have "TrimSpace (show_nat n @ u) = show_nat n @ u"
    using words unit digits(2) by (intro TrimSpace_word) auto
  moreover have "ascii_lower (show_nat n @ u) = show_nat n @ u"
    using lower_digits [OF digits(1)] unit(2) by (simp add: ascii_lower_def)
  moreover have "\<not> suffix ''s'' (show_nat n)" "\<not> suffix ''m'' (show_nat n)" "\<not> suffix ''h'' (show_nat n)"
    using digits(1) by (auto simp: suffix_def is_digit_def)
  then have "interval_unit (show_nat n @ u) = (k, show_nat n)"
    using assms(1) by (auto simp: interval_units_def interval_unit_def suffix_def)
  moreover have "int n < 2 ^ 63" using assms(2) unit(3) by (smt (verit) mult_le_cancel_left1 of_nat_0_le_iff)
  then have "scan_int (show_nat n) = Some (int n)" using scan_digits [OF digits(1,2)] digits(3) by simp
  moreover have "sint (of_int (int n * k) :: 64 word) = int n * k"
    unfolding sint_sbintrunc' using assms(2) order_trans [of "- (2 ^ 63)" 0 "int n * k"] unit(3)
    by (intro signed_take_bit_int_eq_self) simp_all
  ultimately show ?thesis by (simp add: parseInterval_def)
qed

theorem parseInterval_units_witness: "parseInterval ''15m'' = Some 900"
proof -
  have "show_nat 15 @ ''m'' = ''15m''" by code_simp
  then show ?thesis using parseInterval_units [of "''m''" 60 15] by (simp add: interval_units_def)
qed

text \<open>A duration of two parts is read up to its first letter, in the unit of the last.\<close>

lemma compound_intervals: "parseInterval ''1h30m'' = Some 60" "parseInterval ''100ms'' = Some 100"
  by code_simp+

section \<open>What an import leaves out\<close>

text \<open>The method, the body and whether the monitor is enabled are read and not sent.\<close>

lemma request_ignores_method:
  "monitor_request (m\<lparr>md_method := x, md_body := y, md_enabled := z\<rparr>) = monitor_request m"
  by (simp add: monitor_request_def)

text \<open>When the list of the monitors cannot be read every monitor counts as new.\<close>

lemma unknown_is_created:
  assumes "ie_list env user s = Inl e"
  shows "importMonitor env user overwrite m h s =
    (case client_CreateMonitor env user m s of
       (Inl e, s') \<Rightarrow> (Some (''failed to create monitor: '' @ e), h, s')
     | (Inr i, s') \<Rightarrow> (None, AddSuccessfulImport i h, s'))"
  using assms by (simp add: importMonitor_def GetMonitorByName_def)

text \<open>An overwriting import does what any other does; only the text of the error is longer.\<close>

lemma overwrite_creates_nothing:
  "snd (snd (importMonitor env user True m h s)) = snd (snd (importMonitor env user False m h s))"
  by (simp add: importMonitor_def split: sum.splits option.splits prod.splits)

text \<open>The status code that a CSV file expects becomes the pattern of the body.\<close>

lemma csv_status_is_pattern:
  "parseRecord 1 [''name'', ''url'', ''expected_status''] [''a'', ''http://a'', ''204''] = Inr
     \<lparr>md_name = ''a'', md_url = ''http://a'', md_method = ''GET'', md_headers = [], md_body = None, md_interval = None,
      md_timeout = None, md_status = None, md_pattern = Some ''204'', md_enabled = Some True, md_tags = [''csv'', ''csv_row:1'']\<rparr>"
  by code_simp

end
