(* ===== verification/Spec2Isabelle.thy ===== *)
theory Spec2Isabelle
  imports ConnState Reconnect ResultQueue ResultBatcher MaintenanceCache CheckExecutor MonitorClient
    CheckWorker CircuitBreaker SchedulerStore SchedulerService GoFloat MonitorModel MonitorService
    AlertStore AlertTriggering AlertDelivery GoNet PageToken RateLimiter ApiKeyModel BillingLimits ApiKeyService ApiKeyHistory
    WebhookModel WebhookClient WebhookService WebhookDelivery WebhookOrder WebhookOutcomes
    AuthModel AuthStore TeamStore TeamService InviteService AuthService AuthAccounts AuthTrace AuthInvariants
    AuthSafety AuthGuesses AuthOutcomes
    BillingModel BillingStore BillingService BillingTrace BillingInvariants BillingSafety BillingOutcomes
    MaintenanceModel MaintenanceService MaintenanceOutcomes
    AlertWindows AlertWindowOutcomes AlertChannels AlertChannelOutcomes
    GoText TemplateModel TemplateStore TemplateService TemplateVariables TemplateOutcomes
    ImportModel ImportService ImportOutcomes
begin

text \<open>
  A verification library for the uptime monitoring system of this repository, the Go services
  under \<open>src/backend/\<close>. It models the path of a check: a monitor is stored by the monitor
  service, scheduled by the scheduler service, executed by a check worker, its result
  changes the monitor's status, its incidents and its uptime, and the alert service creates and
  delivers alerts. Around it stand the services of accounts, billing, integrations and templates.

  \<^bold>\<open>How the parts interact.\<close> The scheduler service asks the monitor service, through a circuit
  breaker, for the active monitors, and stores one scheduled check for each that is due,
  assigned to an idle worker. Workers report by heartbeats; a worker whose heartbeat expires is
  marked offline and its checks are released. A worker executes checks over HTTP, unless a
  maintenance window applies, and submits the results, through a batcher and, while the monitor
  service is unreachable, a queue. A state machine holds the worker's view of its two
  connections, and a reconnect manager restores them. The monitor service also executes checks
  itself, with a scheduler of its own.

  \<^bold>\<open>Conventions\<close> (\<open>Prelude\<close>). Time is nanoseconds since the Unix epoch as \<open>int\<close>, and reading the
  clock is an argument. A table is the list of its rows in insertion order; one SQL statement
  is one definition. Calls that may fail take an oracle \<open>down\<close> that says which do. Errors are
  values of a sum or an option. Logging, tracing and metrics are left out everywhere. Clients
  of third-party packages, the network and \<open>uuid.Parse\<close> are arguments of the definitions that
  use them. Where rounding matters, \<open>float64\<close> is modelled by \<open>GoFloat\<close>; the delays of
  \<open>Reconnect\<close> are computed over the reals.

  \<^bold>\<open>Check worker\<close>, \<open>backend/check-worker/internal/\<close>:
  \<^item> \<open>ConnState\<close>, \<open>worker/state_machine.go\<close>: \<open>state_machine\<close> is the struct, \<open>sm_apply\<close> runs one event
    handler. The lemmas show when checks may run, that a shutdown is final, and, on the level
    of lock operations (\<open>rw_step\<close>), a deadlock of \<open>String\<close>.
  \<^item> \<open>Reconnect\<close>, \<open>worker/reconnect_manager.go\<close> and \<open>retry/retry.go\<close>: the two retry loops. An
    unlimited loop is a \<open>partial_function\<close>, so that not returning is \<open>None\<close>; termination,
    numbers of attempts and delays are shown for all inputs.
  \<^item> \<open>ResultQueue\<close>, \<open>queue/result_queue.go\<close>: the bounded queue, through the contract
    \<open>ordered_queue\<close> that results are never reordered or invented.
  \<^item> \<open>ResultBatcher\<close>, \<open>client/result_batcher.go\<close>: both halves of a flush are steps, interleaved with
    all others; no accepted check id is lost, and which results a resubmission replaces.
  \<^item> \<open>MaintenanceCache\<close>, \<open>executor/maintenance_checker.go\<close>: which checks a window suppresses.
  \<^item> \<open>CheckExecutor\<close>, \<open>executor/check_executor.go\<close> and \<open>check_classifiers.go\<close>: one check against an
    HTTP environment, and the classification of errors.
  \<^item> \<open>MonitorClient\<close>, \<open>client/monitor_client.go\<close>: submission and flushing of queued results, with the
    flush loop as a \<open>partial_function\<close>: it drains the queue, or, while every submission fails and no
    queued result expires, never returns.
  \<^item> \<open>CheckWorker\<close>, \<open>worker/worker.go\<close>: the worker that composes these parts.

  \<^bold>\<open>Scheduler service\<close>, \<open>backend/scheduler-service/internal/\<close>:
  \<^item> \<open>CircuitBreaker\<close>, \<open>circuitbreaker/circuitbreaker.go\<close> and \<open>monitor/circuit_breaker_adapter.go\<close>:
    the breaker as a step relation over admissions, results and the clock; the contract
    \<open>failfast_guard\<close> and an abstract count of consecutive failures.
  \<^item> \<open>SchedulerStore\<close>, \<open>model/model.go\<close> and \<open>repository/postgres/\<close>: the database and \<open>db_inv\<close>, its
    invariant: keys are unique and no monitor has two active checks.
  \<^item> \<open>SchedulerService\<close>, \<open>service/\<close> and the advisory lock: every operation keeps \<open>db_inv\<close>
    (\<open>sched_step\<close>, \<open>sched_run\<close>); what the background jobs achieve without failures, and what one
    failure or an interleaving of two calls breaks. The contract \<open>active_check_store\<close> holds
    both sides: guarded insertion keeps the bound, a race does not.

  \<^bold>\<open>Monitor service\<close>, \<open>backend/monitor-service/internal/\<close>:
  \<^item> \<open>GoFloat\<close>: correctly rounded \<open>float64\<close>; it is monotone, keeps integers below \<open>2 ^ 53\<close>, and keeps
    percentages between 0 and 100.
  \<^item> \<open>MonitorModel\<close>, \<open>model/\<close>: statuses, monitors and their validation, working hours, check
    results, incidents and uptime.
  \<^item> \<open>MonitorService\<close>, \<open>service/\<close> and \<open>repository/postgres/\<close>: creating, changing, pausing and deleting
    monitors, executing checks with retries (a \<open>function\<close> that ends by the number of retries
    left), the batch scheduler, which never checks a monitor with working hours, and incidents, for
    status changes each with failures of its own.
  \<^item> \<open>MaintenanceModel\<close> and \<open>MaintenanceService\<close>, \<open>model/maintenance_window.go\<close>, \<open>service/maintenance_service.go\<close>
    and its repository: maintenance windows, every statement on their tables, requests and the clock.
  \<^item> \<open>MaintenanceOutcomes\<close>: every operation is a sequence of moves (\<open>maint_move\<close>); the contract
    \<open>window_invariant\<close> of what a move keeps, and the abstract machine of statuses that histories refine.

  \<^bold>\<open>Alert service\<close>, \<open>backend/alert-service/internal/\<close>:
  \<^item> \<open>AlertStore\<close>, \<open>model/\<close> and \<open>repository/postgres/\<close>: alerts, rules, channels, delivery attempts,
    status changes, escalations and mutes, one definition per SQL statement.
  \<^item> \<open>AlertTriggering\<close>, \<open>service/throttling/\<close>, \<open>triggering/\<close>, \<open>flapping/\<close>, \<open>escalation/\<close> and \<open>mute/\<close>:
    when a check's result creates or resolves an alert, through the contract \<open>alert_gate\<close>, that a
    monitor without alerts never passes, of both ways to throttle.
  \<^item> \<open>AlertDelivery\<close>, \<open>service/delivery/\<close> and \<open>model/delivery.go\<close>: deliveries to channels, the
    classification of their errors, retries and the failure count that disables a channel.
  \<^item> \<open>AlertWindows\<close>, \<open>service/maintenance/\<close>, its repository and handler: maintenance windows and their calls.
  \<^item> \<open>AlertWindowOutcomes\<close>: the contract \<open>aw_invariant\<close> of the table's operations, with three interpretations; whom the
    calls obey; the deliveries that a window suppresses.
  \<^item> \<open>AlertChannels\<close> and \<open>AlertChannelOutcomes\<close>, \<open>service/channels/\<close> and the calls of \<open>handler/\<close> on channels: what an
    update of the list leaves, how a channel comes to be verified, priorities.

  \<^bold>\<open>Integration service\<close>, \<open>backend/integration-service/internal/\<close>:
  \<^item> \<open>GoNet\<close>: what \<open>net.ParseIP\<close>, \<open>net.ParseCIDR\<close> and \<open>IPNet.Contains\<close> do, on bytes.
  \<^item> \<open>PageToken\<close>: the tokens of paged lists, with base64; an offset survives the round trip.
  \<^item> \<open>ApiKeyModel\<close>, \<open>model/api_key.go\<close> and \<open>service/security/\<close>: keys, their format and whitelists.
  \<^item> \<open>RateLimiter\<close>, \<open>service/apikey/rate_limiter.go\<close>: how many requests a minute admits.
  \<^item> \<open>BillingLimits\<close>, \<open>client/billing_client.go\<close>: the limits of a subscription.
  \<^item> \<open>ApiKeyService\<close> and \<open>ApiKeyHistory\<close>, \<open>service/apikey/\<close> and \<open>repository/postgres/\<close>: issuing, changing, rotating and validating keys, and what any sequence
    of calls keeps, through the relation \<open>key_change\<close>.
  \<^item> \<open>WebhookModel\<close>, \<open>model/webhook_integration.go\<close> and \<open>service/security/hmac_service.go\<close>: webhooks,
    attempts and signatures; what a signature binds.
  \<^item> \<open>WebhookClient\<close>, \<open>infrastructure/httpclient/webhook_client.go\<close>: the request of a delivery, and which
    outcomes succeed or are worth a retry.
  \<^item> \<open>WebhookService\<close>, \<open>service/webhook/webhook_service.go\<close> and the table of webhooks.
  \<^item> \<open>WebhookDelivery\<close>, \<open>service/webhook/webhook_delivery_service.go\<close> and \<open>worker_pool.go\<close>: alerts become
    jobs that hold a copy of their webhook, and workers deliver them.
  \<^item> \<open>WebhookOrder\<close>: the bubble sort of the webhooks is a stable sort, and which jobs an alert makes.
  \<^item> \<open>WebhookOutcomes\<close>: what deliveries do to attempts and webhooks, statistics and limits.
  \<^item> \<open>ImportModel\<close> and \<open>ImportService\<close>, \<open>model/import_history.go\<close>, \<open>service/import/\<close> and
    \<open>client/monitor_client.go\<close>: the parsers of four formats and the import of the monitors that they read.
  \<^item> \<open>ImportOutcomes\<close>: what the counts of an import say, which files import nothing, imports that repeat.

  \<^bold>\<open>Authentication service\<close>, \<open>backend/auth-service/internal/\<close>:
  \<^item> \<open>AuthModel\<close>, \<open>model/\<close> and \<open>infrastructure/jwt/\<close>: users, sessions, refresh tokens, teams, claims.
  \<^item> \<open>AuthStore\<close> and \<open>TeamStore\<close>, \<open>repository/postgres/\<close> and \<open>infrastructure/redis/\<close>: the tables with
    their constraints, one definition per statement, and the keys of Redis with their expiry.
  \<^item> \<open>TeamService\<close> and \<open>InviteService\<close>, \<open>service/team_service.go\<close> and \<open>invite_service.go\<close>: roles,
    ownership, invites; \<open>auth_env\<close> holds what the services are built with.
  \<^item> \<open>AuthService\<close> and \<open>AuthAccounts\<close>, the other services: login, OAuth, registration, tokens, users,
    sessions.
  \<^item> \<open>AuthTrace\<close>: histories of all these operations with any failing statements (\<open>run_ops\<close>), and the
    contract \<open>db_invariant\<close>: what each statement keeps, every history keeps. \<open>AuthInvariants\<close>
    interprets it for the constraints of the tables, revoked tokens, lost owners and plans.
  \<^item> \<open>AuthSafety\<close>, \<open>AuthGuesses\<close> and \<open>AuthOutcomes\<close>: what follows for tokens, passwords, owners, invites,
    permissions and sessions.

  \<^bold>\<open>Billing service\<close>, \<open>backend/billing-service/internal/\<close>:
  \<^item> \<open>BillingModel\<close> and \<open>BillingStore\<close>, \<open>model/\<close> and \<open>repository/postgres/\<close>: plans, subscriptions, payments
    and their tables with the constraints of the migrations.
  \<^item> \<open>BillingService\<close>, \<open>service/\<close>: the services of plans, subscriptions and payments; the payment
    providers are records of functions, and their calls are logged in the state.
  \<^item> \<open>BillingTrace\<close>: histories of all operations (\<open>run_bills\<close>) and the contract \<open>billing_invariant\<close> of what
    they keep; \<open>BillingInvariants\<close> and \<open>BillingSafety\<close> interpret it for the tables, for one active or one
    stuck subscription, and for what was paid.
  \<^item> \<open>BillingOutcomes\<close>: what follows for users and payments, events that come twice or late, refunds.

  \<^bold>\<open>Notification template service\<close>, \<open>backend/notification-template-service/internal/\<close>:
  \<^item> \<open>GoText\<close>: what the code uses of Go's package \<open>strings\<close>, on bytes.
  \<^item> \<open>TemplateModel\<close> and \<open>TemplateStore\<close>, \<open>model/\<close> and \<open>repository/\<close>: templates, their variables and the
    table with its constraints. Go's package \<open>text/template\<close> is an argument.
  \<^item> \<open>TemplateService\<close>, \<open>service/\<close> and \<open>handler/\<close>: templates, rendering, validation, the gRPC calls.
  \<^item> \<open>TemplateVariables\<close>: which variables are found in a text, and what is reported of them.
  \<^item> \<open>TemplateOutcomes\<close>: histories of calls (\<open>run_templates\<close>) and the contract \<open>template_invariant\<close> of what
    they keep, for the constraints and the system templates; which requests create a template.

  \<^bold>\<open>Bounds.\<close> There is no fuel: the loops end by a measure, or are partial functions. Integers are
  unbounded except where the code's width shows: the conversions to \<open>int64\<close> and \<open>int32\<close> in
  \<open>Reconnect\<close> and \<open>CheckWorker\<close>, the lock ids, which are \<open>64 word\<close>, and where a theory says so (the
  versions of templates and windows, the intervals of imports, the time stamps of signatures). Durations
  and the downtime of incidents are unbounded, and the jitter of a retry of the alert service is computed
  over the reals.

  \<^bold>\<open>Not modelled\<close>: connection set-up, protobuf conversion, configuration, telemetry and the
  message broker; the monitor service's list queries; the alert
  service's calls on alerts, rules and mutes; the handlers of the authentication service; the handlers and the
  HTTP clients of the billing service; the reporting, dashboard and gateway services.
  Concurrency is modelled where the theories say so (lock operations, batcher steps,
  the two halves of \<open>ScheduleCheck\<close>); elsewhere operations run one after the other: in particular
  redeeming a refresh token, two statements without a transaction, is one step.
\<close>

end
